(* ===== verification/Prelude.thy ===== *)
theory Prelude
  imports Main "HOL-Library.Word" "HOL-Library.Code_Target_Nat"
begin

text \<open>
  Shared vocabulary of the development: the exceptions the modelled Python code can
  raise, the result of a call that may raise (\<open>outcome\<close>), sequencing of such calls, the
  loop combinators the components use, and the generic lemmas that the component proofs
  rest on.

  Only the reason code of a \<open>ConformanceError\<close> (\<open>src/src/harness_conformance/errors.py\<close>)
  is kept: every caller branches on the exception class or on \<open>reason\<close>, never on the
  human-readable message.  The other constructors are the built-in exceptions that the
  modelled expressions can raise (\<open>OutOfFuel\<close> is no Python exception: it marks a bounded
  recursion of the model that ran out, which is proved not to happen); \<open>is_value_error\<close> records the subclass relation that
  \<open>except ValueError\<close> clauses rely on.  The reader of \<open>canonical.py\<close> raises \<open>ValueError\<close> for its two decoding errors,
  which its callers do not tell apart; the scripts under \<open>ci\<close>, which do, raise \<open>UnicodeDecodeError\<close> and
  \<open>JSONDecodeError\<close>, their own \<open>PacketTransportError\<close>, \<open>RuntimeError\<close>, or \<open>SystemExit\<close> with its status.
\<close>

named_theorems outcome_simps "inversion of sequenced calls"
named_theorems ordinary_intros "calls that raise refusals and malformed-input exceptions only"

datatype exn =
    ConformanceError string
  | TypeError
  | ValueError
  | UnicodeEncodeError
  | KeyError
  | AttributeError
  | IndexError
  | StopIteration
  | OverflowError
  | OSError
  | OutOfFuel
  | UnicodeDecodeError
  | JSONDecodeError
  | PacketTransportError
  | SystemExit int
  | RuntimeError
  | CalledProcessError

fun is_value_error :: "exn \<Rightarrow> bool" where
  "is_value_error (ConformanceError _) = True"
| "is_value_error ValueError = True"
| "is_value_error UnicodeEncodeError = True"
| "is_value_error UnicodeDecodeError = True"
| "is_value_error JSONDecodeError = True"
| "is_value_error PacketTransportError = True"
| "is_value_error _ = False"

datatype 'a outcome = Raise exn | Ret 'a

definition bind :: "'a outcome \<Rightarrow> ('a \<Rightarrow> 'b outcome) \<Rightarrow> 'b outcome" where
  "bind m f = (case m of Raise e \<Rightarrow> Raise e | Ret a \<Rightarrow> f a)"

definition require :: "bool \<Rightarrow> string \<Rightarrow> unit outcome" where
  "require c reason = (if c then Ret () else Raise (ConformanceError reason))"

definition refuse :: "string \<Rightarrow> 'a outcome" where
  "refuse reason = Raise (ConformanceError reason)"

text \<open>Short-circuit \<open>and\<close>, \<open>or\<close> and \<open>not\<close> over conditions whose operands may raise.\<close>

definition and_also :: "bool outcome \<Rightarrow> bool outcome \<Rightarrow> bool outcome" where
  "and_also a b = bind a (\<lambda>x. if x then b else Ret False)"

definition or_else :: "bool outcome \<Rightarrow> bool outcome \<Rightarrow> bool outcome" where
  "or_else a b = bind a (\<lambda>x. if x then Ret True else b)"

definition py_not :: "bool outcome \<Rightarrow> bool outcome" where
  "py_not a = bind a (\<lambda>x. Ret (\<not> x))"

definition requires :: "bool outcome \<Rightarrow> string \<Rightarrow> unit outcome" where
  "requires c reason = bind c (\<lambda>x. require x reason)"

text \<open>\<open>for x in xs: f(x)\<close>, a list comprehension, and a loop with an accumulator.\<close>

fun for_each :: "('a \<Rightarrow> unit outcome) \<Rightarrow> 'a list \<Rightarrow> unit outcome" where
  "for_each f [] = Ret ()"
| "for_each f (x # xs) = bind (f x) (\<lambda>_. for_each f xs)"

fun map_out :: "('a \<Rightarrow> 'b outcome) \<Rightarrow> 'a list \<Rightarrow> 'b list outcome" where
  "map_out f [] = Ret []"
| "map_out f (x # xs) = bind (f x) (\<lambda>y. bind (map_out f xs) (\<lambda>ys. Ret (y # ys)))"

fun fold_out :: "('b \<Rightarrow> 'a \<Rightarrow> 'b outcome) \<Rightarrow> 'b \<Rightarrow> 'a list \<Rightarrow> 'b outcome" where
  "fold_out f s [] = Ret s"
| "fold_out f s (x # xs) = bind (f s x) (\<lambda>s'. fold_out f s' xs)"

fun all_out :: "('a \<Rightarrow> bool outcome) \<Rightarrow> 'a list \<Rightarrow> bool outcome" where
  "all_out p [] = Ret True"
| "all_out p (x # xs) = and_also (p x) (all_out p xs)"

fun any_out :: "('a \<Rightarrow> bool outcome) \<Rightarrow> 'a list \<Rightarrow> bool outcome" where
  "any_out p [] = Ret False"
| "any_out p (x # xs) = or_else (p x) (any_out p xs)"

text \<open>\<open>try: m except ConformanceError: raise; except (TypeError, ValueError, \<dots>): raise
  ConformanceError(reason)\<close> for the exception classes a handler names.\<close>

definition catching :: "(exn \<Rightarrow> bool) \<Rightarrow> string \<Rightarrow> 'a outcome \<Rightarrow> 'a outcome" where
  "catching handled reason m =
     (case m of
        Ret a \<Rightarrow> Ret a
      | Raise e \<Rightarrow> (case e of ConformanceError r \<Rightarrow> Raise e
                   | _ \<Rightarrow> if handled e then refuse reason else Raise e))"

subsection \<open>Sequencing laws\<close>

lemma bind_Ret [simp]: "bind (Ret a) f = f a"
  by (simp add: bind_def)

lemma bind_Raise [simp]: "bind (Raise e) f = Raise e"
  by (simp add: bind_def)

lemma bind_assoc: "bind (bind m f) g = bind m (\<lambda>x. bind (f x) g)"
  by (cases m) simp_all

lemma bind_eq_Ret [outcome_simps]:
  "bind m f = Ret b \<longleftrightarrow> (\<exists>a. m = Ret a \<and> f a = Ret b)"
  by (cases m) simp_all

lemma bind_RetE:
  assumes "bind m f = Ret b"
  obtains a where "m = Ret a" "f a = Ret b"
  using assms by (auto simp: bind_eq_Ret)

text \<open>The result of a sequence whose checks are discharged from left to right.\<close>

lemma require_bindE:
  assumes "bind (require c r) f = Ret b"
  obtains "c" "f () = Ret b"
  using assms by (cases c) (simp_all add: require_def)

lemma bind_eq_Raise [outcome_simps]:
  "bind m f = Raise e \<longleftrightarrow> m = Raise e \<or> (\<exists>a. m = Ret a \<and> f a = Raise e)"
  by (cases m) simp_all

lemma bind_cong [fundef_cong]:
  "m = m' \<Longrightarrow> (\<And>a. m' = Ret a \<Longrightarrow> f a = f' a) \<Longrightarrow> bind m f = bind m' f'"
  by (cases m') simp_all

text \<open>For evaluation the sequencing operators are unfolded to case distinctions, whose branches wait
  for the value they depend on.\<close>

declare bind_def [code_unfold] and_also_def [code_unfold] or_else_def [code_unfold]
  py_not_def [code_unfold] requires_def [code_unfold]

lemma require_eq_Ret [outcome_simps, simp]: "require c r = Ret u \<longleftrightarrow> c"
  by (simp add: require_def)

lemma require_True [simp]: "require True r = Ret ()"
  by (simp add: require_def)

lemma require_False [simp]: "require False r = Raise (ConformanceError r)"
  by (simp add: require_def)

lemma require_eq_Raise [outcome_simps]:
  "require c r = Raise e \<longleftrightarrow> \<not> c \<and> e = ConformanceError r"
  by (auto simp: require_def)

lemma refuse_not_Ret [simp]: "refuse r \<noteq> Ret a"
  by (simp add: refuse_def)

lemma requires_Ret [simp]: "requires (Ret c) r = require c r"
  by (simp add: requires_def)

lemma requires_eq_Ret [outcome_simps]: "requires c r = Ret u \<longleftrightarrow> c = Ret True"
  by (cases c) (simp_all add: requires_def)

lemma requires_bindE:
  assumes "bind (requires c r) f = Ret b"
  obtains "c = Ret True" "f () = Ret b"
  using assms by (cases c) (auto simp: requires_def require_def split: if_splits)

lemma and_also_Ret [simp]: "and_also (Ret a) b = (if a then b else Ret False)"
  by (simp add: and_also_def)

lemma or_else_Ret [simp]: "or_else (Ret a) b = (if a then Ret True else b)"
  by (simp add: or_else_def)

lemma py_not_Ret [simp]: "py_not (Ret a) = Ret (\<not> a)"
  by (simp add: py_not_def)

lemma and_also_True [outcome_simps]:
  "and_also a b = Ret True \<longleftrightarrow> a = Ret True \<and> b = Ret True"
  by (cases a) (auto simp: and_also_def)

lemma or_else_False [outcome_simps]:
  "or_else a b = Ret False \<longleftrightarrow> a = Ret False \<and> b = Ret False"
  by (cases a) (auto simp: or_else_def)

lemma and_also_False [outcome_simps]:
  "and_also a b = Ret False \<longleftrightarrow> a = Ret False \<or> a = Ret True \<and> b = Ret False"
  by (cases a) (auto simp: and_also_def)

lemma or_else_True [outcome_simps]:
  "or_else a b = Ret True \<longleftrightarrow> a = Ret True \<or> a = Ret False \<and> b = Ret True"
  by (cases a) (auto simp: or_else_def)

lemma py_not_eq_Ret [outcome_simps]: "py_not a = Ret c \<longleftrightarrow> a = Ret (\<not> c)"
  by (cases a) (auto simp: py_not_def)

lemma for_each_cong [fundef_cong]:
  "xs = ys \<Longrightarrow> (\<And>x. x \<in> set ys \<Longrightarrow> f x = g x) \<Longrightarrow> for_each f xs = for_each g ys"
  by (induction ys arbitrary: xs) auto

lemma map_out_cong [fundef_cong]:
  "xs = ys \<Longrightarrow> (\<And>x. x \<in> set ys \<Longrightarrow> f x = g x) \<Longrightarrow> map_out f xs = map_out g ys"
  by (induction ys arbitrary: xs) auto

lemma all_out_cong [fundef_cong]:
  "xs = ys \<Longrightarrow> (\<And>x. x \<in> set ys \<Longrightarrow> f x = g x) \<Longrightarrow> all_out f xs = all_out g ys"
  by (induction ys arbitrary: xs) auto

lemma fold_out_cong [fundef_cong]:
  "s = t \<Longrightarrow> xs = ys \<Longrightarrow> (\<And>s x. x \<in> set ys \<Longrightarrow> f s x = g s x) \<Longrightarrow> fold_out f s xs = fold_out g t ys"
proof (induction ys arbitrary: xs s t)
  case (Cons y ys)
  then show ?case by (cases xs) (auto intro!: bind_cong)
qed simp

lemma for_each_eq_Ret [outcome_simps]:
  "for_each f xs = Ret u \<longleftrightarrow> (\<forall>x \<in> set xs. f x = Ret ())"
  by (induction xs) (auto simp: outcome_simps)

lemma for_each_append:
  "for_each f (xs @ ys) = bind (for_each f xs) (\<lambda>_. for_each f ys)"
  by (induction xs) (simp_all add: bind_assoc)

lemma all_out_True [outcome_simps]:
  "all_out p xs = Ret True \<longleftrightarrow> (\<forall>x \<in> set xs. p x = Ret True)"
  by (induction xs) (auto simp: outcome_simps)

lemma any_out_False [outcome_simps]:
  "any_out p xs = Ret False \<longleftrightarrow> (\<forall>x \<in> set xs. p x = Ret False)"
  by (induction xs) (auto simp: outcome_simps)

lemma all_out_Ret [simp]: "all_out (\<lambda>x. Ret (p x)) xs = Ret (list_all p xs)"
  by (induction xs) simp_all

lemma any_out_Ret [simp]: "any_out (\<lambda>x. Ret (p x)) xs = Ret (list_ex p xs)"
  by (induction xs) simp_all

lemma map_out_Ret [simp]: "map_out (\<lambda>x. Ret (f x)) xs = Ret (map f xs)"
  by (induction xs) simp_all

lemma map_out_eq_Ret [outcome_simps]:
  "map_out f xs = Ret ys \<longleftrightarrow> list_all2 (\<lambda>x y. f x = Ret y) xs ys"
proof (induction xs arbitrary: ys)
  case Nil
  then show ?case by (cases ys) simp_all
next
  case (Cons x xs)
  then show ?case by (cases ys) (auto simp: outcome_simps)
qed

lemma list_all2_member2: "list_all2 P xs ys \<Longrightarrow> y \<in> set ys \<Longrightarrow> \<exists>x \<in> set xs. P x y"
  by (induction rule: list_all2_induct) auto

lemma fold_out_append:
  "fold_out f s (xs @ ys) = bind (fold_out f s xs) (\<lambda>s'. fold_out f s' ys)"
  by (induction xs arbitrary: s) (simp_all add: bind_assoc)

lemma fold_out_invariant:
  assumes "fold_out f s xs = Ret t" and "P s"
    and "\<And>s x s'. P s \<Longrightarrow> x \<in> set xs \<Longrightarrow> f s x = Ret s' \<Longrightarrow> P s'"
  shows "P t"
  using assms(1,2,3)
proof (induction xs arbitrary: s)
  case Nil
  then show ?case by simp
next
  case (Cons x xs)
  from Cons.prems(1) obtain s' where s': "f s x = Ret s'" and rest: "fold_out f s' xs = Ret t"
    by (auto simp: bind_eq_Ret)
  have "P s'"
    using Cons.prems(3) [OF Cons.prems(2) _ s'] by simp
  with rest show ?case
    by (rule Cons.IH) (meson Cons.prems(3) list.set_intros(2))
qed

lemma catching_eq_Ret [outcome_simps]: "catching h r m = Ret a \<longleftrightarrow> m = Ret a"
  by (auto simp: catching_def split: outcome.splits exn.splits)

lemma catching_Ret [simp]: "catching h r (Ret a) = Ret a"
  by (simp add: catching_def)

lemma catching_conformance [simp]:
  "catching h r (Raise (ConformanceError c)) = Raise (ConformanceError c)"
  by (simp add: catching_def)

lemma catching_raises:
  assumes "catching h r m = Raise e"
  shows "(\<exists>c. e = ConformanceError c) \<or> (m = Raise e \<and> \<not> h e)"
  using assms by (auto simp: catching_def refuse_def split: outcome.splits exn.splits if_splits)

subsection \<open>Ordinary failures\<close>

text \<open>The exceptions that reading a malformed document can raise, all of which the boundaries of
  the program convert to a refusal; a call is \<open>ordinary\<close> when it raises nothing else.\<close>

fun malformed :: "exn \<Rightarrow> bool" where
  "malformed TypeError = True"
| "malformed ValueError = True"
| "malformed UnicodeEncodeError = True"
| "malformed KeyError = True"
| "malformed AttributeError = True"
| "malformed OverflowError = True"
| "malformed _ = False"

definition ordinary :: "'a outcome \<Rightarrow> bool" where
  "ordinary m = (case m of Ret _ \<Rightarrow> True | Raise (ConformanceError _) \<Rightarrow> True | Raise e \<Rightarrow> malformed e)"

lemma ordinary_Ret [simp, ordinary_intros]: "ordinary (Ret a)"
  by (simp add: ordinary_def)

lemma ordinary_refuse [simp, ordinary_intros]: "ordinary (refuse r)"
  by (simp add: ordinary_def refuse_def)

lemma ordinary_Raise [simp]:
  "ordinary (Raise e :: 'a outcome) \<longleftrightarrow> malformed e \<or> (\<exists>r. e = ConformanceError r)"
  by (cases e) (simp_all add: ordinary_def)

lemma ordinaryI: "(\<And>e. m = Raise e \<Longrightarrow> malformed e \<or> (\<exists>r. e = ConformanceError r)) \<Longrightarrow> ordinary m"
  by (cases m) simp_all

lemma ordinary_require [simp, ordinary_intros]: "ordinary (require c r)"
  by (simp add: require_def)

lemma ordinary_bind [ordinary_intros]:
  "ordinary m \<Longrightarrow> (\<And>a. m = Ret a \<Longrightarrow> ordinary (f a)) \<Longrightarrow> ordinary (bind m f)"
  by (cases m) simp_all

lemma ordinary_requires [ordinary_intros]: "ordinary c \<Longrightarrow> ordinary (requires c r)"
  unfolding requires_def by (intro ordinary_intros)

lemma ordinary_and_also [ordinary_intros]: "ordinary a \<Longrightarrow> ordinary b \<Longrightarrow> ordinary (and_also a b)"
  by (cases a) (simp_all add: and_also_def)

lemma ordinary_or_else [ordinary_intros]: "ordinary a \<Longrightarrow> ordinary b \<Longrightarrow> ordinary (or_else a b)"
  by (cases a) (simp_all add: or_else_def)

lemma ordinary_py_not [ordinary_intros]: "ordinary a \<Longrightarrow> ordinary (py_not a)"
  by (cases a) (simp_all add: py_not_def)

lemma ordinary_if [ordinary_intros]: "ordinary a \<Longrightarrow> ordinary b \<Longrightarrow> ordinary (if c then a else b)"
  by simp

lemma ordinary_prod [ordinary_intros]: "(\<And>a b. ordinary (f a b)) \<Longrightarrow> ordinary (case p of (a, b) \<Rightarrow> f a b)"
  by (cases p) simp

lemma ordinary_for_each [ordinary_intros]: "(\<And>x. x \<in> set xs \<Longrightarrow> ordinary (f x)) \<Longrightarrow> ordinary (for_each f xs)"
  by (induction xs) (auto intro: ordinary_intros)

lemma ordinary_map_out [ordinary_intros]: "(\<And>x. x \<in> set xs \<Longrightarrow> ordinary (f x)) \<Longrightarrow> ordinary (map_out f xs)"
  by (induction xs) (auto intro!: ordinary_intros)

lemma ordinary_any_out [ordinary_intros]: "(\<And>x. x \<in> set xs \<Longrightarrow> ordinary (f x)) \<Longrightarrow> ordinary (any_out f xs)"
  by (induction xs) (auto intro!: ordinary_intros)

lemma ordinary_all_out [ordinary_intros]: "(\<And>x. x \<in> set xs \<Longrightarrow> ordinary (f x)) \<Longrightarrow> ordinary (all_out f xs)"
  by (induction xs) (auto intro!: ordinary_intros)

lemma ordinary_fold_out [ordinary_intros]: "(\<And>s x. x \<in> set xs \<Longrightarrow> ordinary (f s x)) \<Longrightarrow> ordinary (fold_out f s xs)"
  by (induction xs arbitrary: s) (auto intro!: ordinary_intros)

lemma ordinary_catching [ordinary_intros]: "ordinary m \<Longrightarrow> ordinary (catching h r m)"
  by (cases m) (auto simp: catching_def split: exn.splits)

text \<open>A boundary that handles every malformed-input exception leaves refusals only.\<close>

lemma catching_malformed:
  assumes "ordinary m" "catching malformed r m = Raise e"
  shows "\<exists>c. e = ConformanceError c"
  using catching_raises [OF assms(2)] assms(1) by auto

end
