(* ===== verification/PyText.thy ===== *)
theory PyText
  imports Prelude "HOL-Library.Char_ord" "HOL-Library.List_Lexorder"
begin

text \<open>
  Python text and byte strings.  Both are lists of 8-bit characters: a \<open>bytes\<close> object is
  its bytes, a \<open>str\<close> is its code points in (generalised) UTF-8, where a lone surrogate, which
  a JSON escape such as \<^verbatim>\<open>"\ud800"\<close> can produce, keeps its three-byte form.  This
  representation makes \<open>str.encode("utf-8")\<close> a validity check, makes code point order the
  byte order (\<open>sorted\<close> on strings, the lexicographic \<open>linorder\<close> of lists of characters), and makes every comparison of the program with an
  ASCII pattern exact.  \<open>py_len\<close> counts code points.

  \<open>lower\<close> agrees with \<open>str.lower\<close> on ASCII and on the only two other code points whose
  lower case contains an ASCII character (U+212A KELVIN SIGN and U+0130); it leaves
  every other code point alone, which no test of the program against an ASCII word can
  distinguish from Python's result.

  \<open>rx\<close> is the fragment of \<open>re\<close> the program uses, matched by derivatives and proved
  equivalent to its language.
\<close>

type_synonym bytes = "char list"

abbreviation code :: "char \<Rightarrow> nat" where
  "code c \<equiv> of_char c"

definition in_range :: "nat \<Rightarrow> nat \<Rightarrow> char \<Rightarrow> bool" where
  "in_range lo hi c \<longleftrightarrow> lo \<le> code c \<and> code c \<le> hi"

definition is_cont :: "char \<Rightarrow> bool" where
  "is_cont c \<longleftrightarrow> in_range 128 191 c"

definition py_len :: "string \<Rightarrow> nat" where
  "py_len s = length (filter (\<lambda>c. \<not> is_cont c) s)"

lemma is_cont_code [code]: "is_cont (Char b0 b1 b2 b3 b4 b5 b6 b7) \<longleftrightarrow> b7 \<and> \<not> b6"
  by (cases b0; cases b1; cases b2; cases b3; cases b4; cases b5; cases b6; cases b7)
     (simp_all add: is_cont_def in_range_def)

text \<open>The code points of a string, each in its encoded form.\<close>

function chars :: "string \<Rightarrow> string list" where
  "chars [] = []"
| "chars (c # s) = (c # takeWhile is_cont s) # chars (dropWhile is_cont s)"
  by pat_completeness auto

termination
  by (relation "measure length") (auto simp: le_imp_less_Suc length_dropWhile_le)

text \<open>Well-formed UTF-8, what \<open>bytes.decode("utf-8")\<close> accepts: after some lead bytes the
  second byte is limited, which excludes overlong forms, surrogates and values past U+10FFFF.\<close>

definition second_ok :: "char \<Rightarrow> char \<Rightarrow> bool" where
  "second_ok a b \<longleftrightarrow>
     in_range (if code a = 224 then 160 else if code a = 240 then 144 else 128)
       (if code a = 237 then 159 else if code a = 244 then 143 else 191) b"

fun utf8_valid :: "string \<Rightarrow> bool" where
  "utf8_valid [] = True"
| "utf8_valid (a # s) =
     (if code a < 128 then utf8_valid s
      else if in_range 194 223 a then
        (case s of b # t \<Rightarrow> is_cont b \<and> utf8_valid t | _ \<Rightarrow> False)
      else if in_range 224 239 a then
        (case s of
           b # c # t \<Rightarrow> second_ok a b \<and> is_cont c \<and> utf8_valid t
         | _ \<Rightarrow> False)
      else if in_range 240 244 a then
        (case s of
           b # c # d # t \<Rightarrow> second_ok a b \<and> is_cont c \<and> is_cont d \<and> utf8_valid t
         | _ \<Rightarrow> False)
      else False)"

definition utf8_encode :: "string \<Rightarrow> bytes outcome" where
  "utf8_encode s = (if utf8_valid s then Ret s else Raise UnicodeEncodeError)"

definition is_ascii :: "string \<Rightarrow> bool" where
  "is_ascii s = list_all (\<lambda>c. code c < 128) s"

subsection \<open>Searching and splitting\<close>

fun starts_with :: "string \<Rightarrow> string \<Rightarrow> bool" where
  "starts_with [] s = True"
| "starts_with (a # p) [] = False"
| "starts_with (a # p) (b # s) = (a = b \<and> starts_with p s)"

definition ends_with :: "string \<Rightarrow> string \<Rightarrow> bool" where
  "ends_with p s \<longleftrightarrow> length p \<le> length s \<and> drop (length s - length p) s = p"

fun contains :: "string \<Rightarrow> string \<Rightarrow> bool" where
  "contains p [] = (p = [])"
| "contains p (c # s) = (starts_with p (c # s) \<or> contains p s)"

fun split_on :: "char \<Rightarrow> string \<Rightarrow> string list" where
  "split_on sep [] = [[]]"
| "split_on sep (c # s) =
     (if c = sep then [] # split_on sep s
      else (case split_on sep s of [] \<Rightarrow> [[c]] | p # ps \<Rightarrow> (c # p) # ps))"

definition replace_char :: "char \<Rightarrow> char \<Rightarrow> string \<Rightarrow> string" where
  "replace_char a b s = map (\<lambda>c. if c = a then b else c) s"

definition hex_digit :: "nat \<Rightarrow> char" where
  "hex_digit n = (if n < 10 then char_of (48 + n) else char_of (87 + n))"

definition lower_char :: "char \<Rightarrow> char" where
  "lower_char c = (if in_range 65 90 c then char_of (code c + 32) else c)"

lemma lower_char_code [code]:
  "lower_char (Char b0 b1 b2 b3 b4 b5 b6 b7) =
     (if b6 \<and> \<not> b5 \<and> \<not> b7 \<and> (b0 \<or> b1 \<or> b2 \<or> b3 \<or> b4) \<and>
         \<not> (b4 \<and> b3 \<and> (b2 \<or> b0 \<and> b1))
      then Char b0 b1 b2 b3 b4 True b6 b7 else Char b0 b1 b2 b3 b4 b5 b6 b7)"
  by (cases b0; cases b1; cases b2; cases b3; cases b4; cases b5; cases b6; cases b7)
     (simp_all add: lower_char_def in_range_def char_of_def bit_0)

definition lower_point :: "string \<Rightarrow> string" where
  "lower_point p =
     (if p = [CHR 0xE2, CHR 0x84, CHR 0xAA] then ''k''
      else if p = [CHR 0xC4, CHR 0xB0] then [CHR ''i'', CHR 0xCC, CHR 0x87]
      else map lower_char p)"

definition lower :: "string \<Rightarrow> string" where
  "lower s = concat (map lower_point (chars s))"

text \<open>\<open>case.lower().replace("_", "-")\<close>, the path and identifier form of a constant.\<close>

definition dashed :: "string \<Rightarrow> string" where
  "dashed s = replace_char CHR ''_'' CHR ''-'' (lower s)"

lemma starts_with_iff: "starts_with p s \<longleftrightarrow> (\<exists>t. s = p @ t)"
  by (induction p s rule: starts_with.induct) auto

subsection \<open>Regular expressions\<close>

datatype rx = Zero | One | Cls "char \<Rightarrow> bool" | Seq rx rx | Alt rx rx | Star rx

inductive in_lang :: "rx \<Rightarrow> string \<Rightarrow> bool" where
  in_One: "in_lang One []"
| in_Cls: "p c \<Longrightarrow> in_lang (Cls p) [c]"
| in_Seq: "in_lang r s \<Longrightarrow> in_lang q t \<Longrightarrow> in_lang (Seq r q) (s @ t)"
| in_AltL: "in_lang r s \<Longrightarrow> in_lang (Alt r q) s"
| in_AltR: "in_lang q s \<Longrightarrow> in_lang (Alt r q) s"
| in_Star0: "in_lang (Star r) []"
| in_StarS: "in_lang r s \<Longrightarrow> in_lang (Star r) t \<Longrightarrow> in_lang (Star r) (s @ t)"

inductive_simps in_lang_Zero [simp]: "in_lang Zero s"
inductive_simps in_lang_One [simp]: "in_lang One s"
inductive_simps in_lang_Cls [simp]: "in_lang (Cls p) s"
inductive_simps in_lang_Alt [simp]: "in_lang (Alt r q) s"
inductive_simps in_lang_Seq: "in_lang (Seq r q) s"

lemma in_lang_Seq_Cls [simp]:
  "in_lang (Seq (Cls p) q) s \<longleftrightarrow> (case s of [] \<Rightarrow> False | c # t \<Rightarrow> p c \<and> in_lang q t)"
  by (auto simp: in_lang_Seq split: list.splits) (metis append_Cons append_Nil)

fun nullable :: "rx \<Rightarrow> bool" where
  "nullable Zero = False"
| "nullable One = True"
| "nullable (Cls _) = False"
| "nullable (Seq r q) = (nullable r \<and> nullable q)"
| "nullable (Alt r q) = (nullable r \<or> nullable q)"
| "nullable (Star _) = True"

fun mk_seq :: "rx \<Rightarrow> rx \<Rightarrow> rx" where
  "mk_seq Zero q = Zero"
| "mk_seq One q = q"
| "mk_seq r q = Seq r q"

fun mk_alt :: "rx \<Rightarrow> rx \<Rightarrow> rx" where
  "mk_alt Zero q = q"
| "mk_alt r Zero = r"
| "mk_alt r q = Alt r q"

fun deriv :: "char \<Rightarrow> rx \<Rightarrow> rx" where
  "deriv c Zero = Zero"
| "deriv c One = Zero"
| "deriv c (Cls p) = (if p c then One else Zero)"
| "deriv c (Seq r q) =
     (if nullable r then mk_alt (mk_seq (deriv c r) q) (deriv c q) else mk_seq (deriv c r) q)"
| "deriv c (Alt r q) = mk_alt (deriv c r) (deriv c q)"
| "deriv c (Star r) = mk_seq (deriv c r) (Star r)"

definition fullmatch :: "rx \<Rightarrow> string \<Rightarrow> bool" where
  "fullmatch r s = nullable (fold deriv s r)"

definition char_range :: "char \<Rightarrow> char \<Rightarrow> char \<Rightarrow> bool" where
  "char_range a b c \<longleftrightarrow> in_range (code a) (code b) c"

definition digit :: "char \<Rightarrow> bool" where
  "digit = char_range CHR ''0'' CHR ''9''"

definition lowercase :: "char \<Rightarrow> bool" where
  "lowercase = char_range CHR ''a'' CHR ''z''"

definition uppercase :: "char \<Rightarrow> bool" where
  "uppercase = char_range CHR ''A'' CHR ''Z''"

definition lower_hex :: "char \<Rightarrow> bool" where
  "lower_hex c \<longleftrightarrow> digit c \<or> char_range CHR ''a'' CHR ''f'' c"

definition alnum :: "char \<Rightarrow> bool" where
  "alnum c \<longleftrightarrow> uppercase c \<or> lowercase c \<or> digit c"

primrec lit :: "string \<Rightarrow> rx" where
  "lit [] = One"
| "lit (c # s) = Seq (Cls (\<lambda>x. x = c)) (lit s)"

primrec rep :: "nat \<Rightarrow> rx \<Rightarrow> rx" where
  "rep 0 r = One"
| "rep (Suc n) r = Seq r (rep n r)"

primrec up_to :: "nat \<Rightarrow> rx \<Rightarrow> rx" where
  "up_to 0 r = One"
| "up_to (Suc n) r = Alt One (Seq r (up_to n r))"

definition plus1 :: "rx \<Rightarrow> rx" where
  "plus1 r = Seq r (Star r)"

subsection \<open>Matching decides the language\<close>

lemma nullable_iff: "nullable r \<longleftrightarrow> in_lang r []"
  by (induction r) (auto simp: in_lang_Seq intro: in_lang.intros)

lemma in_lang_mk_seq [simp]: "in_lang (mk_seq r q) s \<longleftrightarrow> in_lang (Seq r q) s"
  by (cases r) (auto simp: in_lang_Seq)

lemma in_lang_mk_alt [simp]: "in_lang (mk_alt r q) s \<longleftrightarrow> in_lang (Alt r q) s"
  by (cases "(r, q)" rule: mk_alt.cases) auto

lemma in_lang_Star_Cons:
  "in_lang (Star r) (c # s) \<longleftrightarrow> (\<exists>t u. s = t @ u \<and> in_lang r (c # t) \<and> in_lang (Star r) u)"
proof
  have "in_lang q w \<Longrightarrow> q = Star r \<Longrightarrow> w = c # s \<Longrightarrow>
      \<exists>t u. s = t @ u \<and> in_lang r (c # t) \<and> in_lang (Star r) u" for q w
  proof (induction arbitrary: s rule: in_lang.induct)
    case (in_StarS r' x y)
    then show ?case by (cases x) auto
  qed simp_all
  then show "in_lang (Star r) (c # s) \<Longrightarrow>
      \<exists>t u. s = t @ u \<and> in_lang r (c # t) \<and> in_lang (Star r) u"
    by blast
next
  show "\<exists>t u. s = t @ u \<and> in_lang r (c # t) \<and> in_lang (Star r) u \<Longrightarrow> in_lang (Star r) (c # s)"
    by (metis append_Cons in_StarS)
qed

lemma in_lang_deriv: "in_lang (deriv c r) s \<longleftrightarrow> in_lang r (c # s)"
proof (induction r arbitrary: s)
  case (Seq r q)
  show ?case
    by (auto simp: in_lang_Seq Seq.IH nullable_iff Cons_eq_append_conv)
next
  case (Star r)
  then show ?case by (auto simp: in_lang_Seq in_lang_Star_Cons)
qed auto

theorem fullmatch_iff: "fullmatch r s \<longleftrightarrow> in_lang r s"
proof -
  have "in_lang (fold deriv s r) [] \<longleftrightarrow> in_lang r s" for r
    by (induction s arbitrary: r) (simp_all add: in_lang_deriv)
  then show ?thesis by (simp add: fullmatch_def nullable_iff)
qed

lemma in_lang_lit [simp]: "in_lang (lit p) s \<longleftrightarrow> s = p"
  by (induction p arbitrary: s) (auto split: list.splits)

lemma in_lang_rep_Cls [simp]:
  "in_lang (rep n (Cls p)) s \<longleftrightarrow> length s = n \<and> list_all p s"
  by (induction n arbitrary: s) (auto split: list.splits)

lemma in_lang_up_to_Cls [simp]:
  "in_lang (up_to n (Cls p)) s \<longleftrightarrow> length s \<le> n \<and> list_all p s"
proof (induction n arbitrary: s)
  case 0
  then show ?case by auto
next
  case (Suc n)
  then show ?case by (cases s) auto
qed

lemma in_lang_Star_Cls [simp]: "in_lang (Star (Cls p)) s \<longleftrightarrow> list_all p s"
proof (induction s)
  case Nil
  then show ?case by (simp add: in_Star0)
next
  case (Cons c s)
  then show ?case by (auto simp: in_lang_Star_Cons)
qed

lemma in_lang_plus1_Cls [simp]:
  "in_lang (plus1 (Cls p)) s \<longleftrightarrow> s \<noteq> [] \<and> list_all p s"
  by (cases s) (auto simp: plus1_def)

subsection \<open>Encoding laws\<close>

lemma utf8_valid_append: "utf8_valid s \<Longrightarrow> utf8_valid t \<Longrightarrow> utf8_valid (s @ t)"
proof (induction s rule: utf8_valid.induct)
  case (2 a s)
  then show ?case
    by (cases "code a < 128"; cases "in_range 194 223 a"; cases "in_range 224 239 a";
        cases "in_range 240 244 a") (simp_all split: list.splits)
qed simp

lemma utf8_valid_ascii: "is_ascii s \<Longrightarrow> utf8_valid s"
  by (induction s) (simp_all add: is_ascii_def)

end
