(* ===== verification/PyValue.thy ===== *)
theory PyValue
  imports PyText
begin

text \<open>
  The Python values the program handles: \<open>None\<close>, \<open>bool\<close>, \<open>int\<close> (unbounded), \<open>str\<close>,
  \<open>bytes\<close>, \<open>list\<close> and \<open>dict\<close>.  A dictionary is the list of its items in insertion order;
  every dictionary of the program has string keys (they come from JSON objects or from
  literals), and \<open>wf_val\<close> says that no key occurs twice at any level.  Floats do not occur:
  the JSON reader refuses them before a value exists.

  \<open>py_eq\<close> is Python's \<open>==\<close>: \<open>True == 1\<close>, \<open>False == 0\<close>, and dictionaries compare without
  regard to the order of their items.  \<open>item\<close> is \<open>value[key]\<close> with the exceptions it raises.
\<close>

datatype pyval =
    PNone
  | PBool bool
  | PInt int
  | PStr string
  | PBytes bytes
  | PList "pyval list"
  | PDict "(string \<times> pyval) list"

type_synonym items = "(string \<times> pyval) list"

lemma size_list_item [termination_simp]:
  "(k, v) \<in> set kvs \<Longrightarrow> size v < Suc (size_list (\<lambda>x. Suc (size (snd x))) kvs)"
  by (induction kvs) auto

lemma size_list_elem [termination_simp]:
  "v \<in> set vs \<Longrightarrow> size v < Suc (size_list size vs)"
  by (induction vs) auto

lemma size_list_zip [termination_simp]:
  "(a, b) \<in> set (zip xs ys) \<Longrightarrow> size a < Suc (size_list size xs)"
  by (meson set_zip_leftD size_list_elem)

fun py_eq :: "pyval \<Rightarrow> pyval \<Rightarrow> bool" where
  "py_eq PNone w = (w = PNone)"
| "py_eq (PBool b) w =
     (case w of PBool c \<Rightarrow> b = c | PInt n \<Rightarrow> n = (if b then 1 else 0) | _ \<Rightarrow> False)"
| "py_eq (PInt m) w =
     (case w of PInt n \<Rightarrow> m = n | PBool c \<Rightarrow> m = (if c then 1 else 0) | _ \<Rightarrow> False)"
| "py_eq (PStr s) w = (w = PStr s)"
| "py_eq (PBytes s) w = (w = PBytes s)"
| "py_eq (PList xs) w =
     (case w of
        PList ys \<Rightarrow> length xs = length ys \<and> list_all (\<lambda>(x, y). py_eq x y) (zip xs ys)
      | _ \<Rightarrow> False)"
| "py_eq (PDict xs) w =
     (case w of
        PDict ys \<Rightarrow>
          length xs = length ys \<and>
          list_all (\<lambda>(k, v). case map_of ys k of None \<Rightarrow> False | Some u \<Rightarrow> py_eq v u) xs
      | _ \<Rightarrow> False)"

definition py_in :: "pyval \<Rightarrow> pyval list \<Rightarrow> bool" where
  "py_in v vs = list_ex (py_eq v) vs"

definition str_in :: "pyval \<Rightarrow> string list \<Rightarrow> bool" where
  "str_in v ss = py_in v (map PStr ss)"

fun is_str :: "pyval \<Rightarrow> bool" where
  "is_str (PStr _) = True" | "is_str _ = False"

fun is_dict :: "pyval \<Rightarrow> bool" where
  "is_dict (PDict _) = True" | "is_dict _ = False"

fun is_list :: "pyval \<Rightarrow> bool" where
  "is_list (PList _) = True" | "is_list _ = False"

fun is_bool :: "pyval \<Rightarrow> bool" where
  "is_bool (PBool _) = True" | "is_bool _ = False"

fun truthy :: "pyval \<Rightarrow> bool" where
  "truthy PNone = False"
| "truthy (PBool b) = b"
| "truthy (PInt n) = (n \<noteq> 0)"
| "truthy (PStr s) = (s \<noteq> [])"
| "truthy (PBytes s) = (s \<noteq> [])"
| "truthy (PList xs) = (xs \<noteq> [])"
| "truthy (PDict xs) = (xs \<noteq> [])"

text \<open>Hashable values, and \<open>set(xs)\<close> as the list of its members: two members that are equal
  for Python (\<open>1\<close> and \<open>True\<close>) have the same normal form.\<close>

fun hashable :: "pyval \<Rightarrow> bool" where
  "hashable (PList _) = False"
| "hashable (PDict _) = False"
| "hashable _ = True"

fun hash_norm :: "pyval \<Rightarrow> pyval" where
  "hash_norm (PBool b) = PInt (if b then 1 else 0)"
| "hash_norm v = v"

definition py_set :: "pyval list \<Rightarrow> pyval list outcome" where
  "py_set xs = (if list_all hashable xs then Ret (remdups (map hash_norm xs)) else Raise TypeError)"

text \<open>\<open>value[key]\<close>, \<open>value.get(key)\<close> on a dictionary, \<open>d[key] = v\<close>, and the copy of a
  dictionary without some keys.\<close>

definition item :: "pyval \<Rightarrow> string \<Rightarrow> pyval outcome" where
  "item v k =
     (case v of
        PDict kvs \<Rightarrow> (case map_of kvs k of None \<Rightarrow> Raise KeyError | Some x \<Rightarrow> Ret x)
      | _ \<Rightarrow> Raise TypeError)"

definition item_is :: "pyval \<Rightarrow> string \<Rightarrow> pyval \<Rightarrow> bool outcome" where
  "item_is v k w = bind (item v k) (\<lambda>x. Ret (py_eq x w))"

fun dict_set :: "items \<Rightarrow> string \<Rightarrow> pyval \<Rightarrow> items" where
  "dict_set [] k v = [(k, v)]"
| "dict_set ((k', v') # kvs) k v =
     (if k' = k then (k, v) # kvs else (k', v') # dict_set kvs k v)"

definition dict_without :: "string list \<Rightarrow> items \<Rightarrow> items" where
  "dict_without ks kvs = filter (\<lambda>(k, v). k \<notin> set ks) kvs"

definition items_of :: "pyval \<Rightarrow> items outcome" where
  "items_of v = (case v of PDict kvs \<Rightarrow> Ret kvs | _ \<Rightarrow> Raise AttributeError)"

text \<open>\<open>for x in value\<close>: iterating a non-iterable raises \<open>TypeError\<close>; a dictionary yields its
  keys, a string its code points.\<close>

definition iter_of :: "pyval \<Rightarrow> pyval list outcome" where
  "iter_of v =
     (case v of
        PList xs \<Rightarrow> Ret xs
      | PDict kvs \<Rightarrow> Ret (map (PStr \<circ> fst) kvs)
      | PStr s \<Rightarrow> Ret (map PStr (chars s))
      | PBytes s \<Rightarrow> Ret (map (\<lambda>c. PInt (int (code c))) s)
      | _ \<Rightarrow> Raise TypeError)"

definition len_of :: "pyval \<Rightarrow> nat outcome" where
  "len_of v =
     (case v of
        PList xs \<Rightarrow> Ret (length xs)
      | PDict kvs \<Rightarrow> Ret (length kvs)
      | PStr s \<Rightarrow> Ret (py_len s)
      | PBytes s \<Rightarrow> Ret (length s)
      | _ \<Rightarrow> Raise TypeError)"

fun wf_val :: "pyval \<Rightarrow> bool" where
  "wf_val (PList xs) = list_all wf_val xs"
| "wf_val (PDict kvs) = (distinct (map fst kvs) \<and> list_all (\<lambda>(k, v). wf_val v) kvs)"
| "wf_val _ = True"

subsection \<open>Laws\<close>

lemma py_eq_str [simp]: "py_eq v (PStr s) \<longleftrightarrow> v = PStr s"
  by (cases v) auto

lemma py_eq_none [simp]: "py_eq v PNone \<longleftrightarrow> v = PNone"
  by (cases v) auto

lemma str_in_iff [simp]: "str_in v ss \<longleftrightarrow> (\<exists>s \<in> set ss. v = PStr s)"
  by (auto simp: str_in_def py_in_def list_ex_iff)

lemma str_in_PStr: "str_in (PStr s) ss \<longleftrightarrow> s \<in> set ss"
  by simp

lemma py_eq_refl: "wf_val v \<Longrightarrow> py_eq v v"
proof (induction v)
  case (PList xs)
  then show ?case by (auto simp: list_all_iff zip_same_conv_map)
next
  case (PDict kvs)
  then have "map_of kvs k = Some v" if "(k, v) \<in> set kvs" for k v
    using that by simp
  with PDict show ?case by (fastforce simp: list_all_iff)
qed auto

lemma wf_field: "wf_val (PDict d) \<Longrightarrow> map_of d k = Some v \<Longrightarrow> wf_val v"
  by (auto simp: list_all_iff dest!: map_of_SomeD)

lemma item_PDict [simp]:
  "item (PDict kvs) k = (case map_of kvs k of None \<Rightarrow> Raise KeyError | Some x \<Rightarrow> Ret x)"
  by (simp add: item_def)

lemma item_eq_Ret [outcome_simps]:
  "item v k = Ret x \<longleftrightarrow> (\<exists>kvs. v = PDict kvs \<and> map_of kvs k = Some x)"
  by (cases v) (auto simp: item_def split: option.splits)

lemma item_is_eq_Ret [outcome_simps]:
  "item_is v k w = Ret b \<longleftrightarrow> (\<exists>x. item v k = Ret x \<and> b = py_eq x w)"
  by (auto simp: item_is_def outcome_simps)

lemma map_of_dict_set [simp]: "map_of (dict_set kvs k v) = (map_of kvs)(k \<mapsto> v)"
  by (induction kvs) (auto simp: fun_eq_iff)

lemma set_dict_set_keys: "fst ` set (dict_set kvs k v) = insert k (fst ` set kvs)"
proof (induction kvs)
  case (Cons kv kvs)
  then show ?case by (cases kv) (simp add: insert_commute)
qed simp

lemma distinct_dict_set: "distinct (map fst kvs) \<Longrightarrow> distinct (map fst (dict_set kvs k v))"
proof (induction kvs)
  case (Cons kv kvs)
  then show ?case
    using set_dict_set_keys [of kvs k v] by (cases kv) (auto simp: image_iff)
qed simp

lemma map_of_dict_without [simp]:
  "map_of (dict_without ks kvs) k = (if k \<in> set ks then None else map_of kvs k)"
  by (induction kvs) (auto simp: dict_without_def)

lemma distinct_dict_without:
  "distinct (map fst kvs) \<Longrightarrow> distinct (map fst (dict_without ks kvs))"
  by (simp add: dict_without_def distinct_map_filter)

lemma dict_without_dict_set:
  "map_of kvs k = None \<Longrightarrow> dict_without [k] (dict_set kvs k v) = kvs"
proof (induction kvs)
  case (Cons kv kvs)
  then show ?case by (cases kv) (auto simp: dict_without_def split: if_splits)
qed (simp add: dict_without_def)

lemma items_of_eq_Ret [outcome_simps]: "items_of v = Ret kvs \<longleftrightarrow> v = PDict kvs"
  by (cases v) (auto simp: items_of_def)

lemma items_of_PDict [simp]: "items_of (PDict kvs) = Ret kvs"
  by (simp add: items_of_def)

lemma iter_of_PList [simp]: "iter_of (PList xs) = Ret xs"
  by (simp add: iter_of_def)

lemma is_str_iff [simp]: "is_str v \<longleftrightarrow> (\<exists>s. v = PStr s)"
  by (cases v) auto

lemma is_dict_iff: "is_dict v \<longleftrightarrow> (\<exists>kvs. v = PDict kvs)"
  by (cases v) auto

lemma is_list_iff: "is_list v \<longleftrightarrow> (\<exists>xs. v = PList xs)"
  by (cases v) auto

lemma is_bool_iff: "is_bool v \<longleftrightarrow> (\<exists>b. v = PBool b)"
  by (cases v) auto

lemma ordinary_item [simp, ordinary_intros]: "ordinary (item v k)"
  by (auto simp: item_def split: pyval.splits option.splits)

lemma ordinary_item_is [simp, ordinary_intros]: "ordinary (item_is v k w)"
  unfolding item_is_def by (intro ordinary_intros)

lemma ordinary_views [simp, ordinary_intros]:
  "ordinary (items_of v)" "ordinary (iter_of v)" "ordinary (len_of v)" "ordinary (py_set vs)"
  by (auto simp: items_of_def iter_of_def len_of_def py_set_def split: pyval.splits)

lemma case_list_only [outcome_simps]:
  "(case v of PList xs \<Rightarrow> P xs | _ \<Rightarrow> False) \<longleftrightarrow> (\<exists>xs. v = PList xs \<and> P xs)"
  by (cases v) simp_all

lemma case_str_only [outcome_simps]:
  "(case v of PStr s \<Rightarrow> P s | _ \<Rightarrow> False) \<longleftrightarrow> (\<exists>s. v = PStr s \<and> P s)"
  by (cases v) simp_all

lemma case_int_only [outcome_simps]:
  "(case v of PInt i \<Rightarrow> Q i | _ \<Rightarrow> False) \<longleftrightarrow> (\<exists>i. v = PInt i \<and> Q i)"
  by (cases v) simp_all

text \<open>A branch on the type of a value that raises otherwise.\<close>

lemma case_Ret:
  "(case v of PDict d \<Rightarrow> f d | _ \<Rightarrow> Raise e) = Ret x \<longleftrightarrow> (\<exists>d. v = PDict d \<and> f d = Ret x)"
  "(case v of PInt i \<Rightarrow> g i | _ \<Rightarrow> Raise e) = Ret x \<longleftrightarrow> (\<exists>i. v = PInt i \<and> g i = Ret x)"
  "(case v of PStr s \<Rightarrow> h s | _ \<Rightarrow> Raise e) = Ret x \<longleftrightarrow> (\<exists>s. v = PStr s \<and> h s = Ret x)"
  "(case v of PDict d \<Rightarrow> f d | _ \<Rightarrow> refuse q) = Ret x \<longleftrightarrow> (\<exists>d. v = PDict d \<and> f d = Ret x)"
  "(case v of PStr s \<Rightarrow> h s | _ \<Rightarrow> refuse q) = Ret x \<longleftrightarrow> (\<exists>s. v = PStr s \<and> h s = Ret x)"
  "(case v of PList l \<Rightarrow> k l | _ \<Rightarrow> refuse q) = Ret x \<longleftrightarrow> (\<exists>l. v = PList l \<and> k l = Ret x)"
  by (cases v; simp)+

end
