(* ===== verification/Json.thy ===== *)
theory Json
  imports PyValue
begin

text \<open>
  The parts of Python's \<open>json\<close> that \<open>canonical.py\<close> uses: \<open>json.dumps\<close> with
  \<open>ensure_ascii=False\<close>, \<open>sort_keys=True\<close> and the separators \<^verbatim>\<open>","\<close> and \<^verbatim>\<open>":"\<close>, and
  \<open>json.loads\<close> with the hooks \<open>_pairs\<close> and \<open>_reject_float\<close> of
  \<open>src/src/harness_conformance/canonical.py\<close>.  The reader is the recursive descent of the
  standard library's scanner; its recursion is bounded by the length of the text, and
  \<open>loads_no_fuel\<close> shows the bound is never reached.  The main results are that reading a
  canonical text gives back the value with its members sorted (\<open>loads_dumps\<close>), and
  that a text determines its value.
\<close>

subsection \<open>Writing\<close>

fun escape :: "char \<Rightarrow> string" where
  "escape c =
     (if c = CHR 0x22 then [CHR 0x5C, CHR 0x22]
      else if c = CHR 0x5C then [CHR 0x5C, CHR 0x5C]
      else if c = CHR 0x0A then [CHR 0x5C, CHR ''n'']
      else if c = CHR 0x0D then [CHR 0x5C, CHR ''r'']
      else if c = CHR 0x09 then [CHR 0x5C, CHR ''t'']
      else if c = CHR 0x0C then [CHR 0x5C, CHR ''f'']
      else if c = CHR 0x08 then [CHR 0x5C, CHR ''b'']
      else if code c < 32
        then [CHR 0x5C, CHR ''u'', CHR ''0'', CHR ''0'',
              hex_digit (code c div 16), hex_digit (code c mod 16)]
      else [c])"

definition dump_string :: "string \<Rightarrow> string" where
  "dump_string s = CHR 0x22 # concat (map escape s) @ [CHR 0x22]"

fun show_nat :: "nat \<Rightarrow> string" where
  "show_nat n =
     (if n < 10 then [char_of (48 + n)] else show_nat (n div 10) @ [char_of (48 + n mod 10)])"

declare show_nat.simps [simp del]

definition show_int :: "int \<Rightarrow> string" where
  "show_int i = (if i < 0 then CHR ''-'' # show_nat (nat (- i)) else show_nat (nat i))"

fun intercalate :: "'a list \<Rightarrow> 'a list list \<Rightarrow> 'a list" where
  "intercalate sep [] = []"
| "intercalate sep [x] = x"
| "intercalate sep (x # xs) = x @ sep @ intercalate sep xs"

text \<open>A bytes object has no JSON form: \<open>json.dumps\<close> would raise, but \<open>canonical_bytes\<close>
  refuses it before.\<close>

fun dumps :: "pyval \<Rightarrow> string" where
  "dumps PNone = ''null''"
| "dumps (PBool b) = (if b then ''true'' else ''false'')"
| "dumps (PInt i) = show_int i"
| "dumps (PStr s) = dump_string s"
| "dumps (PBytes s) = []"
| "dumps (PList xs) = ''['' @ intercalate '','' (map dumps xs) @ '']''"
| "dumps (PDict kvs) =
     ''{'' @ intercalate '',''
       (map (\<lambda>(k, v). dump_string k @ '':'' @ dumps v) (sort_key fst kvs)) @ ''}''"

subsection \<open>Reading\<close>

definition is_ws :: "char \<Rightarrow> bool" where
  "is_ws c \<longleftrightarrow> c = CHR '' '' \<or> c = CHR 0x09 \<or> c = CHR 0x0A \<or> c = CHR 0x0D"

definition skip_ws :: "string \<Rightarrow> string" where
  "skip_ws s = dropWhile is_ws s"

definition hex_value :: "char \<Rightarrow> nat option" where
  "hex_value c =
     (if in_range 48 57 c then Some (code c - 48)
      else if in_range 97 102 c then Some (code c - 87)
      else if in_range 65 70 c then Some (code c - 55)
      else None)"

fun hex4 :: "string \<Rightarrow> nat option" where
  "hex4 [a, b, c, d] =
     (case (hex_value a, hex_value b, hex_value c, hex_value d) of
        (Some w, Some x, Some y, Some z) \<Rightarrow> Some (((w * 16 + x) * 16 + y) * 16 + z)
      | _ \<Rightarrow> None)"
| "hex4 _ = None"

definition utf8_of :: "nat \<Rightarrow> string" where
  "utf8_of n =
     (if n < 128 then [char_of n]
      else if n < 2048 then [char_of (192 + n div 64), char_of (128 + n mod 64)]
      else if n < 65536 then
        [char_of (224 + n div 4096), char_of (128 + n div 64 mod 64), char_of (128 + n mod 64)]
      else
        [char_of (240 + n div 262144), char_of (128 + n div 4096 mod 64),
         char_of (128 + n div 64 mod 64), char_of (128 + n mod 64)])"

definition simple_escape :: "char \<Rightarrow> char option" where
  "simple_escape c =
     (if c = CHR 0x22 \<or> c = CHR 0x5C \<or> c = CHR ''/'' then Some c
      else if c = CHR ''b'' then Some (CHR 0x08)
      else if c = CHR ''f'' then Some (CHR 0x0C)
      else if c = CHR ''n'' then Some (CHR 0x0A)
      else if c = CHR ''r'' then Some (CHR 0x0D)
      else if c = CHR ''t'' then Some (CHR 0x09)
      else None)"

text \<open>One \<open>\u\<close> escape after its backslash and \<open>u\<close>: the character and the rest, joining a
  surrogate pair.\<close>

definition unicode_escape :: "string \<Rightarrow> (string \<times> string) option" where
  "unicode_escape s =
     (case hex4 (take 4 s) of
        None \<Rightarrow> None
      | Some n \<Rightarrow>
          (let t = drop 4 s in
           if 55296 \<le> n \<and> n \<le> 56319 \<and> take 2 t = [CHR 0x5C, CHR ''u''] then
             (case hex4 (take 4 (drop 2 t)) of
                None \<Rightarrow> None
              | Some m \<Rightarrow>
                  if 56320 \<le> m \<and> m \<le> 57343
                  then Some (utf8_of (65536 + (n - 55296) * 1024 + (m - 56320)), drop 6 t)
                  else Some (utf8_of n, t))
           else Some (utf8_of n, t)))"

lemma unicode_escape_shorter [termination_simp]:
  "unicode_escape s = Some (c, t) \<Longrightarrow> length t < length s"
  by (auto simp: unicode_escape_def Let_def split: option.splits if_splits)
     (cases s; simp)+

text \<open>The body of a string literal up to its closing quote; \<open>None\<close> is a \<open>JSONDecodeError\<close>.\<close>

fun scan_string :: "string \<Rightarrow> (string \<times> string) option" where
  "scan_string [] = None"
| "scan_string (c # s) =
     (if c = CHR 0x22 then Some ([], s)
      else if c = CHR 0x5C then
        (case s of
           [] \<Rightarrow> None
         | e # t \<Rightarrow>
             if e = CHR ''u'' then
               (case unicode_escape t of
                  None \<Rightarrow> None
                | Some (u, t') \<Rightarrow> map_option (\<lambda>(r, z). (u @ r, z)) (scan_string t'))
             else
               (case simple_escape e of
                  None \<Rightarrow> None
                | Some u \<Rightarrow> map_option (\<lambda>(r, z). (u # r, z)) (scan_string t)))
      else if code c < 32 then None
      else map_option (\<lambda>(r, z). (c # r, z)) (scan_string s))"

definition digits_value :: "string \<Rightarrow> nat" where
  "digits_value s = foldl (\<lambda>n c. n * 10 + (code c - 48)) 0 s"

text \<open>The tail of a number that makes it a float: a fraction or an exponent with digits.\<close>

definition float_tail :: "string \<Rightarrow> bool" where
  "float_tail s =
     (case s of
        c # d # t \<Rightarrow>
          (c = CHR ''.'' \<and> digit d) \<or>
          ((c = CHR ''e'' \<or> c = CHR ''E'') \<and>
           (digit d \<or> ((d = CHR ''+'' \<or> d = CHR ''-'') \<and> (case t of x # _ \<Rightarrow> digit x | [] \<Rightarrow> False))))
      | _ \<Rightarrow> False)"

definition lead_digits :: "string \<Rightarrow> string" where
  "lead_digits s = (if take 1 s = ''0'' then ''0'' else takeWhile digit s)"

text \<open>A number: floats go to \<open>_reject_float\<close>, an integer of more than 4300 digits is refused
  by \<open>int\<close> with a \<open>ValueError\<close>.\<close>

definition scan_number :: "string \<Rightarrow> (pyval \<times> string) outcome" where
  "scan_number s =
     (let neg = (take 1 s = ''-''); t = (if neg then drop 1 s else s);
          ds = lead_digits t; rest = drop (length ds) t
      in if ds = [] then Raise ValueError
         else if float_tail rest then refuse ''NON_CANONICAL_NUMBER''
         else if 4300 < length ds then Raise ValueError
         else Ret (PInt (if neg then - int (digits_value ds) else int (digits_value ds)), rest))"

text \<open>The literals, the constants that go to \<open>_reject_float\<close> too, and numbers.\<close>

definition scan_atom :: "string \<Rightarrow> (pyval \<times> string) outcome" where
  "scan_atom s =
     (if take 4 s = ''null'' then Ret (PNone, drop 4 s)
      else if take 4 s = ''true'' then Ret (PBool True, drop 4 s)
      else if take 5 s = ''false'' then Ret (PBool False, drop 5 s)
      else if take 3 s = ''NaN'' \<or> take 8 s = ''Infinity'' \<or> take 9 s = ''-Infinity''
        then refuse ''NON_CANONICAL_NUMBER''
      else scan_number s)"

fun pairs :: "items \<Rightarrow> items \<Rightarrow> items outcome" where
  "pairs result [] = Ret result"
| "pairs result ((k, v) # kvs) =
     (if k \<in> fst ` set result then refuse ''DUPLICATE_JSON_MEMBER''
      else pairs (result @ [(k, v)]) kvs)"

text \<open>A value, the elements of a non-empty array and the members of a non-empty object, each
  with the text that follows.\<close>

fun scan_value :: "nat \<Rightarrow> string \<Rightarrow> (pyval \<times> string) outcome"
  and scan_elems :: "nat \<Rightarrow> string \<Rightarrow> (pyval list \<times> string) outcome"
  and scan_members :: "nat \<Rightarrow> string \<Rightarrow> (items \<times> string) outcome" where
  "scan_value 0 s = Raise OutOfFuel"
| "scan_value (Suc n) s =
     (case s of
        [] \<Rightarrow> Raise ValueError
      | c # t \<Rightarrow>
          if c = CHR 0x22 then
            (case scan_string t of None \<Rightarrow> Raise ValueError | Some (r, z) \<Rightarrow> Ret (PStr r, z))
          else if c = CHR 0x7B then
            (let t' = skip_ws t in
             if take 1 t' = ''}'' then Ret (PDict [], drop 1 t')
             else bind (scan_members n t') (\<lambda>(kvs, z).
                  bind (pairs [] kvs) (\<lambda>d. Ret (PDict d, z))))
          else if c = CHR 0x5B then
            (let t' = skip_ws t in
             if take 1 t' = '']'' then Ret (PList [], drop 1 t')
             else bind (scan_elems n t') (\<lambda>(xs, z). Ret (PList xs, z)))
          else scan_atom s)"
| "scan_elems 0 s = Raise OutOfFuel"
| "scan_elems (Suc n) s =
     bind (scan_value n s) (\<lambda>(v, z).
       (let z' = skip_ws z in
        if take 1 z' = '']'' then Ret ([v], drop 1 z')
        else if take 1 z' = '','' then
          bind (scan_elems n (skip_ws (drop 1 z'))) (\<lambda>(vs, y). Ret (v # vs, y))
        else Raise ValueError))"
| "scan_members 0 s = Raise OutOfFuel"
| "scan_members (Suc n) s =
     (if take 1 s \<noteq> [CHR 0x22] then Raise ValueError
      else case scan_string (drop 1 s) of
        None \<Rightarrow> Raise ValueError
      | Some (k, z) \<Rightarrow>
          (let z1 = skip_ws z in
           if take 1 z1 \<noteq> '':'' then Raise ValueError
           else bind (scan_value n (skip_ws (drop 1 z1))) (\<lambda>(v, y).
             (let y' = skip_ws y in
              if take 1 y' = ''}'' then Ret ([(k, v)], drop 1 y')
              else if take 1 y' = '','' then
                bind (scan_members n (skip_ws (drop 1 y'))) (\<lambda>(kvs, x). Ret ((k, v) # kvs, x))
              else Raise ValueError))))"

definition loads :: "string \<Rightarrow> pyval outcome" where
  "loads text =
     bind (scan_value (2 * length text + 1) (skip_ws text)) (\<lambda>(v, rest).
       if skip_ws rest = [] then Ret v else Raise ValueError)"

subsection \<open>Reading back what was written\<close>

lemma hex_value_digit: "n < 16 \<Longrightarrow> hex_value (hex_digit n) = Some n"
  by (simp add: hex_value_def hex_digit_def in_range_def)

lemma unicode_escape_control:
  "n < 32 \<Longrightarrow>
   unicode_escape (CHR ''0'' # CHR ''0'' # hex_digit (n div 16) # hex_digit (n mod 16) # t)
     = Some ([char_of n], t)"
proof -
  assume n: "n < 32"
  have z: "hex_value (CHR ''0'') = Some 0"
    by (simp add: hex_value_def in_range_def)
  from n have "n div 16 < 16" and "n mod 16 < 16" by auto
  with n z show ?thesis
    by (simp add: unicode_escape_def utf8_of_def hex_value_digit)
qed

lemma scan_escape [simp]:
  "scan_string (escape c @ t) = map_option (\<lambda>(r, z). (c # r, z)) (scan_string t)"
  by (auto simp: simple_escape_def unicode_escape_control)

lemma scan_dump_string [simp]:
  "scan_string (concat (map escape s) @ CHR 0x22 # t) = Some (s, t)"
  by (induction s) (simp_all del: escape.simps)

lemma show_nat_rec:
  "show_nat n = (if n < 10 then [char_of (48 + n)] else show_nat (n div 10) @ [char_of (48 + n mod 10)])"
  by (rule show_nat.simps)

lemma digit_char_of: "(n::nat) < 10 \<Longrightarrow> digit (char_of (48 + n))"
  by (simp add: digit_def char_range_def in_range_def)

lemma show_nat_digits: "list_all digit (show_nat n)"
proof (induction n rule: show_nat.induct)
  case (1 n)
  then show ?case by (subst show_nat_rec) (simp add: digit_char_of)
qed

lemma show_nat_nonempty [simp]: "show_nat n \<noteq> []"
  by (subst show_nat_rec) simp

lemma digits_value_snoc: "digits_value (s @ [c]) = digits_value s * 10 + (code c - 48)"
  by (simp add: digits_value_def)

lemma digits_value_show_nat [simp]: "digits_value (show_nat n) = n"
proof (induction n rule: show_nat.induct)
  case (1 n)
  show ?case
  proof (cases "n < 10")
    case True
    then show ?thesis by (subst show_nat_rec) (simp add: digits_value_def)
  next
    case False
    with 1 have "digits_value (show_nat (n div 10)) = n div 10" by simp
    with False show ?thesis by (subst show_nat_rec) (simp add: digits_value_snoc)
  qed
qed

lemma show_nat_leading_zero: "take 1 (show_nat n) = ''0'' \<longleftrightarrow> n = 0"
proof (induction n rule: show_nat.induct)
  case (1 n)
  show ?case
  proof (cases "n < 10")
    case True
    have c48: "char_of (48::nat) = CHR ''0''" by code_simp
    have "char_of (48 + n) = (CHR ''0'' :: char) \<longleftrightarrow> n = 0"
    proof
      assume "char_of (48 + n) = (CHR ''0'' :: char)"
      then have "of_char (char_of (48 + n) :: char) = (48 :: nat)" by simp
      with True show "n = 0" by simp
    qed (simp add: c48)
    with True show ?thesis by (subst show_nat_rec) simp
  next
    case False
    with 1 have "take 1 (show_nat (n div 10)) \<noteq> ''0''" by auto
    with False show ?thesis
      by (subst show_nat_rec) (cases "show_nat (n div 10)"; simp)
  qed
qed

lemma length_show_nat: "n < 10 ^ Suc k \<Longrightarrow> length (show_nat n) \<le> Suc k"
proof (induction k arbitrary: n)
  case 0
  then show ?case by (subst show_nat_rec) simp
next
  case (Suc k)
  then have "n div 10 < 10 ^ Suc k" by (auto simp: less_mult_imp_div_less)
  then have "length (show_nat (n div 10)) \<le> Suc k" by (rule Suc.IH)
  then show ?case by (subst show_nat_rec) simp
qed

text \<open>What may follow a value in a canonical text.\<close>

definition stops :: "string \<Rightarrow> bool" where
  "stops s \<longleftrightarrow> (case s of [] \<Rightarrow> True | c # _ \<Rightarrow> c \<in> set '',]}'' \<or> c = CHR 0x0A)"

lemma stops_not_digit: "stops s \<Longrightarrow> takeWhile digit s = []"
  by (cases s) (auto simp: stops_def digit_def char_range_def in_range_def)

lemma stops_not_float: "stops s \<Longrightarrow> \<not> float_tail s"
  by (auto simp: stops_def float_tail_def split: list.splits)

lemma lead_digits_show_nat:
  assumes "stops rest"
  shows "lead_digits (show_nat n @ rest) = show_nat n"
proof -
  have "takeWhile digit (show_nat n @ rest) = show_nat n"
    using show_nat_digits [of n] assms
    by (simp add: takeWhile_append list_all_iff stops_not_digit)
  moreover have "take 1 (show_nat n @ rest) = take 1 (show_nat n)"
    by (cases "show_nat n") auto
  moreover have "show_nat 0 = ''0''" by code_simp
  ultimately show ?thesis
    using show_nat_leading_zero [of n] by (auto simp: lead_digits_def)
qed

lemma take1_show_nat: "take 1 (show_nat n @ rest) \<noteq> ''-''"
  using show_nat_digits [of n]
  by (cases "show_nat n") (auto simp: digit_def char_range_def in_range_def)

lemma scan_number_nat:
  assumes "stops rest" "length (show_nat n) \<le> 4300"
  shows "scan_number (show_nat n @ rest) = Ret (PInt (int n), rest)"
  using assms take1_show_nat [of n rest]
  by (simp add: scan_number_def Let_def stops_not_float lead_digits_show_nat)

lemma scan_number_int:
  assumes "stops rest" "length (show_nat (nat \<bar>i\<bar>)) \<le> 4300"
  shows "scan_number (show_int i @ rest) = Ret (PInt i, rest)"
  using assms take1_show_nat [of "nat i" rest]
  by (cases "i < 0")
     (simp_all add: scan_number_def Let_def stops_not_float lead_digits_show_nat show_int_def)

text \<open>Values with a JSON form, and the value a reader sees: members sorted at every level.\<close>

fun json_val :: "pyval \<Rightarrow> bool" where
  "json_val (PInt i) = (length (show_nat (nat \<bar>i\<bar>)) \<le> 4300)"
| "json_val (PBytes _) = False"
| "json_val (PList xs) = list_all json_val xs"
| "json_val (PDict kvs) = (distinct (map fst kvs) \<and> list_all (\<lambda>(k, v). json_val v) kvs)"
| "json_val _ = True"

fun canon :: "pyval \<Rightarrow> pyval" where
  "canon (PList xs) = PList (map canon xs)"
| "canon (PDict kvs) = PDict (map (\<lambda>(k, v). (k, canon v)) (sort_key fst kvs))"
| "canon v = v"

lemma skip_ws_id: "s \<noteq> [] \<Longrightarrow> \<not> is_ws (hd s) \<Longrightarrow> skip_ws s = s"
  by (cases s) (auto simp: skip_ws_def)

lemma hd_show_nat: "digit (hd (show_nat n))"
  using show_nat_digits [of n] by (cases "show_nat n") auto

lemma hd_dumps:
  assumes "json_val v"
  shows "dumps v \<noteq> [] \<and> \<not> is_ws (hd (dumps v)) \<and> hd (dumps v) \<notin> set ''],}'' "
proof (cases v)
  case (PInt i)
  then show ?thesis
    using hd_show_nat [of "nat i"]
    by (auto simp: show_int_def is_ws_def digit_def char_range_def in_range_def)
qed (use assms in \<open>auto simp: is_ws_def dump_string_def\<close>)

lemma skip_ws_dumps: "json_val v \<Longrightarrow> skip_ws (dumps v @ r) = dumps v @ r"
  using hd_dumps [of v] by (intro skip_ws_id) auto

lemma skip_ws_dump_string: "skip_ws (dump_string k @ r) = dump_string k @ r"
  by (rule skip_ws_id) (simp_all add: dump_string_def is_ws_def)

lemma stops_Cons [simp]: "stops (c # s) \<longleftrightarrow> c \<in> set '',]}'' \<or> c = CHR 0x0A"
  by (simp add: stops_def)

lemma pairs_distinct: "distinct (map fst (acc @ kvs)) \<Longrightarrow> pairs acc kvs = Ret (acc @ kvs)"
  by (induction acc kvs rule: pairs.induct) auto

lemma scan_elems_dumps:
  assumes "xs \<noteq> []" "list_all json_val xs"
    and "\<And>x n r. x \<in> set xs \<Longrightarrow> stops r \<Longrightarrow> 2 * length (dumps x) \<le> n \<Longrightarrow>
           scan_value n (dumps x @ r) = Ret (canon x, r)"
    and "2 * length (intercalate '','' (map dumps xs)) + 1 \<le> n"
  shows "scan_elems n (intercalate '','' (map dumps xs) @ '']'' @ r) = Ret (map canon xs, r)"
  using assms
proof (induction xs arbitrary: n rule: induct_list012)
  case (2 x)
  then obtain m where m: "n = Suc m" by (cases n) auto
  then have "scan_value m (dumps x @ '']'' @ r) = Ret (canon x, '']'' @ r)"
    using 2 by simp
  with m show ?case by (simp add: Let_def skip_ws_def is_ws_def)
next
  case (3 x y zs)
  then obtain m where m: "n = Suc m" by (cases n) auto
  let ?t = "intercalate '','' (map dumps (y # zs))"
  have "scan_value m (dumps x @ '','' @ ?t @ '']'' @ r) = Ret (canon x, '','' @ ?t @ '']'' @ r)"
    using 3 m by simp
  moreover have "scan_elems m (?t @ '']'' @ r) = Ret (map canon (y # zs), r)"
    by (rule "3.IH"(2)) (use 3 m in auto)
  moreover have "skip_ws (?t @ '']'' @ r) = ?t @ '']'' @ r"
    using skip_ws_dumps [of y] 3 by (cases zs) simp_all
  moreover have "skip_ws ('','' @ s) = '','' @ s" for s
    by (simp add: skip_ws_def is_ws_def)
  ultimately show ?case using m by (simp add: Let_def)
qed simp

definition dump_member :: "string \<times> pyval \<Rightarrow> string" where
  "dump_member = (\<lambda>(k, v). dump_string k @ '':'' @ dumps v)"

lemma dumps_PDict:
  "dumps (PDict kvs) = ''{'' @ intercalate '','' (map dump_member (sort_key fst kvs)) @ ''}''"
  by (simp add: dump_member_def)

lemma scan_members_dumps:
  assumes "kvs \<noteq> []" "list_all (\<lambda>(k, v). json_val v) kvs"
    and "\<And>k v n r. (k, v) \<in> set kvs \<Longrightarrow> stops r \<Longrightarrow> 2 * length (dumps v) \<le> n \<Longrightarrow>
           scan_value n (dumps v @ r) = Ret (canon v, r)"
    and "2 * length (intercalate '','' (map dump_member kvs)) + 1 \<le> n"
  shows "scan_members n (intercalate '','' (map dump_member kvs) @ ''}'' @ r)
           = Ret (map (\<lambda>(k, v). (k, canon v)) kvs, r)"
  using assms
proof (induction kvs arbitrary: n rule: induct_list012)
  case (2 kv)
  obtain k v where kv: "kv = (k, v)" by (cases kv)
  obtain m where m: "n = Suc m" using 2 by (cases n) auto
  have v: "scan_value m (dumps v @ ''}'' @ r) = Ret (canon v, ''}'' @ r)"
    using 2 kv m by (simp add: dump_member_def dump_string_def)
  have w: "skip_ws (dumps v @ z) = dumps v @ z" for z
    using skip_ws_dumps [of v] 2 kv by simp
  have c: "skip_ws (CHR '':'' # z) = CHR '':'' # z" "skip_ws (CHR ''}'' # z) = CHR ''}'' # z" for z
    by (simp_all add: skip_ws_def is_ws_def)
  show ?case using v w c m kv by (simp add: dump_member_def dump_string_def Let_def)
next
  case (3 kv kv' kvs)
  obtain k v where kv: "kv = (k, v)" by (cases kv)
  obtain m where m: "n = Suc m" using 3 by (cases n) auto
  let ?t = "intercalate '','' (map dump_member (kv' # kvs))"
  have "length (dumps v) \<le> length (dump_member kv)"
    using kv by (simp add: dump_member_def dump_string_def)
  then have "2 * length (dumps v) \<le> m" using "3.prems"(4) m by simp
  then have v: "scan_value m (dumps v @ '','' @ ?t @ ''}'' @ r)
      = Ret (canon v, '','' @ ?t @ ''}'' @ r)"
    using kv by (intro "3.prems"(3) [of k]) simp_all
  have t: "scan_members m (?t @ ''}'' @ r) = Ret (map (\<lambda>(k, v). (k, canon v)) (kv' # kvs), r)"
  proof (rule "3.IH"(2))
    show "scan_value i (dumps v @ r) = Ret (canon v, r)"
      if "(k, v) \<in> set (kv' # kvs)" "stops r" "2 * length (dumps v) \<le> i" for k v i r
      using that by (intro "3.prems"(3) [of k]) simp_all
    show "2 * length ?t + 1 \<le> m" using "3.prems"(4) m by simp
  qed (use "3.prems"(2) in simp_all)
  have st: "skip_ws (?t @ ''}'' @ r) = ?t @ ''}'' @ r"
    using skip_ws_dump_string by (cases kv'; cases kvs) (simp_all add: dump_member_def)
  have w: "skip_ws (dumps v @ z) = dumps v @ z" for z
    using skip_ws_dumps [of v] 3 kv by simp
  have c: "skip_ws (CHR '':'' # z) = CHR '':'' # z" "skip_ws (CHR '','' # z) = CHR '','' # z" for z
    by (simp_all add: skip_ws_def is_ws_def)
  have split: "intercalate '','' (map dump_member (kv # kv' # kvs)) @ ''}'' @ r
      = CHR 0x22 # concat (map escape k) @ CHR 0x22 # CHR '':'' # dumps v @ '','' @ ?t @ ''}'' @ r"
    using kv by (simp add: dump_member_def dump_string_def)
  show ?case
    unfolding split m using v t st w c kv by (simp add: Let_def del: intercalate.simps)
qed simp

lemma distinct_sort_key: "distinct (map fst kvs) \<Longrightarrow> distinct (map fst (sort_key fst kvs))"
  by (metis distinct_map distinct_sort set_sort)

lemma digit_not_special:
  "digit c \<Longrightarrow> c \<notin> set [CHR 0x22, CHR 0x7B, CHR 0x5B, CHR ''n'', CHR ''t'', CHR ''f'',
     CHR ''N'', CHR ''I'', CHR ''-'']"
  by (auto simp: digit_def char_range_def in_range_def)

lemma scan_value_digit: "digit c \<Longrightarrow> scan_value (Suc m) (c # t) = scan_number (c # t)"
  using digit_not_special [of c] by (auto simp: scan_atom_def)

lemma scan_value_minus:
  "digit d \<Longrightarrow> scan_value (Suc m) (CHR ''-'' # d # t) = scan_number (CHR ''-'' # d # t)"
  using digit_not_special [of d] by (auto simp: scan_atom_def)

lemma scan_value_int: "scan_value (Suc m) (show_int i @ r) = scan_number (show_int i @ r)"
proof (cases "i < 0")
  case True
  obtain d t where "show_nat (nat (- i)) = d # t" by (cases "show_nat (nat (- i))") auto
  then show ?thesis
    using True hd_show_nat [of "nat (- i)"] scan_value_minus [of d m "t @ r"]
    by (simp add: show_int_def del: scan_value.simps)
next
  case False
  obtain d t where "show_nat (nat i) = d # t" by (cases "show_nat (nat i)") auto
  then show ?thesis
    using False hd_show_nat [of "nat i"] scan_value_digit [of d m "t @ r"]
    by (simp add: show_int_def del: scan_value.simps)
qed

lemma show_int_nonempty [simp]: "show_int i \<noteq> []"
  by (simp add: show_int_def)

lemma scan_value_dumps:
  "json_val v \<Longrightarrow> stops r \<Longrightarrow> 2 * length (dumps v) \<le> n \<Longrightarrow>
   scan_value n (dumps v @ r) = Ret (canon v, r)"
proof (induction v arbitrary: n r)
  case (PInt i)
  then have "0 < n" by (metis dumps.simps(3) length_greater_0_conv less_le_trans
        nat_0_less_mult_iff show_int_nonempty zero_less_numeral)
  then obtain m where m: "n = Suc m" by (cases n) auto
  with PInt show ?case by (simp add: scan_value_int scan_number_int del: scan_value.simps)
next
  case (PList xs)
  then obtain m where m: "n = Suc m" by (cases n) auto
  show ?case
  proof (cases "xs = []")
    case True
    then show ?thesis using m by (simp add: skip_ws_def is_ws_def Let_def)
  next
    case False
    let ?t = "intercalate '','' (map dumps xs)"
    have e: "scan_elems m (?t @ '']'' @ r) = Ret (map canon xs, r)"
      by (rule scan_elems_dumps) (use PList False m in \<open>auto simp: list_all_iff\<close>)
    obtain x xs' where xs: "xs = x # xs'" using False by (cases xs) auto
    have hx: "dumps x \<noteq> [] \<and> \<not> is_ws (hd (dumps x)) \<and> hd (dumps x) \<notin> set ''],}''"
      using hd_dumps [of x] PList xs by simp
    obtain z where z: "?t @ '']'' @ r = dumps x @ z"
      using xs by (cases xs') auto
    have "skip_ws (?t @ '']'' @ r) = ?t @ '']'' @ r" "take 1 (?t @ '']'' @ r) \<noteq> '']''"
      unfolding z using hx by (auto simp: skip_ws_id) (cases "dumps x"; auto)
    with e m show ?thesis by (simp add: Let_def)
  qed
next
  case (PDict kvs)
  then obtain m where m: "n = Suc m" by (cases n) auto
  let ?ks = "sort_key fst kvs"
  show ?case
  proof (cases "kvs = []")
    case True
    then show ?thesis using m by (simp add: skip_ws_def is_ws_def Let_def)
  next
    case False
    let ?t = "intercalate '','' (map dump_member ?ks)"
    have ne: "?ks \<noteq> []" using False by (metis length_0_conv length_sort)
    have e: "scan_members m (?t @ ''}'' @ r) = Ret (map (\<lambda>(k, v). (k, canon v)) ?ks, r)"
      by (rule scan_members_dumps)
         (use PDict ne m in \<open>auto simp: list_all_iff dumps_PDict simp del: dumps.simps\<close>)
    have d: "distinct (map fst (map (\<lambda>(k, v). (k, canon v)) ?ks))"
      using PDict.prems(1) distinct_sort_key [of kvs] by (simp add: comp_def case_prod_beta)
    obtain k v ks' where ks: "?ks = (k, v) # ks'" using ne by (cases ?ks) auto
    obtain z where z: "?t @ ''}'' @ r = dump_string k @ z"
      using ks by (cases ks') (auto simp: dump_member_def)
    have "skip_ws (?t @ ''}'' @ r) = ?t @ ''}'' @ r" "take 1 (?t @ ''}'' @ r) \<noteq> ''}''"
      unfolding z using skip_ws_dump_string by (simp_all add: dump_string_def)
    then show ?thesis
      using e m pairs_distinct [of "[]"] d by (simp add: Let_def dumps_PDict del: dumps.simps)
  qed
next
  case PNone
  then obtain m where "n = Suc m" by (cases n) auto
  then show ?case by (simp add: scan_atom_def)
next
  case (PBool b)
  then obtain m where "n = Suc m" by (cases n; cases b) auto
  then show ?case by (cases b) (simp_all add: scan_atom_def)
next
  case (PStr s)
  then obtain m where "n = Suc m" by (cases n) (auto simp: dump_string_def)
  then show ?case by (simp add: dump_string_def)
qed simp

theorem loads_dumps:
  assumes "json_val v" and "tail = [] \<or> tail = [CHR 0x0A]"
  shows "loads (dumps v @ tail) = Ret (canon v)"
proof -
  have "stops tail" using assms(2) by (auto simp: stops_def)
  then have "scan_value (2 * length (dumps v @ tail) + 1) (dumps v @ tail) = Ret (canon v, tail)"
    by (rule scan_value_dumps [OF assms(1)]) simp
  moreover have "skip_ws tail = []"
    using assms(2) by (auto simp: skip_ws_def is_ws_def)
  ultimately show ?thesis
    by (simp add: loads_def skip_ws_dumps [OF assms(1)] del: scan_value.simps)
qed

subsection \<open>The reader never runs out of recursion\<close>

lemma length_skip_ws: "length (skip_ws s) \<le> length s"
  by (simp add: skip_ws_def length_dropWhile_le)

lemma scan_string_shorter: "scan_string s = Some (r, z) \<Longrightarrow> length z < length s"
proof (induction s arbitrary: r rule: length_induct)
  case (1 s)
  note IH = 1(1) [rule_format] and run = 1(2)
  show ?case
  proof (cases s)
    case Nil
    with run show ?thesis by simp
  next
    case (Cons c t)
    consider (quote) "c = CHR 0x22" | (plain) "c \<noteq> CHR 0x22" "c \<noteq> CHR 0x5C"
      | (esc) "c = CHR 0x5C" by blast
    then show ?thesis
    proof cases
      case quote
      with run Cons show ?thesis by simp
    next
      case plain
      with run Cons obtain r' where "scan_string t = Some (r', z)" by (auto split: if_splits)
      from IH [OF _ this] Cons show ?thesis by simp
    next
      case esc
      with run Cons obtain e u where t: "t = e # u" by (cases t) auto
      show ?thesis
      proof (cases "e = CHR ''u''")
        case True
        with run Cons esc t obtain x u' r' where
          u: "unicode_escape u = Some (x, u')" and r: "scan_string u' = Some (r', z)"
          by (auto split: option.splits)
        from unicode_escape_shorter [OF u] IH [OF _ r] Cons t show ?thesis by simp
      next
        case False
        with run Cons esc t obtain r' where r: "scan_string u = Some (r', z)"
          by (auto split: option.splits)
        from IH [OF _ r] Cons t show ?thesis by simp
      qed
    qed
  qed
qed

lemma lead_digits_Nil [simp]: "lead_digits [] = []"
  by (simp add: lead_digits_def)

lemma scan_number_shorter:
  assumes "scan_number s = Ret (v, z)"
  shows "length z < length s"
proof -
  define t where "t = (if take 1 s = ''-'' then drop 1 s else s)"
  have ds: "lead_digits t \<noteq> []" and z: "z = drop (length (lead_digits t)) t"
    using assms by (auto simp: scan_number_def t_def Let_def refuse_def split: if_splits)
  then have "t \<noteq> []" by auto
  with ds z have "length z < length t" by simp
  also have "length t \<le> length s" by (simp add: t_def)
  finally show ?thesis .
qed

lemma scan_atom_shorter: "scan_atom s = Ret (v, z) \<Longrightarrow> length z < length s"
  using scan_number_shorter [of s v z]
  by (cases "s = []") (auto simp: scan_atom_def refuse_def split: if_splits)

lemma drop1_shorter: "take 1 s = [c] \<Longrightarrow> length (drop 1 s) < length s"
  by (cases s) auto

lemma scan_value_shorter_step:
  assumes E: "\<And>s vs z. scan_elems n s = Ret (vs, z) \<Longrightarrow> length z < length s"
    and M: "\<And>s kvs z. scan_members n s = Ret (kvs, z) \<Longrightarrow> length z < length s"
    and run: "scan_value (Suc n) s = Ret (v, z)"
  shows "length z < length s"
proof (cases s)
  case Nil
  with run show ?thesis by simp
next
  case (Cons c t)
  have t: "length (skip_ws t) < length s" using length_skip_ws [of t] Cons by simp
  consider (str) "c = CHR 0x22" | (obj) "c = CHR 0x7B" | (arr) "c = CHR 0x5B"
    | (other) "c \<notin> {CHR 0x22, CHR 0x7B, CHR 0x5B}" by blast
  then show ?thesis
  proof cases
    case str
    with run Cons show ?thesis
      using scan_string_shorter [of t] by (auto split: option.splits)
  next
    case obj
    with run Cons show ?thesis
      using t by (auto simp: Let_def bind_eq_Ret split: if_splits dest!: M)
  next
    case arr
    with run Cons show ?thesis
      using t by (auto simp: Let_def bind_eq_Ret split: if_splits dest!: E)
  next
    case other
    with run Cons show ?thesis
      using scan_atom_shorter [of s] by simp
  qed
qed

lemma scan_elems_shorter_step:
  assumes V: "\<And>s v z. scan_value n s = Ret (v, z) \<Longrightarrow> length z < length s"
    and E: "\<And>s vs z. scan_elems n s = Ret (vs, z) \<Longrightarrow> length z < length s"
    and run: "scan_elems (Suc n) s = Ret (vs, z)"
  shows "length z < length s"
proof -
  from run obtain v y where y: "scan_value n s = Ret (v, y)"
    by (auto simp: bind_eq_Ret)
  have "length (skip_ws y) < length s" using V [OF y] length_skip_ws [of y] by simp
  moreover have "length z \<le> length (skip_ws y)"
    using run y length_skip_ws [of "drop 1 (skip_ws y)"]
    by (auto simp: Let_def bind_eq_Ret split: if_splits dest!: E)
  ultimately show ?thesis by simp
qed

lemma scan_members_shorter_step:
  assumes V: "\<And>s v z. scan_value n s = Ret (v, z) \<Longrightarrow> length z < length s"
    and M: "\<And>s kvs z. scan_members n s = Ret (kvs, z) \<Longrightarrow> length z < length s"
    and run: "scan_members (Suc n) s = Ret (kvs, z)"
  shows "length z < length s"
proof -
  from run obtain k z0 v y where k: "scan_string (drop 1 s) = Some (k, z0)"
    and y: "scan_value n (skip_ws (drop 1 (skip_ws z0))) = Ret (v, y)"
    by (auto simp: Let_def bind_eq_Ret split: if_splits option.splits)
  have "length (skip_ws y) < length s"
    using scan_string_shorter [OF k] V [OF y] length_skip_ws [of y] length_skip_ws [of z0]
      length_skip_ws [of "drop 1 (skip_ws z0)"] by simp
  moreover have "length z \<le> length (skip_ws y)"
    using run k y length_skip_ws [of "drop 1 (skip_ws y)"]
    by (auto simp: Let_def bind_eq_Ret split: if_splits dest!: M)
  ultimately show ?thesis by simp
qed

lemma scan_shorter:
  "scan_value n s = Ret (v, z) \<Longrightarrow> length z < length s"
  "scan_elems n s = Ret (vs, z) \<Longrightarrow> length z < length s"
  "scan_members n s = Ret (kvs, z) \<Longrightarrow> length z < length s"
proof (induction n arbitrary: s v z vs kvs)
  case (Suc n)
  {
    case 1
    then show ?case using scan_value_shorter_step [of n] Suc.IH by blast
  next
    case 2
    then show ?case using scan_elems_shorter_step [of n] Suc.IH by blast
  next
    case 3
    then show ?case using scan_members_shorter_step [of n] Suc.IH by blast
  }
qed simp_all

lemma pairs_no_fuel: "pairs acc kvs \<noteq> Raise OutOfFuel"
  by (induction acc kvs rule: pairs.induct) (auto simp: refuse_def)

lemma scan_atom_no_fuel: "scan_atom s \<noteq> Raise OutOfFuel"
  by (simp add: scan_atom_def scan_number_def Let_def refuse_def)

lemma scan_value_fuel_step:
  assumes E: "\<And>s. 2 * length s + 2 \<le> n \<Longrightarrow> scan_elems n s \<noteq> Raise OutOfFuel"
    and M: "\<And>s. 2 * length s + 2 \<le> n \<Longrightarrow> scan_members n s \<noteq> Raise OutOfFuel"
    and fuel: "2 * length s + 1 \<le> Suc n"
  shows "scan_value (Suc n) s \<noteq> Raise OutOfFuel"
proof (cases s)
  case (Cons c t)
  have "2 * length (skip_ws t) + 2 \<le> n" using length_skip_ws [of t] Cons fuel by simp
  note sub = E [OF this] M [OF this]
  consider (str) "c = CHR 0x22" | (obj) "c = CHR 0x7B" | (arr) "c = CHR 0x5B"
    | (other) "c \<notin> {CHR 0x22, CHR 0x7B, CHR 0x5B}" by blast
  then show ?thesis
    using sub Cons
    by cases (auto simp: Let_def bind_eq_Raise pairs_no_fuel scan_atom_no_fuel split: option.splits)
qed simp

lemma scan_elems_fuel_step:
  assumes V: "\<And>s. 2 * length s + 1 \<le> n \<Longrightarrow> scan_value n s \<noteq> Raise OutOfFuel"
    and E: "\<And>s. 2 * length s + 2 \<le> n \<Longrightarrow> scan_elems n s \<noteq> Raise OutOfFuel"
    and fuel: "2 * length s + 2 \<le> Suc n"
  shows "scan_elems (Suc n) s \<noteq> Raise OutOfFuel"
proof
  assume run: "scan_elems (Suc n) s = Raise OutOfFuel"
  have "scan_value n s \<noteq> Raise OutOfFuel" using V fuel by simp
  with run obtain w y where y: "scan_value n s = Ret (w, y)"
    by (auto simp: bind_eq_Raise)
  let ?r = "skip_ws (drop 1 (skip_ws y))"
  from run y have c: "take 1 (skip_ws y) = '',''" and e: "scan_elems n ?r = Raise OutOfFuel"
    by (auto simp: Let_def bind_eq_Raise split: if_splits)
  have "length ?r < length s"
    using scan_shorter(1) [OF y] length_skip_ws [of y] length_skip_ws [of "drop 1 (skip_ws y)"]
      drop1_shorter [OF c] by simp
  then have "2 * length ?r + 2 \<le> n" using fuel by simp
  from E [OF this] e show False by simp
qed

lemma scan_members_fuel_step:
  assumes V: "\<And>s. 2 * length s + 1 \<le> n \<Longrightarrow> scan_value n s \<noteq> Raise OutOfFuel"
    and M: "\<And>s. 2 * length s + 2 \<le> n \<Longrightarrow> scan_members n s \<noteq> Raise OutOfFuel"
    and fuel: "2 * length s + 2 \<le> Suc n"
  shows "scan_members (Suc n) s \<noteq> Raise OutOfFuel"
proof
  assume run: "scan_members (Suc n) s = Raise OutOfFuel"
  then obtain k z where k: "scan_string (drop 1 s) = Some (k, z)"
    by (auto simp: Let_def split: if_splits option.splits)
  let ?q = "skip_ws (drop 1 (skip_ws z))"
  have q: "length ?q < length s"
    using scan_string_shorter [OF k] length_skip_ws [of z] length_skip_ws [of "drop 1 (skip_ws z)"]
    by simp
  then have "scan_value n ?q \<noteq> Raise OutOfFuel" using V fuel by simp
  with run k obtain w y where y: "scan_value n ?q = Ret (w, y)"
    by (auto simp: Let_def bind_eq_Raise split: if_splits)
  let ?r = "skip_ws (drop 1 (skip_ws y))"
  from run k y have e: "scan_members n ?r = Raise OutOfFuel"
    by (auto simp: Let_def bind_eq_Raise split: if_splits)
  have "length ?r < length s"
    using scan_shorter(1) [OF y] length_skip_ws [of y] length_skip_ws [of "drop 1 (skip_ws y)"] q
    by simp
  then have "2 * length ?r + 2 \<le> n" using fuel by simp
  from M [OF this] e show False by simp
qed

lemma scan_fuel:
  "2 * length s + 1 \<le> n \<Longrightarrow> scan_value n s \<noteq> Raise OutOfFuel"
  "2 * length s + 2 \<le> n \<Longrightarrow> scan_elems n s \<noteq> Raise OutOfFuel"
  "2 * length s + 2 \<le> n \<Longrightarrow> scan_members n s \<noteq> Raise OutOfFuel"
proof (induction n arbitrary: s)
  case (Suc n)
  {
    case 1
    then show ?case using scan_value_fuel_step [of n] Suc.IH by blast
  next
    case 2
    then show ?case using scan_elems_fuel_step [of n] Suc.IH by blast
  next
    case 3
    then show ?case using scan_members_fuel_step [of n] Suc.IH by blast
  }
qed simp_all

theorem loads_no_fuel: "loads s \<noteq> Raise OutOfFuel"
  using scan_fuel(1) [of "skip_ws s" "2 * length s + 1"] length_skip_ws [of s]
  by (auto simp: loads_def bind_eq_Raise simp del: scan_value.simps split: if_splits)

subsection \<open>The sorted form\<close>

lemma sort_key_map_snd:
  fixes kvs :: "(string \<times> 'a) list"
  shows "sort_key fst (map (\<lambda>(k, v). (k, f v)) kvs)
    = map (\<lambda>(k, v). (k, f v)) (sort_key fst kvs)"
proof (induction kvs)
  case (Cons kv kvs)
  have "insort_key fst ((\<lambda>(k, v). (k, f v)) x) (map (\<lambda>(k, v). (k, f v)) xs)
      = map (\<lambda>(k, v). (k, f v)) (insort_key fst x xs)" for x and xs :: "(string \<times> 'a) list"
    by (induction xs) (auto split: prod.splits)
  with Cons show ?case by simp
qed simp

lemma sort_key_sort_key: "sort_key f (sort_key f xs) = sort_key f xs"
  by (simp add: sort_key_id_if_sorted)

lemma dumps_canon: "dumps (canon v) = dumps v"
proof (induction v)
  case (PDict kvs)
  have "map (dump_member \<circ> (\<lambda>(k, v). (k, canon v))) (sort_key fst kvs)
      = map dump_member (sort_key fst kvs)"
    using PDict by (intro map_cong) (auto simp: dump_member_def)
  then show ?case
    by (simp only: canon.simps dumps_PDict sort_key_map_snd sort_key_sort_key map_map)
next
  case (PList xs)
  then have "map (dumps \<circ> canon) xs = map dumps xs" by simp
  then show ?case by (simp only: canon.simps dumps.simps map_map)
qed auto

lemma json_val_canon: "json_val v \<Longrightarrow> json_val (canon v)"
proof (induction v)
  case (PDict kvs)
  then show ?case
    using distinct_sort_key [of kvs] by (auto simp: list_all_iff comp_def case_prod_beta)
qed (auto simp: list_all_iff)

lemma py_eq_canon: "json_val v \<Longrightarrow> py_eq (canon v) v"
proof (induction v)
  case (PList xs)
  then have "list_all (\<lambda>(x, y). py_eq x y) (zip (map canon xs) xs)"
    by (auto simp: list_all_iff in_set_zip)
  then show ?case by simp
next
  case (PDict kvs)
  have "py_eq (canon v) v \<and> map_of kvs k = Some v" if "(k, v) \<in> set kvs" for k v
    using PDict that by (auto simp: list_all_iff)
  then show ?case by (auto simp: list_all_iff)
qed auto

lemma wf_val_json: "json_val v \<Longrightarrow> wf_val v"
  by (induction v) (auto simp: list_all_iff)

subsection \<open>What is read has no duplicate member\<close>

lemma pairs_Ret:
  "pairs acc kvs = Ret d \<Longrightarrow> distinct (map fst acc) \<Longrightarrow> d = acc @ kvs \<and> distinct (map fst d)"
proof (induction acc kvs rule: pairs.induct)
  case (2 result k v kvs)
  have k: "k \<notin> fst ` set result" and run: "pairs (result @ [(k, v)]) kvs = Ret d"
    using "2.prems"(1) by (auto simp: refuse_def split: if_splits)
  have "distinct (map fst (result @ [(k, v)]))" using k "2.prems"(2) by simp
  from "2.IH" [OF k run this] show ?case
    unfolding append.assoc append_Cons append_Nil .
qed simp

lemma scan_atom_wf: "scan_atom s = Ret (v, z) \<Longrightarrow> wf_val v"
  by (auto simp: scan_atom_def scan_number_def Let_def refuse_def split: if_splits)

lemma scan_wf:
  "scan_value n s = Ret (v, z) \<Longrightarrow> wf_val v"
  "scan_elems n s = Ret (vs, z) \<Longrightarrow> list_all wf_val vs"
  "scan_members n s = Ret (kvs, z) \<Longrightarrow> list_all (\<lambda>(k, x). wf_val x) kvs"
proof (induction n arbitrary: s v z vs kvs)
  case (Suc n)
  {
    case 1
    then show ?case
      using pairs_Ret [of "[]"] scan_atom_wf
      by (fastforce simp: Let_def bind_eq_Ret split: list.splits if_splits option.splits
          dest!: Suc.IH(2,3))
  next
    case 2
    then show ?case
      by (auto simp: Let_def bind_eq_Ret split: if_splits dest!: Suc.IH(1,2))
  next
    case 3
    then show ?case
      by (auto simp: Let_def bind_eq_Ret split: if_splits option.splits dest!: Suc.IH(1,3))
  }
qed simp_all

lemma loads_wf: "loads s = Ret v \<Longrightarrow> wf_val v"
  by (auto simp: loads_def bind_eq_Ret simp del: scan_value.simps split: if_splits
      dest: scan_wf(1))

subsection \<open>What the reader can raise\<close>

definition reader_exn :: "exn \<Rightarrow> bool" where
  "reader_exn e \<longleftrightarrow> e = ValueError \<or> e = OutOfFuel \<or> (\<exists>r. e = ConformanceError r)"

lemma pairs_raises: "pairs acc kvs = Raise e \<Longrightarrow> reader_exn e"
  by (induction acc kvs rule: pairs.induct) (auto simp: refuse_def reader_exn_def split: if_splits)

lemma scan_atom_raises: "scan_atom s = Raise e \<Longrightarrow> reader_exn e"
  by (auto simp: scan_atom_def scan_number_def Let_def refuse_def reader_exn_def split: if_splits)

lemma scan_raises:
  "scan_value n s = Raise e \<Longrightarrow> reader_exn e"
  "scan_elems n s = Raise e \<Longrightarrow> reader_exn e"
  "scan_members n s = Raise e \<Longrightarrow> reader_exn e"
proof (induction n arbitrary: s)
  case (Suc n)
  have v: "reader_exn ValueError" by (simp add: reader_exn_def)
  {
    case 1
    then show ?case
      using v by (auto simp: Let_def bind_eq_Raise split: list.splits if_splits option.splits
          dest: Suc.IH(2,3) pairs_raises scan_atom_raises)
  next
    case 2
    then show ?case
      using v by (auto simp: Let_def bind_eq_Raise split: if_splits dest: Suc.IH(1,2))
  next
    case 3
    then show ?case
      using v by (auto simp: Let_def bind_eq_Raise split: if_splits option.splits
          dest: Suc.IH(1,3))
  }
qed (simp_all add: reader_exn_def)

lemma loads_raises: "loads s = Raise e \<Longrightarrow> e = ValueError \<or> (\<exists>r. e = ConformanceError r)"
proof -
  assume "loads s = Raise e"
  moreover from this have "reader_exn e"
    by (auto simp: loads_def bind_eq_Raise reader_exn_def simp del: scan_value.simps
        split: if_splits dest: scan_raises(1) [unfolded reader_exn_def])
  ultimately show ?thesis using loads_no_fuel [of s] by (auto simp: reader_exn_def)
qed

end
