(* ===== verification/Sha2.thy ===== *)
theory Sha2
  imports PyText
begin

text \<open>
  \<open>hashlib.sha256\<close> and \<open>hashlib.sha512\<close> on byte strings (FIPS 180-4), with 32-bit and
  64-bit words whose additions wrap around, and the lower-case \<open>hexdigest\<close>.  The program
  relies on two facts proved here: a digest has 32 (64) bytes, and its hexadecimal form
  is 64 lower-case digits.
\<close>

unbundle bit_operations_syntax

type_synonym u32 = "32 word"
type_synonym u64 = "64 word"

definition rotr :: "nat \<Rightarrow> 'a::len word \<Rightarrow> 'a word" where
  "rotr n x = drop_bit n x OR push_bit (LENGTH('a) - n) x"

definition ch :: "'a::len word \<Rightarrow> 'a word \<Rightarrow> 'a word \<Rightarrow> 'a word" where
  "ch x y z = (x AND y) XOR (NOT x AND z)"

definition maj :: "'a::len word \<Rightarrow> 'a word \<Rightarrow> 'a word \<Rightarrow> 'a word" where
  "maj x y z = (x AND y) XOR (x AND z) XOR (y AND z)"

text \<open>The rotation amounts of the two functions on the state and the two of the message
  schedule (the last one is a shift), which together with the constants fix the variant.\<close>

type_synonym rots = "nat \<times> nat \<times> nat"

definition big_sigma :: "rots \<Rightarrow> 'a::len word \<Rightarrow> 'a word" where
  "big_sigma r x = (case r of (a, b, c) \<Rightarrow> rotr a x XOR rotr b x XOR rotr c x)"

definition small_sigma :: "rots \<Rightarrow> 'a::len word \<Rightarrow> 'a word" where
  "small_sigma r x = (case r of (a, b, c) \<Rightarrow> rotr a x XOR rotr b x XOR drop_bit c x)"

text \<open>The message schedule, most recent word first.\<close>

fun schedule :: "rots \<Rightarrow> rots \<Rightarrow> nat \<Rightarrow> 'a::len word list \<Rightarrow> 'a word list" where
  "schedule s0 s1 0 ws = rev ws"
| "schedule s0 s1 (Suc n) ws =
     schedule s0 s1 n
       ((small_sigma s1 (ws ! 1) + ws ! 6 + small_sigma s0 (ws ! 14) + ws ! 15) # ws)"

fun sha_round :: "rots \<Rightarrow> rots \<Rightarrow> 'a::len word list \<Rightarrow> 'a word \<times> 'a word \<Rightarrow> 'a word list" where
  "sha_round S0 S1 [a, b, c, d, e, f, g, h] (k, w) =
     (let t1 = h + big_sigma S1 e + ch e f g + k + w; t2 = big_sigma S0 a + maj a b c
      in [t1 + t2, a, b, c, d + t1, e, f, g])"
| "sha_round S0 S1 st kw = st"

definition compress ::
  "rots \<Rightarrow> rots \<Rightarrow> rots \<Rightarrow> rots \<Rightarrow> 'a::len word list \<Rightarrow> 'a word list \<Rightarrow> 'a word list \<Rightarrow> 'a word list"
  where
  "compress S0 S1 s0 s1 ks h block =
     map2 (+) h (foldl (sha_round S0 S1) h
       (zip ks (schedule s0 s1 (length ks - 16) (rev block))))"

definition word_of_bytes :: "bytes \<Rightarrow> 'a::len word" where
  "word_of_bytes bs = foldl (\<lambda>w b. push_bit 8 w OR word_of_nat (code b)) 0 bs"

fun bytes_of_word :: "nat \<Rightarrow> 'a::len word \<Rightarrow> bytes" where
  "bytes_of_word 0 w = []"
| "bytes_of_word (Suc n) w = char_of (unat (drop_bit (8 * n) w AND 255)) # bytes_of_word n w"

fun chunks :: "nat \<Rightarrow> nat \<Rightarrow> 'a list \<Rightarrow> 'a list list" where
  "chunks 0 n xs = []"
| "chunks (Suc m) n xs = take n xs # chunks m n (drop n xs)"

text \<open>Padding: a one bit, zeros, and the bit length in \<open>l\<close> bytes, up to blocks of \<open>b\<close> bytes.\<close>

definition sha_pad :: "nat \<Rightarrow> nat \<Rightarrow> bytes \<Rightarrow> bytes" where
  "sha_pad b l m =
     m @ [char_of (128::nat)] @
     replicate ((b - (length m + 1 + l) mod b) mod b) (char_of (0::nat)) @
     bytes_of_word l (word_of_nat (8 * length m) :: 128 word)"

definition sha_blocks :: "nat \<Rightarrow> nat \<Rightarrow> bytes \<Rightarrow> 'a::len word list list" where
  "sha_blocks b l m =
     (let p = sha_pad b l m in
      map (\<lambda>blk. map word_of_bytes (chunks 16 (b div 16) blk)) (chunks (length p div b) b p))"

text \<open>The constants: the leading 64 bits of the fractional parts of the cube roots of the first 80
  primes and of the square roots of the first eight; SHA-256 uses the upper half of the words.\<close>

definition K512 :: "u64 list" where
  "K512 =
     [
      4794697086780616226, 8158064640168781261, 13096744586834688815, 16840607885511220156,
      4131703408338449720, 6480981068601479193, 10538285296894168987, 12329834152419229976,
      15566598209576043074, 1334009975649890238, 2608012711638119052, 6128411473006802146,
      8268148722764581231, 9286055187155687089, 11230858885718282805, 13951009754708518548,
      16472876342353939154, 17275323862435702243, 1135362057144423861, 2597628984639134821,
      3308224258029322869, 5365058923640841347, 6679025012923562964, 8573033837759648693,
      10970295158949994411, 12119686244451234320, 12683024718118986047, 13788192230050041572,
      14330467153632333762, 15395433587784984357, 489312712824947311, 1452737877330783856,
      2861767655752347644, 3322285676063803686, 5560940570517711597, 5996557281743188959,
      7280758554555802590, 8532644243296465576, 9350256976987008742, 10552545826968843579,
      11727347734174303076, 12113106623233404929, 14000437183269869457, 14369950271660146224,
      15101387698204529176, 15463397548674623760, 17586052441742319658, 1182934255886127544,
      1847814050463011016, 2177327727835720531, 2830643537854262169, 3796741975233480872,
      4115178125766777443, 5681478168544905931, 6601373596472566643, 7507060721942968483,
      8399075790359081724, 8693463985226723168, 9568029438360202098, 10144078919501101548,
      10430055236837252648, 11840083180663258601, 13761210420658862357, 14299343276471374635,
      14566680578165727644, 15097957966210449927, 16922976911328602910, 17689382322260857208,
      500013540394364858, 748580250866718886, 1242879168328830382, 1977374033974150939,
      2944078676154940804, 3659926193048069267, 4368137639120453308, 4836135668995329356,
      5532061633213252278, 6448918945643986474, 6902733635092675308, 7801388544844847127]"

definition H512 :: "u64 list" where
  "H512 =
     [
      7640891576956012808, 13503953896175478587, 4354685564936845355, 11912009170470909681,
      5840696475078001361, 11170449401992604703, 2270897969802886507, 6620516959819538809]"

definition upper_half :: "u64 \<Rightarrow> u32" where
  "upper_half w = ucast (drop_bit 32 w)"

definition K256 :: "u32 list" where
  "K256 = map upper_half (take 64 K512)"

definition H256 :: "u32 list" where
  "H256 = map upper_half H512"

definition sha256 :: "bytes \<Rightarrow> bytes" where
  "sha256 m =
     concat (map (bytes_of_word 4)
       (foldl (compress (2, 13, 22) (6, 11, 25) (7, 18, 3) (17, 19, 10) K256) H256
         (sha_blocks 64 8 m)))"

definition sha512 :: "bytes \<Rightarrow> bytes" where
  "sha512 m =
     concat (map (bytes_of_word 8)
       (foldl (compress (28, 34, 39) (14, 18, 41) (1, 8, 7) (19, 61, 6) K512) H512
         (sha_blocks 128 16 m)))"

definition hexdigest :: "bytes \<Rightarrow> string" where
  "hexdigest bs =
     concat (map (\<lambda>b. [hex_digit (code b div 16), hex_digit (code b mod 16)]) bs)"

subsection \<open>The shape of a digest\<close>

lemma length_sha_round: "length (sha_round S0 S1 st kw) = length st"
  by (cases "(S0, S1, st, kw)" rule: sha_round.cases) (simp_all add: Let_def)

lemma length_foldl_round: "length (foldl (sha_round S0 S1) st kws) = length st"
  by (induction kws arbitrary: st) (simp_all add: length_sha_round)

lemma length_compress [simp]: "length (compress S0 S1 s0 s1 ks h block) = length h"
  by (simp add: compress_def length_foldl_round)

lemma length_foldl_compress:
  "length (foldl (compress S0 S1 s0 s1 ks) h blocks) = length h"
  by (induction blocks arbitrary: h) simp_all

lemma length_bytes_of_word [simp]: "length (bytes_of_word n w) = n"
  by (induction n) simp_all

lemma length_concat_bytes: "length (concat (map (bytes_of_word n) ws)) = n * length ws"
  by (induction ws) simp_all

lemma length_sha256 [simp]: "length (sha256 m) = 32"
  by (simp add: sha256_def length_concat_bytes length_foldl_compress) (simp add: H256_def H512_def)

lemma length_sha512 [simp]: "length (sha512 m) = 64"
  by (simp add: sha512_def length_concat_bytes length_foldl_compress) (simp add: H512_def)

lemma lower_hex_digit: "n < 16 \<Longrightarrow> lower_hex (hex_digit n)"
  by (simp add: lower_hex_def hex_digit_def digit_def char_range_def in_range_def)

lemma hexdigest_shape: "length (hexdigest bs) = 2 * length bs \<and> list_all lower_hex (hexdigest bs)"
proof (induction bs)
  case (Cons b bs)
  have "code b div 16 < 16" using nat_of_char_less_256 [of b] by linarith
  with Cons show ?case by (simp add: hexdigest_def lower_hex_digit)
qed (simp add: hexdigest_def)

end
