(* ===== verification/Canonical.thy ===== *)
theory Canonical
  imports Json Sha2
begin

text \<open>
  \<open>src/src/harness_conformance/canonical.py\<close>: strict JSON input, canonical JSON output,
  domain-separated digests and the bounded file read.  \<open>unicodedata.normalize("NFC", s)\<close>
  is the parameter \<open>U\<close> of every definition that reaches it: it is a table of the
  interpreter's Unicode version, and no result below depends on its contents.

  The results: what was written canonically is read back as the same value with its members
  sorted, an accepted document is exactly the canonical form of the value returned up to one
  final newline, equal canonical bytes come from equal values, the exceptions a reader can
  raise, and the bound on what a file read returns.  The locale \<open>canonical_codec\<close> is the part
  of this that the signed documents and the replay journal rely on.
\<close>

type_synonym ucd = "string \<Rightarrow> string"

definition MAX_FILE_BYTES :: nat where
  "MAX_FILE_BYTES = 4194304"

definition MAX_COLLECTION_ITEMS :: nat where
  "MAX_COLLECTION_ITEMS = 4096"

definition MAX_DEPTH :: nat where
  "MAX_DEPTH = 32"

definition MAX_SAFE_INTEGER :: int where
  "MAX_SAFE_INTEGER = 2 ^ 53 - 1"

definition validate_string :: "ucd \<Rightarrow> nat \<Rightarrow> string \<Rightarrow> unit outcome" where
  "validate_string U depth s =
     (if MAX_DEPTH < depth then refuse ''DOCUMENT_TOO_DEEP''
      else if U s \<noteq> s then refuse ''NON_NORMALIZED_STRING''
      else bind (utf8_encode s) (\<lambda>b.
        if MAX_FILE_BYTES < length b then refuse ''STRING_TOO_LARGE'' else Ret ()))"

fun validate_value :: "ucd \<Rightarrow> nat \<Rightarrow> pyval \<Rightarrow> unit outcome" where
  "validate_value U depth v =
     (if MAX_DEPTH < depth then refuse ''DOCUMENT_TOO_DEEP''
      else case v of
        PNone \<Rightarrow> Ret ()
      | PBool _ \<Rightarrow> Ret ()
      | PInt i \<Rightarrow> if MAX_SAFE_INTEGER < \<bar>i\<bar> then refuse ''INTEGER_OUT_OF_RANGE'' else Ret ()
      | PStr s \<Rightarrow> validate_string U depth s
      | PList xs \<Rightarrow>
          if MAX_COLLECTION_ITEMS < length xs then refuse ''COLLECTION_TOO_LARGE''
          else for_each (validate_value U (Suc depth)) xs
      | PDict kvs \<Rightarrow>
          if MAX_COLLECTION_ITEMS < length kvs then refuse ''COLLECTION_TOO_LARGE''
          else for_each (\<lambda>(k, x).
            bind (validate_string U (Suc depth) k) (\<lambda>_. validate_value U (Suc depth) x)) kvs
      | PBytes _ \<Rightarrow> refuse ''UNSUPPORTED_JSON_TYPE'')"

declare validate_value.simps [simp del]

definition load_json_bytes :: "ucd \<Rightarrow> bytes \<Rightarrow> pyval outcome" where
  "load_json_bytes U data =
     (if MAX_FILE_BYTES < length data then refuse ''DOCUMENT_TOO_LARGE''
      else if \<not> utf8_valid data then refuse ''INVALID_UTF8''
      else bind (catching (\<lambda>e. is_value_error e \<or> e = TypeError) ''INVALID_JSON'' (loads data))
        (\<lambda>value. bind (validate_value U 0 value) (\<lambda>_. Ret value)))"

definition canonical_bytes :: "ucd \<Rightarrow> pyval \<Rightarrow> bytes outcome" where
  "canonical_bytes U value =
     bind (validate_value U 0 value) (\<lambda>_. utf8_encode (dumps value))"

definition byte_digest :: "bytes \<Rightarrow> string" where
  "byte_digest data = ''sha256:'' @ hexdigest (sha256 data)"

definition digest_prefix :: "string option \<Rightarrow> bytes outcome" where
  "digest_prefix domain =
     (case domain of None \<Rightarrow> Ret []
      | Some d \<Rightarrow> bind (utf8_encode d) (\<lambda>b. Ret (b @ [CHR 0x00])))"

definition canonical_digest :: "ucd \<Rightarrow> pyval \<Rightarrow> string option \<Rightarrow> string outcome" where
  "canonical_digest U value domain =
     bind (digest_prefix domain) (\<lambda>prefix.
     bind (canonical_bytes U value) (\<lambda>body.
       Ret (''sha256:'' @ hexdigest (sha256 (prefix @ body)))))"

definition require_canonical_document :: "ucd \<Rightarrow> bytes \<Rightarrow> pyval outcome" where
  "require_canonical_document U data =
     bind (load_json_bytes U data) (\<lambda>value.
     bind (canonical_bytes U value) (\<lambda>b.
       if b @ [CHR 0x0A] \<noteq> data \<and> b \<noteq> data then refuse ''NON_CANONICAL_JSON'' else Ret value))"

subsection \<open>Bounded reading of a local file\<close>

text \<open>What the kernel shows of a path: \<open>None\<close> when \<open>os.open\<close> with \<open>O_NOFOLLOW\<close> fails, else the
  open file with the blocks that successive reads find; a read of at most \<open>n\<close> bytes
  returns at most \<open>n\<close> bytes of its block, and nothing once the blocks are used up.\<close>

record open_file =
  regular :: bool
  st_size :: nat
  blocks :: "bytes list"

type_synonym filesystem = "string \<Rightarrow> open_file option"

definition path_parts :: "string \<Rightarrow> string list" where
  "path_parts p = filter (\<lambda>c. c \<noteq> [] \<and> c \<noteq> ''.'') (split_on CHR ''/'' p)"

definition is_absolute :: "string \<Rightarrow> bool" where
  "is_absolute p = starts_with ''/'' p"

fun read_blocks :: "bytes list \<Rightarrow> nat \<Rightarrow> bytes \<Rightarrow> bytes" where
  "read_blocks [] remaining acc = acc"
| "read_blocks (b # bs) remaining acc =
     (let block = take (min remaining 1048576) b in
      if remaining = 0 \<or> block = [] then acc
      else read_blocks bs (remaining - length block) (acc @ block))"

definition secure_read :: "filesystem \<Rightarrow> bool \<Rightarrow> string \<Rightarrow> bytes outcome" where
  "secure_read fs require_absolute path =
     (if require_absolute \<and> \<not> is_absolute path then refuse ''PATH_NOT_ABSOLUTE''
      else if ''..'' \<in> set (path_parts path) then refuse ''PATH_TRAVERSAL''
      else case fs path of
        None \<Rightarrow> refuse ''REFERENCE_UNAVAILABLE''
      | Some f \<Rightarrow>
          if \<not> regular f then refuse ''REFERENCE_NOT_REGULAR''
          else if MAX_FILE_BYTES < st_size f then refuse ''DOCUMENT_TOO_LARGE''
          else (let data = read_blocks (blocks f) (st_size f) [] in
                if length data \<noteq> st_size f then refuse ''REFERENCE_CHANGED'' else Ret data))"

definition load_json :: "ucd \<Rightarrow> filesystem \<Rightarrow> bool \<Rightarrow> string \<Rightarrow> pyval outcome" where
  "load_json U fs require_absolute path =
     bind (secure_read fs require_absolute path) (load_json_bytes U)"

subsection \<open>Validation\<close>

lemma validate_string_Ret:
  "validate_string U d s = Ret u \<longleftrightarrow>
     d \<le> MAX_DEPTH \<and> U s = s \<and> utf8_valid s \<and> length s \<le> MAX_FILE_BYTES"
  by (auto simp: validate_string_def utf8_encode_def bind_eq_Ret refuse_def)

lemma validate_value_Ret:
  "validate_value U d v = Ret u \<longleftrightarrow> d \<le> MAX_DEPTH \<and>
     (case v of
        PNone \<Rightarrow> True | PBool _ \<Rightarrow> True
      | PInt i \<Rightarrow> \<bar>i\<bar> \<le> MAX_SAFE_INTEGER
      | PStr s \<Rightarrow> validate_string U d s = Ret ()
      | PList xs \<Rightarrow> length xs \<le> MAX_COLLECTION_ITEMS \<and>
          (\<forall>x \<in> set xs. validate_value U (Suc d) x = Ret ())
      | PDict kvs \<Rightarrow> length kvs \<le> MAX_COLLECTION_ITEMS \<and>
          (\<forall>(k, x) \<in> set kvs.
             validate_string U (Suc d) k = Ret () \<and> validate_value U (Suc d) x = Ret ())
      | PBytes _ \<Rightarrow> False)"
  by (subst validate_value.simps)
     (auto simp: refuse_def for_each_eq_Ret bind_eq_Ret split: pyval.splits)

lemma validate_value_canon:
  "validate_value U d v = Ret u \<Longrightarrow> validate_value U d (canon v) = Ret u"
proof (induction v arbitrary: d u)
  case (PList xs)
  then show ?case by (simp add: validate_value_Ret [of U d])
next
  case (PDict kvs)
  then show ?case by (simp add: validate_value_Ret [of U d]) fastforce
qed simp_all

lemma length_show_safe: "\<bar>i\<bar> \<le> MAX_SAFE_INTEGER \<Longrightarrow> length (show_nat (nat \<bar>i\<bar>)) \<le> 16"
proof -
  assume "\<bar>i\<bar> \<le> MAX_SAFE_INTEGER"
  then have "nat \<bar>i\<bar> < 10 ^ Suc 15" by (simp add: MAX_SAFE_INTEGER_def)
  from length_show_nat [OF this] show ?thesis by simp
qed

lemma validate_value_json:
  "validate_value U d v = Ret u \<Longrightarrow> wf_val v \<Longrightarrow> json_val v"
proof (induction v arbitrary: d u)
  case (PInt i)
  then show ?case using length_show_safe [of i] by (simp add: validate_value_Ret)
next
  case (PList xs)
  then show ?case by (auto simp: validate_value_Ret [of U d] list_all_iff)
next
  case (PDict kvs)
  have "json_val x" if "(k, x) \<in> set kvs" for k x
    using that PDict.prems
    by (intro PDict.IH [of "(k, x)" x "Suc d"]) (auto simp: validate_value_Ret [of U d] list_all_iff)
  then show ?case using PDict.prems by (auto simp: list_all_iff)
qed (simp_all add: validate_value_Ret)

text \<open>Every string of a validated value encodes, so its canonical text does.\<close>

lemma escape_ascii: "code c < 128 \<Longrightarrow> is_ascii (escape c)"
proof -
  assume "code c < 128"
  moreover have "code c mod 16 < 16" by simp
  ultimately show ?thesis by (auto simp: is_ascii_def hex_digit_def)
qed

lemma escape_high: "128 \<le> code c \<Longrightarrow> escape c = [c]"
proof -
  assume c: "128 \<le> code c"
  then have "c \<notin> {CHR 0x22, CHR 0x5C, CHR 0x0A, CHR 0x0D, CHR 0x09, CHR 0x0C, CHR 0x08}"
    by auto
  with c show ?thesis by simp
qed

lemma is_cont_high: "is_cont c \<Longrightarrow> escape c = [c]"
  by (rule escape_high) (simp add: is_cont_def in_range_def)

lemma second_ok_high: "second_ok a b \<Longrightarrow> escape b = [b]"
  by (rule escape_high) (auto simp: second_ok_def in_range_def split: if_splits)

lemma utf8_valid_escape: "utf8_valid s \<Longrightarrow> utf8_valid (concat (map escape s))"
proof (induction s rule: utf8_valid.induct)
  case (2 a s)
  show ?case
  proof (cases "code a < 128")
    case True
    with 2 show ?thesis
      by (simp add: utf8_valid_append utf8_valid_ascii escape_ascii del: escape.simps)
  next
    case False
    with 2 show ?thesis
      by (auto simp: escape_high is_cont_high second_ok_high simp del: escape.simps
          split: if_splits list.splits)
  qed
qed simp

lemma utf8_valid_dump_string: "utf8_valid s \<Longrightarrow> utf8_valid (dump_string s)"
  using utf8_valid_append [OF utf8_valid_escape [of s], of "[CHR 0x22]"]
  by (simp add: dump_string_def)

lemma utf8_valid_intercalate:
  "(\<And>x. x \<in> set xs \<Longrightarrow> utf8_valid x) \<Longrightarrow> utf8_valid (intercalate '','' xs)"
  by (induction "'',''" xs rule: intercalate.induct) (simp_all add: utf8_valid_append)

lemma is_ascii_show_nat: "is_ascii (show_nat n)"
  using show_nat_digits [of n]
  by (auto simp: is_ascii_def list_all_iff digit_def char_range_def in_range_def)

lemma utf8_valid_show_int: "utf8_valid (show_int i)"
  by (simp add: show_int_def utf8_valid_ascii is_ascii_show_nat)

lemma utf8_valid_dumps: "validate_value U d v = Ret u \<Longrightarrow> utf8_valid (dumps v)"
proof (induction v arbitrary: d u)
  case (PList xs)
  have "utf8_valid (dumps x)" if "x \<in> set xs" for x
    using that PList.prems by (intro PList.IH [of x "Suc d"]) (auto simp: validate_value_Ret [of U d])
  then have "utf8_valid (intercalate '','' (map dumps xs))"
    by (intro utf8_valid_intercalate) auto
  then show ?case by (simp add: utf8_valid_append)
next
  case (PDict kvs)
  have "utf8_valid (dump_member (k, x))" if kx: "(k, x) \<in> set kvs" for k x
  proof -
    have k: "validate_string U (Suc d) k = Ret ()" and x: "validate_value U (Suc d) x = Ret ()"
      using kx PDict.prems by (auto simp: validate_value_Ret [of U d])
    have "utf8_valid (dumps x)" by (rule PDict.IH [of "(k, x)", OF kx _ x]) simp
    with k show ?thesis
      by (simp add: dump_member_def utf8_valid_append utf8_valid_dump_string validate_string_Ret)
  qed
  then have "utf8_valid (intercalate '','' (map dump_member (sort_key fst kvs)))"
    by (intro utf8_valid_intercalate) auto
  then show ?case by (simp add: dumps_PDict utf8_valid_append del: dumps.simps)
qed (auto simp: utf8_valid_show_int utf8_valid_dump_string validate_value_Ret validate_string_Ret)

lemma canonical_bytes_Ret:
  "canonical_bytes U v = Ret b \<longleftrightarrow> validate_value U 0 v = Ret () \<and> b = dumps v"
  using utf8_valid_dumps [of U 0 v]
  by (auto simp: canonical_bytes_def bind_eq_Ret utf8_encode_def)

lemma canonical_digest_Ret:
  "canonical_digest U v d = Ret x \<longleftrightarrow>
     (\<exists>p. digest_prefix d = Ret p \<and> validate_value U 0 v = Ret () \<and>
          x = byte_digest (p @ dumps v))"
  by (auto simp: canonical_digest_def bind_eq_Ret canonical_bytes_Ret byte_digest_def)

subsection \<open>Round trip, soundness, injectivity\<close>

lemma load_json_bytes_Ret:
  "load_json_bytes U data = Ret v \<longleftrightarrow>
     length data \<le> MAX_FILE_BYTES \<and> utf8_valid data \<and> loads data = Ret v \<and>
     validate_value U 0 v = Ret ()"
  by (auto simp: load_json_bytes_def refuse_def bind_eq_Ret catching_eq_Ret)

lemma require_canonical_Ret:
  "require_canonical_document U data = Ret v \<longleftrightarrow>
     load_json_bytes U data = Ret v \<and> (data = dumps v \<or> data = dumps v @ [CHR 0x0A])"
  by (auto simp: require_canonical_document_def bind_eq_Ret canonical_bytes_Ret
      load_json_bytes_Ret refuse_def)

lemma canonical_roundtrip_tail:
  assumes "canonical_bytes U v = Ret b" "wf_val v" "tail = [] \<or> tail = [CHR 0x0A]"
    and "length b + length tail \<le> MAX_FILE_BYTES"
  shows "require_canonical_document U (b @ tail) = Ret (canon v)"
proof -
  have val: "validate_value U 0 v = Ret ()" and b: "b = dumps v"
    using assms(1) by (simp_all add: canonical_bytes_Ret)
  have "json_val v" using val assms(2) by (rule validate_value_json)
  then have "loads (b @ tail) = Ret (canon v)"
    unfolding b using assms(3) by (rule loads_dumps)
  moreover have "utf8_valid (b @ tail)"
    unfolding b using utf8_valid_dumps [OF val] assms(3) by (auto simp: utf8_valid_append)
  ultimately show ?thesis
    using assms(3,4) validate_value_canon [OF val] b
    by (auto simp: require_canonical_Ret load_json_bytes_Ret dumps_canon)
qed

lemma require_canonical_wf: "require_canonical_document U data = Ret v \<Longrightarrow> wf_val v"
  by (auto simp: require_canonical_Ret load_json_bytes_Ret dest: loads_wf)

lemma require_canonical_bytes:
  assumes "require_canonical_document U data = Ret v"
  shows "canonical_bytes U v = Ret (dumps v)" "canon v = v" "wf_val v"
proof -
  show wf: "wf_val v" using assms by (rule require_canonical_wf)
  have val: "validate_value U 0 v = Ret ()" and l: "loads data = Ret v"
    and d: "data = dumps v @ [] \<or> data = dumps v @ [CHR 0x0A]"
    using assms by (auto simp: require_canonical_Ret load_json_bytes_Ret)
  have "loads data = Ret (canon v)"
    using loads_dumps [OF validate_value_json [OF val wf]] d by blast
  with l show "canon v = v" by simp
  show "canonical_bytes U v = Ret (dumps v)" using val by (simp add: canonical_bytes_Ret)
qed

lemma canon_eq_if_dumps_eq:
  assumes "json_val v" "json_val w" "dumps v = dumps w"
  shows "canon v = canon w"
  using loads_dumps [OF assms(1), of "[]"] loads_dumps [OF assms(2), of "[]"] assms(3) by simp

lemma validate_value_raises:
  "validate_value U d v = Raise e \<Longrightarrow> e = UnicodeEncodeError \<or> (\<exists>r. e = ConformanceError r)"
proof (induction v arbitrary: d)
  case (PStr s)
  then show ?case
    by (subst (asm) validate_value.simps)
       (auto simp: validate_string_def refuse_def utf8_encode_def bind_eq_Raise split: if_splits)
next
  case (PList xs)
  have "for_each f ys = Raise e \<Longrightarrow> \<exists>y \<in> set ys. f y = Raise e" for f and ys :: "pyval list"
    by (induction ys) (auto simp: bind_eq_Raise)
  with PList show ?case
    by (subst (asm) validate_value.simps) (fastforce simp: refuse_def split: if_splits)
next
  case (PDict kvs)
  have *: "for_each f ys = Raise e \<Longrightarrow> \<exists>y \<in> set ys. f y = Raise e" for f and ys :: items
    by (induction ys) (auto simp: bind_eq_Raise)
  have s: "validate_string U d s = Raise e \<Longrightarrow> e = UnicodeEncodeError \<or> (\<exists>r. e = ConformanceError r)"
    for s d
    by (auto simp: validate_string_def refuse_def utf8_encode_def bind_eq_Raise split: if_splits)
  from PDict.prems consider (big) "\<exists>r. e = ConformanceError r"
    | (item) k x where "(k, x) \<in> set kvs"
        "bind (validate_string U (Suc d) k) (\<lambda>_. validate_value U (Suc d) x) = Raise e"
    by (subst (asm) validate_value.simps) (auto simp: refuse_def split: if_splits dest!: *)
  then show ?case
  proof cases
    case item
    then show ?thesis using PDict.IH [of "(k, x)" x "Suc d"] s by (auto simp: bind_eq_Raise)
  qed simp
qed (subst (asm) validate_value.simps; auto simp: refuse_def split: if_splits)+

lemma read_blocks_length:
  "length (read_blocks bs n acc) \<le> length acc + n"
  by (induction bs n acc rule: read_blocks.induct) (auto simp: Let_def)

lemma canonical_json_val:
  "canonical_bytes U v = Ret b \<Longrightarrow> wf_val v \<Longrightarrow> json_val v"
  by (auto simp: canonical_bytes_Ret intro: validate_value_json)

lemma load_json_bytes_raises:
  assumes "load_json_bytes U data = Raise e"
  shows "e = UnicodeEncodeError \<or> (\<exists>r. e = ConformanceError r)"
proof -
  have "e = UnicodeEncodeError \<or> (\<exists>r. e = ConformanceError r)"
    if "catching (\<lambda>e. is_value_error e \<or> e = TypeError) ''INVALID_JSON'' (loads data) = Raise e"
    using catching_raises [OF that] loads_raises [of data e] by auto
  with assms show ?thesis
    by (auto simp: load_json_bytes_def refuse_def bind_eq_Raise dest: validate_value_raises
        split: if_splits)
qed

lemma ordinary_canonical [simp, ordinary_intros]:
  "ordinary (validate_value U d v)" "ordinary (load_json_bytes U data)"
  "ordinary (canonical_bytes U v)" "ordinary (canonical_digest U v domain)"
  "ordinary (require_canonical_document U data)"
proof -
  show v: "ordinary (validate_value U d v)" for d v
    by (rule ordinaryI) (auto dest: validate_value_raises)
  show l: "ordinary (load_json_bytes U data)" for data
    by (rule ordinaryI) (auto dest: load_json_bytes_raises)
  show b: "ordinary (canonical_bytes U v)" for v
    unfolding canonical_bytes_def by (intro ordinary_intros v) (simp add: utf8_encode_def)
  show "ordinary (canonical_digest U v domain)"
    unfolding canonical_digest_def digest_prefix_def
    by (intro ordinary_intros b) (simp add: utf8_encode_def split: option.split)
  show "ordinary (require_canonical_document U data)"
    unfolding require_canonical_document_def by (intro ordinary_intros b l)
qed

subsection \<open>The contract of the canonical codec\<close>

text \<open>What the readers and writers of signed documents and of the replay journal rely on:
  an encoder, a decoder, the values they are used for, and one representative per value.\<close>

locale canonical_codec =
  fixes enc :: "'a \<Rightarrow> bytes outcome"
    and dec :: "bytes \<Rightarrow> 'a outcome"
    and ok :: "'a \<Rightarrow> bool"
    and norm :: "'a \<Rightarrow> 'a"
  assumes dec_enc: "ok v \<Longrightarrow> enc v = Ret b \<Longrightarrow> length b \<le> MAX_FILE_BYTES \<Longrightarrow> dec b = Ret (norm v)"
    and enc_norm: "enc v = Ret b \<Longrightarrow> enc (norm v) = Ret b"
    and dec_ok: "dec b = Ret v \<Longrightarrow> ok v"
    and dec_norm: "dec b = Ret v \<Longrightarrow> norm v = v"
begin

lemma enc_determines:
  assumes "ok v" "ok w" "enc v = Ret b" "enc w = Ret b" "length b \<le> MAX_FILE_BYTES"
  shows "norm v = norm w"
  using dec_enc [OF assms(1,3,5)] dec_enc [OF assms(2,4,5)] by simp

lemma norm_idem:
  assumes "ok v" "enc v = Ret b" "length b \<le> MAX_FILE_BYTES"
  shows "norm (norm v) = norm v"
  using dec_norm [OF dec_enc [OF assms]] .

lemma reencode:
  assumes "ok v" "enc v = Ret b" "length b \<le> MAX_FILE_BYTES"
  obtains w where "dec b = Ret w" "enc w = Ret b"
  using dec_enc [OF assms] enc_norm [OF assms(2)] by auto

end

interpretation canonical: canonical_codec "canonical_bytes U" "require_canonical_document U" wf_val canon
  for U :: ucd
proof
  show "canonical_bytes U v = Ret b \<Longrightarrow> canonical_bytes U (canon v) = Ret b" for v b
    by (simp add: canonical_bytes_Ret dumps_canon validate_value_canon)
qed (use canonical_roundtrip_tail [of U _ _ "[]"] require_canonical_bytes in auto)

subsection \<open>Properties\<close>

text \<open>C28: a value that \<open>canonical_bytes\<close> writes is read back by \<open>require_canonical_document\<close>, with
  or without one final newline, as an equal value whose members are sorted.\<close>

theorem canonical_roundtrip:
  assumes "canonical_bytes U v = Ret b" "wf_val v"
    and "length b + length tail \<le> MAX_FILE_BYTES" "tail = [] \<or> tail = [CHR 0x0A]"
  shows "require_canonical_document U (b @ tail) = Ret (canon v) \<and> py_eq (canon v) v"
  using canonical_roundtrip_tail [OF assms(1,2,4,3)] py_eq_canon canonical_json_val [OF assms(1,2)]
  by blast

theorem canonical_roundtrip_witness:
  "require_canonical_document id (''{\"a\":[true,null],\"b\":7}'' @ [CHR 0x0A])
     = Ret (PDict [(''a'', PList [PBool True, PNone]), (''b'', PInt 7)]) \<and>
   py_eq (PDict [(''a'', PList [PBool True, PNone]), (''b'', PInt 7)])
     (PDict [(''b'', PInt 7), (''a'', PList [PBool True, PNone])])"
proof -
  let ?v = "PDict [(''b'', PInt 7), (''a'', PList [PBool True, PNone])]"
  have b: "canonical_bytes id ?v = Ret ''{\"a\":[true,null],\"b\":7}''" by code_simp
  have c: "canon ?v = PDict [(''a'', PList [PBool True, PNone]), (''b'', PInt 7)]" by code_simp
  show ?thesis
    using canonical_roundtrip [OF b, of "[CHR 0x0A]"] unfolding c by (simp add: MAX_FILE_BYTES_def)
qed

text \<open>C29: what \<open>require_canonical_document\<close> accepts is exactly the canonical text of the value it
  returns, up to one final newline, and within the size bound.\<close>

theorem require_canonical_sound:
  assumes "require_canonical_document U data = Ret v"
  shows "\<exists>b. canonical_bytes U v = Ret b \<and> (data = b \<or> data = b @ [CHR 0x0A]) \<and>
             canon v = v \<and> length data \<le> MAX_FILE_BYTES"
  using require_canonical_bytes [OF assms] assms
  by (auto simp: require_canonical_Ret load_json_bytes_Ret)

theorem require_canonical_sound_witness:
  "\<exists>b. canonical_bytes id (PDict [(''a'', PInt 1)]) = Ret b \<and> (''{\"a\":1}'' = b \<or> ''{\"a\":1}'' = b @ [CHR 0x0A]) \<and>
     canon (PDict [(''a'', PInt 1)]) = PDict [(''a'', PInt 1)] \<and> length ''{\"a\":1}'' \<le> MAX_FILE_BYTES"
proof (rule require_canonical_sound)
  show "require_canonical_document id ''{\"a\":1}'' = Ret (PDict [(''a'', PInt 1)])" by code_simp
qed

text \<open>C27: equal canonical bytes come from equal values: no two different documents share the
  text that is digested and signed.\<close>

theorem canonical_injective:
  assumes "canonical_bytes U v = Ret b" "canonical_bytes U w = Ret b" "wf_val v" "wf_val w"
  shows "canon v = canon w"
  using assms
  by (intro canon_eq_if_dumps_eq canonical_json_val [of U _ b]) (auto simp: canonical_bytes_Ret)

theorem canonical_injective_witness:
  "canon (PDict [(''b'', PInt 7), (''a'', PNone)]) = canon (PDict [(''a'', PNone), (''b'', PInt 7)])"
proof (rule canonical_injective)
  show "canonical_bytes id (PDict [(''b'', PInt 7), (''a'', PNone)]) = Ret ''{\"a\":null,\"b\":7}''"
    by code_simp
  show "canonical_bytes id (PDict [(''a'', PNone), (''b'', PInt 7)]) = Ret ''{\"a\":null,\"b\":7}''"
    by code_simp
qed simp_all

text \<open>reading a document fails only with a refusal, or with \<open>UnicodeEncodeError\<close> for a string
  holding a lone surrogate.\<close>

theorem load_json_bytes_errors:
  "case load_json_bytes U data of
     Ret v \<Rightarrow> wf_val v \<and> validate_value U 0 v = Ret ()
   | Raise (ConformanceError r) \<Rightarrow> True
   | Raise e \<Rightarrow> e = UnicodeEncodeError"
  using load_json_bytes_raises [of U data]
  by (auto simp: load_json_bytes_Ret dest: loads_wf split: outcome.split exn.split)

text \<open>\<open>secure_read\<close> returns only the whole content of a regular file within the size bound,
  never through a parent component, and only from an absolute path when one is required.\<close>

theorem secure_read_sound:
  assumes "secure_read fs absolute path = Ret data"
  shows "length data \<le> MAX_FILE_BYTES \<and> ''..'' \<notin> set (path_parts path) \<and>
         (absolute \<longrightarrow> is_absolute path) \<and>
         (\<exists>f. fs path = Some f \<and> regular f \<and> length data = st_size f)"
  using assms
  by (auto simp: secure_read_def refuse_def Let_def split: if_splits option.splits)

theorem secure_read_sound_witness:
  "length ''{}'' \<le> MAX_FILE_BYTES \<and> ''..'' \<notin> set (path_parts ''/a/b'') \<and> is_absolute ''/a/b''"
proof -
  have "secure_read (\<lambda>p. Some \<lparr>regular = True, st_size = 2, blocks = [''{'', ''}'']\<rparr>) True ''/a/b''
      = Ret ''{}''" by code_simp
  from secure_read_sound [OF this] show ?thesis by blast
qed

end
