(* ===== verification/Crypto.thy ===== *)
theory Crypto
  imports Canonical
begin

text \<open>
  \<open>src/src/harness_conformance/crypto.py\<close>: the repository's own Ed25519 (affine twisted Edwards
  arithmetic on integers), unpadded base64url, and the payload that is signed.  Modular
  powers, the modular inverse \<open>pow(x, -1, m)\<close> (which raises \<open>ValueError\<close> when there is none),
  \<open>int.to_bytes\<close> (which raises \<open>OverflowError\<close>), \<open>int.from_bytes\<close> and the base64 codec are
  the interpreter's, modelled here.

  The results: the inverse and the powers are the mathematical ones, clamped scalars have
  the high bit and the cofactor, decoding a point is injective, a signature that verifies
  cannot be altered into another one with the same group element and scalar, and base64url
  is a bijection between byte strings and the texts accepted for their length.
\<close>

section \<open>Integers and bytes\<close>

fun le_int :: "bytes \<Rightarrow> nat" where
  "le_int [] = 0"
| "le_int (b # bs) = code b + 256 * le_int bs"

fun le_digits :: "nat \<Rightarrow> nat \<Rightarrow> bytes" where
  "le_digits 0 v = []"
| "le_digits (Suc n) v = char_of (v mod 256) # le_digits n (v div 256)"

definition to_bytes :: "nat \<Rightarrow> nat \<Rightarrow> bytes outcome" where
  "to_bytes v n = (if v < 256 ^ n then Ret (le_digits n v) else Raise OverflowError)"

text \<open>\<open>pow(b, e, m)\<close> by repeated squaring, and \<open>pow(a, -1, m)\<close> by the extended Euclidean loop.\<close>

function mod_pow :: "int \<Rightarrow> nat \<Rightarrow> int \<Rightarrow> int" where
  "mod_pow b e m =
     (if e = 0 then 1 mod m
      else (let h = mod_pow (b * b mod m) (e div 2) m in if odd e then b * h mod m else h))"
  by pat_completeness auto

termination
  by (relation "measure (\<lambda>(b, e, m). e)") auto

declare mod_pow.simps [simp del]

function inverse_loop :: "int \<Rightarrow> int \<Rightarrow> int \<Rightarrow> int \<Rightarrow> int outcome" where
  "inverse_loop a n b c =
     (if n = 0 then (if a = 1 then Ret b else Raise ValueError)
      else inverse_loop n (a mod n) c (b - a div n * c))"
  by pat_completeness auto

termination
  by (relation "measure (\<lambda>(a, n, b, c). nat \<bar>n\<bar>)") (auto simp: abs_mod_less)

declare inverse_loop.simps [simp del]

definition mod_inverse :: "int \<Rightarrow> int \<Rightarrow> int outcome" where
  "mod_inverse a m = bind (inverse_loop a m 1 0) (\<lambda>b. Ret (b mod m))"

section \<open>The curve\<close>

type_synonym point = "int \<times> int"

definition Q :: int where
  "Q = 2 ^ 255 - 19"

definition L :: nat where
  "L = 2 ^ 252 + 27742317777372353535851937790883648493"

definition D :: int where
  "D = - 121665 * mod_pow 121666 (nat (Q - 2)) Q mod Q"

definition I :: int where
  "I = mod_pow 2 (nat ((Q - 1) div 4)) Q"

definition IDENTITY :: point where
  "IDENTITY = (0, 1)"

definition xrecover :: "int \<Rightarrow> int" where
  "xrecover y =
     (let xx = (y * y - 1) * mod_pow (D * y * y + 1) (nat (Q - 2)) Q;
          x = mod_pow xx (nat ((Q + 3) div 8)) Q;
          x' = (if (x * x - xx) mod Q \<noteq> 0 then x * I mod Q else x)
      in if odd x' then Q - x' else x')"

definition BY :: int where
  "BY = 4 * mod_pow 5 (nat (Q - 2)) Q mod Q"

definition BX :: int where
  "BX = xrecover BY"

definition BASE :: point where
  "BASE = (BX, BY)"

definition inverse_or_zero :: "int \<Rightarrow> int outcome" where
  "inverse_or_zero d = (if d \<noteq> 0 then mod_inverse d Q else Ret 0)"

definition add :: "point \<Rightarrow> point \<Rightarrow> point outcome" where
  "add left right =
     (case (left, right) of
        ((x1, y1), (x2, y2)) \<Rightarrow>
          (let product = D * x1 * x2 * y1 * y2 mod Q in
           bind (inverse_or_zero ((1 + product) mod Q)) (\<lambda>inverse_x.
           bind (inverse_or_zero ((1 - product) mod Q)) (\<lambda>inverse_y.
             Ret ((x1 * y2 + x2 * y1) * inverse_x mod Q, (y1 * y2 + x1 * x2) * inverse_y mod Q)))))"

function scalar_loop :: "nat \<Rightarrow> point \<Rightarrow> point \<Rightarrow> point outcome" where
  "scalar_loop scalar result addend =
     (if scalar = 0 then Ret result
      else bind (if odd scalar then add result addend else Ret result) (\<lambda>result'.
           bind (add addend addend) (\<lambda>addend'. scalar_loop (scalar div 2) result' addend')))"
  by pat_completeness auto

termination
  by (relation "measure (\<lambda>(s, r, a). s)") auto

declare scalar_loop.simps [simp del]

definition scalar_mult :: "nat \<Rightarrow> point \<Rightarrow> point outcome" where
  "scalar_mult scalar p = scalar_loop scalar IDENTITY p"

text \<open>\<open>y | ((x & 1) << 255)\<close>: the coordinate \<open>y\<close> is a reduced residue, below \<open>2 ^ 255\<close>, so the
  disjunction is a sum.\<close>

definition encode_point :: "point \<Rightarrow> bytes outcome" where
  "encode_point p = (case p of (x, y) \<Rightarrow> to_bytes (nat y + (if odd x then 2 ^ 255 else 0)) 32)"

definition decode_point :: "bytes \<Rightarrow> point outcome" where
  "decode_point data =
     (if length data \<noteq> 32 then refuse ''INVALID_ED25519_POINT''
      else (let encoded = le_int data; y = int (encoded mod 2 ^ 255); sign = encoded div 2 ^ 255 in
        if Q \<le> y then refuse ''NON_CANONICAL_ED25519_POINT''
        else (let x0 = xrecover y; x = (if (if odd x0 then 1 else 0) \<noteq> sign then Q - x0 else x0) in
          bind (encode_point (x, y)) (\<lambda>again.
            if again \<noteq> data then refuse ''NON_CANONICAL_ED25519_POINT''
            else bind (scalar_mult 8 (x, y)) (\<lambda>p.
              if p = IDENTITY then refuse ''SMALL_ORDER_ED25519_POINT'' else Ret (x, y))))))"

section \<open>Signatures\<close>

definition clamp :: "bytes \<Rightarrow> bytes" where
  "clamp bs =
     bs[0 := char_of (code (bs ! 0) div 8 * 8), 31 := char_of (code (bs ! 31) mod 64 + 64)]"

definition clamped_scalar :: "bytes \<Rightarrow> nat \<times> bytes" where
  "clamped_scalar seed =
     (let digest = sha512 seed in (le_int (clamp (take 32 digest)), drop 32 digest))"

definition public_key :: "bytes \<Rightarrow> bytes outcome" where
  "public_key seed =
     (if length seed \<noteq> 32 then refuse ''INVALID_PRIVATE_KEY''
      else bind (scalar_mult (fst (clamped_scalar seed)) BASE) encode_point)"

definition sign :: "bytes \<Rightarrow> bytes \<Rightarrow> bytes outcome" where
  "sign seed message =
     (let (scalar, prefix) = clamped_scalar seed in
      bind (public_key seed) (\<lambda>encoded_public.
        (let nonce = le_int (sha512 (prefix @ message)) mod L in
         bind (bind (scalar_mult nonce BASE) encode_point) (\<lambda>encoded_r.
           (let challenge = le_int (sha512 (encoded_r @ encoded_public @ message)) mod L;
                s = (nonce + challenge * scalar) mod L
            in bind (to_bytes s 32) (\<lambda>encoded_s. Ret (encoded_r @ encoded_s)))))))"

definition verify_body :: "bytes \<Rightarrow> bytes \<Rightarrow> bytes \<Rightarrow> bool outcome" where
  "verify_body public message signature =
     (if length public \<noteq> 32 \<or> length signature \<noteq> 64 then Ret False
      else bind (decode_point public) (\<lambda>point_a.
           bind (decode_point (take 32 signature)) (\<lambda>point_r.
             (let scalar_s = le_int (drop 32 signature) in
              if L \<le> scalar_s then Ret False
              else (let challenge = le_int (sha512 (take 32 signature @ public @ message)) mod L in
                bind (scalar_mult scalar_s BASE) (\<lambda>lhs.
                bind (scalar_mult challenge point_a) (\<lambda>ca.
                bind (add point_r ca) (\<lambda>rhs. Ret (lhs = rhs)))))))))"

definition verify :: "bytes \<Rightarrow> bytes \<Rightarrow> bytes \<Rightarrow> bool outcome" where
  "verify public message signature =
     (case verify_body public message signature of
        Raise (ConformanceError _) \<Rightarrow> Ret False
      | r \<Rightarrow> r)"

section \<open>Base64url\<close>

definition b64_char :: "nat \<Rightarrow> char" where
  "b64_char n =
     (if n < 26 then char_of (65 + n) else if n < 52 then char_of (71 + n)
      else if n < 62 then char_of (n - 4) else if n = 62 then CHR ''-'' else CHR ''_'')"

text \<open>The alphabet after \<open>altchars\<close> was translated: the standard characters stay valid.\<close>

definition b64_value :: "char \<Rightarrow> nat option" where
  "b64_value c =
     (if uppercase c then Some (code c - 65) else if lowercase c then Some (code c - 71)
      else if digit c then Some (code c + 4)
      else if c = CHR ''-'' \<or> c = CHR ''+'' then Some 62
      else if c = CHR ''_'' \<or> c = CHR ''/'' then Some 63 else None)"

fun b64url_encode :: "bytes \<Rightarrow> string" where
  "b64url_encode [] = []"
| "b64url_encode [a] = [b64_char (code a div 4), b64_char (code a mod 4 * 16)]"
| "b64url_encode [a, b] =
     [b64_char (code a div 4), b64_char (code a mod 4 * 16 + code b div 16),
      b64_char (code b mod 16 * 4)]"
| "b64url_encode (a # b # c # bs) =
     b64_char (code a div 4) # b64_char (code a mod 4 * 16 + code b div 16) #
     b64_char (code b mod 16 * 4 + code c div 64) # b64_char (code c mod 64) # b64url_encode bs"

fun b64_sextets :: "nat list \<Rightarrow> bytes option" where
  "b64_sextets [] = Some []"
| "b64_sextets [p] = None"
| "b64_sextets [p, q] = Some [char_of (p * 4 + q div 16)]"
| "b64_sextets [p, q, r] = Some [char_of (p * 4 + q div 16), char_of (q mod 16 * 16 + r div 4)]"
| "b64_sextets (p # q # r # s # ns) =
     map_option (\<lambda>bs. char_of (p * 4 + q div 16) # char_of (q mod 16 * 16 + r div 4) #
       char_of (r mod 4 * 64 + s) # bs) (b64_sextets ns)"

definition b64decode :: "string \<Rightarrow> bytes outcome" where
  "b64decode s =
     (if list_all (\<lambda>c. b64_value c \<noteq> None) s then
        (case b64_sextets (map (the \<circ> b64_value) s) of None \<Rightarrow> Raise ValueError | Some bs \<Rightarrow> Ret bs)
      else Raise ValueError)"

definition b64url_decode :: "pyval \<Rightarrow> nat \<Rightarrow> bytes outcome" where
  "b64url_decode value expected_length =
     (case value of
        PStr s \<Rightarrow>
          if CHR ''='' \<in> set s then refuse ''INVALID_BASE64URL''
          else bind (catching (\<lambda>e. is_value_error e \<or> e = TypeError) ''INVALID_BASE64URL'' (b64decode s))
            (\<lambda>decoded. if length decoded \<noteq> expected_length \<or> b64url_encode decoded \<noteq> s
                       then refuse ''INVALID_BASE64URL'' else Ret decoded)
      | _ \<Rightarrow> refuse ''INVALID_BASE64URL'')"

definition signature_payload :: "ucd \<Rightarrow> string \<Rightarrow> items \<Rightarrow> string list \<Rightarrow> bytes outcome" where
  "signature_payload U domain document names =
     bind (utf8_encode domain) (\<lambda>d.
     bind (canonical_bytes U (PDict (dict_without names document))) (\<lambda>b.
       Ret (d @ [CHR 0x00] @ b)))"

section \<open>Integers and bytes: laws\<close>

lemma length_le_digits [simp]: "length (le_digits n v) = n"
  by (induction n arbitrary: v) simp_all

lemma le_int_le_digits [simp]: "v < 256 ^ n \<Longrightarrow> le_int (le_digits n v) = v"
proof (induction n arbitrary: v)
  case (Suc n)
  have "v div 256 < 256 ^ n" using Suc.prems by (simp add: less_mult_imp_div_less mult.commute)
  with Suc.IH show ?case by simp
qed simp

lemma le_digits_le_int [simp]: "le_digits (length bs) (le_int bs) = bs"
proof (induction bs)
  case (Cons b bs)
  have "code b < (256::nat)" by (rule nat_of_char_less_256)
  with Cons show ?case by simp
qed simp

lemma code_less: "code c < (256::nat)"
  by (rule nat_of_char_less_256)

lemma le_int_less: "le_int bs < 256 ^ length bs"
proof (induction bs)
  case (Cons b bs)
  define n :: nat where "n = 256 ^ length bs"
  have "le_int bs + 1 \<le> n" using Cons by (simp add: n_def)
  moreover have "code b < (256::nat)" by (rule code_less)
  ultimately have "code b + 256 * le_int bs < 256 * n" by linarith
  then show ?case by (simp add: n_def)
qed simp

lemma le_int_inject: "length a = length b \<Longrightarrow> le_int a = le_int b \<Longrightarrow> a = b"
  by (metis le_digits_le_int)

lemma mod_pow_eq: "mod_pow b e m = b ^ e mod m"
proof (induction b e m rule: mod_pow.induct)
  case (1 b e m)
  show ?case
  proof (cases "e = 0")
    case False
    define h where "h = e div 2"
    have half: "(b * b mod m) ^ h mod m = b ^ (2 * h) mod m"
      by (simp add: power_mod power_mult power2_eq_square)
    have e: "e = (if odd e then Suc (2 * h) else 2 * h)" by (simp add: h_def)
    from 1 [OF False] have "mod_pow (b * b mod m) h m = b ^ (2 * h) mod m"
      unfolding half [symmetric] by (simp add: h_def)
    with False show ?thesis
      by (subst mod_pow.simps, subst (3) e) (simp add: h_def [symmetric] Let_def mod_mult_right_eq)
  qed (simp add: mod_pow.simps)
qed

text \<open>The loop keeps two congruences with the original arguments, and the greatest common divisor.\<close>

lemma inverse_loop_sound:
  assumes "inverse_loop a n b c = Ret x" "(a - b * a0) mod m = 0" "(n - c * a0) mod m = 0"
  shows "(1 - x * a0) mod m = 0"
  using assms
proof (induction a n b c rule: inverse_loop.induct)
  case (1 a n b c)
  show ?case
  proof (cases "n = 0")
    case True
    with "1.prems" show ?thesis by (simp add: inverse_loop.simps split: if_splits)
  next
    case False
    have *: "a mod n - (b - a div n * c) * a0 = (a - b * a0) - a div n * (n - c * a0)"
      by (simp add: minus_div_mult_eq_mod [symmetric] algebra_simps)
    have "m dvd a - b * a0" "m dvd n - c * a0" using "1.prems" by (simp_all add: mod_eq_0_iff_dvd)
    then have "(a mod n - (b - a div n * c) * a0) mod m = 0"
      unfolding * mod_eq_0_iff_dvd by (rule dvd_diff [OF _ dvd_mult])
    moreover have "inverse_loop n (a mod n) c (b - a div n * c) = Ret x"
      using "1.prems"(1) False by (subst (asm) inverse_loop.simps) simp
    ultimately show ?thesis using "1.IH" False "1.prems"(3) by simp
  qed
qed

lemma inverse_loop_complete:
  assumes "0 \<le> n" "0 < n \<or> 0 \<le> a" "gcd a n = 1"
  shows "\<exists>x. inverse_loop a n b c = Ret x"
  using assms
proof (induction a n b c rule: inverse_loop.induct)
  case (1 a n b c)
  show ?case
  proof (cases "n = 0")
    case True
    with "1.prems" show ?thesis by (auto simp: inverse_loop.simps)
  next
    case False
    with "1.prems" have n: "gcd n (a mod n) = 1" "0 < n" by (simp_all add: gcd.commute gcd_red_int [symmetric])
    then have "\<exists>x. inverse_loop n (a mod n) c (b - a div n * c) = Ret x"
      by (intro "1.IH" [OF False]) auto
    with False show ?thesis unfolding inverse_loop.simps [of a n b c] by simp
  qed
qed

lemma mod_inverse_sound:
  assumes "mod_inverse a m = Ret x" "0 < m"
  shows "a * x mod m = 1 mod m" "0 \<le> x" "x < m"
proof -
  obtain y where y: "inverse_loop a m 1 0 = Ret y" and x: "x = y mod m"
    using assms(1) by (auto simp: mod_inverse_def bind_eq_Ret)
  from inverse_loop_sound [OF y, of a m] have "m dvd 1 - y * a" by (simp add: mod_eq_0_iff_dvd)
  then have "1 mod m = y * a mod m" by (simp add: mod_eq_dvd_iff)
  then show "a * x mod m = 1 mod m" by (simp add: x mod_mult_right_eq mult.commute)
  show "0 \<le> x" "x < m" using assms(2) by (simp_all add: x)
qed

lemma mod_inverse_exists: "0 < m \<Longrightarrow> coprime a m \<Longrightarrow> \<exists>x. mod_inverse a m = Ret x"
  using inverse_loop_complete [of m a 1 0] by (auto simp: mod_inverse_def bind_eq_Ret)

section \<open>Points: laws\<close>

lemma Q_pos [simp]: "0 < Q"
  by (simp add: Q_def)

lemma Q_less: "Q < 2 ^ 255"
  by (simp add: Q_def)

lemma add_reduced: "add p q = Ret (x, y) \<Longrightarrow> 0 \<le> x \<and> x < Q \<and> 0 \<le> y \<and> y < Q"
  by (auto simp: add_def Let_def bind_eq_Ret split: prod.splits)

lemma encode_point_total:
  assumes "0 \<le> y" "y < Q"
  shows "\<exists>b. encode_point (x, y) = Ret b \<and> length b = 32"
proof -
  have "nat y < 2 ^ 255" using assms Q_less by (simp add: nat_less_iff)
  then have "nat y + (if odd x then 2 ^ 255 else 0) < 256 ^ 32" by simp
  then show ?thesis by (auto simp: encode_point_def to_bytes_def)
qed

lemma decode_point_encode: "decode_point data = Ret p \<Longrightarrow> encode_point p = Ret data"
  by (auto simp: decode_point_def Let_def refuse_def bind_eq_Ret split: if_splits)

lemma verify_True:
  "verify public message signature = Ret True \<longleftrightarrow> verify_body public message signature = Ret True"
  by (auto simp: verify_def split: outcome.splits exn.splits)

lemma verify_body_True:
  assumes "verify_body public message signature = Ret True"
  shows "length public = 32" "length signature = 64" "le_int (drop 32 signature) < L"
    "\<exists>A. decode_point public = Ret A" "\<exists>R. decode_point (take 32 signature) = Ret R"
  using assms by (auto simp: verify_body_def Let_def bind_eq_Ret split: if_splits)

lemma ordinary_mod_inverse [ordinary_intros]: "ordinary (mod_inverse a m)"
proof -
  have "ordinary (inverse_loop a n b c)" for a n b c
    by (induction a n b c rule: inverse_loop.induct) (subst inverse_loop.simps, simp)
  then show ?thesis unfolding mod_inverse_def by (intro ordinary_intros)
qed

lemma ordinary_add [ordinary_intros]: "ordinary (add p q)"
  unfolding add_def Let_def inverse_or_zero_def by (intro ordinary_intros)

lemma ordinary_scalar_mult [ordinary_intros]: "ordinary (scalar_mult n p)"
proof -
  have "ordinary (scalar_loop n r a)" for n r a
  proof (induction n arbitrary: r a rule: less_induct)
    case (less n)
    show ?case
    proof (cases "n = 0")
      case False
      then have "\<And>r a. ordinary (scalar_loop (n div 2) r a)" by (intro less) simp
      then show ?thesis unfolding scalar_loop.simps [of n] by (intro ordinary_intros)
    qed (simp add: scalar_loop.simps)
  qed
  then show ?thesis by (simp add: scalar_mult_def)
qed

lemma ordinary_points [ordinary_intros]:
  "ordinary (to_bytes v n)" "ordinary (encode_point p)" "ordinary (decode_point data)"
  unfolding decode_point_def encode_point_def to_bytes_def Let_def
  by (intro ordinary_intros; simp)+

lemma ordinary_verify [simp, ordinary_intros]: "ordinary (verify public message signature)"
proof -
  have "ordinary (verify_body public message signature)"
    unfolding verify_body_def Let_def by (intro ordinary_intros)
  then show ?thesis by (auto simp: verify_def split: outcome.splits exn.splits)
qed

section \<open>Base64url: laws\<close>

lemma b64_value_char: "n < 64 \<Longrightarrow> b64_value (b64_char n) = Some n"
  by (auto simp: b64_value_def b64_char_def uppercase_def lowercase_def digit_def char_range_def
      in_range_def)

lemma b64_char_not_pad: "n < 64 \<Longrightarrow> b64_char n \<noteq> CHR ''=''"
  using b64_value_char [of n] by (auto simp: b64_value_def uppercase_def lowercase_def digit_def
      char_range_def in_range_def)

lemma b64_parts [simp]:
  "code c div 4 < (64::nat)" "code c mod 4 * 16 < (64::nat)"
  "code c mod 4 * 16 + code d div 16 < (64::nat)" "code d mod 16 * 4 < (64::nat)"
  "code d mod 16 * 4 + code e div 64 < (64::nat)" "code e mod 64 < (64::nat)"
  using code_less [of c] code_less [of d] code_less [of e] by linarith+

lemma b64_encode_alphabet: "set (b64url_encode bs) \<subseteq> b64_char ` {..<64}"
  by (induction bs rule: b64url_encode.induct) (simp_all add: image_eqI [OF refl])

lemma b64_encode_chars: "list_all (\<lambda>c. b64_value c \<noteq> None) (b64url_encode bs)"
  using b64_encode_alphabet [of bs] b64_value_char by (auto simp: list_all_iff)

lemma b64_encode_no_pad: "CHR ''='' \<notin> set (b64url_encode bs)"
  using b64_encode_alphabet [of bs] b64_char_not_pad by fastforce

lemma b64_join:
  "(q::nat) < 16 \<Longrightarrow> (p * 16 + q) div 16 = p" "(q::nat) < 4 \<Longrightarrow> (p * 4 + q) div 4 = p"
  by simp_all

lemma b64_join_code [simp]:
  "(p * 16 + code c div 16) div 16 = (p::nat)" "code c div 16 mod 16 = (code c div 16 :: nat)"
  "(p * 4 + code c div 64) div 4 = (p::nat)" "code c div 64 mod 4 = (code c div 64 :: nat)"
proof -
  have "code c div 16 < (16::nat)" "code c div 64 < (4::nat)" using code_less [of c] by linarith+
  then show "(p * 16 + code c div 16) div 16 = (p::nat)"
    "code c div 16 mod 16 = (code c div 16 :: nat)"
    "(p * 4 + code c div 64) div 4 = (p::nat)" "code c div 64 mod 4 = (code c div 64 :: nat)"
    by (simp_all only: b64_join mod_less)
qed

lemma b64_sextets_encode: "b64_sextets (map (the \<circ> b64_value) (b64url_encode bs)) = Some bs"
  by (induction bs rule: b64url_encode.induct) (simp_all add: b64_value_char)

lemma b64decode_encode [simp]: "b64decode (b64url_encode bs) = Ret bs"
  using b64_encode_chars [of bs] by (simp add: b64decode_def b64_sextets_encode)

lemma b64url_decode_encode [simp]: "b64url_decode (PStr (b64url_encode bs)) (length bs) = Ret bs"
  by (simp add: b64url_decode_def b64_encode_no_pad)

lemma b64url_decode_Ret:
  "b64url_decode v n = Ret bs \<longleftrightarrow> v = PStr (b64url_encode bs) \<and> length bs = n"
proof
  assume "b64url_decode v n = Ret bs"
  then show "v = PStr (b64url_encode bs) \<and> length bs = n"
    by (auto simp: b64url_decode_def refuse_def bind_eq_Ret split: pyval.splits if_splits)
qed auto

lemma b64decode_raises: "b64decode s = Raise e \<Longrightarrow> e = ValueError"
  by (auto simp: b64decode_def split: if_splits option.splits)

lemma b64url_decode_raises: "b64url_decode v n = Raise e \<Longrightarrow> e = ConformanceError ''INVALID_BASE64URL''"
  by (auto simp: b64url_decode_def refuse_def bind_eq_Raise catching_def
      split: pyval.splits if_splits outcome.splits exn.splits dest: b64decode_raises)

lemma ordinary_b64url_decode [simp, ordinary_intros]: "ordinary (b64url_decode v n)"
  by (rule ordinaryI) (auto dest: b64url_decode_raises)

section \<open>Scalars and payloads: laws\<close>

lemma le_int_append: "le_int (a @ b) = le_int a + 256 ^ length a * le_int b"
  by (induction a) (simp_all add: algebra_simps)

lemma le_int_clamp:
  assumes "length bs = 32"
  shows "8 dvd le_int (clamp bs)" "2 ^ 254 \<le> le_int (clamp bs)" "le_int (clamp bs) < 2 ^ 255"
proof -
  obtain b cs where bs: "bs = b # cs" and cs: "length cs = 31" using assms by (cases bs) auto
  define d where "d = cs ! 30"
  have split: "cs = take 30 cs @ [d]"
    using take_Suc_conv_app_nth [of 30 cs] cs by (simp add: d_def)
  have c: "clamp bs = char_of (code b div 8 * 8) # take 30 cs @ [char_of (code d mod 64 + 64)]"
    using cs by (simp add: clamp_def bs d_def)
      (subst (1) split, simp add: list_update_append d_def)
  have lo: "code b div 8 * 8 < (256::nat)" "code d mod 64 + 64 < (256::nat)"
    using code_less [of b] by linarith+
  have mid: "le_int (take 30 cs) < 256 ^ 30" using le_int_less [of "take 30 cs"] cs by simp
  have v: "le_int (clamp bs) = code b div 8 * 8 + 256 * (le_int (take 30 cs) + 256 ^ 30 * (code d mod 64 + 64))"
    using lo cs by (simp add: c le_int_append)
  show "8 dvd le_int (clamp bs)" unfolding v by (intro dvd_add) simp_all
  have "n < 256 \<Longrightarrow> n div 8 * 8 \<le> 248" for n :: nat by presburger
  from this [OF code_less [of b]]
  have "code d mod 64 < (64::nat)" "code b div 8 * 8 \<le> (248::nat)" by simp_all
  with mid show "2 ^ 254 \<le> le_int (clamp bs)" "le_int (clamp bs) < 2 ^ 255" unfolding v by simp_all
qed

lemma ordinary_signature_payload [simp, ordinary_intros]:
  "ordinary (signature_payload U domain document names)"
  unfolding signature_payload_def by (intro ordinary_intros) (simp add: utf8_encode_def)

lemma takeWhile_no_nul:
  "CHR 0x00 \<notin> set d \<Longrightarrow> takeWhile (\<lambda>c. c \<noteq> CHR 0x00) (d @ CHR 0x00 # b) = d"
  by (induction d) auto

lemma nul_separated:
  assumes "d @ CHR 0x00 # b = e @ CHR 0x00 # c" "CHR 0x00 \<notin> set d" "CHR 0x00 \<notin> set e"
  shows "d = e" "b = c"
  using takeWhile_no_nul [OF assms(2), of b] takeWhile_no_nul [OF assms(3), of c] assms(1) by auto

lemma wf_dict_without: "wf_val (PDict d) \<Longrightarrow> wf_val (PDict (dict_without ks d))"
  using distinct_dict_without [of d ks] by (auto simp: list_all_iff dict_without_def)

section \<open>Properties\<close>

text \<open>C31: two accepted signatures of the same message under the same key that decode to the same
  group element and have scalars equal modulo the group order are the same bytes: an accepted
  signature cannot be re-encoded into another accepted one.\<close>

theorem verify_not_malleable:
  "inj_on (\<lambda>sig. (decode_point (take 32 sig), le_int (drop 32 sig) mod L))
     {sig. verify public message sig = Ret True}"
proof (rule inj_onI)
  fix s t
  assume st: "s \<in> {sig. verify public message sig = Ret True}"
    "t \<in> {sig. verify public message sig = Ret True}"
    and eq: "(decode_point (take 32 s), le_int (drop 32 s) mod L)
      = (decode_point (take 32 t), le_int (drop 32 t) mod L)"
  then have s: "verify_body public message s = Ret True" and t: "verify_body public message t = Ret True"
    by (simp_all add: verify_True)
  note s = verify_body_True [OF s] and t = verify_body_True [OF t]
  obtain p where "decode_point (take 32 s) = Ret p" using s(5) by blast
  with eq have "encode_point p = Ret (take 32 s)" "encode_point p = Ret (take 32 t)"
    by (auto intro: decode_point_encode)
  moreover have "drop 32 s = drop 32 t"
    using eq s(2,3) t(2,3) by (intro le_int_inject) simp_all
  ultimately show "s = t" by (metis append_take_drop_id outcome.inject(2))
qed

text \<open>The secret scalar is a multiple of the cofactor with bit 254 set and nothing above it.\<close>

theorem clamped_scalar_bounds:
  "8 dvd fst (clamped_scalar seed) \<and> 2 ^ 254 \<le> fst (clamped_scalar seed) \<and>
   fst (clamped_scalar seed) < 2 ^ 255 \<and> length (snd (clamped_scalar seed)) = 32"
  using le_int_clamp [of "take 32 (sha512 seed)"] by (simp add: clamped_scalar_def Let_def)

text \<open>\<open>b64url_decode\<close> accepts for a length exactly the encodings of the byte strings of that
  length, each from one text only.\<close>

theorem b64url_bijection:
  "b64url_decode v n = Ret bs \<longleftrightarrow> v = PStr (b64url_encode bs) \<and> length bs = n"
  by (rule b64url_decode_Ret)

text \<open>a signed payload determines its domain and its document up to member order: a signature
  made for one kind of document never verifies over another.\<close>

theorem signature_payload_injective:
  assumes "signature_payload U d doc names = Ret p" "signature_payload U e doc' names' = Ret p"
    and "wf_val (PDict doc)" "wf_val (PDict doc')"
    and "CHR 0x00 \<notin> set d" "CHR 0x00 \<notin> set e"
  shows "d = e \<and> canon (PDict (dict_without names doc)) = canon (PDict (dict_without names' doc'))"
proof -
  let ?v = "PDict (dict_without names doc)" and ?w = "PDict (dict_without names' doc')"
  obtain b c where bc: "canonical_bytes U ?v = Ret b" "canonical_bytes U ?w = Ret c"
    and p: "p = d @ CHR 0x00 # b" "p = e @ CHR 0x00 # c"
    using assms(1,2) by (auto simp: signature_payload_def bind_eq_Ret utf8_encode_def split: if_splits)
  have "d = e" "b = c" using nul_separated [of d b e c] p assms(5,6) by auto
  moreover have "json_val ?v" "json_val ?w"
    using bc wf_dict_without assms(3,4) canonical_json_val by blast+
  ultimately show ?thesis using bc canon_eq_if_dumps_eq [of ?v ?w] by (simp add: canonical_bytes_Ret)
qed

theorem signature_payload_injective_witness:
  "''a'' = ''a'' \<and>
   canon (PDict (dict_without [''s''] [(''k'', PInt 1), (''s'', PNone)]))
     = canon (PDict (dict_without [''t''] [(''t'', PInt 5), (''k'', PInt 1)]))"
proof (rule signature_payload_injective [of id])
  show "signature_payload id ''a'' [(''k'', PInt 1), (''s'', PNone)] [''s'']
      = Ret (''a'' @ CHR 0x00 # ''{\"k\":1}'')" by code_simp
  show "signature_payload id ''a'' [(''t'', PInt 5), (''k'', PInt 1)] [''t'']
      = Ret (''a'' @ CHR 0x00 # ''{\"k\":1}'')" by code_simp
qed simp_all

end
