(* ===== verification/PyTime.thy ===== *)
theory PyTime
  imports PyText
begin

text \<open>
  \<open>datetime.datetime.fromisoformat\<close> of CPython 3.12, the only clock reading the program does:
  every instant it handles is text from a document, ending in \<open>Z\<close>, parsed by
  \<open>schema.require_time\<close>.  The parser follows the interpreter's reader on the UTF-8 form of
  the string, whose quirks are visible to the program: a calendar date, an ISO week date or
  a compact date; any single character between date and time; a time of hours, minutes,
  seconds and a fraction cut to microseconds; and no time zone at all when the zone's sign is
  read as the separator between date and time.

  A \<open>datetime\<close> is its local time in microseconds since the start of year 1 (shifted by one
  day) and the offset of its zone, absent for a naive one.  \<open>time_le\<close>, \<open>time_less\<close> and
  \<open>time_minus\<close> raise \<open>TypeError\<close> when a naive and an aware value meet.
\<close>

record datetime =
  local_us :: int
  utc_offset :: "int option"

definition DAY_US :: int where
  "DAY_US = 86400000000"

subsection \<open>The calendar\<close>

definition leap :: "nat \<Rightarrow> bool" where
  "leap y \<longleftrightarrow> y mod 4 = 0 \<and> (y mod 100 \<noteq> 0 \<or> y mod 400 = 0)"

definition month_days :: "nat \<Rightarrow> nat \<Rightarrow> nat" where
  "month_days y m =
     (if m = 2 then (if leap y then 29 else 28) else if m \<in> {4, 6, 9, 11} then 30 else 31)"

definition days_before_year :: "nat \<Rightarrow> nat" where
  "days_before_year y =
     (let p = y - 1 in p * 365 + p div 4 - p div 100 + p div 400)"

definition ymd_ordinal :: "nat \<Rightarrow> nat \<Rightarrow> nat \<Rightarrow> nat" where
  "ymd_ordinal y m d = days_before_year y + sum_list (map (month_days y) [1..<m]) + d"

definition max_ordinal :: nat where
  "max_ordinal = 3652059"

text \<open>The ordinal of day \<open>d\<close> of ISO week \<open>w\<close>: week 1 is the one with the year's first Thursday.\<close>

definition iso_week_ok :: "nat \<Rightarrow> nat \<Rightarrow> bool" where
  "iso_week_ok y w \<longleftrightarrow>
     (0 < w \<and> w < 53) \<or>
     (w = 53 \<and> (let f = ymd_ordinal y 1 1 mod 7 in f = 4 \<or> (f = 3 \<and> leap y)))"

definition iso_ordinal :: "nat \<Rightarrow> nat \<Rightarrow> nat \<Rightarrow> int option" where
  "iso_ordinal y w d =
     (if 1 \<le> y \<and> y \<le> 9999 \<and> iso_week_ok y w \<and> 0 < d \<and> d < 8 then
        (let f = int (ymd_ordinal y 1 1); k = (f + 6) mod 7;
             monday = f - k + (if 3 < k then 7 else 0);
             n = monday + (int w - 1) * 7 + int d - 1
         in if 1 \<le> n \<and> n \<le> int max_ordinal then Some n else None)
      else None)"

subsection \<open>Reading digits\<close>

definition peek :: "string \<Rightarrow> nat \<Rightarrow> char" where
  "peek s i = (if i < length s then s ! i else CHR 0x00)"

fun parse_digits :: "string \<Rightarrow> nat \<Rightarrow> nat \<Rightarrow> nat \<Rightarrow> nat option" where
  "parse_digits s p 0 v = Some v"
| "parse_digits s p (Suc n) v =
     (if digit (peek s p) then parse_digits s (Suc p) n (v * 10 + (code (peek s p) - 48)) else None)"

subsection \<open>The date\<close>

definition find_separator :: "string \<Rightarrow> nat option" where
  "find_separator s =
     (let n = length s in
      if n = 7 then Some 7
      else if peek s 4 = CHR ''-'' then
        (if peek s 5 = CHR ''W'' then
           (if 8 < n \<and> peek s 8 = CHR ''-'' then
              (if n = 9 then None else if 10 < n \<and> digit (peek s 10) then Some 8 else Some 10)
            else Some 8)
         else Some 10)
      else if peek s 4 = CHR ''W'' then
        (let i = 7 + length (takeWhile digit (drop 7 s)) in
         if i < 9 then Some i else if even i then Some 7 else Some 8)
      else Some 8)"

definition parse_week_date :: "string \<Rightarrow> nat \<Rightarrow> nat \<Rightarrow> bool \<Rightarrow> nat \<Rightarrow> int option" where
  "parse_week_date s n y sep p =
     (case parse_digits s (p + 1) 2 0 of
        None \<Rightarrow> None
      | Some w \<Rightarrow>
          if p + 3 < n then
            (if sep \<and> peek s (p + 3) \<noteq> CHR ''-'' then None
             else case parse_digits s (if sep then p + 4 else p + 3) 1 0 of
               None \<Rightarrow> None
             | Some d \<Rightarrow> iso_ordinal y w d)
          else iso_ordinal y w 1)"

definition parse_month_date :: "string \<Rightarrow> nat \<Rightarrow> nat \<Rightarrow> bool \<Rightarrow> nat \<Rightarrow> int option" where
  "parse_month_date s n y sep p =
     (case parse_digits s p 2 0 of
        None \<Rightarrow> None
      | Some m \<Rightarrow>
          if sep \<and> peek s (p + 2) \<noteq> CHR ''-'' then None
          else (let q = (if sep then p + 3 else p + 2) in
                case parse_digits s q 2 0 of
                  None \<Rightarrow> None
                | Some d \<Rightarrow>
                    if q + 2 = n \<and> 1 \<le> y \<and> y \<le> 9999 \<and> 1 \<le> m \<and> m \<le> 12 \<and>
                       1 \<le> d \<and> d \<le> month_days y m
                    then Some (int (ymd_ordinal y m d)) else None))"

text \<open>The ordinal of the date in the first \<open>n\<close> bytes.\<close>

definition parse_date :: "string \<Rightarrow> nat \<Rightarrow> int option" where
  "parse_date s n =
     (case parse_digits s 0 4 0 of
        None \<Rightarrow> None
      | Some y \<Rightarrow>
          (let sep = (peek s 4 = CHR ''-''); p = (if sep then 5 else 4) in
           if peek s p = CHR ''W'' then parse_week_date s n y sep p
           else parse_month_date s n y sep p))"

subsection \<open>The time\<close>

text \<open>Hours, minutes, seconds and microseconds between \<open>p\<close> and \<open>e\<close>, and whether text is left
  over.  \<open>vs\<close> holds the components read so far.\<close>

definition parse_fraction :: "string \<Rightarrow> nat \<Rightarrow> nat \<Rightarrow> (nat \<times> bool) option" where
  "parse_fraction s p e =
     (let n = min 6 (e - p) in
      case parse_digits s p n 0 of
        None \<Rightarrow> None
      | Some v \<Rightarrow>
          (let q = p + n + length (takeWhile digit (drop (p + n) s)) in
           Some (if 0 < n then v * 10 ^ (6 - n) else v, peek s q \<noteq> CHR 0x00)))"

definition pad3 :: "nat list \<Rightarrow> nat list" where
  "pad3 vs = vs @ replicate (3 - length vs) 0"

fun parse_hms :: "nat \<Rightarrow> string \<Rightarrow> nat \<Rightarrow> nat \<Rightarrow> bool \<Rightarrow> nat list \<Rightarrow> (nat list \<times> bool) option" where
  "parse_hms 0 s p e sep vs =
     map_option (\<lambda>(f, left). (vs @ [f], left)) (parse_fraction s p e)"
| "parse_hms (Suc k) s p e sep vs =
     (case parse_digits s p 2 0 of
        None \<Rightarrow> None
      | Some v \<Rightarrow>
          (let c = peek s (p + 2); q = p + 3; ws = vs @ [v];
               sep' = (if vs = [] then c = CHR '':'' else sep)
           in if e \<le> q then Some (pad3 ws @ [0], c \<noteq> CHR 0x00)
              else if sep' \<and> c = CHR '':'' then parse_hms k s q e sep' ws
              else if c = CHR ''.'' \<or> c = CHR '','' then
                map_option (\<lambda>(f, left). (pad3 ws @ [f], left)) (parse_fraction s q e)
              else if \<not> sep' then parse_hms k s (p + 2) e sep' ws
              else None))"

definition zone_start :: "string \<Rightarrow> nat" where
  "zone_start s =
     length (takeWhile (\<lambda>c. c \<noteq> CHR ''+'' \<and> c \<noteq> CHR ''-'' \<and> c \<noteq> CHR ''Z'') s)"

definition us_of :: "nat list \<Rightarrow> int" where
  "us_of vs = int (((vs ! 0 * 60 + vs ! 1) * 60 + vs ! 2) * 1000000 + vs ! 3)"

definition parse_zone :: "string \<Rightarrow> nat \<Rightarrow> int option option" where
  "parse_zone s z =
     (if peek s z = CHR ''Z'' then
        (if peek s (z + 1) = CHR 0x00 then Some (Some 0) else None)
      else case parse_hms 3 s (z + 1) (length s) True [] of
        None \<Rightarrow> None
      | Some (vs, left) \<Rightarrow>
          if left then None
          else (let off = (if peek s z = CHR ''-'' then - us_of vs else us_of vs) in
                if - DAY_US < off \<and> off < DAY_US then Some (Some off) else None))"

definition parse_time :: "string \<Rightarrow> (int \<times> int option) option" where
  "parse_time s =
     (let z = zone_start s in
      case parse_hms 3 s 0 z True [] of
        None \<Rightarrow> None
      | Some (vs, left) \<Rightarrow>
          if \<not> (vs ! 0 < 24 \<and> vs ! 1 < 60 \<and> vs ! 2 < 60) then None
          else if z = length s then (if left then None else Some (us_of vs, None))
          else map_option (\<lambda>off. (us_of vs, off)) (parse_zone s z))"

subsection \<open>The whole string\<close>

definition is_surrogate :: "string \<Rightarrow> bool" where
  "is_surrogate c \<longleftrightarrow> take 1 c = [CHR 0xED] \<and> \<not> utf8_valid c"

definition sanitize :: "string \<Rightarrow> string" where
  "sanitize s =
     (let cs = chars s in
      case filter (\<lambda>k. k < length cs \<and> is_surrogate (cs ! k)) [7, 8, 10] of
        [] \<Rightarrow> s
      | k # _ \<Rightarrow> concat (cs[k := ''T'']))"

definition char_width :: "char \<Rightarrow> nat" where
  "char_width c =
     (if code c < 128 then 1 else if in_range 224 239 c then 3 else if in_range 240 255 c then 4 else 2)"

definition fromisoformat :: "string \<Rightarrow> datetime outcome" where
  "fromisoformat text =
     (let s = sanitize text in
      if py_len text < 7 \<or> \<not> utf8_valid s then Raise ValueError
      else case find_separator s of
        None \<Rightarrow> Raise ValueError
      | Some n \<Rightarrow>
          (case parse_date s n of
             None \<Rightarrow> Raise ValueError
           | Some d \<Rightarrow>
               (let t = (if n < length s then drop (n + char_width (s ! n)) s else []) in
                if t = [] then Ret \<lparr>local_us = d * DAY_US, utc_offset = None\<rparr>
                else case parse_time t of
                  None \<Rightarrow> Raise ValueError
                | Some (us, off) \<Rightarrow> Ret \<lparr>local_us = d * DAY_US + us, utc_offset = off\<rparr>)))"

subsection \<open>Comparing\<close>

definition utc_us :: "datetime \<Rightarrow> int" where
  "utc_us t = local_us t - (case utc_offset t of None \<Rightarrow> 0 | Some off \<Rightarrow> off)"

definition is_aware :: "datetime \<Rightarrow> bool" where
  "is_aware t \<longleftrightarrow> utc_offset t \<noteq> None"

definition time_minus :: "datetime \<Rightarrow> datetime \<Rightarrow> int outcome" where
  "time_minus a b = (if is_aware a = is_aware b then Ret (utc_us a - utc_us b) else Raise TypeError)"

definition time_le :: "datetime \<Rightarrow> datetime \<Rightarrow> bool outcome" where
  "time_le a b = (if is_aware a = is_aware b then Ret (utc_us a \<le> utc_us b) else Raise TypeError)"

definition time_less :: "datetime \<Rightarrow> datetime \<Rightarrow> bool outcome" where
  "time_less a b = (if is_aware a = is_aware b then Ret (utc_us a < utc_us b) else Raise TypeError)"

lemma fromisoformat_raises: "fromisoformat s = Raise e \<Longrightarrow> e = ValueError"
  by (auto simp: fromisoformat_def Let_def split: if_splits option.splits prod.splits)

lemma time_le_True [outcome_simps]:
  "time_le a b = Ret c \<longleftrightarrow> is_aware a = is_aware b \<and> c = (utc_us a \<le> utc_us b)"
  by (auto simp: time_le_def)

lemma time_less_True [outcome_simps]:
  "time_less a b = Ret c \<longleftrightarrow> is_aware a = is_aware b \<and> c = (utc_us a < utc_us b)"
  by (auto simp: time_less_def)

lemma time_minus_Ret [outcome_simps]:
  "time_minus a b = Ret d \<longleftrightarrow> is_aware a = is_aware b \<and> d = utc_us a - utc_us b"
  by (auto simp: time_minus_def)

subsection \<open>ASCII text, and zones\<close>

lemma chars_ascii: "is_ascii s \<Longrightarrow> chars s = map (\<lambda>c. [c]) s"
proof (induction s)
  case (Cons c s)
  then have "takeWhile is_cont s = []" "dropWhile is_cont s = s"
    by (cases s; simp add: is_ascii_def is_cont_def in_range_def)+
  with Cons show ?case by (simp add: is_ascii_def)
qed simp

lemma sanitize_ascii:
  assumes "is_ascii s"
  shows "sanitize s = s"
proof -
  have "\<not> is_surrogate [c]" if "code c < 128" for c
    using that utf8_valid_ascii [of "[c]"] by (auto simp: is_surrogate_def is_ascii_def)
  then have "filter (\<lambda>k. k < length (chars s) \<and> is_surrogate (chars s ! k)) [7, 8, 10] = []"
    using assms by (auto simp: chars_ascii is_ascii_def list_all_iff filter_empty_conv)
  then show ?thesis by (simp add: sanitize_def Let_def)
qed

lemma parse_zone_aware: "parse_zone s z = Some off \<Longrightarrow> off \<noteq> None"
  by (auto simp: parse_zone_def Let_def split: if_splits option.splits)

lemma parse_time_aware: "parse_time t = Some (us, off) \<Longrightarrow> zone_start t < length t \<Longrightarrow> off \<noteq> None"
  by (auto simp: parse_time_def Let_def split: if_splits option.splits dest: parse_zone_aware)

end
