(* ===== verification/SchemaBase.thy ===== *)
theory SchemaBase
  imports Crypto PyTime
begin

text \<open>
  The shared checks of \<open>src/src/harness_conformance/schema.py\<close> (its first part: identifiers,
  digests, times, closed objects, secret-shaped names) and the enumerations of
  \<open>models.py\<close>.  Every validator of the program is built from them.

  Each check has an exact characterisation of what it accepts and raises nothing but a
  refusal; a digest computed by \<open>canonical.py\<close> is always accepted by \<open>require_digest\<close>.
\<close>

section \<open>Enumerations of models.py\<close>

datatype ResultStatus = PASS | FAIL | WARN | NOT_APPLICABLE | NOT_RUN_ENV_UNAVAILABLE

fun status_value :: "ResultStatus \<Rightarrow> string" where
  "status_value PASS = ''PASS''"
| "status_value FAIL = ''FAIL''"
| "status_value WARN = ''WARN''"
| "status_value NOT_APPLICABLE = ''NOT_APPLICABLE''"
| "status_value NOT_RUN_ENV_UNAVAILABLE = ''NOT_RUN_ENV_UNAVAILABLE''"

definition RESULT_STATES :: "string list" where
  "RESULT_STATES =
     map status_value [PASS, FAIL, WARN, NOT_APPLICABLE, NOT_RUN_ENV_UNAVAILABLE]"

definition EVIDENCE_AXES :: "string list" where
  "EVIDENCE_AXES =
     [''SOURCE'', ''UNIT'', ''CI'', ''MERGE'', ''ARTIFACT'', ''SIGNATURE'', ''DEPLOYMENT'', ''RUNTIME'',
      ''SECURITY'', ''ASSURANCE'', ''TENANT_ACCEPTANCE_CANDIDATE'', ''TENANT_ACCEPTANCE'']"

definition LIVE_EVIDENCE_AXES :: "string list" where
  "LIVE_EVIDENCE_AXES =
     [''DEPLOYMENT'', ''RUNTIME'', ''SECURITY'', ''ASSURANCE'', ''TENANT_ACCEPTANCE_CANDIDATE'']"

definition HANDLERS :: "string list" where
  "HANDLERS =
     [''STATIC_ASSERTION'', ''SCHEMA_ASSERTION'', ''LIFECYCLE_ASSERTION'', ''EVENT_ASSERTION'',
      ''ENVIRONMENT_CAPABILITY'', ''LINUX_READINESS'']"

section \<open>Fields of a dictionary\<close>

definition field :: "items \<Rightarrow> string \<Rightarrow> pyval outcome" where
  "field d k = (case map_of d k of None \<Rightarrow> Raise KeyError | Some v \<Rightarrow> Ret v)"

definition field_is :: "items \<Rightarrow> string \<Rightarrow> pyval \<Rightarrow> bool outcome" where
  "field_is d k w = bind (field d k) (\<lambda>v. Ret (py_eq v w))"

definition field_in :: "items \<Rightarrow> string \<Rightarrow> string list \<Rightarrow> bool outcome" where
  "field_in d k ws = bind (field d k) (\<lambda>v. Ret (str_in v ws))"

definition get_default :: "items \<Rightarrow> string \<Rightarrow> pyval \<Rightarrow> pyval" where
  "get_default d k v = (case map_of d k of None \<Rightarrow> v | Some x \<Rightarrow> x)"

definition keys :: "items \<Rightarrow> string set" where
  "keys d = fst ` set d"

lemma field_eq_Ret [outcome_simps]: "field d k = Ret v \<longleftrightarrow> map_of d k = Some v"
  by (simp add: field_def split: option.splits)

lemma field_Some [simp]: "map_of d k = Some v \<Longrightarrow> field d k = Ret v"
  by (simp add: field_def)

lemma field_is_eq_Ret [outcome_simps]:
  "field_is d k w = Ret b \<longleftrightarrow> (\<exists>v. map_of d k = Some v \<and> b = py_eq v w)"
  by (auto simp: field_is_def outcome_simps)

lemma field_in_eq_Ret [outcome_simps]:
  "field_in d k ws = Ret b \<longleftrightarrow> (\<exists>v. map_of d k = Some v \<and> b = str_in v ws)"
  by (auto simp: field_in_def outcome_simps)

lemma keys_map_of: "k \<in> keys d \<longleftrightarrow> (\<exists>v. map_of d k = Some v)"
  by (metis dom_map_of_conv_image_fst domIff keys_def not_None_eq)

section \<open>The checks of schema.py\<close>

definition ID :: rx where
  "ID = Seq (Cls lowercase) (Seq (Star (Cls (\<lambda>c. lowercase c \<or> digit c)))
     (Star (Seq (Cls (\<lambda>c. c = CHR ''.'' \<or> c = CHR ''-'')) (plus1 (Cls (\<lambda>c. lowercase c \<or> digit c))))))"

definition KEY_ID :: rx where
  "KEY_ID = Seq (Cls alnum)
     (up_to 127 (Cls (\<lambda>c. alnum c \<or> c = CHR ''.'' \<or> c = CHR ''_'' \<or> c = CHR '':'' \<or> c = CHR ''-'')))"

definition DIGEST :: rx where
  "DIGEST = Seq (lit ''sha256:'') (rep 64 (Cls lower_hex))"

definition PORTING_FIELDS :: "string list" where
  "PORTING_FIELDS = [''schemaVersion'', ''destinationRepository'', ''records'']"

definition SECRET_TERMS :: "string list" where
  "SECRET_TERMS = [''password'', ''apiKey'', ''api_key'', ''accessToken'', ''privateKey'', ''secret'']"

definition require_object :: "pyval \<Rightarrow> items outcome" where
  "require_object v = (case v of PDict d \<Rightarrow> Ret d | _ \<Rightarrow> refuse ''TYPE_MISMATCH'')"

definition closed :: "items \<Rightarrow> string list \<Rightarrow> string list \<Rightarrow> unit outcome" where
  "closed value required optional =
     (let present = map fst value;
          missing = filter (\<lambda>k. k \<notin> set present) required;
          extra = filter (\<lambda>k. k \<notin> set (required @ optional)) present
      in if missing \<noteq> [] then refuse ''MISSING_FIELD''
         else if extra \<noteq> [] then refuse ''UNKNOWN_FIELD'' else Ret ())"

definition require_id :: "pyval \<Rightarrow> string outcome" where
  "require_id v =
     (case v of
        PStr s \<Rightarrow> if 128 < py_len s \<or> \<not> fullmatch ID s then refuse ''INVALID_IDENTIFIER'' else Ret s
      | _ \<Rightarrow> refuse ''INVALID_IDENTIFIER'')"

definition require_key_id :: "pyval \<Rightarrow> string outcome" where
  "require_key_id v =
     (case v of
        PStr s \<Rightarrow> if \<not> fullmatch KEY_ID s then refuse ''INVALID_KEY_ID'' else Ret s
      | _ \<Rightarrow> refuse ''INVALID_KEY_ID'')"

definition require_digest :: "pyval \<Rightarrow> string outcome" where
  "require_digest v =
     (case v of
        PStr s \<Rightarrow> if \<not> fullmatch DIGEST s then refuse ''INVALID_DIGEST'' else Ret s
      | _ \<Rightarrow> refuse ''INVALID_DIGEST'')"

definition require_time :: "pyval \<Rightarrow> datetime outcome" where
  "require_time v =
     (case v of
        PStr s \<Rightarrow>
          if 40 < py_len s \<or> \<not> ends_with ''Z'' s then refuse ''INVALID_TIME''
          else catching is_value_error ''INVALID_TIME'' (fromisoformat (butlast s @ ''+00:00''))
      | _ \<Rightarrow> refuse ''INVALID_TIME'')"

definition secret_shaped :: "string \<Rightarrow> bool" where
  "secret_shaped key = list_ex (\<lambda>term. contains (lower term) (lower key)) SECRET_TERMS"

fun reject_secret_shape :: "pyval \<Rightarrow> unit outcome" where
  "reject_secret_shape (PDict kvs) =
     for_each (\<lambda>(key, x).
       if secret_shaped key then refuse ''SECRET_SHAPED_FIELD'' else reject_secret_shape x) kvs"
| "reject_secret_shape (PList xs) = for_each reject_secret_shape xs"
| "reject_secret_shape _ = Ret ()"

section \<open>What the checks accept\<close>

lemma require_object_eq_Ret [outcome_simps]: "require_object v = Ret d \<longleftrightarrow> v = PDict d"
  by (simp add: require_object_def split: pyval.splits)

lemma require_object_PDict [simp]: "require_object (PDict d) = Ret d"
  by (simp add: require_object_def)

lemma closed_eq_Ret [outcome_simps]:
  "closed d required optional = Ret u \<longleftrightarrow>
     set required \<subseteq> keys d \<and> keys d \<subseteq> set required \<union> set optional"
  by (auto simp: closed_def Let_def keys_def filter_empty_conv)

lemma require_id_eq_Ret [outcome_simps]:
  "require_id v = Ret s \<longleftrightarrow> v = PStr s \<and> py_len s \<le> 128 \<and> in_lang ID s"
  by (auto simp: require_id_def fullmatch_iff split: pyval.splits)

lemma require_key_id_eq_Ret [outcome_simps]:
  "require_key_id v = Ret s \<longleftrightarrow> v = PStr s \<and> in_lang KEY_ID s"
  by (auto simp: require_key_id_def fullmatch_iff split: pyval.splits)

lemma in_lang_DIGEST: "in_lang DIGEST s \<longleftrightarrow>
    (\<exists>h. s = ''sha256:'' @ h \<and> length h = 64 \<and> list_all lower_hex h)"
  by (auto simp: DIGEST_def in_lang_Seq)

lemma require_digest_eq_Ret [outcome_simps]:
  "require_digest v = Ret s \<longleftrightarrow> v = PStr s \<and> in_lang DIGEST s"
  by (auto simp: require_digest_def fullmatch_iff split: pyval.splits)

lemma require_time_str: "require_time v = Ret t \<Longrightarrow> \<exists>s. v = PStr s \<and> ends_with ''Z'' s"
  by (auto simp: require_time_def split: pyval.splits if_splits)

lemma byte_digest_accepted [simp]: "in_lang DIGEST (byte_digest data)"
  using hexdigest_shape [of "sha256 data"] by (auto simp: in_lang_DIGEST byte_digest_def)

lemma canonical_digest_accepted:
  "canonical_digest U v dmn = Ret x \<Longrightarrow> require_digest (PStr x) = Ret x"
  by (auto simp: outcome_simps canonical_digest_Ret)

lemma conformance_only:
  "require_object v = Raise e \<Longrightarrow> \<exists>r. e = ConformanceError r"
  "closed d req opt = Raise e \<Longrightarrow> \<exists>r. e = ConformanceError r"
  "require_id v = Raise e \<Longrightarrow> \<exists>r. e = ConformanceError r"
  "require_key_id v = Raise e \<Longrightarrow> \<exists>r. e = ConformanceError r"
  "require_digest v = Raise e \<Longrightarrow> \<exists>r. e = ConformanceError r"
  by (auto simp: require_object_def closed_def require_id_def require_key_id_def
      require_digest_def refuse_def Let_def split: pyval.splits if_splits)

lemma require_time_raises: "require_time v = Raise e \<Longrightarrow> \<exists>r. e = ConformanceError r"
  by (auto simp: require_time_def refuse_def split: pyval.splits if_splits
      dest!: catching_raises fromisoformat_raises)

text \<open>No secret-shaped member name occurs anywhere in an accepted value.\<close>

fun member_names :: "pyval \<Rightarrow> string list" where
  "member_names (PDict kvs) = concat (map (\<lambda>(k, x). k # member_names x) kvs)"
| "member_names (PList xs) = concat (map member_names xs)"
| "member_names _ = []"

lemma reject_secret_shape_Ret [outcome_simps]:
  "reject_secret_shape v = Ret u \<longleftrightarrow> list_all (\<lambda>k. \<not> secret_shaped k) (member_names v)"
proof (induction v)
  case (PDict kvs)
  then show ?case by (fastforce simp: for_each_eq_Ret refuse_def list_all_iff split: if_splits)
next
  case (PList xs)
  then show ?case by (auto simp: for_each_eq_Ret list_all_iff)
qed auto

section \<open>Ordinary failures\<close>

lemma ordinary_field [simp, ordinary_intros]:
  "ordinary (field d k)" "ordinary (field_is d k v)" "ordinary (field_in d k vs)"
  by (auto simp: field_def field_is_def field_in_def split: option.splits intro!: ordinary_intros)

lemma ordinary_checks [simp, ordinary_intros]:
  "ordinary (require_object v)" "ordinary (closed d req opt)" "ordinary (require_id v)"
  "ordinary (require_key_id v)" "ordinary (require_digest v)" "ordinary (require_time v)"
  "ordinary (reject_secret_shape v)"
proof -
  show "ordinary (reject_secret_shape v)"
    by (induction v) (auto intro!: ordinary_for_each)
qed (rule ordinaryI; use conformance_only require_time_raises in blast)+

lemma ordinary_times [simp, ordinary_intros]:
  "ordinary (time_le a b)" "ordinary (time_less a b)" "ordinary (time_minus a b)"
  by (simp_all add: time_le_def time_less_def time_minus_def)

declare reject_secret_shape.simps [simp del]

end
