(* ===== verification/LinuxShapes.thy ===== *)
theory LinuxShapes
  imports SchemaBase
begin

text \<open>
  \<open>src/src/harness_conformance/linux_readiness.py\<close>, the data it accepts: constants, the
  malformed-input boundary, and the shape checks of Linux plans, evidence records, campaign
  inventories and release trees.  Signatures and bindings are in \<open>LinuxVerify\<close>.

  The results: the boundary turns every built-in exception of a malformed input into a
  refusal; an accepted record carries the ten cases in order, each with its checks complete,
  and reports \<open>PASS\<close> for a case only when every check passed and every regression suite ran
  in full without a skip or a failure.
\<close>

section \<open>Constants\<close>

definition SCHEMA :: string where
  "SCHEMA = ''harness.planeon.ai/linux-readiness-evidence/v1alpha1''"

definition PLAN_SCHEMA :: string where
  "PLAN_SCHEMA = ''harness.planeon.ai/linux-readiness-plan/v1alpha1''"

definition DOMAIN :: string where
  "DOMAIN = ''planeon.harness-linux-readiness-evidence/v1alpha1''"

definition PACKET_DIGEST :: string where
  "PACKET_DIGEST = ''sha256:22f00544680f90a90b03420632bebf192a8c687549b519770fca5f98dd5fd6c9''"

definition ARCHITECTURES :: "string list" where
  "ARCHITECTURES = [''amd64'', ''arm64'']"

definition CASE_CHECKS :: "(string \<times> string list) list" where
  "CASE_CHECKS =
     [(''HOST_ISOLATION_NEGATIVES'',
        [''ipv4-denied'', ''ipv6-denied'', ''dns-denied'', ''loopback-denied'', ''descendants-denied'',
         ''warm-roots-hidden'', ''credentials-hidden'', ''sockets-denied'', ''packet-immutable'']),
      (''LINUX_TARGET_BUILD'',
        [''target-local-build'', ''native-dependencies'', ''linux-executable'', ''cache-pinned'',
         ''sbom-pinned'', ''no-downloads'']),
      (''FULL_PREDECESSOR_REGRESSION'',
        [''full-inventory'', ''all-suites-executed'', ''no-deselection'', ''no-skip-or-xfail'']),
      (''CONTROL_CONTAINER_STARTUP'',
        [''standalone-started'', ''health-ready'', ''no-downloads'', ''telemetry-disabled'']),
      (''POSTGRES_MIGRATION_AND_RLS'',
        [''forward-migration'', ''idempotent-migration'', ''cross-tenant-denied'', ''fixture-only'']),
      (''DURABLE_RESTART'',
        [''restart-completed'', ''records-persisted'', ''tenant-boundaries-preserved'']),
      (''ARBITRARY_NON_ROOT_UID'',
        [''arbitrary-nonroot-uid'', ''capabilities-dropped'', ''seccomp-enforced'', ''no-fixed-home'']),
      (''READ_ONLY_ROOT_FILESYSTEM'',
        [''root-read-only'', ''declared-volumes-only'', ''no-privilege-escalation'']),
      (''KUBERNETES_SMOKE'',
        [''namespace-pinned'', ''quota-pinned'', ''admission-enforced'', ''readiness-passed'',
         ''run-labelled-cleanup'']),
      (''DEFAULT_DENY_NETWORK'',
        [''undeclared-egress-denied'', ''metadata-denied'', ''proxy-only'', ''policy-not-bypassable''])]"

definition CASES :: "string list" where
  "CASES = map fst CASE_CHECKS"

definition CASE_AXES :: "string list" where
  "CASE_AXES =
     [''SECURITY'', ''DEPLOYMENT'', ''ASSURANCE'', ''RUNTIME'', ''RUNTIME'', ''RUNTIME'', ''SECURITY'',
      ''SECURITY'', ''DEPLOYMENT'', ''SECURITY'']"

definition REPOSITORIES :: "string list" where
  "REPOSITORIES = [''contracts'', ''control'', ''conformance'']"

definition IMAGES :: "string list" where
  "IMAGES = [''control'', ''postgres'', ''kubernetes'']"

definition BUILD_FIELDS :: "string list" where
  "BUILD_FIELDS = [''recipeDigest'', ''toolchainDigest'', ''cacheDigest'', ''sbomDigest'', ''logDigest'']"

definition SIGNATURES :: "string list" where
  "SIGNATURES = [''platformSignature'', ''tenantSignature'', ''capacitySignature'']"

definition AUTHORITY_FIELDS :: "string list" where
  "AUTHORITY_FIELDS =
     [''packetDigest'', ''envelopeDigest'', ''capacityDigest'', ''releaseDigest'', ''planDigest'',
      ''tenantId'', ''environmentId'', ''runNonce'', ''endpointId'', ''endpointDigest'', ''namespace'',
      ''serviceAccountSubject'', ''admissionPolicyDigest'', ''resourceQuotaDigest'']"

definition RECORD_FIELDS :: "string list" where
  "RECORD_FIELDS =
     [''schemaVersion'', ''authority'', ''target'', ''sources'', ''images'', ''build'',
      ''preflightDigest'', ''observedAt'', ''validUntil'', ''cases'', ''platformSignerKeyId'',
      ''tenantSignerKeyId'', ''capacitySignerKeyId''] @ SIGNATURES"

definition SCHEMA_V2 :: string where
  "SCHEMA_V2 = ''harness.planeon.ai/linux-readiness-evidence/v1alpha2''"

definition DOMAIN_V2 :: string where
  "DOMAIN_V2 = ''planeon.harness-linux-readiness-evidence/v1alpha2''"

definition RECORD_FIELDS_V2 :: "string list" where
  "RECORD_FIELDS_V2 = RECORD_FIELDS @ [''signers'']"

definition STATUSES :: "string list" where
  "STATUSES = [''PASS'', ''FAIL'', ''NOT_RUN_ENV_UNAVAILABLE'']"

section \<open>Checks\<close>

definition malformed_boundary :: "'a outcome \<Rightarrow> 'a outcome" where
  "malformed_boundary m = catching malformed ''LINUX_INPUT_MALFORMED'' m"

definition obj :: "pyval \<Rightarrow> string list \<Rightarrow> items outcome" where
  "obj v names = bind (require_object v) (\<lambda>d. bind (closed d names []) (\<lambda>_. Ret d))"

definition TIME :: rx where
  "TIME =
     (let d = (\<lambda>n. rep n (Cls digit)) in
      Seq (d 4) (Seq (lit ''-'') (Seq (d 2) (Seq (lit ''-'') (Seq (d 2) (Seq (lit ''T'')
     (Seq (d 2) (Seq (lit '':'') (Seq (d 2) (Seq (lit '':'') (Seq (d 2)
     (Seq (Alt One (Seq (lit ''.'') (Seq (Cls digit) (up_to 5 (Cls digit))))) (lit ''Z'')))))))))))))"

definition linux_time :: "pyval \<Rightarrow> datetime outcome" where
  "linux_time v =
     bind (require (case v of PStr s \<Rightarrow> fullmatch TIME s | _ \<Rightarrow> False) ''LINUX_TIME_INVALID'') (\<lambda>_.
       require_time v)"

definition TEXT :: rx where
  "TEXT = plus1 (Cls (\<lambda>c. alnum c \<or> c \<in> {CHR ''.'', CHR ''_'', CHR '':'', CHR ''/'', CHR ''-''}))"

definition text_value :: "pyval \<Rightarrow> nat \<Rightarrow> string outcome" where
  "text_value v maximum =
     (case v of
        PStr s \<Rightarrow>
          if 0 < py_len s \<and> py_len s \<le> maximum \<and> fullmatch TEXT s then Ret s
          else refuse ''LINUX_TEXT_INVALID''
      | _ \<Rightarrow> refuse ''LINUX_TEXT_INVALID'')"

definition integer_value :: "pyval \<Rightarrow> int \<Rightarrow> unit outcome" where
  "integer_value v minimum =
     require (case v of PInt i \<Rightarrow> minimum \<le> i \<and> i \<le> 10000000 | _ \<Rightarrow> False) ''LINUX_COUNT_INVALID''"

definition digest_map :: "pyval \<Rightarrow> string list \<Rightarrow> unit outcome" where
  "digest_map v names =
     bind (obj v names) (\<lambda>d. for_each (\<lambda>(k, x). bind (require_digest x) (\<lambda>_. Ret ())) d)"

definition COMMIT :: rx where
  "COMMIT = rep 40 (Cls lower_hex)"

definition sources :: "pyval \<Rightarrow> unit outcome" where
  "sources v =
     bind (obj v REPOSITORIES) (\<lambda>d.
       for_each (\<lambda>(_, source).
         bind (obj source [''commit'', ''treeDigest'']) (\<lambda>s.
         bind (field s ''commit'') (\<lambda>c.
         bind (require (case c of PStr h \<Rightarrow> fullmatch COMMIT h | _ \<Rightarrow> False) ''LINUX_SOURCE_INVALID'') (\<lambda>_.
         bind (field s ''treeDigest'') (\<lambda>t.
         bind (require_digest t) (\<lambda>_. Ret ())))))) d)"

definition target :: "pyval \<Rightarrow> unit outcome" where
  "target v =
     bind (obj v [''os'', ''kernel'', ''architecture'', ''hostArchitecture'', ''execution'', ''libc'']) (\<lambda>d.
     bind (requires
       (and_also (field_is d ''os'' (PStr ''linux''))
       (and_also (field_in d ''architecture'' ARCHITECTURES)
       (and_also (bind (field d ''architecture'') (field_is d ''hostArchitecture''))
                 (field_is d ''execution'' (PStr ''NATIVE'')))))
       ''LINUX_NATIVE_TARGET_REQUIRED'') (\<lambda>_.
     bind (field d ''kernel'') (\<lambda>k. bind (text_value k 128) (\<lambda>_.
     bind (field d ''libc'') (\<lambda>l. bind (text_value l 128) (\<lambda>_. Ret ()))))))"

text \<open>A regression suite of a plan: at least 83 tests are required of this repository.\<close>

definition plan_regression :: "string \<times> pyval \<Rightarrow> unit outcome" where
  "plan_regression kv =
     (case kv of (name, regression) \<Rightarrow>
       bind (obj regression [''inventoryDigest'', ''testCount'']) (\<lambda>r.
       bind (field r ''inventoryDigest'') (\<lambda>i.
       bind (require_digest i) (\<lambda>_.
       bind (field r ''testCount'') (\<lambda>n.
         integer_value n (if name = ''conformance'' then 83 else 1))))))"

definition PLAN_FIELDS :: "string list" where
  "PLAN_FIELDS =
     [''schemaVersion'', ''target'', ''sources'', ''images'', ''build'', ''preflightDigest'',
      ''endpointId'', ''namespace'', ''serviceAccountSubject'', ''regressions'', ''probes'']"

definition plan_body :: "ucd \<Rightarrow> pyval \<Rightarrow> items outcome" where
  "plan_body U v =
     bind (canonical_bytes U v) (\<lambda>_.
     bind (obj v PLAN_FIELDS) (\<lambda>d.
     bind (requires (field_is d ''schemaVersion'' (PStr PLAN_SCHEMA)) ''LINUX_PLAN_SCHEMA_INVALID'') (\<lambda>_.
     bind (bind (field d ''target'') target) (\<lambda>_.
     bind (bind (field d ''sources'') sources) (\<lambda>_.
     bind (bind (field d ''images'') (\<lambda>x. digest_map x IMAGES)) (\<lambda>_.
     bind (bind (field d ''build'') (\<lambda>x. digest_map x BUILD_FIELDS)) (\<lambda>_.
     bind (bind (field d ''preflightDigest'') require_digest) (\<lambda>_.
     bind (for_each (\<lambda>name. bind (bind (field d name) require_id) (\<lambda>_. Ret ()))
             [''endpointId'', ''namespace'']) (\<lambda>_.
     bind (bind (field d ''serviceAccountSubject'') (\<lambda>x. text_value x 256)) (\<lambda>_.
     bind (bind (field d ''regressions'') (\<lambda>x. bind (obj x REPOSITORIES) (for_each plan_regression))) (\<lambda>_.
     bind (bind (field d ''probes'') (\<lambda>x. bind (obj x CASES)
             (for_each (\<lambda>(_, probe). digest_map probe [''probeDigest'', ''commandDigest''])))) (\<lambda>_.
       Ret d))))))))))))"

definition validate_plan :: "ucd \<Rightarrow> pyval \<Rightarrow> items outcome" where
  "validate_plan U v = malformed_boundary (plan_body U v)"

definition validate_control_input :: "pyval \<Rightarrow> items outcome" where
  "validate_control_input v =
     bind (obj v [''architecture'', ''caseId'']) (\<lambda>d.
     bind (requires (and_also (field_in d ''architecture'' ARCHITECTURES) (field_in d ''caseId'' CASES))
       ''LINUX_CONTROL_INVALID'') (\<lambda>_. Ret d))"

definition linux_inventory :: pyval where
  "linux_inventory =
     PList (concat (map (\<lambda>architecture.
       map (\<lambda>(cas, axis). PDict
         [(''controlId'', PStr (architecture @ ''.'' @ dashed cas)), (''handler'', PStr ''LINUX_READINESS''),
          (''required'', PBool True), (''axis'', PStr axis),
          (''input'', PDict [(''architecture'', PStr architecture), (''caseId'', PStr cas)])])
         (zip CASES CASE_AXES)) ARCHITECTURES))"

definition validate_linux_campaign :: "ucd \<Rightarrow> items \<Rightarrow> unit outcome" where
  "validate_linux_campaign U d =
     requires
       (and_also (field_is d ''campaignId'' (PStr ''linux-baseline''))
       (and_also (field_is d ''executionClass'' (PStr ''LIVE_CAMPAIGN''))
         (bind (field d ''controls'') (\<lambda>controls.
          bind (canonical_bytes U controls) (\<lambda>a.
          bind (canonical_bytes U linux_inventory) (\<lambda>b. Ret (a = b)))))))
       ''LINUX_CAMPAIGN_INVENTORY_INVALID''"

definition linux_overall :: "pyval list \<Rightarrow> string" where
  "linux_overall statuses =
     (if py_in (PStr ''FAIL'') statuses then ''FAIL''
      else if py_in (PStr ''NOT_RUN_ENV_UNAVAILABLE'') statuses then ''NOT_RUN_ENV_UNAVAILABLE''
      else ''PASS'')"

section \<open>Evidence records\<close>

definition authority_item :: "string \<times> pyval \<Rightarrow> unit outcome" where
  "authority_item kv =
     (case kv of (name, x) \<Rightarrow>
       if ends_with ''Digest'' name then bind (require_digest x) (\<lambda>_. Ret ())
       else if name = ''serviceAccountSubject'' then bind (text_value x 256) (\<lambda>_. Ret ())
       else bind (require_id x) (\<lambda>_. Ret ()))"

definition probe_regression :: "string \<times> pyval \<Rightarrow> unit outcome" where
  "probe_regression kv =
     (case kv of (_, regression) \<Rightarrow>
       bind (obj regression [''inventoryDigest'', ''collected'', ''executed'', ''skipped'', ''failed'']) (\<lambda>r.
       bind (bind (field r ''inventoryDigest'') require_digest) (\<lambda>_.
         for_each (\<lambda>name. bind (field r name) (\<lambda>n. integer_value n 0))
           [''collected'', ''executed'', ''skipped'', ''failed''])))"

definition incomplete :: "string \<times> pyval \<Rightarrow> bool outcome" where
  "incomplete kv =
     (case kv of (_, r) \<Rightarrow>
       or_else (bind (item r ''skipped'') (\<lambda>x. Ret (truthy x)))
       (or_else (bind (item r ''failed'') (\<lambda>x. Ret (truthy x)))
         (bind (item r ''collected'') (\<lambda>c. bind (item r ''executed'') (\<lambda>e. Ret (\<not> py_eq c e))))))"

definition CASE_FIELDS :: "string list" where
  "CASE_FIELDS =
     [''caseId'', ''status'', ''observedAt'', ''runNonce'', ''probeDigest'', ''commandDigest'',
      ''outputDigest'', ''output'']"

definition case_checks :: "string \<Rightarrow> string list outcome" where
  "case_checks c = (case map_of CASE_CHECKS c of None \<Rightarrow> Raise KeyError | Some ks \<Rightarrow> Ret ks)"

definition validate_output ::
  "ucd \<Rightarrow> string \<Rightarrow> items \<Rightarrow> (items \<times> items \<times> items) outcome" where
  "validate_output U expected c =
     bind (bind (field c ''output'') (\<lambda>x. obj x [''checks'', ''regressions''])) (\<lambda>output.
     bind (case_checks expected) (\<lambda>names.
     bind (bind (field output ''checks'') (\<lambda>x. obj x names)) (\<lambda>checks.
     bind (require (list_all (\<lambda>(_, x). str_in x STATUSES) checks) ''LINUX_CHECK_STATUS_INVALID'') (\<lambda>_.
     bind (bind (field output ''regressions'') (\<lambda>x.
             obj x (if expected = ''FULL_PREDECESSOR_REGRESSION'' then REPOSITORIES else []))) (\<lambda>regressions.
     bind (for_each probe_regression regressions) (\<lambda>_.
       Ret (output, checks, regressions)))))))"

definition validate_case :: "ucd \<Rightarrow> string \<times> pyval \<Rightarrow> unit outcome" where
  "validate_case U ec =
     (case ec of (expected, cas) \<Rightarrow>
       bind (obj cas CASE_FIELDS) (\<lambda>c.
       bind (requires (and_also (field_is c ''caseId'' (PStr expected)) (field_in c ''status'' STATUSES))
         ''LINUX_CASE_INVENTORY_INVALID'') (\<lambda>_.
       bind (bind (field c ''observedAt'') linux_time) (\<lambda>_.
       bind (bind (field c ''runNonce'') require_id) (\<lambda>_.
       bind (for_each (\<lambda>name. bind (bind (field c name) require_digest) (\<lambda>_. Ret ()))
               [''probeDigest'', ''commandDigest'', ''outputDigest'']) (\<lambda>_.
       bind (validate_output U expected c) (\<lambda>(output, checks, regressions).
       bind (canonical_digest U (PDict output) (Some ''planeon.linux-probe-output/v1alpha1'')) (\<lambda>digest.
       bind (requires (field_is c ''outputDigest'' (PStr digest)) ''LINUX_OUTPUT_DIGEST_MISMATCH'') (\<lambda>_.
       bind (any_out incomplete regressions) (\<lambda>bad.
         (let statuses = map snd checks @ (if bad then [PStr ''FAIL''] else []) in
          requires (field_is c ''status'' (PStr (linux_overall statuses))) ''LINUX_FALSE_CASE_STATUS'')))))))))))"

definition validate_signer :: "items \<Rightarrow> string \<Rightarrow> unit outcome" where
  "validate_signer d role =
     bind (bind (field d (role @ ''SignerKeyId'')) require_key_id) (\<lambda>_.
     bind (bind (field d (role @ ''Signature'')) (\<lambda>s. b64url_decode s 64)) (\<lambda>_. Ret ()))"

definition evidence_body :: "ucd \<Rightarrow> pyval \<Rightarrow> items outcome" where
  "evidence_body U v =
     bind (canonical_bytes U v) (\<lambda>_.
     bind (obj v RECORD_FIELDS) (\<lambda>d.
     bind (requires (field_is d ''schemaVersion'' (PStr SCHEMA)) ''LINUX_EVIDENCE_SCHEMA_INVALID'') (\<lambda>_.
     bind (bind (field d ''authority'') (\<lambda>a. bind (obj a AUTHORITY_FIELDS) (for_each authority_item))) (\<lambda>_.
     bind (bind (field d ''target'') target) (\<lambda>_.
     bind (bind (field d ''sources'') sources) (\<lambda>_.
     bind (bind (field d ''images'') (\<lambda>x. digest_map x IMAGES)) (\<lambda>_.
     bind (bind (field d ''build'') (\<lambda>x. digest_map x BUILD_FIELDS)) (\<lambda>_.
     bind (bind (field d ''preflightDigest'') require_digest) (\<lambda>_.
     bind (bind (field d ''observedAt'') linux_time) (\<lambda>_.
     bind (bind (field d ''validUntil'') linux_time) (\<lambda>_.
     bind (for_each (validate_signer d) [''platform'', ''tenant'', ''capacity'']) (\<lambda>_.
     bind (field d ''cases'') (\<lambda>cases.
     bind (require (case cases of PList cs \<Rightarrow> length cs = length CASES | _ \<Rightarrow> False)
             ''LINUX_CASE_INVENTORY_INVALID'') (\<lambda>_.
     bind (iter_of cases) (\<lambda>cs.
     bind (for_each (validate_case U) (zip CASES cs)) (\<lambda>_. Ret d))))))))))))))))"

definition validate_linux_evidence :: "ucd \<Rightarrow> pyval \<Rightarrow> items outcome" where
  "validate_linux_evidence U v = malformed_boundary (evidence_body U v)"

definition SIGNERS :: "string list" where
  "SIGNERS = [''INDEPENDENT_PRINCIPALS'', ''SINGLE_PRINCIPAL_SEPARATED_KEYS'']"

definition validate_linux_evidence_v2 :: "ucd \<Rightarrow> pyval \<Rightarrow> items outcome" where
  "validate_linux_evidence_v2 U v =
     bind (obj v RECORD_FIELDS_V2) (\<lambda>original.
     bind (requires (field_is original ''schemaVersion'' (PStr SCHEMA_V2)) ''LINUX_EVIDENCE_SCHEMA_INVALID'') (\<lambda>_.
     bind (requires (field_in original ''signers'' SIGNERS) ''LINUX_SIGNERS_INVALID'') (\<lambda>_.
     bind (validate_linux_evidence U
             (PDict (dict_set (dict_without [''signers''] original) ''schemaVersion'' (PStr SCHEMA)))) (\<lambda>_.
       Ret original))))"

section \<open>Release trees\<close>

definition release_entry :: "pyval \<Rightarrow> string outcome" where
  "release_entry entry =
     bind (obj entry [''path'', ''mode'', ''size'', ''sha256'']) (\<lambda>e.
     bind (bind (field e ''path'') (\<lambda>p. text_value p 1024)) (\<lambda>path.
     bind (require (\<not> starts_with ''/'' path \<and>
             list_all (\<lambda>part. part \<notin> {[], ''.'', ''..''}) (split_on CHR ''/'' path))
             ''LINUX_RELEASE_PATH_INVALID'') (\<lambda>_.
     bind (requires (field_in e ''mode'' [''0444'', ''0555'']) ''LINUX_RELEASE_MODE_INVALID'') (\<lambda>_.
     bind (bind (field e ''size'') (\<lambda>n. integer_value n 0)) (\<lambda>_.
     bind (bind (field e ''sha256'') require_digest) (\<lambda>_. Ret path))))))"

definition release_plan :: "ucd \<Rightarrow> pyval \<Rightarrow> bytes \<Rightarrow> items \<Rightarrow> string \<Rightarrow> items outcome" where
  "release_plan U release plan_bytes envelope architecture =
     bind (obj release [''schemaVersion'', ''campaignId'', ''campaignDefinitionDigest'', ''kitDigest'',
             ''bundleDigest'', ''endpointPolicyDigests'', ''tree'']) (\<lambda>r.
     bind (requires (field_is r ''schemaVersion'' (PStr ''harness.planeon.ai/campaign-release/v1alpha1''))
             ''LINUX_RELEASE_INVALID'') (\<lambda>_.
     bind (for_each (\<lambda>(key, other).
             requires (bind (field r key) (\<lambda>x. bind (field envelope other) (\<lambda>y. Ret (py_eq x y))))
               ''LINUX_RELEASE_BINDING_MISMATCH'')
             [(''campaignId'', ''campaignId''), (''campaignDefinitionDigest'', ''campaignDefinitionDigest''),
              (''kitDigest'', ''conformanceKitDigest''), (''bundleDigest'', ''bundleDigest'')]) (\<lambda>_.
     bind (field r ''tree'') (\<lambda>tree.
     bind (require (case tree of PList es \<Rightarrow> 0 < length es \<and> length es \<le> 4096 | _ \<Rightarrow> False)
             ''LINUX_RELEASE_TREE_INVALID'') (\<lambda>_.
     bind (iter_of tree) (\<lambda>entries.
     bind (map_out release_entry entries) (\<lambda>names.
     bind (require (names = sort (remdups names)) ''LINUX_RELEASE_TREE_INVALID'') (\<lambda>_.
     bind (requires (bind (canonical_digest U tree (Some ''planeon.harness-live-tree/v1alpha1''))
             (\<lambda>x. field_is r ''kitDigest'' (PStr x))) ''LINUX_RELEASE_TREE_DIGEST_MISMATCH'') (\<lambda>_.
       (let path = ''campaigns/platform/linux-baseline/inputs/'' @ architecture @ ''.json'';
            matches = map fst (filter (\<lambda>(_, n). n = path) (zip entries names))
        in bind (requires
             (case matches of
                [m] \<Rightarrow> and_also (item_is m ''sha256'' (PStr (byte_digest plan_bytes)))
                         (item_is m ''size'' (PInt (int (length plan_bytes))))
              | _ \<Rightarrow> Ret False) ''LINUX_PLAN_NOT_RELEASE_BOUND'') (\<lambda>_.
           bind (require_canonical_document U plan_bytes) (validate_plan U))))))))))))"

section \<open>What is accepted\<close>

lemma malformed_boundary_Ret [outcome_simps]: "malformed_boundary m = Ret a \<longleftrightarrow> m = Ret a"
  by (simp add: malformed_boundary_def outcome_simps)

lemma obj_eq_Ret [outcome_simps]: "obj v names = Ret d \<longleftrightarrow> v = PDict d \<and> keys d = set names"
  by (auto simp: obj_def outcome_simps)

lemma integer_value_eq_Ret [outcome_simps]:
  "integer_value v m = Ret u \<longleftrightarrow> (\<exists>i. v = PInt i \<and> m \<le> i \<and> i \<le> 10000000)"
  by (auto simp: integer_value_def split: pyval.splits)

lemma text_value_eq_Ret [outcome_simps]:
  "text_value v n = Ret s \<longleftrightarrow> v = PStr s \<and> 0 < py_len s \<and> py_len s \<le> n \<and> in_lang TEXT s"
  by (auto simp: text_value_def fullmatch_iff split: pyval.splits)

lemma linux_overall_PASS:
  "linux_overall xs = ''PASS'' \<longleftrightarrow> PStr ''FAIL'' \<notin> set xs \<and> PStr ''NOT_RUN_ENV_UNAVAILABLE'' \<notin> set xs"
  by (auto simp: linux_overall_def py_in_def list_ex_iff)

section \<open>Ordinary failures\<close>

lemma ordinary_linux_checks [simp, ordinary_intros]:
  "ordinary (obj v names)" "ordinary (linux_time v)" "ordinary (text_value v n)"
  "ordinary (integer_value v i)"
  unfolding obj_def linux_time_def text_value_def integer_value_def
  by (auto split: pyval.split intro!: ordinary_intros)

lemma ordinary_linux_parts [simp, ordinary_intros]:
  "ordinary (digest_map v names)" "ordinary (sources v)" "ordinary (target v)"
  "ordinary (plan_regression kv)" "ordinary (validate_control_input v)"
  "ordinary (validate_linux_campaign U d)" "ordinary (authority_item kv)"
  "ordinary (probe_regression kv)" "ordinary (incomplete kv)" "ordinary (validate_signer d role)"
  unfolding digest_map_def sources_def target_def plan_regression_def validate_control_input_def
    validate_linux_campaign_def authority_item_def probe_regression_def incomplete_def
    validate_signer_def
  by (intro ordinary_intros)+

lemma ordinary_plan_body [simp, ordinary_intros]: "ordinary (plan_body U v)"
  unfolding plan_body_def by (intro ordinary_intros)

lemma ordinary_case_checks [simp, ordinary_intros]: "ordinary (case_checks c)"
  by (simp add: case_checks_def split: option.split)

lemma ordinary_validate_case [simp, ordinary_intros]: "ordinary (validate_case U ec)"
  unfolding validate_case_def validate_output_def Let_def by (intro ordinary_intros)

lemma ordinary_evidence_body [simp, ordinary_intros]: "ordinary (evidence_body U v)"
  unfolding evidence_body_def by (intro ordinary_intros)

lemma ordinary_boundary [simp, ordinary_intros]: "ordinary m \<Longrightarrow> ordinary (malformed_boundary m)"
  unfolding malformed_boundary_def by (rule ordinary_catching)

lemma ordinary_validators [simp, ordinary_intros]:
  "ordinary (validate_plan U v)" "ordinary (validate_linux_evidence U v)"
  "ordinary (validate_linux_evidence_v2 U v)" "ordinary (release_entry e)"
  unfolding validate_plan_def validate_linux_evidence_def validate_linux_evidence_v2_def
    release_entry_def
  by (intro ordinary_intros)+

lemma boundary_refuses:
  "ordinary m \<Longrightarrow> malformed_boundary m = Raise e \<Longrightarrow> \<exists>r. e = ConformanceError r"
  unfolding malformed_boundary_def by (rule catching_malformed)

section \<open>Linux times are aware\<close>

text \<open>The Linux time format always carries its zone, so two of its times can always be compared.\<close>

definition time_char :: "char \<Rightarrow> bool" where
  "time_char c \<longleftrightarrow> digit c \<or> c = CHR '':'' \<or> c = CHR ''.''"

lemma digits_time_chars: "list_all digit s \<Longrightarrow> list_all time_char s"
  by (auto simp: list_all_iff time_char_def)

lemma digit_ascii: "digit c \<Longrightarrow> code c < 128"
  by (simp add: digit_def char_range_def in_range_def)

lemma TIME_shape:
  assumes "in_lang TIME s"
  obtains y m d r where "s = y @ ''-'' @ m @ ''-'' @ d @ ''T'' @ r @ ''Z''"
    "length y = 4" "length m = 2" "length d = 2" "list_all digit (y @ m @ d)" "list_all time_char r" "r \<noteq> []"
proof -
  from assms obtain y m d h mi sec f where s: "s = y @ ''-'' @ m @ ''-'' @ d @ ''T'' @ h @ '':'' @ mi @ '':'' @ sec @ f @ ''Z''"
    and len: "length y = 4" "length m = 2" "length d = 2" "length h = 2"
    and digs: "list_all digit y" "list_all digit m" "list_all digit d" "list_all digit h" "list_all digit mi" "list_all digit sec"
    and f: "f = [] \<or> (\<exists>a g. f = CHR ''.'' # a # g \<and> digit a \<and> list_all digit g)"
    unfolding TIME_def Let_def by (auto simp: in_lang_Seq) (metis append_Nil2)
  have "list_all time_char (h @ '':'' @ mi @ '':'' @ sec @ f)"
    using digs f by (auto simp: digits_time_chars) (auto simp: time_char_def digits_time_chars)
  moreover have "h \<noteq> []" using len(4) by auto
  ultimately show ?thesis using that [of y m d "h @ '':'' @ mi @ '':'' @ sec @ f"] s len digs by simp
qed

lemma linux_time_aware:
  assumes "linux_time v = Ret t"
  shows "is_aware t"
proof -
  from assms obtain s where v: "v = PStr s" and lang: "in_lang TIME s" and time: "require_time v = Ret t"
    by (auto simp: linux_time_def bind_eq_Ret fullmatch_iff split: pyval.splits)
  obtain y m d r where s: "s = y @ ''-'' @ m @ ''-'' @ d @ ''T'' @ r @ ''Z''"
    and len: "length y = 4" "length m = 2" "length d = 2" and digs: "list_all digit (y @ m @ d)"
    and r: "list_all time_char r" "r \<noteq> []"
    using lang by (rule TIME_shape)
  define u where "u = y @ ''-'' @ m @ ''-'' @ d @ ''T'' @ r @ ''+00:00''"
  have u: "fromisoformat u = Ret t"
    using time by (auto simp: v s u_def require_time_def butlast_append catching_eq_Ret split: if_splits)
  have "is_ascii u"
    using digs r by (auto simp: u_def is_ascii_def list_all_iff time_char_def dest!: bspec digit_ascii)
  moreover obtain m0 m1 where m: "m = [m0, m1]" using len(2) by (auto simp: numeral_eq_Suc length_Suc_conv)
  moreover have "m0 \<noteq> CHR ''W''" using digs m by (auto simp: digit_def char_range_def in_range_def)
  ultimately have sep: "sanitize u = u" "find_separator u = Some 10" "drop 11 u = r @ ''+00:00''" "u ! 10 = CHR ''T''"
    using len by (auto simp: sanitize_ascii find_separator_def peek_def u_def nth_append Let_def)
  have "zone_start (r @ ''+00:00'') < length (r @ ''+00:00'')"
    using length_takeWhile_le [of "\<lambda>c. c \<noteq> CHR ''+'' \<and> c \<noteq> CHR ''-'' \<and> c \<noteq> CHR ''Z''" r]
    by (auto simp: zone_start_def takeWhile_append)
  then show ?thesis
    using u sep len
    by (auto simp: fromisoformat_def Let_def char_width_def is_aware_def u_def split: if_splits option.splits
        dest: parse_time_aware)
qed

section \<open>Honest evidence\<close>

text \<open>The members of a case's output, and what its status must say of them.\<close>

definition output_part :: "pyval \<Rightarrow> string \<Rightarrow> items" where
  "output_part c k =
     (case bind (item c ''output'') (\<lambda>x. item x k) of Ret (PDict d) \<Rightarrow> d | _ \<Rightarrow> [])"

definition suite_complete :: "string \<times> pyval \<Rightarrow> bool" where
  "suite_complete kv =
     (case kv of (_, r) \<Rightarrow>
        item r ''skipped'' = Ret (PInt 0) \<and> item r ''failed'' = Ret (PInt 0) \<and>
        item r ''collected'' = item r ''executed'')"

definition case_honest :: "string \<Rightarrow> pyval \<Rightarrow> bool" where
  "case_honest expected c \<longleftrightarrow>
     item c ''caseId'' = Ret (PStr expected) \<and>
     map_option set (map_of CASE_CHECKS expected) = Some (keys (output_part c ''checks'')) \<and>
     (if item c ''status'' = Ret (PStr ''PASS'')
      then list_all (\<lambda>(_, x). x = PStr ''PASS'') (output_part c ''checks'') \<and>
           list_all suite_complete (output_part c ''regressions'')
      else True)"

definition evidence_honest :: "items \<Rightarrow> bool" where
  "evidence_honest d =
     (case map_of d ''cases'' of Some (PList cs) \<Rightarrow> list_all2 case_honest CASES cs | _ \<Rightarrow> False)"

lemma suite_completeI:
  assumes "probe_regression kv = Ret ()" "incomplete kv = Ret False"
  shows "suite_complete kv"
proof -
  obtain name r where kv: "kv = (name, PDict r)"
    using assms(1) by (cases kv) (auto simp: probe_regression_def outcome_simps)
  have ints: "\<forall>k \<in> set [''collected'', ''executed'', ''skipped'', ''failed'']. \<exists>i. map_of r k = Some (PInt i)"
    using assms(1) by (auto simp: kv probe_regression_def outcome_simps)
  with assms(2) show ?thesis
    by (auto simp: kv incomplete_def suite_complete_def outcome_simps item_def split: option.splits)
qed

lemma validate_output_parts:
  assumes "validate_output U expected c = Ret (outp, checks, regressions)"
  shows "output_part (PDict c) ''checks'' = checks" "output_part (PDict c) ''regressions'' = regressions"
    "map_option set (map_of CASE_CHECKS expected) = Some (keys checks)"
    "list_all (\<lambda>(_, x). str_in x STATUSES) checks" "for_each probe_regression regressions = Ret ()"
  using assms
  by (auto simp: validate_output_def output_part_def case_checks_def outcome_simps
      split: option.splits if_splits)

lemma validate_case_honest:
  assumes "validate_case U (expected, c) = Ret ()"
  shows "case_honest expected c"
proof -
  from assms obtain d outp checks regressions bad where c: "c = PDict d"
    and id: "map_of d ''caseId'' = Some (PStr expected)"
    and parts: "validate_output U expected d = Ret (outp, checks, regressions)"
    and bad: "any_out incomplete regressions = Ret bad"
    and status: "map_of d ''status''
      = Some (PStr (linux_overall (map snd checks @ (if bad then [PStr ''FAIL''] else []))))"
    by (auto simp: validate_case_def Let_def outcome_simps split: prod.splits)
  note p = validate_output_parts [OF parts]
  have "list_all (\<lambda>(_, x). x = PStr ''PASS'') checks \<and> list_all suite_complete regressions"
    if "linux_overall (map snd checks @ (if bad then [PStr ''FAIL''] else [])) = ''PASS''"
  proof
    from that have ok: "\<not> bad" "PStr ''FAIL'' \<notin> snd ` set checks"
      "PStr ''NOT_RUN_ENV_UNAVAILABLE'' \<notin> snd ` set checks"
      by (auto simp: linux_overall_PASS split: if_splits)
    show "list_all (\<lambda>(_, x). x = PStr ''PASS'') checks"
      using p(4) ok(2,3) by (fastforce simp: list_all_iff STATUSES_def image_iff)
    show "list_all suite_complete regressions"
      using p(5) bad ok(1) by (auto simp: list_all_iff outcome_simps intro: suite_completeI)
  qed
  with id status p(1-3) show ?thesis by (auto simp: case_honest_def c)
qed

lemma evidence_body_cases:
  assumes "evidence_body U v = Ret d"
  obtains cs where "map_of d ''cases'' = Some (PList cs)" "length cs = length CASES"
    "for_each (validate_case U) (zip CASES cs) = Ret ()"
  using assms by (auto simp: evidence_body_def outcome_simps)

lemma evidence_body_honest:
  assumes "evidence_body U v = Ret d"
  shows "evidence_honest d"
proof -
  obtain cs where cs: "map_of d ''cases'' = Some (PList cs)" "length cs = length CASES"
    "for_each (validate_case U) (zip CASES cs) = Ret ()"
    using assms by (rule evidence_body_cases)
  then have "case_honest e c" if "(e, c) \<in> set (zip CASES cs)" for e c
    using that by (auto simp: outcome_simps intro: validate_case_honest [of U])
  with cs show ?thesis by (auto simp: evidence_honest_def list_all2_iff)
qed

section \<open>Properties\<close>

text \<open>C36: an accepted Linux record holds the ten cases in order, each with exactly its checks, and
  a case says \<open>PASS\<close> only when every check passed and every regression suite ran completely,
  without a skip or a failure; any malformed input is refused, no other exception escapes.\<close>

theorem linux_evidence_honest:
  "case validate_linux_evidence U v of
     Ret d \<Rightarrow> evidence_honest d
   | Raise e \<Rightarrow> \<exists>r. e = ConformanceError r"
  using boundary_refuses [OF ordinary_evidence_body, of U v] evidence_body_honest [of U v]
  by (auto simp: validate_linux_evidence_def outcome_simps split: outcome.split)

end
