(* ===== verification/Schema.thy ===== *)
theory Schema
  imports LinuxShapes
begin

text \<open>
  \<open>src/src/harness_conformance/schema.py\<close>: the validators of environment intakes, campaigns,
  control results and the porting ledger, and the dispatch on the document kind.

  An accepted campaign has distinct controls and can originate only the axes of its
  execution class; the checks of an environment intake never fail otherwise than by a
  refusal.
\<close>

section \<open>Validators\<close>

definition capability_state :: "pyval \<Rightarrow> bool" where
  "capability_state state = py_in state [PBool True, PBool False, PNone]"

definition validate_environment :: "pyval \<Rightarrow> items outcome" where
  "validate_environment document =
     bind (require_object document) (\<lambda>d.
     bind (closed d [''schemaVersion'', ''environmentId'', ''tenantId'', ''capturedAt'', ''capabilities''] []) (\<lambda>_.
     bind (requires (field_is d ''schemaVersion'' (PStr ''harness.planeon.ai/environment-intake/v1alpha1''))
             ''UNSUPPORTED_SCHEMA'') (\<lambda>_.
     bind (bind (field d ''environmentId'') require_id) (\<lambda>_.
     bind (bind (field d ''tenantId'') require_id) (\<lambda>_.
     bind (bind (field d ''capturedAt'') require_time) (\<lambda>_.
     bind (bind (field d ''capabilities'') require_object) (\<lambda>capabilities.
     bind (require (length capabilities \<le> 128) ''COLLECTION_TOO_LARGE'') (\<lambda>_.
     bind (for_each (\<lambda>(name, state).
             bind (require_id (PStr name)) (\<lambda>_. require (capability_state state) ''INVALID_CAPABILITY''))
             capabilities) (\<lambda>_.
     bind (reject_secret_shape (PDict d)) (\<lambda>_. Ret d))))))))))"

definition SEMVER :: rx where
  "SEMVER = Seq (plus1 (Cls digit)) (Seq (lit ''.'') (Seq (plus1 (Cls digit))
     (Seq (lit ''.'') (plus1 (Cls digit)))))"

definition fixture_ok :: "pyval \<Rightarrow> bool" where
  "fixture_ok v =
     (case v of
        PStr s \<Rightarrow> \<not> starts_with ''/'' s \<and> ''..'' \<notin> set (split_on CHR ''/'' s) \<and> ends_with ''.json'' s
      | _ \<Rightarrow> False)"

definition linux_control_scope :: "items \<Rightarrow> items \<Rightarrow> bool outcome" where
  "linux_control_scope campaign control =
     and_also (field_is campaign ''executionClass'' (PStr ''LIVE_CAMPAIGN''))
     (and_also (field_in control ''axis'' [''DEPLOYMENT'', ''RUNTIME'', ''SECURITY'', ''ASSURANCE''])
       (bind (field control ''required'') (\<lambda>r. Ret (r = PBool True))))"

definition validate_control :: "items \<Rightarrow> string list \<Rightarrow> pyval \<Rightarrow> string list outcome" where
  "validate_control campaign seen c =
     bind (require_object c) (\<lambda>control.
     bind (closed control [''controlId'', ''handler'', ''required'', ''axis'', ''input''] []) (\<lambda>_.
     bind (bind (field control ''controlId'') require_id) (\<lambda>control_id.
     bind (require (control_id \<notin> set seen) ''DUPLICATE_CONTROL'') (\<lambda>_.
     bind (requires (field_in control ''handler'' HANDLERS) ''INVALID_HANDLER'') (\<lambda>_.
     bind (requires (bind (field control ''required'') (\<lambda>r. Ret (is_bool r))) ''INVALID_REQUIRED'') (\<lambda>_.
     bind (requires (field_in control ''axis'' EVIDENCE_AXES) ''INVALID_AXIS'') (\<lambda>_.
     bind (bind (field control ''input'') require_object) (\<lambda>_.
     bind (field_is control ''handler'' (PStr ''LINUX_READINESS'')) (\<lambda>linux.
     bind (if linux then
             bind (bind (field control ''input'') validate_control_input) (\<lambda>_.
               requires (linux_control_scope campaign control) ''LINUX_CONTROL_SCOPE_INVALID'')
           else Ret ()) (\<lambda>_.
       Ret (seen @ [control_id])))))))))))"

definition validate_campaign :: "ucd \<Rightarrow> pyval \<Rightarrow> items outcome" where
  "validate_campaign U document =
     bind (require_object document) (\<lambda>d.
     bind (closed d [''schemaVersion'', ''campaignId'', ''version'', ''description'', ''executionClass'',
             ''environmentFixture'', ''controls''] []) (\<lambda>_.
     bind (requires (field_is d ''schemaVersion'' (PStr ''harness.planeon.ai/conformance-campaign/v1alpha1''))
             ''UNSUPPORTED_SCHEMA'') (\<lambda>_.
     bind (bind (field d ''campaignId'') require_id) (\<lambda>_.
     bind (requires (bind (field d ''version'') (\<lambda>v.
             Ret (case v of PStr s \<Rightarrow> fullmatch SEMVER s | _ \<Rightarrow> False))) ''INVALID_VERSION'') (\<lambda>_.
     bind (requires (bind (field d ''description'') (\<lambda>v.
             Ret (case v of PStr s \<Rightarrow> 1 \<le> py_len s \<and> py_len s \<le> 512 | _ \<Rightarrow> False))) ''INVALID_DESCRIPTION'') (\<lambda>_.
     bind (requires (field_in d ''executionClass'' [''OFFLINE_TEST'', ''LIVE_CAMPAIGN''])
             ''INVALID_EXECUTION_CLASS'') (\<lambda>_.
     bind (requires (bind (field d ''environmentFixture'') (\<lambda>v. Ret (fixture_ok v)))
             ''INVALID_FIXTURE_REFERENCE'') (\<lambda>_.
     bind (field d ''controls'') (\<lambda>cv.
     bind (require (case cv of PList cs \<Rightarrow> cs \<noteq> [] \<and> length cs \<le> 512 | _ \<Rightarrow> False) ''INVALID_CONTROLS'') (\<lambda>_.
     bind (iter_of cv) (\<lambda>controls.
     bind (fold_out (validate_control d) [] controls) (\<lambda>_.
     bind (requires (py_not (and_also (field_is d ''executionClass'' (PStr ''OFFLINE_TEST''))
             (any_out (\<lambda>c. py_not (item_is c ''axis'' (PStr ''UNIT''))) controls)))
             ''OFFLINE_AXIS_ESCALATION'') (\<lambda>_.
     bind (requires (py_not (and_also (field_is d ''executionClass'' (PStr ''LIVE_CAMPAIGN''))
             (any_out (\<lambda>c. bind (item c ''axis'') (\<lambda>a. Ret (\<not> str_in a LIVE_EVIDENCE_AXES))) controls)))
             ''LIVE_AXIS_ESCALATION'') (\<lambda>_.
     bind (or_else (field_is d ''campaignId'' (PStr ''linux-baseline''))
             (any_out (\<lambda>c. item_is c ''handler'' (PStr ''LINUX_READINESS'')) controls)) (\<lambda>linux.
     bind (if linux then validate_linux_campaign U d else Ret ()) (\<lambda>_.
     bind (reject_secret_shape (PDict d)) (\<lambda>_. Ret d)))))))))))))))))"

text \<open>\<open>value["reasonCode"].lower()\<close> exists only on strings; on \<open>bytes\<close> the text arguments of
  \<open>replace\<close> are a \<open>TypeError\<close>.\<close>

definition reason_as_id :: "pyval \<Rightarrow> string outcome" where
  "reason_as_id v =
     (case v of
        PStr s \<Rightarrow> require_id (PStr (dashed s))
      | PBytes _ \<Rightarrow> Raise TypeError
      | _ \<Rightarrow> Raise AttributeError)"

definition validate_result :: "pyval \<Rightarrow> items outcome" where
  "validate_result document =
     bind (require_object document) (\<lambda>d.
     bind (closed d [''axis'', ''controlId'', ''handler'', ''observationDigest'', ''reasonCode'',
             ''required'', ''status''] []) (\<lambda>_.
     bind (bind (field d ''controlId'') require_id) (\<lambda>_.
     bind (requires (field_in d ''handler'' HANDLERS) ''INVALID_HANDLER'') (\<lambda>_.
     bind (requires (field_in d ''axis'' EVIDENCE_AXES) ''INVALID_AXIS'') (\<lambda>_.
     bind (bind (field d ''observationDigest'') require_digest) (\<lambda>_.
     bind (bind (field d ''reasonCode'') reason_as_id) (\<lambda>_.
     bind (requires (bind (field d ''required'') (\<lambda>r. Ret (is_bool r))) ''INVALID_REQUIRED'') (\<lambda>_.
     bind (requires (field_in d ''status'' RESULT_STATES) ''INVALID_RESULT'') (\<lambda>_. Ret d)))))))))"

definition validate_porting :: "pyval \<Rightarrow> items outcome" where
  "validate_porting document =
     bind (require_object document) (\<lambda>d.
     bind (closed d PORTING_FIELDS []) (\<lambda>_.
     bind (requires (field_is d ''schemaVersion'' (PStr ''harness.planeon.ai/porting-ledger/v1alpha1''))
             ''UNSUPPORTED_SCHEMA'') (\<lambda>_.
     bind (requires (field_is d ''destinationRepository'' (PStr ''mas-harness-conformance-labs''))
             ''WRONG_DESTINATION'') (\<lambda>_.
     bind (field d ''records'') (\<lambda>records.
     bind (require (case records of PList rs \<Rightarrow> length rs = 1 | _ \<Rightarrow> False) ''PORTING_NOT_INERT'') (\<lambda>_.
     bind (iter_of records) (\<lambda>rs.
     bind (require_object (hd rs)) (\<lambda>record.
     bind (closed record [''disposition'', ''reason''] []) (\<lambda>_.
     bind (requires (field_is record ''disposition'' (PStr ''NO_AUTHORIZATION'')) ''COPY_NOT_AUTHORIZED'') (\<lambda>_.
     bind (requires (bind (field record ''reason'') (\<lambda>r. Ret (case r of PStr s \<Rightarrow> s \<noteq> [] | _ \<Rightarrow> False)))
             ''INVALID_REASON'') (\<lambda>_. Ret d)))))))))))"

definition validate :: "ucd \<Rightarrow> pyval \<Rightarrow> pyval \<Rightarrow> items outcome" where
  "validate U kind document =
     (if kind = PStr ''linux-readiness-evidence'' then validate_linux_evidence U document
      else if \<not> hashable kind then Raise TypeError
      else if kind = PStr ''campaign'' then validate_campaign U document
      else if kind = PStr ''environment-intake'' then validate_environment document
      else if kind = PStr ''control-result'' then validate_result document
      else if kind = PStr ''porting-ledger'' then validate_porting document
      else refuse ''UNKNOWN_KIND'')"

section \<open>What is accepted\<close>

definition allowed_axes :: "items \<Rightarrow> string list" where
  "allowed_axes d =
     (if map_of d ''executionClass'' = Some (PStr ''OFFLINE_TEST'') then [''UNIT''] else LIVE_EVIDENCE_AXES)"

text \<open>A control that passed \<open>validate_control\<close>, with its identifier.\<close>

definition control_shape :: "pyval \<Rightarrow> string \<Rightarrow> bool" where
  "control_shape c i \<longleftrightarrow>
     (\<exists>k. c = PDict k \<and> keys k = set [''controlId'', ''handler'', ''required'', ''axis'', ''input''] \<and>
        map_of k ''controlId'' = Some (PStr i) \<and> py_len i \<le> 128 \<and> in_lang ID i \<and>
        (\<exists>h \<in> set HANDLERS. map_of k ''handler'' = Some (PStr h)) \<and>
        (\<exists>b. map_of k ''required'' = Some (PBool b)) \<and>
        (\<exists>a \<in> set EVIDENCE_AXES. map_of k ''axis'' = Some (PStr a)) \<and>
        (\<exists>i. map_of k ''input'' = Some (PDict i)) \<and>
        (map_of k ''handler'' = Some (PStr ''LINUX_READINESS'') \<longrightarrow>
           map_of k ''required'' = Some (PBool True)))"

lemma validate_control_Ret:
  assumes "validate_control d seen c = Ret seen'"
  shows "\<exists>i. control_shape c i \<and> i \<notin> set seen \<and> seen' = seen @ [i]"
  using assms
  by (auto simp: validate_control_def control_shape_def linux_control_scope_def outcome_simps
      is_bool_iff split: if_splits)

lemma validate_controls_Ret:
  assumes "fold_out (validate_control d) seen cs = Ret seen'" "distinct seen"
  shows "\<exists>ids. seen' = seen @ ids \<and> distinct seen' \<and> list_all2 control_shape cs ids"
  using assms
proof (induction cs arbitrary: seen)
  case (Cons c cs)
  from Cons.prems(1) obtain mid where c: "validate_control d seen c = Ret mid"
    and cs: "fold_out (validate_control d) mid cs = Ret seen'"
    by (auto simp: bind_eq_Ret)
  obtain i where i: "control_shape c i" "i \<notin> set seen" "mid = seen @ [i]"
    using validate_control_Ret [OF c] by blast
  with Cons.prems(2) have "distinct mid" by simp
  from Cons.IH [OF cs this] i show ?case by (auto intro: exI [of _ "i # _"])
qed simp

lemma validate_campaign_parts:
  assumes "validate_campaign U doc = Ret d"
  obtains cs seen where "doc = PDict d" "map_of d ''controls'' = Some (PList cs)" "cs \<noteq> []"
    "closed d [''schemaVersion'', ''campaignId'', ''version'', ''description'', ''executionClass'',
       ''environmentFixture'', ''controls''] [] = Ret ()"
    "field_in d ''executionClass'' [''OFFLINE_TEST'', ''LIVE_CAMPAIGN''] = Ret True"
    "fold_out (validate_control d) [] cs = Ret seen"
    "and_also (field_is d ''executionClass'' (PStr ''OFFLINE_TEST''))
       (any_out (\<lambda>c. py_not (item_is c ''axis'' (PStr ''UNIT''))) cs) = Ret False"
    "and_also (field_is d ''executionClass'' (PStr ''LIVE_CAMPAIGN''))
       (any_out (\<lambda>c. bind (item c ''axis'') (\<lambda>a. Ret (\<not> str_in a LIVE_EVIDENCE_AXES))) cs) = Ret False"
    "\<exists>i. bind (field d ''campaignId'') require_id = Ret i" "reject_secret_shape (PDict d) = Ret ()"
proof -
  from assms obtain cv where cv: "field d ''controls'' = Ret cv"
      "case cv of PList cs \<Rightarrow> cs \<noteq> [] \<and> length cs \<le> 512 | _ \<Rightarrow> False"
    unfolding validate_campaign_def by (force simp: bind_eq_Ret)
  then obtain cs where "cv = PList cs" "cs \<noteq> []" by (auto simp: case_list_only)
  with assms cv that show thesis
    unfolding validate_campaign_def
    by (auto simp: bind_eq_Ret requires_eq_Ret py_not_eq_Ret field_eq_Ret require_object_eq_Ret)
qed

lemma validate_campaign_Ret:
  assumes "validate_campaign U doc = Ret d"
  obtains cs ids where "doc = PDict d" "map_of d ''controls'' = Some (PList cs)" "cs \<noteq> []"
    "list_all2 control_shape cs ids" "distinct ids"
    "\<forall>c \<in> set cs. \<exists>a \<in> set (allowed_axes d). item c ''axis'' = Ret (PStr a)"
proof -
  from assms obtain cs seen where d: "doc = PDict d" "map_of d ''controls'' = Some (PList cs)" "cs \<noteq> []"
    and x: "field_in d ''executionClass'' [''OFFLINE_TEST'', ''LIVE_CAMPAIGN''] = Ret True"
    and f: "fold_out (validate_control d) [] cs = Ret seen"
    and o: "and_also (field_is d ''executionClass'' (PStr ''OFFLINE_TEST''))
       (any_out (\<lambda>c. py_not (item_is c ''axis'' (PStr ''UNIT''))) cs) = Ret False"
    and l: "and_also (field_is d ''executionClass'' (PStr ''LIVE_CAMPAIGN''))
       (any_out (\<lambda>c. bind (item c ''axis'') (\<lambda>a. Ret (\<not> str_in a LIVE_EVIDENCE_AXES))) cs) = Ret False"
    by (rule validate_campaign_parts) blast
  obtain ids where "list_all2 control_shape cs ids" "distinct ids"
    using validate_controls_Ret [OF f] by auto
  moreover have "\<exists>a \<in> set (allowed_axes d). item c ''axis'' = Ret (PStr a)" if "c \<in> set cs" for c
    using x o l that by (auto simp: outcome_simps allowed_axes_def)
  ultimately show thesis using that d by blast
qed

lemma field_eq_Raise: "field d k = Raise e \<longleftrightarrow> k \<notin> keys d \<and> e = KeyError"
  by (auto simp: field_def keys_map_of split: option.splits)

lemma field_is_eq_Raise: "field_is d k v = Raise e \<longleftrightarrow> k \<notin> keys d \<and> e = KeyError"
  by (auto simp: field_is_def bind_eq_Raise field_eq_Raise)

lemma for_each_raises: "for_each f xs = Raise e \<Longrightarrow> \<exists>x \<in> set xs. f x = Raise e"
  by (induction xs) (auto simp: bind_eq_Raise)

lemma reject_secret_shape_raises: "reject_secret_shape v = Raise e \<Longrightarrow> \<exists>r. e = ConformanceError r"
proof (induction v)
  case (PDict kvs)
  then obtain k x where "(k, x) \<in> set kvs"
    "(if secret_shaped k then refuse ''SECRET_SHAPED_FIELD'' else reject_secret_shape x) = Raise e"
    by (auto simp: reject_secret_shape.simps dest!: for_each_raises)
  with PDict.IH show ?case by (auto simp: refuse_def split: if_splits)
next
  case (PList xs)
  then show ?case by (auto simp: reject_secret_shape.simps dest!: for_each_raises)
qed (auto simp: reject_secret_shape.simps)

text \<open>The environment intake: fields are read only after \<open>closed\<close> has found them.\<close>

lemma validate_environment_raises:
  assumes "validate_environment doc = Raise e"
  shows "\<exists>r. e = ConformanceError r"
proof (cases doc)
  case (PDict d)
  show ?thesis
  proof (cases "closed d [''schemaVersion'', ''environmentId'', ''tenantId'', ''capturedAt'', ''capabilities''] []")
    case (Raise e')
    with assms PDict conformance_only(2) show ?thesis by (auto simp: validate_environment_def)
  next
    case (Ret u)
    then have "{''schemaVersion'', ''environmentId'', ''tenantId'', ''capturedAt'', ''capabilities''} \<subseteq> keys d"
      by (simp add: closed_eq_Ret)
    with assms PDict Ret show ?thesis
      by (auto simp: validate_environment_def bind_eq_Raise requires_def field_is_eq_Raise
          field_eq_Raise require_eq_Raise split: prod.splits
          dest!: for_each_raises reject_secret_shape_raises
          dest: conformance_only require_time_raises)
  qed
qed (use assms in \<open>auto simp: validate_environment_def require_object_def refuse_def\<close>)

lemma validate_environment_Ret:
  assumes "validate_environment doc = Ret d"
  obtains cs where "doc = PDict d" "map_of d ''capabilities'' = Some (PDict cs)" "length cs \<le> 128"
    "list_all (\<lambda>(n, s). in_lang ID n \<and> capability_state s) cs"
    "list_all (\<lambda>k. \<not> secret_shaped k) (member_names doc)"
proof -
  from assms obtain cs where "doc = PDict d" "map_of d ''capabilities'' = Some (PDict cs)"
    "length cs \<le> 128"
    and c: "for_each (\<lambda>(name, state). bind (require_id (PStr name)) (\<lambda>_.
       require (capability_state state) ''INVALID_CAPABILITY'')) cs = Ret ()"
    and "reject_secret_shape doc = Ret ()"
    by (auto simp: validate_environment_def bind_eq_Ret field_eq_Ret require_object_eq_Ret)
  moreover from c have "list_all (\<lambda>(n, s). in_lang ID n \<and> capability_state s) cs"
    by (fastforce simp: outcome_simps list_all_iff)
  ultimately show thesis using that by (simp add: reject_secret_shape_Ret)
qed

section \<open>Properties\<close>

definition axis_in :: "string list \<Rightarrow> pyval \<Rightarrow> bool" where
  "axis_in axes c = (case item c ''axis'' of Ret (PStr a) \<Rightarrow> a \<in> set axes | _ \<Rightarrow> False)"

text \<open>An accepted campaign has well-formed controls with distinct identifiers, and every control
  originates an axis of its execution class: only \<open>UNIT\<close> offline, and never tenant acceptance.\<close>

theorem campaign_axes:
  assumes "validate_campaign U doc = Ret d"
  shows "\<exists>cs ids. map_of d ''controls'' = Some (PList cs) \<and> cs \<noteq> [] \<and> distinct ids \<and>
           list_all2 control_shape cs ids \<and> list_all (axis_in (allowed_axes d)) cs \<and>
           ''TENANT_ACCEPTANCE'' \<notin> set (allowed_axes d)"
proof -
  obtain cs ids where "doc = PDict d" "map_of d ''controls'' = Some (PList cs)" "cs \<noteq> []"
    "list_all2 control_shape cs ids" "distinct ids"
    and axes: "\<forall>c \<in> set cs. \<exists>a \<in> set (allowed_axes d). item c ''axis'' = Ret (PStr a)"
    using assms by (rule validate_campaign_Ret)
  moreover have "''TENANT_ACCEPTANCE'' \<notin> set (allowed_axes d)"
    by (simp add: allowed_axes_def LIVE_EVIDENCE_AXES_def)
  moreover have "axis_in (allowed_axes d) c" if "c \<in> set cs" for c
    using axes that by (auto simp: axis_in_def)
  ultimately show ?thesis by (auto simp: list_all_iff)
qed

definition sample_control :: pyval where
  "sample_control = PDict
     [(''controlId'', PStr ''unit.one''), (''handler'', PStr ''STATIC_ASSERTION''), (''required'', PBool True),
      (''axis'', PStr ''UNIT''), (''input'', PDict [(''actual'', PInt 1), (''expected'', PInt 1)])]"

definition sample_campaign :: items where
  "sample_campaign =
     [(''schemaVersion'', PStr ''harness.planeon.ai/conformance-campaign/v1alpha1''),
      (''campaignId'', PStr ''sample''), (''version'', PStr ''0.1.0''), (''description'', PStr ''sample''),
      (''executionClass'', PStr ''OFFLINE_TEST''), (''environmentFixture'', PStr ''fixtures/env.json''),
      (''controls'', PList [sample_control])]"

theorem campaign_axes_witness:
  "\<exists>cs ids. map_of sample_campaign ''controls'' = Some (PList cs) \<and> cs \<noteq> [] \<and> distinct ids \<and>
     list_all2 control_shape cs ids \<and> list_all (axis_in (allowed_axes sample_campaign)) cs \<and>
     ''TENANT_ACCEPTANCE'' \<notin> set (allowed_axes sample_campaign)"
proof (rule campaign_axes)
  show "validate_campaign id (PDict sample_campaign) = Ret sample_campaign"
    by code_simp
qed

text \<open>An environment intake is accepted or refused, never anything else; an accepted one has at
  most 128 capabilities, each named by an identifier, and no secret-shaped member name.\<close>

theorem environment_checked:
  "case validate_environment doc of
     Ret d \<Rightarrow> doc = PDict d \<and> list_all (\<lambda>k. \<not> secret_shaped k) (member_names doc) \<and>
       (case map_of d ''capabilities'' of
          Some (PDict cs) \<Rightarrow> length cs \<le> 128 \<and>
            list_all (\<lambda>(n, s). in_lang ID n \<and> capability_state s) cs
        | _ \<Rightarrow> False)
   | Raise e \<Rightarrow> \<exists>r. e = ConformanceError r"
proof (cases "validate_environment doc")
  case (Ret d)
  then obtain cs where "doc = PDict d" "map_of d ''capabilities'' = Some (PDict cs)" "length cs \<le> 128"
    "list_all (\<lambda>(n, s). in_lang ID n \<and> capability_state s) cs"
    "list_all (\<lambda>k. \<not> secret_shaped k) (member_names doc)"
    by (rule validate_environment_Ret)
  with Ret show ?thesis by simp
qed (use validate_environment_raises in auto)

end
