(* ===== verification/Transitions.thy ===== *)
theory Transitions
  imports Prelude
begin

text \<open>
  Interfaces of the program's state machines.  \<open>invariant_system\<close> is what a component promises
  when each of its operations keeps an invariant; \<open>ranked_system\<close> adds a rank that every
  transition lowers, which makes every run finite and every state unrepeatable.  The
  entity lifecycles, the session states, the replay journal, the broker transcript and the
  supervisor interpret them.
\<close>

inductive reachable :: "('s \<Rightarrow> bool) \<Rightarrow> ('s \<Rightarrow> 's \<Rightarrow> bool) \<Rightarrow> 's \<Rightarrow> bool"
  for init :: "'s \<Rightarrow> bool" and step :: "'s \<Rightarrow> 's \<Rightarrow> bool" where
  reach_init: "init s \<Longrightarrow> reachable init step s"
| reach_step: "reachable init step s \<Longrightarrow> step s t \<Longrightarrow> reachable init step t"

text \<open>A run visits its states in order.\<close>

fun run :: "('s \<Rightarrow> 's \<Rightarrow> bool) \<Rightarrow> 's list \<Rightarrow> bool" where
  "run step [] = True"
| "run step [s] = True"
| "run step (s # t # ss) = (step s t \<and> run step (t # ss))"

locale invariant_system =
  fixes init :: "'s \<Rightarrow> bool"
    and step :: "'s \<Rightarrow> 's \<Rightarrow> bool"
    and inv :: "'s \<Rightarrow> bool"
  assumes init_inv: "init s \<Longrightarrow> inv s"
    and step_inv: "inv s \<Longrightarrow> step s t \<Longrightarrow> inv t"
begin

lemma reachable_inv: "reachable init step s \<Longrightarrow> inv s"
  by (induction rule: reachable.induct) (auto intro: init_inv step_inv)

lemma steps_inv: "step\<^sup>*\<^sup>* s t \<Longrightarrow> inv s \<Longrightarrow> inv t"
  by (induction rule: rtranclp_induct) (auto intro: step_inv)

end

locale ranked_system =
  fixes step :: "'s \<Rightarrow> 's \<Rightarrow> bool"
    and rank :: "'s \<Rightarrow> nat"
  assumes rank_decreases: "step s t \<Longrightarrow> rank t < rank s"
begin

lemma rank_steps: "step\<^sup>+\<^sup>+ s t \<Longrightarrow> rank t < rank s"
  by (induction rule: tranclp_induct) (auto dest: rank_decreases)

lemma no_return: "\<not> step\<^sup>+\<^sup>+ s s"
  using rank_steps by blast

lemma run_length: "run step (s # ss) \<Longrightarrow> length ss \<le> rank s"
proof (induction ss arbitrary: s)
  case (Cons t ss)
  then have "rank t < rank s" "length ss \<le> rank t" by (auto dest: rank_decreases)
  then show ?case by simp
qed simp

lemma run_below: "run step (s # ss) \<Longrightarrow> t \<in> set ss \<Longrightarrow> rank t < rank s"
proof (induction ss arbitrary: s)
  case (Cons u ss)
  then have "rank u < rank s" "t = u \<or> rank t < rank u" by (auto dest: rank_decreases)
  then show ?case by auto
qed simp

lemma run_distinct: "run step ss \<Longrightarrow> distinct ss"
proof (induction ss)
  case (Cons s ss)
  then have "run step ss" by (cases ss) auto
  with Cons show ?case by (auto dest: run_below)
qed simp

lemma final_if_rank_0: "rank s = 0 \<Longrightarrow> \<not> step s t"
  using rank_decreases by force

end

end
