(* ===== verification/Lifecycle.thy ===== *)
theory Lifecycle
  imports SchemaBase Transitions
begin

text \<open>
  \<open>src/src/harness_conformance/lifecycle.py\<close>: the transition table of the three entities and the
  assertion that consults it.  The states of operations and approval requests only move
  forward; an installation cycles, but leaves \<open>READY\<close> for \<open>NOT_SELECTED\<close> only through
  \<open>UNINSTALLING\<close>.
\<close>

type_synonym transition_table = "(string \<times> string list) list"

definition TRANSITIONS :: "(string \<times> transition_table) list" where
  "TRANSITIONS =
     [(''Operation'',
        [(''PENDING'', [''RUNNING'', ''CANCELLED'']),
         (''RUNNING'', [''SUCCEEDED'', ''FAILED'', ''CANCELLED'']),
         (''SUCCEEDED'', []), (''FAILED'', []), (''CANCELLED'', [])]),
      (''ApprovalRequest'',
        [(''PENDING'', [''APPROVED'', ''REJECTED'', ''CANCELLED'', ''EXPIRED'']),
         (''APPROVED'', []), (''REJECTED'', []), (''CANCELLED'', []), (''EXPIRED'', [])]),
      (''HarnessInstallation'',
        [(''NOT_SELECTED'', [''SELECTED'']),
         (''SELECTED'', [''INSTALLING'', ''NOT_SELECTED'']),
         (''INSTALLING'', [''READY'', ''DEGRADED'', ''FAILED'']),
         (''READY'', [''UPDATING'', ''DEGRADED'', ''UNINSTALLING'']),
         (''DEGRADED'', [''UPDATING'', ''READY'', ''FAILED'', ''UNINSTALLING'']),
         (''FAILED'', [''INSTALLING'', ''UNINSTALLING'']),
         (''UPDATING'', [''READY'', ''DEGRADED'', ''FAILED'']),
         (''UNINSTALLING'', [''NOT_SELECTED'', ''FAILED''])])]"

text \<open>\<open>table[key]\<close> on a dictionary with string keys, for any key object.\<close>

definition lookup :: "(string \<times> 'a) list \<Rightarrow> pyval \<Rightarrow> 'a outcome" where
  "lookup table key =
     (if \<not> hashable key then Raise TypeError
      else case key of
        PStr s \<Rightarrow> (case map_of table s of None \<Rightarrow> Raise KeyError | Some x \<Rightarrow> Ret x)
      | _ \<Rightarrow> Raise KeyError)"

definition in_frozenset :: "pyval \<Rightarrow> string list \<Rightarrow> bool outcome" where
  "in_frozenset v targets = (if hashable v then Ret (str_in v targets) else Raise TypeError)"

definition assert_transition :: "pyval \<Rightarrow> pyval \<Rightarrow> pyval \<Rightarrow> unit outcome" where
  "assert_transition entity before after =
     bind (case bind (lookup TRANSITIONS entity) (\<lambda>table. lookup table before) of
             Raise KeyError \<Rightarrow> refuse ''UNKNOWN_LIFECYCLE_STATE''
           | r \<Rightarrow> r) (\<lambda>targets.
       requires (in_frozenset after targets) ''ILLEGAL_LIFECYCLE_TRANSITION'')"

section \<open>The lifecycles as transition systems\<close>

definition moves :: "string \<Rightarrow> string \<Rightarrow> string \<Rightarrow> bool" where
  "moves entity s t \<longleftrightarrow> assert_transition (PStr entity) (PStr s) (PStr t) = Ret ()"

lemma lookup_str [simp]:
  "lookup table (PStr s) = (case map_of table s of None \<Rightarrow> Raise KeyError | Some x \<Rightarrow> Ret x)"
  by (simp add: lookup_def)

lemma moves_iff:
  "moves entity s t \<longleftrightarrow>
     (\<exists>table targets. map_of TRANSITIONS entity = Some table \<and> map_of table s = Some targets \<and>
        t \<in> set targets)"
  by (auto simp: moves_def assert_transition_def in_frozenset_def refuse_def
      split: option.splits)

lemma lookup_raises: "lookup table key = Raise e \<Longrightarrow> e = TypeError \<or> e = KeyError"
  by (auto simp: lookup_def split: if_splits pyval.splits option.splits)

lemma assert_transition_raises:
  "assert_transition entity before after = Raise e \<Longrightarrow> e = TypeError \<or> (\<exists>r. e = ConformanceError r)"
  by (auto simp: assert_transition_def bind_eq_Raise requires_def require_eq_Raise in_frozenset_def
      refuse_def split: outcome.splits exn.splits if_splits dest!: lookup_raises)

lemma ordinary_assert_transition [simp, ordinary_intros]:
  "ordinary (assert_transition entity before after)"
  by (rule ordinaryI) (auto dest: assert_transition_raises)

definition forward_rank :: "string \<Rightarrow> nat" where
  "forward_rank s = (if s = ''PENDING'' then 2 else if s = ''RUNNING'' then 1 else 0)"

lemma forward_moves:
  assumes "entity \<in> {''Operation'', ''ApprovalRequest''}" "moves entity s t"
  shows "forward_rank t < forward_rank s"
  using assms by (auto simp: moves_iff TRANSITIONS_def forward_rank_def split: if_splits)

interpretation operation: ranked_system "moves ''Operation''" forward_rank
  by unfold_locales (auto intro: forward_moves)

interpretation approval: ranked_system "moves ''ApprovalRequest''" forward_rank
  by unfold_locales (auto intro: forward_moves)

lemma installation_moves:
  "moves ''HarnessInstallation'' ''READY'' t \<longleftrightarrow> t \<in> {''UPDATING'', ''DEGRADED'', ''UNINSTALLING''}"
  "moves ''HarnessInstallation'' ''UPDATING'' t \<longleftrightarrow> t \<in> {''READY'', ''DEGRADED'', ''FAILED''}"
  "moves ''HarnessInstallation'' ''DEGRADED'' t \<longleftrightarrow>
     t \<in> {''UPDATING'', ''READY'', ''FAILED'', ''UNINSTALLING''}"
  "moves ''HarnessInstallation'' ''FAILED'' t \<longleftrightarrow> t \<in> {''INSTALLING'', ''UNINSTALLING''}"
  "moves ''HarnessInstallation'' ''INSTALLING'' t \<longleftrightarrow> t \<in> {''READY'', ''DEGRADED'', ''FAILED''}"
  by (simp_all add: moves_iff TRANSITIONS_def)

definition in_service :: "string set" where
  "in_service = {''READY'', ''UPDATING'', ''DEGRADED'', ''FAILED'', ''INSTALLING''}"

lemma in_service_moves:
  "s \<in> in_service \<Longrightarrow> moves ''HarnessInstallation'' s t \<Longrightarrow> t \<in> insert ''UNINSTALLING'' in_service"
  unfolding in_service_def
  by (elim insertE emptyE; simp only: installation_moves; elim insertE emptyE; simp)

section \<open>Properties\<close>

text \<open>A run of an operation or of an approval request makes at most two transitions and never
  visits a state twice.\<close>

theorem lifecycle_forward:
  assumes "entity \<in> {''Operation'', ''ApprovalRequest''}" "run (moves entity) (s # ss)"
  shows "length ss \<le> 2 \<and> distinct (s # ss)"
proof -
  have "forward_rank s \<le> 2" by (simp add: forward_rank_def)
  moreover have "length ss \<le> forward_rank s" "distinct (s # ss)"
    using assms operation.run_length operation.run_distinct approval.run_length approval.run_distinct
    by blast+
  ultimately show ?thesis by simp
qed

theorem lifecycle_forward_witness:
  "length [''RUNNING'', ''SUCCEEDED''] \<le> 2 \<and> distinct [''PENDING'', ''RUNNING'', ''SUCCEEDED'']"
proof (rule lifecycle_forward)
  show "''Operation'' \<in> {''Operation'', ''ApprovalRequest''}" by simp
  show "run (moves ''Operation'') [''PENDING'', ''RUNNING'', ''SUCCEEDED'']" by code_simp
qed

text \<open>An installation that is \<open>READY\<close> becomes \<open>NOT_SELECTED\<close> only by way of \<open>UNINSTALLING\<close>.\<close>

theorem installation_needs_uninstall:
  assumes "run (moves ''HarnessInstallation'') (''READY'' # ss @ [''NOT_SELECTED''])"
  shows "''UNINSTALLING'' \<in> set ss"
proof -
  have "''UNINSTALLING'' \<in> set ss"
    if "run (moves ''HarnessInstallation'') (s # ss @ [''NOT_SELECTED''])" "s \<in> in_service" for s
    using that
  proof (induction ss arbitrary: s)
    case Nil
    then have "''NOT_SELECTED'' \<in> insert ''UNINSTALLING'' in_service"
      by (intro in_service_moves [of s]) simp_all
    then show ?case by (simp add: in_service_def)
  next
    case (Cons t ss)
    then have "t \<in> insert ''UNINSTALLING'' in_service" by (intro in_service_moves [of s]) simp_all
    with Cons show ?case by auto
  qed
  moreover have "''READY'' \<in> in_service" by (simp add: in_service_def)
  ultimately show ?thesis using assms by blast
qed

theorem installation_needs_uninstall_witness: "''UNINSTALLING'' \<in> set [''UNINSTALLING'']"
proof (rule installation_needs_uninstall)
  show "run (moves ''HarnessInstallation'') (''READY'' # [''UNINSTALLING''] @ [''NOT_SELECTED''])"
    by code_simp
qed

end
