(* ===== verification/Events.thy ===== *)
theory Events
  imports SchemaBase
begin

text \<open>
  \<open>src/src/harness_conformance/events.py\<close>: the closed shape of a HarnessCloudEvent.
\<close>

definition ALLOWED_EVENT_TYPES :: "string list" where
  "ALLOWED_EVENT_TYPES =
     [''harness.operation.state.changed.v1'', ''harness.approval.state.changed.v1'',
      ''harness.installation.state.changed.v1'', ''harness.evidence.recorded.v1'']"

definition validate_event_data :: "items \<Rightarrow> unit outcome" where
  "validate_event_data data =
     bind (closed data [''entityId'', ''fromState'', ''toState'', ''version'', ''evidenceDigest''] []) (\<lambda>_.
     bind (bind (field data ''entityId'') require_id) (\<lambda>_.
     bind (requires (and_also (bind (field data ''fromState'') (\<lambda>v. Ret (is_str v)))
             (bind (field data ''toState'') (\<lambda>v. Ret (is_str v)))) ''INVALID_EVENT_STATE'') (\<lambda>_.
     bind (requires (bind (field data ''version'') (\<lambda>v. Ret (case v of PInt i \<Rightarrow> 1 \<le> i | _ \<Rightarrow> False)))
             ''INVALID_EVENT_VERSION'') (\<lambda>_.
     bind (bind (field data ''evidenceDigest'') require_digest) (\<lambda>_. Ret ())))))"

definition validate_event :: "pyval \<Rightarrow> items outcome" where
  "validate_event document =
     bind (require_object document) (\<lambda>d.
     bind (closed d [''specversion'', ''id'', ''source'', ''type'', ''time'', ''subject'',
             ''datacontenttype'', ''tenantid'', ''data''] []) (\<lambda>_.
     bind (requires (field_is d ''specversion'' (PStr ''1.0'')) ''UNSUPPORTED_CLOUDEVENTS_VERSION'') (\<lambda>_.
     bind (bind (field d ''id'') require_id) (\<lambda>_.
     bind (bind (field d ''tenantid'') require_id) (\<lambda>_.
     bind (bind (field d ''time'') require_time) (\<lambda>_.
     bind (requires (field_in d ''type'' ALLOWED_EVENT_TYPES) ''UNKNOWN_EVENT_TYPE'') (\<lambda>_.
     bind (requires (field_is d ''datacontenttype'' (PStr ''application/json'')) ''INVALID_CONTENT_TYPE'') (\<lambda>_.
     bind (requires (bind (field d ''source'') (\<lambda>v.
             Ret (case v of PStr s \<Rightarrow> starts_with ''urn:planeon:'' s | _ \<Rightarrow> False))) ''INVALID_EVENT_SOURCE'') (\<lambda>_.
     bind (requires (bind (field d ''subject'') (\<lambda>v.
             Ret (case v of PStr s \<Rightarrow> py_len s \<le> 256 | _ \<Rightarrow> False))) ''INVALID_EVENT_SUBJECT'') (\<lambda>_.
     bind (bind (field d ''data'') require_object) (\<lambda>data.
     bind (validate_event_data data) (\<lambda>_.
     bind (reject_secret_shape (PDict d)) (\<lambda>_. Ret d)))))))))))))"

lemma ordinary_validate_event [simp, ordinary_intros]: "ordinary (validate_event v)"
  unfolding validate_event_def validate_event_data_def by (intro ordinary_intros)

text \<open>The facts of an accepted event that its consumers rely on.\<close>

lemma validate_event_Ret:
  assumes "validate_event v = Ret d"
  obtains data where "v = PDict d" "map_of d ''data'' = Some (PDict data)"
    "\<exists>i. map_of data ''version'' = Some (PInt i) \<and> 1 \<le> i"
    "\<exists>h. map_of data ''evidenceDigest'' = Some (PStr h) \<and> in_lang DIGEST h"
    "\<exists>t \<in> set ALLOWED_EVENT_TYPES. map_of d ''type'' = Some (PStr t)"
    "list_all (\<lambda>k. \<not> secret_shaped k) (member_names v)"
proof -
  from assms obtain data where "v = PDict d" "map_of d ''data'' = Some (PDict data)"
    and data: "validate_event_data data = Ret ()"
    and "field_in d ''type'' ALLOWED_EVENT_TYPES = Ret True" "reject_secret_shape v = Ret ()"
    by (auto simp: validate_event_def bind_eq_Ret requires_eq_Ret field_eq_Ret require_object_eq_Ret)
  moreover from data have "\<exists>i. map_of data ''version'' = Some (PInt i) \<and> 1 \<le> i"
    "\<exists>h. map_of data ''evidenceDigest'' = Some (PStr h) \<and> in_lang DIGEST h"
    by (auto simp: validate_event_data_def outcome_simps)
  ultimately show thesis using that by (auto simp: outcome_simps)
qed

end
