(* ===== verification/Campaign.thy ===== *)
theory Campaign
  imports Schema Lifecycle Events
begin

text \<open>
  \<open>src/src/harness_conformance/models.py\<close> (control results), \<open>campaign.py\<close> (the handlers, the overall
  status and the report) and \<open>registry.py\<close> (the registered campaigns of a repository).

  The results: the exact meaning of an overall \<open>PASS\<close>; a report has one result per control of
  the accepted campaign, in order, with its identifier and axis; its digest is the digest
  of the rest; and no campaign with a Linux readiness control can pass, because no live
  backend exists.
\<close>

section \<open>Results of models.py\<close>

record ControlResult =
  control_id :: pyval
  handler :: pyval
  required :: pyval
  axis :: pyval
  status :: ResultStatus
  reason_code :: string
  observation_digest :: string

definition as_dict :: "ControlResult \<Rightarrow> items" where
  "as_dict r =
     [(''axis'', axis r), (''controlId'', control_id r), (''handler'', handler r),
      (''observationDigest'', PStr (observation_digest r)), (''reasonCode'', PStr (reason_code r)),
      (''required'', required r), (''status'', PStr (status_value (status r)))]"

section \<open>Handlers\<close>

type_synonym verdict = "ResultStatus \<times> string \<times> pyval"

definition observation :: "ucd \<Rightarrow> pyval \<Rightarrow> ResultStatus \<Rightarrow> string \<Rightarrow> pyval \<Rightarrow> string outcome" where
  "observation U cid st reason detail =
     canonical_digest U
       (PDict [(''controlId'', cid), (''detail'', detail), (''reasonCode'', PStr reason),
               (''status'', PStr (status_value st))])
       (Some ''planeon.harness-conformance-observation/v1alpha1'')"

text \<open>\<open>except ConformanceError as exc: return FAIL, exc.reason, \<dots>\<close>.\<close>

definition or_fail :: "'a outcome \<Rightarrow> (string \<Rightarrow> pyval) \<Rightarrow> verdict \<Rightarrow> verdict outcome" where
  "or_fail m detail ok =
     (case m of
        Ret _ \<Rightarrow> Ret ok
      | Raise (ConformanceError reason) \<Rightarrow> Ret (FAIL, reason, detail reason)
      | Raise e \<Rightarrow> Raise e)"

definition invalid_detail :: "string \<Rightarrow> pyval" where
  "invalid_detail reason = PDict [(''valid'', PBool False), (''reason'', PStr reason)]"

definition static_handler :: "items \<Rightarrow> verdict outcome" where
  "static_handler control =
     bind (bind (field control ''input'') require_object) (\<lambda>data.
     bind (closed data [''actual'', ''expected''] [''applicable'', ''severity'']) (\<lambda>_.
       if get_default data ''applicable'' (PBool True) = PBool False
       then Ret (NOT_APPLICABLE, ''CONTROL_NOT_APPLICABLE'', PDict [(''applicable'', PBool False)])
       else bind (field data ''actual'') (\<lambda>actual.
            bind (field data ''expected'') (\<lambda>expected.
              if py_eq actual expected then Ret (PASS, ''ASSERTION_MATCHED'', PDict [(''matched'', PBool True)])
              else if get_default data ''severity'' (PStr ''REQUIRED'') = PStr ''ADVISORY''
              then Ret (WARN, ''ADVISORY_ASSERTION_MISMATCH'', PDict [(''matched'', PBool False)])
              else Ret (FAIL, ''ASSERTION_MISMATCH'', PDict [(''matched'', PBool False)])))))"

definition schema_handler :: "ucd \<Rightarrow> items \<Rightarrow> verdict outcome" where
  "schema_handler U control =
     bind (bind (field control ''input'') require_object) (\<lambda>data.
     bind (closed data [''kind'', ''document''] []) (\<lambda>_.
     bind (field data ''kind'') (\<lambda>kind.
     bind (field data ''document'') (\<lambda>document.
       or_fail (validate U kind document) invalid_detail
         (PASS, ''SCHEMA_VALID'', PDict [(''valid'', PBool True)])))))"

definition lifecycle_handler :: "items \<Rightarrow> verdict outcome" where
  "lifecycle_handler control =
     bind (bind (field control ''input'') require_object) (\<lambda>data.
     bind (closed data [''entity'', ''fromState'', ''toState''] []) (\<lambda>_.
     bind (field data ''entity'') (\<lambda>entity.
     bind (field data ''fromState'') (\<lambda>before.
     bind (field data ''toState'') (\<lambda>after.
       or_fail (assert_transition entity before after)
         (\<lambda>_. PDict [(''legal'', PBool False)])
         (PASS, ''TRANSITION_LEGAL'', PDict [(''legal'', PBool True)]))))))"

definition event_handler :: "items \<Rightarrow> verdict outcome" where
  "event_handler control =
     bind (bind (field control ''input'') require_object) (\<lambda>data.
     bind (closed data [''event''] []) (\<lambda>_.
     bind (field data ''event'') (\<lambda>event.
       or_fail (validate_event event) invalid_detail
         (PASS, ''EVENT_VALID'', PDict [(''valid'', PBool True)]))))"

definition capability_handler :: "items \<Rightarrow> items \<Rightarrow> verdict outcome" where
  "capability_handler control environment =
     bind (bind (field control ''input'') require_object) (\<lambda>data.
     bind (closed data [''capability'', ''expected''] []) (\<lambda>_.
     bind (field data ''capability'') (\<lambda>nm.
     bind (field data ''expected'') (\<lambda>expected.
       case nm of
         PStr name \<Rightarrow>
           if \<not> py_in expected [PBool True, PBool False] then refuse ''INVALID_CAPABILITY_ASSERTION''
           else bind (bind (field environment ''capabilities'') items_of) (\<lambda>capabilities.
             case get_default capabilities name PNone of
               PNone \<Rightarrow> Ret (NOT_RUN_ENV_UNAVAILABLE, ''ENVIRONMENT_CAPABILITY_UNAVAILABLE'',
                          PDict [(''available'', PBool False)])
             | actual \<Rightarrow>
                 if py_eq actual expected
                 then Ret (PASS, ''ENVIRONMENT_CAPABILITY_MATCHED'',
                        PDict [(''available'', PBool True), (''matched'', PBool True)])
                 else Ret (FAIL, ''ENVIRONMENT_CAPABILITY_MISMATCH'',
                        PDict [(''available'', PBool True), (''matched'', PBool False)]))
       | _ \<Rightarrow> refuse ''INVALID_CAPABILITY_ASSERTION''))))"

text \<open>\<open>live_launcher.linux_runtime_availability\<close> and \<open>linux_readiness.evaluate_control\<close>.\<close>

definition linux_runtime_availability :: "string \<times> string" where
  "linux_runtime_availability = (''NOT_RUN_ENV_UNAVAILABLE'', ''LINUX_LIVE_BACKEND_UNAVAILABLE'')"

definition evaluate_control :: "items \<Rightarrow> verdict outcome" where
  "evaluate_control control =
     bind (bind (field control ''input'') validate_control_input) (\<lambda>selected.
     bind (field selected ''architecture'') (\<lambda>architecture.
     bind (field selected ''caseId'') (\<lambda>case_id.
       Ret (NOT_RUN_ENV_UNAVAILABLE, snd linux_runtime_availability,
         PDict [(''architecture'', architecture), (''caseId'', case_id),
                (''nativeAcceptance'', PBool False),
                (''availability'', PStr (fst linux_runtime_availability))]))))"

definition dispatch :: "ucd \<Rightarrow> pyval \<Rightarrow> items \<Rightarrow> items \<Rightarrow> verdict outcome" where
  "dispatch U h control environment =
     (if h = PStr ''STATIC_ASSERTION'' then static_handler control
      else if h = PStr ''SCHEMA_ASSERTION'' then schema_handler U control
      else if h = PStr ''LIFECYCLE_ASSERTION'' then lifecycle_handler control
      else if h = PStr ''EVENT_ASSERTION'' then event_handler control
      else if h = PStr ''ENVIRONMENT_CAPABILITY'' then capability_handler control environment
      else if h = PStr ''LINUX_READINESS'' then evaluate_control control
      else Raise (if hashable h then KeyError else TypeError))"

section \<open>Reports\<close>

definition is_required :: "ControlResult \<Rightarrow> bool" where
  "is_required r = truthy (required r)"

definition overall :: "ControlResult list \<Rightarrow> ResultStatus" where
  "overall results =
     (let reqd = filter is_required results in
      if list_ex (\<lambda>r. status r = FAIL) results then FAIL
      else if list_ex (\<lambda>r. status r = NOT_RUN_ENV_UNAVAILABLE) reqd then NOT_RUN_ENV_UNAVAILABLE
      else if list_ex (\<lambda>r. status r \<noteq> PASS) reqd then WARN
      else if list_ex (\<lambda>r. status r \<in> {WARN, NOT_RUN_ENV_UNAVAILABLE}) results then WARN
      else if results \<noteq> [] \<and> list_all (\<lambda>r. status r = NOT_APPLICABLE) results then NOT_APPLICABLE
      else PASS)"

text \<open>One iteration of the loop over the controls.\<close>

definition run_control :: "ucd \<Rightarrow> items \<Rightarrow> pyval \<Rightarrow> ControlResult outcome" where
  "run_control U environment c =
     bind (items_of c) (\<lambda>control.
     bind (field control ''handler'') (\<lambda>h.
     bind (case dispatch U h control environment of
             Raise (ConformanceError reason) \<Rightarrow> Ret (FAIL, reason, invalid_detail reason)
           | r \<Rightarrow> r) (\<lambda>(st, reason, detail).
     bind (field control ''controlId'') (\<lambda>cid.
     bind (field control ''required'') (\<lambda>req.
     bind (field control ''axis'') (\<lambda>ax.
     bind (observation U cid st reason detail) (\<lambda>digest.
       Ret \<lparr>control_id = cid, handler = h, required = req, axis = ax, status = st,
            reason_code = reason, observation_digest = digest\<rparr>)))))))"

definition report_body :: "items \<Rightarrow> items \<Rightarrow> ControlResult list \<Rightarrow> string \<Rightarrow> pyval \<Rightarrow> items outcome" where
  "report_body campaign environment results run_id observed_at =
     bind (field campaign ''campaignId'') (\<lambda>cid.
     bind (field campaign ''version'') (\<lambda>version.
     bind (field environment ''environmentId'') (\<lambda>eid.
     bind (field campaign ''executionClass'') (\<lambda>cls.
     bind (field environment ''tenantId'') (\<lambda>tenant.
       Ret [(''schemaVersion'', PStr ''harness.planeon.ai/campaign-report/v1alpha1''),
            (''campaignId'', cid), (''campaignVersion'', version), (''environmentId'', eid),
            (''executionClass'', cls), (''observedAt'', observed_at),
            (''results'', PList (map (PDict \<circ> as_dict) results)), (''runId'', PStr run_id),
            (''status'', PStr (status_value (overall results))), (''tenantId'', tenant)])))))"

definition run_campaign :: "ucd \<Rightarrow> pyval \<Rightarrow> pyval \<Rightarrow> string \<Rightarrow> pyval \<Rightarrow> items outcome" where
  "run_campaign U campaign environment run_id observed_at =
     bind (validate_campaign U campaign) (\<lambda>c.
     bind (validate_environment environment) (\<lambda>e.
     bind (bind (field c ''controls'') iter_of) (\<lambda>controls.
     bind (map_out (run_control U e) controls) (\<lambda>results.
     bind (report_body c e results run_id observed_at) (\<lambda>report.
     bind (canonical_digest U (PDict report) (Some ''planeon.harness-conformance-report/v1alpha1'')) (\<lambda>digest.
       Ret (dict_set report ''reportDigest'' (PStr digest))))))))"

section \<open>Files and the registry\<close>

text \<open>What the program asks of the file system: the content of files, the resolved form of a path
  (symbolic links followed), and which paths are links or directories.\<close>

record file_tree =
  files :: filesystem
  resolve :: "string \<Rightarrow> string"
  is_symlink :: "string \<Rightarrow> bool"
  is_dir :: "string \<Rightarrow> bool"
  glob_campaigns :: "string \<Rightarrow> string list"

text \<open>\<open>directory in path.parents\<close> for normalised absolute paths.\<close>

definition within :: "string \<Rightarrow> string \<Rightarrow> bool" where
  "within directory path \<longleftrightarrow>
     (let ds = path_parts directory; ps = path_parts path
      in length ds < length ps \<and> take (length ds) ps = ds)"

definition join_path :: "string \<Rightarrow> string \<Rightarrow> string" where
  "join_path a b = a @ ''/'' @ b"

definition run_campaign_files :: "ucd \<Rightarrow> file_tree \<Rightarrow> string \<Rightarrow> string \<Rightarrow> (items \<times> items) outcome" where
  "run_campaign_files U T campaign_path repository =
     bind (bind (load_json U (files T) False campaign_path) (validate_campaign U)) (\<lambda>campaign.
     bind (field campaign ''environmentFixture'') (\<lambda>fixture.
     bind (case fixture of PStr f \<Rightarrow> Ret (resolve T (join_path repository f)) | _ \<Rightarrow> Raise TypeError)
       (\<lambda>environment_path.
     bind (require (within (resolve T repository) environment_path \<and> \<not> is_symlink T environment_path)
             ''FIXTURE_OUTSIDE_REPOSITORY'') (\<lambda>_.
     bind (bind (load_json U (files T) False environment_path) validate_environment) (\<lambda>environment.
     bind (field campaign ''campaignId'') (\<lambda>cid.
     bind (field environment ''capturedAt'') (\<lambda>captured.
     bind (case cid of PStr i \<Rightarrow> Ret (i @ ''.deterministic'') | _ \<Rightarrow> Raise TypeError) (\<lambda>run_id.
     bind (run_campaign U (PDict campaign) (PDict environment) run_id captured) (\<lambda>report.
       Ret (report, environment))))))))))"

type_synonym registry = "(string \<times> string) list"

definition register :: "ucd \<Rightarrow> file_tree \<Rightarrow> string \<Rightarrow> registry \<Rightarrow> string \<Rightarrow> registry outcome" where
  "register U T root result path =
     bind (require (\<not> is_symlink T path \<and> within root (resolve T path)) ''CAMPAIGN_PATH_FORBIDDEN'') (\<lambda>_.
     bind (bind (load_json U (files T) False path) (validate_campaign U)) (\<lambda>campaign.
     bind (field campaign ''campaignId'') (\<lambda>cid.
       case cid of
         PStr i \<Rightarrow>
           if i \<in> fst ` set result then refuse ''DUPLICATE_CAMPAIGN'' else Ret (result @ [(i, path)])
       | _ \<Rightarrow> Raise TypeError)))"

definition campaign_registry :: "ucd \<Rightarrow> file_tree \<Rightarrow> string \<Rightarrow> registry outcome" where
  "campaign_registry U T repository =
     (let root = resolve T repository; campaign_root = join_path root ''campaigns'' in
      bind (require (is_dir T campaign_root \<and> \<not> is_symlink T campaign_root)
              ''CAMPAIGN_ROOT_UNAVAILABLE'') (\<lambda>_.
      bind (fold_out (register U T root) [] (sort (glob_campaigns T campaign_root))) (\<lambda>result.
      bind (require (result \<noteq> []) ''NO_CAMPAIGNS'') (\<lambda>_. Ret result))))"

definition resolve_campaign :: "ucd \<Rightarrow> file_tree \<Rightarrow> string \<Rightarrow> string \<Rightarrow> string outcome" where
  "resolve_campaign U T repository campaign_id =
     (if \<not> fullmatch ID campaign_id then refuse ''INVALID_CAMPAIGN_ID''
      else case campaign_registry U T repository of
        Ret r \<Rightarrow> (case map_of r campaign_id of None \<Rightarrow> refuse ''UNKNOWN_CAMPAIGN'' | Some p \<Rightarrow> Ret p)
      | Raise KeyError \<Rightarrow> refuse ''UNKNOWN_CAMPAIGN''
      | Raise e \<Rightarrow> Raise e)"

section \<open>The overall status\<close>

lemma overall_PASS_iff:
  "overall rs = PASS \<longleftrightarrow>
     list_all (\<lambda>r. status r = PASS \<or> \<not> is_required r \<and> status r = NOT_APPLICABLE) rs \<and>
     (rs = [] \<or> list_ex (\<lambda>r. status r = PASS) rs)"
  (is "?l \<longleftrightarrow> ?r")
proof
  assume l: ?l
  have "status r = PASS \<or> \<not> is_required r \<and> status r = NOT_APPLICABLE" if "r \<in> set rs" for r
    using l that by (cases "status r") (auto simp: overall_def Let_def list_ex_iff split: if_splits)
  moreover have "rs = [] \<or> list_ex (\<lambda>r. status r \<noteq> NOT_APPLICABLE) rs"
    using l by (auto simp: overall_def Let_def list_ex_iff list_all_iff split: if_splits)
  ultimately show ?r by (auto simp: list_all_iff list_ex_iff)
next
  assume r: ?r
  then have "status r \<in> {PASS, NOT_APPLICABLE}" "is_required r \<Longrightarrow> status r = PASS"
    if "r \<in> set rs" for r
    using that by (auto simp: list_all_iff)
  moreover have "rs = [] \<or> \<not> list_all (\<lambda>r. status r = NOT_APPLICABLE) rs"
    using r by (auto simp: list_all_iff list_ex_iff)
  ultimately show ?l by (fastforce simp: overall_def Let_def list_ex_iff)
qed

lemma overall_blocked:
  assumes "r \<in> set rs" "is_required r" "status r \<in> {FAIL, NOT_RUN_ENV_UNAVAILABLE}"
  shows "overall rs \<in> {FAIL, NOT_RUN_ENV_UNAVAILABLE}"
  using assms by (auto simp: overall_def Let_def list_ex_iff)

section \<open>Running a control\<close>

lemma evaluate_control_status: "evaluate_control control = Ret (st, reason, detail) \<Longrightarrow> st = NOT_RUN_ENV_UNAVAILABLE"
  by (auto simp: evaluate_control_def bind_eq_Ret)

lemma run_control_Ret:
  assumes "run_control U e c = Ret r"
  obtains k where "c = PDict k" "map_of k ''controlId'' = Some (control_id r)"
    "map_of k ''handler'' = Some (handler r)" "map_of k ''required'' = Some (required r)"
    "map_of k ''axis'' = Some (axis r)" "in_lang DIGEST (observation_digest r)"
    "handler r = PStr ''LINUX_READINESS'' \<longrightarrow> status r \<in> {FAIL, NOT_RUN_ENV_UNAVAILABLE}"
proof -
  from assms obtain k h st reason detail cid req ax digest where
    k: "c = PDict k" "map_of k ''handler'' = Some h" "map_of k ''controlId'' = Some cid"
      "map_of k ''required'' = Some req" "map_of k ''axis'' = Some ax"
    and v: "(case dispatch U h k e of
        Raise (ConformanceError reason) \<Rightarrow> Ret (FAIL, reason, invalid_detail reason) | r \<Rightarrow> r)
      = Ret (st, reason, detail)"
    and o: "observation U cid st reason detail = Ret digest"
    and r: "r = \<lparr>control_id = cid, handler = h, required = req, axis = ax, status = st,
            reason_code = reason, observation_digest = digest\<rparr>"
    unfolding run_control_def
    by (auto simp: bind_eq_Ret items_of_eq_Ret field_eq_Ret split: prod.splits)
  have "in_lang DIGEST digest"
    using o by (auto simp: observation_def canonical_digest_Ret)
  moreover have "st \<in> {FAIL, NOT_RUN_ENV_UNAVAILABLE}" if "h = PStr ''LINUX_READINESS''"
    using v that by (auto simp: dispatch_def split: outcome.splits exn.splits dest: evaluate_control_status)
  ultimately show thesis using that [of k] k r by simp
qed

lemma run_campaign_Ret:
  assumes "run_campaign U campaign environment run_id observed_at = Ret report"
  obtains c e controls results body digest where
    "validate_campaign U campaign = Ret c" "validate_environment environment = Ret e"
    "map_of c ''controls'' = Some (PList controls)"
    "list_all2 (\<lambda>x r. run_control U e x = Ret r) controls results"
    "report_body c e results run_id observed_at = Ret body"
    "canonical_digest U (PDict body) (Some ''planeon.harness-conformance-report/v1alpha1'') = Ret digest"
    "report = dict_set body ''reportDigest'' (PStr digest)"
proof -
  from assms obtain c e cv controls results body digest where
    c: "validate_campaign U campaign = Ret c" and e: "validate_environment environment = Ret e"
    and cv: "map_of c ''controls'' = Some cv" "iter_of cv = Ret controls"
    and rest: "list_all2 (\<lambda>x r. run_control U e x = Ret r) controls results"
    "report_body c e results run_id observed_at = Ret body"
    "canonical_digest U (PDict body) (Some ''planeon.harness-conformance-report/v1alpha1'') = Ret digest"
    "report = dict_set body ''reportDigest'' (PStr digest)"
    unfolding run_campaign_def by (auto simp: bind_eq_Ret field_eq_Ret map_out_eq_Ret)
  from c obtain cs where "map_of c ''controls'' = Some (PList cs)"
    by (rule validate_campaign_parts)
  with cv have "map_of c ''controls'' = Some (PList controls)" by auto
  with that c e rest show thesis by blast
qed

lemma report_body_Ret:
  assumes "report_body c e results run_id observed_at = Ret body"
  shows "map_of body ''results'' = Some (PList (map (PDict \<circ> as_dict) results))"
    "map_of body ''status'' = Some (PStr (status_value (overall results)))"
    "map_of body ''observedAt'' = Some observed_at" "map_of body ''runId'' = Some (PStr run_id)"
    "map_of body ''campaignId'' = map_of c ''campaignId''"
    "map_of body ''executionClass'' = map_of c ''executionClass''"
    "map_of body ''tenantId'' = map_of e ''tenantId''"
    "map_of body ''environmentId'' = map_of e ''environmentId''"
    "map_of body ''reportDigest'' = None" "distinct (map fst body)"
  using assms by (auto simp: report_body_def bind_eq_Ret field_eq_Ret)

section \<open>Properties\<close>

text \<open>a campaign passes exactly when every result is a pass, or is inapplicable and not required,
  and some result is a pass unless there are none.\<close>

theorem overall_PASS:
  "overall rs = PASS \<longleftrightarrow>
     list_all (\<lambda>r. status r = PASS \<or> is_required r = False \<and> status r = NOT_APPLICABLE) rs \<and>
     (rs = [] \<or> list_ex (\<lambda>r. status r = PASS) rs)"
  unfolding overall_PASS_iff by simp

definition result_of :: "pyval \<Rightarrow> ControlResult \<Rightarrow> bool" where
  "result_of c r \<longleftrightarrow>
     item c ''controlId'' = Ret (control_id r) \<and> item c ''handler'' = Ret (handler r) \<and>
     item c ''required'' = Ret (required r) \<and> item c ''axis'' = Ret (axis r) \<and>
     fullmatch DIGEST (observation_digest r)"

definition controls_of :: "pyval \<Rightarrow> pyval list" where
  "controls_of campaign = (case item campaign ''controls'' of Ret (PList cs) \<Rightarrow> cs | _ \<Rightarrow> [])"

lemma run_control_result_of: "run_control U e c = Ret r \<Longrightarrow> result_of c r"
  by (elim run_control_Ret) (simp add: result_of_def fullmatch_iff)

lemma run_campaign_results:
  assumes "run_campaign U campaign environment run_id observed_at = Ret report"
  obtains e results where "list_all2 (\<lambda>c r. run_control U e c = Ret r) (controls_of campaign) results"
    "map_of report ''results'' = Some (PList (map (PDict \<circ> as_dict) results))"
    "map_of report ''status'' = Some (PStr (status_value (overall results)))"
    "\<exists>d. map_of report ''reportDigest'' = Some (PStr d) \<and>
       canonical_digest U (PDict (dict_without [''reportDigest''] report))
         (Some ''planeon.harness-conformance-report/v1alpha1'') = Ret d"
proof -
  from assms obtain c e controls results body digest where
    v: "validate_campaign U campaign = Ret c" "map_of c ''controls'' = Some (PList controls)"
    and run: "list_all2 (\<lambda>x r. run_control U e x = Ret r) controls results"
    and body: "report_body c e results run_id observed_at = Ret body"
    and d: "canonical_digest U (PDict body) (Some ''planeon.harness-conformance-report/v1alpha1'') = Ret digest"
      "report = dict_set body ''reportDigest'' (PStr digest)"
    by (rule run_campaign_Ret)
  note b = report_body_Ret [OF body]
  have "campaign = PDict c" using v(1) by (rule validate_campaign_parts)
  then have "controls_of campaign = controls" using v(2) by (simp add: controls_of_def)
  moreover have "dict_without [''reportDigest''] report = body"
    using b(9) d(2) by (simp add: dict_without_dict_set)
  ultimately show thesis using that [of e results] run b d by simp
qed

text \<open>C38: a report has one result for each control of its campaign, in order, with the control's
  identifier, handler, requirement and axis and a well-formed observation digest; its status is
  the overall status of these results; and its digest is that of the report without it.\<close>

theorem report_faithful:
  "case run_campaign U campaign environment run_id observed_at of
     Ret report \<Rightarrow>
       (\<exists>results d. list_all2 result_of (controls_of campaign) results \<and>
          map_of report ''results'' = Some (PList (map (PDict \<circ> as_dict) results)) \<and>
          map_of report ''status'' = Some (PStr (status_value (overall results))) \<and>
          map_of report ''reportDigest'' = Some (PStr d) \<and>
          canonical_digest U (PDict (dict_without [''reportDigest''] report))
            (Some ''planeon.harness-conformance-report/v1alpha1'') = Ret d)
   | Raise _ \<Rightarrow> True"
proof (cases "run_campaign U campaign environment run_id observed_at")
  case (Ret report)
  then obtain e results where run: "list_all2 (\<lambda>c r. run_control U e c = Ret r) (controls_of campaign) results"
    and facts: "map_of report ''results'' = Some (PList (map (PDict \<circ> as_dict) results))"
      "map_of report ''status'' = Some (PStr (status_value (overall results)))"
      "\<exists>d. map_of report ''reportDigest'' = Some (PStr d) \<and>
         canonical_digest U (PDict (dict_without [''reportDigest''] report))
           (Some ''planeon.harness-conformance-report/v1alpha1'') = Ret d"
    by (rule run_campaign_results)
  have "list_all2 result_of (controls_of campaign) results"
    using run by (rule list_all2_mono) (rule run_control_result_of)
  with facts Ret show ?thesis by auto
qed simp

definition has_linux_control :: "pyval \<Rightarrow> bool" where
  "has_linux_control campaign =
     list_ex (\<lambda>c. item c ''handler'' = Ret (PStr ''LINUX_READINESS'')) (controls_of campaign)"

lemma linux_control_blocks:
  assumes "control_shape c i" "run_control U e c = Ret r" "item c ''handler'' = Ret (PStr ''LINUX_READINESS'')"
  shows "is_required r \<and> status r \<in> {FAIL, NOT_RUN_ENV_UNAVAILABLE}"
proof -
  obtain k where k: "c = PDict k" "map_of k ''handler'' = Some (handler r)"
    "map_of k ''required'' = Some (required r)"
    "handler r = PStr ''LINUX_READINESS'' \<longrightarrow> status r \<in> {FAIL, NOT_RUN_ENV_UNAVAILABLE}"
    using assms(2) by (rule run_control_Ret)
  with assms(1,3) show ?thesis by (auto simp: control_shape_def is_required_def)
qed

lemma linux_campaign_blocked:
  assumes "run_campaign U campaign environment run_id observed_at = Ret report"
    and "has_linux_control campaign"
  shows "map_of report ''status'' \<in> Some ` PStr ` {''FAIL'', ''NOT_RUN_ENV_UNAVAILABLE''}"
proof -
  obtain e results where run: "list_all2 (\<lambda>c r. run_control U e c = Ret r) (controls_of campaign) results"
    and st: "map_of report ''status'' = Some (PStr (status_value (overall results)))"
    using assms(1) by (rule run_campaign_results)
  obtain d where d: "validate_campaign U campaign = Ret d" using assms(1) by (rule run_campaign_Ret)
  then obtain cs ids where "campaign = PDict d" "map_of d ''controls'' = Some (PList cs)"
    and shape: "list_all2 control_shape cs ids" by (rule validate_campaign_Ret)
  then have cs: "controls_of campaign = cs" by (simp add: controls_of_def)
  with assms(2) obtain n where n: "n < length cs"
    "item (cs ! n) ''handler'' = Ret (PStr ''LINUX_READINESS'')"
    by (auto simp: has_linux_control_def list_ex_iff in_set_conv_nth)
  have "results ! n \<in> set results" "is_required (results ! n)"
    "status (results ! n) \<in> {FAIL, NOT_RUN_ENV_UNAVAILABLE}"
    using linux_control_blocks [of "cs ! n" "ids ! n" U e "results ! n"] run shape n
    by (auto simp: cs list_all2_conv_all_nth)
  from overall_blocked [OF this] st show ?thesis by auto
qed

text \<open>C32: a campaign with a Linux readiness control never passes: its report says \<open>FAIL\<close> or
  \<open>NOT_RUN_ENV_UNAVAILABLE\<close>.\<close>

theorem linux_campaign_never_passes:
  "case run_campaign U campaign environment run_id observed_at of
     Ret report \<Rightarrow>
       (if has_linux_control campaign
        then map_of report ''status'' \<in> Some ` PStr ` {''FAIL'', ''NOT_RUN_ENV_UNAVAILABLE''} else True)
   | Raise _ \<Rightarrow> True"
proof (cases "run_campaign U campaign environment run_id observed_at")
  case (Ret report)
  then show ?thesis using linux_campaign_blocked [OF Ret] by simp
qed simp

text \<open>A schema assertion whose kind is an array is accepted by \<open>validate_campaign\<close>, and running it
  raises \<open>TypeError\<close>: the loop over the controls handles \<open>ConformanceError\<close> only.\<close>

definition list_kind_campaign :: items where
  "list_kind_campaign =
     dict_set sample_campaign ''controls'' (PList [PDict
       [(''controlId'', PStr ''unit.one''), (''handler'', PStr ''SCHEMA_ASSERTION''), (''required'', PBool True),
        (''axis'', PStr ''UNIT''), (''input'', PDict [(''kind'', PList []), (''document'', PNone)])]])"

definition sample_environment :: items where
  "sample_environment =
     [(''schemaVersion'', PStr ''harness.planeon.ai/environment-intake/v1alpha1''),
      (''environmentId'', PStr ''env''), (''tenantId'', PStr ''tenant''),
      (''capturedAt'', PStr ''2026-01-01T00:00:00Z''), (''capabilities'', PDict [(''gpu'', PBool True)])]"

lemma run_campaign_type_error:
  "validate_campaign id (PDict list_kind_campaign) = Ret list_kind_campaign \<and>
   run_campaign id (PDict list_kind_campaign) (PDict sample_environment) ''r'' (PStr ''2026-01-01T00:00:00Z'')
     = Raise TypeError"
  by code_simp

end
