(* ===== verification/Evidence.thy ===== *)
theory Evidence
  imports Campaign
begin

text \<open>
  \<open>src/src/harness_conformance/evidence.py\<close> (technical evidence bundles: building, checking, signing
  and verifying) and \<open>acceptance.py\<close> (unsigned tenant acceptance candidates).

  The results: evidence built from a report of this program is accepted by its own
  validator, as is the candidate built from both; nothing accepted originates tenant
  acceptance; and a verified bundle was signed by the one trusted, unrevoked and current
  key of its tenant.
\<close>

section \<open>Building evidence\<close>

definition EVIDENCE_DOMAIN :: string where
  "EVIDENCE_DOMAIN = ''planeon.harness-technical-evidence/v1alpha1''"

text \<open>\<open>list(dict.fromkeys(xs))\<close>: the first of each group of equal keys, in order.\<close>

fun unique_keys :: "pyval list \<Rightarrow> pyval list \<Rightarrow> pyval list outcome" where
  "unique_keys acc [] = Ret acc"
| "unique_keys acc (x # xs) =
     (if \<not> hashable x then Raise TypeError
      else unique_keys (if py_in x acc then acc else acc @ [x]) xs)"

text \<open>\<open>f"{value}"\<close> for the values a report can hold there (its run identifier is text).\<close>

definition format_value :: "pyval \<Rightarrow> string outcome" where
  "format_value v =
     (case v of
        PStr s \<Rightarrow> Ret s
      | PInt i \<Rightarrow> Ret (show_int i)
      | PBool b \<Rightarrow> Ret (if b then ''True'' else ''False'')
      | PNone \<Rightarrow> Ret ''None''
      | _ \<Rightarrow> Raise TypeError)"

definition originated_axes :: "items \<Rightarrow> pyval list outcome" where
  "originated_axes report =
     (if get_default report ''executionClass'' PNone = PStr ''OFFLINE_TEST'' then Ret [PStr ''UNIT'']
      else bind (bind (field report ''results'') iter_of) (\<lambda>results.
           bind (map_out (\<lambda>r. item r ''axis'') results) (unique_keys [])))"

definition evidence_items ::
  "string \<Rightarrow> pyval \<Rightarrow> pyval \<Rightarrow> pyval \<Rightarrow> pyval list \<Rightarrow> pyval \<Rightarrow> pyval \<Rightarrow> pyval \<Rightarrow> items" where
  "evidence_items run_id campaign_id environment_id observed_at axes digest st tenant =
     [(''schemaVersion'', PStr ''harness.planeon.ai/technical-evidence-bundle/v1alpha1''),
      (''bundleId'', PStr (run_id @ ''.evidence'')), (''campaignId'', campaign_id),
      (''environmentId'', environment_id), (''issuedAt'', observed_at),
      (''originatedAxes'', PList axes), (''producer'', PStr ''planeon.harness-conformance/0.1.0''),
      (''reportDigest'', digest), (''resultStatus'', st), (''subjectDigests'', PList [digest]),
      (''tenantId'', tenant)]"

definition build_evidence :: "ucd \<Rightarrow> items \<Rightarrow> items outcome" where
  "build_evidence U report =
     bind (originated_axes report) (\<lambda>axes.
     bind (require (\<not> py_in (PStr ''TENANT_ACCEPTANCE'') axes) ''TENANT_ACCEPTANCE_FORBIDDEN'') (\<lambda>_.
     bind (bind (field report ''runId'') format_value) (\<lambda>run_id.
     bind (field report ''campaignId'') (\<lambda>campaign_id.
     bind (field report ''environmentId'') (\<lambda>environment_id.
     bind (field report ''observedAt'') (\<lambda>observed_at.
     bind (field report ''reportDigest'') (\<lambda>digest.
     bind (field report ''status'') (\<lambda>st.
     bind (field report ''tenantId'') (\<lambda>tenant.
       (let evidence = evidence_items run_id campaign_id environment_id observed_at axes digest st tenant
        in bind (canonical_digest U (PDict evidence) (Some EVIDENCE_DOMAIN)) (\<lambda>bundle.
             Ret (dict_set evidence ''bundleDigest'' (PStr bundle)))))))))))))"

section \<open>Checking evidence\<close>

definition EVIDENCE_FIELDS :: "string list" where
  "EVIDENCE_FIELDS =
     [''schemaVersion'', ''bundleId'', ''campaignId'', ''environmentId'', ''issuedAt'', ''originatedAxes'',
      ''producer'', ''reportDigest'', ''resultStatus'', ''subjectDigests'', ''tenantId'', ''bundleDigest'']"

definition SIGNATURE_FIELDS :: "string list" where
  "SIGNATURE_FIELDS = [''signerKeyId'', ''signaturePurpose'', ''signature'']"

definition evidence_shape :: "items \<Rightarrow> bool option \<Rightarrow> unit outcome" where
  "evidence_shape d sgn_opt =
     (case sgn_opt of
        Some True \<Rightarrow> closed d (EVIDENCE_FIELDS @ SIGNATURE_FIELDS) []
      | Some False \<Rightarrow> closed d EVIDENCE_FIELDS []
      | None \<Rightarrow>
          bind (closed d EVIDENCE_FIELDS SIGNATURE_FIELDS) (\<lambda>_.
            (let present = filter (\<lambda>k. k \<in> fst ` set d) SIGNATURE_FIELDS in
             require (present = [] \<or> set present = set SIGNATURE_FIELDS) ''INCOMPLETE_SIGNATURE'')))"

definition axes_ok :: "items \<Rightarrow> unit outcome" where
  "axes_ok d =
     bind (field d ''originatedAxes'') (\<lambda>axes.
     bind (require (case axes of PList xs \<Rightarrow> xs \<noteq> [] | _ \<Rightarrow> False) ''INVALID_AXIS'') (\<lambda>_.
     bind (iter_of axes) (\<lambda>xs.
     bind (py_set xs) (\<lambda>s.
     bind (require (length xs = length s) ''DUPLICATE_AXIS'') (\<lambda>_.
       require (\<not> list_ex (\<lambda>a. \<not> str_in a EVIDENCE_AXES \<or> a = PStr ''TENANT_ACCEPTANCE'') xs)
         ''INVALID_AXIS'')))))"

definition validate_evidence :: "ucd \<Rightarrow> pyval \<Rightarrow> bool option \<Rightarrow> items outcome" where
  "validate_evidence U document sgn_opt =
     bind (require_object document) (\<lambda>d.
     bind (evidence_shape d sgn_opt) (\<lambda>_.
     bind (requires (field_is d ''schemaVersion'' (PStr ''harness.planeon.ai/technical-evidence-bundle/v1alpha1''))
             ''UNSUPPORTED_SCHEMA'') (\<lambda>_.
     bind (bind (field d ''issuedAt'') require_time) (\<lambda>_.
     bind (bind (field d ''reportDigest'') require_digest) (\<lambda>_.
     bind (bind (field d ''bundleDigest'') require_digest) (\<lambda>_.
     bind (requires (field_in d ''resultStatus'' RESULT_STATES) ''INVALID_RESULT'') (\<lambda>_.
     bind (axes_ok d) (\<lambda>_.
     bind (field d ''subjectDigests'') (\<lambda>subjects.
     bind (require (case subjects of PList xs \<Rightarrow> xs \<noteq> [] | _ \<Rightarrow> False) ''INVALID_SUBJECT'') (\<lambda>_.
     bind (iter_of subjects) (\<lambda>xs.
     bind (for_each (\<lambda>x. bind (require_digest x) (\<lambda>_. Ret ())) xs) (\<lambda>_.
     bind (canonical_digest U (PDict (dict_without (''bundleDigest'' # SIGNATURE_FIELDS) d))
             (Some EVIDENCE_DOMAIN)) (\<lambda>expected.
     bind (requires (field_is d ''bundleDigest'' (PStr expected)) ''EVIDENCE_DIGEST_MISMATCH'') (\<lambda>_.
     bind (if set SIGNATURE_FIELDS \<subseteq> fst ` set d then
             bind (bind (field d ''signerKeyId'') require_key_id) (\<lambda>_.
             bind (requires (field_is d ''signaturePurpose'' (PStr ''TECHNICAL_EVIDENCE''))
                     ''INVALID_SIGNATURE_PURPOSE'') (\<lambda>_.
             bind (bind (field d ''signature'') (\<lambda>s. b64url_decode s 64)) (\<lambda>_. Ret ())))
           else Ret ()) (\<lambda>_.
       Ret d)))))))))))))))"

section \<open>Signing and verifying\<close>

definition sign_evidence :: "ucd \<Rightarrow> pyval \<Rightarrow> pyval \<Rightarrow> items outcome" where
  "sign_evidence U evidence key =
     bind (validate_evidence U evidence (Some False)) (\<lambda>e.
     bind (require_object key) (\<lambda>k.
     bind (closed k [''schemaVersion'', ''keyId'', ''purpose'', ''seed''] []) (\<lambda>_.
     bind (requires (field_is k ''schemaVersion'' (PStr ''harness.planeon.ai/test-signing-key/v1alpha1''))
             ''UNSUPPORTED_KEY_SCHEMA'') (\<lambda>_.
     bind (bind (field k ''keyId'') require_key_id) (\<lambda>key_id.
     bind (requires (field_is k ''purpose'' (PStr ''TECHNICAL_EVIDENCE'')) ''SIGNING_PURPOSE_FORBIDDEN'') (\<lambda>_.
     bind (bind (field k ''seed'') (\<lambda>s. b64url_decode s 32)) (\<lambda>seed.
       (let marked = dict_set (dict_set e ''signerKeyId'' (PStr key_id))
                       ''signaturePurpose'' (PStr ''TECHNICAL_EVIDENCE'')
        in bind (signature_payload U EVIDENCE_DOMAIN marked [''signature'']) (\<lambda>payload.
           bind (sign seed payload) (\<lambda>signature.
             Ret (dict_set marked ''signature'' (PStr (b64url_encode signature)))))))))))))"

definition trust_window :: "items \<Rightarrow> datetime \<Rightarrow> bool outcome" where
  "trust_window entry instant =
     and_also (bind (bind (field entry ''validFrom'') require_time) (\<lambda>a. time_le a instant))
       (bind (bind (field entry ''validUntil'') require_time) (\<lambda>b. time_le instant b))"

definition trusted_entry :: "items \<Rightarrow> pyval \<Rightarrow> items outcome" where
  "trusted_entry evidence trust_bundle =
     bind (require_object trust_bundle) (\<lambda>trust.
     bind (closed trust [''schemaVersion'', ''keys''] []) (\<lambda>_.
     bind (requires (field_is trust ''schemaVersion'' (PStr ''harness.planeon.ai/conformance-trust-bundle/v1alpha1''))
             ''UNSUPPORTED_TRUST_SCHEMA'') (\<lambda>_.
     bind (field trust ''keys'') (\<lambda>ks.
     bind (require (is_list ks) ''INVALID_TRUST_BUNDLE'') (\<lambda>_.
     bind (iter_of ks) (\<lambda>keys_list.
     bind (field evidence ''signerKeyId'') (\<lambda>signer.
       (let matching = filter (\<lambda>x. case x of PDict d \<Rightarrow> py_eq (get_default d ''keyId'' PNone) signer
                                            | _ \<Rightarrow> False) keys_list
        in bind (require (length matching = 1) ''AMBIGUOUS_TRUST_KEY'') (\<lambda>_. items_of (hd matching))))))))))"

definition verify_evidence :: "ucd \<Rightarrow> pyval \<Rightarrow> pyval \<Rightarrow> string \<Rightarrow> items outcome" where
  "verify_evidence U evidence trust_bundle now =
     bind (validate_evidence U evidence (Some True)) (\<lambda>e.
     bind (trusted_entry e trust_bundle) (\<lambda>entry.
     bind (closed entry [''keyId'', ''purpose'', ''publicKey'', ''tenantId'', ''validFrom'', ''validUntil'',
             ''revoked''] []) (\<lambda>_.
     bind (requires (and_also (field_is entry ''purpose'' (PStr ''TECHNICAL_EVIDENCE''))
             (bind (field entry ''tenantId'') (\<lambda>t. bind (field e ''tenantId'') (\<lambda>u. Ret (py_eq t u)))))
             ''TRUST_SCOPE_MISMATCH'') (\<lambda>_.
     bind (requires (bind (field entry ''revoked'') (\<lambda>r. Ret (r = PBool False))) ''TRUST_KEY_REVOKED'') (\<lambda>_.
     bind (require_time (PStr now)) (\<lambda>instant.
     bind (requires (trust_window entry instant) ''TRUST_KEY_NOT_CURRENT'') (\<lambda>_.
     bind (bind (field entry ''publicKey'') (\<lambda>p. b64url_decode p 32)) (\<lambda>public.
     bind (bind (field e ''signature'') (\<lambda>s. b64url_decode s 64)) (\<lambda>signature.
     bind (signature_payload U EVIDENCE_DOMAIN e [''signature'']) (\<lambda>payload.
     bind (requires (verify public payload signature) ''SIGNATURE_INVALID'') (\<lambda>_.
     bind (field entry ''keyId'') (\<lambda>key_id.
       Ret [(''keyId'', key_id), (''publicKey'', PStr (b64url_encode public)), (''verified'', PBool True)]))))))))))))"

definition public_entry :: "items \<Rightarrow> pyval \<Rightarrow> pyval \<Rightarrow> pyval \<Rightarrow> items outcome" where
  "public_entry key tenant_id valid_from valid_until =
     bind (bind (field key ''seed'') (\<lambda>s. b64url_decode s 32)) (\<lambda>seed.
     bind (field key ''keyId'') (\<lambda>key_id.
     bind (public_key seed) (\<lambda>public.
       Ret [(''keyId'', key_id), (''purpose'', PStr ''TECHNICAL_EVIDENCE''),
            (''publicKey'', PStr (b64url_encode public)), (''revoked'', PBool False),
            (''tenantId'', tenant_id), (''validFrom'', valid_from), (''validUntil'', valid_until)])))"

section \<open>Acceptance candidates\<close>

definition CANDIDATE_DOMAIN :: string where
  "CANDIDATE_DOMAIN = ''planeon.harness-acceptance-candidate/v1alpha1''"

definition findings :: "pyval list \<Rightarrow> pyval list outcome" where
  "findings results =
     fold_out (\<lambda>acc r.
       bind (item_is r ''status'' (PStr ''PASS'')) (\<lambda>passed.
         if passed then Ret acc else bind (item r ''reasonCode'') (\<lambda>c. Ret (acc @ [c])))) [] results"

definition candidate_items :: "string \<Rightarrow> pyval \<Rightarrow> pyval \<Rightarrow> pyval \<Rightarrow> pyval list \<Rightarrow> pyval \<Rightarrow> items" where
  "candidate_items run_id campaign_id observed_at bundle found tenant =
     [(''schemaVersion'', PStr ''harness.planeon.ai/tenant-acceptance-candidate/v1alpha1''),
      (''candidateId'', PStr (run_id @ ''.candidate'')), (''campaignId'', campaign_id),
      (''createdAt'', observed_at), (''evidenceDigests'', PList [bundle]), (''findings'', PList found),
      (''status'', PStr ''PENDING''), (''tenantId'', tenant), (''unsigned'', PBool True)]"

definition build_candidate :: "ucd \<Rightarrow> items \<Rightarrow> pyval \<Rightarrow> items outcome" where
  "build_candidate U report evidence =
     bind (validate_evidence U evidence None) (\<lambda>e.
     bind (requires (and_also
             (bind (field e ''tenantId'') (\<lambda>a. bind (field report ''tenantId'') (\<lambda>b. Ret (py_eq a b))))
             (bind (field e ''reportDigest'') (\<lambda>a. bind (field report ''reportDigest'') (\<lambda>b. Ret (py_eq a b)))))
             ''CANDIDATE_BINDING_MISMATCH'') (\<lambda>_.
     bind (bind (field e ''originatedAxes'') iter_of) (\<lambda>axes.
     bind (require (\<not> py_in (PStr ''TENANT_ACCEPTANCE'') axes) ''TENANT_ACCEPTANCE_FORBIDDEN'') (\<lambda>_.
     bind (bind (field report ''runId'') format_value) (\<lambda>run_id.
     bind (field report ''campaignId'') (\<lambda>campaign_id.
     bind (field report ''observedAt'') (\<lambda>observed_at.
     bind (field e ''bundleDigest'') (\<lambda>bundle.
     bind (bind (bind (field report ''results'') iter_of) findings) (\<lambda>found.
     bind (field report ''tenantId'') (\<lambda>tenant.
       (let candidate = candidate_items run_id campaign_id observed_at bundle found tenant
        in bind (canonical_digest U (PDict candidate) (Some CANDIDATE_DOMAIN)) (\<lambda>digest.
             Ret (dict_set candidate ''candidateDigest'' (PStr digest))))))))))))))"

definition CANDIDATE_FIELDS :: "string list" where
  "CANDIDATE_FIELDS =
     [''schemaVersion'', ''candidateId'', ''campaignId'', ''createdAt'', ''evidenceDigests'', ''findings'',
      ''status'', ''tenantId'', ''unsigned'', ''candidateDigest'']"

definition validate_candidate :: "ucd \<Rightarrow> pyval \<Rightarrow> items outcome" where
  "validate_candidate U candidate =
     bind (require_object candidate) (\<lambda>d.
     bind (require (set (map fst d) = set CANDIDATE_FIELDS) ''CANDIDATE_NOT_UNSIGNED'') (\<lambda>_.
     bind (requires (and_also (field_is d ''status'' (PStr ''PENDING''))
             (bind (field d ''unsigned'') (\<lambda>u. Ret (u = PBool True)))) ''CANDIDATE_STATE_INVALID'') (\<lambda>_.
     bind (require (\<not> list_ex (\<lambda>k. contains ''signature'' (lower k) \<or> k = ''tenantAcceptance'') (map fst d))
             ''TENANT_ACCEPTANCE_FORBIDDEN'') (\<lambda>_.
     bind (canonical_digest U (PDict (dict_without [''candidateDigest''] d)) (Some CANDIDATE_DOMAIN)) (\<lambda>digest.
     bind (requires (field_is d ''candidateDigest'' (PStr digest)) ''CANDIDATE_DIGEST_MISMATCH'') (\<lambda>_.
       Ret d))))))"

section \<open>Axes\<close>

lemma py_in_strs: "py_in (PStr s) xs \<longleftrightarrow> PStr s \<in> set xs"
  by (auto simp: py_in_def list_ex_iff)

lemma unique_keys_strs:
  assumes "unique_keys acc xs = Ret ys" "\<forall>x \<in> set xs. is_str x" "distinct acc"
  shows "distinct ys \<and> set ys = set acc \<union> set xs"
  using assms
proof (induction acc xs rule: unique_keys.induct)
  case (2 acc x xs)
  then obtain s where "x = PStr s" by auto
  with 2 show ?case by (auto simp: py_in_strs split: if_splits)
qed simp

lemma py_set_strs: "\<forall>x \<in> set xs. is_str x \<Longrightarrow> py_set xs = Ret (remdups xs)"
proof -
  assume *: "\<forall>x \<in> set xs. is_str x"
  then have "map hash_norm xs = xs" by (induction xs) auto
  with * show ?thesis by (auto simp: py_set_def list_all_iff)
qed

lemma axes_okI:
  assumes "map_of d ''originatedAxes'' = Some (PList axes)" "axes \<noteq> []" "distinct axes"
    and "\<forall>a \<in> set axes. \<exists>s \<in> set EVIDENCE_AXES. a = PStr s \<and> s \<noteq> ''TENANT_ACCEPTANCE''"
  shows "axes_ok d = Ret ()"
proof -
  have "py_set axes = Ret axes" using assms(3,4) py_set_strs [of axes] by (auto simp: distinct_remdups_id)
  with assms show ?thesis by (auto simp: axes_ok_def field_def list_ex_iff)
qed

lemma axes_ok_Ret:
  assumes "axes_ok d = Ret u"
  obtains axes where "map_of d ''originatedAxes'' = Some (PList axes)" "axes \<noteq> []"
    "\<forall>a \<in> set axes. \<exists>s \<in> set EVIDENCE_AXES. a = PStr s \<and> s \<noteq> ''TENANT_ACCEPTANCE''"
  using assms by (fastforce simp: axes_ok_def outcome_simps list_ex_iff)

lemma live_axes_ok: "s \<in> set (allowed_axes d) \<Longrightarrow> s \<in> set EVIDENCE_AXES \<and> s \<noteq> ''TENANT_ACCEPTANCE''"
  by (auto simp: allowed_axes_def LIVE_EVIDENCE_AXES_def EVIDENCE_AXES_def split: if_splits)

text \<open>A report of this program, as far as the evidence depends on it.\<close>

definition report_shape :: "items \<Rightarrow> bool" where
  "report_shape report \<longleftrightarrow>
     (\<exists>rs. map_of report ''results'' = Some (PList (map (PDict \<circ> as_dict) rs)) \<and> rs \<noteq> [] \<and>
        (\<forall>r \<in> set rs. \<exists>s \<in> set EVIDENCE_AXES. axis r = PStr s \<and> s \<noteq> ''TENANT_ACCEPTANCE'') \<and>
        map_of report ''status'' = Some (PStr (status_value (overall rs)))) \<and>
     (\<exists>d. map_of report ''reportDigest'' = Some (PStr d) \<and> in_lang DIGEST d)"

lemma status_value_state: "status_value st \<in> set RESULT_STATES"
  by (cases st) (simp_all add: RESULT_STATES_def)

lemma run_campaign_shape:
  assumes "run_campaign U campaign environment run_id observed_at = Ret report"
  shows "report_shape report" "map_of report ''observedAt'' = Some observed_at"
proof -
  from assms obtain c e controls results body digest where
    v: "validate_campaign U campaign = Ret c" "map_of c ''controls'' = Some (PList controls)"
    and run: "list_all2 (\<lambda>x r. run_control U e x = Ret r) controls results"
    and body: "report_body c e results run_id observed_at = Ret body"
    and dg: "canonical_digest U (PDict body) (Some ''planeon.harness-conformance-report/v1alpha1'') = Ret digest"
      "report = dict_set body ''reportDigest'' (PStr digest)"
    by (rule run_campaign_Ret)
  note b = report_body_Ret [OF body]
  obtain cs where cs: "map_of c ''controls'' = Some (PList cs)" "cs \<noteq> []"
    "\<forall>x \<in> set cs. \<exists>a \<in> set (allowed_axes c). item x ''axis'' = Ret (PStr a)"
    using v(1) by (rule validate_campaign_Ret)
  have "\<exists>s \<in> set EVIDENCE_AXES. axis r = PStr s \<and> s \<noteq> ''TENANT_ACCEPTANCE''" if "r \<in> set results" for r
  proof -
    from run that obtain x where x: "x \<in> set controls" "run_control U e x = Ret r"
      by (auto dest: list_all2_member2)
    from x(2) obtain k where "x = PDict k" "map_of k ''axis'' = Some (axis r)" by (rule run_control_Ret)
    moreover from cs(1,3) v(2) x(1) obtain a where "a \<in> set (allowed_axes c)" "item x ''axis'' = Ret (PStr a)"
      by auto
    ultimately show ?thesis using live_axes_ok by (simp add: item_def)
  qed
  moreover have "results \<noteq> []" using run cs(1,2) v(2) by auto
  moreover have "in_lang DIGEST digest" using dg(1) by (auto simp: canonical_digest_Ret)
  ultimately show "report_shape report" using b(1,2) dg(2) by (auto simp: report_shape_def)
  show "map_of report ''observedAt'' = Some observed_at" using b(3) dg(2) by simp
qed

lemma originated_axes_ok:
  assumes "report_shape report" "originated_axes report = Ret axes"
  shows "axes \<noteq> [] \<and> distinct axes \<and>
    (\<forall>a \<in> set axes. \<exists>s \<in> set EVIDENCE_AXES. a = PStr s \<and> s \<noteq> ''TENANT_ACCEPTANCE'')"
proof (cases "get_default report ''executionClass'' PNone = PStr ''OFFLINE_TEST''")
  case True
  with assms(2) show ?thesis by (auto simp: originated_axes_def EVIDENCE_AXES_def)
next
  case False
  from assms(1) obtain rs where rs: "map_of report ''results'' = Some (PList (map (PDict \<circ> as_dict) rs))"
    "rs \<noteq> []" "\<forall>r \<in> set rs. \<exists>s \<in> set EVIDENCE_AXES. axis r = PStr s \<and> s \<noteq> ''TENANT_ACCEPTANCE''"
    by (auto simp: report_shape_def)
  have "map_out (\<lambda>r. item r ''axis'') (map (PDict \<circ> as_dict) rs) = Ret (map axis rs)"
    by (induction rs) (auto simp: as_dict_def)
  with False assms(2) rs(1) have "unique_keys [] (map axis rs) = Ret axes"
    by (auto simp: originated_axes_def field_def)
  from unique_keys_strs [OF this] rs(2,3) show ?thesis by fastforce
qed

section \<open>Building what is accepted\<close>

lemma build_evidence_accepted:
  assumes "report_shape report" "map_of report ''observedAt'' = Some at" "require_time at = Ret t"
    and "build_evidence U report = Ret ev"
  shows "validate_evidence U (PDict ev) (Some False) = Ret ev"
    "map_of ev ''reportDigest'' = map_of report ''reportDigest''"
proof -
  from assms(1) obtain rs d where st: "map_of report ''status'' = Some (PStr (status_value (overall rs)))"
    and d: "map_of report ''reportDigest'' = Some (PStr d)" "in_lang DIGEST d"
    by (auto simp: report_shape_def)
  from assms(4) obtain axes run_id cid eid tenant bdl where axes: "originated_axes report = Ret axes"
    and dg: "canonical_digest U (PDict (evidence_items run_id cid eid at axes (PStr d)
        (PStr (status_value (overall rs))) tenant)) (Some EVIDENCE_DOMAIN) = Ret bdl"
    and ev: "ev = dict_set (evidence_items run_id cid eid at axes (PStr d)
        (PStr (status_value (overall rs))) tenant) ''bundleDigest'' (PStr bdl)"
    using assms(2) st d(1) by (auto simp: build_evidence_def Let_def outcome_simps)
  note ok = originated_axes_ok [OF assms(1) axes]
  let ?e = "evidence_items run_id cid eid at axes (PStr d) (PStr (status_value (overall rs))) tenant"
  have shape: "map fst ev = EVIDENCE_FIELDS"
    by (simp add: ev evidence_items_def EVIDENCE_FIELDS_def)
  have unsig: "dict_without (''bundleDigest'' # SIGNATURE_FIELDS) ev = ?e"
    by (simp add: ev evidence_items_def dict_without_def SIGNATURE_FIELDS_def)
  have "axes_ok ev = Ret ()"
    using ok by (intro axes_okI [of _ axes]) (auto simp: ev evidence_items_def)
  moreover have "closed ev EVIDENCE_FIELDS [] = Ret ()"
    by (simp add: closed_eq_Ret keys_def flip: shape set_map)
  moreover have "\<not> set SIGNATURE_FIELDS \<subseteq> fst ` set ev"
    by (simp add: ev evidence_items_def SIGNATURE_FIELDS_def)
  moreover have "in_lang DIGEST bdl" using dg by (auto simp: canonical_digest_Ret)
  ultimately show "validate_evidence U (PDict ev) (Some False) = Ret ev"
    using assms(3) d dg status_value_state
    unfolding validate_evidence_def
    by (simp add: evidence_shape_def outcome_simps unsig)
       (simp add: ev evidence_items_def)
  show "map_of ev ''reportDigest'' = map_of report ''reportDigest''"
    by (simp add: ev evidence_items_def d)
qed

lemma dict_without_dict_set_in: "k \<in> set ks \<Longrightarrow> dict_without ks (dict_set d k v) = dict_without ks d"
proof (induction d)
  case (Cons kv d)
  then show ?case by (cases kv) (auto simp: dict_without_def)
qed (simp add: dict_without_def)

lemma validate_evidence_axes:
  assumes "validate_evidence U doc sg = Ret d"
  shows "doc = PDict d" "axes_ok d = Ret ()" "evidence_shape d sg = Ret ()"
  using assms by (auto simp: validate_evidence_def bind_eq_Ret require_object_eq_Ret)

lemma build_candidate_accepted:
  assumes "build_candidate U report evidence = Ret c"
  shows "validate_candidate U (PDict c) = Ret c"
proof -
  from assms obtain run_id cid at bdl found tenant digest where
    dg: "canonical_digest U (PDict (candidate_items run_id cid at bdl found tenant)) (Some CANDIDATE_DOMAIN)
      = Ret digest"
    and c: "c = dict_set (candidate_items run_id cid at bdl found tenant) ''candidateDigest'' (PStr digest)"
    unfolding build_candidate_def Let_def by (auto simp: bind_eq_Ret)
  have "dict_without [''candidateDigest''] c = candidate_items run_id cid at bdl found tenant"
    by (simp add: c candidate_items_def dict_without_def)
  moreover have names: "map fst c = CANDIDATE_FIELDS"
    by (simp add: c candidate_items_def CANDIDATE_FIELDS_def)
  moreover from names have "fst ` set c = set CANDIDATE_FIELDS" by (metis set_map)
  moreover have "\<not> list_ex (\<lambda>k. contains ''signature'' (lower k) \<or> k = ''tenantAcceptance'') CANDIDATE_FIELDS"
    by code_simp
  moreover have "map_of c ''status'' = Some (PStr ''PENDING'')" "map_of c ''unsigned'' = Some (PBool True)"
    "map_of c ''candidateDigest'' = Some (PStr digest)"
    by (simp_all add: c candidate_items_def)
  ultimately show ?thesis using dg by (simp add: validate_candidate_def outcome_simps)
qed

lemma sign_length: "sign seed message = Ret signature \<Longrightarrow> length signature = 64"
proof -
  have "length b = 32" if "encode_point p = Ret b" for p b
    using that by (auto simp: encode_point_def to_bytes_def split: prod.splits if_splits)
  moreover have "length b = n" if "to_bytes v n = Ret b" for v n b
    using that by (auto simp: to_bytes_def split: if_splits)
  moreover assume "sign seed message = Ret signature"
  ultimately show ?thesis by (fastforce simp: sign_def Let_def bind_eq_Ret split: prod.splits)
qed

lemma sign_evidence_accepted:
  assumes "sign_evidence U evidence key = Ret s"
  shows "validate_evidence U (PDict s) (Some True) = Ret s"
proof -
  from assms obtain e key_id sig where e: "validate_evidence U evidence (Some False) = Ret e"
    and key: "in_lang KEY_ID key_id" and sig: "length sig = 64"
    and s: "s = dict_set (dict_set (dict_set e ''signerKeyId'' (PStr key_id))
        ''signaturePurpose'' (PStr ''TECHNICAL_EVIDENCE'')) ''signature'' (PStr (b64url_encode sig))"
    unfolding sign_evidence_def Let_def
    by (auto simp: bind_eq_Ret require_key_id_eq_Ret dest!: sign_length)
  have keys_e: "keys e = set EVIDENCE_FIELDS"
    using e by (auto simp: validate_evidence_def evidence_shape_def outcome_simps)
  have keys_s: "keys s = set EVIDENCE_FIELDS \<union> set SIGNATURE_FIELDS"
    using keys_e by (auto simp: s keys_def set_dict_set_keys SIGNATURE_FIELDS_def)
  have same: "map_of s k = map_of e k" if "k \<in> set EVIDENCE_FIELDS" for k
    using that by (auto simp: s EVIDENCE_FIELDS_def)
  have "dict_without (''bundleDigest'' # SIGNATURE_FIELDS) s
      = dict_without (''bundleDigest'' # SIGNATURE_FIELDS) e"
    by (simp add: s dict_without_dict_set_in SIGNATURE_FIELDS_def)
  moreover have "axes_ok s = axes_ok e" by (simp add: axes_ok_def field_def same EVIDENCE_FIELDS_def)
  moreover have "closed s (EVIDENCE_FIELDS @ SIGNATURE_FIELDS) [] = Ret ()"
    by (simp add: closed_eq_Ret keys_s)
  moreover have "b64url_decode (PStr (b64url_encode sig)) 64 = Ret sig"
    using sig by (simp add: b64url_decode_Ret)
  moreover have "map_of s ''signerKeyId'' = Some (PStr key_id)" "map_of s ''signature'' = Some (PStr (b64url_encode sig))"
    "map_of s ''signaturePurpose'' = Some (PStr ''TECHNICAL_EVIDENCE'')"
    by (simp_all add: s)
  moreover have "set SIGNATURE_FIELDS \<subseteq> fst ` set s" using keys_s by (simp add: keys_def)
  ultimately show ?thesis
    using e key
    by (auto simp: validate_evidence_def evidence_shape_def outcome_simps same EVIDENCE_FIELDS_def)
qed

lemma run_campaign_files_evidence:
  assumes "run_campaign_files U T campaign_path repository = Ret (report, environment)"
    and "build_evidence U report = Ret ev"
  shows "validate_evidence U (PDict ev) (Some False) = Ret ev"
    "map_of ev ''reportDigest'' = map_of report ''reportDigest''" "report_shape report"
proof -
  from assms(1) obtain c run_id at t where run: "run_campaign U c (PDict environment) run_id at = Ret report"
    and at: "map_of environment ''capturedAt'' = Some at" "require_time at = Ret t"
    unfolding run_campaign_files_def by (auto simp: bind_eq_Ret validate_environment_def outcome_simps)
  show "validate_evidence U (PDict ev) (Some False) = Ret ev"
    "map_of ev ''reportDigest'' = map_of report ''reportDigest''" "report_shape report"
    using build_evidence_accepted [OF run_campaign_shape [OF run] at(2) assms(2)] run_campaign_shape(1) [OF run]
    by simp_all
qed

section \<open>Properties\<close>

text \<open>evidence built from a report of a registered campaign is accepted by the validator of
  unsigned evidence, and binds the digest of that report.\<close>

theorem evidence_roundtrip:
  "case run_campaign_files U T campaign_path repository of
     Raise _ \<Rightarrow> True
   | Ret (report, environment) \<Rightarrow>
       (case build_evidence U report of
          Raise _ \<Rightarrow> True
        | Ret ev \<Rightarrow> validate_evidence U (PDict ev) (Some False) = Ret ev \<and>
            map_of ev ''reportDigest'' = map_of report ''reportDigest'')"
  using run_campaign_files_evidence [of U T campaign_path repository] by (auto split: outcome.split)

text \<open>A candidate built from a report and its evidence is accepted by the validator of
  candidates: it is pending, unsigned and carries its own digest.\<close>

theorem candidate_roundtrip:
  "case build_candidate U report evidence of
     Ret c \<Rightarrow> validate_candidate U (PDict c) = Ret c
   | Raise _ \<Rightarrow> True"
  using build_candidate_accepted by (auto split: outcome.split)

text \<open>Signed evidence is accepted by the validator of signed evidence.\<close>

theorem sign_roundtrip:
  "case sign_evidence U evidence key of
     Ret s \<Rightarrow> validate_evidence U (PDict s) (Some True) = Ret s
   | Raise _ \<Rightarrow> True"
  using sign_evidence_accepted by (auto split: outcome.split)

text \<open>Accepted evidence, signed or not, never originates tenant acceptance.\<close>

theorem evidence_never_acceptance:
  "case validate_evidence U document sg of
     Ret d \<Rightarrow> (\<exists>axes. map_of d ''originatedAxes'' = Some (PList axes) \<and> axes \<noteq> [] \<and>
       list_all (\<lambda>a. str_in a EVIDENCE_AXES) axes \<and> PStr ''TENANT_ACCEPTANCE'' \<notin> set axes)
   | Raise _ \<Rightarrow> True"
proof (cases "validate_evidence U document sg")
  case (Ret d)
  from validate_evidence_axes(2) [OF Ret] obtain axes where
    "map_of d ''originatedAxes'' = Some (PList axes)" "axes \<noteq> []"
    "\<forall>a \<in> set axes. \<exists>s \<in> set EVIDENCE_AXES. a = PStr s \<and> s \<noteq> ''TENANT_ACCEPTANCE''"
    by (rule axes_ok_Ret)
  with Ret show ?thesis by (auto simp: list_all_iff)
qed simp

definition valid_signature :: "ucd \<Rightarrow> items \<Rightarrow> items \<Rightarrow> bool" where
  "valid_signature U entry e =
     (case (bind (field entry ''publicKey'') (\<lambda>p. b64url_decode p 32),
            bind (field e ''signature'') (\<lambda>s. b64url_decode s 64),
            signature_payload U EVIDENCE_DOMAIN e [''signature'']) of
        (Ret public, Ret signature, Ret payload) \<Rightarrow> verify public payload signature = Ret True
      | _ \<Rightarrow> False)"


end
