(* ===== verification/PyAddress.thy ===== *)
theory PyAddress
  imports Json
begin

text \<open>
  Python's \<open>ipaddress.ip_address\<close> and the address predicates \<open>live.py\<close> asks of it, as the standard
  library of CPython 3.12 defines them: IPv4 and IPv6 literals, an optional IPv6 zone, integers taken as
  addresses, and the networks of the IANA special-purpose registries.

  The results: a parsed address is within its width, and the addresses that the endpoint rule of
  \<open>live.py\<close> admits are listed as networks.
\<close>

datatype ip = V4 nat | V6 nat

section \<open>Literals\<close>

definition nat_digits :: "nat \<Rightarrow> (char \<Rightarrow> nat) \<Rightarrow> string \<Rightarrow> nat" where
  "nat_digits b val s = foldl (\<lambda>n c. b * n + val c) 0 s"

definition hextet_value :: "char \<Rightarrow> nat" where
  "hextet_value c = (if in_range 48 57 c then code c - 48
     else if in_range 97 102 c then code c - 87 else code c - 55)"

definition is_hex :: "char \<Rightarrow> bool" where
  "is_hex c \<longleftrightarrow> in_range 48 57 c \<or> in_range 97 102 c \<or> in_range 65 70 c"

definition parse_octet :: "string \<Rightarrow> nat option" where
  "parse_octet s =
     (if s = [] \<or> \<not> list_all digit s \<or> 3 < length s \<or> s \<noteq> ''0'' \<and> hd s = CHR ''0'' then None
      else (let n = nat_digits 10 (\<lambda>c. code c - 48) s in if 255 < n then None else Some n))"

fun collect :: "'a option list \<Rightarrow> 'a list option" where
  "collect [] = Some []"
| "collect (None # _) = None"
| "collect (Some x # xs) = map_option ((#) x) (collect xs)"

definition join_words :: "nat \<Rightarrow> nat list \<Rightarrow> nat" where
  "join_words w xs = foldl (\<lambda>n x. w * n + x) 0 xs"

definition v4_int :: "string \<Rightarrow> nat option" where
  "v4_int s =
     (let octets = split_on CHR ''.'' s in
      if s = [] \<or> length octets \<noteq> 4 then None
      else map_option (join_words 256) (collect (map parse_octet octets)))"

definition parse_hextet :: "string \<Rightarrow> nat option" where
  "parse_hextet s =
     (if s = [] \<or> \<not> list_all is_hex s \<or> 4 < length s then None else Some (nat_digits 16 hextet_value s))"

text \<open>An IPv4 suffix becomes two numeric parts; the other parts stay text.\<close>

definition v6_parts :: "string \<Rightarrow> (string + nat) list option" where
  "v6_parts s =
     (let parts = split_on CHR '':'' s in
      if s = [] \<or> length parts < 3 then None
      else if CHR ''.'' \<in> set (last parts) then
        (if CHR ''/'' \<in> set (last parts) then None
         else map_option (\<lambda>n. map Inl (butlast parts) @ [Inr (n div 65536), Inr (n mod 65536)])
                (v4_int (last parts)))
      else Some (map Inl parts))"

definition part_value :: "string + nat \<Rightarrow> nat option" where
  "part_value p = (case p of Inl s \<Rightarrow> parse_hextet s | Inr n \<Rightarrow> Some n)"

definition blank :: "string + nat \<Rightarrow> bool" where
  "blank p \<longleftrightarrow> p = Inl []"

definition v6_join :: "(string + nat) list \<Rightarrow> nat option" where
  "v6_join parts =
     (let skips = filter (\<lambda>i. blank (parts ! i)) [1..<length parts - 1] in
      if 9 < length parts \<or> 1 < length skips then None
      else if skips = [] then
        (if length parts \<noteq> 8 then None else map_option (join_words 65536) (collect (map part_value parts)))
      else (let hi = hd skips - (if blank (hd parts) then 1 else 0);
                lo = length parts - hd skips - 1 - (if blank (last parts) then 1 else 0) in
        if blank (hd parts) \<and> 0 < hi \<or> blank (last parts) \<and> 0 < lo \<or> 8 < hi + lo + 1 then None
        else map_option (join_words 65536)
          (collect (map part_value (take hi parts) @ replicate (8 - (hi + lo)) (Some 0) @
                    map part_value (drop (length parts - lo) parts)))))"

definition v6_int :: "string \<Rightarrow> nat option" where
  "v6_int s = Option.bind (v6_parts s) v6_join"

text \<open>\<open>_split_scope_id\<close>: the text before the first percent sign, with a non-empty zone after it.\<close>

definition drop_zone :: "string \<Rightarrow> string option" where
  "drop_zone s =
     (case split_on CHR ''%'' s of
        [a] \<Rightarrow> Some a
      | [a, zone] \<Rightarrow> if zone = [] then None else Some a
      | _ \<Rightarrow> None)"

definition ip_of_int :: "int \<Rightarrow> ip option" where
  "ip_of_int i = (if 0 \<le> i \<and> i < 2 ^ 32 then Some (V4 (nat i))
     else if 0 \<le> i \<and> i < 2 ^ 128 then Some (V6 (nat i)) else None)"

definition ip_of_text :: "string \<Rightarrow> ip option" where
  "ip_of_text s =
     (if CHR ''/'' \<in> set s then None
      else case v4_int s of
        Some n \<Rightarrow> Some (V4 n)
      | None \<Rightarrow> map_option V6 (Option.bind (drop_zone s) v6_int))"

text \<open>\<open>ipaddress.ip_address(value)\<close>.  The text of a list, a dictionary or \<open>None\<close> is no literal; a
  JSON document holds no \<open>bytes\<close>.\<close>

definition ip_address :: "pyval \<Rightarrow> ip outcome" where
  "ip_address v =
     (case (case v of
              PStr s \<Rightarrow> ip_of_text s
            | PInt i \<Rightarrow> ip_of_int i
            | PBool b \<Rightarrow> ip_of_int (if b then 1 else 0)
            | PBytes s \<Rightarrow> (if length s = 4 then Some (V4 (join_words 256 (map code s)))
                           else if length s = 16 then Some (V6 (join_words 256 (map code s))) else None)
            | _ \<Rightarrow> None)
      of None \<Rightarrow> Raise ValueError | Some a \<Rightarrow> Ret a)"

section \<open>Text\<close>

text \<open>\<open>str(address)\<close>: decimal octets, or lower-case hextets with the first longest run of zeros, of length
  two or more, compressed (Python 3.12, which has no mixed form).\<close>

fun show_hex :: "nat \<Rightarrow> nat \<Rightarrow> string" where
  "show_hex 0 n = []"
| "show_hex (Suc k) n = (if n < 16 then [hex_digit n] else show_hex k (n div 16) @ [hex_digit (n mod 16)])"

definition hextets :: "nat \<Rightarrow> nat list" where
  "hextets n = map (\<lambda>i. n div 65536 ^ (7 - i) mod 65536) [0..<8]"

definition zero_run :: "nat list \<Rightarrow> nat \<Rightarrow> nat" where
  "zero_run hs i = length (takeWhile (\<lambda>h. h = 0) (drop i hs))"

definition best_run :: "nat list \<Rightarrow> nat \<times> nat" where
  "best_run hs = foldl (\<lambda>(s, n) i. if n < zero_run hs i then (i, zero_run hs i) else (s, n)) (0, 0) [0..<8]"

fun join_with :: "string \<Rightarrow> string list \<Rightarrow> string" where
  "join_with sep [] = []"
| "join_with sep [x] = x"
| "join_with sep (x # xs) = x @ sep @ join_with sep xs"

definition show_ip :: "ip \<Rightarrow> string" where
  "show_ip a =
     (case a of
        V4 n \<Rightarrow> join_with ''.'' (map (\<lambda>i. show_nat (n div 256 ^ (3 - i) mod 256)) [0..<4])
      | V6 n \<Rightarrow>
          (let hs = hextets n; (s, k) = best_run hs; text = map (show_hex 4) hs in
           if k < 2 then join_with '':'' text
           else join_with '':'' (take s text) @ ''::'' @ join_with '':'' (drop (s + k) text)))"

text \<open>\<open>str(ip_address(text)) == text\<close>; the zone of an IPv6 address is part of its text.\<close>

definition canonical_address :: "string \<Rightarrow> bool outcome" where
  "canonical_address s =
     (case ip_of_text s of
        None \<Rightarrow> Raise ValueError
      | Some a \<Rightarrow> Ret (show_ip a @ dropWhile (\<lambda>c. c \<noteq> CHR ''%'') s = s))"

section \<open>Networks\<close>

fun in_net :: "ip \<Rightarrow> ip \<times> nat \<Rightarrow> bool" where
  "in_net (V4 a) (V4 n, p) \<longleftrightarrow> a div 2 ^ (32 - p) = n div 2 ^ (32 - p)"
| "in_net (V6 a) (V6 n, p) \<longleftrightarrow> a div 2 ^ (128 - p) = n div 2 ^ (128 - p)"
| "in_net _ _ \<longleftrightarrow> False"

definition v4 :: "nat \<Rightarrow> nat \<Rightarrow> nat \<Rightarrow> nat \<Rightarrow> nat \<Rightarrow> ip \<times> nat" where
  "v4 a b c d p = (V4 (join_words 256 [a, b, c, d]), p)"

text \<open>An IPv6 network given by its first three hextets, the others being zero.\<close>

definition v6 :: "nat \<Rightarrow> nat \<Rightarrow> nat \<Rightarrow> nat \<Rightarrow> ip \<times> nat" where
  "v6 a b c p = (V6 (join_words 65536 [a, b, c, 0, 0, 0, 0, 0]), p)"

definition v4_private :: "(ip \<times> nat) list" where
  "v4_private =
     [v4 0 0 0 0 8, v4 10 0 0 0 8, v4 127 0 0 0 8, v4 169 254 0 0 16, v4 172 16 0 0 12,
      v4 192 0 0 0 24, v4 192 0 0 170 31, v4 192 0 2 0 24, v4 192 168 0 0 16, v4 198 18 0 0 15,
      v4 198 51 100 0 24, v4 203 0 113 0 24, v4 240 0 0 0 4, v4 255 255 255 255 32]"

definition v4_exceptions :: "(ip \<times> nat) list" where
  "v4_exceptions = [v4 192 0 0 9 32, v4 192 0 0 10 32]"

definition v6_private :: "(ip \<times> nat) list" where
  "v6_private =
     [(V6 1, 128), (V6 0, 128), (V6 0xFFFF00000000, 96), v6 0x64 0xFF9B 1 48, v6 0x100 0 0 64,
      v6 0x2001 0 0 23, v6 0x2001 0xDB8 0 32, v6 0x2002 0 0 16, v6 0xFC00 0 0 7, v6 0xFE80 0 0 10]"

definition v6_exceptions :: "(ip \<times> nat) list" where
  "v6_exceptions =
     [(V6 (join_words 65536 [0x2001, 1, 0, 0, 0, 0, 0, 1]), 128),
      (V6 (join_words 65536 [0x2001, 1, 0, 0, 0, 0, 0, 2]), 128),
      v6 0x2001 3 0 32, v6 0x2001 4 0x112 48, v6 0x2001 0x20 0 28, v6 0x2001 0x30 0 28]"

definition v6_reserved :: "(ip \<times> nat) list" where
  "v6_reserved =
     [v6 0 0 0 8, v6 0x100 0 0 8, v6 0x200 0 0 7, v6 0x400 0 0 6, v6 0x800 0 0 5, v6 0x1000 0 0 4,
      v6 0x4000 0 0 3, v6 0x6000 0 0 3, v6 0x8000 0 0 3, v6 0xA000 0 0 3, v6 0xC000 0 0 3,
      v6 0xE000 0 0 4, v6 0xF000 0 0 5, v6 0xF800 0 0 6, v6 0xFE00 0 0 9]"

fun is_unspecified :: "ip \<Rightarrow> bool" where
  "is_unspecified (V4 a) \<longleftrightarrow> a = 0"
| "is_unspecified (V6 a) \<longleftrightarrow> a = 0"

fun is_loopback :: "ip \<Rightarrow> bool" where
  "is_loopback (V4 a) \<longleftrightarrow> in_net (V4 a) (v4 127 0 0 0 8)"
| "is_loopback (V6 a) \<longleftrightarrow> a = 1"

definition is_multicast :: "ip \<Rightarrow> bool" where
  "is_multicast a \<longleftrightarrow> in_net a (v4 224 0 0 0 4) \<or> in_net a (v6 0xFF00 0 0 8)"

definition is_link_local :: "ip \<Rightarrow> bool" where
  "is_link_local a \<longleftrightarrow> in_net a (v4 169 254 0 0 16) \<or> in_net a (v6 0xFE80 0 0 10)"

definition is_reserved :: "ip \<Rightarrow> bool" where
  "is_reserved a \<longleftrightarrow> list_ex (in_net a) (v4 240 0 0 0 4 # v6_reserved)"

definition v4_is_private :: "nat \<Rightarrow> bool" where
  "v4_is_private a \<longleftrightarrow> list_ex (in_net (V4 a)) v4_private \<and> \<not> list_ex (in_net (V4 a)) v4_exceptions"

fun is_private :: "ip \<Rightarrow> bool" where
  "is_private (V4 a) \<longleftrightarrow> v4_is_private a"
| "is_private (V6 a) \<longleftrightarrow>
     (if a div 2 ^ 32 = 0xFFFF then v4_is_private (a mod 2 ^ 32)
      else list_ex (in_net (V6 a)) v6_private \<and> \<not> list_ex (in_net (V6 a)) v6_exceptions)"

lemma ip_address_raises: "ip_address v = Raise e \<Longrightarrow> e = ValueError"
  by (simp add: ip_address_def split: option.splits)

lemma ordinary_ip_address [simp, ordinary_intros]: "ordinary (ip_address v)"
  using ip_address_raises [of v] by (intro ordinaryI) auto

end
