(* ===== verification/Live.thy ===== *)
theory Live
  imports LinuxShapes PyAddress
begin

text \<open>
  \<open>src/src/harness_conformance/live.py\<close>: the signed authority a live campaign runs under.  The
  execution envelope and the capacity authorization are closed documents; references are absolute
  paths, commands are direct argument vectors, endpoints are private literals; three independent
  signers are looked up in two trust bundles; the preflight binds every referenced file and the
  kit tree to its digest.  The Linux variants read canonical bytes, in version v1alpha1 and in
  version v1alpha2, which discloses whether the signers are independent.

  Environment: \<open>ucd\<close> is Unicode normalisation as in \<open>Canonical\<close>, \<open>filesystem\<close> gives the files,
  \<open>kit_host\<close> the directory trees below a path.  The current instant is an argument everywhere.
\<close>

section \<open>Constants\<close>

definition ENVELOPE_SCHEMA :: string where
  "ENVELOPE_SCHEMA = ''harness.planeon.ai/live-campaign-execution-envelope/v1alpha1''"

definition CAPACITY_SCHEMA :: string where
  "CAPACITY_SCHEMA = ''harness.planeon.ai/live-capacity-authorization/v1alpha1''"

definition ENVELOPE_DOMAIN :: string where
  "ENVELOPE_DOMAIN = ''planeon.harness-live-execution-envelope/v1alpha1''"

definition CAPACITY_DOMAIN :: string where
  "CAPACITY_DOMAIN = ''planeon.harness-live-capacity-authorization/v1alpha1''"

definition TREE_DOMAIN :: string where
  "TREE_DOMAIN = ''planeon.harness-live-tree/v1alpha1''"

definition COMMAND_DOMAIN :: string where
  "COMMAND_DOMAIN = ''planeon.harness-live-command-set/v1alpha1''"

definition ENVELOPE_FIELDS :: "string list" where
  "ENVELOPE_FIELDS =
     [''schemaVersion'', ''packetId'', ''packetFileReference'', ''packetDigest'', ''commands'',
      ''commandSetDigest'', ''conformanceKitRoot'', ''conformanceKitDigest'', ''campaignId'',
      ''campaignDefinitionFileReference'', ''campaignDefinitionDigest'', ''campaignReleaseFileReference'',
      ''campaignReleaseDigest'', ''launcherDigest'', ''bundleFileReference'', ''bundleDigest'',
      ''allowedEvidenceAxes'', ''tenantId'', ''environmentId'', ''capacityAuthorizationId'',
      ''capacityAuthorizationFileReference'', ''capacityAuthorizationDigest'', ''mutationProfile'',
      ''admissionPolicyDigest'', ''resourceQuotaDigest'', ''endpoints'', ''issuedAt'', ''expiresAt'',
      ''nonce'', ''releaseTrustStoreDigest'', ''tenantTrustStoreDigest'', ''platformSignerKeyId'',
      ''platformSignature'', ''tenantSignerKeyId'', ''tenantSignature'']"

definition CAPACITY_FIELDS :: "string list" where
  "CAPACITY_FIELDS =
     [''schemaVersion'', ''authorizationId'', ''operatorId'', ''tenantId'', ''environmentId'', ''namespace'',
      ''serviceAccountSubject'', ''permittedEndpointIds'', ''kubernetesApiRules'', ''campaignProxyRules'',
      ''permittedGvksAndVerbs'', ''preexistingResourceRefs'', ''resourceQuotaDigest'', ''limitRangeDigest'',
      ''preallocatedStorageRefs'', ''preallocatedAcceleratorRefs'', ''credentialIdentities'', ''mutationProfile'',
      ''admissionPolicyDigest'', ''validFrom'', ''expiresAt'', ''nonce'', ''signerKeyId'', ''signature'']"

definition ENDPOINT_FIELDS :: "string list" where
  "ENDPOINT_FIELDS =
     [''endpointId'', ''kind'', ''ipAddress'', ''port'', ''tls'', ''credentialFileReference'',
      ''authorizationPolicyDigest'', ''costDisposition'', ''accessMode'', ''discovery'']"

definition SHELLS :: "string list" where
  "SHELLS = [''sh'', ''bash'', ''zsh'', ''fish'', ''dash'', ''cmd'', ''powershell'', ''pwsh'']"

definition LIVE_AXES :: "string list" where
  "LIVE_AXES = [''DEPLOYMENT'', ''RUNTIME'', ''SECURITY'', ''ASSURANCE'', ''TENANT_ACCEPTANCE_CANDIDATE'']"

definition KEY_FIELDS :: "string list" where
  "KEY_FIELDS =
     [''keyId'', ''purpose'', ''publicKey'', ''owner'', ''tenantId'', ''environmentId'', ''validFrom'',
      ''validUntil'', ''revoked'']"

section \<open>References, commands and endpoints\<close>

definition require_absolute_reference :: "pyval \<Rightarrow> string outcome" where
  "require_absolute_reference v =
     (case v of
        PStr s \<Rightarrow>
          if 4096 < py_len s then refuse ''INVALID_REFERENCE''
          else if \<not> is_absolute s \<or> ''..'' \<in> set (path_parts s) then refuse ''INVALID_REFERENCE'' else Ret s
      | _ \<Rightarrow> refuse ''INVALID_REFERENCE'')"

definition command_set_digest :: "ucd \<Rightarrow> pyval list \<Rightarrow> string outcome" where
  "command_set_digest U commands = canonical_digest U (PList commands) (Some COMMAND_DOMAIN)"

definition path_name :: "string \<Rightarrow> string" where
  "path_name p = (if path_parts p = [] then [] else last (path_parts p))"

definition argument_ok :: "pyval \<Rightarrow> bool" where
  "argument_ok v = (case v of PStr s \<Rightarrow> s \<noteq> [] \<and> py_len s \<le> 4096 | _ \<Rightarrow> False)"

definition shell_transport :: "string \<Rightarrow> bool" where
  "shell_transport program \<longleftrightarrow>
     lower (path_name program) \<in> set SHELLS \<or> list_ex (\<lambda>c. c \<in> set program) ''|;&`$<>''"

definition validate_command :: "pyval \<Rightarrow> pyval outcome" where
  "validate_command command =
     (case command of
        PList (program # arguments) \<Rightarrow>
          if 32 < length (program # arguments) then refuse ''INVALID_COMMAND''
          else if \<not> list_all argument_ok (program # arguments) then refuse ''INVALID_COMMAND''
          else (case program of
                  PStr s \<Rightarrow> if shell_transport s then refuse ''SHELL_TRANSPORT_FORBIDDEN'' else Ret command
                | _ \<Rightarrow> refuse ''INVALID_COMMAND'')
      | _ \<Rightarrow> refuse ''INVALID_COMMAND'')"

definition validate_commands :: "pyval \<Rightarrow> pyval list outcome" where
  "validate_commands v =
     (case v of
        PList cs \<Rightarrow>
          if cs = [] \<or> 32 < length cs then refuse ''INVALID_COMMAND_SET'' else map_out validate_command cs
      | _ \<Rightarrow> refuse ''INVALID_COMMAND_SET'')"

definition private_address :: "ip \<Rightarrow> bool" where
  "private_address a \<longleftrightarrow>
     \<not> (is_unspecified a \<or> is_multicast a \<or> is_link_local a \<or> is_reserved a \<or>
        \<not> (is_loopback a \<or> is_private a))"

definition validate_tls :: "pyval \<Rightarrow> unit outcome" where
  "validate_tls v =
     bind (require_object v) (\<lambda>tls.
     bind (closed tls [''serverName'', ''serverSpkiDigest'', ''caCertificateFileReference''] []) (\<lambda>_.
     bind (field tls ''serverName'') (\<lambda>name.
     bind (require (case name of PStr s \<Rightarrow> s \<noteq> [] \<and> CHR ''*'' \<notin> set s | _ \<Rightarrow> False) ''TLS_IDENTITY_INVALID'') (\<lambda>_.
     bind (bind (field tls ''serverSpkiDigest'') require_digest) (\<lambda>_.
     bind (bind (field tls ''caCertificateFileReference'') require_absolute_reference) (\<lambda>_. Ret ()))))))"

definition validate_endpoint :: "pyval \<Rightarrow> items outcome" where
  "validate_endpoint document =
     bind (require_object document) (\<lambda>e.
     bind (closed e ENDPOINT_FIELDS []) (\<lambda>_.
     bind (requires (field_in e ''kind''
             [''KUBERNETES_API_PROXY'', ''CAMPAIGN_PROXY'', ''LOCAL_REGISTRY'', ''LOCAL_EVIDENCE_SINK''])
             ''ENDPOINT_KIND_FORBIDDEN'') (\<lambda>_.
     bind (bind (field e ''kind'') (\<lambda>k. case k of PStr s \<Rightarrow> Ret s | _ \<Rightarrow> Raise AttributeError)) (\<lambda>kind.
     bind (requires (and_also
             (field_is e ''accessMode''
                (PStr (if ends_with ''PROXY'' kind then ''PREAUTHORIZED_PROXY'' else ''LOCAL_PREEXISTING'')))
             (bind (field e ''discovery'') (\<lambda>x. Ret (x = PBool False)))) ''ENDPOINT_AUTHORITY_INVALID'') (\<lambda>_.
     bind (catching is_value_error ''ENDPOINT_IP_INVALID'' (bind (field e ''ipAddress'') ip_address)) (\<lambda>address.
     bind (require (private_address address) ''PUBLIC_ENDPOINT_FORBIDDEN'') (\<lambda>_.
     bind (field e ''port'') (\<lambda>port.
     bind (require (case port of PInt p \<Rightarrow> 1 \<le> p \<and> p \<le> 65535 | _ \<Rightarrow> False) ''ENDPOINT_PORT_INVALID'') (\<lambda>_.
     bind (bind (field e ''tls'') validate_tls) (\<lambda>_.
     bind (bind (field e ''credentialFileReference'') require_absolute_reference) (\<lambda>_.
     bind (bind (field e ''authorizationPolicyDigest'') require_digest) (\<lambda>_.
     bind (requires (field_in e ''costDisposition''
             [''SELF_HOSTED_OPEN_SOURCE_NON_METERED'', ''TENANT_SUPPLIED_OPEN_SOURCE_NON_METERED''])
             ''COST_DISPOSITION_FORBIDDEN'') (\<lambda>_.
       Ret e)))))))))))))"

section \<open>Envelope and capacity authorization\<close>

definition axes_invalid :: "pyval \<Rightarrow> bool outcome" where
  "axes_invalid axes =
     (case axes of
        PList xs \<Rightarrow>
          if xs = [] then Ret True
          else bind (py_set xs) (\<lambda>s. Ret (length xs \<noteq> length s \<or> \<not> list_all (\<lambda>x. str_in x LIVE_AXES) xs))
      | _ \<Rightarrow> Ret True)"

definition ENVELOPE_DIGESTS :: "string list" where
  "ENVELOPE_DIGESTS =
     [''packetDigest'', ''commandSetDigest'', ''conformanceKitDigest'', ''campaignDefinitionDigest'',
      ''campaignReleaseDigest'', ''launcherDigest'', ''bundleDigest'', ''capacityAuthorizationDigest'',
      ''admissionPolicyDigest'', ''resourceQuotaDigest'', ''releaseTrustStoreDigest'', ''tenantTrustStoreDigest'']"

definition ENVELOPE_REFERENCES :: "string list" where
  "ENVELOPE_REFERENCES =
     [''packetFileReference'', ''conformanceKitRoot'', ''campaignDefinitionFileReference'',
      ''campaignReleaseFileReference'', ''bundleFileReference'', ''capacityAuthorizationFileReference'']"

definition envelope_endpoints :: "items \<Rightarrow> unit outcome" where
  "envelope_endpoints e =
     bind (field e ''endpoints'') (\<lambda>endpoints.
     bind (require (case endpoints of PList xs \<Rightarrow> xs \<noteq> [] \<and> length xs \<le> 32 | _ \<Rightarrow> False) ''ENDPOINT_SET_INVALID'') (\<lambda>_.
     bind (bind (iter_of endpoints) (map_out validate_endpoint)) (\<lambda>validated.
     bind (map_out (\<lambda>d. field d ''endpointId'') validated) (\<lambda>ids.
     bind (py_set ids) (\<lambda>s. require (length ids = length s) ''DUPLICATE_ENDPOINT'')))))"

definition envelope_window :: "items \<Rightarrow> datetime \<Rightarrow> unit outcome" where
  "envelope_window e now =
     bind (bind (field e ''issuedAt'') require_time) (\<lambda>issued.
     bind (bind (field e ''expiresAt'') require_time) (\<lambda>expires.
     bind (requires (py_not (time_le expires issued)) ''INVALID_VALIDITY_WINDOW'') (\<lambda>_.
       requires (and_also (time_le issued now) (time_le now expires)) ''ENVELOPE_NOT_CURRENT'')))"

definition envelope_signers :: "items \<Rightarrow> unit outcome" where
  "envelope_signers e =
     bind (bind (field e ''platformSignerKeyId'') require_key_id) (\<lambda>_.
     bind (bind (field e ''tenantSignerKeyId'') require_key_id) (\<lambda>_.
     bind (requires (py_not (bind (field e ''platformSignerKeyId'') (\<lambda>p. bind (field e ''tenantSignerKeyId'') (\<lambda>t.
             Ret (py_eq p t))))) ''SIGNER_ROLES_NOT_INDEPENDENT'') (\<lambda>_.
     bind (bind (field e ''platformSignature'') (\<lambda>s. b64url_decode s 64)) (\<lambda>_.
     bind (bind (field e ''tenantSignature'') (\<lambda>s. b64url_decode s 64)) (\<lambda>_. Ret ())))))"

definition validate_envelope :: "ucd \<Rightarrow> pyval \<Rightarrow> datetime \<Rightarrow> items outcome" where
  "validate_envelope U document now =
     bind (require_object document) (\<lambda>e.
     bind (closed e ENVELOPE_FIELDS []) (\<lambda>_.
     bind (requires (field_is e ''schemaVersion'' (PStr ENVELOPE_SCHEMA)) ''UNSUPPORTED_ENVELOPE'') (\<lambda>_.
     bind (field e ''packetId'') (\<lambda>packet.
     bind (require (case packet of PStr s \<Rightarrow> starts_with ''CONF-'' s | _ \<Rightarrow> False) ''PACKET_ID_INVALID'') (\<lambda>_.
     bind (for_each (\<lambda>name. bind (bind (field e name) require_digest) (\<lambda>_. Ret ())) ENVELOPE_DIGESTS) (\<lambda>_.
     bind (bind (field e ''commands'') validate_commands) (\<lambda>commands.
     bind (requires (bind (field e ''commandSetDigest'') (\<lambda>x. bind (command_set_digest U commands) (\<lambda>y.
             Ret (py_eq x (PStr y))))) ''COMMAND_DIGEST_MISMATCH'') (\<lambda>_.
     bind (for_each (\<lambda>name. bind (bind (field e name) require_absolute_reference) (\<lambda>_. Ret ())) ENVELOPE_REFERENCES) (\<lambda>_.
     bind (requires (py_not (bind (field e ''allowedEvidenceAxes'') axes_invalid)) ''EVIDENCE_AXES_INVALID'') (\<lambda>_.
     bind (requires (field_is e ''mutationProfile'' (PStr ''ZERO_INCREMENTAL_COST_KUBERNETES_V1''))
             ''MUTATION_PROFILE_FORBIDDEN'') (\<lambda>_.
     bind (envelope_endpoints e) (\<lambda>_.
     bind (envelope_window e now) (\<lambda>_.
     bind (envelope_signers e) (\<lambda>_. Ret e))))))))))))))"

definition same_field :: "items \<Rightarrow> string \<Rightarrow> items \<Rightarrow> string \<Rightarrow> bool outcome" where
  "same_field d k e l = bind (field d k) (\<lambda>x. bind (field e l) (\<lambda>y. Ret (py_eq x y)))"

definition CAPACITY_BINDINGS :: "(string \<times> string) list" where
  "CAPACITY_BINDINGS =
     [(''authorizationId'', ''capacityAuthorizationId''), (''tenantId'', ''tenantId''),
      (''environmentId'', ''environmentId''), (''resourceQuotaDigest'', ''resourceQuotaDigest''),
      (''mutationProfile'', ''mutationProfile''), (''admissionPolicyDigest'', ''admissionPolicyDigest'')]"

definition capacity_endpoints :: "items \<Rightarrow> items \<Rightarrow> bool outcome" where
  "capacity_endpoints c e =
     bind (bind (field e ''endpoints'') iter_of) (\<lambda>endpoints.
     bind (map_out (\<lambda>x. item x ''endpointId'') endpoints) (\<lambda>ids.
     bind (py_set ids) (\<lambda>endpoint_ids.
     bind (field c ''permittedEndpointIds'') (\<lambda>permitted.
       case permitted of
         PList ps \<Rightarrow> bind (py_set ps) (\<lambda>s. Ret (set s = set endpoint_ids))
       | _ \<Rightarrow> Ret False))))"

definition capacity_window :: "items \<Rightarrow> items \<Rightarrow> datetime \<Rightarrow> unit outcome" where
  "capacity_window c e now =
     bind (bind (field c ''validFrom'') require_time) (\<lambda>valid_from.
     bind (bind (field c ''expiresAt'') require_time) (\<lambda>expires.
       requires
         (and_also (bind (bind (field e ''issuedAt'') require_time) (\<lambda>issued. time_le issued valid_from))
         (and_also (time_le valid_from now)
         (and_also (time_le now expires)
           (bind (bind (field e ''expiresAt'') require_time) (\<lambda>last. time_le expires last)))))
         ''CAPACITY_NOT_CURRENT''))"

definition validate_capacity :: "pyval \<Rightarrow> items \<Rightarrow> datetime \<Rightarrow> items outcome" where
  "validate_capacity document e now =
     bind (require_object document) (\<lambda>c.
     bind (closed c CAPACITY_FIELDS []) (\<lambda>_.
     bind (requires (field_is c ''schemaVersion'' (PStr CAPACITY_SCHEMA)) ''UNSUPPORTED_CAPACITY'') (\<lambda>_.
     bind (for_each (\<lambda>(k, l). requires (same_field c k e l) ''CAPACITY_BINDING_MISMATCH'') CAPACITY_BINDINGS) (\<lambda>_.
     bind (bind (field c ''limitRangeDigest'') require_digest) (\<lambda>_.
     bind (for_each (\<lambda>name. requires (bind (field c name) (\<lambda>x.
             Ret (case x of PList xs \<Rightarrow> length xs \<le> 256 | _ \<Rightarrow> False))) ''CAPACITY_RULES_INVALID'')
             [''kubernetesApiRules'', ''campaignProxyRules'', ''permittedGvksAndVerbs'', ''preexistingResourceRefs'',
              ''preallocatedStorageRefs'', ''preallocatedAcceleratorRefs'', ''credentialIdentities'']) (\<lambda>_.
     bind (requires (capacity_endpoints c e) ''CAPACITY_ENDPOINT_MISMATCH'') (\<lambda>_.
     bind (capacity_window c e now) (\<lambda>_.
     bind (bind (field c ''signerKeyId'') require_key_id) (\<lambda>_.
     bind (bind (field c ''signature'') (\<lambda>s. b64url_decode s 64)) (\<lambda>_. Ret c))))))))))"

section \<open>Signatures\<close>

definition key_matches :: "pyval \<Rightarrow> pyval \<Rightarrow> bool" where
  "key_matches key_id x =
     (case x of
        PDict d \<Rightarrow> py_eq (case map_of d ''keyId'' of None \<Rightarrow> PNone | Some v \<Rightarrow> v) key_id
      | _ \<Rightarrow> False)"

definition trust_key ::
  "pyval \<Rightarrow> pyval \<Rightarrow> string \<Rightarrow> pyval \<Rightarrow> pyval \<Rightarrow> datetime \<Rightarrow> bytes outcome" where
  "trust_key bundle0 key_id purpose tenant_id environment_id now =
     bind (require_object bundle0) (\<lambda>trust.
     bind (closed trust [''schemaVersion'', ''keys'', ''revocationsDigest''] []) (\<lambda>_.
     bind (requires (field_is trust ''schemaVersion'' (PStr ''harness.planeon.ai/live-trust-bundle/v1alpha1''))
             ''UNSUPPORTED_TRUST_BUNDLE'') (\<lambda>_.
     bind (bind (field trust ''revocationsDigest'') require_digest) (\<lambda>_.
     bind (bind (field trust ''keys'') iter_of) (\<lambda>entries.
     bind (case filter (key_matches key_id) entries of
             [PDict key] \<Rightarrow> Ret key | _ \<Rightarrow> refuse ''AMBIGUOUS_TRUST_KEY'') (\<lambda>key.
     bind (closed key KEY_FIELDS []) (\<lambda>_.
     bind (requires (and_also (field_is key ''purpose'' (PStr purpose))
             (and_also (field_is key ''tenantId'' tenant_id) (field_is key ''environmentId'' environment_id)))
             ''TRUST_SCOPE_MISMATCH'') (\<lambda>_.
     bind (requires (bind (field key ''revoked'') (\<lambda>r. Ret (r = PBool False))) ''TRUST_KEY_REVOKED'') (\<lambda>_.
     bind (requires (and_also
             (bind (bind (field key ''validFrom'') require_time) (\<lambda>a. time_le a now))
             (bind (bind (field key ''validUntil'') require_time) (\<lambda>b. time_le now b))) ''TRUST_KEY_NOT_CURRENT'') (\<lambda>_.
     bind (field key ''publicKey'') (\<lambda>p. b64url_decode p 32)))))))))))"

definition require_signature :: "bytes \<Rightarrow> bytes \<Rightarrow> items \<Rightarrow> string \<Rightarrow> string \<Rightarrow> unit outcome" where
  "require_signature key payload d name reason =
     requires (bind (bind (field d name) (\<lambda>s. b64url_decode s 64)) (\<lambda>signature. verify key payload signature)) reason"

text \<open>The key selection and the signature checks, which both versions share but for the domains.\<close>

definition signatures_under ::
  "ucd \<Rightarrow> string \<Rightarrow> string \<Rightarrow> items \<Rightarrow> items \<Rightarrow> pyval \<Rightarrow> pyval \<Rightarrow> datetime \<Rightarrow> unit outcome" where
  "signatures_under U envelope_domain capacity_domain e c release_trust tenant_trust now =
     bind (bind (field e ''platformSignerKeyId'') (\<lambda>k.
             trust_key release_trust k ''PLATFORM_RELEASE'' PNone PNone now)) (\<lambda>platform_key.
     bind (field e ''tenantSignerKeyId'') (\<lambda>k.
     bind (field e ''tenantId'') (\<lambda>tenant.
     bind (field e ''environmentId'') (\<lambda>environment.
     bind (trust_key tenant_trust k ''TENANT_LIVE_EXECUTION'' tenant environment now) (\<lambda>tenant_key.
     bind (bind (field c ''signerKeyId'') (\<lambda>k.
             trust_key tenant_trust k ''CAPACITY_OPERATOR'' tenant environment now)) (\<lambda>capacity_key.
     bind (require (distinct [platform_key, tenant_key, capacity_key]) ''SIGNER_ROLES_NOT_INDEPENDENT'') (\<lambda>_.
     bind (signature_payload U envelope_domain e [''platformSignature'', ''tenantSignature'']) (\<lambda>payload.
     bind (require_signature platform_key payload e ''platformSignature'' ''PLATFORM_SIGNATURE_INVALID'') (\<lambda>_.
     bind (require_signature tenant_key payload e ''tenantSignature'' ''TENANT_SIGNATURE_INVALID'') (\<lambda>_.
     bind (signature_payload U capacity_domain c [''signature'']) (\<lambda>capacity_payload.
       require_signature capacity_key capacity_payload c ''signature'' ''CAPACITY_SIGNATURE_INVALID'')))))))))))"

definition verify_live_signatures ::
  "ucd \<Rightarrow> items \<Rightarrow> items \<Rightarrow> pyval \<Rightarrow> pyval \<Rightarrow> datetime \<Rightarrow> unit outcome" where
  "verify_live_signatures U e c release_trust tenant_trust now =
     signatures_under U ENVELOPE_DOMAIN CAPACITY_DOMAIN e c release_trust tenant_trust now"

section \<open>The kit tree\<close>

text \<open>A directory tree as \<open>os.walk\<close> and \<open>lstat\<close> show it.  An entry that is a directory after
  following links is listed among the directories; a directory that cannot be listed has no
  entries for \<open>os.walk\<close>.  The content of a file is read through \<open>secure_read\<close>.\<close>

datatype node =
    Directory "(string \<times> node) list"
  | Directory_link
  | Other bool nat "nat \<times> nat"

record kit_host =
  kit_tree :: "string \<Rightarrow> (string \<times> node) list option"
  kit_link :: "string \<Rightarrow> bool"

fun is_directory :: "node \<Rightarrow> bool" where
  "is_directory (Other _ _ _) = False"
| "is_directory _ = True"

fun octal :: "nat \<Rightarrow> nat \<Rightarrow> string" where
  "octal 0 n = []"
| "octal (Suc k) n = octal k (n div 8) @ [char_of (48 + n mod 8)]"

type_synonym walk_state = "pyval list \<times> (nat \<times> nat) list"

definition writable_by_others :: "nat \<Rightarrow> bool" where
  "writable_by_others mode \<longleftrightarrow> odd (mode div 2) \<or> odd (mode div 16)"

definition kit_path :: "string \<Rightarrow> string \<Rightarrow> string" where
  "kit_path prefix name = (if prefix = [] then name else prefix @ ''/'' @ name)"

definition walk_file ::
  "filesystem \<Rightarrow> string \<Rightarrow> string \<Rightarrow> walk_state \<Rightarrow> string \<times> node \<Rightarrow> walk_state outcome" where
  "walk_file fs root prefix st kv =
     (case (st, kv) of ((entries, seen), (name, node)) \<Rightarrow>
        case node of
          Other is_reg mode inode \<Rightarrow>
            if \<not> is_reg \<or> writable_by_others mode then refuse ''KIT_FILE_INVALID''
            else if inode \<in> set seen then refuse ''KIT_HARDLINK_FORBIDDEN''
            else (let relative = kit_path prefix name in
              bind (secure_read fs False (root @ ''/'' @ relative)) (\<lambda>data.
                Ret (entries @ [PDict [(''mode'', PStr (octal 4 mode)), (''path'', PStr relative),
                                       (''sha256'', PStr (byte_digest data)),
                                       (''size'', PInt (int (length data)))]], inode # seen)))
        | _ \<Rightarrow> refuse ''KIT_FILE_INVALID'')"

text \<open>One directory: names sorted, linked directories refused, files hashed, then its directories.\<close>

lemma size_sort_key_node [termination_simp]:
  "(name, sub) \<in> set kids \<Longrightarrow> size sub < Suc (size_list (\<lambda>p. Suc (size (snd p))) kids)"
  by (induction kids) auto

fun walk :: "filesystem \<Rightarrow> string \<Rightarrow> string \<Rightarrow> walk_state \<Rightarrow> node \<Rightarrow> walk_state outcome" where
  "walk fs root prefix st (Directory kids) =
     (let directories = sort_key fst (filter (\<lambda>(_, n). is_directory n) kids);
          files = sort_key fst (filter (\<lambda>(_, n). \<not> is_directory n) kids) in
      bind (for_each (\<lambda>(name, _). bind (utf8_encode name) (\<lambda>_. Ret ())) (directories @ files)) (\<lambda>_.
      bind (require (list_all (\<lambda>(_, n). n \<noteq> Directory_link) directories) ''KIT_LINK_FORBIDDEN'') (\<lambda>_.
      bind (fold_out (walk_file fs root prefix) st files) (\<lambda>st'.
        fold_out (\<lambda>s (name, sub). walk fs root (kit_path prefix name) s sub) st' directories))))"
| "walk fs root prefix st Directory_link = Ret st"
| "walk fs root prefix st (Other _ _ _) = Ret st"

fun entry_path :: "pyval \<Rightarrow> string" where
  "entry_path (PDict d) = (case map_of d ''path'' of Some (PStr s) \<Rightarrow> s | _ \<Rightarrow> [])"
| "entry_path _ = []"

definition tree_digest :: "ucd \<Rightarrow> filesystem \<Rightarrow> kit_host \<Rightarrow> string \<Rightarrow> string outcome" where
  "tree_digest U fs H root =
     (case kit_tree H root of
        None \<Rightarrow> refuse ''KIT_ROOT_INVALID''
      | Some kids \<Rightarrow>
          if \<not> is_absolute root \<or> kit_link H root then refuse ''KIT_ROOT_INVALID''
          else bind (walk fs root [] ([], []) (Directory kids)) (\<lambda>(entries, _).
            canonical_digest U (PList (sort_key entry_path entries)) (Some TREE_DOMAIN)))"

section \<open>Preflight\<close>

definition verify_reference :: "filesystem \<Rightarrow> pyval \<Rightarrow> pyval \<Rightarrow> bytes outcome" where
  "verify_reference fs path_value expected_digest =
     (case path_value of
        PStr path \<Rightarrow>
          bind (secure_read fs True path) (\<lambda>data.
          bind (require (py_eq (PStr (byte_digest data)) expected_digest) ''REFERENCE_DIGEST_MISMATCH'') (\<lambda>_. Ret data))
      | _ \<Rightarrow> Raise TypeError)"

definition reference_of :: "filesystem \<Rightarrow> items \<Rightarrow> string \<Rightarrow> string \<Rightarrow> bytes outcome" where
  "reference_of fs e path_field digest_field =
     bind (field e path_field) (\<lambda>p. bind (field e digest_field) (verify_reference fs p))"

definition preflight ::
  "ucd \<Rightarrow> filesystem \<Rightarrow> kit_host \<Rightarrow> string \<Rightarrow> string \<Rightarrow> string \<Rightarrow> string \<Rightarrow> datetime \<Rightarrow> items outcome" where
  "preflight U fs H envelope_path launcher_path release_trust_path tenant_trust_path now =
     bind (bind (load_json U fs True envelope_path) (\<lambda>d. validate_envelope U d now)) (\<lambda>e.
     bind (secure_read fs True launcher_path) (\<lambda>launcher.
     bind (requires (field_is e ''launcherDigest'' (PStr (byte_digest launcher))) ''LAUNCHER_DIGEST_MISMATCH'') (\<lambda>_.
     bind (reference_of fs e ''packetFileReference'' ''packetDigest'') (\<lambda>_.
     bind (reference_of fs e ''campaignDefinitionFileReference'' ''campaignDefinitionDigest'') (\<lambda>_.
     bind (reference_of fs e ''campaignReleaseFileReference'' ''campaignReleaseDigest'') (\<lambda>_.
     bind (reference_of fs e ''bundleFileReference'' ''bundleDigest'') (\<lambda>_.
     bind (reference_of fs e ''capacityAuthorizationFileReference'' ''capacityAuthorizationDigest'') (\<lambda>capacity_bytes.
     bind (bind (field e ''conformanceKitRoot'') (\<lambda>r. case r of PStr root \<Rightarrow> tree_digest U fs H root | _ \<Rightarrow> Raise TypeError)) (\<lambda>kit.
     bind (requires (field_is e ''conformanceKitDigest'' (PStr kit)) ''KIT_DIGEST_MISMATCH'') (\<lambda>_.
     bind (secure_read fs True release_trust_path) (\<lambda>release_bytes.
     bind (secure_read fs True tenant_trust_path) (\<lambda>tenant_bytes.
     bind (requires (and_also (field_is e ''releaseTrustStoreDigest'' (PStr (byte_digest release_bytes)))
             (field_is e ''tenantTrustStoreDigest'' (PStr (byte_digest tenant_bytes)))) ''TRUST_STORE_DIGEST_MISMATCH'') (\<lambda>_.
     bind (bind (load_json_bytes U capacity_bytes) (\<lambda>d. validate_capacity d e now)) (\<lambda>c.
     bind (load_json_bytes U release_bytes) (\<lambda>release_trust.
     bind (load_json_bytes U tenant_bytes) (\<lambda>tenant_trust.
     bind (verify_live_signatures U e c release_trust tenant_trust now) (\<lambda>_.
     bind (map_out (\<lambda>k. bind (field e k) (\<lambda>v. Ret (k, v)))
             [''campaignId'', ''capacityAuthorizationId'', ''environmentId'', ''tenantId'']) (\<lambda>bound.
       Ret ((''authorityStatus'', PStr ''PASS'') # bound)))))))))))))))))))"

section \<open>The Linux authority\<close>

definition LINUX_AXES :: "string list" where
  "LINUX_AXES = [''DEPLOYMENT'', ''RUNTIME'', ''SECURITY'', ''ASSURANCE'']"

definition COMMANDS :: pyval where
  "COMMANDS =
     PList (map (\<lambda>words. PList (map PStr words))
       (map (\<lambda>root. [''python3'', ''-m'', ''unittest'', ''discover'', ''-s'', root, ''-p'', ''test_*.py''])
          [''tests/meta'', ''tests/parity'', ''tests/alpha1'', ''tests/fixes/runner_boundary'',
           ''tests/platform/linux_baseline''] @
        [[''make'', ''campaign'', ''CAMPAIGN=linux-baseline''],
         [''make'', ''evidence-verify'', ''CAMPAIGN=linux-baseline'']]))"

definition authority_malformed :: "exn \<Rightarrow> bool" where
  "authority_malformed e \<longleftrightarrow> malformed e \<and> e \<noteq> AttributeError"

definition linux_envelope_scope :: "items \<Rightarrow> datetime \<Rightarrow> unit outcome" where
  "linux_envelope_scope e now =
     bind (bind (field e ''issuedAt'') linux_time) (\<lambda>_.
     bind (requires
       (and_also (field_is e ''packetId'' (PStr ''CONF-LINUX-001''))
       (and_also (field_is e ''packetDigest'' (PStr PACKET_DIGEST))
       (and_also (field_is e ''campaignId'' (PStr ''linux-baseline''))
       (and_also (field_is e ''commands'' COMMANDS)
         (field_is e ''allowedEvidenceAxes'' (PList (map PStr LINUX_AXES)))))))
       ''LINUX_ENVELOPE_SCOPE_MISMATCH'') (\<lambda>_.
     bind (requires (bind (bind (field e ''expiresAt'') linux_time) (time_less now)) ''LINUX_ENVELOPE_EXPIRED'') (\<lambda>_.
       for_each (\<lambda>name. bind (bind (field e name) require_id) (\<lambda>_. Ret ()))
         [''tenantId'', ''environmentId'', ''nonce'', ''capacityAuthorizationId''])))"

definition linux_digests :: "items \<Rightarrow> bytes \<Rightarrow> bytes \<Rightarrow> bytes \<Rightarrow> unit outcome" where
  "linux_digests e capacity_bytes release_trust_bytes tenant_trust_bytes =
     for_each (\<lambda>(raw, name). requires (field_is e name (PStr (byte_digest raw))) ''LINUX_AUTHORITY_DIGEST_MISMATCH'')
       [(capacity_bytes, ''capacityAuthorizationDigest''), (release_trust_bytes, ''releaseTrustStoreDigest''),
        (tenant_trust_bytes, ''tenantTrustStoreDigest'')]"

definition linux_capacity_scope :: "items \<Rightarrow> datetime \<Rightarrow> unit outcome" where
  "linux_capacity_scope c now =
     bind (bind (field c ''validFrom'') linux_time) (\<lambda>_.
     bind (requires (bind (bind (field c ''expiresAt'') linux_time) (time_less now)) ''LINUX_CAPACITY_EXPIRED'') (\<lambda>_.
     bind (for_each (\<lambda>name. bind (bind (field c name) require_id) (\<lambda>_. Ret ()))
             [''nonce'', ''namespace'', ''operatorId'']) (\<lambda>_.
       requires (bind (bind (field c ''permittedEndpointIds'') iter_of) (\<lambda>xs.
         bind (py_set xs) (\<lambda>s. Ret (length xs = length s)))) ''LINUX_DUPLICATE_ENDPOINT'')))"

definition linux_key :: "pyval list \<Rightarrow> pyval \<Rightarrow> pyval list outcome" where
  "linux_key seen x =
     bind (require_object x) (\<lambda>key.
     bind (closed key KEY_FIELDS []) (\<lambda>_.
     bind (bind (field key ''keyId'') require_key_id) (\<lambda>_.
     bind (field key ''keyId'') (\<lambda>key_id.
     bind (requires (and_also (Ret (\<not> py_in key_id seen)) (bind (field key ''revoked'') (\<lambda>r. Ret (is_bool r))))
             ''LINUX_TRUST_INVALID'') (\<lambda>_.
     bind (bind (field key ''owner'') require_id) (\<lambda>_.
     bind (bind (field key ''validFrom'') linux_time) (\<lambda>_.
     bind (bind (field key ''validUntil'') linux_time) (\<lambda>_.
     bind (bind (field key ''publicKey'') (\<lambda>p. b64url_decode p 32)) (\<lambda>_. Ret (key_id # seen))))))))))"

definition linux_trust :: "pyval \<Rightarrow> unit outcome" where
  "linux_trust v =
     bind (require_object v) (\<lambda>trust.
     bind (closed trust [''schemaVersion'', ''keys'', ''revocationsDigest''] []) (\<lambda>_.
     bind (field trust ''keys'') (\<lambda>ks.
     bind (require (case ks of PList xs \<Rightarrow> 0 < length xs \<and> length xs \<le> 128 | _ \<Rightarrow> False) ''LINUX_TRUST_INVALID'') (\<lambda>_.
     bind (bind (iter_of ks) (fold_out linux_key [])) (\<lambda>_. Ret ())))))"

text \<open>\<open>next(item["owner"] for item in trust["keys"] if item["keyId"] == key_id)\<close>\<close>

fun first_owner :: "pyval \<Rightarrow> pyval list \<Rightarrow> pyval outcome" where
  "first_owner key_id [] = Raise StopIteration"
| "first_owner key_id (x # xs) =
     bind (item_is x ''keyId'' key_id) (\<lambda>b. if b then item x ''owner'' else first_owner key_id xs)"

definition owner_of :: "pyval \<times> pyval \<Rightarrow> pyval outcome" where
  "owner_of tk = (case tk of (trust, key_id) \<Rightarrow>
     bind (bind (item trust ''keys'') iter_of) (first_owner key_id))"

definition signer_owners :: "items \<Rightarrow> items \<Rightarrow> pyval \<Rightarrow> pyval \<Rightarrow> pyval list outcome" where
  "signer_owners e c release_trust tenant_trust =
     bind (field e ''platformSignerKeyId'') (\<lambda>p.
     bind (field e ''tenantSignerKeyId'') (\<lambda>t.
     bind (field c ''signerKeyId'') (\<lambda>k.
       map_out owner_of [(release_trust, p), (tenant_trust, t), (tenant_trust, k)])))"

definition verify_linux_authority ::
  "ucd \<Rightarrow> bytes \<Rightarrow> bytes \<Rightarrow> bytes \<Rightarrow> bytes \<Rightarrow> datetime \<Rightarrow> (items \<times> items \<times> pyval \<times> pyval) outcome" where
  "verify_linux_authority U envelope_bytes capacity_bytes release_trust_bytes tenant_trust_bytes now =
     catching authority_malformed ''LINUX_AUTHORITY_MALFORMED''
       (bind (bind (require_canonical_document U envelope_bytes) (\<lambda>d. validate_envelope U d now)) (\<lambda>e.
        bind (linux_envelope_scope e now) (\<lambda>_.
        bind (linux_digests e capacity_bytes release_trust_bytes tenant_trust_bytes) (\<lambda>_.
        bind (bind (require_canonical_document U capacity_bytes) (\<lambda>d. validate_capacity d e now)) (\<lambda>c.
        bind (linux_capacity_scope c now) (\<lambda>_.
        bind (require_canonical_document U release_trust_bytes) (\<lambda>release_trust.
        bind (require_canonical_document U tenant_trust_bytes) (\<lambda>tenant_trust.
        bind (for_each linux_trust [release_trust, tenant_trust]) (\<lambda>_.
        bind (verify_live_signatures U e c release_trust tenant_trust now) (\<lambda>_.
        bind (bind (signer_owners e c release_trust tenant_trust) py_set) (\<lambda>owners.
        bind (require (length owners = 3) ''LINUX_SIGNER_OWNERS_NOT_INDEPENDENT'') (\<lambda>_.
          Ret (e, c, release_trust, tenant_trust)))))))))))))"

section \<open>Version v1alpha2\<close>

definition ENVELOPE_SCHEMA_V2 :: string where
  "ENVELOPE_SCHEMA_V2 = ''harness.planeon.ai/live-campaign-execution-envelope/v1alpha2''"

definition CAPACITY_SCHEMA_V2 :: string where
  "CAPACITY_SCHEMA_V2 = ''harness.planeon.ai/live-capacity-authorization/v1alpha2''"

definition ENVELOPE_DOMAIN_V2 :: string where
  "ENVELOPE_DOMAIN_V2 = ''planeon.harness-live-execution-envelope/v1alpha2''"

definition CAPACITY_DOMAIN_V2 :: string where
  "CAPACITY_DOMAIN_V2 = ''planeon.harness-live-capacity-authorization/v1alpha2''"

definition SINGLE_PRINCIPAL_OWNER :: string where
  "SINGLE_PRINCIPAL_OWNER = ''single-principal''"

definition legacy_copy :: "string \<Rightarrow> items \<Rightarrow> items" where
  "legacy_copy schema d = dict_set (dict_without [''signers''] d) ''schemaVersion'' (PStr schema)"

definition validate_envelope_v2 :: "ucd \<Rightarrow> pyval \<Rightarrow> datetime \<Rightarrow> items outcome" where
  "validate_envelope_v2 U document now =
     bind (require_object document) (\<lambda>original.
     bind (closed original (ENVELOPE_FIELDS @ [''signers'']) []) (\<lambda>_.
     bind (requires (field_is original ''schemaVersion'' (PStr ENVELOPE_SCHEMA_V2)) ''UNSUPPORTED_ENVELOPE'') (\<lambda>_.
     bind (requires (field_in original ''signers'' SIGNERS) ''LINUX_SIGNERS_INVALID'') (\<lambda>_.
     bind (validate_envelope U (PDict (legacy_copy ENVELOPE_SCHEMA original)) now) (\<lambda>_. Ret original)))))"

definition validate_capacity_v2 :: "pyval \<Rightarrow> items \<Rightarrow> datetime \<Rightarrow> items outcome" where
  "validate_capacity_v2 document envelope_v2 now =
     bind (require_object document) (\<lambda>original.
     bind (closed original (CAPACITY_FIELDS @ [''signers'']) []) (\<lambda>_.
     bind (requires (field_is original ''schemaVersion'' (PStr CAPACITY_SCHEMA_V2)) ''UNSUPPORTED_CAPACITY'') (\<lambda>_.
     bind (requires (field_in original ''signers'' SIGNERS) ''LINUX_SIGNERS_INVALID'') (\<lambda>_.
     bind (validate_capacity (PDict (legacy_copy CAPACITY_SCHEMA original)) (legacy_copy ENVELOPE_SCHEMA envelope_v2) now) (\<lambda>_.
       Ret original)))))"

definition verify_live_signatures_v2 ::
  "ucd \<Rightarrow> items \<Rightarrow> items \<Rightarrow> pyval \<Rightarrow> pyval \<Rightarrow> datetime \<Rightarrow> unit outcome" where
  "verify_live_signatures_v2 U e c release_trust tenant_trust now =
     signatures_under U ENVELOPE_DOMAIN_V2 CAPACITY_DOMAIN_V2 e c release_trust tenant_trust now"

definition signers_rule :: "items \<Rightarrow> pyval list \<Rightarrow> unit outcome" where
  "signers_rule e owners =
     bind (field_is e ''signers'' (PStr (SIGNERS ! 0))) (\<lambda>independent.
       if independent then
         bind (bind (py_set owners) (\<lambda>s. require (length s = 3) ''LINUX_SIGNER_OWNERS_NOT_INDEPENDENT'')) (\<lambda>_.
           require (\<not> py_in (PStr SINGLE_PRINCIPAL_OWNER) owners) ''LINUX_RESERVED_OWNER_LABEL'')
       else require (list_all (\<lambda>x. py_eq x (PStr SINGLE_PRINCIPAL_OWNER)) owners)
              ''LINUX_SIGNER_OWNERS_NOT_SINGLE_PRINCIPAL'')"

definition verify_linux_authority_v2 ::
  "ucd \<Rightarrow> bytes \<Rightarrow> bytes \<Rightarrow> bytes \<Rightarrow> bytes \<Rightarrow> datetime \<Rightarrow>
     (items \<times> items \<times> pyval \<times> pyval \<times> pyval) outcome" where
  "verify_linux_authority_v2 U envelope_bytes capacity_bytes release_trust_bytes tenant_trust_bytes now =
     catching authority_malformed ''LINUX_AUTHORITY_MALFORMED''
       (bind (bind (require_canonical_document U envelope_bytes) (\<lambda>d. validate_envelope_v2 U d now)) (\<lambda>e.
        bind (linux_envelope_scope e now) (\<lambda>_.
        bind (linux_digests e capacity_bytes release_trust_bytes tenant_trust_bytes) (\<lambda>_.
        bind (bind (require_canonical_document U capacity_bytes) (\<lambda>d. validate_capacity_v2 d e now)) (\<lambda>c.
        bind (linux_capacity_scope c now) (\<lambda>_.
        bind (require_canonical_document U release_trust_bytes) (\<lambda>release_trust.
        bind (require_canonical_document U tenant_trust_bytes) (\<lambda>tenant_trust.
        bind (for_each linux_trust [release_trust, tenant_trust]) (\<lambda>_.
        bind (verify_live_signatures_v2 U e c release_trust tenant_trust now) (\<lambda>_.
        bind (requires (same_field e ''signers'' c ''signers'') ''LINUX_SIGNERS_DISCLOSURE_MISMATCH'') (\<lambda>_.
        bind (signer_owners e c release_trust tenant_trust) (\<lambda>owners.
        bind (signers_rule e owners) (\<lambda>_.
        bind (field e ''signers'') (\<lambda>signers.
          Ret (e, c, release_trust, tenant_trust, signers)))))))))))))))"

end
