(* ===== verification/LinuxVerify.thy ===== *)
theory LinuxVerify
  imports Live
begin

text \<open>
  \<open>src/src/harness_conformance/linux_readiness.py\<close>, second part: the closed probe request and the
  verification of a signed Linux record against its authority, release, plan and expected subject.

  Both record versions run the same steps after their own shape and authority checks; the v1alpha2 branch
  also compares the disclosed relation of the signers.  Every step is inside the malformed-input boundary.
\<close>

section \<open>Probe requests\<close>

definition item_at :: "pyval \<Rightarrow> pyval \<Rightarrow> pyval outcome" where
  "item_at v k =
     (case k of PStr s \<Rightarrow> item v s | _ \<Rightarrow> (if hashable k then Raise KeyError else Raise TypeError))"

definition probe_path :: "string \<Rightarrow> string" where
  "probe_path cas = ''/v1/linux-baseline/'' @ dashed cas"

definition select_endpoints :: "items \<Rightarrow> pyval \<Rightarrow> pyval list outcome" where
  "select_endpoints e endpoint_id =
     bind (bind (field e ''endpoints'') iter_of) (\<lambda>endpoints.
     bind (map_out (\<lambda>x. bind (item_is x ''endpointId'' endpoint_id) (\<lambda>b. Ret (x, b))) endpoints) (\<lambda>marked.
       Ret (map fst (filter snd marked))))"

definition PROXY_RULE_FIELDS :: "string list" where
  "PROXY_RULE_FIELDS =
     [''endpointId'', ''namespace'', ''service'', ''port'', ''protocol'', ''methods'', ''paths'',
      ''requestMediaType'', ''responseMediaType'', ''requestMaxBytes'', ''responseMaxBytes'', ''timeoutSeconds'']"

definition proxy_rule :: "pyval \<Rightarrow> pyval \<Rightarrow> pyval \<Rightarrow> pyval" where
  "proxy_rule endpoint_id namespace port =
     PDict [(''endpointId'', endpoint_id), (''namespace'', namespace), (''service'', PStr ''linux-baseline-probes''),
            (''port'', port), (''protocol'', PStr ''HTTPS''), (''methods'', PList [PStr ''POST'']),
            (''paths'', PList (map (PStr \<circ> probe_path) CASES)),
            (''requestMediaType'', PStr ''application/json''), (''responseMediaType'', PStr ''application/json''),
            (''requestMaxBytes'', PInt 16384), (''responseMaxBytes'', PInt 4194304), (''timeoutSeconds'', PInt 900)]"

definition proxy_endpoint :: "pyval list \<Rightarrow> items outcome" where
  "proxy_endpoint endpoints =
     (case endpoints of
        [x] \<Rightarrow> bind (requires (item_is x ''kind'' (PStr ''CAMPAIGN_PROXY'')) ''LINUX_PROXY_BACKEND_UNAVAILABLE'') (\<lambda>_.
                 items_of x)
      | _ \<Rightarrow> refuse ''LINUX_PROXY_BACKEND_UNAVAILABLE'')"

definition probe_request_body :: "ucd \<Rightarrow> items \<Rightarrow> items \<Rightarrow> items \<Rightarrow> pyval \<Rightarrow> items outcome" where
  "probe_request_body U e c plan case_id =
     (case case_id of
        PStr cas \<Rightarrow>
          bind (require (cas \<in> set CASES) ''LINUX_OPERATION_FORBIDDEN'') (\<lambda>_.
          bind (field plan ''endpointId'') (\<lambda>endpoint_id.
          bind (bind (select_endpoints e endpoint_id) proxy_endpoint) (\<lambda>endpoint.
          bind (requires (and_also
                  (bind (bind (field c ''permittedEndpointIds'') iter_of) (\<lambda>xs. Ret (py_in endpoint_id xs)))
                  (same_field plan ''namespace'' c ''namespace'')) ''LINUX_PROXY_SCOPE_MISMATCH'') (\<lambda>_.
          bind (field plan ''namespace'') (\<lambda>namespace.
          bind (field endpoint ''port'') (\<lambda>port.
          bind (field c ''campaignProxyRules'') (\<lambda>rules.
          bind (case rules of PList [r] \<Rightarrow> Ret r | _ \<Rightarrow> refuse ''LINUX_PROXY_RULES_INVALID'') (\<lambda>rule.
          bind (obj rule PROXY_RULE_FIELDS) (\<lambda>_.
          bind (requires (bind (canonical_bytes U rule) (\<lambda>a.
                  bind (canonical_bytes U (proxy_rule endpoint_id namespace port)) (\<lambda>b. Ret (a = b))))
                  ''LINUX_PROXY_RULES_INVALID'') (\<lambda>_.
          bind (requires (bind (field endpoint ''authorizationPolicyDigest'') (\<lambda>p.
                  bind (canonical_digest U (proxy_rule endpoint_id namespace port)
                          (Some ''planeon.linux-proxy-policy/v1alpha1'')) (\<lambda>digest. Ret (py_eq p (PStr digest)))))
                  ''LINUX_PROXY_POLICY_DIGEST_MISMATCH'') (\<lambda>_.
          bind (field e ''nonce'') (\<lambda>nonce.
          bind (bind (field plan ''target'') (\<lambda>t. item t ''architecture'')) (\<lambda>architecture.
          bind (bind (field plan ''probes'') (\<lambda>p. item p cas)) (\<lambda>probe.
          bind (item probe ''probeDigest'') (\<lambda>probe_digest.
          bind (item probe ''commandDigest'') (\<lambda>command_digest.
            Ret [(''schemaVersion'', PStr ''harness.planeon.ai/linux-probe-request/v1alpha1''),
                 (''operation'', PStr cas), (''endpointId'', endpoint_id), (''namespace'', namespace),
                 (''method'', PStr ''POST''), (''path'', PStr (probe_path cas)), (''runNonce'', nonce),
                 (''architecture'', architecture), (''probeDigest'', probe_digest),
                 (''commandDigest'', command_digest)]))))))))))))))))
      | _ \<Rightarrow> refuse ''LINUX_OPERATION_FORBIDDEN'')"

definition build_probe_request :: "ucd \<Rightarrow> items \<Rightarrow> items \<Rightarrow> items \<Rightarrow> pyval \<Rightarrow> items outcome" where
  "build_probe_request U e c plan case_id = malformed_boundary (probe_request_body U e c plan case_id)"

section \<open>Evidence verification\<close>

text \<open>The arguments of \<open>verify_linux_evidence\<close>; the bytes and the nonce history have their declared
  types, the other expected values are arbitrary.\<close>

record evidence_input =
  ev_record :: bytes
  ev_envelope :: bytes
  ev_capacity :: bytes
  ev_release :: bytes
  ev_plan :: bytes
  ev_release_trust :: bytes
  ev_tenant_trust :: bytes
  ev_now :: pyval
  expected_nonce :: pyval
  expected_tenant :: pyval
  expected_environment :: pyval
  expected_release :: pyval
  replayed_nonces :: "string list"

text \<open>\<open>sorted(set(texts))\<close>\<close>

definition sorted_texts :: "pyval list \<Rightarrow> pyval outcome" where
  "sorted_texts xs =
     bind (map_out (\<lambda>x. case x of PStr s \<Rightarrow> Ret s | _ \<Rightarrow> Raise TypeError) xs) (\<lambda>ss.
       Ret (PList (map PStr (sort (remdups ss)))))"

definition time_max :: "datetime \<Rightarrow> datetime \<Rightarrow> datetime outcome" where
  "time_max a b = bind (time_less a b) (\<lambda>less. Ret (if less then b else a))"

definition time_min :: "datetime \<Rightarrow> datetime \<Rightarrow> datetime outcome" where
  "time_min a b = bind (time_less b a) (\<lambda>less. Ret (if less then b else a))"

definition nonce_unused :: "evidence_input \<Rightarrow> datetime outcome" where
  "nonce_unused A =
     bind (require_id (expected_nonce A)) (\<lambda>nonce.
     bind (require (nonce \<notin> set (replayed_nonces A)) ''LINUX_NONCE_REPLAYED'') (\<lambda>_.
       linux_time (ev_now A)))"

definition expected_subject :: "evidence_input \<Rightarrow> items \<Rightarrow> unit outcome" where
  "expected_subject A e =
     bind (requires
       (and_also (field_is e ''nonce'' (expected_nonce A))
       (and_also (field_is e ''tenantId'' (expected_tenant A))
       (and_also (field_is e ''environmentId'' (expected_environment A))
         (field_is e ''campaignReleaseDigest'' (expected_release A))))) ''LINUX_EXPECTED_SUBJECT_MISMATCH'') (\<lambda>_.
       require (py_eq (PStr (byte_digest (ev_release A))) (expected_release A)) ''LINUX_RELEASE_DIGEST_MISMATCH'')"

definition record_plan :: "ucd \<Rightarrow> evidence_input \<Rightarrow> items \<Rightarrow> items \<Rightarrow> items outcome" where
  "record_plan U A e rec =
     bind (require_canonical_document U (ev_release A)) (\<lambda>release.
     bind (bind (field rec ''target'') (\<lambda>t. item t ''architecture'')) (\<lambda>architecture.
     bind (release_plan U release (ev_plan A) e (case architecture of PStr a \<Rightarrow> a | _ \<Rightarrow> [])) (\<lambda>plan.
     bind (for_each (\<lambda>name. requires
             (bind (bind (field rec name) (canonical_bytes U)) (\<lambda>a.
              bind (bind (field plan name) (canonical_bytes U)) (\<lambda>b. Ret (a = b)))) ''LINUX_BASELINE_CHANGED'')
             [''target'', ''sources'', ''images'', ''build'', ''preflightDigest'']) (\<lambda>_.
       Ret plan))))"

definition record_endpoint :: "ucd \<Rightarrow> evidence_input \<Rightarrow> items \<Rightarrow> items \<Rightarrow> items outcome" where
  "record_endpoint U A e plan =
     bind (bind (field plan ''endpointId'') (select_endpoints e)) (\<lambda>endpoints.
     bind (require (length endpoints = 1) ''LINUX_ENDPOINT_UNAVAILABLE'') (\<lambda>_.
     bind (proxy_endpoint endpoints) (\<lambda>endpoint.
     bind (bind (require_canonical_document U (ev_release A)) (\<lambda>r. item r ''endpointPolicyDigests'')) (\<lambda>policies.
     bind (requires (and_also (Ret (is_list policies))
             (bind (bind (field e ''endpoints'') iter_of) (\<lambda>xs.
              bind (map_out (\<lambda>x. item x ''authorizationPolicyDigest'') xs) (\<lambda>ps.
              bind (sorted_texts ps) (\<lambda>s. Ret (py_eq policies s)))))) ''LINUX_ENDPOINT_POLICY_MISMATCH'') (\<lambda>_.
       Ret endpoint)))))"

definition expected_authority :: "ucd \<Rightarrow> evidence_input \<Rightarrow> items \<Rightarrow> items \<Rightarrow> items \<Rightarrow> pyval outcome" where
  "expected_authority U A e c endpoint =
     bind (field endpoint ''endpointId'') (\<lambda>endpoint_id.
     bind (canonical_digest U (PDict endpoint) None) (\<lambda>endpoint_digest.
     bind (field c ''namespace'') (\<lambda>namespace.
     bind (field c ''serviceAccountSubject'') (\<lambda>subject.
     bind (field e ''admissionPolicyDigest'') (\<lambda>admission.
     bind (field e ''resourceQuotaDigest'') (\<lambda>quota.
       Ret (PDict [(''packetDigest'', PStr PACKET_DIGEST), (''envelopeDigest'', PStr (byte_digest (ev_envelope A))),
         (''capacityDigest'', PStr (byte_digest (ev_capacity A))), (''releaseDigest'', expected_release A),
         (''planDigest'', PStr (byte_digest (ev_plan A))), (''tenantId'', expected_tenant A),
         (''environmentId'', expected_environment A), (''runNonce'', expected_nonce A),
         (''endpointId'', endpoint_id), (''endpointDigest'', PStr endpoint_digest), (''namespace'', namespace),
         (''serviceAccountSubject'', subject), (''admissionPolicyDigest'', admission),
         (''resourceQuotaDigest'', quota)])))))))"

definition authority_binding :: "ucd \<Rightarrow> evidence_input \<Rightarrow> items \<Rightarrow> items \<Rightarrow> items \<Rightarrow> items \<Rightarrow> items \<Rightarrow> unit outcome" where
  "authority_binding U A e c plan endpoint rec =
     requires
       (and_also (bind (expected_authority U A e c endpoint) (field_is rec ''authority''))
       (and_also (same_field plan ''namespace'' c ''namespace'')
         (same_field plan ''serviceAccountSubject'' c ''serviceAccountSubject'')))
       ''LINUX_AUTHORITY_BINDING_MISMATCH''"

definition WEEK_US :: int where
  "WEEK_US = 168 * 3600 * 1000000"

definition record_window :: "items \<Rightarrow> items \<Rightarrow> items \<Rightarrow> datetime \<Rightarrow> (datetime \<times> datetime) outcome" where
  "record_window e c rec instant =
     bind (bind (field rec ''observedAt'') linux_time) (\<lambda>observed.
     bind (bind (field rec ''validUntil'') linux_time) (\<lambda>until.
     bind (bind (field c ''validFrom'') linux_time) (\<lambda>valid_from.
     bind (bind (field e ''issuedAt'') linux_time) (\<lambda>issued.
     bind (time_max valid_from issued) (\<lambda>start.
     bind (requires
       (and_also (time_le start observed)
       (and_also (time_le observed instant)
       (and_also (time_less instant until)
       (and_also (bind (bind (field c ''expiresAt'') linux_time) (\<lambda>x.
                  bind (bind (field e ''expiresAt'') linux_time) (\<lambda>y.
                  bind (time_min x y) (\<lambda>finish. time_le until finish))))
         (bind (time_minus until observed) (\<lambda>d. Ret (d \<le> WEEK_US)))))))
       ''LINUX_EVIDENCE_NOT_CURRENT'') (\<lambda>_.
       Ret (observed, until)))))))"

definition record_signer ::
  "ucd \<Rightarrow> string \<Rightarrow> items \<Rightarrow> datetime \<Rightarrow> datetime \<Rightarrow> datetime \<Rightarrow>
     string \<times> pyval \<times> string \<times> pyval \<times> pyval \<times> pyval \<Rightarrow> bytes outcome" where
  "record_signer U domain rec instant observed until r =
     (case r of (role, trust, purpose, tenant, environment, expected_key) \<Rightarrow>
        bind (requires (field_is rec (role @ ''SignerKeyId'') expected_key) ''LINUX_SIGNER_BINDING_MISMATCH'') (\<lambda>_.
        bind (trust_key trust expected_key purpose tenant environment instant) (\<lambda>key.
        bind (trust_key trust expected_key purpose tenant environment observed) (\<lambda>_.
        bind (trust_key trust expected_key purpose tenant environment until) (\<lambda>_.
        bind (signature_payload U domain rec SIGNATURES) (\<lambda>payload.
        bind (require_signature key payload rec (role @ ''Signature'') ''LINUX_EVIDENCE_SIGNATURE_INVALID'') (\<lambda>_.
          Ret key)))))))"

definition record_signers ::
  "ucd \<Rightarrow> string \<Rightarrow> evidence_input \<Rightarrow> items \<Rightarrow> items \<Rightarrow> pyval \<Rightarrow> pyval \<Rightarrow> items \<Rightarrow>
     datetime \<Rightarrow> datetime \<Rightarrow> datetime \<Rightarrow> unit outcome" where
  "record_signers U domain A e c release_trust tenant_trust rec instant observed until =
     bind (field e ''platformSignerKeyId'') (\<lambda>p.
     bind (field e ''tenantSignerKeyId'') (\<lambda>t.
     bind (field c ''signerKeyId'') (\<lambda>k.
     bind (map_out (record_signer U domain rec instant observed until)
       [(''platform'', release_trust, ''PLATFORM_RELEASE'', PNone, PNone, p),
        (''tenant'', tenant_trust, ''TENANT_LIVE_EXECUTION'', expected_tenant A, expected_environment A, t),
        (''capacity'', tenant_trust, ''CAPACITY_OPERATOR'', expected_tenant A, expected_environment A, k)]) (\<lambda>keys.
       require (distinct keys) ''LINUX_SIGNERS_NOT_INDEPENDENT''))))"

definition record_case ::
  "ucd \<Rightarrow> evidence_input \<Rightarrow> items \<Rightarrow> items \<Rightarrow> items \<Rightarrow> datetime \<Rightarrow> datetime \<Rightarrow> pyval \<Rightarrow> unit outcome" where
  "record_case U A e c plan observed instant cas =
     bind (bind (item cas ''observedAt'') linux_time) (\<lambda>at.
     bind (requires (and_also (time_le observed at) (and_also (time_le at instant)
             (item_is cas ''runNonce'' (expected_nonce A)))) ''LINUX_CASE_REPLAYED_OR_STALE'') (\<lambda>_.
     bind (item cas ''caseId'') (\<lambda>case_id.
     bind (for_each (\<lambda>k. requires (bind (item cas k) (\<lambda>x.
             bind (bind (bind (field plan ''probes'') (\<lambda>p. item_at p case_id)) (\<lambda>probe. item probe k)) (\<lambda>y.
               Ret (py_eq x y)))) ''LINUX_PROBE_DIGEST_MISMATCH'') [''probeDigest'', ''commandDigest'']) (\<lambda>_.
     bind (bind (bind (item cas ''output'') (\<lambda>out. item out ''regressions'')) items_of) (\<lambda>regressions.
     bind (for_each (\<lambda>(name, result).
             bind (bind (field plan ''regressions'') (\<lambda>r. item r name)) (\<lambda>expected.
             requires (and_also
               (bind (item result ''inventoryDigest'') (\<lambda>x. bind (item expected ''inventoryDigest'') (\<lambda>y. Ret (py_eq x y))))
               (bind (item result ''collected'') (\<lambda>x. bind (item expected ''testCount'') (\<lambda>y. Ret (py_eq x y)))))
               ''LINUX_REGRESSION_INVENTORY_MISMATCH'')) regressions) (\<lambda>_.
     bind (build_probe_request U e c plan case_id) (\<lambda>_. Ret ())))))))"

definition case_results :: "pyval list \<Rightarrow> items outcome" where
  "case_results cases = fold_out (\<lambda>d x.
     bind (item x ''caseId'') (\<lambda>k. bind (item x ''status'') (\<lambda>s.
       case k of PStr name \<Rightarrow> Ret (dict_set d name s) | _ \<Rightarrow> Raise TypeError))) [] cases"

definition verification_result :: "evidence_input \<Rightarrow> items \<Rightarrow> pyval list \<Rightarrow> items outcome" where
  "verification_result A plan cases =
     bind (map_out (\<lambda>x. item x ''status'') cases) (\<lambda>statuses.
     bind (bind (field plan ''target'') (\<lambda>t. item t ''architecture'')) (\<lambda>architecture.
     bind (case_results cases) (\<lambda>results.
       Ret [(''verificationStatus'', PStr (linux_overall statuses)),
            (''evidenceDigest'', PStr (byte_digest (ev_record A))), (''architecture'', architecture),
            (''caseResults'', PDict results), (''evidenceClass'', PStr ''UNIT_VERIFICATION_ONLY''),
            (''nativeAcceptance'', PBool False)])))"

text \<open>The steps after the authority of either version; \<open>disclosure\<close> is what the v1alpha2 authority returned.\<close>

definition record_steps ::
  "ucd \<Rightarrow> string \<Rightarrow> evidence_input \<Rightarrow> items \<Rightarrow> datetime \<Rightarrow> items \<Rightarrow> items \<Rightarrow> pyval \<Rightarrow> pyval \<Rightarrow> pyval option \<Rightarrow>
     items outcome" where
  "record_steps U domain A rec instant e c release_trust tenant_trust disclosure =
     bind (expected_subject A e) (\<lambda>_.
     bind (record_plan U A e rec) (\<lambda>plan.
     bind (record_endpoint U A e plan) (\<lambda>endpoint.
     bind (authority_binding U A e c plan endpoint rec) (\<lambda>_.
     bind (record_window e c rec instant) (\<lambda>(observed, until).
     bind (record_signers U domain A e c release_trust tenant_trust rec instant observed until) (\<lambda>_.
     bind (case disclosure of None \<Rightarrow> Ret ()
           | Some s \<Rightarrow> requires (field_is rec ''signers'' s) ''LINUX_SIGNERS_DISCLOSURE_MISMATCH'') (\<lambda>_.
     bind (bind (field rec ''cases'') iter_of) (\<lambda>cases.
     bind (for_each (record_case U A e c plan observed instant) cases) (\<lambda>_.
       verification_result A plan cases)))))))))"

definition verify_record_v2 :: "ucd \<Rightarrow> evidence_input \<Rightarrow> pyval \<Rightarrow> items outcome" where
  "verify_record_v2 U A doc =
     bind (validate_linux_evidence_v2 U doc) (\<lambda>rec.
     bind (nonce_unused A) (\<lambda>instant.
     bind (verify_linux_authority_v2 U (ev_envelope A) (ev_capacity A) (ev_release_trust A) (ev_tenant_trust A) instant)
       (\<lambda>(e, c, release_trust, tenant_trust, disclosure).
       record_steps U DOMAIN_V2 A rec instant e c release_trust tenant_trust (Some disclosure))))"

definition verify_record :: "ucd \<Rightarrow> evidence_input \<Rightarrow> pyval \<Rightarrow> items outcome" where
  "verify_record U A doc =
     bind (validate_linux_evidence U doc) (\<lambda>rec.
     bind (nonce_unused A) (\<lambda>instant.
     bind (verify_linux_authority U (ev_envelope A) (ev_capacity A) (ev_release_trust A) (ev_tenant_trust A) instant)
       (\<lambda>(e, c, release_trust, tenant_trust).
       record_steps U DOMAIN A rec instant e c release_trust tenant_trust None)))"

definition is_v2_record :: "pyval \<Rightarrow> bool" where
  "is_v2_record doc = (case doc of PDict d \<Rightarrow> map_of d ''schemaVersion'' = Some (PStr SCHEMA_V2) | _ \<Rightarrow> False)"

definition verify_linux_evidence :: "ucd \<Rightarrow> evidence_input \<Rightarrow> items outcome" where
  "verify_linux_evidence U A =
     malformed_boundary
       (bind (require_canonical_document U (ev_record A)) (\<lambda>doc.
          if is_v2_record doc then verify_record_v2 U A doc else verify_record U A doc))"

end
