(* ===== verification/LiveLaws.thy ===== *)
theory LiveLaws
  imports Live "HOL-Library.Multiset"
begin

text \<open>
  What the checks of \<open>live.py\<close> establish: the exact set of endpoint addresses they admit, the complete
  and link-free kit tree behind a tree digest, the signatures and nested validity windows behind an accepted
  authority, and that the two document versions accept disjoint sets of documents.
\<close>

section \<open>Admitted addresses\<close>

definition ADMITTED :: "(ip \<times> nat) list" where
  "ADMITTED =
     [v4 0 0 0 0 8, v4 10 0 0 0 8, v4 127 0 0 0 8, v4 172 16 0 0 12, v4 192 0 0 0 24, v4 192 0 2 0 24,
      v4 192 168 0 0 16, v4 198 18 0 0 15, v4 198 51 100 0 24, v4 203 0 113 0 24,
      v6 0x2001 0 0 23, v6 0x2001 0xDB8 0 32, v6 0x2002 0 0 16, v6 0xFC00 0 0 7]"

lemma div_interval: "0 < m \<Longrightarrow> a div m = k \<longleftrightarrow> k * m \<le> a \<and> a < Suc k * (m::nat)"
  using less_eq_div_iff_mult_less_eq [of m k a] div_less_iff_less_mult [of m a "Suc k"] by linarith

lemma private_v4:
  "private_address (V4 a) \<longleftrightarrow>
     list_ex (in_net (V4 a)) ADMITTED \<and> a \<noteq> 0 \<and> \<not> list_ex (in_net (V4 a)) v4_exceptions"
  unfolding private_address_def is_multicast_def is_link_local_def is_reserved_def v4_is_private_def
    v4_private_def v4_exceptions_def v6_reserved_def ADMITTED_def v4_def v6_def join_words_def
    is_unspecified.simps is_loopback.simps is_private.simps
  apply (simp add: div_interval)
  apply (rule iffI)
  subgoal by (elim conjE disjE) simp_all
  subgoal by (elim conjE disjE) simp_all
  done

lemma mapped_v4_refused: "a div 2 ^ 32 = 0xFFFF \<Longrightarrow> is_reserved (V6 a)"
  by (simp add: is_reserved_def v4_def v6_reserved_def v6_def join_words_def div_interval)

lemma private_v6:
  "private_address (V6 a) \<longleftrightarrow>
     list_ex (in_net (V6 a)) ADMITTED \<and> \<not> list_ex (in_net (V6 a)) v6_exceptions"
proof (cases "a div 2 ^ 32 = 0xFFFF")
  case True
  then show ?thesis
    using mapped_v4_refused [OF True]
    by (simp add: private_address_def ADMITTED_def v4_def v6_def join_words_def div_interval)
next
  case False
  then have "is_private (V6 a) \<longleftrightarrow> list_ex (in_net (V6 a)) v6_private \<and> \<not> list_ex (in_net (V6 a)) v6_exceptions"
    by simp
  then show ?thesis
    unfolding private_address_def is_multicast_def is_link_local_def is_reserved_def v6_private_def
      v6_exceptions_def v6_reserved_def ADMITTED_def v4_def v6_def join_words_def
      is_unspecified.simps is_loopback.simps
    apply (simp add: div_interval del: is_private.simps)
    apply (rule iffI)
    subgoal by (elim conjE disjE) simp_all
    subgoal by (elim conjE disjE) simp_all
    done
qed

section \<open>What an accepted authority means\<close>

definition time_of :: "items \<Rightarrow> string \<Rightarrow> datetime outcome" where
  "time_of d k = bind (field d k) require_time"

definition valid_between :: "items \<Rightarrow> string \<Rightarrow> string \<Rightarrow> datetime \<Rightarrow> bool" where
  "valid_between d a b now =
     (case (time_of d a, time_of d b) of
        (Ret s, Ret t) \<Rightarrow> utc_us s \<le> utc_us now \<and> utc_us now \<le> utc_us t
      | _ \<Rightarrow> False)"

text \<open>The unique entry of a trust bundle for a key identifier, with its purpose, scope and window.\<close>

definition trusted :: "pyval \<Rightarrow> pyval \<Rightarrow> string \<Rightarrow> pyval \<Rightarrow> pyval \<Rightarrow> datetime \<Rightarrow> bytes \<Rightarrow> bool" where
  "trusted trust key_id purpose tenant environment now public \<longleftrightarrow>
     (\<exists>ks key. bind (item trust ''keys'') iter_of = Ret ks \<and> filter (key_matches key_id) ks = [PDict key] \<and>
        map_of key ''purpose'' = Some (PStr purpose) \<and>
        field_is key ''tenantId'' tenant = Ret True \<and> field_is key ''environmentId'' environment = Ret True \<and>
        map_of key ''revoked'' = Some (PBool False) \<and> valid_between key ''validFrom'' ''validUntil'' now \<and>
        map_of key ''publicKey'' = Some (PStr (b64url_encode public)) \<and> length public = 32)"

definition signed_with :: "ucd \<Rightarrow> string \<Rightarrow> items \<Rightarrow> string list \<Rightarrow> string \<Rightarrow> bytes \<Rightarrow> bool" where
  "signed_with U domain d names name public \<longleftrightarrow>
     (\<exists>payload signature. signature_payload U domain d names = Ret payload \<and>
        map_of d name = Some (PStr (b64url_encode signature)) \<and> length signature = 64 \<and>
        verify public payload signature = Ret True)"

definition authorised ::
  "ucd \<Rightarrow> string \<Rightarrow> string \<Rightarrow> items \<Rightarrow> items \<Rightarrow> pyval \<Rightarrow> pyval \<Rightarrow> datetime \<Rightarrow> bool" where
  "authorised U envelope_domain capacity_domain e c release_trust tenant_trust now \<longleftrightarrow>
     (\<exists>platform tenant capacity kp kt kc t v.
        map_of e ''platformSignerKeyId'' = Some kp \<and> map_of e ''tenantSignerKeyId'' = Some kt \<and>
        map_of c ''signerKeyId'' = Some kc \<and> map_of e ''tenantId'' = Some t \<and> map_of e ''environmentId'' = Some v \<and>
        trusted release_trust kp ''PLATFORM_RELEASE'' PNone PNone now platform \<and>
        trusted tenant_trust kt ''TENANT_LIVE_EXECUTION'' t v now tenant \<and>
        trusted tenant_trust kc ''CAPACITY_OPERATOR'' t v now capacity \<and>
        distinct [platform, tenant, capacity] \<and>
        signed_with U envelope_domain e [''platformSignature'', ''tenantSignature''] ''platformSignature'' platform \<and>
        signed_with U envelope_domain e [''platformSignature'', ''tenantSignature''] ''tenantSignature'' tenant \<and>
        signed_with U capacity_domain c [''signature''] ''signature'' capacity)"

definition nested_windows :: "items \<Rightarrow> items \<Rightarrow> datetime \<Rightarrow> bool" where
  "nested_windows c e now =
     (case (time_of e ''issuedAt'', time_of c ''validFrom'', time_of c ''expiresAt'', time_of e ''expiresAt'') of
        (Ret issued, Ret from, Ret until, Ret expires) \<Rightarrow>
          utc_us issued \<le> utc_us from \<and> utc_us from \<le> utc_us now \<and>
          utc_us now \<le> utc_us until \<and> utc_us until \<le> utc_us expires
      | _ \<Rightarrow> False)"

definition bound_file :: "filesystem \<Rightarrow> items \<Rightarrow> string \<times> string \<Rightarrow> bool" where
  "bound_file fs e kv =
     (case kv of (path_field, digest_field) \<Rightarrow>
        \<exists>path data. map_of e path_field = Some (PStr path) \<and> secure_read fs True path = Ret data \<and>
          map_of e digest_field = Some (PStr (byte_digest data)))"

lemma b64_field:
  "bind (field d k) (\<lambda>s. b64url_decode s n) = Ret bs \<longleftrightarrow>
     map_of d k = Some (PStr (b64url_encode bs)) \<and> length bs = n"
  by (auto simp: bind_eq_Ret field_eq_Ret b64url_decode_Ret)

lemma valid_betweenI:
  assumes "bind (field d a) require_time = Ret s" "bind (field d b) require_time = Ret t"
    "time_le s now = Ret True" "time_le now t = Ret True"
  shows "valid_between d a b now"
  using assms by (simp add: valid_between_def time_of_def time_le_True)

lemma trust_key_Ret:
  assumes "trust_key trust k purpose tenant environment now = Ret public"
  shows "trusted trust k purpose tenant environment now public"
proof -
  from assms obtain d ks key a b where trust: "trust = PDict d" and ks: "bind (field d ''keys'') iter_of = Ret ks"
    and one: "(case filter (key_matches k) ks of [PDict key] \<Rightarrow> Ret key | _ \<Rightarrow> refuse ''AMBIGUOUS_TRUST_KEY'') = Ret key"
    and scope: "field_is key ''purpose'' (PStr purpose) = Ret True"
      "field_is key ''tenantId'' tenant = Ret True" "field_is key ''environmentId'' environment = Ret True"
      "map_of key ''revoked'' = Some (PBool False)"
    and window: "bind (field key ''validFrom'') require_time = Ret a" "bind (field key ''validUntil'') require_time = Ret b"
      "time_le a now = Ret True" "time_le now b = Ret True"
    and public: "bind (field key ''publicKey'') (\<lambda>p. b64url_decode p 32) = Ret public"
    unfolding trust_key_def
    by (auto simp: bind_eq_Ret [of "require_object trust"] bind_eq_Ret [of "closed _ _ _"]
        bind_eq_Ret [of "requires _ _"] bind_eq_Ret [of "bind _ _"] bind_eq_Ret [of "case _ of _ \<Rightarrow> _"] requires_eq_Ret and_also_True
        require_object_eq_Ret field_eq_Ret bind_eq_Ret)
  have "filter (key_matches k) ks = [PDict key]"
    using one by (auto split: list.splits pyval.splits)
  moreover have "bind (item trust ''keys'') iter_of = Ret ks"
    using ks by (auto simp: trust bind_eq_Ret field_eq_Ret)
  moreover have "map_of key ''purpose'' = Some (PStr purpose)"
    using scope(1) by (simp add: field_is_eq_Ret)
  ultimately show ?thesis
    using scope valid_betweenI [OF window] public unfolding trusted_def b64_field by blast
qed

lemma require_signature_Ret:
  assumes "require_signature key payload d name reason = Ret u" "signature_payload U dmn d names = Ret payload"
  shows "signed_with U dmn d names name key"
  using assms unfolding require_signature_def signed_with_def requires_eq_Ret bind_eq_Ret [of "bind _ _"] b64_field
  by blast

lemma signatures_under_Ret:
  assumes "signatures_under U edom cdom e c release_trust tenant_trust now = Ret u"
  shows "authorised U edom cdom e c release_trust tenant_trust now"
proof -
  from assms obtain kp kt kc t v platform tenant capacity payload cpayload where
    "map_of e ''platformSignerKeyId'' = Some kp" "map_of e ''tenantSignerKeyId'' = Some kt"
    "map_of c ''signerKeyId'' = Some kc" "map_of e ''tenantId'' = Some t" "map_of e ''environmentId'' = Some v"
    "trust_key release_trust kp ''PLATFORM_RELEASE'' PNone PNone now = Ret platform"
    "trust_key tenant_trust kt ''TENANT_LIVE_EXECUTION'' t v now = Ret tenant"
    "trust_key tenant_trust kc ''CAPACITY_OPERATOR'' t v now = Ret capacity"
    "distinct [platform, tenant, capacity]"
    "signature_payload U edom e [''platformSignature'', ''tenantSignature''] = Ret payload"
    "require_signature platform payload e ''platformSignature'' ''PLATFORM_SIGNATURE_INVALID'' = Ret ()"
    "require_signature tenant payload e ''tenantSignature'' ''TENANT_SIGNATURE_INVALID'' = Ret ()"
    "signature_payload U cdom c [''signature''] = Ret cpayload"
    "require_signature capacity cpayload c ''signature'' ''CAPACITY_SIGNATURE_INVALID'' = Ret ()"
    unfolding signatures_under_def by (auto simp: bind_eq_Ret field_eq_Ret)
  then show ?thesis unfolding authorised_def
    by (meson trust_key_Ret require_signature_Ret)
qed

lemma capacity_window_Ret:
  assumes "capacity_window c e now = Ret u"
  shows "nested_windows c e now"
  using assms
  by (auto simp: capacity_window_def nested_windows_def time_of_def requires_eq_Ret and_also_True bind_eq_Ret
      field_eq_Ret time_le_True)

lemma validate_capacity_Ret:
  assumes "validate_capacity v e now = Ret c"
  shows "v = PDict c" "keys c = set CAPACITY_FIELDS" "map_of c ''schemaVersion'' = Some (PStr CAPACITY_SCHEMA)"
    "\<forall>(k, l) \<in> set CAPACITY_BINDINGS. same_field c k e l = Ret True" "nested_windows c e now"
    "capacity_endpoints c e = Ret True"
  using assms capacity_window_Ret [of c e now] unfolding validate_capacity_def
  by (auto simp: bind_eq_Ret require_object_eq_Ret closed_eq_Ret requires_eq_Ret field_is_eq_Ret for_each_eq_Ret)

lemma verify_reference_bound:
  assumes "reference_of fs e p d = Ret data"
  shows "bound_file fs e (p, d)"
proof -
  from assms obtain a b where "map_of e p = Some a" "map_of e d = Some b" "verify_reference fs a b = Ret data"
    by (auto simp: reference_of_def bind_eq_Ret field_eq_Ret)
  then show ?thesis
    by (cases a) (auto simp: verify_reference_def bound_file_def bind_eq_Ret)
qed

definition REFERENCE_DIGESTS :: "(string \<times> string) list" where
  "REFERENCE_DIGESTS =
     [(''packetFileReference'', ''packetDigest''),
      (''campaignDefinitionFileReference'', ''campaignDefinitionDigest''),
      (''campaignReleaseFileReference'', ''campaignReleaseDigest''), (''bundleFileReference'', ''bundleDigest''),
      (''capacityAuthorizationFileReference'', ''capacityAuthorizationDigest'')]"

definition read_json :: "ucd \<Rightarrow> filesystem \<Rightarrow> string \<Rightarrow> pyval \<Rightarrow> bytes \<Rightarrow> bool" where
  "read_json U fs path v data \<longleftrightarrow> secure_read fs True path = Ret data \<and> load_json_bytes U data = Ret v"

text \<open>What a passed preflight has established.\<close>

definition preflight_established ::
  "ucd \<Rightarrow> filesystem \<Rightarrow> kit_host \<Rightarrow> string \<Rightarrow> string \<Rightarrow> string \<Rightarrow> datetime \<Rightarrow> items \<Rightarrow> bool" where
  "preflight_established U fs H launcher_path release_path tenant_path now r \<longleftrightarrow>
     (\<exists>e c release_trust tenant_trust launcher release_bytes tenant_bytes root.
        map_of r ''authorityStatus'' = Some (PStr ''PASS'') \<and> map_of r ''campaignId'' = map_of e ''campaignId'' \<and>
        validate_envelope U (PDict e) now = Ret e \<and> validate_capacity (PDict c) e now = Ret c \<and>
        list_all (bound_file fs e) REFERENCE_DIGESTS \<and>
        map_of e ''conformanceKitRoot'' = Some (PStr root) \<and>
        map_option Ret (map_of e ''conformanceKitDigest'') = Some (bind (tree_digest U fs H root) (Ret \<circ> PStr)) \<and>
        secure_read fs True launcher_path = Ret launcher \<and>
        map_of e ''launcherDigest'' = Some (PStr (byte_digest launcher)) \<and>
        read_json U fs release_path release_trust release_bytes \<and>
        map_of e ''releaseTrustStoreDigest'' = Some (PStr (byte_digest release_bytes)) \<and>
        read_json U fs tenant_path tenant_trust tenant_bytes \<and>
        map_of e ''tenantTrustStoreDigest'' = Some (PStr (byte_digest tenant_bytes)) \<and>
        nested_windows c e now \<and>
        authorised U ENVELOPE_DOMAIN CAPACITY_DOMAIN e c release_trust tenant_trust now)"

lemma preflight_Ret:
  assumes "preflight U fs H envelope_path launcher_path release_path tenant_path now = Ret r"
  shows "preflight_established U fs H launcher_path release_path tenant_path now r"
proof -
  from assms obtain v e launcher cb root kit rb tb cv c release_trust tenant_trust bound where
    e: "validate_envelope U v now = Ret e"
    and launcher: "secure_read fs True launcher_path = Ret launcher" "field_is e ''launcherDigest'' (PStr (byte_digest launcher)) = Ret True"
    and refs: "\<forall>(p, d) \<in> set REFERENCE_DIGESTS. \<exists>data. reference_of fs e p d = Ret data"
    and root: "map_of e ''conformanceKitRoot'' = Some root"
      "(case root of PStr p \<Rightarrow> tree_digest U fs H p | _ \<Rightarrow> Raise TypeError) = Ret kit"
      "field_is e ''conformanceKitDigest'' (PStr kit) = Ret True"
    and trust: "secure_read fs True release_path = Ret rb" "secure_read fs True tenant_path = Ret tb"
      "field_is e ''releaseTrustStoreDigest'' (PStr (byte_digest rb)) = Ret True"
      "field_is e ''tenantTrustStoreDigest'' (PStr (byte_digest tb)) = Ret True"
      "load_json_bytes U rb = Ret release_trust" "load_json_bytes U tb = Ret tenant_trust"
    and c: "validate_capacity cv e now = Ret c"
    and sig: "verify_live_signatures U e c release_trust tenant_trust now = Ret ()"
    and r: "r = (''authorityStatus'', PStr ''PASS'') # bound"
      "map_out (\<lambda>k. bind (field e k) (\<lambda>v. Ret (k, v)))
             [''campaignId'', ''capacityAuthorizationId'', ''environmentId'', ''tenantId''] = Ret bound"
    unfolding preflight_def REFERENCE_DIGESTS_def
    by (auto simp: bind_eq_Ret requires_eq_Ret and_also_True field_eq_Ret simp del: map_out.simps)
  obtain p where p: "root = PStr p" "tree_digest U fs H p = Ret kit"
    using root(2) by (cases root) auto
  have refs': "list_all (bound_file fs e) REFERENCE_DIGESTS"
    using refs by (auto simp: list_all_iff intro: verify_reference_bound)
  have "authorised U ENVELOPE_DOMAIN CAPACITY_DOMAIN e c release_trust tenant_trust now"
    using sig unfolding verify_live_signatures_def by (rule signatures_under_Ret)
  moreover have "v = PDict e" "cv = PDict c"
    using e c by (auto simp: validate_envelope_def validate_capacity_def bind_eq_Ret require_object_eq_Ret)
  moreover have "map_of r ''campaignId'' = map_of e ''campaignId''"
    using r by (auto simp: bind_eq_Ret field_eq_Ret)
  moreover have "map_of r ''authorityStatus'' = Some (PStr ''PASS'')" using r(1) by simp
  moreover note e c launcher root trust refs' p validate_capacity_Ret(5) [OF c]
  ultimately show ?thesis
    unfolding preflight_established_def by (intro exI conjI) (auto simp: field_is_eq_Ret read_json_def)
qed

lemma envelope_versions:
  "validate_envelope U v now = Ret e \<Longrightarrow> v = PDict e \<and> map_of e ''schemaVersion'' = Some (PStr ENVELOPE_SCHEMA)"
  "validate_envelope_v2 U v now = Ret e \<Longrightarrow> v = PDict e \<and> map_of e ''schemaVersion'' = Some (PStr ENVELOPE_SCHEMA_V2)"
  unfolding validate_envelope_def validate_envelope_v2_def
  by (auto simp: bind_eq_Ret require_object_eq_Ret requires_eq_Ret field_is_eq_Ret)

lemma py_set_distinct: "py_set xs = Ret s \<Longrightarrow> length s = length xs \<Longrightarrow> distinct (map hash_norm xs)"
  by (metis length_map length_remdups_eq outcome.distinct(1) outcome.inject(2) py_set_def remdups_id_iff_distinct)

lemma signer_owners_length: "signer_owners e c rt tt = Ret owners \<Longrightarrow> length owners = 3"
  by (auto simp: signer_owners_def bind_eq_Ret)

lemma authority_Ret:
  assumes "verify_linux_authority U eb cb rb tb now = Ret (e, c, rt, tt)"
  obtains owners where "require_canonical_document U eb = Ret (PDict e)" "validate_envelope U (PDict e) now = Ret e"
    "linux_envelope_scope e now = Ret ()" "linux_digests e cb rb tb = Ret ()"
    "require_canonical_document U cb = Ret (PDict c)" "validate_capacity (PDict c) e now = Ret c"
    "linux_capacity_scope c now = Ret ()" "require_canonical_document U rb = Ret rt"
    "require_canonical_document U tb = Ret tt"
    "verify_live_signatures U e c rt tt now = Ret ()"
    "signer_owners e c rt tt = Ret owners" "distinct (map hash_norm owners)" "length owners = 3"
proof -
  from assms obtain d dc owners s where "require_canonical_document U eb = Ret d" "validate_envelope U d now = Ret e"
    "linux_envelope_scope e now = Ret ()" "linux_digests e cb rb tb = Ret ()"
    "require_canonical_document U cb = Ret dc" "validate_capacity dc e now = Ret c"
    "linux_capacity_scope c now = Ret ()" "require_canonical_document U rb = Ret rt"
    "require_canonical_document U tb = Ret tt"
    "verify_live_signatures U e c rt tt now = Ret ()"
    "signer_owners e c rt tt = Ret owners" "py_set owners = Ret s" "length s = 3"
    unfolding verify_linux_authority_def by (auto simp: catching_eq_Ret bind_eq_Ret)
  then show ?thesis
    using that envelope_versions(1) validate_capacity_Ret(1) signer_owners_length py_set_distinct by metis
qed

lemma authority_v2_Ret:
  assumes "verify_linux_authority_v2 U eb cb rb tb now = Ret (e, c, rt, tt, disclosure)"
  obtains owners where "require_canonical_document U eb = Ret (PDict e)" "validate_envelope_v2 U (PDict e) now = Ret e"
    "linux_envelope_scope e now = Ret ()" "linux_digests e cb rb tb = Ret ()"
    "require_canonical_document U cb = Ret (PDict c)" "validate_capacity_v2 (PDict c) e now = Ret c"
    "linux_capacity_scope c now = Ret ()"
    "verify_live_signatures_v2 U e c rt tt now = Ret ()" "same_field e ''signers'' c ''signers'' = Ret True"
    "signer_owners e c rt tt = Ret owners" "signers_rule e owners = Ret ()" "map_of e ''signers'' = Some disclosure"
proof -
  from assms obtain d dc owners where "require_canonical_document U eb = Ret d" "validate_envelope_v2 U d now = Ret e"
    "linux_envelope_scope e now = Ret ()" "linux_digests e cb rb tb = Ret ()"
    "require_canonical_document U cb = Ret dc" "validate_capacity_v2 dc e now = Ret c"
    "linux_capacity_scope c now = Ret ()"
    "verify_live_signatures_v2 U e c rt tt now = Ret ()" "same_field e ''signers'' c ''signers'' = Ret True"
    "signer_owners e c rt tt = Ret owners" "signers_rule e owners = Ret ()" "map_of e ''signers'' = Some disclosure"
    unfolding verify_linux_authority_v2_def by (auto simp: catching_eq_Ret bind_eq_Ret requires_eq_Ret field_eq_Ret)
  moreover have "dc = PDict c" if "validate_capacity_v2 dc e now = Ret c" for dc
    using that by (auto simp: validate_capacity_v2_def bind_eq_Ret require_object_eq_Ret)
  ultimately show ?thesis using that envelope_versions(2) by metis
qed

lemma time_of_legacy [simp]: "k \<notin> {''signers'', ''schemaVersion''} \<Longrightarrow> time_of (legacy_copy sv d) k = time_of d k"
  by (simp add: time_of_def legacy_copy_def field_def restrict_map_def)

lemma nested_windows_legacy [simp]: "nested_windows (legacy_copy sv c) (legacy_copy sw e) now = nested_windows c e now"
  by (simp add: nested_windows_def)

lemma validate_capacity_v2_Ret:
  assumes "validate_capacity_v2 v e now = Ret c"
  shows "v = PDict c" "nested_windows c e now" "field_in c ''signers'' SIGNERS = Ret True"
proof -
  from assms show "v = PDict c" "field_in c ''signers'' SIGNERS = Ret True"
    by (auto simp: validate_capacity_v2_def bind_eq_Ret require_object_eq_Ret requires_eq_Ret)
  from assms obtain lc where "validate_capacity (PDict (legacy_copy CAPACITY_SCHEMA c)) (legacy_copy ENVELOPE_SCHEMA e) now = Ret lc"
    by (auto simp: validate_capacity_v2_def bind_eq_Ret)
  from validate_capacity_Ret(1,5) [OF this] show "nested_windows c e now" by (metis nested_windows_legacy pyval.inject(6))
qed

text \<open>The disclosed relation of the three signers to each other.\<close>

definition owners_as_disclosed :: "pyval \<Rightarrow> pyval list \<Rightarrow> bool" where
  "owners_as_disclosed disclosure owners \<longleftrightarrow>
     (disclosure = PStr ''INDEPENDENT_PRINCIPALS'' \<and> length owners = 3 \<and> distinct owners \<and>
        PStr SINGLE_PRINCIPAL_OWNER \<notin> set owners) \<or>
     (disclosure = PStr ''SINGLE_PRINCIPAL_SEPARATED_KEYS'' \<and> owners = replicate 3 (PStr SINGLE_PRINCIPAL_OWNER))"

lemma py_in_str: "py_in (PStr s) xs \<longleftrightarrow> PStr s \<in> set xs"
  by (auto simp: py_in_def list_ex_iff)

lemma signers_rule_Ret:
  assumes rule: "signers_rule e owners = Ret ()" and three: "length owners = 3"
    and e: "map_of e ''signers'' = Some disclosure" "str_in disclosure SIGNERS"
  shows "owners_as_disclosed disclosure owners"
proof (cases "disclosure = PStr ''INDEPENDENT_PRINCIPALS''")
  case True
  with rule e(1) obtain s where "py_set owners = Ret s" "length s = 3" "PStr SINGLE_PRINCIPAL_OWNER \<notin> set owners"
    by (auto simp: signers_rule_def field_is_def bind_eq_Ret SIGNERS_def py_in_str)
  with True three show ?thesis
    using py_set_distinct [of owners s] by (simp add: owners_as_disclosed_def distinct_map)
next
  case False
  with e(2) have other: "disclosure = PStr ''SINGLE_PRINCIPAL_SEPARATED_KEYS''" by (auto simp: SIGNERS_def)
  with rule e(1) have "\<forall>x \<in> set owners. x = PStr SINGLE_PRINCIPAL_OWNER"
    by (auto simp: signers_rule_def field_is_def SIGNERS_def list_all_iff)
  then have "owners = replicate 3 (PStr SINGLE_PRINCIPAL_OWNER)" using three by (metis replicate_length_same)
  with other show ?thesis by (simp add: owners_as_disclosed_def)
qed

lemma linux_digests_Ret:
  "linux_digests e cb rb tb = Ret u \<longleftrightarrow>
     map_of e ''capacityAuthorizationDigest'' = Some (PStr (byte_digest cb)) \<and>
     map_of e ''releaseTrustStoreDigest'' = Some (PStr (byte_digest rb)) \<and>
     map_of e ''tenantTrustStoreDigest'' = Some (PStr (byte_digest tb))"
  by (auto simp: linux_digests_def for_each_eq_Ret requires_eq_Ret field_is_eq_Ret bind_eq_Ret)

definition linux_scoped :: "items \<Rightarrow> bytes \<Rightarrow> bytes \<Rightarrow> bytes \<Rightarrow> datetime \<Rightarrow> bool" where
  "linux_scoped e cb rb tb now \<longleftrightarrow>
     map_of e ''packetDigest'' = Some (PStr PACKET_DIGEST) \<and>
     map_of e ''campaignId'' = Some (PStr ''linux-baseline'') \<and>
     (\<exists>t. time_of e ''expiresAt'' = Ret t \<and> utc_us now < utc_us t) \<and>
     map_of e ''capacityAuthorizationDigest'' = Some (PStr (byte_digest cb)) \<and>
     map_of e ''releaseTrustStoreDigest'' = Some (PStr (byte_digest rb)) \<and>
     map_of e ''tenantTrustStoreDigest'' = Some (PStr (byte_digest tb))"

lemma linux_time_time: "linux_time v = Ret t \<Longrightarrow> require_time v = Ret t"
  by (simp add: linux_time_def bind_eq_Ret)

lemma linux_scopedI:
  assumes "linux_envelope_scope e now = Ret u" "linux_digests e cb rb tb = Ret w"
  shows "linux_scoped e cb rb tb now"
  using assms unfolding linux_envelope_scope_def linux_scoped_def linux_digests_Ret time_of_def
  by (auto simp: bind_eq_Ret requires_eq_Ret and_also_True field_is_eq_Ret field_eq_Ret time_less_True dest: linux_time_time)



section \<open>The kit tree: every file once\<close>

text \<open>The leaves of a tree with their relative paths, and what the digest records of each.\<close>

fun tree_leaves :: "string \<Rightarrow> node \<Rightarrow> (string \<times> node) list" where
  "tree_leaves prefix (Directory kids) =
     concat (map (\<lambda>(name, n). case n of Directory _ \<Rightarrow> tree_leaves (kit_path prefix name) n
                                      | _ \<Rightarrow> [(kit_path prefix name, n)]) kids)"
| "tree_leaves prefix _ = []"

fun leaf_ok :: "string \<times> node \<Rightarrow> bool" where
  "leaf_ok (_, Other is_reg mode _) \<longleftrightarrow> is_reg \<and> \<not> writable_by_others mode"
| "leaf_ok _ \<longleftrightarrow> False"

fun leaf_inode :: "string \<times> node \<Rightarrow> nat \<times> nat" where
  "leaf_inode (_, Other _ _ inode) = inode"
| "leaf_inode _ = (0, 0)"

fun leaf_entry :: "filesystem \<Rightarrow> string \<Rightarrow> string \<times> node \<Rightarrow> pyval outcome" where
  "leaf_entry fs root (path, Other _ mode _) =
     bind (secure_read fs False (root @ ''/'' @ path)) (\<lambda>data.
       Ret (PDict [(''mode'', PStr (octal 4 mode)), (''path'', PStr path), (''sha256'', PStr (byte_digest data)),
                   (''size'', PInt (int (length data)))]))"
| "leaf_entry fs root _ = Raise KeyError"

definition extends :: "filesystem \<Rightarrow> string \<Rightarrow> (string \<times> node) list \<Rightarrow> walk_state \<Rightarrow> walk_state \<Rightarrow> bool" where
  "extends fs root leaves s t \<longleftrightarrow>
     (\<exists>new. fst t = fst s @ new \<and> mset (map Ret new) = mset (map (leaf_entry fs root) leaves)) \<and>
     mset (snd t) = mset (map leaf_inode leaves) + mset (snd s) \<and>
     (distinct (snd s) \<longrightarrow> distinct (snd t)) \<and> list_all leaf_ok leaves"

lemma extends_Nil [simp]: "extends fs root [] s s"
  by (simp add: extends_def)

lemma extends_trans: "extends fs root l s t \<Longrightarrow> extends fs root m t u \<Longrightarrow> extends fs root (l @ m) s u"
  unfolding extends_def by (auto simp: ac_simps)

lemma extends_mset:
  assumes "mset l = mset m"
  shows "extends fs root l s t = extends fs root m s t"
proof -
  have "mset (map (leaf_entry fs root) l) = mset (map (leaf_entry fs root) m)"
    "mset (map leaf_inode l) = mset (map leaf_inode m)"
    using assms by (simp_all only: mset_map)
  moreover have "list_all leaf_ok l = list_all leaf_ok m"
    using mset_eq_setD [OF assms] by (simp only: list_all_iff)
  ultimately show ?thesis by (simp only: extends_def)
qed

lemma fold_extends:
  assumes "fold_out f s xs = Ret t" "\<And>x s t. x \<in> set xs \<Longrightarrow> f s x = Ret t \<Longrightarrow> extends fs root (g x) s t"
  shows "extends fs root (concat (map g xs)) s t"
  using assms
proof (induction xs arbitrary: s)
  case (Cons x xs)
  from Cons.prems(1) obtain s' where "f s x = Ret s'" "fold_out f s' xs = Ret t" by (auto simp: bind_eq_Ret)
  then have "extends fs root (g x) s s'" "extends fs root (concat (map g xs)) s' t"
    using Cons.prems(2) Cons.IH [of s'] by simp_all
  then show ?case by (simp add: extends_trans)
qed simp

lemma walk_file_extends:
  assumes "walk_file fs root prefix s (name, n) = Ret t"
  shows "extends fs root [(kit_path prefix name, n)] s t"
  using assms
  by (cases s; cases n)
     (auto simp: walk_file_def extends_def bind_eq_Ret refuse_def Let_def split: if_splits)

definition kid_leaves :: "string \<Rightarrow> string \<times> node \<Rightarrow> (string \<times> node) list" where
  "kid_leaves prefix kv = (case kv of (name, n) \<Rightarrow>
     (case n of Directory _ \<Rightarrow> tree_leaves (kit_path prefix name) n | _ \<Rightarrow> [(kit_path prefix name, n)]))"

lemma mset_concat_map: "mset (concat (map g xs)) = (\<Sum>x \<in># mset xs. mset (g x))"
  by (induction xs) auto

lemma mset_split_kids:
  "mset (concat (map g (sort_key fst (filter (\<lambda>x. \<not> P x) kids))) @ concat (map g (sort_key fst (filter P kids))))
     = mset (concat (map g kids))"
  unfolding mset_append mset_concat_map mset_sort mset_filter sum_mset.union [symmetric] image_mset_union [symmetric]
  by (subst (2) multiset_partition [of "mset kids" P]) (simp add: add.commute)

lemma walk_extends: "walk fs root prefix s n = Ret t \<Longrightarrow> extends fs root (tree_leaves prefix n) s t"
proof (induction n arbitrary: prefix s t)
  case (Directory kids)
  let ?d = "\<lambda>kv. is_directory (snd kv)"
  let ?dirs = "sort_key fst (filter ?d kids)" and ?files = "sort_key fst (filter (\<lambda>x. \<not> ?d x) kids)"
  have files_eq: "(\<lambda>(_, n). \<not> is_directory n) = (\<lambda>x. \<not> ?d x)" "(\<lambda>(_, n). is_directory n) = ?d"
    by auto
  from Directory.prems obtain s' where links: "\<forall>kv \<in> set ?dirs. snd kv \<noteq> Directory_link"
    and files: "fold_out (walk_file fs root prefix) s ?files = Ret s'"
    and dirs: "fold_out (\<lambda>s (name, sub). walk fs root (kit_path prefix name) s sub) s' ?dirs = Ret t"
    by (auto simp: bind_eq_Ret Let_def list_all_iff files_eq)
  have "extends fs root (concat (map (kid_leaves prefix) ?files)) s s'"
    using files
  proof (rule fold_extends)
    fix x s t assume "x \<in> set ?files" and w: "walk_file fs root prefix s x = Ret t"
    then have "\<not> is_directory (snd x)" by simp
    then obtain name a b c where "x = (name, Other a b c)" by (cases x, cases "snd x") simp_all
    then show "extends fs root (kid_leaves prefix x) s t"
      using walk_file_extends w by (simp add: kid_leaves_def)
  qed
  moreover have "extends fs root (concat (map (kid_leaves prefix) ?dirs)) s' t"
    using dirs
  proof (rule fold_extends)
    fix x s t assume x: "x \<in> set ?dirs"
      and w: "(case x of (name, sub) \<Rightarrow> walk fs root (kit_path prefix name) s sub) = Ret t"
    have "snd x \<noteq> Directory_link" using links x by (rule bspec)
    moreover have "is_directory (snd x)" using x by simp
    ultimately obtain name sub where x': "x = (name, Directory sub)" by (cases x, cases "snd x") simp_all
    show "extends fs root (kid_leaves prefix x) s t"
      using Directory.IH [of x "Directory sub" "kit_path prefix name" s t] x w by (auto simp: x' kid_leaves_def)
  qed
  ultimately have "extends fs root (concat (map (kid_leaves prefix) kids)) s t"
    using extends_trans extends_mset [OF mset_split_kids [of "kid_leaves prefix" ?d kids]] by blast
  then show ?case by (simp add: kid_leaves_def [abs_def])
qed simp_all



section \<open>Ordinary failures\<close>

lemma ordinary_case_str [ordinary_intros]:
  "(\<And>s. v = PStr s \<Longrightarrow> ordinary (f s)) \<Longrightarrow> (\<not> is_str v \<Longrightarrow> ordinary g) \<Longrightarrow> ordinary (case v of PStr s \<Rightarrow> f s | _ \<Rightarrow> g)"
  by (cases v) simp_all

lemma ordinary_py_set [simp, ordinary_intros]: "ordinary (py_set xs)"
  by (simp add: py_set_def)

lemma ordinary_refuse_simps [simp]: "ordinary (refuse r)"
  by (simp add: refuse_def)

lemma ordinary_references [simp, ordinary_intros]:
  "ordinary (require_absolute_reference v)" "ordinary (command_set_digest U cs)" "ordinary (validate_command c)"
  "ordinary (validate_tls v)" "ordinary (same_field d k e l)"
  unfolding require_absolute_reference_def command_set_digest_def validate_command_def validate_tls_def same_field_def
  by (auto split: pyval.split list.split intro!: ordinary_intros)

lemma ordinary_validate_commands [simp, ordinary_intros]: "ordinary (validate_commands v)"
  unfolding validate_commands_def by (auto split: pyval.split intro!: ordinary_intros)

lemma ordinary_validate_endpoint [simp, ordinary_intros]: "ordinary (validate_endpoint v)"
  unfolding validate_endpoint_def by (intro ordinary_intros) (auto split: pyval.split)

lemma ordinary_envelope_parts [simp, ordinary_intros]:
  "ordinary (axes_invalid v)" "ordinary (envelope_endpoints e)" "ordinary (envelope_window e now)" "ordinary (envelope_signers e)"
  unfolding axes_invalid_def envelope_endpoints_def envelope_window_def envelope_signers_def
  by (auto split: pyval.split intro!: ordinary_intros)

lemma ordinary_validate_envelope [simp, ordinary_intros]: "ordinary (validate_envelope U v now)"
  unfolding validate_envelope_def by (intro ordinary_intros)

lemma ordinary_capacity_parts [simp, ordinary_intros]:
  "ordinary (capacity_endpoints c e)" "ordinary (capacity_window c e now)"
  unfolding capacity_endpoints_def capacity_window_def
  by (auto split: pyval.split intro!: ordinary_intros)

lemma ordinary_validate_capacity [simp, ordinary_intros]: "ordinary (validate_capacity v e now)"
  unfolding validate_capacity_def by (intro ordinary_intros)

lemma ordinary_v2 [simp, ordinary_intros]:
  "ordinary (validate_envelope_v2 U v now)" "ordinary (validate_capacity_v2 v e now)"
  unfolding validate_envelope_v2_def validate_capacity_v2_def by (intro ordinary_intros)+

lemma ordinary_trust_key [simp, ordinary_intros]: "ordinary (trust_key t k p x y now)"
  unfolding trust_key_def by (intro ordinary_intros) (auto split: pyval.split list.split)

lemma ordinary_signatures [simp, ordinary_intros]:
  "ordinary (require_signature key payload d name reason)"
  "ordinary (signatures_under U a b e c rt tt now)" "ordinary (verify_live_signatures U e c rt tt now)"
  "ordinary (verify_live_signatures_v2 U e c rt tt now)"
  unfolding require_signature_def signatures_under_def verify_live_signatures_def verify_live_signatures_v2_def
  by (intro ordinary_intros)+

lemma ordinary_linux_scope [simp, ordinary_intros]:
  "ordinary (linux_envelope_scope e now)" "ordinary (linux_digests e a b c)" "ordinary (linux_capacity_scope d now)"
  "ordinary (linux_key seen x)" "ordinary (signers_rule e owners)"
  unfolding linux_envelope_scope_def linux_digests_def linux_capacity_scope_def linux_key_def signers_rule_def
  by (intro ordinary_intros)+

lemma ordinary_linux_trust [simp, ordinary_intros]: "ordinary (linux_trust v)"
  unfolding linux_trust_def by (intro ordinary_intros)

lemma ordinary_first_owner:
  assumes "filter (key_matches k) xs \<noteq> []"
  shows "ordinary (first_owner k xs)"
  using assms
proof (induction xs)
  case (Cons x xs)
  show ?case
  proof (cases "key_matches k x")
    case True
    then obtain d where x: "x = PDict d" by (cases x) (auto simp: key_matches_def)
    with True show ?thesis
      by (cases "map_of d ''keyId''") (auto simp: key_matches_def item_is_def split: option.split intro!: ordinary_intros)
  next
    case False
    with Cons show ?thesis by (auto intro!: ordinary_intros)
  qed
qed simp

lemma ordinary_owner_of: "trusted t k p x y now public \<Longrightarrow> ordinary (owner_of (t, k))"
  unfolding owner_of_def trusted_def by (auto simp: bind_eq_Ret intro!: ordinary_first_owner)

lemma ordinary_signer_owners:
  assumes "authorised U edom cdom e c rt tt now"
  shows "ordinary (signer_owners e c rt tt)"
  using assms unfolding signer_owners_def authorised_def
  by (auto intro!: ordinary_intros dest: ordinary_owner_of)

lemma ordinary_authority [simp, ordinary_intros]: "ordinary (verify_linux_authority U eb cb rb tb now)"
  unfolding verify_linux_authority_def
  by (intro ordinary_intros ordinary_signer_owners)
     (auto simp: verify_live_signatures_def dest: signatures_under_Ret)

lemma ordinary_authority_v2 [simp, ordinary_intros]: "ordinary (verify_linux_authority_v2 U eb cb rb tb now)"
  unfolding verify_linux_authority_v2_def
  by (intro ordinary_intros ordinary_signer_owners)
     (auto simp: verify_live_signatures_v2_def dest: signatures_under_Ret)

section \<open>Properties\<close>

text \<open>the endpoint rule, written as refusals of address classes, admits exactly the
  addresses of ten IPv4 and four IPv6 networks, without the unspecified address and the globally
  reachable exceptions; in particular neither the IPv6 loopback address nor an IPv4-mapped address
  is admitted.\<close>

theorem admitted_addresses:
  "private_address a \<longleftrightarrow>
     list_ex (in_net a) ADMITTED \<and> a \<noteq> V4 0 \<and>
     \<not> list_ex (in_net a) v4_exceptions \<and> \<not> list_ex (in_net a) v6_exceptions"
  by (cases a) (auto simp: private_v4 private_v6 v4_exceptions_def v6_exceptions_def v4_def v6_def)

text \<open>An accepted endpoint is a closed object with discovery off, a port in range and an
  address in one of the admitted networks.\<close>

theorem endpoint_sound:
  "case validate_endpoint v of
     Raise _ \<Rightarrow> True
   | Ret e \<Rightarrow>
       v = PDict e \<and> keys e = set ENDPOINT_FIELDS \<and> map_of e ''discovery'' = Some (PBool False) \<and>
       (\<exists>x a. map_of e ''ipAddress'' = Some x \<and> ip_address x = Ret a \<and> list_ex (in_net a) ADMITTED) \<and>
       (\<exists>p. map_of e ''port'' = Some (PInt p) \<and> 1 \<le> p \<and> p \<le> 65535)"
proof (cases "validate_endpoint v")
  case (Ret e)
  then obtain x a p where e: "v = PDict e" "keys e = set ENDPOINT_FIELDS" "map_of e ''discovery'' = Some (PBool False)"
    and x: "map_of e ''ipAddress'' = Some x" "ip_address x = Ret a" "private_address a"
    and p: "map_of e ''port'' = Some p" "case p of PInt p \<Rightarrow> 1 \<le> p \<and> p \<le> 65535 | _ \<Rightarrow> False"
    unfolding validate_endpoint_def
    by (auto simp: bind_eq_Ret require_object_eq_Ret closed_eq_Ret requires_eq_Ret and_also_True catching_eq_Ret
        field_eq_Ret)
  have "list_ex (in_net a) ADMITTED"
    using x(3) by (cases a) (simp_all add: private_v4 private_v6)
  moreover obtain q where "p = PInt q" "1 \<le> q" "q \<le> 65535" using p(2) by (cases p) simp_all
  ultimately show ?thesis using Ret e x p by auto
qed simp

text \<open>C25: a kit tree has a digest only when it holds no link, no special file, no file
  writable by group or others and no hard-link alias; the digest is that of exactly one entry for
  every file, with its mode, path, size and content digest.\<close>

theorem kit_tree_sound:
  "case tree_digest U fs H root of
     Raise _ \<Rightarrow> True
   | Ret digest \<Rightarrow>
       (\<exists>kids entries. kit_tree H root = Some kids \<and> \<not> kit_link H root \<and>
          list_all leaf_ok (tree_leaves [] (Directory kids)) \<and>
          distinct (map leaf_inode (tree_leaves [] (Directory kids))) \<and>
          mset (map Ret entries) = mset (map (leaf_entry fs root) (tree_leaves [] (Directory kids))) \<and>
          canonical_digest U (PList (sort_key entry_path entries)) (Some TREE_DOMAIN) = Ret digest)"
proof (cases "tree_digest U fs H root")
  case (Ret digest)
  then obtain kids entries seen where k: "kit_tree H root = Some kids" "\<not> kit_link H root"
    and w: "walk fs root [] ([], []) (Directory kids) = Ret (entries, seen)"
    and d: "canonical_digest U (PList (sort_key entry_path entries)) (Some TREE_DOMAIN) = Ret digest"
    by (auto simp: tree_digest_def bind_eq_Ret refuse_def split: option.splits if_splits simp del: walk.simps)
  note ext = walk_extends [OF w, unfolded extends_def]
  then have "distinct (map leaf_inode (tree_leaves [] (Directory kids)))"
    by (metis (no_types, lifting) add.right_neutral distinct.simps(1) mset.simps(1) mset_eq_imp_distinct_iff snd_conv)
  with ext k d Ret show ?thesis by (auto simp del: tree_leaves.simps)
qed simp

text \<open>C15: a passed preflight has bound every referenced file, the launcher, both trust stores
  and the kit tree to the digests of a valid envelope, whose window contains that of the capacity
  authorization and the instant, and three distinct trusted keys have signed.\<close>

theorem preflight_sound:
  "case preflight U fs H envelope_path launcher_path release_path tenant_path now of
     Raise _ \<Rightarrow> True
   | Ret r \<Rightarrow> preflight_established U fs H launcher_path release_path tenant_path now r"
  by (auto split: outcome.split dest: preflight_Ret)


text \<open>An accepted v1alpha2 authority is signed under the v1alpha2 domains, both documents
  disclose the same relation of the signers, and the owners of the three keys stand in that
  relation.\<close>

theorem linux_authority_v2_sound:
  "case verify_linux_authority_v2 U eb cb rb tb now of
     Raise _ \<Rightarrow> True
   | Ret (e, c, release_trust, tenant_trust, disclosure) \<Rightarrow>
       map_of e ''signers'' = Some disclosure \<and> map_of c ''signers'' = Some disclosure \<and>
       linux_scoped e cb rb tb now \<and> nested_windows c e now \<and>
       authorised U ENVELOPE_DOMAIN_V2 CAPACITY_DOMAIN_V2 e c release_trust tenant_trust now \<and>
       (\<exists>owners. signer_owners e c release_trust tenant_trust = Ret owners \<and> owners_as_disclosed disclosure owners)"
proof (cases "verify_linux_authority_v2 U eb cb rb tb now")
  case (Ret r)
  obtain e c rt tt dis where r: "r = (e, c, rt, tt, dis)" by (cases r)
  obtain owners where f: "require_canonical_document U eb = Ret (PDict e)" "validate_envelope_v2 U (PDict e) now = Ret e"
    "linux_envelope_scope e now = Ret ()" "linux_digests e cb rb tb = Ret ()"
    "require_canonical_document U cb = Ret (PDict c)" "validate_capacity_v2 (PDict c) e now = Ret c"
    "linux_capacity_scope c now = Ret ()"
    "verify_live_signatures_v2 U e c rt tt now = Ret ()" "same_field e ''signers'' c ''signers'' = Ret True"
    "signer_owners e c rt tt = Ret owners" "signers_rule e owners = Ret ()" "map_of e ''signers'' = Some dis"
    by (rule authority_v2_Ret [OF Ret [unfolded r]])
  have str: "str_in dis SIGNERS"
    using f(2,12) by (auto simp: validate_envelope_v2_def bind_eq_Ret requires_eq_Ret field_in_eq_Ret)
  then have "map_of c ''signers'' = Some dis"
    using f(9,12) by (auto simp: same_field_def bind_eq_Ret field_eq_Ret)
  then show ?thesis
    using f linux_scopedI [OF f(3,4)] validate_capacity_v2_Ret(2) [OF f(6)]
      signatures_under_Ret [OF f(8) [unfolded verify_live_signatures_v2_def]]
      signers_rule_Ret [OF f(11) signer_owners_length [OF f(10)] f(12) str]
    by (simp add: Ret r)
qed simp

text \<open>No envelope is accepted by both versions of the Linux authority.\<close>

theorem authority_versions_disjoint:
  "\<not> (\<exists>r r'. verify_linux_authority U eb cb rb tb now = Ret r \<and>
             verify_linux_authority_v2 U eb cb' rb' tb' now' = Ret r')"
proof
  assume "\<exists>r r'. verify_linux_authority U eb cb rb tb now = Ret r \<and>
             verify_linux_authority_v2 U eb cb' rb' tb' now' = Ret r'"
  then obtain r r' where r: "verify_linux_authority U eb cb rb tb now = Ret r"
    and r': "verify_linux_authority_v2 U eb cb' rb' tb' now' = Ret r'" by blast
  obtain e c rt tt where e: "r = (e, c, rt, tt)" by (cases r)
  obtain e' c' rt' tt' dis where e': "r' = (e', c', rt', tt', dis)" by (cases r')
  have "require_canonical_document U eb = Ret (PDict e)" "validate_envelope U (PDict e) now = Ret e"
    by (rule authority_Ret [OF r [unfolded e]], assumption)+
  moreover have "require_canonical_document U eb = Ret (PDict e')" "validate_envelope_v2 U (PDict e') now' = Ret e'"
    by (rule authority_v2_Ret [OF r' [unfolded e']], assumption)+
  ultimately show False
    using envelope_versions(1) [of U "PDict e" now e] envelope_versions(2) [of U "PDict e'" now' e']
    by (simp add: ENVELOPE_SCHEMA_def ENVELOPE_SCHEMA_V2_def)
qed

end
