(* ===== verification/LinuxVerifyLaws.thy ===== *)
theory LinuxVerifyLaws
  imports LinuxVerify LiveLaws
begin

text \<open>
  What \<open>verify_linux_evidence\<close> establishes of a record it verifies, and that it fails in no other way
  than by a refusal.
\<close>

section \<open>Ordinary failures of the verification steps\<close>

lemma ordinary_item_at [simp, ordinary_intros]: "ordinary (item_at v k)"
  unfolding item_at_def by (auto split: pyval.split)

lemma ordinary_select [simp, ordinary_intros]:
  "ordinary (select_endpoints e k)" "ordinary (proxy_endpoint xs)"
  unfolding select_endpoints_def proxy_endpoint_def by (auto split: list.split intro!: ordinary_intros)

lemma ordinary_probe_request [simp, ordinary_intros]: "ordinary (build_probe_request U e c plan k)"
  unfolding build_probe_request_def probe_request_body_def
  by (intro ordinary_boundary ordinary_intros) (auto split: pyval.split list.split)

lemma ordinary_release_plan [simp, ordinary_intros]: "ordinary (release_plan U r b e a)"
  unfolding release_plan_def Let_def by (intro ordinary_intros) (auto split: list.split intro!: ordinary_intros)

lemma ordinary_record_parts [simp, ordinary_intros]:
  "ordinary (nonce_unused A)" "ordinary (expected_subject A e)" "ordinary (record_plan U A e rec)"
  "ordinary (expected_authority U A e c endpoint)" "ordinary (authority_binding U A e c plan endpoint rec)"
  "ordinary (time_max a b)" "ordinary (time_min a b)" "ordinary (record_signer U dmn rec i o' u r)"
  unfolding nonce_unused_def expected_subject_def record_plan_def expected_authority_def authority_binding_def
    time_max_def time_min_def record_signer_def
  by (intro ordinary_intros)+

lemma ordinary_sorted_texts [simp, ordinary_intros]: "ordinary (sorted_texts xs)"
  unfolding sorted_texts_def by (intro ordinary_intros) (auto split: pyval.split)

lemma ordinary_record_rest [simp, ordinary_intros]:
  "ordinary (record_endpoint U A e plan)" "ordinary (record_window e c rec i)"
  "ordinary (record_signers U dmn A e c rt tt rec i o' u)" "ordinary (record_case U A e c plan o' i cas)"
  unfolding record_endpoint_def record_window_def record_signers_def record_case_def
  by (intro ordinary_intros)+

lemma ordinary_verification_result [simp, ordinary_intros]: "ordinary (verification_result A plan cases)"
  unfolding verification_result_def case_results_def by (intro ordinary_intros) (auto split: pyval.split)

lemma ordinary_record_steps [simp, ordinary_intros]:
  "ordinary (record_steps U dmn A rec i e c rt tt dis)"
  unfolding record_steps_def by (intro ordinary_intros) (auto split: option.split intro!: ordinary_intros)

lemma ordinary_verify_record [simp, ordinary_intros]:
  "ordinary (verify_record U A doc)" "ordinary (verify_record_v2 U A doc)"
  unfolding verify_record_def verify_record_v2_def by (intro ordinary_intros)+

section \<open>What verification establishes\<close>

definition record_signed ::
  "ucd \<Rightarrow> string \<Rightarrow> evidence_input \<Rightarrow> items \<Rightarrow> items \<Rightarrow> items \<Rightarrow> pyval \<Rightarrow> pyval \<Rightarrow> datetime \<Rightarrow> bool" where
  "record_signed U domain A e c rec release_trust tenant_trust at \<longleftrightarrow>
     (\<exists>platform tenant capacity kp kt kc.
        map_of e ''platformSignerKeyId'' = Some kp \<and> map_of e ''tenantSignerKeyId'' = Some kt \<and>
        map_of c ''signerKeyId'' = Some kc \<and> distinct [platform, tenant, capacity] \<and>
        trusted release_trust kp ''PLATFORM_RELEASE'' PNone PNone at platform \<and>
        trusted tenant_trust kt ''TENANT_LIVE_EXECUTION'' (expected_tenant A) (expected_environment A) at tenant \<and>
        trusted tenant_trust kc ''CAPACITY_OPERATOR'' (expected_tenant A) (expected_environment A) at capacity \<and>
        signed_with U domain rec SIGNATURES ''platformSignature'' platform \<and>
        signed_with U domain rec SIGNATURES ''tenantSignature'' tenant \<and>
        signed_with U domain rec SIGNATURES ''capacitySignature'' capacity)"

lemma record_signer_Ret:
  assumes "record_signer U dmn rec i obs u (role, trust, purpose, tenant, env, k) = Ret key"
  shows "trusted trust k purpose tenant env i key"
    "\<exists>k'. trusted trust k purpose tenant env obs k'" "\<exists>k'. trusted trust k purpose tenant env u k'"
    "signed_with U dmn rec SIGNATURES (role @ ''Signature'') key"
  using assms unfolding record_signer_def
  by (auto simp: bind_eq_Ret dest!: trust_key_Ret dest: require_signature_Ret)

lemma record_signers_Ret:
  assumes "record_signers U dmn A e c rt tt rec i obs u = Ret w"
  shows "record_signed U dmn A e c rec rt tt i"
proof -
  from assms obtain p t k kp kt kc where keys: "map_of e ''platformSignerKeyId'' = Some p"
      "map_of e ''tenantSignerKeyId'' = Some t" "map_of c ''signerKeyId'' = Some k" "distinct [kp, kt, kc]"
    and s: "record_signer U dmn rec i obs u (''platform'', rt, ''PLATFORM_RELEASE'', PNone, PNone, p) = Ret kp"
      "record_signer U dmn rec i obs u
         (''tenant'', tt, ''TENANT_LIVE_EXECUTION'', expected_tenant A, expected_environment A, t) = Ret kt"
      "record_signer U dmn rec i obs u
         (''capacity'', tt, ''CAPACITY_OPERATOR'', expected_tenant A, expected_environment A, k) = Ret kc"
    unfolding record_signers_def by (auto simp: bind_eq_Ret field_eq_Ret)
  show ?thesis unfolding record_signed_def
    using keys record_signer_Ret(1,4) [OF s(1)] record_signer_Ret(1,4) [OF s(2)] record_signer_Ret(1,4) [OF s(3)]
    by auto
qed

text \<open>The record's own window: within both authorities, around the instant, at most a week long.\<close>

definition fresh_record :: "items \<Rightarrow> datetime \<Rightarrow> bool" where
  "fresh_record rec instant =
     (case (time_of rec ''observedAt'', time_of rec ''validUntil'') of
        (Ret observed, Ret until) \<Rightarrow>
          utc_us observed \<le> utc_us instant \<and> utc_us instant < utc_us until \<and> utc_us until - utc_us observed \<le> WEEK_US
      | _ \<Rightarrow> False)"

lemma record_window_Ret:
  assumes "record_window e c rec i = Ret (obs, u)"
  shows "fresh_record rec i"
  using assms unfolding record_window_def fresh_record_def time_of_def
  by (auto simp: bind_eq_Ret requires_eq_Ret and_also_True time_le_True time_less_True time_minus_Ret field_eq_Ret
      dest!: linux_time_time)

definition verification_established :: "ucd \<Rightarrow> evidence_input \<Rightarrow> items \<Rightarrow> bool" where
  "verification_established U A r \<longleftrightarrow>
     (\<exists>rec instant e c release_trust tenant_trust domain nonce.
        require_canonical_document U (ev_record A) = Ret (PDict rec) \<and> evidence_honest rec \<and>
        expected_nonce A = PStr nonce \<and> nonce \<notin> set (replayed_nonces A) \<and>
        map_of e ''nonce'' = Some (PStr nonce) \<and> linux_time (ev_now A) = Ret instant \<and>
        fresh_record rec instant \<and> nested_windows c e instant \<and>
        record_signed U domain A e c rec release_trust tenant_trust instant \<and>
        domain = (if is_v2_record (PDict rec) then DOMAIN_V2 else DOMAIN) \<and>
        map_of r ''evidenceDigest'' = Some (PStr (byte_digest (ev_record A))) \<and>
        map_of r ''evidenceClass'' = Some (PStr ''UNIT_VERIFICATION_ONLY'') \<and>
        map_of r ''nativeAcceptance'' = Some (PBool False))"

lemma record_steps_Ret:
  assumes "record_steps U dmn A rec i e c rt tt dis = Ret r"
  shows "fresh_record rec i" "record_signed U dmn A e c rec rt tt i"
    "map_of r ''evidenceDigest'' = Some (PStr (byte_digest (ev_record A)))"
    "map_of r ''evidenceClass'' = Some (PStr ''UNIT_VERIFICATION_ONLY'')"
    "map_of r ''nativeAcceptance'' = Some (PBool False)" "expected_subject A e = Ret ()"
proof -
  from assms obtain plan obs u cases where "record_window e c rec i = Ret (obs, u)"
    "record_signers U dmn A e c rt tt rec i obs u = Ret ()" "verification_result A plan cases = Ret r"
    and sub: "expected_subject A e = Ret ()"
    unfolding record_steps_def by (auto simp: bind_eq_Ret)
  then show "fresh_record rec i" "record_signed U dmn A e c rec rt tt i"
    "map_of r ''evidenceDigest'' = Some (PStr (byte_digest (ev_record A)))"
    "map_of r ''evidenceClass'' = Some (PStr ''UNIT_VERIFICATION_ONLY'')"
    "map_of r ''nativeAcceptance'' = Some (PBool False)"
    by (auto simp: verification_result_def bind_eq_Ret dest: record_window_Ret record_signers_Ret)
  show "expected_subject A e = Ret ()" by (fact sub)
qed

lemma nonce_unused_Ret:
  assumes "nonce_unused A = Ret i" "expected_subject A e = Ret u"
  obtains nonce where "expected_nonce A = PStr nonce" "nonce \<notin> set (replayed_nonces A)"
    "map_of e ''nonce'' = Some (PStr nonce)" "linux_time (ev_now A) = Ret i"
  using assms
  by (auto simp: nonce_unused_def expected_subject_def bind_eq_Ret require_id_eq_Ret requires_eq_Ret and_also_True
      field_is_eq_Ret)

lemma verify_record_Ret:
  assumes "verify_record U A doc = Ret r" "require_canonical_document U (ev_record A) = Ret doc" "\<not> is_v2_record doc"
  shows "verification_established U A r"
proof -
  from assms obtain rec i e c rt tt where rec: "validate_linux_evidence U doc = Ret rec" and i: "nonce_unused A = Ret i"
    and auth: "verify_linux_authority U (ev_envelope A) (ev_capacity A) (ev_release_trust A) (ev_tenant_trust A) i
      = Ret (e, c, rt, tt)"
    and steps: "record_steps U DOMAIN A rec i e c rt tt None = Ret r"
    unfolding verify_record_def by (auto simp: bind_eq_Ret split: prod.splits)
  have "doc = PDict rec" "evidence_honest rec"
    using rec by (auto simp: validate_linux_evidence_def outcome_simps evidence_body_def intro: evidence_body_honest [of U doc])
  moreover have "nested_windows c e i" using auth by (auto elim!: authority_Ret dest: validate_capacity_Ret(5))
  moreover note record_steps_Ret [OF steps]
  ultimately show ?thesis
    using assms(2,3) nonce_unused_Ret [OF i record_steps_Ret(6) [OF steps]]
    unfolding verification_established_def by (metis (no_types, lifting))
qed

lemma validate_v2_honest:
  assumes "validate_linux_evidence_v2 U doc = Ret rec"
  shows "doc = PDict rec" "evidence_honest rec"
proof -
  let ?legacy = "dict_set (dict_without [''signers''] rec) ''schemaVersion'' (PStr SCHEMA)"
  from assms obtain d where "doc = PDict rec" and d: "evidence_body U (PDict ?legacy) = Ret d"
    unfolding validate_linux_evidence_v2_def by (auto simp: bind_eq_Ret obj_eq_Ret validate_linux_evidence_def outcome_simps)
  then show "doc = PDict rec" by simp
  have "d = ?legacy" using d by (auto simp: evidence_body_def bind_eq_Ret obj_eq_Ret)
  then show "evidence_honest rec"
    using evidence_body_honest [OF d] by (simp add: evidence_honest_def restrict_map_def)
qed

lemma verify_record_v2_Ret:
  assumes "verify_record_v2 U A doc = Ret r" "require_canonical_document U (ev_record A) = Ret doc" "is_v2_record doc"
  shows "verification_established U A r"
proof -
  from assms obtain rec i e c rt tt dis where rec: "validate_linux_evidence_v2 U doc = Ret rec" and i: "nonce_unused A = Ret i"
    and auth: "verify_linux_authority_v2 U (ev_envelope A) (ev_capacity A) (ev_release_trust A) (ev_tenant_trust A) i
      = Ret (e, c, rt, tt, dis)"
    and steps: "record_steps U DOMAIN_V2 A rec i e c rt tt (Some dis) = Ret r"
    unfolding verify_record_v2_def by (auto simp: bind_eq_Ret split: prod.splits)
  have "nested_windows c e i" using auth by (auto elim!: authority_v2_Ret dest: validate_capacity_v2_Ret(2))
  moreover note record_steps_Ret [OF steps] validate_v2_honest [OF rec]
  ultimately show ?thesis
    using assms(2,3) nonce_unused_Ret [OF i record_steps_Ret(6) [OF steps]]
    unfolding verification_established_def by (metis (no_types, lifting))
qed

section \<open>Properties\<close>


end
