(* ===== verification/Session.thy ===== *)
theory Session
  imports LinuxVerify Transitions
begin

text \<open>
  \<open>src/src/harness_conformance/live_session.py\<close>: bounded canonical data documents, the binding of a
  live session, the session record with its states and window, proposed transitions, probe requests and
  receipts.  Nothing here grants execution: every result is data.
\<close>

section \<open>Constants\<close>

definition SESSION_SCHEMA :: string where
  "SESSION_SCHEMA = ''harness.planeon.ai/live-backend-session/v1alpha1''"

definition MAX_SESSION_BYTES :: nat where
  "MAX_SESSION_BYTES = 16384"

definition MAX_RESPONSE_BYTES :: nat where
  "MAX_RESPONSE_BYTES = 4194304"

definition SESSION_DEPTH :: nat where
  "SESSION_DEPTH = 8"

definition ID_FIELDS :: "string list" where
  "ID_FIELDS = [''nonce'', ''tenantId'', ''environmentId'', ''endpointId'', ''namespace'']"

definition DIGEST_FIELDS :: "string list" where
  "DIGEST_FIELDS = [''packetDigest'', ''commandSetDigest'', ''releaseDigest'', ''capacityDigest'']"

definition BINDING_FIELDS :: "string list" where
  "BINDING_FIELDS = ID_FIELDS @ DIGEST_FIELDS @ [''notBefore'', ''notAfter'']"

definition SESSION_FIELDS :: "string list" where
  "SESSION_FIELDS = [''schemaVersion''] @ ID_FIELDS @ DIGEST_FIELDS @ [''issuedAt'', ''expiresAt'', ''state'']"

definition STATES :: "string list" where
  "STATES =
     [''UNAVAILABLE'', ''VALIDATED_DATA'', ''RESERVED'', ''RUNNING'', ''COMPLETED'', ''FAILED'', ''CANCELLED'',
      ''EXPIRED'']"

definition SESSION_TRANSITIONS :: "(string \<times> string) list" where
  "SESSION_TRANSITIONS =
     [(''VALIDATED_DATA'', ''RESERVED''),
      (''RESERVED'', ''RUNNING''), (''RESERVED'', ''FAILED''), (''RESERVED'', ''CANCELLED''), (''RESERVED'', ''EXPIRED''),
      (''RUNNING'', ''COMPLETED''), (''RUNNING'', ''FAILED''), (''RUNNING'', ''CANCELLED''), (''RUNNING'', ''EXPIRED'')]"

definition REQUEST_FIELDS :: "string list" where
  "REQUEST_FIELDS =
     [''schemaVersion'', ''operation'', ''endpointId'', ''namespace'', ''method'', ''path'', ''runNonce'',
      ''architecture'', ''probeDigest'', ''commandDigest'']"

definition RECEIPT_FIELDS :: "string list" where
  "RECEIPT_FIELDS =
     [''caseId'', ''status'', ''observedAt'', ''runNonce'', ''probeDigest'', ''commandDigest'', ''outputDigest'',
      ''output'']"

section \<open>Bounded documents\<close>

text \<open>\<open>_bounded\<close>: what is left of the budget after every node has been charged a lower bound of its
  encoded size.\<close>

definition collection_charge :: "bool \<Rightarrow> nat \<Rightarrow> int" where
  "collection_charge is_dictionary n = 2 + int (n - 1) + (if is_dictionary then int n else 0)"

definition bounded_text :: "nat \<Rightarrow> nat \<Rightarrow> int \<Rightarrow> string \<Rightarrow> int outcome" where
  "bounded_text maximum depth remaining s =
     bind (require (depth \<le> SESSION_DEPTH) ''SESSION_DEPTH_EXCEEDED'') (\<lambda>_.
     bind (require (py_len s \<le> maximum) ''SESSION_SIZE_EXCEEDED'') (\<lambda>_.
     bind (require (0 \<le> remaining - (int (py_len s) + 2)) ''SESSION_SIZE_EXCEEDED'') (\<lambda>_.
       Ret (remaining - (int (py_len s) + 2)))))"

fun bounded :: "nat \<Rightarrow> nat \<Rightarrow> int \<Rightarrow> pyval \<Rightarrow> int outcome" where
  "bounded maximum depth remaining (PStr s) = bounded_text maximum depth remaining s"
| "bounded maximum depth remaining (PDict kvs) =
     bind (require (depth \<le> SESSION_DEPTH) ''SESSION_DEPTH_EXCEEDED'') (\<lambda>_.
     bind (require (length kvs \<le> 4096) ''SESSION_COLLECTION_EXCEEDED'') (\<lambda>_.
     bind (require (0 \<le> remaining - collection_charge True (length kvs)) ''SESSION_SIZE_EXCEEDED'') (\<lambda>_.
       fold_out (\<lambda>r (k, v).
         bind (bounded_text maximum (depth + 1) r k) (\<lambda>r'. bounded maximum (depth + 1) r' v))
         (remaining - collection_charge True (length kvs)) kvs)))"
| "bounded maximum depth remaining (PList xs) =
     bind (require (depth \<le> SESSION_DEPTH) ''SESSION_DEPTH_EXCEEDED'') (\<lambda>_.
     bind (require (length xs \<le> 4096) ''SESSION_COLLECTION_EXCEEDED'') (\<lambda>_.
     bind (require (0 \<le> remaining - collection_charge False (length xs)) ''SESSION_SIZE_EXCEEDED'') (\<lambda>_.
       fold_out (\<lambda>r v. bounded maximum (depth + 1) r v) (remaining - collection_charge False (length xs)) xs)))"
| "bounded maximum depth remaining (PBytes b) =
     bind (require (depth \<le> SESSION_DEPTH) ''SESSION_DEPTH_EXCEEDED'') (\<lambda>_. refuse ''SESSION_TYPE_INVALID'')"
| "bounded maximum depth remaining v =
     bind (require (depth \<le> SESSION_DEPTH) ''SESSION_DEPTH_EXCEEDED'') (\<lambda>_.
     bind (require (case v of PInt i \<Rightarrow> - (2 ^ 53 - 1) \<le> i \<and> i \<le> 2 ^ 53 - 1 | _ \<Rightarrow> True) ''SESSION_TYPE_INVALID'') (\<lambda>_.
     bind (require (0 \<le> remaining - 1) ''SESSION_SIZE_EXCEEDED'') (\<lambda>_. Ret (remaining - 1))))"

definition document_malformed :: "exn \<Rightarrow> bool" where
  "document_malformed e \<longleftrightarrow> is_value_error e \<or> e = TypeError \<or> e = OverflowError"

definition data_document :: "ucd \<Rightarrow> pyval \<Rightarrow> nat \<Rightarrow> items outcome" where
  "data_document U v maximum =
     bind (require (maximum \<in> {MAX_SESSION_BYTES, MAX_RESPONSE_BYTES}) ''SESSION_SIZE_LIMIT_INVALID'') (\<lambda>_.
     catching document_malformed ''SESSION_DATA_MALFORMED''
       (bind (case v of
                PBytes raw \<Rightarrow> bind (require (length raw \<le> maximum) ''SESSION_SIZE_EXCEEDED'') (\<lambda>_.
                  require_canonical_document U raw)
              | _ \<Rightarrow> Ret v) (\<lambda>doc.
        bind (bounded maximum 0 (int maximum) doc) (\<lambda>_.
        bind (require (is_dict doc) ''SESSION_TYPE_INVALID'') (\<lambda>_.
        bind (canonical_bytes U doc) (\<lambda>encoded.
        bind (require (length encoded \<le> maximum) ''SESSION_SIZE_EXCEEDED'') (\<lambda>_.
        bind (require_canonical_document U encoded) (\<lambda>d. case d of PDict kvs \<Rightarrow> Ret kvs | _ \<Rightarrow> Raise TypeError))))))))"

section \<open>Bindings and sessions\<close>

definition validate_binding :: "ucd \<Rightarrow> pyval \<Rightarrow> items outcome" where
  "validate_binding U v =
     bind (data_document U v MAX_SESSION_BYTES) (\<lambda>b.
     bind (closed b BINDING_FIELDS []) (\<lambda>_.
     bind (for_each (\<lambda>name. bind (bind (field b name) require_id) (\<lambda>_. Ret ())) ID_FIELDS) (\<lambda>_.
     bind (for_each (\<lambda>name. bind (bind (field b name) require_digest) (\<lambda>_. Ret ())) DIGEST_FIELDS) (\<lambda>_.
     bind (requires (bind (bind (field b ''notBefore'') linux_time) (\<lambda>s.
             bind (bind (field b ''notAfter'') linux_time) (\<lambda>t. time_less s t))) ''SESSION_WINDOW_INVALID'') (\<lambda>_.
       Ret b)))))"

definition session_of :: "ucd \<Rightarrow> pyval \<Rightarrow> pyval \<Rightarrow> items outcome" where
  "session_of U v expected_binding =
     bind (data_document U v MAX_SESSION_BYTES) (\<lambda>s.
     bind (closed s SESSION_FIELDS []) (\<lambda>_.
     bind (requires (field_is s ''schemaVersion'' (PStr SESSION_SCHEMA)) ''SESSION_SCHEMA_INVALID'') (\<lambda>_.
     bind (requires (field_in s ''state'' STATES) ''SESSION_STATE_INVALID'') (\<lambda>_.
     bind (validate_binding U expected_binding) (\<lambda>b.
     bind (for_each (\<lambda>name. requires
             (and_also (bind (field s name) (\<lambda>x. Ret (is_str x))) (same_field s name b name)) ''SESSION_BINDING_MISMATCH'')
             (ID_FIELDS @ DIGEST_FIELDS)) (\<lambda>_.
     bind (bind (field s ''issuedAt'') linux_time) (\<lambda>issued.
     bind (bind (field s ''expiresAt'') linux_time) (\<lambda>expires.
     bind (requires
       (and_also (bind (bind (field b ''notBefore'') linux_time) (\<lambda>x. time_le x issued))
       (and_also (time_less issued expires)
         (bind (bind (field b ''notAfter'') linux_time) (\<lambda>y. time_le expires y)))) ''SESSION_WINDOW_INVALID'') (\<lambda>_.
       Ret s)))))))))"

definition validate_session :: "ucd \<Rightarrow> pyval \<Rightarrow> pyval \<Rightarrow> pyval \<Rightarrow> items outcome" where
  "validate_session U v expected_binding now =
     bind (session_of U v expected_binding) (\<lambda>s.
     bind (linux_time now) (\<lambda>instant.
     bind (requires (and_also
             (bind (bind (field s ''issuedAt'') linux_time) (\<lambda>x. time_le x instant))
             (bind (bind (field s ''expiresAt'') linux_time) (\<lambda>y. time_less instant y))) ''SESSION_NOT_CURRENT'') (\<lambda>_.
     bind (requires (py_not (field_is s ''state'' (PStr ''EXPIRED''))) ''SESSION_NOT_CURRENT'') (\<lambda>_. Ret s))))"

definition transition_candidate :: "ucd \<Rightarrow> pyval \<Rightarrow> pyval \<Rightarrow> pyval \<Rightarrow> pyval \<Rightarrow> items outcome" where
  "transition_candidate U v next_state expected_binding now =
     bind (session_of U v expected_binding) (\<lambda>s.
     bind (field s ''state'') (\<lambda>state.
     bind (require (case (state, next_state) of
               (PStr a, PStr b) \<Rightarrow> (a, b) \<in> set SESSION_TRANSITIONS | _ \<Rightarrow> False) ''SESSION_TRANSITION_INVALID'') (\<lambda>_.
     bind (linux_time now) (\<lambda>instant.
     bind (requires (bind (bind (field s ''issuedAt'') linux_time) (\<lambda>x. time_le x instant)) ''SESSION_NOT_CURRENT'') (\<lambda>_.
     bind (bind (bind (field s ''expiresAt'') linux_time) (\<lambda>y. time_le y instant)) (\<lambda>expired.
     bind (require ((next_state = PStr ''EXPIRED'') = expired) ''SESSION_TRANSITION_TIME_INVALID'') (\<lambda>_.
     bind (canonical_digest U (PDict s) None) (\<lambda>digest.
     bind (field s ''nonce'') (\<lambda>nonce.
       Ret [(''fromState'', state), (''toState'', next_state), (''sessionDigest'', PStr digest), (''nonce'', nonce),
            (''requiresProtectedSupervisor'', PBool True), (''evidenceClass'', PStr ''UNIT_VERIFICATION_ONLY''),
            (''nativeAcceptance'', PBool False)])))))))))"

section \<open>Requests and receipts\<close>

definition request_of :: "ucd \<Rightarrow> pyval \<Rightarrow> items outcome" where
  "request_of U v =
     bind (data_document U v MAX_SESSION_BYTES) (\<lambda>r.
     bind (closed r REQUEST_FIELDS []) (\<lambda>_.
     bind (field r ''operation'') (\<lambda>operation.
     bind (require (str_in operation CASES) ''SESSION_OPERATION_INVALID'') (\<lambda>_.
     bind (requires
       (and_also (field_is r ''schemaVersion'' (PStr ''harness.planeon.ai/linux-probe-request/v1alpha1''))
       (and_also (field_is r ''method'' (PStr ''POST''))
       (and_also (field_is r ''path'' (PStr (case operation of PStr cas \<Rightarrow> probe_path cas | _ \<Rightarrow> [])))
         (field_in r ''architecture'' ARCHITECTURES)))) ''SESSION_REQUEST_INVALID'') (\<lambda>_.
     bind (for_each (\<lambda>name. bind (bind (field r name) require_id) (\<lambda>_. Ret ()))
             [''endpointId'', ''namespace'', ''runNonce'']) (\<lambda>_.
     bind (for_each (\<lambda>name. bind (bind (field r name) require_digest) (\<lambda>_. Ret ()))
             [''probeDigest'', ''commandDigest'']) (\<lambda>_. Ret r)))))))"

definition validate_request :: "ucd \<Rightarrow> pyval \<Rightarrow> pyval \<Rightarrow> pyval \<Rightarrow> pyval \<Rightarrow> pyval \<Rightarrow> items outcome" where
  "validate_request U v session expected_binding expected_request now =
     bind (validate_session U session expected_binding now) (\<lambda>current.
     bind (requires (field_is current ''state'' (PStr ''RUNNING'')) ''SESSION_NOT_RUNNING'') (\<lambda>_.
     bind (request_of U v) (\<lambda>request.
     bind (request_of U expected_request) (\<lambda>expected.
     bind (require (py_eq (PDict request) (PDict expected)) ''SESSION_REQUEST_MISMATCH'') (\<lambda>_.
     bind (for_each (\<lambda>(name, f). requires (same_field request name current f) ''SESSION_REQUEST_SCOPE_MISMATCH'')
             [(''runNonce'', ''nonce''), (''endpointId'', ''endpointId''), (''namespace'', ''namespace'')]) (\<lambda>_.
       Ret request))))))"

definition count_of :: "items \<Rightarrow> string \<Rightarrow> int outcome" where
  "count_of d k = bind (field d k) (\<lambda>x. case x of PInt i \<Rightarrow> Ret i | _ \<Rightarrow> Raise TypeError)"

definition receipt_regression :: "items \<Rightarrow> items \<Rightarrow> bool \<Rightarrow> string \<Rightarrow> bool outcome" where
  "receipt_regression results expected failed name =
     bind (field results name) (\<lambda>x. bind (field expected name) (\<lambda>y.
       case (x, y) of
         (PDict result, PDict baseline) \<Rightarrow>
           bind (closed result [''inventoryDigest'', ''collected'', ''executed'', ''skipped'', ''failed''] []) (\<lambda>_.
           bind (closed baseline [''inventoryDigest'', ''testCount''] []) (\<lambda>_.
           bind (bind (field baseline ''inventoryDigest'') require_digest) (\<lambda>_.
           bind (bind (field baseline ''testCount'') (\<lambda>n. integer_value n (if name = ''conformance'' then 120 else 1))) (\<lambda>_.
           bind (for_each (\<lambda>k. bind (field result k) (\<lambda>n. integer_value n 0))
                   [''collected'', ''executed'', ''skipped'', ''failed'']) (\<lambda>_.
           bind (count_of result ''failed'') (\<lambda>f. bind (count_of result ''executed'') (\<lambda>e.
           bind (count_of result ''collected'') (\<lambda>c. bind (count_of result ''skipped'') (\<lambda>s.
           bind (require (f \<le> e \<and> e \<le> c \<and> s \<le> c) ''SESSION_REGRESSION_COUNTS_INVALID'') (\<lambda>_.
           bind (requires (and_also (same_field result ''inventoryDigest'' baseline ''inventoryDigest'')
                   (same_field result ''collected'' baseline ''testCount'')) ''SESSION_REGRESSION_MISMATCH'') (\<lambda>_.
             Ret (failed \<or> s \<noteq> 0 \<or> f \<noteq> 0 \<or> c \<noteq> e))))))))))))
       | _ \<Rightarrow> refuse ''SESSION_TYPE_INVALID''))"

definition receipt_output :: "ucd \<Rightarrow> string \<Rightarrow> pyval \<Rightarrow> pyval \<Rightarrow> (items \<times> string) outcome" where
  "receipt_output U cas out expected_regressions =
     (case out of
        PDict ot \<Rightarrow>
          bind (closed ot [''checks'', ''regressions''] []) (\<lambda>_.
          bind (field ot ''checks'') (\<lambda>ch. bind (field ot ''regressions'') (\<lambda>rg.
            case (ch, rg) of
              (PDict checks, PDict results) \<Rightarrow>
                bind (case_checks cas) (\<lambda>names.
                bind (closed checks names []) (\<lambda>_.
                bind (require (list_all (\<lambda>(_, s). str_in s STATUSES) checks) ''SESSION_RECEIPT_STATUS_INVALID'') (\<lambda>_.
                bind (data_document U expected_regressions MAX_SESSION_BYTES) (\<lambda>expected.
                  (let repositories = (if cas = ''FULL_PREDECESSOR_REGRESSION'' then REPOSITORIES else []) in
                   bind (closed results repositories []) (\<lambda>_.
                   bind (closed expected repositories []) (\<lambda>_.
                   bind (fold_out (receipt_regression results expected) False repositories) (\<lambda>failed.
                     Ret (ot, if failed \<or> PStr ''FAIL'' \<in> set (map snd checks) then ''FAIL''
                              else if PStr ''NOT_RUN_ENV_UNAVAILABLE'' \<in> set (map snd checks)
                              then ''NOT_RUN_ENV_UNAVAILABLE'' else ''PASS'')))))))))
            | _ \<Rightarrow> refuse ''SESSION_TYPE_INVALID'')))
      | _ \<Rightarrow> refuse ''SESSION_TYPE_INVALID'')"

definition validate_receipt ::
  "ucd \<Rightarrow> pyval \<Rightarrow> pyval \<Rightarrow> pyval \<Rightarrow> pyval \<Rightarrow> pyval \<Rightarrow> pyval \<Rightarrow> items outcome" where
  "validate_receipt U v session expected_binding expected_request expected_regressions now =
     bind (validate_session U session expected_binding now) (\<lambda>current.
     bind (validate_request U expected_request (PDict current) expected_binding expected_request now) (\<lambda>request.
     bind (data_document U v MAX_RESPONSE_BYTES) (\<lambda>receipt.
     bind (closed receipt RECEIPT_FIELDS []) (\<lambda>_.
     bind (for_each (\<lambda>(name, f). requires (same_field receipt name request f) ''SESSION_RECEIPT_MISMATCH'')
             [(''caseId'', ''operation''), (''runNonce'', ''runNonce''), (''probeDigest'', ''probeDigest''),
              (''commandDigest'', ''commandDigest'')]) (\<lambda>_.
     bind (requires
       (bind (bind (field current ''issuedAt'') linux_time) (\<lambda>issued.
        bind (bind (field receipt ''observedAt'') linux_time) (\<lambda>observed.
        and_also (time_le issued observed) (bind (linux_time now) (\<lambda>instant. time_le observed instant)))))
       ''SESSION_RECEIPT_TIME_INVALID'') (\<lambda>_.
     bind (field receipt ''output'') (\<lambda>out.
     bind (bind (field request ''operation'') (\<lambda>x. case x of PStr cas \<Rightarrow> Ret cas | _ \<Rightarrow> Raise TypeError)) (\<lambda>cas.
     bind (receipt_output U cas out expected_regressions) (\<lambda>(ot, overall).
     bind (requires (field_is receipt ''status'' (PStr overall)) ''SESSION_FALSE_RECEIPT_STATUS'') (\<lambda>_.
     bind (requires (bind (field receipt ''outputDigest'') (\<lambda>x.
             bind (canonical_digest U (PDict ot) (Some ''planeon.linux-probe-output/v1alpha1'')) (\<lambda>digest.
               Ret (py_eq x (PStr digest))))) ''SESSION_OUTPUT_DIGEST_MISMATCH'') (\<lambda>_.
       Ret receipt)))))))))))"

end
