(* ===== verification/SessionLaws.thy ===== *)
theory SessionLaws
  imports Session LinuxVerifyLaws
begin

text \<open>
  Laws of \<open>live_session.py\<close>: the exact set of accepted data documents, the session states as a
  ranked transition system that is never stuck before its end, and honest receipts.
\<close>

section \<open>The budget of a bounded document\<close>

fun charge :: "pyval \<Rightarrow> int" where
  "charge (PStr s) = int (py_len s) + 2"
| "charge (PDict kvs) =
     collection_charge True (length kvs) + (\<Sum>(k, v) \<leftarrow> kvs. int (py_len k) + 2 + charge v)"
| "charge (PList xs) = collection_charge False (length xs) + (\<Sum>v \<leftarrow> xs. charge v)"
| "charge _ = 1"

fun within :: "nat \<Rightarrow> nat \<Rightarrow> pyval \<Rightarrow> bool" where
  "within maximum depth (PStr s) \<longleftrightarrow> depth \<le> SESSION_DEPTH \<and> py_len s \<le> maximum"
| "within maximum depth (PDict kvs) \<longleftrightarrow>
     depth \<le> SESSION_DEPTH \<and> length kvs \<le> 4096 \<and>
     list_all (\<lambda>(k, v). depth + 1 \<le> SESSION_DEPTH \<and> py_len k \<le> maximum \<and> within maximum (depth + 1) v) kvs"
| "within maximum depth (PList xs) \<longleftrightarrow>
     depth \<le> SESSION_DEPTH \<and> length xs \<le> 4096 \<and> list_all (within maximum (depth + 1)) xs"
| "within maximum depth (PInt i) \<longleftrightarrow> depth \<le> SESSION_DEPTH \<and> \<bar>i\<bar> \<le> 2 ^ 53 - 1"
| "within maximum depth (PBytes _) \<longleftrightarrow> False"
| "within maximum depth _ \<longleftrightarrow> depth \<le> SESSION_DEPTH"

lemma charge_nonneg: "0 \<le> charge v"
proof (induction v)
  case (PDict kvs)
  have "0 \<le> (\<Sum>(k, v) \<leftarrow> kvs. int (py_len k) + 2 + charge v)"
    by (rule sum_list_nonneg) (use PDict in fastforce)
  then show ?case by (simp add: collection_charge_def)
next
  case (PList xs)
  then have "0 \<le> (\<Sum>v \<leftarrow> xs. charge v)" by (intro sum_list_nonneg) auto
  then show ?case by (simp add: collection_charge_def)
qed auto

lemma fold_budget:
  assumes "\<And>x r r'. x \<in> set xs \<Longrightarrow> 0 \<le> r \<Longrightarrow> f r x = Ret r' \<longleftrightarrow> P x \<and> c x \<le> r \<and> r' = r - c x"
    and "\<And>x. x \<in> set xs \<Longrightarrow> 0 \<le> c x" and "0 \<le> (r :: int)"
  shows "fold_out f r xs = Ret r' \<longleftrightarrow> list_all P xs \<and> sum_list (map c xs) \<le> r \<and> r' = r - sum_list (map c xs)"
  using assms
proof (induction xs arbitrary: r)
  case (Cons x xs)
  have rest: "0 \<le> sum_list (map c xs)" by (rule sum_list_nonneg) (use Cons.prems(2) in auto)
  have IH: "fold_out f s xs = Ret r' \<longleftrightarrow> list_all P xs \<and> sum_list (map c xs) \<le> s \<and> r' = s - sum_list (map c xs)"
    if "0 \<le> s" for s
    using Cons.prems by (intro Cons.IH that) auto
  show ?case using Cons.prems(1) [of x r] Cons.prems(3) IH rest by (auto simp: bind_eq_Ret)
qed auto

lemma bounded_text_Ret:
  "0 \<le> r \<Longrightarrow> bounded_text m d r s = Ret r' \<longleftrightarrow>
     d \<le> SESSION_DEPTH \<and> py_len s \<le> m \<and> int (py_len s) + 2 \<le> r \<and> r' = r - (int (py_len s) + 2)"
  by (auto simp: bounded_text_def bind_eq_Ret)

lemma bounded_Ret:
  "0 \<le> r \<Longrightarrow> bounded m d r v = Ret r' \<longleftrightarrow> within m d v \<and> charge v \<le> r \<and> r' = r - charge v"
proof (induction v arbitrary: d r r')
  case (PDict kvs)
  define c where "c = (\<lambda>(k, v). int (py_len k) + 2 + charge v)"
  define P where "P = (\<lambda>(k, v). d + 1 \<le> SESSION_DEPTH \<and> py_len k \<le> m \<and> within m (d + 1) v)"
  let ?f = "\<lambda>r (k, v). bind (bounded_text m (d + 1) r k) (\<lambda>r'. bounded m (d + 1) r' v)"
  have fold: "fold_out ?f s kvs = Ret r' \<longleftrightarrow> list_all P kvs \<and> sum_list (map c kvs) \<le> s \<and> r' = s - sum_list (map c kvs)"
    if "0 \<le> s" for s
  proof (rule fold_budget [OF _ _ that])
    fix x assume x: "x \<in> set kvs"
    obtain k v where kv: "x = (k, v)" by (cases x)
    show "0 \<le> c x" using charge_nonneg [of v] by (simp add: c_def kv)
    fix r r' :: int assume "0 \<le> r"
    then show "?f r x = Ret r' \<longleftrightarrow> P x \<and> c x \<le> r \<and> r' = r - c x"
      using PDict.IH [of x v "r - (int (py_len k) + 2)" "d + 1" r'] x charge_nonneg [of v]
      by (auto simp: kv c_def P_def bind_eq_Ret bounded_text_Ret)
  qed
  have "0 \<le> sum_list (map c kvs)"
    by (rule sum_list_nonneg) (auto simp: c_def charge_nonneg add_nonneg_nonneg)
  then show ?case
    using fold [of "r - collection_charge True (length kvs)"]
    by (auto simp: bind_eq_Ret c_def P_def)
next
  case (PList xs)
  have fold: "fold_out (bounded m (d + 1)) s xs = Ret r' \<longleftrightarrow>
      list_all (within m (d + 1)) xs \<and> sum_list (map charge xs) \<le> s \<and> r' = s - sum_list (map charge xs)"
    if "0 \<le> s" for s
    by (rule fold_budget [OF _ _ that]) (use PList.IH charge_nonneg in auto)
  have "0 \<le> sum_list (map charge xs)" by (rule sum_list_nonneg) (auto simp: charge_nonneg)
  then show ?case
    using fold [of "r - collection_charge False (length xs)"] by (auto simp: bind_eq_Ret)
qed (auto simp: bind_eq_Ret bounded_text_Ret abs_le_iff)

text \<open>The charge never exceeds the encoded size, so the budget refuses nothing that fits.\<close>

lemma py_len_le: "py_len s \<le> length s"
  by (simp add: py_len_def)

lemma length_escape: "1 \<le> length (escape c)"
  by simp

lemma int_sum_list: "int (sum_list (map f xs)) = (\<Sum>x \<leftarrow> xs. int (f x))"
  by (induction xs) auto

lemma length_dump_string: "py_len s + 2 \<le> length (dump_string s)"
proof -
  have "length s \<le> length (concat (map escape s))"
    using length_escape by (induction s) (auto simp: Suc_le_eq add_mono)
  then show ?thesis using py_len_le [of s] by (simp add: dump_string_def)
qed

lemma length_intercalate: "length (intercalate sep xs) = sum_list (map length xs) + length sep * (length xs - 1)"
  by (induction sep xs rule: intercalate.induct) auto

lemma sum_list_sort_key: "sum_list (map f (sort_key g xs)) = (sum_list (map f xs) :: nat)"
  by (metis mset_map mset_sort sum_mset_sum_list)

lemma charge_le_dumps: "json_val v \<Longrightarrow> charge v \<le> int (length (dumps v))"
proof (induction v)
  case (PInt i)
  have "dumps (PInt i) \<noteq> []" using hd_dumps [OF PInt] by blast
  then show ?case by (simp add: Suc_le_eq)
next
  case (PStr s)
  then show ?case using length_dump_string [of s] by simp
next
  case (PList xs)
  have "(\<Sum>v \<leftarrow> xs. charge v) \<le> (\<Sum>v \<leftarrow> xs. int (length (dumps v)))"
    using PList by (intro sum_list_mono) (auto simp: list_all_iff)
  then show ?case by (simp add: collection_charge_def length_intercalate comp_def int_sum_list)
next
  case (PDict kvs)
  have "(\<Sum>(k, v) \<leftarrow> kvs. int (py_len k) + 2 + charge v + 1) \<le> (\<Sum>kv \<leftarrow> kvs. int (length (dump_member kv)))"
  proof (rule sum_list_mono)
    fix kv assume kv: "kv \<in> set kvs"
    obtain k v where "kv = (k, v)" by (cases kv)
    then show "(case kv of (k, v) \<Rightarrow> int (py_len k) + 2 + charge v + 1) \<le> int (length (dump_member kv))"
      using PDict kv length_dump_string [of k] by (fastforce simp: dump_member_def list_all_iff)
  qed
  moreover have "(\<Sum>(k, v) \<leftarrow> kvs. int (py_len k) + 2 + charge v + 1)
      = (\<Sum>(k, v) \<leftarrow> kvs. int (py_len k) + 2 + charge v) + int (length kvs)"
    by (induction kvs) auto
  moreover have "length (dumps (PDict kvs)) = 2 + sum_list (map (length \<circ> dump_member) kvs) + (length kvs - 1)"
    by (simp add: dumps_PDict length_intercalate sum_list_sort_key del: dumps.simps)
  ultimately show ?case by (simp add: collection_charge_def int_sum_list comp_def del: dumps.simps)
qed auto

lemma data_document_Ret:
  assumes "wf_val (PDict d)" "m \<in> {MAX_SESSION_BYTES, MAX_RESPONSE_BYTES}"
  shows "data_document U (PDict d) m = Ret x \<longleftrightarrow>
     within m 0 (PDict d) \<and> canonical_bytes U (PDict d) = Ret (dumps (PDict d)) \<and>
     length (dumps (PDict d)) \<le> m \<and> PDict x = canon (PDict d)"
proof -
  have m: "m \<le> MAX_FILE_BYTES"
    using assms(2) by (auto simp: MAX_SESSION_BYTES_def MAX_RESPONSE_BYTES_def MAX_FILE_BYTES_def)
  have reread: "require_canonical_document U (dumps (PDict d)) = Ret (canon (PDict d))"
    if "canonical_bytes U (PDict d) = Ret (dumps (PDict d))" "length (dumps (PDict d)) \<le> m"
    using canonical.dec_enc [OF assms(1) that(1)] that(2) m by simp
  have budget: "charge (PDict d) \<le> int m"
    if "canonical_bytes U (PDict d) = Ret (dumps (PDict d))" "length (dumps (PDict d)) \<le> m"
    using charge_le_dumps [OF canonical_json_val [OF that(1) assms(1)]] that(2) by linarith
  have enc: "canonical_bytes U (PDict d) = Ret b \<longleftrightarrow> canonical_bytes U (PDict d) = Ret (dumps (PDict d)) \<and> b = dumps (PDict d)" for b
    by (auto simp: canonical_bytes_Ret)
  have "data_document U (PDict d) m = Ret x \<longleftrightarrow>
      (\<exists>r b v. bounded m 0 (int m) (PDict d) = Ret r \<and> canonical_bytes U (PDict d) = Ret b \<and>
         length b \<le> m \<and> require_canonical_document U b = Ret v \<and> v = PDict x)"
    using assms(2) unfolding data_document_def
    by (auto simp: catching_eq_Ret bind_eq_Ret case_Ret simp del: bounded.simps)
  also have "\<dots> \<longleftrightarrow> within m 0 (PDict d) \<and> canonical_bytes U (PDict d) = Ret (dumps (PDict d)) \<and>
     length (dumps (PDict d)) \<le> m \<and> PDict x = canon (PDict d)"
    using reread budget unfolding bounded_Ret [OF of_nat_0_le_iff]
    by (subst enc) (auto simp del: within.simps charge.simps canon.simps dumps.simps)
  finally show ?thesis .
qed

lemma data_document_canonical:
  assumes "data_document U v m = Ret d"
  shows "canonical_bytes U (PDict d) = Ret (dumps (PDict d))" "canon (PDict d) = PDict d" "wf_val (PDict d)"
    "length (dumps (PDict d)) \<le> m" "m \<in> {MAX_SESSION_BYTES, MAX_RESPONSE_BYTES}"
proof -
  obtain doc b where m: "m \<in> {MAX_SESSION_BYTES, MAX_RESPONSE_BYTES}" and b: "canonical_bytes U doc = Ret b" "length b \<le> m"
    and r: "require_canonical_document U b = Ret (PDict d)"
    using assms unfolding data_document_def
    by (auto simp: catching_eq_Ret bind_eq_Ret case_Ret simp del: bounded.simps)
  from require_canonical_bytes [OF r] show "canonical_bytes U (PDict d) = Ret (dumps (PDict d))"
    "canon (PDict d) = PDict d" "wf_val (PDict d)" by simp_all
  have "length (dumps (PDict d)) \<le> length b" using r by (auto simp: require_canonical_Ret simp del: dumps.simps)
  with b(2) show "length (dumps (PDict d)) \<le> m" by simp
  show "m \<in> {MAX_SESSION_BYTES, MAX_RESPONSE_BYTES}" by (fact m)
qed

section \<open>The session as a state machine\<close>

definition session_moves :: "string \<Rightarrow> string \<Rightarrow> bool" where
  "session_moves s t \<longleftrightarrow> (s, t) \<in> set SESSION_TRANSITIONS"

definition session_rank :: "string \<Rightarrow> nat" where
  "session_rank s =
     (if s = ''VALIDATED_DATA'' then 3 else if s = ''RESERVED'' then 2 else if s = ''RUNNING'' then 1 else 0)"

lemma session_moves_rank: "session_moves s t \<Longrightarrow> session_rank t < session_rank s"
  by (auto simp: session_moves_def SESSION_TRANSITIONS_def session_rank_def)

interpretation session: ranked_system session_moves session_rank
  by unfold_locales (rule session_moves_rank)

lemma session_of_Ret:
  assumes "session_of U v b = Ret s"
  obtains issued expires where "data_document U v MAX_SESSION_BYTES = Ret s" "keys s = set SESSION_FIELDS"
    "bind (field s ''issuedAt'') linux_time = Ret issued" "bind (field s ''expiresAt'') linux_time = Ret expires"
    "is_aware issued = is_aware expires" "utc_us issued < utc_us expires"
  using assms unfolding session_of_def
  by (auto simp: bind_eq_Ret closed_eq_Ret requires_eq_Ret and_also_True time_less_True field_eq_Ret)

lemma session_times:
  assumes "bind (field s a) linux_time = Ret x" "linux_time now = Ret i"
  shows "time_le x i = Ret (utc_us x \<le> utc_us i)" "time_le i x = Ret (utc_us i \<le> utc_us x)"
  using assms by (auto simp: time_le_True bind_eq_Ret dest: linux_time_aware)

definition started :: "items \<Rightarrow> datetime \<Rightarrow> bool" where
  "started s i = (case time_of s ''issuedAt'' of Ret t \<Rightarrow> utc_us t \<le> utc_us i | Raise _ \<Rightarrow> False)"

lemma candidate_exists:
  assumes s: "session_of U v b = Ret s" and i: "linux_time now = Ret i" and start: "started s i"
    and st: "map_of s ''state'' = Some (PStr a)" and tr: "(a, t) \<in> set SESSION_TRANSITIONS"
    and exp: "bind (field s ''expiresAt'') linux_time = Ret x" "(t = ''EXPIRED'') = (utc_us x \<le> utc_us i)"
  shows "\<exists>r. transition_candidate U v (PStr t) b now = Ret r"
proof -
  obtain issued where doc: "data_document U v MAX_SESSION_BYTES = Ret s" "keys s = set SESSION_FIELDS"
    and issued: "bind (field s ''issuedAt'') linux_time = Ret issued"
    using s by (rule session_of_Ret)
  have "time_of s ''issuedAt'' = Ret issued"
    using issued by (auto simp: time_of_def bind_eq_Ret dest: linux_time_time)
  then have "utc_us issued \<le> utc_us i" using start by (simp add: started_def)
  moreover obtain d where "canonical_digest U (PDict s) None = Ret d"
    using data_document_canonical(1) [OF doc(1)]
    by (auto simp: canonical_digest_Ret canonical_bytes_Ret digest_prefix_def)
  moreover obtain n where "map_of s ''nonce'' = Some n"
    using doc(2) keys_map_of [of "''nonce''" s] by (auto simp: SESSION_FIELDS_def ID_FIELDS_def)
  ultimately show ?thesis
    using s i st tr exp issued session_times(1) [OF issued i] session_times(1) [OF exp(1) i]
    by (simp add: transition_candidate_def)
qed

lemma candidate_Ret:
  assumes "transition_candidate U v nxt b now = Ret r"
  obtains s a t i x where "session_of U v b = Ret s" "nxt = PStr t" "map_of s ''state'' = Some (PStr a)" "session_moves a t"
    "linux_time now = Ret i" "bind (field s ''expiresAt'') linux_time = Ret x" "(t = ''EXPIRED'') = (utc_us x \<le> utc_us i)"
    "map_of r ''fromState'' = Some (PStr a)" "map_of r ''toState'' = Some (PStr t)"
    "map_of r ''requiresProtectedSupervisor'' = Some (PBool True)" "map_of r ''nativeAcceptance'' = Some (PBool False)"
proof -
  from assms obtain s st i x where s: "session_of U v b = Ret s" "map_of s ''state'' = Some st"
    and mv: "case (st, nxt) of (PStr a, PStr t) \<Rightarrow> (a, t) \<in> set SESSION_TRANSITIONS | _ \<Rightarrow> False"
    and i: "linux_time now = Ret i" "bind (field s ''expiresAt'') linux_time = Ret x"
      "(nxt = PStr ''EXPIRED'') = (utc_us x \<le> utc_us i)"
    and r: "map_of r ''fromState'' = Some st" "map_of r ''toState'' = Some nxt"
      "map_of r ''requiresProtectedSupervisor'' = Some (PBool True)" "map_of r ''nativeAcceptance'' = Some (PBool False)"
    unfolding transition_candidate_def by (auto simp: bind_eq_Ret field_eq_Ret time_le_True)
  from mv obtain a t where "st = PStr a" "nxt = PStr t" "session_moves a t"
    by (cases st; cases nxt) (auto simp: session_moves_def)
  with that s i r show ?thesis by auto
qed

section \<open>Honest receipts\<close>

lemma receipt_regression_Ret:
  assumes "receipt_regression results expected failed name = Ret g"
  obtains r where "map_of results name = Some (PDict r)" "failed \<Longrightarrow> g"
    "\<not> g \<Longrightarrow> suite_complete (name, PDict r)"
proof -
  from assms obtain x y where xy: "map_of results name = Some x" "map_of expected name = Some y"
    by (auto simp: receipt_regression_def bind_eq_Ret field_eq_Ret)
  obtain r bl where "x = PDict r" "y = PDict bl"
    using assms xy by (auto simp: receipt_regression_def case_Ret)
  with assms xy obtain f e c s where "map_of r ''failed'' = Some (PInt f)" "map_of r ''executed'' = Some (PInt e)"
    "map_of r ''collected'' = Some (PInt c)" "map_of r ''skipped'' = Some (PInt s)"
    and g: "g = (failed \<or> s \<noteq> 0 \<or> f \<noteq> 0 \<or> c \<noteq> e)"
    by (auto simp: receipt_regression_def bind_eq_Ret count_of_def field_eq_Ret case_Ret)
  then have "\<not> g \<Longrightarrow> suite_complete (name, PDict r)" by (simp add: suite_complete_def)
  then show ?thesis using that xy \<open>x = PDict r\<close> g by blast
qed

lemma receipt_fold:
  assumes "fold_out (receipt_regression results expected) failed names = Ret g"
  shows "(failed \<longrightarrow> g) \<and> (\<not> g \<longrightarrow> (\<forall>name \<in> set names. \<exists>r. map_of results name = Some r \<and> suite_complete (name, r)))"
  using assms
proof (induction names arbitrary: failed)
  case (Cons n ns)
  then obtain h where h: "receipt_regression results expected failed n = Ret h"
    and rest: "fold_out (receipt_regression results expected) h ns = Ret g" by (auto simp: bind_eq_Ret)
  have "(failed \<longrightarrow> h) \<and> (\<exists>r. map_of results n = Some r \<and> (\<not> h \<longrightarrow> suite_complete (n, r)))"
    using h by (blast elim: receipt_regression_Ret)
  with Cons.IH [OF rest] show ?case by auto
qed simp

lemma receipt_output_honest:
  assumes "receipt_output U cas out expd = Ret (ot, overall)" and wf: "wf_val out"
    and rec: "map_of r ''caseId'' = Some (PStr cas)" "map_of r ''output'' = Some out" "map_of r ''status'' = Some (PStr overall)"
  shows "case_honest cas (PDict r)"
proof -
  from assms(1) obtain checks results names expected failed where out: "out = PDict ot"
    and ch: "map_of ot ''checks'' = Some (PDict checks)" and rg: "map_of ot ''regressions'' = Some (PDict results)"
    and names: "map_of CASE_CHECKS cas = Some names" "keys checks = set names"
    and sts: "list_all (\<lambda>(_, s). str_in s STATUSES) checks"
    and reps: "keys results = set (if cas = ''FULL_PREDECESSOR_REGRESSION'' then REPOSITORIES else [])"
    and fold: "fold_out (receipt_regression results expected) False
      (if cas = ''FULL_PREDECESSOR_REGRESSION'' then REPOSITORIES else []) = Ret failed"
    and overall: "overall = (if failed \<or> PStr ''FAIL'' \<in> set (map snd checks) then ''FAIL''
       else if PStr ''NOT_RUN_ENV_UNAVAILABLE'' \<in> set (map snd checks) then ''NOT_RUN_ENV_UNAVAILABLE'' else ''PASS'')"
    unfolding receipt_output_def
    by (auto simp: bind_eq_Ret field_eq_Ret closed_eq_Ret case_checks_def Let_def case_Ret split: option.splits)
  have "list_all (\<lambda>(_, x). x = PStr ''PASS'') checks \<and> list_all suite_complete results" if pass: "overall = ''PASS''"
  proof
    from pass overall have ok: "\<not> failed" "PStr ''FAIL'' \<notin> snd ` set checks"
      "PStr ''NOT_RUN_ENV_UNAVAILABLE'' \<notin> snd ` set checks" by (auto split: if_splits)
    show "list_all (\<lambda>(_, x). x = PStr ''PASS'') checks"
      using sts ok(2,3) by (fastforce simp: list_all_iff STATUSES_def image_iff)
    have "distinct (map fst results)"
      using wf rg by (auto simp: out list_all_iff dest!: map_of_SomeD)
    moreover have "\<forall>name \<in> keys results. \<exists>r. map_of results name = Some r \<and> suite_complete (name, r)"
      using receipt_fold [OF fold] ok(1) reps by simp
    ultimately have "suite_complete (n, r)" if "(n, r) \<in> set results" for n r
    proof -
      have "n \<in> keys results" using that by (force simp: keys_def)
      then obtain r' where "map_of results n = Some r'" "suite_complete (n, r')" using \<open>\<forall>name \<in> keys results. _\<close> by blast
      then show ?thesis using map_of_is_SomeI [OF \<open>distinct (map fst results)\<close> that] by simp
    qed
    then show "list_all suite_complete results" by (auto simp: list_all_iff)
  qed
  then show ?thesis
    using rec names ch rg by (simp add: case_honest_def output_part_def out)
qed

lemma validate_request_operation:
  assumes "validate_request U v session b expd now = Ret request"
  obtains cas where "map_of request ''operation'' = Some (PStr cas)" "cas \<in> set CASES"
  using assms unfolding validate_request_def request_of_def by (auto simp: bind_eq_Ret field_eq_Ret)

lemma validate_receipt_honest:
  assumes "validate_receipt U v session b expd regs now = Ret r"
  shows "\<exists>cas. cas \<in> set CASES \<and> case_honest cas (PDict r)"
proof -
  from assms obtain current request out cas ot overall where
    req: "validate_request U expd (PDict current) b expd now = Ret request"
    and doc: "data_document U v MAX_RESPONSE_BYTES = Ret r"
    and same: "same_field r ''caseId'' request ''operation'' = Ret True"
    and out: "map_of r ''output'' = Some out" "map_of request ''operation'' = Some (PStr cas)"
      "receipt_output U cas out regs = Ret (ot, overall)" "map_of r ''status'' = Some (PStr overall)"
    unfolding validate_receipt_def
    by (auto simp: bind_eq_Ret field_eq_Ret field_is_eq_Ret requires_eq_Ret case_Ret)
  have "wf_val out"
    using data_document_canonical(3) [OF doc] out(1) by (auto simp: list_all_iff dest!: map_of_SomeD)
  moreover have "map_of r ''caseId'' = Some (PStr cas)"
    using same out(2) by (auto simp: same_field_def bind_eq_Ret field_eq_Ret)
  ultimately have "case_honest cas (PDict r)" using receipt_output_honest out by blast
  moreover have "cas \<in> set CASES" using req out(2) by (auto elim: validate_request_operation)
  ultimately show ?thesis by blast
qed

section \<open>Properties\<close>

text \<open>C37: a dictionary becomes a data document exactly when it is within the depth, collection and type
  limits, has canonical bytes, and these fit the maximum; the running budget of \<open>_bounded\<close>, which charges
  every node before anything is encoded, refuses nothing more.  The result is the value with sorted members.\<close>

theorem data_document_exact:
  assumes "wf_val (PDict d)" "m \<in> {MAX_SESSION_BYTES, MAX_RESPONSE_BYTES}"
  shows "data_document U (PDict d) m = Ret x \<longleftrightarrow>
     within m 0 (PDict d) \<and> canonical_bytes U (PDict d) = Ret (dumps (PDict d)) \<and>
     length (dumps (PDict d)) \<le> m \<and> PDict x = canon (PDict d)"
  using assms by (rule data_document_Ret)

theorem data_document_exact_witness:
  "data_document id (PDict [(''b'', PInt 1), (''a'', PList [PNone])]) MAX_SESSION_BYTES
     = Ret [(''a'', PList [PNone]), (''b'', PInt 1)]"
proof (rule iffD2 [OF data_document_exact], goal_cases)
  case 3
  show ?case by (intro conjI) code_simp+
qed simp_all


text \<open>A proposed transition is one of the table, moves the session forward (at most three moves
  from validated data to a final state), proposes expiry exactly from the expiry time on, and leaves
  execution to the protected supervisor.\<close>

theorem transition_candidate_sound:
  "case transition_candidate U v nxt b now of
     Raise _ \<Rightarrow> True
   | Ret r \<Rightarrow> (\<exists>s a t i x. session_of U v b = Ret s \<and> map_of s ''state'' = Some (PStr a) \<and> nxt = PStr t \<and>
       (a, t) \<in> set SESSION_TRANSITIONS \<and> session_rank t < session_rank a \<and> session_rank a \<le> 3 \<and>
       linux_time now = Ret i \<and> time_of s ''expiresAt'' = Ret x \<and> (t = ''EXPIRED'') = (utc_us x \<le> utc_us i) \<and>
       map_of r ''fromState'' = Some (PStr a) \<and> map_of r ''toState'' = Some (PStr t) \<and>
       map_of r ''requiresProtectedSupervisor'' = Some (PBool True) \<and>
       map_of r ''nativeAcceptance'' = Some (PBool False))"
proof (cases "transition_candidate U v nxt b now")
  case (Ret r)
  obtain s a t i x where "session_of U v b = Ret s" "nxt = PStr t" "map_of s ''state'' = Some (PStr a)" "session_moves a t"
    "linux_time now = Ret i" "bind (field s ''expiresAt'') linux_time = Ret x" "(t = ''EXPIRED'') = (utc_us x \<le> utc_us i)"
    "map_of r ''fromState'' = Some (PStr a)" "map_of r ''toState'' = Some (PStr t)"
    "map_of r ''requiresProtectedSupervisor'' = Some (PBool True)" "map_of r ''nativeAcceptance'' = Some (PBool False)"
    using Ret by (rule candidate_Ret)
  moreover have "time_of s ''expiresAt'' = Ret x"
    using \<open>bind (field s ''expiresAt'') linux_time = Ret x\<close> by (auto simp: time_of_def bind_eq_Ret dest: linux_time_time)
  moreover have "session_rank a \<le> 3" by (simp add: session_rank_def)
  moreover have "session_rank t < session_rank a" using \<open>session_moves a t\<close> by (rule session.rank_decreases)
  ultimately show ?thesis using Ret by (auto simp: session_moves_def)
qed simp

text \<open>an accepted receipt names one of the ten cases, holds exactly its checks, and says \<open>PASS\<close> only
  when every check passed and every regression suite ran completely without a skip or a failure.\<close>

theorem receipt_honest:
  "case validate_receipt U v session b expd regs now of
     Raise _ \<Rightarrow> True
   | Ret r \<Rightarrow> (\<exists>cas. cas \<in> set CASES \<and> case_honest cas (PDict r))"
  by (auto split: outcome.split dest: validate_receipt_honest)

end
