(* ===== verification/ReplayStore.thy ===== *)
theory ReplayStore
  imports Session
begin

text \<open>
  \<open>src/src/harness_conformance/live_replay_store.py\<close>: the append-only replay journal.  The state of the
  store is the content of the journal file and the flag that poisons a process after an ambiguous write.
  One operation is a transaction: it reads and checks the whole journal, decides, appends one row, syncs,
  and reads back.  \<open>io_event\<close> says what the operating system does to it: refuse the lock or the custody
  checks, write only a part, fail to write or to sync, show another content afterwards.
\<close>

section \<open>Constants\<close>

definition MAX_JOURNAL :: nat where
  "MAX_JOURNAL = 4194304"

definition MAX_RECORD :: nat where
  "MAX_RECORD = 2048"

definition MAX_RECORDS :: nat where
  "MAX_RECORDS = 4096"

definition TERMINAL :: "string list" where
  "TERMINAL = [''COMPLETED'', ''FAILED'', ''CANCELLED'', ''EXPIRED'']"

definition EDGES :: "(string \<times> string list) list" where
  "EDGES =
     [(''RESERVED'', [''RUNNING'', ''FAILED'', ''CANCELLED'', ''EXPIRED'']), (''RUNNING'', TERMINAL)] @
     map (\<lambda>state. (state, [])) TERMINAL"

definition JOURNAL_FIELDS :: "string list" where
  "JOURNAL_FIELDS =
     [''sequence'', ''previousDigest'', ''replayKey'', ''bindingDigest'', ''state'', ''observedAt'', ''receiptDigest'']"

definition ZERO :: string where
  "ZERO = ''sha256:'' @ replicate 64 CHR ''0''"

section \<open>Custody\<close>

text \<open>What \<open>fstat\<close> reports of an opened file or directory.\<close>

record stat_info =
  si_dir :: bool
  si_reg :: bool
  si_uid :: nat
  si_gid :: nat
  si_mode :: nat
  si_nlink :: nat
  si_dev :: nat
  si_ino :: nat

definition check_stat :: "nat \<Rightarrow> stat_info \<Rightarrow> bool \<Rightarrow> bool \<Rightarrow> nat \<Rightarrow> unit outcome" where
  "check_stat getgid info directory private uid =
     bind (require ((if directory then si_dir info else si_reg info) \<and> si_uid info = uid \<and>
             si_gid info = (if uid = 0 then 0 else getgid)) ''REPLAY_CUSTODY_INVALID'') (\<lambda>_.
     bind (require (\<not> writable_by_others (si_mode info) \<and> (directory \<or> si_nlink info = 1)) ''REPLAY_CUSTODY_INVALID'') (\<lambda>_.
       if private then require (si_mode info = (if directory then 448 else 384)) ''REPLAY_CUSTODY_INVALID''
       else Ret ()))"

text \<open>\<open>os.open\<close> of a directory component without following a link: \<open>None\<close> when it fails.\<close>

definition open_component ::
  "(string list \<Rightarrow> stat_info option) \<Rightarrow> nat \<Rightarrow> string list \<Rightarrow> bool \<Rightarrow> nat \<Rightarrow> stat_info outcome" where
  "open_component opened getgid prefix private uid =
     (case opened prefix of
        None \<Rightarrow> Raise OSError
      | Some info \<Rightarrow> bind (check_stat getgid info True private uid) (\<lambda>_. Ret info))"

definition open_directory ::
  "(string list \<Rightarrow> stat_info option) \<Rightarrow> nat \<Rightarrow> string \<Rightarrow> bool \<Rightarrow> nat \<Rightarrow> stat_info outcome" where
  "open_directory opened getgid path private uid =
     (let parts = split_on CHR ''/'' (drop 1 path) in
      bind (require (starts_with ''/'' path \<and> CHR 0x5C \<notin> set path \<and>
              list_all (\<lambda>p. p \<notin> {[], ''.'', ''..''}) parts) ''REPLAY_PATH_INVALID'') (\<lambda>_.
      bind (open_component opened getgid [] False 0) (\<lambda>root.
        fold_out (\<lambda>_ index. (let final = (index = length parts - 1) in
          open_component opened getgid (take (Suc index) parts) (private \<and> final) (if final then uid else 0)))
          root [0..<length parts])))"

section \<open>Reading the journal\<close>

definition replay_key :: "ucd \<Rightarrow> pyval \<Rightarrow> string outcome" where
  "replay_key U b =
     bind (validate_binding U b) (\<lambda>v.
     bind (field v ''tenantId'') (\<lambda>tenant.
     bind (field v ''nonce'') (\<lambda>nonce.
       canonical_digest U (PDict [(''tenantId'', tenant), (''nonce'', nonce)])
         (Some ''planeon.live-replay-key/v1alpha1''))))"

text \<open>\<open>raw.splitlines(keepends=True)\<close> on bytes.\<close>

fun split_lines :: "bytes \<Rightarrow> bytes list" where
  "split_lines [] = []"
| "split_lines (c # s) =
     (if c = CHR 0x0A then [c] # split_lines s
      else if c = CHR 0x0D then
        (case s of
           [] \<Rightarrow> [[c]]
         | d # t \<Rightarrow> if d = CHR 0x0A then [c, d] # split_lines t else [c] # split_lines s)
      else (case split_lines s of [] \<Rightarrow> [[c]] | l # ls \<Rightarrow> (c # l) # ls))"

type_synonym latest_rows = "string \<Rightarrow> items option"
type_synonym parse_state = "latest_rows \<times> string \<times> nat"

definition text_field :: "items \<Rightarrow> string \<Rightarrow> string outcome" where
  "text_field d k = bind (field d k) (\<lambda>v. case v of PStr s \<Rightarrow> Ret s | _ \<Rightarrow> Raise TypeError)"

definition edges_of :: "string \<Rightarrow> string list outcome" where
  "edges_of state = (case map_of EDGES state of None \<Rightarrow> Raise KeyError | Some ts \<Rightarrow> Ret ts)"

definition follows :: "items \<Rightarrow> items \<Rightarrow> string \<Rightarrow> bool outcome" where
  "follows row prior state =
     and_also (bind (bind (text_field prior ''state'') edges_of) (\<lambda>ts. Ret (state \<in> set ts)))
     (and_also (same_field row ''bindingDigest'' prior ''bindingDigest'')
       (bind (bind (field row ''observedAt'') linux_time) (\<lambda>a.
        bind (bind (field prior ''observedAt'') linux_time) (\<lambda>b. time_le b a))))"

definition parse_row :: "ucd \<Rightarrow> parse_state \<Rightarrow> bytes \<Rightarrow> parse_state outcome" where
  "parse_row U st line =
     (case st of (latest, previous, count) \<Rightarrow>
        bind (require (0 < length line \<and> length line \<le> MAX_RECORD) ''REPLAY_JOURNAL_CORRUPT'') (\<lambda>_.
        bind (bind (require_canonical_document U line) items_of) (\<lambda>row.
        bind (closed row JOURNAL_FIELDS []) (\<lambda>_.
        bind (requires (and_also
                (bind (field row ''sequence'') (\<lambda>x. Ret (x = PInt (int (count + 1)))))
                (field_is row ''previousDigest'' (PStr previous))) ''REPLAY_JOURNAL_CORRUPT'') (\<lambda>_.
        bind (for_each (\<lambda>name. bind (bind (field row name) require_digest) (\<lambda>_. Ret ())) [''replayKey'', ''bindingDigest'']) (\<lambda>_.
        bind (bind (field row ''observedAt'') linux_time) (\<lambda>_.
        bind (text_field row ''replayKey'') (\<lambda>key.
        bind (requires (field_in row ''state'' (map fst EDGES)) ''REPLAY_JOURNAL_CORRUPT'') (\<lambda>_.
        bind (text_field row ''state'') (\<lambda>state.
        bind (case latest key of
                None \<Rightarrow> require (state = ''RESERVED'') ''REPLAY_JOURNAL_CORRUPT''
              | Some prior \<Rightarrow> requires (follows row prior state) ''REPLAY_JOURNAL_CORRUPT'') (\<lambda>_.
        bind (if state \<in> set TERMINAL then bind (bind (field row ''receiptDigest'') require_digest) (\<lambda>_. Ret ())
              else requires (bind (field row ''receiptDigest'') (\<lambda>x. Ret (x = PNone))) ''REPLAY_JOURNAL_CORRUPT'') (\<lambda>_.
        bind (canonical_digest U (PDict row) None) (\<lambda>digest.
          Ret (latest(key \<mapsto> row), digest, count + 1))))))))))))))"

definition parse_journal :: "ucd \<Rightarrow> bytes \<Rightarrow> parse_state outcome" where
  "parse_journal U raw =
     bind (require (length raw \<le> MAX_JOURNAL) ''REPLAY_JOURNAL_FULL'') (\<lambda>_.
     bind (require (raw = [] \<or> last raw = CHR 0x0A) ''REPLAY_JOURNAL_CORRUPT'') (\<lambda>_.
       (let lines = split_lines raw in
        bind (require (length lines \<le> MAX_RECORDS) ''REPLAY_JOURNAL_FULL'') (\<lambda>_.
          fold_out (parse_row U) (Map.empty, ZERO, 0) lines))))"

section \<open>Writing\<close>

record io_event =
  refused :: "string option"
  written :: "nat option"
  write_error :: bool
  sync_error :: bool
  shown :: "bytes option"

record store =
  journal :: bytes
  poisoned :: bool

definition admitted :: "items \<Rightarrow> string \<Rightarrow> datetime \<Rightarrow> items option \<Rightarrow> string \<Rightarrow> unit outcome" where
  "admitted value state instant prior binding_digest =
     (if state = ''RESERVED'' then
        bind (require (prior = None) ''REPLAY_DETECTED'') (\<lambda>_.
          requires (and_also (bind (bind (field value ''notBefore'') linux_time) (\<lambda>x. time_le x instant))
            (bind (bind (field value ''notAfter'') linux_time) (\<lambda>y. time_less instant y))) ''REPLAY_EXPIRED'')
      else (case prior of
          None \<Rightarrow> refuse ''REPLAY_TRANSITION_INVALID''
        | Some p \<Rightarrow>
            bind (requires (and_also (field_is p ''bindingDigest'' (PStr binding_digest))
                    (bind (bind (text_field p ''state'') edges_of) (\<lambda>ts. Ret (state \<in> set ts)))) ''REPLAY_TRANSITION_INVALID'') (\<lambda>_.
            bind (requires (bind (bind (field p ''observedAt'') linux_time) (\<lambda>t. time_le t instant)) ''REPLAY_CLOCK_ROLLBACK'') (\<lambda>_.
              if state = ''EXPIRED'' then
                requires (bind (bind (field value ''notAfter'') linux_time) (\<lambda>y. time_le y instant)) ''REPLAY_EARLY_EXPIRY''
              else if state \<in> {''RUNNING'', ''COMPLETED''} then
                requires (bind (bind (field value ''notAfter'') linux_time) (\<lambda>y. time_less instant y)) ''REPLAY_EXPIRED''
              else Ret ()))))"

definition journal_row :: "nat \<Rightarrow> string \<Rightarrow> string \<Rightarrow> string \<Rightarrow> string \<Rightarrow> pyval \<Rightarrow> pyval \<Rightarrow> items" where
  "journal_row count previous key binding_digest state now receipt_digest =
     [(''sequence'', PInt (int (count + 1))), (''previousDigest'', PStr previous), (''replayKey'', PStr key),
      (''bindingDigest'', PStr binding_digest), (''state'', PStr state), (''observedAt'', now),
      (''receiptDigest'', receipt_digest)]"

text \<open>The decision of one transaction: the bytes to append and the digest to return.\<close>

definition decide :: "ucd \<Rightarrow> bytes \<Rightarrow> pyval \<Rightarrow> pyval \<Rightarrow> pyval \<Rightarrow> pyval \<Rightarrow> (bytes \<times> string) outcome" where
  "decide U raw b st now receipt_digest =
     (case st of
        PStr state \<Rightarrow>
          bind (validate_binding U b) (\<lambda>value.
          bind (linux_time now) (\<lambda>instant.
          bind (require (state \<in> set (map fst EDGES)) ''REPLAY_TRANSITION_INVALID'') (\<lambda>_.
          bind (parse_journal U raw) (\<lambda>(latest, previous, count).
          bind (replay_key U (PDict value)) (\<lambda>key.
          bind (canonical_digest U (PDict value) None) (\<lambda>binding_digest.
          bind (admitted value state instant (latest key) binding_digest) (\<lambda>_.
          bind (if state \<in> set TERMINAL then bind (require_digest receipt_digest) (\<lambda>_. Ret ())
                else require (receipt_digest = PNone) ''REPLAY_RECEIPT_INVALID'') (\<lambda>_.
            (let row = journal_row count previous key binding_digest state now receipt_digest in
             bind (canonical_bytes U (PDict row)) (\<lambda>bytes.
               (let encoded = bytes @ [CHR 0x0A] in
                bind (require (count < MAX_RECORDS \<and> length encoded \<le> MAX_RECORD \<and>
                        length raw + length encoded \<le> MAX_JOURNAL) ''REPLAY_JOURNAL_FULL'') (\<lambda>_.
                bind (canonical_digest U (PDict row) None) (\<lambda>digest. Ret (encoded, digest))))))))))))))
      | _ \<Rightarrow> refuse ''REPLAY_TRANSITION_INVALID'')"

text \<open>\<open>append\<close>, \<open>sync\<close> and the second read: how the transaction ends once bytes may have reached the file.\<close>

definition write_outcome :: "io_event \<Rightarrow> bytes \<Rightarrow> bytes \<Rightarrow> unit outcome" where
  "write_outcome io raw encoded =
     bind (if write_error io then Raise OSError
           else require (written io = None \<or> written io = Some (length encoded)) ''REPLAY_SHORT_WRITE'') (\<lambda>_.
     bind (if sync_error io then Raise OSError else Ret ()) (\<lambda>_.
       require (shown io = None \<or> shown io = Some (raw @ encoded)) ''REPLAY_CUSTODY_CHANGED''))"

definition on_disk :: "io_event \<Rightarrow> bytes \<Rightarrow> bytes" where
  "on_disk io encoded = (case written io of None \<Rightarrow> encoded | Some n \<Rightarrow> take n encoded)"

text \<open>The transaction up to the write: nothing has changed when it raises.\<close>

definition attempt ::
  "ucd \<Rightarrow> io_event \<Rightarrow> store \<Rightarrow> pyval \<Rightarrow> pyval \<Rightarrow> pyval \<Rightarrow> pyval \<Rightarrow> (bytes \<times> string) outcome" where
  "attempt U io S b state now receipt_digest =
     bind (validate_binding U b) (\<lambda>_.
     bind (linux_time now) (\<lambda>_.
     bind (require (\<not> poisoned S) ''REPLAY_STORAGE_AMBIGUOUS'') (\<lambda>_.
     bind (require (str_in state (map fst EDGES)) ''REPLAY_TRANSITION_INVALID'') (\<lambda>_.
     bind (case refused io of Some reason \<Rightarrow> refuse reason | None \<Rightarrow> Ret ()) (\<lambda>_.
     bind (require (length (journal S) \<le> MAX_JOURNAL) ''REPLAY_JOURNAL_FULL'') (\<lambda>_.
       decide U (journal S) b state now receipt_digest))))))"

definition record_row ::
  "ucd \<Rightarrow> io_event \<Rightarrow> store \<Rightarrow> pyval \<Rightarrow> pyval \<Rightarrow> pyval \<Rightarrow> pyval \<Rightarrow> string outcome \<times> store" where
  "record_row U io S b state now receipt_digest =
     (case attempt U io S b state now receipt_digest of
        Raise e \<Rightarrow> (Raise e, S)
      | Ret (encoded, digest) \<Rightarrow>
          (let S' = S\<lparr>journal := journal S @ on_disk io encoded\<rparr> in
           case write_outcome io (journal S) encoded of
             Raise e \<Rightarrow> (Raise e, S'\<lparr>poisoned := True\<rparr>)
           | Ret _ \<Rightarrow> (Ret digest, S')))"

definition reserve_nonce :: "ucd \<Rightarrow> io_event \<Rightarrow> store \<Rightarrow> pyval \<Rightarrow> pyval \<Rightarrow> string outcome \<times> store" where
  "reserve_nonce U io S b now = record_row U io S b (PStr ''RESERVED'') now PNone"

definition running :: "ucd \<Rightarrow> io_event \<Rightarrow> store \<Rightarrow> pyval \<Rightarrow> pyval \<Rightarrow> string outcome \<times> store" where
  "running U io S b now = record_row U io S b (PStr ''RUNNING'') now PNone"

definition terminal :: "ucd \<Rightarrow> io_event \<Rightarrow> store \<Rightarrow> pyval \<Rightarrow> pyval \<Rightarrow> pyval \<Rightarrow> pyval \<Rightarrow> string outcome \<times> store" where
  "terminal U io S b state now receipt_digest =
     (if str_in state TERMINAL then record_row U io S b state now receipt_digest
      else (refuse ''REPLAY_TRANSITION_INVALID'', S))"

definition open_store :: "nat \<Rightarrow> nat \<Rightarrow> bytes \<Rightarrow> store outcome" where
  "open_store euid egid content =
     bind (require (euid = 0 \<and> egid = 0) ''REPLAY_ROOT_REQUIRED'') (\<lambda>_.
       Ret \<lparr>journal = content, poisoned = False\<rparr>)"

section \<open>Operations as steps\<close>

text \<open>An operation of the running process under any behaviour of the system, or a restart, which
  forgets the poison flag and keeps the file.\<close>

inductive store_step :: "ucd \<Rightarrow> store \<Rightarrow> store \<Rightarrow> bool" for U :: ucd where
  step_reserve: "store_step U S (snd (reserve_nonce U io S b now))"
| step_running: "store_step U S (snd (running U io S b now))"
| step_terminal: "store_step U S (snd (terminal U io S b state now receipt_digest))"
| step_restart: "store_step U S (S\<lparr>poisoned := False\<rparr>)"

end
