(* ===== verification/ReplayLaws.thy ===== *)
theory ReplayLaws
  imports SessionLaws ReplayStore
begin

text \<open>
  Laws of the replay journal: rows written are read back, the journal only grows, its abstraction to a map
  from replay keys to states refines the abstract store, and no tenant nonce is reserved twice.
\<close>

section \<open>Lines\<close>

definition printable :: "bytes \<Rightarrow> bool" where
  "printable s = list_all (\<lambda>c. 32 \<le> code c) s"

lemma printable_append [simp]: "printable (a @ b) \<longleftrightarrow> printable a \<and> printable b"
  by (simp add: printable_def)

lemma printable_Cons [simp]: "printable (c # s) \<longleftrightarrow> 32 \<le> code c \<and> printable s"
  by (simp add: printable_def)

lemma printable_Nil [simp]: "printable []"
  by (simp add: printable_def)

lemma printable_hex: "n < 16 \<Longrightarrow> 32 \<le> code (hex_digit n)"
  by (simp add: hex_digit_def)

lemma printable_escape: "printable (escape c)"
  by (auto simp: printable_hex)

lemma printable_dump_string: "printable (dump_string s)"
proof -
  have "printable (concat (map escape s))" by (induction s) (simp_all add: printable_escape del: escape.simps)
  then show ?thesis by (simp add: dump_string_def)
qed

lemma printable_intercalate: "\<forall>x \<in> set xs. printable x \<Longrightarrow> printable sep \<Longrightarrow> printable (intercalate sep xs)"
  by (induction sep xs rule: intercalate.induct) auto

lemma printable_show_nat: "printable (show_nat n)"
  using show_nat_digits [of n] by (auto simp: printable_def list_all_iff digit_def char_range_def in_range_def dest!: bspec)

lemma printable_dumps: "printable (dumps v)"
proof (induction v)
  case (PList xs)
  then have "printable (intercalate '','' (map dumps xs))" by (intro printable_intercalate) auto
  then show ?case by simp
next
  case (PDict kvs)
  then have "printable (intercalate '','' (map dump_member (sort_key fst kvs)))"
    by (intro printable_intercalate) (auto simp: dump_member_def printable_dump_string)
  then show ?case by (simp add: dumps_PDict del: dumps.simps)
qed (auto simp: show_int_def printable_show_nat printable_dump_string)

declare dumps.simps [simp del]

lemma split_lines_line: "printable line \<Longrightarrow> split_lines (line @ CHR 0x0A # rest) = (line @ [CHR 0x0A]) # split_lines rest"
  by (induction line) auto

lemma split_lines_not_Nil: "s \<noteq> [] \<Longrightarrow> split_lines s \<noteq> []"
  by (cases s) (auto split: list.split)

lemma split_lines_append:
  "a = [] \<or> last a = CHR 0x0A \<Longrightarrow> split_lines (a @ b) = split_lines a @ split_lines b"
proof (induction a rule: split_lines.induct)
  case (2 c s)
  have s: "s = [] \<or> last s = CHR 0x0A" using "2.prems" by (cases s) auto
  consider "c = CHR 0x0A" | "c = CHR 0x0D" "c \<noteq> CHR 0x0A" | "c \<noteq> CHR 0x0A" "c \<noteq> CHR 0x0D" by blast
  then show ?case
  proof cases
    case 1
    then show ?thesis using "2.IH"(1) s by simp
  next
    case b: 2
    then obtain d t where d: "s = d # t" using "2.prems" by (cases s) auto
    then have t: "t = [] \<or> last t = CHR 0x0A" if "d = CHR 0x0A" using s by (cases t) auto
    show ?thesis
    proof (cases "d = CHR 0x0A")
      case True
      then show ?thesis using "2.IH"(2) [OF _ _ d] b d t by simp
    next
      case False
      then show ?thesis using "2.IH"(3) [OF _ _ d] b d s by simp
    qed
  next
    case 3
    then have "s \<noteq> []" using "2.prems" by auto
    then obtain l ls where "split_lines s = l # ls" using split_lines_not_Nil [of s] by (cases "split_lines s") auto
    then show ?thesis using "2.IH"(4) 3 s by simp
  qed
qed simp

section \<open>Rows\<close>

lemma parse_row_Ret:
  assumes "parse_row U (latest, previous, n) line = Ret st"
  obtains row key state digest where "require_canonical_document U line = Ret (PDict row)" "text_field row ''replayKey'' = Ret key"
    "text_field row ''state'' = Ret state" "st = (latest(key \<mapsto> row), digest, n + 1)"
    "case latest key of None \<Rightarrow> state = ''RESERVED'' | Some prior \<Rightarrow> follows row prior state = Ret True"
    "canonical_digest U (PDict row) None = Ret digest"
  using assms unfolding parse_row_def
  by (auto simp: bind_eq_Ret items_of_eq_Ret requires_eq_Ret split: option.splits if_splits)

lemma parse_rows_keep:
  assumes "fold_out (parse_row U) st lines = Ret st'"
  shows "dom (fst st) \<subseteq> dom (fst st')"
  using assms
proof (rule fold_out_invariant [where P = "\<lambda>s. dom (fst st) \<subseteq> dom (fst s)"])
  fix s line s' assume s: "dom (fst st) \<subseteq> dom (fst s)" and "parse_row U s line = Ret s'"
  moreover obtain l p c where "s = (l, p, c)" by (cases s)
  ultimately show "dom (fst st) \<subseteq> dom (fst s')" by (auto elim!: parse_row_Ret)
qed simp

lemma parse_journal_append:
  assumes "parse_journal U (a @ b) = Ret st" "a = [] \<or> last a = CHR 0x0A"
  obtains mid where "fold_out (parse_row U) (Map.empty, ZERO, 0) (split_lines a) = Ret mid"
    "fold_out (parse_row U) mid (split_lines b) = Ret st"
  using assms unfolding parse_journal_def Let_def
  by (auto simp: bind_eq_Ret split_lines_append fold_out_append)

lemma map_of_sort_key: "distinct (map fst kvs) \<Longrightarrow> map_of (sort_key fst kvs) = map_of kvs"
  by (subst map_of_inject_set) (simp_all add: distinct_sort_key)

lemma canonical_digest_canon:
  "canonical_digest U v d = Ret x \<Longrightarrow> canonical_digest U (canon v) d = Ret x"
  by (auto simp: canonical_digest_Ret validate_value_canon dumps_canon)

text \<open>What an accepted request to write has established.\<close>

definition accepted_row ::
  "ucd \<Rightarrow> bytes \<Rightarrow> items \<Rightarrow> string \<Rightarrow> pyval \<Rightarrow> pyval \<Rightarrow> latest_rows \<Rightarrow> string \<Rightarrow> items \<Rightarrow> string \<Rightarrow> bool" where
  "accepted_row U raw value state now receipt_digest latest key row digest \<longleftrightarrow>
     (\<exists>previous n instant binding_digest.
        parse_journal U raw = Ret (latest, previous, n) \<and> replay_key U (PDict value) = Ret key \<and>
        linux_time now = Ret instant \<and> state \<in> set (map fst EDGES) \<and>
        canonical_digest U (PDict value) None = Ret binding_digest \<and>
        admitted value state instant (latest key) binding_digest = Ret () \<and>
        (if state \<in> set TERMINAL then \<exists>d. require_digest receipt_digest = Ret d else receipt_digest = PNone) \<and>
        row = journal_row n previous key binding_digest state now receipt_digest \<and>
        canonical_bytes U (PDict row) = Ret (dumps (PDict row)) \<and> n < MAX_RECORDS \<and>
        Suc (length (dumps (PDict row))) \<le> MAX_RECORD \<and>
        length raw + Suc (length (dumps (PDict row))) \<le> MAX_JOURNAL \<and>
        canonical_digest U (PDict row) None = Ret digest)"

lemma decide_Ret:
  assumes "decide U raw b st now receipt_digest = Ret (encoded, digest)"
  obtains state val latest key row where "st = PStr state" "validate_binding U b = Ret val"
    "accepted_row U raw val state now receipt_digest latest key row digest"
    "encoded = dumps (PDict row) @ [CHR 0x0A]"
proof -
  from assms obtain state where st: "st = PStr state" by (auto simp: decide_def case_Ret)
  with assms obtain val instant latest previous n key bd bytes where
    "validate_binding U b = Ret val" "linux_time now = Ret instant" "state \<in> set (map fst EDGES)"
    "parse_journal U raw = Ret (latest, previous, n)" "replay_key U (PDict val) = Ret key"
    "canonical_digest U (PDict val) None = Ret bd" "admitted val state instant (latest key) bd = Ret ()"
    "(if state \<in> set TERMINAL then bind (require_digest receipt_digest) (\<lambda>_. Ret ())
      else require (receipt_digest = PNone) ''REPLAY_RECEIPT_INVALID'') = Ret ()"
    "canonical_bytes U (PDict (journal_row n previous key bd state now receipt_digest)) = Ret bytes"
    "n < MAX_RECORDS" "Suc (length bytes) \<le> MAX_RECORD" "length raw + Suc (length bytes) \<le> MAX_JOURNAL"
    "canonical_digest U (PDict (journal_row n previous key bd state now receipt_digest)) None = Ret digest"
    "encoded = bytes @ [CHR 0x0A]"
    by (auto simp: decide_def bind_eq_Ret Let_def simp del: set_map)
  moreover from this(8) have "if state \<in> set TERMINAL then \<exists>d. require_digest receipt_digest = Ret d else receipt_digest = PNone"
    by (auto simp: bind_eq_Ret split: if_splits)
  moreover have "bytes = dumps (PDict (journal_row n previous key bd state now receipt_digest))"
    using calculation(9) by (simp add: canonical_bytes_Ret)
  ultimately show ?thesis using that st unfolding accepted_row_def by blast
qed

lemma admitted_follows:
  assumes adm: "admitted value state instant prior bd = Ret ()" and now: "linux_time now = Ret instant"
    and row: "map_of row ''bindingDigest'' = Some (PStr bd)" "map_of row ''observedAt'' = Some now"
  shows "case prior of None \<Rightarrow> state = ''RESERVED'' | Some p \<Rightarrow> follows row p state = Ret True"
proof (cases prior)
  case None
  then show ?thesis using adm by (auto simp: admitted_def refuse_def split: if_splits)
next
  case (Some p)
  then have "field_is p ''bindingDigest'' (PStr bd) = Ret True"
    "bind (bind (text_field p ''state'') edges_of) (\<lambda>ts. Ret (state \<in> set ts)) = Ret True"
    "bind (bind (field p ''observedAt'') linux_time) (\<lambda>t. time_le t instant) = Ret True"
    using adm by (auto simp: admitted_def bind_eq_Ret requires_eq_Ret and_also_True split: if_splits)
  then show ?thesis using Some row now
    by (auto simp: follows_def same_field_def field_is_eq_Ret bind_eq_Ret)
qed

lemma parse_row_encoded:
  assumes acc: "accepted_row U raw value state now receipt_digest latest key row digest"
    and prs: "parse_journal U raw = Ret (latest, previous, n)"
  obtains row' where "PDict row' = canon (PDict row)"
    "parse_row U (latest, previous, n) (dumps (PDict row) @ [CHR 0x0A]) = Ret (latest(key \<mapsto> row'), digest, n + 1)"
    "map_of row' ''state'' = Some (PStr state)"
proof -
  obtain instant bd where key: "replay_key U (PDict value) = Ret key" and now: "linux_time now = Ret instant"
    and st: "state \<in> set (map fst EDGES)" and bd: "canonical_digest U (PDict value) None = Ret bd"
    and adm: "admitted value state instant (latest key) bd = Ret ()"
    and rec: "if state \<in> set TERMINAL then \<exists>d. require_digest receipt_digest = Ret d else receipt_digest = PNone"
    and row: "row = journal_row n previous key bd state now receipt_digest"
    and enc: "canonical_bytes U (PDict row) = Ret (dumps (PDict row))"
    and size: "Suc (length (dumps (PDict row))) \<le> MAX_RECORD" and dig: "canonical_digest U (PDict row) None = Ret digest"
    using acc prs unfolding accepted_row_def by auto
  obtain ts where ts: "now = PStr ts" using now by (auto simp: linux_time_def bind_eq_Ret split: pyval.splits)
  have rd: "receipt_digest = PNone \<or> (\<exists>d. receipt_digest = PStr d)"
    using rec by (auto simp: require_digest_eq_Ret split: if_splits)
  have dist: "distinct (map fst row)" by (simp add: row journal_row_def)
  have wf: "wf_val (PDict row)" using rd dist ts by (auto simp: row journal_row_def)
  define row' where "row' = sort_key fst row"
  have c: "canon (PDict row) = PDict row'"
    using rd ts by (auto simp: row'_def row journal_row_def)
  have m: "map_of row' = map_of row" using dist by (simp add: row'_def map_of_sort_key)
  have ks: "keys row' = set JOURNAL_FIELDS" by (auto simp: row'_def keys_def row journal_row_def JOURNAL_FIELDS_def)
  have doc: "require_canonical_document U (dumps (PDict row) @ [CHR 0x0A]) = Ret (PDict row')"
    using canonical_roundtrip_tail [OF enc wf, of "[CHR 0x0A]"] size by (simp add: c MAX_RECORD_def MAX_FILE_BYTES_def del: dumps.simps canon.simps)
  have fields: "map_of row' ''sequence'' = Some (PInt (int (n + 1)))" "map_of row' ''previousDigest'' = Some (PStr previous)"
    "map_of row' ''replayKey'' = Some (PStr key)" "map_of row' ''bindingDigest'' = Some (PStr bd)"
    "map_of row' ''state'' = Some (PStr state)" "map_of row' ''observedAt'' = Some now"
    "map_of row' ''receiptDigest'' = Some receipt_digest"
    by (simp_all add: m row journal_row_def)
  have digests: "require_digest (PStr key) = Ret key" "require_digest (PStr bd) = Ret bd"
    using key bd canonical_digest_accepted by (auto simp: replay_key_def bind_eq_Ret)
  have "parse_row U (latest, previous, n) (dumps (PDict row) @ [CHR 0x0A]) = Ret (latest(key \<mapsto> row'), digest, n + 1)"
  proof -
    have "closed row' JOURNAL_FIELDS [] = Ret ()" using ks by (simp add: closed_eq_Ret)
    moreover have "(case latest key of None \<Rightarrow> require (state = ''RESERVED'') ''REPLAY_JOURNAL_CORRUPT''
        | Some prior \<Rightarrow> requires (follows row' prior state) ''REPLAY_JOURNAL_CORRUPT'') = Ret ()"
      using admitted_follows [OF adm now fields(4,6)] by (auto split: option.splits)
    moreover have "(if state \<in> set TERMINAL then bind (bind (field row' ''receiptDigest'') require_digest) (\<lambda>_. Ret ())
        else requires (bind (field row' ''receiptDigest'') (\<lambda>x. Ret (x = PNone))) ''REPLAY_JOURNAL_CORRUPT'') = Ret ()"
      using rec fields(7) by (auto split: if_splits)
    ultimately show ?thesis
      using doc fields(1-6) digests now st size canonical_digest_canon [OF dig, unfolded c]
      by (simp add: parse_row_def text_field_def field_in_def field_is_def str_in_PStr del: dumps.simps set_map)
  qed
  then show ?thesis using that c fields(5) by metis
qed
lemma parse_rows_count:
  assumes "fold_out (parse_row U) (l, p, n) ls = Ret (l', p', n')"
  shows "n' = n + length ls"
  using assms
proof (induction ls arbitrary: l p n)
  case (Cons x xs)
  then obtain l2 p2 n2 where "parse_row U (l, p, n) x = Ret (l2, p2, n2)" "fold_out (parse_row U) (l2, p2, n2) xs = Ret (l', p', n')"
    by (auto simp: bind_eq_Ret)
  then show ?case using Cons.IH [of l2 p2 n2] by (auto elim!: parse_row_Ret)
qed simp

lemma journal_extends:
  assumes acc: "accepted_row U raw val state now receipt_digest latest key row digest"
  obtains row' previous n where "parse_journal U raw = Ret (latest, previous, n)"
    "parse_journal U (raw @ dumps (PDict row) @ [CHR 0x0A]) = Ret (latest(key \<mapsto> row'), digest, n + 1)"
    "map_of row' ''state'' = Some (PStr state)"
proof -
  obtain previous n where prs: "parse_journal U raw = Ret (latest, previous, n)" and n: "n < MAX_RECORDS"
    and size: "length raw + Suc (length (dumps (PDict row))) \<le> MAX_JOURNAL"
    using acc unfolding accepted_row_def by auto
  obtain row' where row': "parse_row U (latest, previous, n) (dumps (PDict row) @ [CHR 0x0A]) = Ret (latest(key \<mapsto> row'), digest, n + 1)"
    "map_of row' ''state'' = Some (PStr state)"
    using acc prs by (rule parse_row_encoded)
  have raw: "raw = [] \<or> last raw = CHR 0x0A" and f: "fold_out (parse_row U) (Map.empty, ZERO, 0) (split_lines raw) = Ret (latest, previous, n)"
    using prs by (auto simp: parse_journal_def Let_def bind_eq_Ret)
  have lines: "split_lines (raw @ dumps (PDict row) @ [CHR 0x0A]) = split_lines raw @ [dumps (PDict row) @ [CHR 0x0A]]"
    using split_lines_append [OF raw] split_lines_line [OF printable_dumps, of "PDict row" "[]"] by simp
  have "parse_journal U (raw @ dumps (PDict row) @ [CHR 0x0A]) = Ret (latest(key \<mapsto> row'), digest, n + 1)"
    using f row'(1) n size parse_rows_count [OF f]
    by (simp add: parse_journal_def Let_def lines fold_out_append del: dumps.simps)
  with that prs row'(2) show ?thesis by blast
qed

section \<open>The outcome of a transaction\<close>

lemma record_row_cases:
  assumes "record_row U io S b st now receipt_digest = (r, S')"
  obtains (refused) e where "r = Raise e" "S' = S"
  | (appended) state val latest key row digest where "st = PStr state" "validate_binding U b = Ret val"
      "accepted_row U (journal S) val state now receipt_digest latest key row digest"
      "journal S' = journal S @ on_disk io (dumps (PDict row) @ [CHR 0x0A])"
      "r = Ret digest \<and> on_disk io (dumps (PDict row) @ [CHR 0x0A]) = dumps (PDict row) @ [CHR 0x0A] \<or>
        poisoned S' \<and> (\<exists>e. r = Raise e)"
proof (cases "attempt U io S b st now receipt_digest")
  case (Raise e)
  then show ?thesis using assms refused [of e] by (auto simp: record_row_def)
next
  case (Ret ed)
  obtain encoded digest where ed: "ed = (encoded, digest)" by (cases ed)
  have "decide U (journal S) b st now receipt_digest = Ret (encoded, digest)"
    using Ret by (simp add: ed attempt_def bind_eq_Ret)
  then obtain state val latest key row where x: "st = PStr state" "validate_binding U b = Ret val"
    "accepted_row U (journal S) val state now receipt_digest latest key row digest"
    "encoded = dumps (PDict row) @ [CHR 0x0A]" by (rule decide_Ret)
  have full: "on_disk io encoded = encoded" if "write_outcome io (journal S) encoded = Ret ()"
    using that by (auto simp: write_outcome_def on_disk_def bind_eq_Ret split: if_splits option.splits)
  show ?thesis
  proof (cases "write_outcome io (journal S) encoded")
    case (Raise e)
    then show ?thesis using assms Ret appended [OF x(1-3)] x(4) by (auto simp: record_row_def ed Let_def)
  next
    case w: (Ret u)
    then show ?thesis using assms Ret appended [OF x(1-3)] full x(4) by (auto simp: record_row_def ed Let_def)
  qed
qed

lemma on_disk_prefix: "\<exists>n. on_disk io encoded = take n encoded"
  by (metis on_disk_def option.case_eq_if take_all_iff order_refl)

lemma record_row_appends: "\<exists>x. journal (snd (record_row U io S b st now rd)) = journal S @ x"
  by (cases "record_row U io S b st now rd") (auto elim!: record_row_cases)

lemma step_appends: "store_step U S T \<Longrightarrow> \<exists>x. journal T = journal S @ x"
  by (induction rule: store_step.induct)
     (simp_all add: reserve_nonce_def running_def terminal_def record_row_appends)

lemma steps_append: "(store_step U)\<^sup>*\<^sup>* S T \<Longrightarrow> \<exists>x. journal T = journal S @ x"
proof (induction rule: rtranclp_induct)
  case (step T V)
  then show ?case using step_appends [of U T V] by auto
qed simp

section \<open>Refinement\<close>

text \<open>The journal stands for the last state of every replay key; a damaged journal stands for nothing.\<close>

definition row_state :: "items \<Rightarrow> string option" where
  "row_state row = (case map_of row ''state'' of Some (PStr s) \<Rightarrow> Some s | _ \<Rightarrow> None)"

definition key_states :: "ucd \<Rightarrow> bytes \<Rightarrow> (string \<rightharpoonup> string) option" where
  "key_states U raw =
     (case parse_journal U raw of
        Raise _ \<Rightarrow> None
      | Ret (latest, _, _) \<Rightarrow> Some (\<lambda>k. Option.bind (latest k) row_state))"

text \<open>The abstract store: a new key is reserved, a known key moves along an edge, nothing is ever freed.\<close>

definition spec_allows :: "(string \<rightharpoonup> string) \<Rightarrow> string \<Rightarrow> string \<Rightarrow> bool" where
  "spec_allows m key state =
     (case m key of
        None \<Rightarrow> state = ''RESERVED''
      | Some s \<Rightarrow> (case map_of EDGES s of None \<Rightarrow> False | Some ts \<Rightarrow> state \<in> set ts))"

definition spec_writes :: "ucd \<Rightarrow> pyval \<Rightarrow> pyval \<Rightarrow> bytes \<Rightarrow> bytes \<Rightarrow> bool" where
  "spec_writes U b st before after \<longleftrightarrow>
     (\<exists>m val key state. st = PStr state \<and> validate_binding U b = Ret val \<and> replay_key U (PDict val) = Ret key \<and>
        key_states U before = Some m \<and> spec_allows m key state \<and> key_states U after = Some (m(key \<mapsto> state)))"

lemma text_field_Ret: "text_field d k = Ret s \<longleftrightarrow> map_of d k = Some (PStr s)"
  by (auto simp: text_field_def bind_eq_Ret field_eq_Ret case_Ret)

lemma admitted_allows:
  assumes "admitted val state instant prior bd = Ret ()"
  shows "case Option.bind prior row_state of None \<Rightarrow> state = ''RESERVED''
    | Some s \<Rightarrow> (case map_of EDGES s of None \<Rightarrow> False | Some ts \<Rightarrow> state \<in> set ts)"
proof (cases prior)
  case None
  then show ?thesis using assms by (auto simp: admitted_def refuse_def split: if_splits)
next
  case (Some p)
  then have "state \<noteq> ''RESERVED''" using assms by (auto simp: admitted_def bind_eq_Ret)
  then have "bind (bind (text_field p ''state'') edges_of) (\<lambda>ts. Ret (state \<in> set ts)) = Ret True"
    using assms Some by (simp add: admitted_def bind_eq_Ret requires_eq_Ret and_also_True)
  then obtain s ts where "map_of p ''state'' = Some (PStr s)" "edges_of s = Ret ts" "state \<in> set ts"
    by (auto simp: bind_eq_Ret text_field_Ret)
  then show ?thesis using Some by (auto simp: row_state_def edges_of_def split: option.splits)
qed

lemma accepted_writes:
  assumes acc: "accepted_row U raw val state now rd latest key row digest" and val: "validate_binding U b = Ret val"
  shows "spec_writes U b (PStr state) raw (raw @ dumps (PDict row) @ [CHR 0x0A])"
proof -
  obtain row' previous n where p: "parse_journal U raw = Ret (latest, previous, n)"
    "parse_journal U (raw @ dumps (PDict row) @ [CHR 0x0A]) = Ret (latest(key \<mapsto> row'), digest, n + 1)"
    "map_of row' ''state'' = Some (PStr state)"
    using acc by (rule journal_extends)
  let ?m = "\<lambda>k. Option.bind (latest k) row_state"
  have "(\<lambda>k. Option.bind ((latest(key \<mapsto> row')) k) row_state) = ?m(key \<mapsto> state)"
    using p(3) by (auto simp: row_state_def)
  then have after: "key_states U (raw @ dumps (PDict row) @ [CHR 0x0A]) = Some (?m(key \<mapsto> state))"
    using p(2) by (simp add: key_states_def del: dumps.simps)
  obtain instant bd where "replay_key U (PDict val) = Ret key" "admitted val state instant (latest key) bd = Ret ()"
    using acc unfolding accepted_row_def by blast
  then have "spec_allows ?m key state" using admitted_allows by (simp add: spec_allows_def)
  with \<open>replay_key U (PDict val) = Ret key\<close> val after p(1) show ?thesis
    unfolding spec_writes_def by (auto simp: key_states_def)
qed

text \<open>A row that did not reach the file whole leaves no final newline, and the journal is refused.\<close>

lemma partial_row:
  assumes "n < length (dumps v @ [CHR 0x0A])" "n \<noteq> 0"
  shows "key_states U (raw @ take n (dumps v @ [CHR 0x0A])) = None"
proof -
  have t: "take n (dumps v @ [CHR 0x0A]) = take n (dumps v)" using assms(1) by simp
  then have "take n (dumps v) \<noteq> []" using assms by (cases "dumps v") auto
  moreover have "last (take n (dumps v)) \<noteq> CHR 0x0A"
  proof
    assume "last (take n (dumps v)) = CHR 0x0A"
    then have "CHR 0x0A \<in> set (dumps v)" using last_in_set [OF calculation] by (metis in_set_takeD)
    then show False using printable_dumps [of v] by (auto simp: printable_def list_all_iff dest!: bspec)
  qed
  ultimately have "parse_journal U (raw @ take n (dumps v)) \<noteq> Ret st" for st
    by (simp add: parse_journal_def bind_eq_Ret)
  then show ?thesis unfolding t key_states_def by (cases "parse_journal U (raw @ take n (dumps v))") auto
qed

lemma record_row_writes:
  "case record_row U io S b st now rd of
     (r, T) \<Rightarrow>
       (case r of
          Ret _ \<Rightarrow> spec_writes U b st (journal S) (journal T)
        | Raise _ \<Rightarrow> T = S \<or> poisoned T \<and> (journal T = journal S \<or> key_states U (journal T) = None \<or>
            spec_writes U b st (journal S) (journal T)))"
proof (cases "record_row U io S b st now rd")
  case (Pair r T)
  then show ?thesis
  proof (cases rule: record_row_cases)
    case refused
    then show ?thesis using Pair by simp
  next
    case (appended state val latest key row digest)
    let ?enc = "dumps (PDict row) @ [CHR 0x0A]"
    have w: "spec_writes U b st (journal S) (journal S @ ?enc)"
      using accepted_writes [OF appended(3,2)] by (simp add: appended(1))
    obtain n where n: "on_disk io ?enc = take n ?enc" using on_disk_prefix by blast
    consider "on_disk io ?enc = []" | "on_disk io ?enc = ?enc" | "n < length ?enc" "n \<noteq> 0"
      using n by (metis leI take_all take_eq_Nil)
    then show ?thesis
      using Pair appended(4,5) w n partial_row [of n "PDict row" U "journal S"]
      by cases (auto simp del: dumps.simps split: outcome.splits)
  qed
qed

section \<open>Nonces\<close>

text \<open>The replay key depends on the tenant and the nonce of a binding only.\<close>

lemma validate_binding_again:
  assumes "validate_binding U b = Ret val" "validate_binding U (PDict val) = Ret v2"
  shows "v2 = val"
proof -
  have doc: "data_document U b MAX_SESSION_BYTES = Ret val" using assms(1) by (auto simp: validate_binding_def bind_eq_Ret)
  have "data_document U (PDict val) MAX_SESSION_BYTES = Ret v2" using assms(2) by (auto simp: validate_binding_def bind_eq_Ret)
  then have "PDict v2 = canon (PDict val)"
    using data_document_Ret [OF data_document_canonical(3) [OF doc], of MAX_SESSION_BYTES U v2] by simp
  then show ?thesis using data_document_canonical(2) [OF doc] by (simp del: canon.simps)
qed

lemma replay_key_fields:
  assumes "validate_binding U b = Ret val" "replay_key U (PDict val) = Ret key"
  obtains t n where "map_of val ''tenantId'' = Some t" "map_of val ''nonce'' = Some n"
    "canonical_digest U (PDict [(''tenantId'', t), (''nonce'', n)]) (Some ''planeon.live-replay-key/v1alpha1'') = Ret key"
proof -
  from assms(2) obtain v2 t n where v2: "validate_binding U (PDict val) = Ret v2"
    and f: "map_of v2 ''tenantId'' = Some t" "map_of v2 ''nonce'' = Some n"
    "canonical_digest U (PDict [(''tenantId'', t), (''nonce'', n)]) (Some ''planeon.live-replay-key/v1alpha1'') = Ret key"
    by (auto simp: replay_key_def bind_eq_Ret field_eq_Ret)
  have "v2 = val" using assms(1) v2 by (rule validate_binding_again)
  with that f show ?thesis by blast
qed

lemma reserve_Ret:
  assumes "fst (reserve_nonce U io S b now) = Ret d"
  obtains val latest key row where "validate_binding U b = Ret val"
    "accepted_row U (journal S) val ''RESERVED'' now PNone latest key row d"
    "journal (snd (reserve_nonce U io S b now)) = journal S @ dumps (PDict row) @ [CHR 0x0A]"
proof (cases "reserve_nonce U io S b now")
  case (Pair r T)
  then have "record_row U io S b (PStr ''RESERVED'') now PNone = (r, T)" by (simp add: reserve_nonce_def)
  then show ?thesis
    by (cases rule: record_row_cases) (use assms that Pair in auto)
qed

lemma reserved_is_new:
  assumes "accepted_row U raw val ''RESERVED'' now rd latest key row d"
  shows "latest key = None"
  using assms by (auto simp: accepted_row_def admitted_def bind_eq_Ret)

lemma nonce_consumed:
  assumes first: "fst (reserve_nonce U io S b now) = Ret d" "validate_binding U b = Ret val"
    and steps: "(store_step U)\<^sup>*\<^sup>* (snd (reserve_nonce U io S b now)) T"
    and same: "validate_binding U b' = Ret val'" "map_of val' ''tenantId'' = map_of val ''tenantId''"
      "map_of val' ''nonce'' = map_of val ''nonce''"
  shows "fst (reserve_nonce U io' T b' now') \<noteq> Ret d'"
proof
  assume second: "fst (reserve_nonce U io' T b' now') = Ret d'"
  obtain latest key row where a: "accepted_row U (journal S) val ''RESERVED'' now PNone latest key row d"
    "journal (snd (reserve_nonce U io S b now)) = journal S @ dumps (PDict row) @ [CHR 0x0A]"
    using first by (auto elim!: reserve_Ret)
  obtain latest' key' row' where a': "accepted_row U (journal T) val' ''RESERVED'' now' PNone latest' key' row' d'"
    using second same(1) by (auto elim!: reserve_Ret)
  have k: "replay_key U (PDict val) = Ret key" "replay_key U (PDict val') = Ret key'"
    using a(1) a' by (auto simp: accepted_row_def)
  have "key' = key"
    using replay_key_fields [OF first(2) k(1)] replay_key_fields [OF same(1) k(2)] same(2,3)
    by (metis option.inject outcome.inject(2))
  obtain x where x: "journal T = (journal S @ dumps (PDict row) @ [CHR 0x0A]) @ x"
    using steps_append [OF steps] a(2) by auto
  obtain r n p m q where w: "parse_journal U (journal S @ dumps (PDict row) @ [CHR 0x0A]) = Ret (latest(key \<mapsto> r), p, n)"
    and t: "parse_journal U (journal T) = Ret (latest', q, m)"
    using a(1) a' by (metis journal_extends)
  obtain mid where "fold_out (parse_row U) (Map.empty, ZERO, 0) (split_lines (journal S @ dumps (PDict row) @ [CHR 0x0A])) = Ret mid"
    "fold_out (parse_row U) mid (split_lines x) = Ret (latest', q, m)"
    using t unfolding x by (rule parse_journal_append) simp
  moreover have "mid = (latest(key \<mapsto> r), p, n)"
    using calculation(1) w by (simp add: parse_journal_def bind_eq_Ret Let_def)
  ultimately have "key \<in> dom latest'" using parse_rows_keep by fastforce
  then show False using reserved_is_new [OF a'] \<open>key' = key\<close> by (simp add: domIff)
qed

section \<open>Every reachable journal\<close>

text \<open>A journal is a valid one followed by at most one incomplete row.\<close>

definition journal_ok :: "ucd \<Rightarrow> store \<Rightarrow> bool" where
  "journal_ok U S \<longleftrightarrow>
     (\<exists>good tail. journal S = good @ tail \<and> (\<exists>st. parse_journal U good = Ret st) \<and> CHR 0x0A \<notin> set tail)"

lemma record_row_ok:
  assumes "journal_ok U S"
  shows "journal_ok U (snd (record_row U io S b st now rd))"
proof (cases "record_row U io S b st now rd")
  case (Pair r T)
  then show ?thesis
  proof (cases rule: record_row_cases)
    case refused
    then show ?thesis using Pair assms by simp
  next
    case (appended state val latest key row digest)
    let ?enc = "dumps (PDict row) @ [CHR 0x0A]"
    obtain row' p n where good: "parse_journal U (journal S) = Ret (latest, p, n)"
      "parse_journal U (journal S @ ?enc) = Ret (latest(key \<mapsto> row'), digest, n + 1)"
      using appended(3) by (rule journal_extends)
    obtain k where k: "on_disk io ?enc = take k ?enc" using on_disk_prefix by blast
    show ?thesis
    proof (cases "k < length ?enc")
      case True
      then have "on_disk io ?enc = take k (dumps (PDict row))" using k by simp
      moreover have "CHR 0x0A \<notin> set (dumps (PDict row))"
        using printable_dumps [of "PDict row"] by (auto simp: printable_def list_all_iff dest!: bspec)
      ultimately show ?thesis
        unfolding journal_ok_def using Pair appended(4) good(1) by (fastforce dest: in_set_takeD)
    next
      case False
      then have "journal T = (journal S @ ?enc) @ []" using appended(4) k by simp
      then show ?thesis unfolding journal_ok_def using Pair good(2) by (metis list.set(1) empty_iff snd_conv)
    qed
  qed
qed

lemma step_ok: "store_step U S T \<Longrightarrow> journal_ok U S \<Longrightarrow> journal_ok U T"
proof (induction rule: store_step.induct)
  case (step_restart S)
  then show ?case by (simp add: journal_ok_def)
qed (simp_all add: reserve_nonce_def running_def terminal_def record_row_ok)

lemma empty_ok: "journal S = [] \<Longrightarrow> journal_ok U S"
  by (force simp: journal_ok_def parse_journal_def MAX_JOURNAL_def MAX_RECORDS_def)

interpretation replay: invariant_system "\<lambda>S. journal S = []" "store_step U" "journal_ok U" for U
  by unfold_locales (auto intro: empty_ok step_ok)

section \<open>Properties\<close>

text \<open>C9: a recorded transition is one of the abstract store, a map from replay keys to states in which
  a new key is reserved and a known key moves along an edge; a failed one leaves the store as it was,
  or has poisoned the process and left the journal as it was, damaged so that no reader accepts it, or after
  the same abstract step.\<close>

theorem replay_refines:
  "case record_row U io S b st now rd of
     (r, T) \<Rightarrow>
       (case r of
          Ret _ \<Rightarrow> spec_writes U b st (journal S) (journal T)
        | Raise _ \<Rightarrow> T = S \<or> poisoned T \<and> (journal T = journal S \<or> key_states U (journal T) = None \<or>
            spec_writes U b st (journal S) (journal T)))"
  by (rule record_row_writes)

text \<open>C1: a tenant's nonce is reserved at most once, whatever happens in between: other operations,
  partial writes, failed syncs, restarts.\<close>

theorem nonce_single_use:
  "\<not> (\<exists>io b val now d T io' b' val' now' d'.
        fst (reserve_nonce U io S b now) = Ret d \<and> validate_binding U b = Ret val \<and>
        (store_step U)\<^sup>*\<^sup>* (snd (reserve_nonce U io S b now)) T \<and>
        validate_binding U b' = Ret val' \<and> map_of val' ''tenantId'' = map_of val ''tenantId'' \<and>
        map_of val' ''nonce'' = map_of val ''nonce'' \<and> fst (reserve_nonce U io' T b' now') = Ret d')"
  using nonce_consumed by blast

text \<open>C35: every journal that grows from an empty one, through any operations, faults and restarts, is a
  valid journal followed by at most one incomplete row.\<close>

theorem reachable_journal_valid:
  assumes "reachable (\<lambda>S. journal S = []) (store_step U) S"
  shows "\<exists>good tail. journal S = good @ tail \<and> (\<exists>st. parse_journal U good = Ret st) \<and> CHR 0x0A \<notin> set tail"
  using replay.reachable_inv [OF assms] by (simp add: journal_ok_def)

theorem reachable_journal_valid_witness:
  "\<exists>good tail. journal \<lparr>journal = [], poisoned = False\<rparr> = good @ tail \<and>
     (\<exists>st. parse_journal id good = Ret st) \<and> CHR 0x0A \<notin> set tail"
proof (rule reachable_journal_valid)
  have "reachable (\<lambda>S. journal S = []) (store_step id) \<lparr>journal = [], poisoned = True\<rparr>"
    by (rule reach_init) simp
  moreover have "store_step id \<lparr>journal = [], poisoned = True\<rparr> \<lparr>journal = [], poisoned = False\<rparr>"
    using step_restart [of id "\<lparr>journal = [], poisoned = True\<rparr>"] by simp
  ultimately show "reachable (\<lambda>S. journal S = []) (store_step id) \<lparr>journal = [], poisoned = False\<rparr>"
    by (rule reach_step)
qed

end
