(* ===== verification/BackendAuthority.thy ===== *)
theory BackendAuthority
  imports Session
begin

text \<open>
  \<open>src/src/harness_conformance/live_backend_authority.py\<close>: the authority of packet CONF-LIVE-006 and the
  session binding derived from it, whose window is the intersection of all signed windows.
\<close>

definition PACKET_ID :: string where
  "PACKET_ID = ''CONF-LIVE-006''"

definition BACKEND_PACKET_DIGEST :: string where
  "BACKEND_PACKET_DIGEST = ''sha256:f95c277cffdfb622f45a1b4b91a5292d9d9a5bfabc8f9388b3899cbb20c5213d''"

definition SUITE_ROOTS :: "string list" where
  "SUITE_ROOTS =
     [''tests/meta'', ''tests/parity'', ''tests/alpha1'', ''tests/fixes/runner_boundary'',
      ''tests/platform/linux_baseline'', ''tests/live_backend'']"

definition BACKEND_COMMANDS :: pyval where
  "BACKEND_COMMANDS =
     PList (map (\<lambda>words. PList (map PStr words))
       (map (\<lambda>root. [''python3'', ''-m'', ''unittest'', ''discover'', ''-s'', root, ''-p'', ''test_*.py'']) SUITE_ROOTS @
        [[''make'', ''campaign'', ''CAMPAIGN=linux-baseline''],
         [''make'', ''evidence-verify'', ''CAMPAIGN=linux-baseline'']]))"

definition backend_envelope_scope :: "items \<Rightarrow> datetime \<Rightarrow> unit outcome" where
  "backend_envelope_scope e now =
     bind (bind (field e ''issuedAt'') linux_time) (\<lambda>_.
     bind (requires
       (and_also (field_is e ''packetId'' (PStr PACKET_ID))
       (and_also (field_is e ''packetDigest'' (PStr BACKEND_PACKET_DIGEST))
       (and_also (field_is e ''campaignId'' (PStr ''linux-baseline''))
       (and_also (field_is e ''commands'' BACKEND_COMMANDS)
         (field_is e ''allowedEvidenceAxes'' (PList (map PStr LINUX_AXES)))))))
       ''BACKEND_ENVELOPE_SCOPE_MISMATCH'') (\<lambda>_.
     bind (requires (bind (bind (field e ''expiresAt'') linux_time) (time_less now)) ''BACKEND_ENVELOPE_EXPIRED'') (\<lambda>_.
       for_each (\<lambda>name. bind (bind (field e name) require_id) (\<lambda>_. Ret ()))
         [''tenantId'', ''environmentId'', ''nonce'', ''capacityAuthorizationId''])))"

definition backend_digests :: "items \<Rightarrow> bytes \<Rightarrow> bytes \<Rightarrow> bytes \<Rightarrow> unit outcome" where
  "backend_digests e capacity_bytes release_trust_bytes tenant_trust_bytes =
     for_each (\<lambda>(raw, name). requires (field_is e name (PStr (byte_digest raw))) ''BACKEND_AUTHORITY_DIGEST_MISMATCH'')
       [(capacity_bytes, ''capacityAuthorizationDigest''), (release_trust_bytes, ''releaseTrustStoreDigest''),
        (tenant_trust_bytes, ''tenantTrustStoreDigest'')]"

definition backend_capacity_scope :: "items \<Rightarrow> items \<Rightarrow> datetime \<Rightarrow> unit outcome" where
  "backend_capacity_scope e c now =
     bind (bind (field c ''validFrom'') linux_time) (\<lambda>_.
     bind (requires (bind (bind (field c ''expiresAt'') linux_time) (time_less now)) ''BACKEND_CAPACITY_EXPIRED'') (\<lambda>_.
     bind (for_each (\<lambda>name. bind (bind (field c name) require_id) (\<lambda>_. Ret ()))
             [''nonce'', ''namespace'', ''operatorId'']) (\<lambda>_.
     bind (requires (bind (bind (field c ''permittedEndpointIds'') iter_of) (\<lambda>xs.
             bind (py_set xs) (\<lambda>s. Ret (length xs = length s)))) ''BACKEND_DUPLICATE_ENDPOINT'') (\<lambda>_.
     bind (bind (field e ''endpoints'') iter_of) (for_each (\<lambda>x.
       bind (bind (item x ''endpointId'') require_id) (\<lambda>_. Ret ())))))))"

definition backend_key :: "pyval list \<Rightarrow> pyval \<Rightarrow> pyval list outcome" where
  "backend_key seen x =
     bind (require_object x) (\<lambda>key.
     bind (closed key KEY_FIELDS []) (\<lambda>_.
     bind (bind (field key ''keyId'') require_key_id) (\<lambda>_.
     bind (field key ''keyId'') (\<lambda>key_id.
     bind (requires (and_also (Ret (\<not> py_in key_id seen)) (bind (field key ''revoked'') (\<lambda>r. Ret (is_bool r))))
             ''BACKEND_TRUST_INVALID'') (\<lambda>_.
     bind (bind (field key ''owner'') require_id) (\<lambda>_.
     bind (requires (bind (bind (field key ''validFrom'') linux_time) (\<lambda>a.
             bind (bind (field key ''validUntil'') linux_time) (time_less a))) ''BACKEND_TRUST_WINDOW_INVALID'') (\<lambda>_.
     bind (bind (field key ''publicKey'') (\<lambda>p. b64url_decode p 32)) (\<lambda>_. Ret (key_id # seen)))))))))"

definition backend_trust :: "pyval \<Rightarrow> unit outcome" where
  "backend_trust v =
     bind (require_object v) (\<lambda>trust.
     bind (closed trust [''schemaVersion'', ''keys'', ''revocationsDigest''] []) (\<lambda>_.
     bind (field trust ''keys'') (\<lambda>ks.
     bind (require (case ks of PList xs \<Rightarrow> 0 < length xs \<and> length xs \<le> 128 | _ \<Rightarrow> False) ''BACKEND_TRUST_INVALID'') (\<lambda>_.
     bind (bind (iter_of ks) (fold_out backend_key [])) (\<lambda>_. Ret ())))))"

text \<open>\<open>next(item for item in trust["keys"] if item["keyId"] == key_id)\<close>\<close>

fun first_key :: "pyval \<Rightarrow> pyval list \<Rightarrow> pyval outcome" where
  "first_key key_id [] = Raise StopIteration"
| "first_key key_id (x # xs) =
     bind (item_is x ''keyId'' key_id) (\<lambda>b. if b then Ret x else first_key key_id xs)"

definition selected_keys :: "items \<Rightarrow> items \<Rightarrow> pyval \<Rightarrow> pyval \<Rightarrow> pyval list outcome" where
  "selected_keys e c release_trust tenant_trust =
     bind (field e ''platformSignerKeyId'') (\<lambda>p.
     bind (field e ''tenantSignerKeyId'') (\<lambda>t.
     bind (field c ''signerKeyId'') (\<lambda>k.
       map_out (\<lambda>(trust, key_id). bind (bind (item trust ''keys'') iter_of) (first_key key_id))
         [(release_trust, p), (tenant_trust, t), (tenant_trust, k)])))"

definition backend_signers :: "items \<Rightarrow> items \<Rightarrow> pyval \<Rightarrow> pyval \<Rightarrow> datetime \<Rightarrow> unit outcome" where
  "backend_signers e c release_trust tenant_trust now =
     bind (selected_keys e c release_trust tenant_trust) (\<lambda>selected.
     bind (requires (all_out (\<lambda>key. bind (bind (item key ''validUntil'') linux_time) (time_less now)) selected)
             ''BACKEND_TRUST_EXPIRED'') (\<lambda>_.
     bind (map_out (\<lambda>key. item key ''owner'') selected) (\<lambda>owners.
     bind (py_set owners) (\<lambda>s. require (length s = 3) ''BACKEND_SIGNER_OWNERS_NOT_INDEPENDENT''))))"

definition verify_backend_authority ::
  "ucd \<Rightarrow> bytes \<Rightarrow> bytes \<Rightarrow> bytes \<Rightarrow> bytes \<Rightarrow> datetime \<Rightarrow> (items \<times> items \<times> pyval \<times> pyval) outcome" where
  "verify_backend_authority U envelope_bytes capacity_bytes release_trust_bytes tenant_trust_bytes now =
     catching malformed ''BACKEND_AUTHORITY_MALFORMED''
       (bind (require (utc_offset now = Some 0) ''BACKEND_TIME_INVALID'') (\<lambda>_.
        bind (bind (require_canonical_document U envelope_bytes) (\<lambda>d. validate_envelope U d now)) (\<lambda>e.
        bind (backend_envelope_scope e now) (\<lambda>_.
        bind (backend_digests e capacity_bytes release_trust_bytes tenant_trust_bytes) (\<lambda>_.
        bind (bind (require_canonical_document U capacity_bytes) (\<lambda>d. validate_capacity d e now)) (\<lambda>c.
        bind (backend_capacity_scope e c now) (\<lambda>_.
        bind (require_canonical_document U release_trust_bytes) (\<lambda>release_trust.
        bind (require_canonical_document U tenant_trust_bytes) (\<lambda>tenant_trust.
        bind (for_each backend_trust [release_trust, tenant_trust]) (\<lambda>_.
        bind (verify_live_signatures U e c release_trust tenant_trust now) (\<lambda>_.
        bind (backend_signers e c release_trust tenant_trust now) (\<lambda>_.
          Ret (e, c, release_trust, tenant_trust)))))))))))))"

section \<open>The session binding\<close>

text \<open>\<open>max(values, key=require_time)\<close> and \<open>min\<close>: the first extreme value.\<close>

fun latest_time :: "pyval \<Rightarrow> datetime \<Rightarrow> pyval list \<Rightarrow> pyval outcome" where
  "latest_time best key [] = Ret best"
| "latest_time best key (v # vs) =
     bind (linux_time v) (\<lambda>t. bind (time_less key t) (\<lambda>later.
       if later then latest_time v t vs else latest_time best key vs))"

fun earliest_time :: "pyval \<Rightarrow> datetime \<Rightarrow> pyval list \<Rightarrow> pyval outcome" where
  "earliest_time best key [] = Ret best"
| "earliest_time best key (v # vs) =
     bind (linux_time v) (\<lambda>t. bind (time_less t key) (\<lambda>earlier.
       if earlier then earliest_time v t vs else earliest_time best key vs))"

definition max_time :: "pyval list \<Rightarrow> pyval outcome" where
  "max_time vs = (case vs of [] \<Rightarrow> Raise ValueError | v # ws \<Rightarrow> bind (linux_time v) (\<lambda>t. latest_time v t ws))"

definition min_time :: "pyval list \<Rightarrow> pyval outcome" where
  "min_time vs = (case vs of [] \<Rightarrow> Raise ValueError | v # ws \<Rightarrow> bind (linux_time v) (\<lambda>t. earliest_time v t ws))"

record backend_input =
  bk_envelope :: bytes
  bk_capacity :: bytes
  bk_release_trust :: bytes
  bk_tenant_trust :: bytes
  bk_release :: bytes
  bk_plan :: bytes
  bk_architecture :: string
  bk_nonce :: pyval
  bk_tenant :: pyval
  bk_environment :: pyval
  bk_expected_release :: pyval
  bk_now :: pyval

definition backend_plan :: "ucd \<Rightarrow> backend_input \<Rightarrow> items \<Rightarrow> items \<Rightarrow> items outcome" where
  "backend_plan U A e c =
     bind (requires
       (and_also (field_is e ''nonce'' (bk_nonce A))
       (and_also (field_is e ''tenantId'' (bk_tenant A))
       (and_also (field_is e ''environmentId'' (bk_environment A))
         (field_is e ''campaignReleaseDigest'' (bk_expected_release A))))) ''BACKEND_EXPECTED_SUBJECT_MISMATCH'') (\<lambda>_.
     bind (require (py_eq (PStr (byte_digest (bk_release A))) (bk_expected_release A)) ''BACKEND_RELEASE_DIGEST_MISMATCH'') (\<lambda>_.
     bind (require_canonical_document U (bk_release A)) (\<lambda>release.
     bind (release_plan U release (bk_plan A) e (bk_architecture A)) (\<lambda>plan.
     bind (requires (bind (field plan ''target'') (\<lambda>t. item_is t ''architecture'' (PStr (bk_architecture A))))
             ''BACKEND_ARCHITECTURE_MISMATCH'') (\<lambda>_.
     bind (requires (and_also (same_field plan ''namespace'' c ''namespace'')
             (same_field plan ''serviceAccountSubject'' c ''serviceAccountSubject'')) ''BACKEND_PLAN_SCOPE_MISMATCH'') (\<lambda>_.
     bind (requires (bind (item release ''endpointPolicyDigests'') (\<lambda>policies.
             bind (bind (field e ''endpoints'') iter_of) (\<lambda>xs.
             bind (map_out (\<lambda>x. item x ''authorizationPolicyDigest'') xs) (\<lambda>ps.
             bind (sorted_texts ps) (\<lambda>s. Ret (py_eq policies s)))))) ''BACKEND_ENDPOINT_POLICY_MISMATCH'') (\<lambda>_.
     bind (for_each (\<lambda>cas. bind (build_probe_request U e c plan (PStr cas)) (\<lambda>_. Ret ())) CASES) (\<lambda>_.
       Ret plan))))))))"

definition binding_window :: "items \<Rightarrow> items \<Rightarrow> pyval \<Rightarrow> pyval \<Rightarrow> datetime \<Rightarrow> (pyval \<times> pyval) outcome" where
  "binding_window e c release_trust tenant_trust instant =
     bind (field e ''issuedAt'') (\<lambda>issued. bind (field c ''validFrom'') (\<lambda>valid_from.
     bind (field e ''expiresAt'') (\<lambda>expires. bind (field c ''expiresAt'') (\<lambda>capacity_expires.
     bind (selected_keys e c release_trust tenant_trust) (\<lambda>selected.
     bind (map_out (\<lambda>k. item k ''validFrom'') selected) (\<lambda>starts.
     bind (map_out (\<lambda>k. item k ''validUntil'') selected) (\<lambda>ends.
     bind (max_time (issued # valid_from # starts)) (\<lambda>start.
     bind (min_time (expires # capacity_expires # ends)) (\<lambda>finish.
     bind (requires (and_also (bind (linux_time start) (\<lambda>s. time_le s instant))
             (bind (linux_time finish) (\<lambda>f. time_less instant f))) ''BACKEND_WINDOW_EXPIRED'') (\<lambda>_.
       Ret (start, finish)))))))))))"

definition binding_from_authority :: "ucd \<Rightarrow> backend_input \<Rightarrow> items outcome" where
  "binding_from_authority U A =
     catching malformed ''BACKEND_AUTHORITY_MALFORMED''
       (bind (require (bk_architecture A \<in> set ARCHITECTURES) ''BACKEND_ARCHITECTURE_INVALID'') (\<lambda>_.
        bind (linux_time (bk_now A)) (\<lambda>instant.
        bind (verify_backend_authority U (bk_envelope A) (bk_capacity A) (bk_release_trust A) (bk_tenant_trust A) instant)
          (\<lambda>(e, c, release_trust, tenant_trust).
        bind (backend_plan U A e c) (\<lambda>plan.
        bind (binding_window e c release_trust tenant_trust instant) (\<lambda>(start, finish).
        bind (field e ''nonce'') (\<lambda>nonce. bind (field e ''tenantId'') (\<lambda>tenant.
        bind (field e ''environmentId'') (\<lambda>environment. bind (field e ''commandSetDigest'') (\<lambda>commands.
        bind (field e ''capacityAuthorizationDigest'') (\<lambda>capacity. bind (field plan ''endpointId'') (\<lambda>endpoint.
        bind (field c ''namespace'') (\<lambda>namespace.
          validate_binding U (PDict
            [(''nonce'', nonce), (''tenantId'', tenant), (''environmentId'', environment),
             (''packetDigest'', PStr BACKEND_PACKET_DIGEST), (''commandSetDigest'', commands),
             (''releaseDigest'', bk_expected_release A), (''capacityDigest'', capacity), (''endpointId'', endpoint),
             (''namespace'', namespace), (''notBefore'', start), (''notAfter'', finish)]))))))))))))))"

end
