(* ===== verification/BackendLaws.thy ===== *)
theory BackendLaws
  imports BackendAuthority ReplayLaws
begin

text \<open>
  The binding that \<open>live_backend_authority.py\<close> derives for a session: its window is the intersection of
  all signed windows, and its fields are those of the verified authority.
\<close>

section \<open>Extremes\<close>

definition not_after :: "pyval \<Rightarrow> pyval \<Rightarrow> bool" where
  "not_after v w = (case (linux_time v, linux_time w) of (Ret s, Ret t) \<Rightarrow> utc_us s \<le> utc_us t | _ \<Rightarrow> False)"

lemma latest_time_Ret:
  assumes "latest_time best t vs = Ret v" "linux_time best = Ret t"
  shows "v \<in> set (best # vs) \<and> list_all (\<lambda>w. not_after w v) (best # vs)"
  using assms
proof (induction vs arbitrary: best t)
  case Nil
  then show ?case by (simp add: not_after_def)
next
  case (Cons x xs)
  then obtain u later where u: "linux_time x = Ret u" "time_less t u = Ret later"
    and r: "(if later then latest_time x u xs else latest_time best t xs) = Ret v"
    by (auto simp: bind_eq_Ret)
  show ?case
  proof (cases later)
    case True
    then have "v \<in> set (x # xs) \<and> list_all (\<lambda>w. not_after w v) (x # xs)" "utc_us t < utc_us u"
      using Cons.IH [of x u] r u by (simp_all add: time_less_True)
    then show ?thesis using Cons.prems(2) u(1) by (auto simp: not_after_def split: outcome.splits)
  next
    case False
    then have "v \<in> set (best # xs) \<and> list_all (\<lambda>w. not_after w v) (best # xs)" "\<not> utc_us t < utc_us u"
      using Cons.IH [of best t] Cons.prems(2) r u by (simp_all add: time_less_True)
    then show ?thesis using Cons.prems(2) u(1) by (auto simp: not_after_def split: outcome.splits)
  qed
qed

lemma earliest_time_Ret:
  assumes "earliest_time best t vs = Ret v" "linux_time best = Ret t"
  shows "v \<in> set (best # vs) \<and> list_all (\<lambda>w. not_after v w) (best # vs)"
  using assms
proof (induction vs arbitrary: best t)
  case Nil
  then show ?case by (simp add: not_after_def)
next
  case (Cons x xs)
  then obtain u earlier where u: "linux_time x = Ret u" "time_less u t = Ret earlier"
    and r: "(if earlier then earliest_time x u xs else earliest_time best t xs) = Ret v"
    by (auto simp: bind_eq_Ret)
  show ?case
  proof (cases earlier)
    case True
    then have "v \<in> set (x # xs) \<and> list_all (\<lambda>w. not_after v w) (x # xs)" "utc_us u < utc_us t"
      using Cons.IH [of x u] r u by (simp_all add: time_less_True)
    then show ?thesis using Cons.prems(2) u(1) by (auto simp: not_after_def split: outcome.splits)
  next
    case False
    then have "v \<in> set (best # xs) \<and> list_all (\<lambda>w. not_after v w) (best # xs)" "\<not> utc_us u < utc_us t"
      using Cons.IH [of best t] Cons.prems(2) r u by (simp_all add: time_less_True)
    then show ?thesis using Cons.prems(2) u(1) by (auto simp: not_after_def split: outcome.splits)
  qed
qed

lemma max_time_Ret: "max_time vs = Ret v \<Longrightarrow> v \<in> set vs \<and> list_all (\<lambda>w. not_after w v) vs"
  by (auto simp: max_time_def bind_eq_Ret split: list.splits dest!: latest_time_Ret)

lemma min_time_Ret: "min_time vs = Ret v \<Longrightarrow> v \<in> set vs \<and> list_all (\<lambda>w. not_after v w) vs"
  by (auto simp: min_time_def bind_eq_Ret split: list.splits dest!: earliest_time_Ret)

section \<open>Ordinary failures\<close>

lemma ordinary_first_key:
  assumes "filter (key_matches k) xs \<noteq> []"
  shows "ordinary (first_key k xs)"
  using assms
proof (induction xs)
  case (Cons x xs)
  show ?case
  proof (cases "key_matches k x")
    case True
    then obtain d where x: "x = PDict d" by (cases x) (auto simp: key_matches_def)
    with True show ?thesis
      by (cases "map_of d ''keyId''") (auto simp: key_matches_def item_is_def split: option.split intro!: ordinary_intros)
  next
    case False
    with Cons show ?thesis by (auto intro!: ordinary_intros)
  qed
qed simp

lemma ordinary_key_of:
  assumes "trusted t k p x y now public"
  shows "ordinary (bind (bind (item t ''keys'') iter_of) (first_key k))"
  using assms unfolding trusted_def by (auto simp: bind_eq_Ret intro!: ordinary_first_key)

lemma ordinary_selected_keys:
  assumes "authorised U edom cdom e c rt tt now"
  shows "ordinary (selected_keys e c rt tt)"
proof -
  from assms obtain p t k where f: "map_of e ''platformSignerKeyId'' = Some p"
    "map_of e ''tenantSignerKeyId'' = Some t" "map_of c ''signerKeyId'' = Some k"
    and o: "ordinary (bind (bind (item rt ''keys'') iter_of) (first_key p))"
      "ordinary (bind (bind (item tt ''keys'') iter_of) (first_key t))"
      "ordinary (bind (bind (item tt ''keys'') iter_of) (first_key k))"
    unfolding authorised_def using ordinary_key_of by blast
  then show ?thesis
    unfolding selected_keys_def
    by (auto simp del: bind_assoc map_out.simps intro!: ordinary_map_out)
qed

lemma ordinary_backend_parts [simp, ordinary_intros]:
  "ordinary (backend_envelope_scope e now)" "ordinary (backend_digests e a b d)" "ordinary (backend_capacity_scope e c now)"
  "ordinary (backend_key seen x)" "ordinary (backend_plan U A e c)"
  unfolding backend_envelope_scope_def backend_digests_def backend_capacity_scope_def backend_key_def backend_plan_def
  by (intro ordinary_intros)+

lemma ordinary_backend_trust [simp, ordinary_intros]: "ordinary (backend_trust v)"
  unfolding backend_trust_def by (intro ordinary_intros)

lemma verify_backend_Ret:
  assumes "verify_backend_authority U eb cb rb tb now = Ret (e, c, rt, tt)"
  shows "require_canonical_document U eb = Ret (PDict e)" "require_canonical_document U cb = Ret (PDict c)"
    "authorised U ENVELOPE_DOMAIN CAPACITY_DOMAIN e c rt tt now" "backend_signers e c rt tt now = Ret ()"
proof -
  from assms obtain d dc where "require_canonical_document U eb = Ret d" "validate_envelope U d now = Ret e"
    "require_canonical_document U cb = Ret dc" "validate_capacity dc e now = Ret c"
    "verify_live_signatures U e c rt tt now = Ret ()" and s: "backend_signers e c rt tt now = Ret ()"
    unfolding verify_backend_authority_def by (auto simp: catching_eq_Ret bind_eq_Ret)
  then show "require_canonical_document U eb = Ret (PDict e)" "require_canonical_document U cb = Ret (PDict c)"
    "authorised U ENVELOPE_DOMAIN CAPACITY_DOMAIN e c rt tt now"
    using envelope_versions(1) validate_capacity_Ret(1) signatures_under_Ret
    unfolding verify_live_signatures_def by metis+
  show "backend_signers e c rt tt now = Ret ()" by (fact s)
qed

lemma ordinary_verify_backend [simp, ordinary_intros]: "ordinary (verify_backend_authority U eb cb rb tb now)"
  unfolding verify_backend_authority_def backend_signers_def
  by (intro ordinary_intros ordinary_selected_keys)
     (auto simp: verify_live_signatures_def dest: signatures_under_Ret)

lemma ordinary_extremes [simp, ordinary_intros]: "ordinary (max_time vs)" "ordinary (min_time vs)"
proof -
  have "ordinary (latest_time b t ws)" "ordinary (earliest_time b t ws)" for b t ws
    by (induction ws arbitrary: b t) (auto intro!: ordinary_intros)
  then show "ordinary (max_time vs)" "ordinary (min_time vs)"
    by (auto simp: max_time_def min_time_def split: list.split intro!: ordinary_intros)
qed

section \<open>What a binding holds\<close>

lemma plan_body_doc: "plan_body U v = Ret p \<Longrightarrow> v = PDict p"
  unfolding plan_body_def by (auto simp del: bind_assoc simp: bind_eq_Ret [of "obj _ _"] obj_eq_Ret bind_eq_Ret)

lemma wf_plan:
  assumes "release_plan U r b e a = Ret p"
  shows "wf_val (PDict p)"
proof -
  from assms obtain v where "require_canonical_document U b = Ret v" "validate_plan U v = Ret p"
    unfolding release_plan_def Let_def by (auto simp: bind_eq_Ret)
  then show ?thesis using plan_body_doc require_canonical_wf
    unfolding validate_plan_def malformed_boundary_Ret by blast
qed

lemma linux_time_str: "linux_time v = Ret t \<Longrightarrow> \<exists>s. v = PStr s"
  by (cases v) (auto simp: linux_time_def refuse_def)

text \<open>The document of a dictionary of strings has the same members.\<close>

lemma map_of_document:
  assumes "data_document U (PDict d) m = Ret x" "wf_val (PDict d)" "m \<in> {MAX_SESSION_BYTES, MAX_RESPONSE_BYTES}"
  shows "map_of x k = map_option canon (map_of d k)"
proof -
  have "PDict x = canon (PDict d)" using assms data_document_Ret by metis
  moreover have "map_of (sort_key fst d) = map_of d" using assms(2) by (simp add: map_of_sort_key)
  ultimately show ?thesis by (simp add: map_of_map [unfolded comp_def])
qed

lemma canon_str: "canon v = PStr s \<longleftrightarrow> v = PStr s"
  by (cases v) auto

lemma binding_field:
  assumes "validate_binding U (PDict d) = Ret b" "wf_val (PDict d)" "k \<in> set BINDING_FIELDS"
  shows "map_of b k = map_of d k" "\<exists>s. map_of d k = Some (PStr s)"
proof -
  have doc: "data_document U (PDict d) MAX_SESSION_BYTES = Ret b"
    using assms(1) by (auto simp: validate_binding_def bind_eq_Ret)
  note m = map_of_document [OF doc assms(2), of k, simplified]
  have "\<exists>s. map_of b k = Some (PStr s)"
    using assms(1,3) unfolding validate_binding_def BINDING_FIELDS_def
    by (auto simp: bind_eq_Ret field_eq_Ret ID_FIELDS_def DIGEST_FIELDS_def outcome_simps dest!: linux_time_str)
  then show "map_of b k = map_of d k" "\<exists>s. map_of d k = Some (PStr s)"
    using m by (auto simp: canon_str)
qed

text \<open>The values of one side of all signed windows: of the envelope, the capacity and the signing keys.\<close>

definition window_side :: "items \<Rightarrow> string \<Rightarrow> items \<Rightarrow> string \<Rightarrow> pyval list \<Rightarrow> string \<Rightarrow> pyval list \<Rightarrow> bool" where
  "window_side e f c g ks h vs \<longleftrightarrow>
     (\<exists>a b ws. map_of e f = Some a \<and> map_of c g = Some b \<and> map_out (\<lambda>k. item k h) ks = Ret ws \<and> vs = a # b # ws)"

lemma binding_window_Ret:
  assumes "binding_window e c rt tt instant = Ret (start, finish)"
  shows "\<exists>ks starts ends s f. selected_keys e c rt tt = Ret ks \<and>
    window_side e ''issuedAt'' c ''validFrom'' ks ''validFrom'' starts \<and>
    window_side e ''expiresAt'' c ''expiresAt'' ks ''validUntil'' ends \<and>
    start \<in> set starts \<and> list_all (\<lambda>w. not_after w start) starts \<and>
    finish \<in> set ends \<and> list_all (\<lambda>w. not_after finish w) ends \<and>
    linux_time start = Ret s \<and> linux_time finish = Ret f \<and> utc_us s \<le> utc_us instant \<and> utc_us instant < utc_us f"
proof -
  from assms obtain i v x y ks ws us where f: "map_of e ''issuedAt'' = Some i" "map_of c ''validFrom'' = Some v"
    "map_of e ''expiresAt'' = Some x" "map_of c ''expiresAt'' = Some y" "selected_keys e c rt tt = Ret ks"
    "map_out (\<lambda>k. item k ''validFrom'') ks = Ret ws" "map_out (\<lambda>k. item k ''validUntil'') ks = Ret us"
    and mx: "max_time (i # v # ws) = Ret start" and mn: "min_time (x # y # us) = Ret finish"
    and t: "and_also (bind (linux_time start) (\<lambda>s. time_le s instant))
             (bind (linux_time finish) (\<lambda>f. time_less instant f)) = Ret True"
    unfolding binding_window_def by (auto simp: bind_eq_Ret field_eq_Ret requires_eq_Ret)
  from t have "\<exists>s f. linux_time start = Ret s \<and> linux_time finish = Ret f \<and>
    utc_us s \<le> utc_us instant \<and> utc_us instant < utc_us f"
    by (auto simp: and_also_True bind_eq_Ret time_le_True time_less_True)
  with f max_time_Ret [OF mx] min_time_Ret [OF mn] show ?thesis unfolding window_side_def by blast
qed

lemma ordinary_bounded_text [simp, ordinary_intros]: "ordinary (bounded_text m depth r s)"
  unfolding bounded_text_def by (intro ordinary_intros)

lemma ordinary_bounded [simp, ordinary_intros]: "ordinary (bounded m depth r v)"
proof (induction v arbitrary: depth r)
  case (PDict kvs)
  have "ordinary (bounded m dp rr w)" if "(k, w) \<in> set kvs" for k w dp rr
    using PDict [of "(k, w)" w] that by simp
  then show ?case by (subst bounded.simps) (auto intro!: ordinary_intros simp del: bounded.simps)
qed (subst bounded.simps; auto intro!: ordinary_intros simp del: bounded.simps)+

lemma ordinary_validate_binding [simp, ordinary_intros]:
  "ordinary (data_document U v m)" "ordinary (validate_binding U v)"
proof -
  show d: "ordinary (data_document U v m)" for v m
    unfolding data_document_def by (auto split: pyval.split intro!: ordinary_intros simp del: bounded.simps)
  show "ordinary (validate_binding U v)"
    unfolding validate_binding_def by (intro ordinary_intros d)
qed

lemma ordinary_binding_window:
  "authorised U edom cdom e c rt tt now \<Longrightarrow> ordinary (binding_window e c rt tt now)"
  unfolding binding_window_def by (intro ordinary_intros ordinary_selected_keys)

lemma binding_refuses:
  assumes "binding_from_authority U A = Raise x"
  shows "\<exists>r. x = ConformanceError r"
  by (rule catching_malformed [OF _ assms [unfolded binding_from_authority_def]])
     (auto intro!: ordinary_intros ordinary_binding_window dest!: verify_backend_Ret(3))

text \<open>What the binding of a session says, given the authority it was derived from.\<close>

definition bound_to :: "items \<Rightarrow> items \<Rightarrow> items \<Rightarrow> pyval \<Rightarrow> pyval \<Rightarrow> bool" where
  "bound_to b e c rt tt \<longleftrightarrow>
     map_of b ''nonce'' = map_of e ''nonce'' \<and> map_of b ''tenantId'' = map_of e ''tenantId'' \<and>
     map_of b ''environmentId'' = map_of e ''environmentId'' \<and> map_of b ''namespace'' = map_of c ''namespace'' \<and>
     map_of b ''capacityDigest'' = map_of e ''capacityAuthorizationDigest'' \<and>
     map_of b ''packetDigest'' = Some (PStr BACKEND_PACKET_DIGEST) \<and>
     (\<exists>ks starts ends start finish.
        selected_keys e c rt tt = Ret ks \<and>
        window_side e ''issuedAt'' c ''validFrom'' ks ''validFrom'' starts \<and>
        window_side e ''expiresAt'' c ''expiresAt'' ks ''validUntil'' ends \<and>
        map_of b ''notBefore'' = Some start \<and> start \<in> set starts \<and> list_all (\<lambda>w. not_after w start) starts \<and>
        map_of b ''notAfter'' = Some finish \<and> finish \<in> set ends \<and> list_all (\<lambda>w. not_after finish w) ends)"

text \<open>The half-open window of a binding.\<close>

definition current :: "items \<Rightarrow> datetime \<Rightarrow> bool" where
  "current b now =
     (case (time_of b ''notBefore'', time_of b ''notAfter'') of
        (Ret s, Ret t) \<Rightarrow> utc_us s \<le> utc_us now \<and> utc_us now < utc_us t
      | _ \<Rightarrow> False)"

lemma binding_Ret:
  assumes "binding_from_authority U A = Ret b"
  obtains e c rt tt plan instant start finish nonce tenant environment commands capacity endpoint namespace where
    "linux_time (bk_now A) = Ret instant"
    "verify_backend_authority U (bk_envelope A) (bk_capacity A) (bk_release_trust A) (bk_tenant_trust A) instant
       = Ret (e, c, rt, tt)"
    "backend_plan U A e c = Ret plan" "binding_window e c rt tt instant = Ret (start, finish)"
    "map_of e ''nonce'' = Some nonce" "map_of e ''tenantId'' = Some tenant" "map_of e ''environmentId'' = Some environment"
    "map_of e ''commandSetDigest'' = Some commands" "map_of e ''capacityAuthorizationDigest'' = Some capacity"
    "map_of plan ''endpointId'' = Some endpoint" "map_of c ''namespace'' = Some namespace"
    "validate_binding U (PDict
       [(''nonce'', nonce), (''tenantId'', tenant), (''environmentId'', environment),
        (''packetDigest'', PStr BACKEND_PACKET_DIGEST), (''commandSetDigest'', commands),
        (''releaseDigest'', bk_expected_release A), (''capacityDigest'', capacity), (''endpointId'', endpoint),
        (''namespace'', namespace), (''notBefore'', start), (''notAfter'', finish)]) = Ret b"
  using assms that unfolding binding_from_authority_def
  by (auto simp: catching_eq_Ret bind_eq_Ret field_eq_Ret)

lemma backend_plan_Ret:
  assumes "backend_plan U A e c = Ret plan"
  shows "wf_val (PDict plan)" "\<exists>s. bk_expected_release A = PStr s"
    "field_is e ''nonce'' (bk_nonce A) = Ret True" "field_is e ''tenantId'' (bk_tenant A) = Ret True"
proof -
  from assms obtain r where "release_plan U r (bk_plan A) e (bk_architecture A) = Ret plan"
    and x: "py_eq (PStr (byte_digest (bk_release A))) (bk_expected_release A)"
    and "field_is e ''nonce'' (bk_nonce A) = Ret True" "field_is e ''tenantId'' (bk_tenant A) = Ret True"
    unfolding backend_plan_def by (auto simp: bind_eq_Ret requires_eq_Ret and_also_True)
  then show "wf_val (PDict plan)" "field_is e ''nonce'' (bk_nonce A) = Ret True"
    "field_is e ''tenantId'' (bk_tenant A) = Ret True"
    by (auto intro: wf_plan simp del: wf_val.simps)
  show "\<exists>s. bk_expected_release A = PStr s" using x by auto
qed

lemma binding_bound:
  assumes "binding_from_authority U A = Ret b"
  shows "\<exists>e c rt tt instant.
    linux_time (bk_now A) = Ret instant \<and>
    require_canonical_document U (bk_envelope A) = Ret (PDict e) \<and>
    require_canonical_document U (bk_capacity A) = Ret (PDict c) \<and>
    authorised U ENVELOPE_DOMAIN CAPACITY_DOMAIN e c rt tt instant \<and> bound_to b e c rt tt \<and>
    field_is b ''nonce'' (bk_nonce A) = Ret True \<and> field_is b ''tenantId'' (bk_tenant A) = Ret True \<and>
    current b instant"
proof -
  from assms obtain e c rt tt plan instant start finish nonce tenant environment commands capacity endpoint namespace
    where now: "linux_time (bk_now A) = Ret instant"
    and au: "verify_backend_authority U (bk_envelope A) (bk_capacity A) (bk_release_trust A) (bk_tenant_trust A) instant
       = Ret (e, c, rt, tt)"
    and plan: "backend_plan U A e c = Ret plan" and win: "binding_window e c rt tt instant = Ret (start, finish)"
    and f: "map_of e ''nonce'' = Some nonce" "map_of e ''tenantId'' = Some tenant"
      "map_of e ''environmentId'' = Some environment" "map_of e ''commandSetDigest'' = Some commands"
      "map_of e ''capacityAuthorizationDigest'' = Some capacity" "map_of plan ''endpointId'' = Some endpoint"
      "map_of c ''namespace'' = Some namespace"
    and vb: "validate_binding U (PDict
       [(''nonce'', nonce), (''tenantId'', tenant), (''environmentId'', environment),
        (''packetDigest'', PStr BACKEND_PACKET_DIGEST), (''commandSetDigest'', commands),
        (''releaseDigest'', bk_expected_release A), (''capacityDigest'', capacity), (''endpointId'', endpoint),
        (''namespace'', namespace), (''notBefore'', start), (''notAfter'', finish)]) = Ret b" (is "validate_binding U (PDict ?d) = _")
    by (rule binding_Ret)
  note a = verify_backend_Ret [OF au]
  note p = backend_plan_Ret [OF plan]
  from binding_window_Ret [OF win] obtain ks starts ends s t where w: "selected_keys e c rt tt = Ret ks"
    "window_side e ''issuedAt'' c ''validFrom'' ks ''validFrom'' starts"
    "window_side e ''expiresAt'' c ''expiresAt'' ks ''validUntil'' ends"
    "start \<in> set starts" "list_all (\<lambda>w. not_after w start) starts"
    "finish \<in> set ends" "list_all (\<lambda>w. not_after finish w) ends"
    and t: "linux_time start = Ret s" "linux_time finish = Ret t" "utc_us s \<le> utc_us instant" "utc_us instant < utc_us t"
    by blast
  have "wf_val (PDict e)" "wf_val (PDict c)" using a(1,2) by (auto dest: require_canonical_wf simp del: wf_val.simps)
  then have "wf_val v" if "v \<in> {nonce, tenant, environment, commands, capacity, endpoint, namespace}" for v
    using that f p(1) wf_field by blast
  moreover obtain x y z where "start = PStr x" "finish = PStr y" "bk_expected_release A = PStr z"
    using t(1,2) p(2) linux_time_str by blast
  ultimately have wf: "wf_val (PDict ?d)" by simp
  have m: "map_of b k = map_of ?d k" if "k \<in> set BINDING_FIELDS" for k
    by (rule binding_field(1) [OF vb wf that])
  have g: "map_of b ''nonce'' = Some nonce" "map_of b ''tenantId'' = Some tenant"
    "map_of b ''environmentId'' = Some environment" "map_of b ''namespace'' = Some namespace"
    "map_of b ''capacityDigest'' = Some capacity" "map_of b ''packetDigest'' = Some (PStr BACKEND_PACKET_DIGEST)"
    "map_of b ''notBefore'' = Some start" "map_of b ''notAfter'' = Some finish"
    by (subst m; simp add: BINDING_FIELDS_def ID_FIELDS_def DIGEST_FIELDS_def)+
  have "bound_to b e c rt tt" unfolding bound_to_def g f using w by blast
  moreover have "current b instant"
    using g(7,8) t linux_time_time [OF t(1)] linux_time_time [OF t(2)] by (simp add: current_def time_of_def)
  ultimately show ?thesis using now a(1-3) p(3,4) f(1,2) g(1,2) by (auto simp: field_is_def field_def)
qed

section \<open>Properties\<close>


end
