(* ===== verification/Launcher.thy ===== *)
theory Launcher
  imports Live
begin

text \<open>
  \<open>src/src/harness_conformance/live_launcher.py\<close>: the installed launcher.  It checks where and how it was
  started and the signed root manifest, runs the preflight of \<open>live.py\<close>, and then stops: no isolation
  backend exists, so it reports the environment as unavailable and never starts a campaign.
\<close>

definition FIXED_RELEASE_TRUST :: string where
  "FIXED_RELEASE_TRUST = ''/etc/planeon/trust/release-trust-bundle.json''"

definition FIXED_TENANT_TRUST :: string where
  "FIXED_TENANT_TRUST = ''/etc/planeon/trust/tenant-trust-bundle.json''"

definition FIXED_MANIFEST :: string where
  "FIXED_MANIFEST = ''/etc/planeon/harness-live-runner-manifest.json''"

definition FIXED_MANIFEST_SIGNATURE :: string where
  "FIXED_MANIFEST_SIGNATURE = ''/etc/planeon/harness-live-runner-manifest.json.sig''"

definition FIXED_MANIFEST_PUBLIC :: string where
  "FIXED_MANIFEST_PUBLIC = ''/etc/planeon/harness-live-runner-manifest.pub''"

definition EXPECTED_LAUNCHER :: string where
  "EXPECTED_LAUNCHER = ''/opt/planeon/bin/harness-live-campaign-launch''"

definition PINNED_ROOT_PUBLIC_KEY_SHA256 :: string where
  "PINNED_ROOT_PUBLIC_KEY_SHA256 = ''sha256:6b22a99cab70c60b7cc345962ae220e32b2dbc89c72b419c79a9c92ec5f6c012''"

text \<open>\<open>bytes.decode("ascii").strip()\<close>\<close>

definition ascii_space :: "char \<Rightarrow> bool" where
  "ascii_space c \<longleftrightarrow> in_range 9 13 c \<or> in_range 28 32 c"

definition ascii_strip :: "bytes \<Rightarrow> string outcome" where
  "ascii_strip raw =
     (if is_ascii raw then Ret (rev (dropWhile ascii_space (rev (dropWhile ascii_space raw)))) else Raise ValueError)"

text \<open>What the launcher finds where it runs: its environment variables, the resolved path it was started
  from, the owner, group and permission bits of the installed launcher, files, kit trees, and the clock.\<close>

record launch_host =
  environ :: "(string \<times> string) list"
  started_as :: string
  launcher_stat :: "(nat \<times> nat \<times> nat) option"
  host_files :: filesystem
  host_kits :: kit_host
  host_now :: datetime

definition manifest_key :: "ucd \<Rightarrow> filesystem \<Rightarrow> pyval outcome" where
  "manifest_key U fs =
     bind (secure_read fs True FIXED_MANIFEST_PUBLIC) (\<lambda>public_bytes.
     bind (require (byte_digest public_bytes = PINNED_ROOT_PUBLIC_KEY_SHA256) ''ROOT_KEY_DIGEST_MISMATCH'') (\<lambda>_.
     bind (bind (load_json_bytes U public_bytes) items_of) (\<lambda>public_record.
     bind (closed public_record [''algorithm'', ''publicKey''] []) (\<lambda>_.
     bind (requires (field_is public_record ''algorithm'' (PStr ''ED25519'')) ''ROOT_KEY_ALGORITHM'') (\<lambda>_.
       field public_record ''publicKey'')))))"

definition signed_manifest :: "ucd \<Rightarrow> filesystem \<Rightarrow> items outcome" where
  "signed_manifest U fs =
     bind (manifest_key U fs) (\<lambda>key.
     bind (secure_read fs True FIXED_MANIFEST) (\<lambda>manifest_bytes.
     bind (bind (secure_read fs True FIXED_MANIFEST_SIGNATURE) ascii_strip) (\<lambda>text.
     bind (b64url_decode (PStr text) 64) (\<lambda>signature.
     bind (b64url_decode key 32) (\<lambda>public.
     bind (requires (verify public manifest_bytes signature) ''ROOT_MANIFEST_SIGNATURE_INVALID'') (\<lambda>_.
     bind (bind (load_json_bytes U manifest_bytes) items_of) (\<lambda>manifest.
     bind (closed manifest [''schemaVersion'', ''launcher'', ''fixedTrustMounts'', ''isolation'',
             ''preflightEvidenceDigest''] []) (\<lambda>_.
     bind (requires (field_is manifest ''schemaVersion'' (PStr ''harness.planeon.ai/live-runner-manifest/v1alpha1''))
             ''ROOT_MANIFEST_SCHEMA'') (\<lambda>_. Ret manifest)))))))))"

definition expected_launcher :: "bytes \<Rightarrow> pyval" where
  "expected_launcher content =
     PDict [(''path'', PStr EXPECTED_LAUNCHER), (''version'', PStr ''0.1.0''), (''sha256'', PStr (byte_digest content)),
       (''ownerUid'', PInt 0), (''ownerGid'', PInt 0), (''mode'', PStr ''0555'')]"

definition launcher_custody :: "launch_host \<Rightarrow> items \<Rightarrow> unit outcome" where
  "launcher_custody H manifest =
     bind (field manifest ''launcher'') (\<lambda>launcher.
     bind (bind (items_of launcher) (\<lambda>l. closed l [''path'', ''version'', ''sha256'', ''ownerUid'', ''ownerGid'', ''mode''] []))
       (\<lambda>_.
     bind (case launcher_stat H of None \<Rightarrow> Raise OSError | Some info \<Rightarrow> Ret info) (\<lambda>info.
     bind (secure_read (host_files H) True EXPECTED_LAUNCHER) (\<lambda>content.
       require (py_eq launcher (expected_launcher content) \<and> info = (0, 0, 365)) ''LAUNCHER_CUSTODY_INVALID''))))"

definition TRUST_MOUNTS :: pyval where
  "TRUST_MOUNTS = PList [PStr FIXED_RELEASE_TRUST, PStr FIXED_TENANT_TRUST]"

definition ISOLATION :: pyval where
  "ISOLATION =
     PDict [(''backend'', PStr ''PREINSTALLED_OS_ENDPOINT_ALLOWLIST_V1''),
       (''networkPolicy'', PStr ''DENY_ALL_EXCEPT_DUAL_SIGNED_ENDPOINTS''),
       (''credentialSocketsDenied'', PBool True), (''ciDenied'', PBool True)]"

definition verify_root_manifest :: "ucd \<Rightarrow> launch_host \<Rightarrow> unit outcome" where
  "verify_root_manifest U H =
     bind (signed_manifest U (host_files H)) (\<lambda>manifest.
     bind (launcher_custody H manifest) (\<lambda>_.
     bind (requires (field_is manifest ''fixedTrustMounts'' TRUST_MOUNTS) ''TRUST_MOUNTS_INVALID'') (\<lambda>_.
     bind (field manifest ''isolation'') (\<lambda>isolation.
     bind (bind (items_of isolation) (\<lambda>i. closed i [''backend'', ''networkPolicy'', ''credentialSocketsDenied'', ''ciDenied''] []))
       (\<lambda>_. require (py_eq isolation ISOLATION) ''ISOLATION_MANIFEST_INVALID'')))))"

definition CI_VARIABLES :: "string list" where
  "CI_VARIABLES = [''CI'', ''GITHUB_ACTIONS'', ''GITHUB_EVENT_NAME'', ''BUILDKITE'', ''JENKINS_URL'']"

definition ENVELOPE_VARIABLE :: string where
  "ENVELOPE_VARIABLE = ''HARNESS_LIVE_EXECUTION_ENVELOPE''"

definition is_set :: "(string \<times> string) list \<Rightarrow> string \<Rightarrow> bool" where
  "is_set env name \<longleftrightarrow> (case map_of env name of None \<Rightarrow> False | Some v \<Rightarrow> v \<noteq> [])"

text \<open>The part of \<open>main\<close> in its \<open>try\<close> block up to the preflight.\<close>

definition authority_of :: "ucd \<Rightarrow> launch_host \<Rightarrow> items outcome" where
  "authority_of U H =
     bind (require (\<not> list_ex (is_set (environ H)) CI_VARIABLES) ''CI_EXECUTION_FORBIDDEN'') (\<lambda>_.
     bind (require (\<not> list_ex (\<lambda>(name, _). starts_with ''HARNESS_LIVE_'' name \<and> name \<noteq> ENVELOPE_VARIABLE) (environ H))
             ''LIVE_ENVIRONMENT_FORBIDDEN'') (\<lambda>_.
     bind (case map_of (environ H) ENVELOPE_VARIABLE of
             Some (c # cs) \<Rightarrow> Ret (c # cs) | _ \<Rightarrow> refuse ''LIVE_AUTHORITY_UNAVAILABLE'') (\<lambda>envelope.
     bind (require (started_as H = EXPECTED_LAUNCHER) ''DIRECT_LAUNCH_FORBIDDEN'') (\<lambda>_.
     bind (verify_root_manifest U H) (\<lambda>_.
       preflight U (host_files H) (host_kits H) envelope EXPECTED_LAUNCHER FIXED_RELEASE_TRUST FIXED_TENANT_TRUST (host_now H))))))"

definition UNAVAILABLE_REASONS :: "string list" where
  "UNAVAILABLE_REASONS = [''LIVE_AUTHORITY_UNAVAILABLE'', ''ISOLATION_BACKEND_UNAVAILABLE'', ''REFERENCE_UNAVAILABLE'']"

text \<open>The line \<open>{"reasonCode": ..., "status": ...}\<close>; the reasons are ASCII constants of the program.\<close>

definition reason_line :: "string \<Rightarrow> string \<Rightarrow> bytes" where
  "reason_line reason status =
     dumps (PDict [(''reasonCode'', PStr reason), (''status'', PStr status)]) @ [CHR 0x0A]"

text \<open>\<open>main\<close>: the exit code, what it writes to standard output and to standard error, or an exception
  that escapes.\<close>

definition launcher_main :: "ucd \<Rightarrow> launch_host \<Rightarrow> (nat \<times> bytes \<times> bytes) outcome" where
  "launcher_main U H =
     (case bind (authority_of U H) (\<lambda>result.
             bind (refuse ''ISOLATION_BACKEND_UNAVAILABLE'' :: unit outcome) (\<lambda>_. Ret result)) of
        Ret result \<Rightarrow> Ret (0, dumps (PDict result) @ [CHR 0x0A], [])
      | Raise (ConformanceError r) \<Rightarrow>
          if r \<in> set UNAVAILABLE_REASONS then Ret (3, [], reason_line r ''NOT_RUN_ENV_UNAVAILABLE'')
          else Ret (2, [], reason_line r ''FAIL'')
      | Raise e \<Rightarrow> Raise e)"

end
