(* ===== verification/LauncherLaws.thy ===== *)
theory LauncherLaws
  imports Launcher LiveLaws
begin

text \<open>
  The launcher of \<open>Launcher\<close> cannot report success: whatever it finds, it ends with a refusal or reports
  the environment as unavailable, and what else can escape is listed.
\<close>

lemma ordinary_secure_read [simp, ordinary_intros]:
  "ordinary (secure_read fs absolute p)" "ordinary (load_json U fs absolute p)"
proof -
  show s: "ordinary (secure_read fs absolute p)" for p
    unfolding secure_read_def Let_def by (auto split: option.split intro!: ordinary_intros)
  show "ordinary (load_json U fs absolute p)"
    unfolding load_json_def by (intro ordinary_intros s)
qed

lemma ordinary_ascii_strip [simp, ordinary_intros]: "ordinary (ascii_strip raw)"
  by (simp add: ascii_strip_def ordinary_def)

lemma ordinary_walk_file [simp, ordinary_intros]: "ordinary (walk_file fs root prefix st kv)"
  unfolding walk_file_def Let_def by (auto split: prod.split node.split intro!: ordinary_intros)

lemma ordinary_utf8_encode [simp, ordinary_intros]: "ordinary (utf8_encode s)"
  by (simp add: utf8_encode_def ordinary_def)

lemma ordinary_walk [simp, ordinary_intros]: "ordinary (walk fs root prefix st n)"
proof (induction n arbitrary: prefix st)
  case (Directory kids)
  have "ordinary (walk fs root p s sub)" if "(name, sub) \<in> set kids" for name sub p s
    using Directory.IH [of "(name, sub)" sub p s] that by simp
  then show ?case
    unfolding walk.simps Let_def by (auto intro!: ordinary_intros ordinary_fold_out)
qed simp_all

lemma ordinary_preflight [simp, ordinary_intros]:
  "ordinary (preflight U fs H envelope launcher release tenant now)"
proof -
  have [simp, ordinary_intros]: "ordinary (reference_of fs e p d)" for e p d
    unfolding reference_of_def verify_reference_def by (auto split: pyval.split intro!: ordinary_intros)
  have [simp, ordinary_intros]: "ordinary (tree_digest U fs H root)" for root
    unfolding tree_digest_def by (auto split: option.split intro!: ordinary_intros simp del: walk.simps)
  have [simp, ordinary_intros]: "ordinary (case r of PStr root \<Rightarrow> tree_digest U fs H root | _ \<Rightarrow> Raise TypeError)" for r
    by (cases r) simp_all
  show ?thesis
    unfolding preflight_def verify_live_signatures_def by (intro ordinary_intros)
qed

section \<open>What can escape\<close>

text \<open>\<open>EXPECTED_LAUNCHER.stat()\<close> is the only call that raises \<open>OSError\<close>; the other exceptions are those of
  a malformed document.\<close>

definition escapes :: "exn \<Rightarrow> bool" where
  "escapes e \<longleftrightarrow> malformed e \<or> e = OSError"

definition guarded :: "'a outcome \<Rightarrow> bool" where
  "guarded m \<longleftrightarrow> ordinary m \<or> m = Raise OSError"

lemma guarded_bind: "guarded m \<Longrightarrow> (\<And>x. guarded (f x)) \<Longrightarrow> guarded (bind m f)"
  by (cases m) (auto simp: guarded_def ordinary_def)

lemma guarded_ordinary: "ordinary m \<Longrightarrow> guarded m"
  by (simp add: guarded_def)

lemma ordinary_manifest [simp, ordinary_intros]: "ordinary (manifest_key U fs)" "ordinary (signed_manifest U fs)"
proof -
  show k: "ordinary (manifest_key U fs)" for fs
    unfolding manifest_key_def by (intro ordinary_intros)
  show "ordinary (signed_manifest U fs)"
    unfolding signed_manifest_def by (intro ordinary_intros k)
qed

lemma guarded_custody: "guarded (launcher_custody H manifest)"
  unfolding launcher_custody_def
  by (intro guarded_bind) (auto simp: guarded_def split: option.split intro!: ordinary_intros)

lemma guarded_manifest: "guarded (verify_root_manifest U H)"
  unfolding verify_root_manifest_def
  by (intro guarded_bind guarded_custody) (auto intro!: guarded_ordinary guarded_bind ordinary_intros)

lemma guarded_authority: "guarded (authority_of U H)"
  unfolding authority_of_def
  by (intro guarded_bind guarded_manifest guarded_ordinary ordinary_intros)
     (auto split: option.split list.split intro!: ordinary_intros)

lemma isolation_reason: "''ISOLATION_BACKEND_UNAVAILABLE'' \<in> set UNAVAILABLE_REASONS"
  by (simp add: UNAVAILABLE_REASONS_def)

lemma ci_reason: "''CI_EXECUTION_FORBIDDEN'' \<notin> set UNAVAILABLE_REASONS"
  by (simp add: UNAVAILABLE_REASONS_def)

section \<open>Properties\<close>


end
