(* ===== verification/Cli.thy ===== *)
theory Cli
  imports Evidence Launcher
begin

text \<open>
  \<open>src/src/harness_conformance/cli.py\<close>: the commands, from parsed arguments on (\<open>argparse\<close> is the
  library's).  A command prints one canonical document and exits with 0, or prints a reason to standard
  error and exits with 2; an exception that is not a refusal escapes.
\<close>

datatype command =
    Validate string string
  | Run string string
  | EvidenceVerify string string
  | AcceptanceCandidate string string
  | TechnicalSign string string
  | TechnicalVerify string string string

text \<open>The choices of \<open>--kind\<close>.\<close>

definition KINDS :: "string list" where
  "KINDS =
     [''campaign'', ''environment-intake'', ''control-result'', ''porting-ledger'', ''technical-evidence'',
      ''tenant-acceptance-candidate'', ''linux-readiness-evidence'']"

definition emit :: "ucd \<Rightarrow> items \<Rightarrow> bytes outcome" where
  "emit U v = bind (canonical_bytes U (PDict v)) (\<lambda>b. Ret (b @ [CHR 0x0A]))"

definition run_files :: "ucd \<Rightarrow> file_tree \<Rightarrow> string \<Rightarrow> string \<Rightarrow> (items \<times> items) outcome" where
  "run_files U T campaign repository_option =
     (let repository = resolve T repository_option; campaign_path = resolve T campaign in
      bind (require (within repository campaign_path) ''CAMPAIGN_OUTSIDE_REPOSITORY'') (\<lambda>_.
      bind (run_campaign_files U T campaign_path repository) (\<lambda>(report, _).
      bind (build_evidence U report) (\<lambda>evidence. Ret (report, evidence)))))"

definition STRUCTURAL :: items where
  "STRUCTURAL = [(''verificationClass'', PStr ''STRUCTURAL_ONLY''), (''nativeAcceptance'', PBool False)]"

definition validate_command_of :: "ucd \<Rightarrow> file_tree \<Rightarrow> string \<Rightarrow> string \<Rightarrow> bytes outcome" where
  "validate_command_of U T kind path =
     bind (load_json U (files T) False path) (\<lambda>document.
     bind (if kind = ''technical-evidence'' then validate_evidence U document None
           else if kind = ''tenant-acceptance-candidate'' then validate_candidate U document
           else validate U (PStr kind) document) (\<lambda>_.
       emit U ([(''kind'', PStr kind), (''status'', PStr ''PASS'')] @
         (if kind = ''linux-readiness-evidence'' then STRUCTURAL else []))))"

definition evidence_verify_command :: "ucd \<Rightarrow> file_tree \<Rightarrow> string \<Rightarrow> string \<Rightarrow> bytes outcome" where
  "evidence_verify_command U T campaign repository =
     bind (run_files U T campaign repository) (\<lambda>(report, evidence).
     bind (validate_evidence U (PDict evidence) (Some False)) (\<lambda>_.
     bind (field evidence ''bundleDigest'') (\<lambda>bdl.
     bind (field report ''reportDigest'') (\<lambda>digest.
     bind (field_is report ''campaignId'' (PStr ''linux-baseline'')) (\<lambda>linux.
     bind (if linux then bind (field report ''status'') (\<lambda>st. Ret (STRUCTURAL @ [(''resultStatus'', st)])) else Ret [])
       (\<lambda>extra.
       emit U ([(''bundleDigest'', bdl), (''reportDigest'', digest), (''status'', PStr ''PASS'')] @ extra)))))))"

text \<open>\<open>os.stat(path).st_mode\<close> of the signing key; \<open>None\<close> when there is no such file.\<close>

definition sign_command :: "ucd \<Rightarrow> file_tree \<Rightarrow> (string \<Rightarrow> nat option) \<Rightarrow> string \<Rightarrow> string \<Rightarrow> bytes outcome" where
  "sign_command U T mode evidence key =
     (let key_path = resolve T key in
      bind (requires (py_not (or_else (Ret (is_symlink T key_path))
             (case mode key_path of None \<Rightarrow> Raise OSError | Some m \<Rightarrow> Ret (m mod 64 \<noteq> 0)))) ''PRIVATE_KEY_MODE'') (\<lambda>_.
      bind (load_json U (files T) False evidence) (\<lambda>e.
      bind (load_json U (files T) True key_path) (\<lambda>k.
      bind (sign_evidence U e k) (emit U)))))"

fun run_command :: "ucd \<Rightarrow> file_tree \<Rightarrow> (string \<Rightarrow> nat option) \<Rightarrow> command \<Rightarrow> bytes outcome" where
  "run_command U T mode (Validate kind path) = validate_command_of U T kind path"
| "run_command U T mode (Run campaign repository) =
     bind (run_files U T campaign repository) (\<lambda>(report, _). emit U report)"
| "run_command U T mode (EvidenceVerify campaign repository) = evidence_verify_command U T campaign repository"
| "run_command U T mode (AcceptanceCandidate campaign repository) =
     bind (run_files U T campaign repository) (\<lambda>(report, evidence).
     bind (build_candidate U report (PDict evidence)) (\<lambda>candidate.
     bind (validate_candidate U (PDict candidate)) (\<lambda>_. emit U candidate)))"
| "run_command U T mode (TechnicalSign evidence key) = sign_command U T mode evidence key"
| "run_command U T mode (TechnicalVerify evidence trust now) =
     bind (load_json U (files T) False evidence) (\<lambda>e.
     bind (load_json U (files T) False trust) (\<lambda>t.
     bind (verify_evidence U e t now) (emit U)))"

text \<open>\<open>main\<close>: the exit code, standard output and standard error.\<close>

definition cli_main :: "ucd \<Rightarrow> file_tree \<Rightarrow> (string \<Rightarrow> nat option) \<Rightarrow> command \<Rightarrow> (nat \<times> bytes \<times> bytes) outcome" where
  "cli_main U T mode c =
     (case run_command U T mode c of
        Ret out \<Rightarrow> Ret (0, out, [])
      | Raise (ConformanceError r) \<Rightarrow> Ret (2, [], reason_line r ''FAIL'')
      | Raise e \<Rightarrow> Raise e)"

section \<open>What holds\<close>

lemma run_files_Ret:
  assumes "run_files U T campaign repository = Ret (report, evidence)"
  shows "validate_evidence U (PDict evidence) (Some False) = Ret evidence"
    "report_shape report" "build_evidence U report = Ret evidence"
  using assms run_campaign_files_evidence unfolding run_files_def Let_def by (auto simp: bind_eq_Ret)

lemma build_evidence_fields:
  assumes "build_evidence U report = Ret ev"
  obtains b cid where "map_of ev ''bundleDigest'' = Some b" "map_of report ''campaignId'' = Some cid"
proof -
  from assms obtain cid where "map_of report ''campaignId'' = Some cid" "\<exists>items b. ev = dict_set items ''bundleDigest'' b"
    unfolding build_evidence_def Let_def by (auto simp: bind_eq_Ret field_eq_Ret)
  then show ?thesis using that by (auto simp: map_of_dict_set)
qed

text \<open>once a campaign ran, \<open>evidence-verify\<close> never refuses the evidence built from it: it prints a
  report of status \<open>PASS\<close> that binds the digest of the report, and no campaign of the Linux baseline is
  reported without the notice that native acceptance is not claimed.\<close>

theorem evidence_verify_total:
  "case run_files U T campaign repository of
     Raise e \<Rightarrow> run_command U T mode (EvidenceVerify campaign repository) = Raise e
   | Ret (report, evidence) \<Rightarrow> (\<exists>b d extra.
       map_of evidence ''bundleDigest'' = Some b \<and> map_of report ''reportDigest'' = Some d \<and>
       run_command U T mode (EvidenceVerify campaign repository) =
         emit U ([(''bundleDigest'', b), (''reportDigest'', d), (''status'', PStr ''PASS'')] @ extra) \<and>
       (map_of report ''campaignId'' = Some (PStr ''linux-baseline'') \<longleftrightarrow>
          map_of extra ''nativeAcceptance'' = Some (PBool False)))"
proof (cases "run_files U T campaign repository")
  case (Ret re)
  obtain report evidence where re: "re = (report, evidence)" by (cases re)
  note v = run_files_Ret [OF Ret [unfolded re]]
  obtain b cid where f: "map_of evidence ''bundleDigest'' = Some b" "map_of report ''campaignId'' = Some cid"
    using v(3) by (rule build_evidence_fields)
  from v(2) obtain d st where r: "map_of report ''reportDigest'' = Some d" "map_of report ''status'' = Some st"
    by (auto simp: report_shape_def)
  show ?thesis
    using f r v(1) Ret re
    by (auto simp: evidence_verify_command_def field_def field_is_def STRUCTURAL_def)
qed (simp add: evidence_verify_command_def)

end
