(* ===== verification/ProxyData.thy ===== *)
theory ProxyData
  imports LinuxShapes
begin

text \<open>
  The data layer of \<open>src/src/harness_conformance/live_mutation_admission.py\<close>: bounded canonical documents,
  the checker of its pinned private schemas (the subset of JSON Schema that \<open>_shape\<close> implements) and its
  instants.  \<open>_shape\<close> follows references between definitions, so the checker has fuel, which is the depth
  of Python's stack; \<open>ProxyShape\<close> shows that the pinned schemas need little of it.
\<close>

section \<open>Bounded documents\<close>

definition data_cost :: "pyval \<Rightarrow> int" where
  "data_cost v =
     (case v of PStr s \<Rightarrow> int (py_len s) + 1 | PDict d \<Rightarrow> int (length d) + 1 | PList xs \<Rightarrow> int (length xs) + 1 | _ \<Rightarrow> 1)"

definition is_bytes :: "pyval \<Rightarrow> bool" where
  "is_bytes v = (case v of PBytes _ \<Rightarrow> True | _ \<Rightarrow> False)"

definition charged :: "nat \<Rightarrow> int \<Rightarrow> pyval \<Rightarrow> int outcome" where
  "charged depth budget v =
     bind (require (depth \<le> 16 \<and> \<not> is_bytes v) ''PROXY_DATA_TYPE'') (\<lambda>_.
     bind (require (0 \<le> budget - data_cost v) ''PROXY_DATA_SIZE'') (\<lambda>_.
     bind (require (case v of PInt i \<Rightarrow> \<bar>i\<bar> \<le> 9007199254740991 | _ \<Rightarrow> True) ''PROXY_INTEGER_RANGE'') (\<lambda>_.
       Ret (budget - data_cost v))))"

text \<open>The budget of \<open>_bounded\<close> is shared by the whole traversal: each call returns what is left.\<close>

fun proxy_bounded :: "nat \<Rightarrow> int \<Rightarrow> pyval \<Rightarrow> int outcome" where
  "proxy_bounded depth budget (PDict kvs) =
     bind (charged depth budget (PDict kvs)) (\<lambda>b.
       fold_out (\<lambda>r (k, v). bind (charged (depth + 1) r (PStr k)) (\<lambda>r'. proxy_bounded (depth + 1) r' v)) b kvs)"
| "proxy_bounded depth budget (PList xs) =
     bind (charged depth budget (PList xs)) (\<lambda>b. fold_out (\<lambda>r v. proxy_bounded (depth + 1) r v) b xs)"
| "proxy_bounded depth budget v = charged depth budget v"

definition proxy_document :: "ucd \<Rightarrow> nat \<Rightarrow> pyval \<Rightarrow> pyval outcome" where
  "proxy_document U maximum value =
     (case value of
        PBytes raw \<Rightarrow>
          bind (require (0 < length raw \<and> length raw \<le> maximum) ''PROXY_DATA_SIZE'') (\<lambda>_.
          bind (require_canonical_document U raw) (\<lambda>v.
          bind (canonical_bytes U v) (\<lambda>encoded.
          bind (require (encoded = raw) ''PROXY_NONCANONICAL_BYTES'') (\<lambda>_.
          bind (proxy_bounded 0 (int maximum) v) (\<lambda>_.
          bind (require (length encoded \<le> maximum) ''PROXY_DATA_SIZE'') (\<lambda>_. Ret v))))))
      | _ \<Rightarrow>
          bind (proxy_bounded 0 (int maximum) value) (\<lambda>_.
          bind (canonical_bytes U value) (\<lambda>raw.
          bind (require (length raw \<le> maximum) ''PROXY_DATA_SIZE'') (\<lambda>_. require_canonical_document U raw))))"

section \<open>Patterns\<close>

text \<open>The regular expressions that the schemas use, by their source text.  \<open>re.fullmatch\<close> makes the
  anchors redundant; under \<open>re.ASCII\<close> a digit is one of ten.\<close>

definition P_IMAGE :: string where
  "P_IMAGE = ''^[a-z0-9][a-z0-9.:/-]*@sha256:[0-9a-f]{64}$''"

definition P_NAME :: string where
  "P_NAME = ''^[a-z0-9](?:[a-z0-9.-]{0,62})$''"

definition P_SUBJECT :: string where
  "P_SUBJECT = ''^system:serviceaccount:[a-z0-9.-]+:[a-z0-9.-]+$''"

definition P_TIME :: string where
  "P_TIME = (''^'' @ [CHR 0x5C] @ ''d{4}-'' @ [CHR 0x5C] @ ''d{2}-'' @ [CHR 0x5C] @ ''d{2}T'' @ [CHR 0x5C] @ ''d{2}:'' @ [CHR 0x5C] @ ''d{2}:'' @ [CHR 0x5C] @ ''d{2}Z$'')"

definition P_DIGEST :: string where
  "P_DIGEST = ''^sha256:[0-9a-f]{64}$''"

definition P_PATH :: string where
  "P_PATH = ''^/v1/linux-baseline/[a-z-]+$''"

definition P_UID :: string where
  "P_UID = ''^[a-zA-Z0-9-]{1,128}$''"

definition P_MILLI :: string where
  "P_MILLI = ''^[1-9][0-9]{0,6}m$''"

definition P_AMOUNT :: string where
  "P_AMOUNT = ''^[1-9][0-9]{0,14}$''"

definition P_LABEL :: string where
  "P_LABEL = ''^[a-z0-9][a-z0-9.-]{0,62}$''"

definition P_INSTANT :: string where
  "P_INSTANT = ''^[0-9]{4}-[0-9]{2}-[0-9]{2}T[0-9]{2}:[0-9]{2}:[0-9]{2}Z$''"

definition P_IDENT :: string where
  "P_IDENT = ''^[A-Za-z0-9-]{1,128}$''"

definition P_GROUP :: string where
  "P_GROUP = ''^[A-Za-z0-9./-]+$''"

definition P_KIND :: string where
  "P_KIND = ''^[A-Za-z][A-Za-z0-9]+$''"

definition P_HEX :: string where
  "P_HEX = ''^[0-9a-f]{64}$''"

definition P_UUID :: string where
  "P_UUID = ''^[0-9a-f]{8}(-[0-9a-f]{4}){3}-[0-9a-f]{12}$''"

definition P_VERSION :: string where
  "P_VERSION = ''^[A-Za-z0-9._:-]+$''"

definition P_BASE64 :: string where
  "P_BASE64 = ''^[A-Za-z0-9+/]+={0,2}$''"

definition P_FILE :: string where
  "P_FILE = ''^/[A-Za-z0-9_./+-]+$''"

definition P_PRINTABLE :: string where
  "P_PRINTABLE = ''^[ -~]+$''"

definition P_BOOT :: string where
  "P_BOOT = ''^[0-9a-f]{8}-[0-9a-f]{4}-[0-9a-f]{4}-[0-9a-f]{4}-[0-9a-f]{12}$''"
definition class_rx :: "string \<Rightarrow> (char \<Rightarrow> bool) list \<Rightarrow> rx" where
  "class_rx extra ps = Cls (\<lambda>c. c \<in> set extra \<or> list_ex (\<lambda>p. p c) ps)"

definition HEX :: rx where
  "HEX = Cls lower_hex"

definition INSTANT :: rx where
  "INSTANT =
     (let d = (\<lambda>n. rep n (Cls digit)) in
      Seq (d 4) (Seq (lit ''-'') (Seq (d 2) (Seq (lit ''-'') (Seq (d 2) (Seq (lit ''T'')
     (Seq (d 2) (Seq (lit '':'') (Seq (d 2) (Seq (lit '':'') (Seq (d 2) (lit ''Z''))))))))))))"

definition LABEL :: rx where
  "LABEL = Seq (class_rx [] [lowercase, digit]) (up_to 62 (class_rx ''.-'' [lowercase, digit]))"

definition UUID :: rx where
  "UUID = Seq (rep 8 HEX) (Seq (rep 3 (Seq (lit ''-'') (rep 4 HEX))) (Seq (lit ''-'') (rep 12 HEX)))"

definition IDENT :: rx where
  "IDENT = Seq (class_rx ''-'' [alnum]) (up_to 127 (class_rx ''-'' [alnum]))"

definition DIGEST_TEXT :: rx where
  "DIGEST_TEXT = Seq (lit ''sha256:'') (rep 64 HEX)"

definition PATTERNS :: "(string \<times> rx) list" where
  "PATTERNS =
     [(P_IMAGE, Seq (class_rx [] [lowercase, digit]) (Seq (Star (class_rx ''.:/-'' [lowercase, digit]))
        (Seq (lit ''@'') DIGEST_TEXT))),
      (P_NAME, LABEL), (P_LABEL, LABEL),
      (P_SUBJECT, Seq (lit ''system:serviceaccount:'') (Seq (plus1 (class_rx ''.-'' [lowercase, digit]))
        (Seq (lit '':'') (plus1 (class_rx ''.-'' [lowercase, digit]))))),
      (P_TIME, INSTANT), (P_INSTANT, INSTANT), (P_DIGEST, DIGEST_TEXT),
      (P_PATH, Seq (lit ''/v1/linux-baseline/'') (plus1 (class_rx ''-'' [lowercase]))),
      (P_UID, IDENT), (P_IDENT, IDENT),
      (P_MILLI, Seq (Cls (char_range CHR ''1'' CHR ''9'')) (Seq (up_to 6 (Cls digit)) (lit ''m''))),
      (P_AMOUNT, Seq (Cls (char_range CHR ''1'' CHR ''9'')) (up_to 14 (Cls digit))),
      (P_GROUP, plus1 (class_rx ''./-'' [alnum])),
      (P_KIND, Seq (class_rx [] [uppercase, lowercase]) (plus1 (Cls alnum))),
      (P_HEX, rep 64 HEX), (P_UUID, UUID), (P_BOOT, UUID),
      (P_VERSION, plus1 (class_rx ''._:-'' [alnum])),
      (P_BASE64, Seq (plus1 (class_rx ''+/'' [alnum])) (up_to 2 (lit ''=''))),
      (P_FILE, Seq (lit ''/'') (plus1 (class_rx ''_./+-'' [alnum]))),
      (P_PRINTABLE, plus1 (Cls (in_range 32 126)))]"

text \<open>\<open>re.fullmatch(pattern, value, re.ASCII)\<close>; the module compiles no other pattern.\<close>

definition pattern_match :: "pyval \<Rightarrow> string \<Rightarrow> bool outcome" where
  "pattern_match pattern s =
     (case pattern of
        PStr p \<Rightarrow> (case map_of PATTERNS p of Some r \<Rightarrow> Ret (fullmatch r s) | None \<Rightarrow> Raise ValueError)
      | _ \<Rightarrow> Raise TypeError)"

section \<open>The schema checker\<close>

definition KEYWORDS :: "string list" where
  "KEYWORDS =
     [''$schema'', ''$id'', ''$defs'', ''$ref'', ''oneOf'', ''type'', ''additionalProperties'', ''required'',
      ''properties'', ''const'', ''enum'', ''items'', ''minItems'', ''maxItems'', ''uniqueItems'', ''minLength'',
      ''maxLength'', ''pattern'', ''minimum'', ''maximum'']"

definition bound_of :: "items \<Rightarrow> string \<Rightarrow> int \<Rightarrow> int outcome" where
  "bound_of spec name fallback =
     (case map_of spec name of
        None \<Rightarrow> Ret fallback | Some (PInt i) \<Rightarrow> Ret i | Some (PBool b) \<Rightarrow> Ret (if b then 1 else 0) | Some _ \<Rightarrow> Raise TypeError)"

definition between :: "items \<Rightarrow> string \<Rightarrow> int \<Rightarrow> int \<Rightarrow> string \<Rightarrow> int \<Rightarrow> bool outcome" where
  "between spec low low_default n high high_default =
     bind (bound_of spec low low_default) (\<lambda>a.
       if n < a then Ret False else bind (bound_of spec high high_default) (\<lambda>b. Ret (n \<le> b)))"

definition type_matches :: "pyval \<Rightarrow> pyval \<Rightarrow> bool outcome" where
  "type_matches name value =
     (case name of
        PStr t \<Rightarrow>
          if t = ''object'' then Ret (is_dict value) else if t = ''array'' then Ret (is_list value)
          else if t = ''string'' then Ret (is_str value)
          else if t = ''integer'' then Ret (case value of PInt _ \<Rightarrow> True | _ \<Rightarrow> False)
          else if t = ''boolean'' then Ret (is_bool value) else if t = ''null'' then Ret (value = PNone)
          else Raise KeyError
      | _ \<Rightarrow> if hashable name then Raise KeyError else Raise TypeError)"

definition same_document :: "ucd \<Rightarrow> pyval \<Rightarrow> pyval \<Rightarrow> bool outcome" where
  "same_document U v w = bind (canonical_bytes U v) (\<lambda>a. bind (canonical_bytes U w) (\<lambda>b. Ret (a = b)))"

definition when_present :: "items \<Rightarrow> string \<Rightarrow> (pyval \<Rightarrow> unit outcome) \<Rightarrow> unit outcome" where
  "when_present spec name f = (case map_of spec name of None \<Rightarrow> Ret () | Some v \<Rightarrow> f v)"

text \<open>The name a reference \<open>#/$defs/name\<close> points to.\<close>

definition REF_PREFIX :: string where
  "REF_PREFIX = ''#/$defs/''"

definition ref_name :: "pyval \<Rightarrow> items \<Rightarrow> pyval outcome" where
  "ref_name v definitions =
     (case v of
        PStr name \<Rightarrow>
          if starts_with REF_PREFIX name then
            (case map_of definitions (drop 8 name) of Some d \<Rightarrow> Ret d | None \<Rightarrow> refuse ''PROXY_SPEC_INVALID'')
          else refuse ''PROXY_SPEC_INVALID''
      | _ \<Rightarrow> refuse ''PROXY_SPEC_INVALID'')"

text \<open>The keywords that do not descend, in the order of the code: \<open>type\<close>, \<open>const\<close>, \<open>enum\<close>.\<close>

definition plain_checks :: "ucd \<Rightarrow> items \<Rightarrow> pyval \<Rightarrow> unit outcome" where
  "plain_checks U spec value =
     bind (when_present spec ''type'' (\<lambda>t. requires (type_matches t value) ''PROXY_SHAPE_INVALID'')) (\<lambda>_.
     bind (when_present spec ''const'' (\<lambda>c. requires (same_document U value c) ''PROXY_CONSTANT_INVALID'')) (\<lambda>_.
       when_present spec ''enum'' (\<lambda>options.
         requires (bind (iter_of options) (any_out (same_document U value))) ''PROXY_ENUM_INVALID'')))"

definition object_checks :: "items \<Rightarrow> items \<Rightarrow> items \<Rightarrow> unit outcome" where
  "object_checks spec properties value =
     bind (bind (iter_of (get_default spec ''required'' (PList []))) (\<lambda>names.
             require (list_all (\<lambda>n. str_in n (map fst value)) names) ''PROXY_FIELD_MISSING'')) (\<lambda>_.
       require (map_of spec ''additionalProperties'' = Some (PBool False) \<and>
                set (map fst value) \<subseteq> set (map fst properties)) ''PROXY_FIELD_UNKNOWN'')"

definition list_checks :: "ucd \<Rightarrow> items \<Rightarrow> pyval list \<Rightarrow> unit outcome" where
  "list_checks U spec xs =
     bind (requires (between spec ''minItems'' 0 (int (length xs)) ''maxItems'' 4096) ''PROXY_COLLECTION_SIZE'') (\<lambda>_.
       if truthy (get_default spec ''uniqueItems'' PNone) then
         bind (map_out (canonical_bytes U) xs) (\<lambda>bs. require (distinct bs) ''PROXY_DUPLICATE'')
       else Ret ())"

definition leaf_checks :: "items \<Rightarrow> pyval \<Rightarrow> unit outcome" where
  "leaf_checks spec value =
     (case value of
        PStr s \<Rightarrow>
          bind (requires (between spec ''minLength'' 0 (int (py_len s)) ''maxLength'' 262144) ''PROXY_STRING_SIZE'') (\<lambda>_.
            when_present spec ''pattern'' (\<lambda>p. requires (pattern_match p s) ''PROXY_STRING_INVALID''))
      | PInt i \<Rightarrow>
          requires (between spec ''minimum'' (- 9007199254740991) i ''maximum'' 9007199254740991) ''PROXY_INTEGER_RANGE''
      | _ \<Rightarrow> Ret ())"

text \<open>An option of \<open>oneOf\<close> counts when it does not refuse; other exceptions pass through.\<close>

definition accepted :: "unit outcome \<Rightarrow> nat outcome" where
  "accepted m =
     (case m of Ret _ \<Rightarrow> Ret 1 | Raise (ConformanceError _) \<Rightarrow> Ret 0 | Raise e \<Rightarrow> Raise e)"

fun shape :: "nat \<Rightarrow> ucd \<Rightarrow> items \<Rightarrow> pyval \<Rightarrow> pyval \<Rightarrow> unit outcome" where
  "shape 0 U definitions spec_value value = Raise OutOfFuel"
| "shape (Suc n) U definitions spec_value value =
     (case spec_value of
        PDict spec \<Rightarrow>
          bind (require (set (map fst spec) \<subseteq> set KEYWORDS) ''PROXY_SPEC_INVALID'') (\<lambda>_.
          bind (when_present spec ''$ref'' (\<lambda>r. bind (ref_name r definitions) (\<lambda>d. shape n U definitions d value))) (\<lambda>_.
          bind (when_present spec ''oneOf'' (\<lambda>options.
                 bind (bind (iter_of options) (map_out (\<lambda>option. accepted (shape n U definitions option value)))) (\<lambda>counts.
                   require (sum_list counts = 1) ''PROXY_SHAPE_INVALID''))) (\<lambda>_.
          bind (plain_checks U spec value) (\<lambda>_.
          bind (case value of
                  PDict d \<Rightarrow> when_present spec ''properties'' (\<lambda>ps. bind (items_of ps) (\<lambda>properties.
                    bind (object_checks spec properties d) (\<lambda>_.
                      for_each (\<lambda>(k, v). bind (field properties k) (\<lambda>s. shape n U definitions s v)) d)))
                | PList xs \<Rightarrow> bind (list_checks U spec xs) (\<lambda>_.
                    when_present spec ''items'' (\<lambda>s. for_each (shape n U definitions s) xs))
                | _ \<Rightarrow> Ret ()) (\<lambda>_.
            leaf_checks spec value)))))
      | _ \<Rightarrow> refuse ''PROXY_SPEC_INVALID'')"

section \<open>Instants\<close>

text \<open>\<open>_time\<close>: the form of an instant is checked by a pattern, the calendar by \<open>strptime\<close>, which raises
  \<open>ValueError\<close> as the ISO parser does on the same text.\<close>

definition proxy_time :: "pyval \<Rightarrow> datetime outcome" where
  "proxy_time v =
     (case v of
        PStr s \<Rightarrow> if fullmatch INSTANT s then fromisoformat (butlast s @ ''+00:00'') else refuse ''PROXY_TIME_INVALID''
      | _ \<Rightarrow> refuse ''PROXY_TIME_INVALID'')"

end
