(* ===== verification/ProxySpecs.thy ===== *)
theory ProxySpecs
  imports ProxyData
begin

text \<open>
  The pinned private schemas of \<open>live_mutation_admission.py\<close>, \<open>_PROFILE_SPEC\<close>, \<open>_OBSERVATION_SPEC\<close>,
  \<open>_BROKER_SPEC\<close> and \<open>_QUALIFICATION_SPEC\<close>: the JSON text of the source as values.  The keywords occur in
  fixed combinations, one constructor each; a schema that occurs more than once has a name of its own.
\<close>

section \<open>The combinations of keywords\<close>

definition closed_object :: "items \<Rightarrow> pyval" where
  "closed_object ps =
     PDict [(''type'', PStr ''object''), (''additionalProperties'', PBool False),
       (''required'', PList (map (PStr \<circ> fst) ps)), (''properties'', PDict ps)]"

definition ref :: "string \<Rightarrow> pyval" where
  "ref name = PDict [(''$ref'', PStr (REF_PREFIX @ name))]"

definition const_spec :: "pyval \<Rightarrow> pyval" where
  "const_spec v = PDict [(''const'', v)]"

definition enumeration :: "pyval \<Rightarrow> pyval" where
  "enumeration vs = PDict [(''enum'', vs)]"

definition one_of :: "pyval list \<Rightarrow> pyval" where
  "one_of options = PDict [(''oneOf'', PList options)]"

definition typed :: "string \<Rightarrow> pyval" where
  "typed t = PDict [(''type'', PStr t)]"

definition text_spec :: "int \<Rightarrow> int \<Rightarrow> string \<Rightarrow> pyval" where
  "text_spec low high pattern =
     PDict [(''type'', PStr ''string''), (''minLength'', PInt low), (''maxLength'', PInt high), (''pattern'', PStr pattern)]"

definition pattern_spec :: "string \<Rightarrow> pyval" where
  "pattern_spec pattern = PDict [(''type'', PStr ''string''), (''pattern'', PStr pattern)]"

definition length_spec :: "int \<Rightarrow> int \<Rightarrow> pyval" where
  "length_spec low high = PDict [(''type'', PStr ''string''), (''minLength'', PInt low), (''maxLength'', PInt high)]"

definition short_spec :: "int \<Rightarrow> pyval" where
  "short_spec high = PDict [(''type'', PStr ''string''), (''maxLength'', PInt high)]"

definition integer_spec :: "int \<Rightarrow> int \<Rightarrow> pyval" where
  "integer_spec low high = PDict [(''type'', PStr ''integer''), (''minimum'', PInt low), (''maximum'', PInt high)]"

definition list_spec :: "int \<Rightarrow> int \<Rightarrow> pyval \<Rightarrow> pyval" where
  "list_spec low high item_spec =
     PDict [(''type'', PStr ''array''), (''minItems'', PInt low), (''maxItems'', PInt high), (''items'', item_spec)]"

definition set_spec :: "int \<Rightarrow> int \<Rightarrow> pyval \<Rightarrow> pyval" where
  "set_spec low high item_spec =
     PDict [(''type'', PStr ''array''), (''minItems'', PInt low), (''maxItems'', PInt high),
       (''uniqueItems'', PBool True), (''items'', item_spec)]"

definition no_items :: "int \<Rightarrow> pyval" where
  "no_items high = PDict [(''type'', PStr ''array''), (''maxItems'', PInt high)]"

section \<open>The schemas\<close>

definition requestMediaType_spec :: pyval where
  "requestMediaType_spec =
     const_spec (PStr ''application/json'')"

definition kind_spec :: pyval where
  "kind_spec =
     enumeration (PList (map PStr [''Pod'', ''ConfigMap'', ''Service'']))"

definition pods_spec :: pyval where
  "pods_spec =
     integer_spec 0 9007199254740991"

definition units_spec :: pyval where
  "units_spec =
     closed_object
       [(''pods'', pods_spec),
        (''configMaps'', pods_spec),
        (''services'', pods_spec),
        (''cpuMillis'', pods_spec),
        (''memoryBytes'', pods_spec),
        (''ephemeralStorageBytes'', pods_spec)]"

definition labels_spec :: pyval where
  "labels_spec =
     closed_object
       [(''planeon.ai/run-nonce'', text_spec 1 128 P_NAME),
        (''planeon.ai/tenant-id'', text_spec 1 128 P_NAME)]"

definition metadata_spec :: pyval where
  "metadata_spec =
     closed_object
       [(''name'', text_spec 1 128 P_NAME),
        (''namespace'', text_spec 1 128 P_NAME),
        (''labels'', labels_spec)]"

definition requests_spec :: pyval where
  "requests_spec =
     closed_object
       [(''cpu'', text_spec 1 128 P_MILLI),
        (''memory'', text_spec 1 128 P_AMOUNT),
        (''ephemeral-storage'', text_spec 1 128 P_AMOUNT)]"

definition spec_spec :: pyval where
  "spec_spec =
     closed_object
       [(''restartPolicy'', const_spec (PStr ''Never'')),
        (''serviceAccountName'', text_spec 1 128 P_NAME),
        (''automountServiceAccountToken'', const_spec (PBool False)),
        (''enableServiceLinks'', const_spec (PBool False)),
        (''hostNetwork'', const_spec (PBool False)),
        (''hostPID'', const_spec (PBool False)),
        (''hostIPC'', const_spec (PBool False)),
        (''containers'', list_spec 1 1 (closed_object
       [(''name'', const_spec (PStr ''probe'')),
        (''image'', text_spec 1 1024 P_IMAGE),
        (''imagePullPolicy'', const_spec (PStr ''Never'')),
        (''resources'', closed_object
       [(''requests'', requests_spec),
        (''limits'', requests_spec)]),
        (''securityContext'', closed_object
       [(''allowPrivilegeEscalation'', const_spec (PBool False)),
        (''readOnlyRootFilesystem'', const_spec (PBool True)),
        (''runAsNonRoot'', const_spec (PBool True)),
        (''runAsUser'', integer_spec 10000 2147483647),
        (''seccompProfile'', closed_object
       [(''type'', const_spec (PStr ''RuntimeDefault''))]),
        (''capabilities'', closed_object
       [(''drop'', const_spec (PList (map PStr [''ALL''])))])])]))]"

definition manifest_spec :: pyval where
  "manifest_spec =
     one_of [closed_object
       [(''apiVersion'', const_spec (PStr ''v1'')),
        (''kind'', const_spec (PStr ''Pod'')),
        (''metadata'', metadata_spec),
        (''spec'', spec_spec)], closed_object
       [(''apiVersion'', const_spec (PStr ''v1'')),
        (''kind'', const_spec (PStr ''ConfigMap'')),
        (''metadata'', metadata_spec),
        (''immutable'', const_spec (PBool True)),
        (''data'', closed_object
       [(''fixture.json'', short_spec 8192)])], closed_object
       [(''apiVersion'', const_spec (PStr ''v1'')),
        (''kind'', const_spec (PStr ''Service'')),
        (''metadata'', metadata_spec),
        (''spec'', closed_object
       [(''type'', const_spec (PStr ''ClusterIP'')),
        (''selector'', labels_spec),
        (''ports'', list_spec 1 1 (closed_object
       [(''name'', const_spec (PStr ''probe'')),
        (''protocol'', const_spec (PStr ''TCP'')),
        (''port'', integer_spec 1 65535),
        (''targetPort'', integer_spec 1 65535)]))])]]"

definition PROFILE_DEFS :: items where
  "PROFILE_DEFS =
     [
        (''binding'', closed_object
       [(''tenantId'', text_spec 1 128 P_NAME),
        (''environmentId'', text_spec 1 128 P_NAME),
        (''runNonce'', text_spec 1 128 P_NAME),
        (''capacityNonce'', text_spec 1 128 P_NAME),
        (''endpointId'', text_spec 1 128 P_NAME),
        (''namespace'', text_spec 1 128 P_NAME),
        (''serviceAccountSubject'', text_spec 1 256 P_SUBJECT),
        (''validFrom'', text_spec 1 20 P_TIME),
        (''expiresAt'', text_spec 1 20 P_TIME),
        (''apiEndpointId'', one_of [text_spec 1 128 P_NAME, typed ''null''])]),
        (''credentialIdentity'', closed_object
       [(''endpointId'', text_spec 1 128 P_NAME),
        (''purpose'', enumeration (PList (map PStr [''CAMPAIGN_PROXY_CLIENT_MTLS'',
          ''KUBERNETES_PROXY_SERVER_MTLS'']))),
        (''subject'', text_spec 1 256 P_SUBJECT),
        (''expiresAt'', text_spec 1 20 P_TIME),
        (''certificateDigest'', text_spec 1 71 P_DIGEST),
        (''clientSpkiDigest'', text_spec 1 71 P_DIGEST)]),
        (''apiRule'', closed_object
       [(''endpointId'', text_spec 1 128 P_NAME),
        (''verb'', enumeration (PList (map PStr [''get'', ''create'', ''delete'']))),
        (''apiGroup'', const_spec (PStr '''')),
        (''apiVersion'', const_spec (PStr ''v1'')),
        (''resource'', enumeration (PList (map PStr [''pods'', ''configmaps'', ''services'']))),
        (''namespace'', text_spec 1 128 P_NAME),
        (''name'', text_spec 1 128 P_NAME),
        (''subresource'', const_spec (PStr '''')),
        (''requestMediaType'', requestMediaType_spec),
        (''responseMediaType'', requestMediaType_spec),
        (''requestMaxBytes'', const_spec (PInt 16384)),
        (''responseMaxBytes'', const_spec (PInt 4194304))]),
        (''proxyRule'', closed_object
       [(''endpointId'', text_spec 1 128 P_NAME),
        (''namespace'', text_spec 1 128 P_NAME),
        (''service'', const_spec (PStr ''linux-baseline-probes'')),
        (''port'', integer_spec 1 65535),
        (''protocol'', const_spec (PStr ''HTTPS'')),
        (''methods'', const_spec (PList (map PStr [''POST'']))),
        (''paths'', set_spec 10 10 (text_spec 1 128 P_PATH)),
        (''requestMediaType'', requestMediaType_spec),
        (''responseMediaType'', requestMediaType_spec),
        (''requestMaxBytes'', const_spec (PInt 16384)),
        (''responseMaxBytes'', const_spec (PInt 4194304)),
        (''timeoutSeconds'', const_spec (PInt 900))]),
        (''gvkRule'', closed_object
       [(''apiGroup'', const_spec (PStr '''')),
        (''apiVersion'', const_spec (PStr ''v1'')),
        (''kind'', kind_spec),
        (''verbs'', const_spec (PList (map PStr [''create'', ''get'', ''delete'']))),
        (''names'', set_spec 1 32 (text_spec 1 128 P_NAME))]),
        (''resourceRef'', closed_object
       [(''apiVersion'', const_spec (PStr ''v1'')),
        (''kind'', enumeration (PList (map PStr [''ResourceQuota'', ''LimitRange'', ''ServiceAccount'',
          ''Service'', ''ConfigMap'']))),
        (''namespace'', text_spec 1 128 P_NAME),
        (''name'', text_spec 1 128 P_NAME),
        (''uid'', text_spec 1 128 P_UID),
        (''observedDigest'', text_spec 1 71 P_DIGEST)]),
        (''units'', units_spec),
        (''manifest'', manifest_spec),
        (''resource'', closed_object
       [(''manifest'', ref ''manifest''),
        (''manifestDigest'', text_spec 1 71 P_DIGEST)]),
        (''policy'', closed_object
       [(''admissionPolicyDigest'', text_spec 1 71 P_DIGEST),
        (''resourceQuotaDigest'', text_spec 1 71 P_DIGEST),
        (''limitRangeDigest'', text_spec 1 71 P_DIGEST),
        (''namespaceUid'', text_spec 1 128 P_UID),
        (''resourceQuotaUid'', text_spec 1 128 P_UID),
        (''limitRangeUid'', text_spec 1 128 P_UID),
        (''serviceAccountUid'', text_spec 1 128 P_UID),
        (''rbacDigest'', text_spec 1 71 P_DIGEST),
        (''networkPolicyDigest'', text_spec 1 71 P_DIGEST),
        (''mutationBrokerDigest'', text_spec 1 71 P_DIGEST),
        (''maxConcurrentOperations'', const_spec (PInt 1)),
        (''serviceAccountDigest'', text_spec 1 71 P_DIGEST)])]"

definition PROFILE_SPEC :: pyval where
  "PROFILE_SPEC =
     closed_object
       [(''profileId'', const_spec (PStr ''CAMPAIGN_PROXY_MTLS_ZERO_COST_V1'')),
        (''binding'', ref ''binding''),
        (''capacityEntries'', closed_object
       [(''kubernetesApiRules'', set_spec 0 256 (ref ''apiRule'')),
        (''campaignProxyRules'', set_spec 1 1 (ref ''proxyRule'')),
        (''permittedGvksAndVerbs'', set_spec 0 3 (ref ''gvkRule'')),
        (''preexistingResourceRefs'', set_spec 0 256 (ref ''resourceRef'')),
        (''preallocatedStorageRefs'', no_items 0),
        (''preallocatedAcceleratorRefs'', no_items 0),
        (''credentialIdentities'', set_spec 1 2 (ref ''credentialIdentity''))]),
        (''policy'', ref ''policy''),
        (''quota'', ref ''units''),
        (''resources'', set_spec 0 32 (ref ''resource'')),
        (''localImages'', set_spec 0 16 (text_spec 1 1024 P_IMAGE))]"

definition namespace_spec :: pyval where
  "namespace_spec =
     one_of [text_spec 1 63 P_LABEL, typed ''null'']"

definition admissionPolicy_spec :: pyval where
  "admissionPolicy_spec =
     closed_object
       [(''apiVersion'', text_spec 1 128 P_GROUP),
        (''kind'', text_spec 1 128 P_KIND),
        (''name'', text_spec 1 63 P_LABEL),
        (''namespace'', namespace_spec),
        (''uid'', text_spec 1 128 P_IDENT),
        (''projectionDigest'', text_spec 1 71 P_DIGEST)]"

definition binding_spec :: pyval where
  "binding_spec =
     closed_object
       [(''schemaVersion'', const_spec (PStr ''planeon.internal.policy-observation-binding/v1'')),
        (''profileDigest'', text_spec 1 71 P_DIGEST),
        (''scope'', closed_object
       [(''tenantId'', text_spec 1 63 P_LABEL),
        (''environmentId'', text_spec 1 63 P_LABEL),
        (''runNonce'', text_spec 1 63 P_LABEL),
        (''capacityNonce'', text_spec 1 63 P_LABEL),
        (''endpointId'', text_spec 1 63 P_LABEL),
        (''namespace'', text_spec 1 63 P_LABEL),
        (''serviceAccountSubject'', text_spec 1 256 P_SUBJECT),
        (''validFrom'', text_spec 1 20 P_INSTANT),
        (''expiresAt'', text_spec 1 20 P_INSTANT)]),
        (''observer'', closed_object
       [(''executableDigest'', text_spec 1 71 P_DIGEST),
        (''manifestDigest'', text_spec 1 71 P_DIGEST)]),
        (''namespace'', closed_object
       [(''name'', text_spec 1 63 P_LABEL),
        (''uid'', text_spec 1 128 P_IDENT)]),
        (''projections'', closed_object
       [(''admissionPolicy'', admissionPolicy_spec),
        (''resourceQuota'', admissionPolicy_spec),
        (''limitRange'', admissionPolicy_spec),
        (''serviceAccount'', admissionPolicy_spec),
        (''rbac'', admissionPolicy_spec),
        (''networkPolicy'', admissionPolicy_spec),
        (''mutationBroker'', admissionPolicy_spec)]),
        (''enforcementPins'', closed_object
       [(''admissionFenceDigest'', text_spec 1 71 P_DIGEST),
        (''rbacClosureDigest'', text_spec 1 71 P_DIGEST),
        (''networkEnforcementDigest'', text_spec 1 71 P_DIGEST),
        (''hostPreflightDigest'', text_spec 1 71 P_DIGEST)])]"

definition sequence_spec :: pyval where
  "sequence_spec =
     integer_spec 1 9007199254740991"

definition admissionPolicy2_spec :: pyval where
  "admissionPolicy2_spec =
     closed_object
       [(''apiVersion'', text_spec 1 128 P_GROUP),
        (''kind'', text_spec 1 128 P_KIND),
        (''name'', text_spec 1 63 P_LABEL),
        (''namespace'', namespace_spec),
        (''uid'', text_spec 1 128 P_IDENT),
        (''projectionDigest'', text_spec 1 71 P_DIGEST),
        (''resourceVersion'', text_spec 1 128 P_VERSION)]"

definition observation_spec :: pyval where
  "observation_spec =
     closed_object
       [(''schemaVersion'', const_spec (PStr ''planeon.internal.policy-observation/v1'')),
        (''bindingDigest'', text_spec 1 71 P_DIGEST),
        (''runNonce'', text_spec 1 63 P_LABEL),
        (''challenge'', text_spec 1 64 P_HEX),
        (''sequence'', sequence_spec),
        (''previousObservationDigest'', text_spec 1 71 P_DIGEST),
        (''observerBootId'', text_spec 1 36 P_UUID),
        (''generation'', text_spec 1 64 P_HEX),
        (''observedAt'', text_spec 1 20 P_INSTANT),
        (''expiresAt'', text_spec 1 20 P_INSTANT),
        (''namespace'', closed_object
       [(''name'', text_spec 1 63 P_LABEL),
        (''uid'', text_spec 1 128 P_IDENT),
        (''resourceVersion'', text_spec 1 128 P_VERSION)]),
        (''projections'', closed_object
       [(''admissionPolicy'', admissionPolicy2_spec),
        (''resourceQuota'', admissionPolicy2_spec),
        (''limitRange'', admissionPolicy2_spec),
        (''serviceAccount'', admissionPolicy2_spec),
        (''rbac'', admissionPolicy2_spec),
        (''networkPolicy'', admissionPolicy2_spec),
        (''mutationBroker'', admissionPolicy2_spec)]),
        (''quota'', closed_object
       [(''hard'', units_spec),
        (''used'', units_spec)]),
        (''enforcement'', closed_object
       [(''policyGeneration'', text_spec 1 64 P_HEX),
        (''admissionFenceDigest'', text_spec 1 71 P_DIGEST),
        (''rbacClosureDigest'', text_spec 1 71 P_DIGEST),
        (''networkEnforcementDigest'', text_spec 1 71 P_DIGEST),
        (''hostPreflightDigest'', text_spec 1 71 P_DIGEST)])]"

definition OBSERVATION_DEFS :: items where
  "OBSERVATION_DEFS =
     [
        (''binding'', binding_spec),
        (''request'', closed_object
       [(''schemaVersion'', const_spec (PStr ''planeon.internal.policy-observation-request/v1'')),
        (''operation'', const_spec (PStr ''OBSERVE_POLICY'')),
        (''bindingDigest'', text_spec 1 71 P_DIGEST),
        (''runNonce'', text_spec 1 63 P_LABEL),
        (''challenge'', text_spec 1 64 P_HEX),
        (''sequence'', sequence_spec),
        (''previousObservationDigest'', text_spec 1 71 P_DIGEST)]),
        (''observation'', observation_spec)]"

definition HOST_ISOLATION_NEGATIVES_spec :: pyval where
  "HOST_ISOLATION_NEGATIVES_spec =
     set_spec 0 32 (text_spec 1 71 P_DIGEST)"

definition binding2_spec :: pyval where
  "binding2_spec =
     closed_object
       [(''schemaVersion'', const_spec (PStr ''planeon.internal.broker-binding/v1'')),
        (''profileDigest'', text_spec 1 71 P_DIGEST),
        (''observationBindingDigest'', text_spec 1 71 P_DIGEST),
        (''brokerManifestDigest'', text_spec 1 71 P_DIGEST),
        (''brokerExecutableDigest'', text_spec 1 71 P_DIGEST),
        (''workerManifestDigest'', text_spec 1 71 P_DIGEST),
        (''workerArtifactDigest'', text_spec 1 71 P_DIGEST),
        (''caseResourceDigests'', closed_object
       [(''HOST_ISOLATION_NEGATIVES'', HOST_ISOLATION_NEGATIVES_spec),
        (''LINUX_TARGET_BUILD'', HOST_ISOLATION_NEGATIVES_spec),
        (''FULL_PREDECESSOR_REGRESSION'', HOST_ISOLATION_NEGATIVES_spec),
        (''CONTROL_CONTAINER_STARTUP'', HOST_ISOLATION_NEGATIVES_spec),
        (''POSTGRES_MIGRATION_AND_RLS'', HOST_ISOLATION_NEGATIVES_spec),
        (''DURABLE_RESTART'', HOST_ISOLATION_NEGATIVES_spec),
        (''ARBITRARY_NON_ROOT_UID'', HOST_ISOLATION_NEGATIVES_spec),
        (''READ_ONLY_ROOT_FILESYSTEM'', HOST_ISOLATION_NEGATIVES_spec),
        (''KUBERNETES_SMOKE'', HOST_ISOLATION_NEGATIVES_spec),
        (''DEFAULT_DENY_NETWORK'', HOST_ISOLATION_NEGATIVES_spec)])]"

definition caseId_spec :: pyval where
  "caseId_spec =
     enumeration (PList (map PStr [''HOST_ISOLATION_NEGATIVES'', ''LINUX_TARGET_BUILD'',
       ''FULL_PREDECESSOR_REGRESSION'', ''CONTROL_CONTAINER_STARTUP'', ''POSTGRES_MIGRATION_AND_RLS'',
         ''DURABLE_RESTART'', ''ARBITRARY_NON_ROOT_UID'', ''READ_ONLY_ROOT_FILESYSTEM'', ''KUBERNETES_SMOKE'',
           ''DEFAULT_DENY_NETWORK'']))"

definition schemaVersion_spec :: pyval where
  "schemaVersion_spec =
     const_spec (PStr ''planeon.internal.broker-frame/v1'')"

definition frame_alt_spec :: pyval where
  "frame_alt_spec =
     closed_object
       [(''schemaVersion'', schemaVersion_spec),
        (''bindingDigest'', text_spec 1 71 P_DIGEST),
        (''reservationDigest'', text_spec 1 71 P_DIGEST),
        (''runNonce'', text_spec 1 63 P_LABEL),
        (''caseId'', caseId_spec),
        (''requestDigest'', text_spec 1 71 P_DIGEST),
        (''observationDigest'', text_spec 1 71 P_DIGEST),
        (''generation'', text_spec 1 64 P_HEX),
        (''challenge'', text_spec 1 64 P_HEX),
        (''executionId'', text_spec 1 64 P_HEX),
        (''sequence'', integer_spec 1 2048),
        (''previousDigest'', text_spec 1 71 P_DIGEST),
        (''kind'', const_spec (PStr ''RESOURCE_RESULT'')),
        (''payload'', closed_object
       [(''actionId'', integer_spec 1 256),
        (''outcome'', enumeration (PList (map PStr [''ABSENT'', ''CREATED'', ''PRESENT'', ''DELETED'',
          ''DENIED'', ''AMBIGUOUS'']))),
        (''objectBase64'', one_of [typed ''null'', text_spec 4 21848 P_BASE64])])]"

definition frame_alt2_spec :: pyval where
  "frame_alt2_spec =
     closed_object
       [(''schemaVersion'', schemaVersion_spec),
        (''bindingDigest'', text_spec 1 71 P_DIGEST),
        (''reservationDigest'', text_spec 1 71 P_DIGEST),
        (''runNonce'', text_spec 1 63 P_LABEL),
        (''caseId'', caseId_spec),
        (''requestDigest'', text_spec 1 71 P_DIGEST),
        (''observationDigest'', text_spec 1 71 P_DIGEST),
        (''generation'', text_spec 1 64 P_HEX),
        (''challenge'', text_spec 1 64 P_HEX),
        (''executionId'', text_spec 1 64 P_HEX),
        (''sequence'', integer_spec 1 2048),
        (''previousDigest'', text_spec 1 71 P_DIGEST),
        (''kind'', const_spec (PStr ''CLEANUP_RECORDED'')),
        (''payload'', closed_object
       [(''cleanupDigest'', text_spec 1 71 P_DIGEST),
        (''state'', enumeration (PList (map PStr [''CLEAN'', ''CLEANUP_PENDING'']))),
        (''remainingResources'', set_spec 0 32 (closed_object
       [(''apiVersion'', const_spec (PStr ''v1'')),
        (''kind'', kind_spec),
        (''namespace'', text_spec 1 63 P_LABEL),
        (''name'', text_spec 1 63 P_LABEL),
        (''uid'', one_of [typed ''null'', text_spec 1 128 P_IDENT]),
        (''manifestDigest'', text_spec 1 71 P_DIGEST),
        (''reasonCode'', enumeration (PList (map PStr [''DELETE_DENIED'', ''UID_CHANGED'', ''DEADLINE'',
          ''IO_AMBIGUOUS'', ''OBSERVATION_UNAVAILABLE''])))]))])]"

definition frame_alt3_spec :: pyval where
  "frame_alt3_spec =
     closed_object
       [(''schemaVersion'', schemaVersion_spec),
        (''bindingDigest'', text_spec 1 71 P_DIGEST),
        (''reservationDigest'', text_spec 1 71 P_DIGEST),
        (''runNonce'', text_spec 1 63 P_LABEL),
        (''caseId'', caseId_spec),
        (''requestDigest'', text_spec 1 71 P_DIGEST),
        (''observationDigest'', text_spec 1 71 P_DIGEST),
        (''generation'', text_spec 1 64 P_HEX),
        (''challenge'', text_spec 1 64 P_HEX),
        (''executionId'', text_spec 1 64 P_HEX),
        (''sequence'', integer_spec 1 2048),
        (''previousDigest'', text_spec 1 71 P_DIGEST),
        (''kind'', const_spec (PStr ''TERMINAL'')),
        (''payload'', closed_object
       [(''status'', enumeration (PList (map PStr [''COMPLETED'', ''FAILED'', ''UNAVAILABLE'']))),
        (''receiptSize'', integer_spec 1 4194304),
        (''receiptDigest'', text_spec 1 71 P_DIGEST),
        (''cleanupDigest'', text_spec 1 71 P_DIGEST),
        (''workerReaped'', const_spec (PBool True))])]"

definition frame_spec :: pyval where
  "frame_spec =
     one_of [closed_object
       [(''schemaVersion'', schemaVersion_spec),
        (''bindingDigest'', text_spec 1 71 P_DIGEST),
        (''reservationDigest'', text_spec 1 71 P_DIGEST),
        (''runNonce'', text_spec 1 63 P_LABEL),
        (''caseId'', caseId_spec),
        (''requestDigest'', text_spec 1 71 P_DIGEST),
        (''observationDigest'', text_spec 1 71 P_DIGEST),
        (''generation'', text_spec 1 64 P_HEX),
        (''challenge'', text_spec 1 64 P_HEX),
        (''executionId'', text_spec 1 64 P_HEX),
        (''sequence'', integer_spec 1 2048),
        (''previousDigest'', text_spec 1 71 P_DIGEST),
        (''kind'', const_spec (PStr ''STARTED'')),
        (''payload'', closed_object
       [(''workerPid'', integer_spec 2 2147483647),
        (''workerStartTicks'', sequence_spec)])], closed_object
       [(''schemaVersion'', schemaVersion_spec),
        (''bindingDigest'', text_spec 1 71 P_DIGEST),
        (''reservationDigest'', text_spec 1 71 P_DIGEST),
        (''runNonce'', text_spec 1 63 P_LABEL),
        (''caseId'', caseId_spec),
        (''requestDigest'', text_spec 1 71 P_DIGEST),
        (''observationDigest'', text_spec 1 71 P_DIGEST),
        (''generation'', text_spec 1 64 P_HEX),
        (''challenge'', text_spec 1 64 P_HEX),
        (''executionId'', text_spec 1 64 P_HEX),
        (''sequence'', integer_spec 1 2048),
        (''previousDigest'', text_spec 1 71 P_DIGEST),
        (''kind'', const_spec (PStr ''RESOURCE_ACTION'')),
        (''payload'', closed_object
       [(''actionId'', integer_spec 1 256),
        (''verb'', enumeration (PList (map PStr [''CREATE'', ''GET'', ''DELETE'']))),
        (''manifestDigest'', text_spec 1 71 P_DIGEST)])], frame_alt_spec, closed_object
       [(''schemaVersion'', schemaVersion_spec),
        (''bindingDigest'', text_spec 1 71 P_DIGEST),
        (''reservationDigest'', text_spec 1 71 P_DIGEST),
        (''runNonce'', text_spec 1 63 P_LABEL),
        (''caseId'', caseId_spec),
        (''requestDigest'', text_spec 1 71 P_DIGEST),
        (''observationDigest'', text_spec 1 71 P_DIGEST),
        (''generation'', text_spec 1 64 P_HEX),
        (''challenge'', text_spec 1 64 P_HEX),
        (''executionId'', text_spec 1 64 P_HEX),
        (''sequence'', integer_spec 1 2048),
        (''previousDigest'', text_spec 1 71 P_DIGEST),
        (''kind'', const_spec (PStr ''RECEIPT_CHUNK'')),
        (''payload'', closed_object
       [(''index'', integer_spec 0 170),
        (''dataBase64'', text_spec 4 32768 P_BASE64)])], frame_alt2_spec, frame_alt3_spec, closed_object
       [(''schemaVersion'', schemaVersion_spec),
        (''bindingDigest'', text_spec 1 71 P_DIGEST),
        (''reservationDigest'', text_spec 1 71 P_DIGEST),
        (''runNonce'', text_spec 1 63 P_LABEL),
        (''caseId'', caseId_spec),
        (''requestDigest'', text_spec 1 71 P_DIGEST),
        (''observationDigest'', text_spec 1 71 P_DIGEST),
        (''generation'', text_spec 1 64 P_HEX),
        (''challenge'', text_spec 1 64 P_HEX),
        (''executionId'', text_spec 1 64 P_HEX),
        (''sequence'', integer_spec 1 2048),
        (''previousDigest'', text_spec 1 71 P_DIGEST),
        (''kind'', const_spec (PStr ''ABORT'')),
        (''payload'', closed_object
       [(''reason'', enumeration (PList (map PStr [''DEADLINE'', ''REVOKED'', ''POLICY_LOST'',
         ''PEER_CHANGED'', ''IO_AMBIGUOUS'', ''INVALID_FRAME''])))])], closed_object
       [(''schemaVersion'', schemaVersion_spec),
        (''bindingDigest'', text_spec 1 71 P_DIGEST),
        (''reservationDigest'', text_spec 1 71 P_DIGEST),
        (''runNonce'', text_spec 1 63 P_LABEL),
        (''caseId'', caseId_spec),
        (''requestDigest'', text_spec 1 71 P_DIGEST),
        (''observationDigest'', text_spec 1 71 P_DIGEST),
        (''generation'', text_spec 1 64 P_HEX),
        (''challenge'', text_spec 1 64 P_HEX),
        (''executionId'', text_spec 1 64 P_HEX),
        (''sequence'', integer_spec 1 2048),
        (''previousDigest'', text_spec 1 71 P_DIGEST),
        (''kind'', const_spec (PStr ''REFUSED'')),
        (''payload'', closed_object
       [(''reason'', enumeration (PList (map PStr [''UNAVAILABLE'', ''REPLAY'', ''GENERATION_MISMATCH'',
         ''CAPACITY_HELD'', ''INVALID_AUTHORITY''])))])]]"

definition BROKER_DEFS :: items where
  "BROKER_DEFS =
     [
        (''binding'', binding2_spec),
        (''dispatch'', closed_object
       [(''schemaVersion'', const_spec (PStr ''planeon.internal.broker-dispatch/v1'')),
        (''operation'', const_spec (PStr ''EXECUTE_FIXED_PROBE'')),
        (''bindingDigest'', text_spec 1 71 P_DIGEST),
        (''reservationDigest'', text_spec 1 71 P_DIGEST),
        (''runNonce'', text_spec 1 63 P_LABEL),
        (''caseId'', caseId_spec),
        (''requestDigest'', text_spec 1 71 P_DIGEST),
        (''observationDigest'', text_spec 1 71 P_DIGEST),
        (''generation'', text_spec 1 64 P_HEX),
        (''challenge'', text_spec 1 64 P_HEX)]),
        (''frame'', frame_spec),
        (''workerStart'', closed_object
       [(''schemaVersion'', const_spec (PStr ''planeon.internal.broker-worker/v1'')),
        (''operation'', const_spec (PStr ''START'')),
        (''executionId'', text_spec 1 64 P_HEX),
        (''bindingDigest'', text_spec 1 71 P_DIGEST),
        (''caseId'', caseId_spec),
        (''requestDigest'', text_spec 1 71 P_DIGEST),
        (''generation'', text_spec 1 64 P_HEX)])]"

definition permissions_spec :: pyval where
  "permissions_spec =
     enumeration (PList (map PStr [''r-xp'', ''r-xs'', ''--xp'', ''--xs'']))"

definition memoryMaxBytes_spec :: pyval where
  "memoryMaxBytes_spec =
     integer_spec 1048576 1099511627776"

definition interpreterPath_spec :: pyval where
  "interpreterPath_spec =
     const_spec (PStr ''/opt/planeon/python/3.12.14/bin/python3.12'')"

definition bpfPrograms_spec :: pyval where
  "bpfPrograms_spec =
     closed_object
       [(''INET_SOCK_CREATE'', ref ''program''),
        (''INET4_BIND'', ref ''program''),
        (''INET6_BIND'', ref ''program''),
        (''INET4_CONNECT'', ref ''program''),
        (''INET6_CONNECT'', ref ''program''),
        (''UDP4_SENDMSG'', ref ''program''),
        (''UDP6_SENDMSG'', ref ''program'')]"

definition outboundEndpointIds_spec :: pyval where
  "outboundEndpointIds_spec =
     set_spec 0 16 (text_spec 1 128 P_PRINTABLE)"

definition SERVER_spec :: pyval where
  "SERVER_spec =
     closed_object
       [(''executable'', const_spec (PStr ''/opt/planeon/bin/harness-live-proxy-serve'')),
        (''artifactDigest'', pattern_spec P_DIGEST),
        (''interpreterPath'', interpreterPath_spec),
        (''uid'', const_spec (PInt 0)),
        (''gid'', const_spec (PInt 0)),
        (''processLabel'', text_spec 1 256 P_PRINTABLE),
        (''namespaceInodes'', ref ''namespaces''),
        (''cgroup'', closed_object
       [(''path'', const_spec (PStr ''/sys/fs/cgroup/planeon-live/proxy-server'')),
        (''inode'', sequence_spec),
        (''memoryMaxBytes'', memoryMaxBytes_spec),
        (''pidsMax'', integer_spec 1 4096),
        (''cpuQuotaMicros'', integer_spec 1000 1000000),
        (''cpuPeriodMicros'', integer_spec 1000 1000000)]),
        (''seccompMode'', const_spec (PInt 2)),
        (''filePaths'', set_spec 1 128 (ref ''path'')),
        (''bpfPrograms'', bpfPrograms_spec),
        (''outboundEndpointIds'', outboundEndpointIds_spec)]"

definition OBSERVER_spec :: pyval where
  "OBSERVER_spec =
     closed_object
       [(''executable'', const_spec (PStr ''/opt/planeon/bin/harness-policy-observer'')),
        (''artifactDigest'', pattern_spec P_DIGEST),
        (''interpreterPath'', const_spec (PNone)),
        (''uid'', const_spec (PInt 0)),
        (''gid'', const_spec (PInt 0)),
        (''processLabel'', text_spec 1 256 P_PRINTABLE),
        (''namespaceInodes'', ref ''namespaces''),
        (''cgroup'', closed_object
       [(''path'', const_spec (PStr ''/sys/fs/cgroup/planeon-live/policy-observer'')),
        (''inode'', sequence_spec),
        (''memoryMaxBytes'', memoryMaxBytes_spec),
        (''pidsMax'', integer_spec 1 4096),
        (''cpuQuotaMicros'', integer_spec 1000 1000000),
        (''cpuPeriodMicros'', integer_spec 1000 1000000)]),
        (''seccompMode'', const_spec (PInt 2)),
        (''filePaths'', set_spec 1 128 (ref ''path'')),
        (''bpfPrograms'', bpfPrograms_spec),
        (''outboundEndpointIds'', outboundEndpointIds_spec)]"

definition BROKER_spec :: pyval where
  "BROKER_spec =
     closed_object
       [(''executable'', const_spec (PStr ''/opt/planeon/bin/harness-capacity-broker'')),
        (''artifactDigest'', pattern_spec P_DIGEST),
        (''interpreterPath'', const_spec (PNone)),
        (''uid'', const_spec (PInt 0)),
        (''gid'', const_spec (PInt 0)),
        (''processLabel'', text_spec 1 256 P_PRINTABLE),
        (''namespaceInodes'', ref ''namespaces''),
        (''cgroup'', closed_object
       [(''path'', const_spec (PStr ''/sys/fs/cgroup/planeon-live/capacity-broker'')),
        (''inode'', sequence_spec),
        (''memoryMaxBytes'', memoryMaxBytes_spec),
        (''pidsMax'', integer_spec 1 4096),
        (''cpuQuotaMicros'', integer_spec 1000 1000000),
        (''cpuPeriodMicros'', integer_spec 1000 1000000)]),
        (''seccompMode'', const_spec (PInt 2)),
        (''filePaths'', set_spec 1 128 (ref ''path'')),
        (''bpfPrograms'', bpfPrograms_spec),
        (''outboundEndpointIds'', outboundEndpointIds_spec)]"

definition WORKER_spec :: pyval where
  "WORKER_spec =
     closed_object
       [(''executable'', const_spec (PStr ''/opt/planeon/bin/harness-live-probe-exec'')),
        (''artifactDigest'', pattern_spec P_DIGEST),
        (''interpreterPath'', interpreterPath_spec),
        (''uid'', integer_spec 10000 2147483647),
        (''gid'', integer_spec 10000 2147483647),
        (''processLabel'', text_spec 1 256 P_PRINTABLE),
        (''namespaceInodes'', ref ''namespaces''),
        (''cgroup'', closed_object
       [(''path'', const_spec (PStr ''/sys/fs/cgroup/planeon-live/probe-worker'')),
        (''inode'', sequence_spec),
        (''memoryMaxBytes'', memoryMaxBytes_spec),
        (''pidsMax'', integer_spec 1 4096),
        (''cpuQuotaMicros'', integer_spec 1000 1000000),
        (''cpuPeriodMicros'', integer_spec 1000 1000000)]),
        (''seccompMode'', const_spec (PInt 2)),
        (''filePaths'', set_spec 1 128 (ref ''path'')),
        (''bpfPrograms'', bpfPrograms_spec),
        (''outboundEndpointIds'', outboundEndpointIds_spec)]"

definition capture_spec :: pyval where
  "capture_spec =
     closed_object
       [(''evidenceClass'', const_spec (PStr ''DATA_CHECK_ONLY'')),
        (''qualificationDigest'', pattern_spec P_DIGEST),
        (''role'', enumeration (PList (map PStr [''SERVER'', ''OBSERVER'', ''BROKER'', ''WORKER'']))),
        (''host'', ref ''host''),
        (''selinuxBefore'', ref ''status''),
        (''selinuxAfter'', ref ''status''),
        (''kernelPolicyDigest'', pattern_spec P_DIGEST),
        (''observedAt'', ref ''time''),
        (''inspectionStartedMs'', pods_spec),
        (''inspectionFinishedMs'', pods_spec),
        (''deadlineMs'', pods_spec),
        (''process'', closed_object
       [(''pid'', integer_spec 2 2147483647),
        (''startTicks'', sequence_spec),
        (''uid'', integer_spec 0 2147483647),
        (''gid'', integer_spec 0 2147483647),
        (''processLabel'', text_spec 1 256 P_PRINTABLE),
        (''namespaceInodes'', ref ''namespaces''),
        (''cgroup'', ref ''cgroup''),
        (''seccompMode'', const_spec (PInt 2))]),
        (''files'', list_spec 1 128 (ref ''fileObservation'')),
        (''executableMaps'', list_spec 1 256 (ref ''mapping'')),
        (''bpfPrograms'', closed_object
       [(''INET_SOCK_CREATE'', ref ''observedProgram''),
        (''INET4_BIND'', ref ''observedProgram''),
        (''INET6_BIND'', ref ''observedProgram''),
        (''INET4_CONNECT'', ref ''observedProgram''),
        (''INET6_CONNECT'', ref ''observedProgram''),
        (''UDP4_SENDMSG'', ref ''observedProgram''),
        (''UDP6_SENDMSG'', ref ''observedProgram'')])]"

definition QUALIFICATION_DEFS :: items where
  "QUALIFICATION_DEFS =
     [
        (''digest'', pattern_spec P_DIGEST),
        (''path'', text_spec 1 4096 P_FILE),
        (''time'', text_spec 1 20 P_INSTANT),
        (''scope'', closed_object
       [(''tenantId'', text_spec 1 128 P_PRINTABLE),
        (''environmentId'', text_spec 1 128 P_PRINTABLE),
        (''runNonce'', text_spec 1 128 P_PRINTABLE),
        (''capacityNonce'', text_spec 1 128 P_PRINTABLE),
        (''namespace'', text_spec 1 253 P_PRINTABLE),
        (''validFrom'', ref ''time''),
        (''expiresAt'', ref ''time'')]),
        (''host'', closed_object
       [(''machine'', enumeration (PList (map PStr [''x86_64'', ''aarch64'']))),
        (''kernelRelease'', text_spec 1 128 P_PRINTABLE),
        (''kernelNotesDigest'', pattern_spec P_DIGEST),
        (''bootId'', text_spec 1 36 P_BOOT)]),
        (''status'', closed_object
       [(''version'', const_spec (PInt 1)),
        (''sequence'', integer_spec 0 4294967294),
        (''policyload'', integer_spec 1 4294967295),
        (''enforcing'', const_spec (PInt 1)),
        (''denyUnknown'', const_spec (PInt 1))]),
        (''namespaces'', closed_object
       [(''user'', sequence_spec),
        (''mnt'', sequence_spec),
        (''pid'', sequence_spec),
        (''net'', sequence_spec)]),
        (''segment'', closed_object
       [(''offset'', pods_spec),
        (''length'', integer_spec 1 67108864),
        (''permissions'', permissions_spec)]),
        (''file'', closed_object
       [(''path'', ref ''path''),
        (''mode'', enumeration (PList (map PStr [''0444'', ''0555'']))),
        (''size'', integer_spec 1 67108864),
        (''sha256'', pattern_spec P_DIGEST),
        (''verityDigest'', pattern_spec P_DIGEST),
        (''selinuxLabel'', text_spec 1 256 P_PRINTABLE),
        (''executableSegments'', list_spec 0 16 (ref ''segment''))]),
        (''program'', closed_object
       [(''programId'', integer_spec 1 4294967295),
        (''programType'', enumeration (PList [PInt 9, PInt 18])),
        (''translatedSha256'', pattern_spec P_DIGEST),
        (''instructionBytes'', integer_spec 8 65536),
        (''mapIds'', list_spec 0 0 (pods_spec)),
        (''ifindex'', const_spec (PInt 0))]),
        (''cgroup'', closed_object
       [(''path'', ref ''path''),
        (''inode'', sequence_spec),
        (''memoryMaxBytes'', memoryMaxBytes_spec),
        (''pidsMax'', integer_spec 1 4096),
        (''cpuQuotaMicros'', integer_spec 1000 1000000),
        (''cpuPeriodMicros'', integer_spec 1000 1000000)]),
        (''fileObservation'', closed_object
       [(''entry'', ref ''file''),
        (''device'', sequence_spec),
        (''inode'', sequence_spec),
        (''uid'', const_spec (PInt 0)),
        (''gid'', const_spec (PInt 0)),
        (''nlink'', const_spec (PInt 1)),
        (''contentDigest'', pattern_spec P_DIGEST),
        (''measuredVerity'', pattern_spec P_DIGEST)]),
        (''mapping'', closed_object
       [(''path'', ref ''path''),
        (''offset'', pods_spec),
        (''length'', integer_spec 1 67108864),
        (''permissions'', permissions_spec),
        (''device'', sequence_spec),
        (''inode'', sequence_spec)]),
        (''observedProgram'', closed_object
       [(''program'', ref ''program''),
        (''localIds'', set_spec 1 16 (sequence_spec)),
        (''effectiveIds'', set_spec 1 16 (sequence_spec))]),
        (''record'', closed_object
       [(''schemaVersion'', const_spec (PStr ''planeon.internal.native-qualification/v1'')),
        (''qualificationProfile'', const_spec (PStr ''SELINUX_FSVERITY_CGROUP_BPF_V1'')),
        (''profileDigest'', pattern_spec P_DIGEST),
        (''scope'', ref ''scope''),
        (''host'', ref ''host''),
        (''selinux'', closed_object
       [(''policyDigest'', pattern_spec P_DIGEST),
        (''status'', ref ''status'')]),
        (''roles'', closed_object
       [(''SERVER'', SERVER_spec),
        (''OBSERVER'', OBSERVER_spec),
        (''BROKER'', BROKER_spec),
        (''WORKER'', WORKER_spec)]),
        (''files'', list_spec 4 128 (ref ''file'')),
        (''endpointTuples'', list_spec 1 16 (ref ''endpoint''))]),
        (''capture'', capture_spec),
        (''endpoint'', closed_object
       [(''endpointId'', text_spec 1 128 P_PRINTABLE),
        (''kind'', enumeration (PList (map PStr [''CAMPAIGN_PROXY'', ''KUBERNETES_API_PROXY'']))),
        (''addressFamily'', enumeration (PList (map PStr [''IPV4'', ''IPV6'']))),
        (''ipAddress'', length_spec 1 45),
        (''port'', integer_spec 1 65535)])]"
end
