(* ===== verification/Profile.thy ===== *)
theory Profile
  imports ProxySpecs
begin

text \<open>
  The execution profile of \<open>live_mutation_admission.py\<close>: \<open>validate_profile\<close> checks its shape, its window,
  its credentials, the policy objects it refers to, the manifests it may create with the exact grants
  they need, and the quota; \<open>resource_units\<close> counts what the manifests use.

  A tuple is a list value, a set of tuples the list of its members.  \<open>SHAPE_FUEL\<close> bounds the depth of the
  schema checker; the schemas nest to a depth of at most twenty.
\<close>

definition SHAPE_FUEL :: nat where
  "SHAPE_FUEL = 32"

text \<open>String methods and concatenation on a value that is not a string, and hashing a tuple.\<close>

definition text_of :: "pyval \<Rightarrow> string outcome" where
  "text_of v = (case v of PStr s \<Rightarrow> Ret s | _ \<Rightarrow> Raise TypeError)"

definition tuple_of :: "pyval list \<Rightarrow> pyval outcome" where
  "tuple_of vs = (if list_all hashable vs then Ret (PList vs) else Raise TypeError)"

definition items_at :: "pyval \<Rightarrow> string list \<Rightarrow> pyval list outcome" where
  "items_at v names = map_out (item v) names"

text \<open>\<open>subject.rsplit(":", 1)[1]\<close>\<close>

definition last_part :: "char \<Rightarrow> string \<Rightarrow> string outcome" where
  "last_part sep s = (if sep \<in> set s then Ret (last (split_on sep s)) else Raise IndexError)"

text \<open>\<open>int(text)\<close> for a text of digits, the only ones the schema admits.\<close>

definition int_of_text :: "string \<Rightarrow> int outcome" where
  "int_of_text s = (if s \<noteq> [] \<and> list_all digit s then Ret (int (digits_value s)) else Raise ValueError)"

definition PATHS :: "string list" where
  "PATHS = map (\<lambda>cas. ''/v1/linux-baseline/'' @ dashed cas) CASES"

section \<open>Scope, credentials and policy references\<close>

definition profile_window :: "pyval \<Rightarrow> unit outcome" where
  "profile_window b =
     bind (bind (item b ''validFrom'') proxy_time) (\<lambda>start.
     bind (bind (item b ''expiresAt'') proxy_time) (\<lambda>finish.
     bind (time_minus finish start) (\<lambda>us.
       require (0 < us \<and> us \<le> 900000000) ''profile validity exceeded'')))"

definition profile_subject :: "pyval \<Rightarrow> string outcome" where
  "profile_subject b =
     bind (bind (item b ''serviceAccountSubject'') text_of) (\<lambda>subject.
     bind (bind (item b ''namespace'') text_of) (\<lambda>namespace.
     bind (require (starts_with (''system:serviceaccount:'' @ namespace @ '':'') subject) ''subject namespace mismatch'') (\<lambda>_.
       Ret subject)))"

definition expected_credentials :: "pyval \<Rightarrow> pyval \<Rightarrow> pyval outcome" where
  "expected_credentials b resources =
     bind (item b ''endpointId'') (\<lambda>endpoint.
     bind (item b ''apiEndpointId'') (\<lambda>api.
     bind (if truthy resources then
             bind (require (api \<noteq> PNone \<and> \<not> py_eq api endpoint) ''separate API endpoint required'') (\<lambda>_.
               Ret [PList [api, PStr ''KUBERNETES_PROXY_SERVER_MTLS'']])
           else bind (require (api = PNone) ''unused API endpoint forbidden'') (\<lambda>_. Ret []))
       (\<lambda>more_rows. Ret (PList (PList [endpoint, PStr ''CAMPAIGN_PROXY_CLIENT_MTLS''] # more_rows)))))"

definition profile_credentials :: "pyval \<Rightarrow> pyval \<Rightarrow> string \<Rightarrow> pyval \<Rightarrow> unit outcome" where
  "profile_credentials b resources subject credentials =
     bind (expected_credentials b resources) (\<lambda>expected.
     bind (iter_of credentials) (\<lambda>cs.
     bind (map_out (\<lambda>c. bind (items_at c [''endpointId'', ''purpose'']) (\<lambda>t. Ret (PList t))) cs) (\<lambda>inventory.
     bind (require (py_eq (PList inventory) expected) ''credential inventory mismatch'') (\<lambda>_.
     bind (for_each (\<lambda>c. requires (and_also (item_is c ''subject'' (PStr subject))
             (bind (item b ''expiresAt'') (item_is c ''expiresAt''))) ''credential binding mismatch'') cs) (\<lambda>_.
       for_each (\<lambda>name.
         bind (bind (map_out (\<lambda>c. item c name) cs) py_set) (\<lambda>s.
           require (length s = length cs) ''client/server credential reuse''))
         [''certificateDigest'', ''clientSpkiDigest''])))))"

definition profile_rule :: "pyval \<Rightarrow> pyval \<Rightarrow> unit outcome" where
  "profile_rule b entries =
     bind (bind (item entries ''campaignProxyRules'') iter_of) (\<lambda>rules.
     bind (case rules of [] \<Rightarrow> Raise IndexError | r # _ \<Rightarrow> Ret r) (\<lambda>rule.
       requires
         (and_also (bind (item b ''endpointId'') (item_is rule ''endpointId''))
         (and_also (bind (item b ''namespace'') (item_is rule ''namespace''))
           (item_is rule ''paths'' (PList (map PStr PATHS))))) ''fixed proxy rule mismatch''))"

definition add_reference :: "pyval \<Rightarrow> pyval list \<Rightarrow> pyval \<Rightarrow> pyval list outcome" where
  "add_reference b seen r =
     bind (bind (items_at r [''apiVersion'', ''kind'', ''namespace'', ''name'']) tuple_of) (\<lambda>key.
     bind (requires (and_also (bind (item b ''namespace'') (item_is r ''namespace'')) (Ret (\<not> py_in key seen)))
             ''duplicate or foreign reference'') (\<lambda>_. Ret (key # seen)))"

definition REQUIRED_REFERENCES :: "(string \<times> string \<times> string) list" where
  "REQUIRED_REFERENCES =
     [(''ResourceQuota'', ''resourceQuotaUid'', ''resourceQuotaDigest''),
      (''LimitRange'', ''limitRangeUid'', ''limitRangeDigest''),
      (''ServiceAccount'', ''serviceAccountUid'', ''serviceAccountDigest'')]"

definition filter_out :: "('a \<Rightarrow> bool outcome) \<Rightarrow> 'a list \<Rightarrow> 'a list outcome" where
  "filter_out p xs =
     bind (map_out (\<lambda>x. bind (p x) (\<lambda>b. Ret (b, x))) xs) (\<lambda>ys. Ret (map snd (filter fst ys)))"

definition required_reference :: "pyval list \<Rightarrow> pyval \<Rightarrow> string \<Rightarrow> string \<times> string \<times> string \<Rightarrow> unit outcome" where
  "required_reference references policy subject =
     (\<lambda>(kind, uid_key, digest_key).
        bind (filter_out (\<lambda>r. item_is r ''kind'' (PStr kind)) references) (\<lambda>matches.
        bind (requires (case matches of
                 [m] \<Rightarrow> and_also (bind (item policy uid_key) (item_is m ''uid''))
                         (bind (item policy digest_key) (item_is m ''observedDigest''))
               | _ \<Rightarrow> Ret False) ''required policy reference mismatch'') (\<lambda>_.
          if kind = ''ServiceAccount'' then
            bind (last_part CHR '':'' subject) (\<lambda>n.
              requires (item_is (hd matches) ''name'' (PStr n)) ''service account name mismatch'')
          else Ret ())))"

definition profile_references :: "pyval \<Rightarrow> pyval \<Rightarrow> pyval \<Rightarrow> string \<Rightarrow> pyval list outcome" where
  "profile_references b entries policy subject =
     bind (bind (item entries ''preexistingResourceRefs'') iter_of) (\<lambda>references.
     bind (fold_out (add_reference b) [] references) (\<lambda>ids.
     bind (for_each (required_reference references policy subject) REQUIRED_REFERENCES) (\<lambda>_.
     bind (bind (map_out (\<lambda>r. item r ''uid'') references) py_set) (\<lambda>s.
     bind (require (length s = length references) ''duplicate resource UID'') (\<lambda>_. Ret ids)))))"

section \<open>The manifests\<close>

type_synonym unit_counts = "(string \<times> int) list"

fun add_units :: "string \<Rightarrow> int \<Rightarrow> unit_counts \<Rightarrow> unit_counts outcome" where
  "add_units k n [] = Raise KeyError"
| "add_units k n ((k', m) # us) =
     (if k' = k then Ret ((k', m + n) # us) else bind (add_units k n us) (\<lambda>us'. Ret ((k', m) # us')))"

text \<open>\<open>kinds[kind]\<close>: the API resource and the unit of a kind.\<close>

definition KIND_UNITS :: "(string \<times> string \<times> string) list" where
  "KIND_UNITS =
     [(''Pod'', ''pods'', ''pods''), (''ConfigMap'', ''configmaps'', ''configMaps''),
      (''Service'', ''services'', ''services'')]"

definition kind_of :: "pyval \<Rightarrow> (string \<times> string) outcome" where
  "kind_of kind =
     (case kind of
        PStr k \<Rightarrow> (case map_of KIND_UNITS k of None \<Rightarrow> Raise KeyError | Some u \<Rightarrow> Ret u)
      | v \<Rightarrow> if hashable v then Raise KeyError else Raise TypeError)"

text \<open>The grants of one kind: \<open>required_gvk.setdefault(kind, set()).add(name)\<close>.\<close>

fun add_name :: "string \<Rightarrow> pyval \<Rightarrow> (string \<times> pyval list) list \<Rightarrow> (string \<times> pyval list) list" where
  "add_name k n [] = [(k, [n])]"
| "add_name k n ((k', ns) # rest) = (if k' = k then (k', n # ns) # rest else (k', ns) # add_name k n rest)"

record accounting =
  seen_names :: "pyval list"
  used_units :: unit_counts
  needed_names :: "(string \<times> pyval list) list"
  needed_api :: "pyval list"
  used_images :: "pyval list"

definition pod_units :: "pyval \<Rightarrow> unit_counts \<Rightarrow> unit_counts outcome" where
  "pod_units limits us =
     bind (bind (item limits ''cpu'') text_of) (\<lambda>cpu.
     bind (bind (int_of_text (butlast cpu)) (\<lambda>n. add_units ''cpuMillis'' n us)) (\<lambda>us1.
     bind (bind (bind (bind (item limits ''memory'') text_of) int_of_text) (\<lambda>n. add_units ''memoryBytes'' n us1)) (\<lambda>us2.
       bind (bind (bind (item limits ''ephemeral-storage'') text_of) int_of_text)
         (\<lambda>n. add_units ''ephemeralStorageBytes'' n us2))))"

definition first_container :: "pyval \<Rightarrow> pyval outcome" where
  "first_container manifest =
     bind (bind (item manifest ''spec'') (\<lambda>s. bind (item s ''containers'') iter_of)) (\<lambda>cs.
       case cs of [] \<Rightarrow> Raise IndexError | c # _ \<Rightarrow> Ret c)"

definition account_pod :: "string \<Rightarrow> pyval \<Rightarrow> accounting \<Rightarrow> accounting outcome" where
  "account_pod subject manifest A =
     bind (item manifest ''spec'') (\<lambda>spec.
     bind (last_part CHR '':'' subject) (\<lambda>account.
     bind (requires (item_is spec ''serviceAccountName'' (PStr account)) ''pod service account mismatch'') (\<lambda>_.
     bind (first_container manifest) (\<lambda>container.
     bind (item container ''resources'') (\<lambda>quantities.
     bind (item quantities ''limits'') (\<lambda>limits.
     bind (requires (item_is quantities ''requests'' limits) ''unequal requests and limits'') (\<lambda>_.
     bind (pod_units limits (used_units A)) (\<lambda>us.
     bind (item container ''image'') (\<lambda>image.
       Ret (A\<lparr>used_units := us, used_images := image # used_images A\<rparr>))))))))))"

text \<open>One row of \<open>profile["resources"]\<close>.\<close>

definition account_row ::
  "ucd \<Rightarrow> pyval \<Rightarrow> string \<Rightarrow> pyval list \<Rightarrow> pyval \<Rightarrow> accounting \<Rightarrow> pyval \<Rightarrow> accounting outcome" where
  "account_row U b subject reference_ids labels A row =
     bind (item row ''manifest'') (\<lambda>manifest.
     bind (canonical_bytes U manifest) (\<lambda>raw.
     bind (requires (and_also (Ret (length raw \<le> 16384)) (item_is row ''manifestDigest'' (PStr (byte_digest raw))))
             ''manifest digest or size mismatch'') (\<lambda>_.
     bind (item manifest ''metadata'') (\<lambda>meta.
     bind (item manifest ''kind'') (\<lambda>kind.
     bind (item meta ''name'') (\<lambda>name.
     bind (tuple_of [kind, name]) (\<lambda>key.
     bind (requires (and_also (Ret (\<not> py_in key (seen_names A)))
             (and_also (bind (item b ''namespace'') (item_is meta ''namespace'')) (item_is meta ''labels'' labels)))
             ''resource scope or logical identity mismatch'') (\<lambda>_.
     bind (bind (item meta ''namespace'') (\<lambda>ns. tuple_of [PStr ''v1'', kind, ns, name])) (\<lambda>id4.
     bind (require (\<not> py_in id4 reference_ids) ''existing resource takeover'') (\<lambda>_.
     bind (kind_of kind) (\<lambda>(api_resource, u).
     bind (text_of kind) (\<lambda>k.
     bind (add_units u 1 (used_units A)) (\<lambda>us.
     bind (item b ''apiEndpointId'') (\<lambda>api.
       (let A' = A\<lparr>seen_names := key # seen_names A, used_units := us, needed_names := add_name k name (needed_names A),
                    needed_api := map (\<lambda>verb. PList [api, PStr verb, PStr api_resource, name])
                      [''create'', ''get'', ''delete''] @ needed_api A\<rparr>
        in if k = ''Pod'' then account_pod subject manifest A'
           else if k = ''Service'' then
             bind (requires (bind (item manifest ''spec'') (\<lambda>s. item_is s ''selector'' labels)) ''foreign selector'') (\<lambda>_. Ret A')
           else Ret A')))))))))))))))"

text \<open>\<open>observed_gvk\<close>, and the equality of two dictionaries of sets.\<close>

definition add_grant :: "(pyval \<times> pyval list) list \<Rightarrow> pyval \<Rightarrow> (pyval \<times> pyval list) list outcome" where
  "add_grant observed rule =
     bind (item rule ''kind'') (\<lambda>kind.
     bind (require (\<not> py_in kind (map fst observed)) ''duplicate GVK rule'') (\<lambda>_.
     bind (bind (bind (item rule ''names'') iter_of) py_set) (\<lambda>ns. Ret ((kind, ns) # observed))))"

definition same_members :: "pyval list \<Rightarrow> pyval list \<Rightarrow> bool" where
  "same_members xs ys \<longleftrightarrow> list_all (\<lambda>x. py_in x ys) xs \<and> list_all (\<lambda>y. py_in y xs) ys"

definition grants_match :: "(pyval \<times> pyval list) list \<Rightarrow> (string \<times> pyval list) list \<Rightarrow> bool" where
  "grants_match observed needed \<longleftrightarrow>
     same_members (map fst observed) (map (PStr \<circ> fst) needed) \<and>
     list_all (\<lambda>(k, ns). list_all (\<lambda>(k', ms). k' = PStr k \<longrightarrow> same_members ns ms) observed) needed"

definition add_api_rule :: "pyval \<Rightarrow> pyval list \<Rightarrow> pyval \<Rightarrow> pyval list outcome" where
  "add_api_rule b api rule =
     bind (bind (items_at rule [''endpointId'', ''verb'', ''resource'', ''name'']) tuple_of) (\<lambda>key.
     bind (requires (and_also (bind (item b ''namespace'') (item_is rule ''namespace'')) (Ret (\<not> py_in key api)))
             ''API scope or duplicate rule'') (\<lambda>_. Ret (key # api)))"

definition within_quota :: "unit_counts \<Rightarrow> pyval \<Rightarrow> unit outcome" where
  "within_quota us quota =
     requires (all_out (\<lambda>(k, n). bind (item quota k) (\<lambda>q. case q of PInt i \<Rightarrow> Ret (n \<le> i) | _ \<Rightarrow> Raise TypeError)) us)
       ''quota exceeded''"

definition profile_grants :: "pyval \<Rightarrow> pyval \<Rightarrow> pyval \<Rightarrow> accounting \<Rightarrow> unit outcome" where
  "profile_grants profile b entries A =
     bind (bind (bind (item entries ''permittedGvksAndVerbs'') iter_of) (fold_out add_grant [])) (\<lambda>observed.
     bind (require (grants_match observed (needed_names A)) ''exact GVK/name grants required'') (\<lambda>_.
     bind (bind (bind (item entries ''kubernetesApiRules'') iter_of) (fold_out (add_api_rule b) [])) (\<lambda>api.
     bind (require (same_members api (needed_api A)) ''exact server API rules required'') (\<lambda>_.
     bind (bind (bind (item profile ''localImages'') iter_of) py_set) (\<lambda>images.
     bind (require (same_members (used_images A) images) ''image substitution or unused image'') (\<lambda>_.
       bind (item profile ''quota'') (within_quota (used_units A))))))))"

definition expected_labels :: "pyval \<Rightarrow> pyval outcome" where
  "expected_labels b =
     bind (item b ''runNonce'') (\<lambda>n. bind (item b ''tenantId'') (\<lambda>t.
       Ret (PDict [(''planeon.ai/run-nonce'', n), (''planeon.ai/tenant-id'', t)])))"

definition fresh_accounting :: "pyval \<Rightarrow> accounting outcome" where
  "fresh_accounting quota =
     bind (items_of quota) (\<lambda>q.
       Ret \<lparr>seen_names = [], used_units = map (\<lambda>(k, _). (k, 0)) q, needed_names = [], needed_api = [], used_images = []\<rparr>)"

definition account_resources ::
  "ucd \<Rightarrow> pyval \<Rightarrow> pyval \<Rightarrow> string \<Rightarrow> pyval list \<Rightarrow> accounting outcome" where
  "account_resources U profile b subject ids =
     bind (expected_labels b) (\<lambda>labels.
     bind (bind (item profile ''quota'') fresh_accounting) (\<lambda>A.
       bind (bind (item profile ''resources'') iter_of) (fold_out (account_row U b subject ids labels) A)))"

definition profile_body :: "ucd \<Rightarrow> pyval \<Rightarrow> unit outcome" where
  "profile_body U profile =
     bind (item profile ''binding'') (\<lambda>b.
     bind (item profile ''capacityEntries'') (\<lambda>entries.
     bind (item profile ''policy'') (\<lambda>policy.
     bind (profile_window b) (\<lambda>_.
     bind (profile_subject b) (\<lambda>subject.
     bind (item entries ''credentialIdentities'') (\<lambda>credentials.
     bind (item profile ''resources'') (\<lambda>resources.
     bind (profile_credentials b resources subject credentials) (\<lambda>_.
     bind (profile_rule b entries) (\<lambda>_.
     bind (profile_references b entries policy subject) (\<lambda>ids.
     bind (account_resources U profile b subject ids) (\<lambda>A.
       profile_grants profile b entries A)))))))))))"

definition validate_profile :: "ucd \<Rightarrow> pyval \<Rightarrow> pyval outcome" where
  "validate_profile U value =
     bind (proxy_document U 262144 value) (\<lambda>profile.
     bind (shape SHAPE_FUEL U PROFILE_DEFS PROFILE_SPEC profile) (\<lambda>_.
     bind (profile_body U profile) (\<lambda>_. Ret profile)))"

section \<open>What the manifests use\<close>

definition UNITS :: "string list" where
  "UNITS = [''pods'', ''configMaps'', ''services'', ''cpuMillis'', ''memoryBytes'', ''ephemeralStorageBytes'']"

definition row_units :: "unit_counts \<Rightarrow> pyval \<Rightarrow> unit_counts outcome" where
  "row_units us row =
     bind (item row ''manifest'') (\<lambda>manifest.
     bind (item manifest ''kind'') (\<lambda>kind.
     bind (kind_of kind) (\<lambda>(_, u).
     bind (add_units u 1 us) (\<lambda>us1.
       if kind = PStr ''Pod'' then
         bind (bind (first_container manifest) (\<lambda>c. bind (item c ''resources'') (\<lambda>r. item r ''limits'')))
           (\<lambda>limits. pod_units limits us1)
       else Ret us1))))"

definition resource_units :: "pyval \<Rightarrow> unit_counts outcome" where
  "resource_units profile =
     bind (bind (bind (item profile ''resources'') iter_of) (fold_out row_units (map (\<lambda>k. (k, 0)) UNITS))) (\<lambda>us.
     bind (require (list_all (\<lambda>(_, v). 0 \<le> v \<and> v \<le> 9007199254740991) us) ''ADMISSION_QUOTA_OVERFLOW'') (\<lambda>_.
       Ret us))"

end
