(* ===== verification/ProfileLaws.thy ===== *)
theory ProfileLaws
  imports Profile
begin

text \<open>
  What the schema checker accepts for the combinations of keywords that the schemas use, and the quota of
  a profile: the inline accounting of \<open>validate_profile\<close> and \<open>resource_units\<close> agree.
\<close>

section \<open>The schema checker\<close>

lemmas shape_parts = when_present_def plain_checks_def object_checks_def list_checks_def leaf_checks_def
  type_matches_def bound_of_def between_def get_default_def KEYWORDS_def

lemma shape_closed_object:
  assumes "shape (Suc n) U defs (closed_object ps) v = Ret ()"
  obtains d where "v = PDict d" "fst ` set d = fst ` set ps"
    "\<And>k x s. (k, x) \<in> set d \<Longrightarrow> map_of ps k = Some s \<Longrightarrow> shape n U defs s x = Ret ()"
proof -
  from assms obtain d where d: "v = PDict d"
    by (cases v) (auto simp: closed_object_def shape_parts bind_eq_Ret requires_eq_Ret)
  have k: "list_all (\<lambda>n. str_in n (map fst d)) (map (PStr \<circ> fst) ps)" "fst ` set d \<subseteq> fst ` set ps"
    "for_each (\<lambda>(k, v). bind (field ps k) (\<lambda>s. shape n U defs s v)) d = Ret ()"
    using assms by (auto simp: d closed_object_def shape_parts bind_eq_Ret requires_eq_Ret field_def)
  have "fst ` set ps \<subseteq> fst ` set d" using k(1) by (auto simp: list_all_iff)
  with k(2) have "fst ` set d = fst ` set ps" by blast
  moreover have "shape n U defs s x = Ret ()" if "(k, x) \<in> set d" "map_of ps k = Some s" for k x s
    using k(3) that by (auto simp: for_each_eq_Ret field_def)
  ultimately show ?thesis using that d by blast
qed

lemma shape_member:
  assumes "shape (Suc n) U defs (closed_object ps) v = Ret ()" "map_of ps k = Some s"
  obtains x where "item v k = Ret x" "shape n U defs s x = Ret ()"
proof -
  obtain d where d: "v = PDict d" "fst ` set d = fst ` set ps"
    and m: "\<And>k x s. (k, x) \<in> set d \<Longrightarrow> map_of ps k = Some s \<Longrightarrow> shape n U defs s x = Ret ()"
    using assms(1) by (rule shape_closed_object) blast
  have "k \<in> fst ` set d" unfolding d(2) using assms(2) by (force dest: map_of_SomeD)
  then obtain x where "map_of d k = Some x" by (metis map_of_eq_None_iff not_None_eq)
  with m [OF map_of_SomeD assms(2)] d(1) that show ?thesis by (simp add: item_def)
qed

lemma shape_ref:
  assumes "shape (Suc n) U defs (ref name) v = Ret ()" "map_of defs name = Some s"
  shows "shape n U defs s v = Ret ()"
proof -
  have "ref_name (PStr (REF_PREFIX @ name)) defs = Ret s"
    using assms(2) by (auto simp: ref_name_def starts_with_iff REF_PREFIX_def)
  with assms(1) show ?thesis by (auto simp: ref_def shape_parts bind_eq_Ret)
qed

lemma shape_integer:
  assumes "shape (Suc n) U defs (integer_spec a b) v = Ret ()"
  obtains i where "v = PInt i" "a \<le> i" "i \<le> b"
  using assms that by (cases v) (auto simp: integer_spec_def shape_parts bind_eq_Ret requires_eq_Ret split: if_splits)

lemma shape_text:
  assumes "shape (Suc n) U defs (text_spec a b p) v = Ret ()" "map_of PATTERNS p = Some r"
  obtains s where "v = PStr s" "in_lang r s" "a \<le> int (py_len s)" "int (py_len s) \<le> b"
  using assms that
  by (cases v) (auto simp: text_spec_def shape_parts pattern_match_def fullmatch_iff bind_eq_Ret requires_eq_Ret split: if_splits)

lemma shape_set:
  assumes "shape (Suc n) U defs (set_spec a b s) v = Ret ()"
  obtains xs where "v = PList xs" "int (length xs) \<le> b" "\<And>x. x \<in> set xs \<Longrightarrow> shape n U defs s x = Ret ()"
  using assms that
  by (cases v) (auto simp: set_spec_def shape_parts bind_eq_Ret requires_eq_Ret for_each_eq_Ret split: if_splits)

section \<open>Counting\<close>

lemma add_units_Ret:
  "add_units k n us = Ret us' \<Longrightarrow>
     (\<exists>m. map_of us k = Some m \<and> map_of us' = (map_of us)(k \<mapsto> m + n)) \<and> map fst us' = map fst us"
proof (induction k n us arbitrary: us' rule: add_units.induct)
  case (2 k n k' m us)
  then show ?case by (cases "k' = k") (fastforce simp: bind_eq_Ret fun_eq_iff)+
qed simp

lemma add_units_total: "map_of us k = Some m \<Longrightarrow> \<exists>us'. add_units k n us = Ret us'"
  by (induction us arbitrary: m) (auto split: if_splits)

text \<open>Two tables with the same entries stay so under the same count.\<close>

lemma add_units_same:
  assumes "add_units k n us = Ret us'" "map_of ws = map_of us"
  shows "\<exists>ws'. add_units k n ws = Ret ws' \<and> map_of ws' = map_of us'"
proof -
  from add_units_Ret [OF assms(1)] obtain m where m: "map_of us k = Some m" "map_of us' = (map_of us)(k \<mapsto> m + n)"
    by blast
  with assms(2) obtain ws' where w: "add_units k n ws = Ret ws'" using add_units_total [of ws k m n] by auto
  with add_units_Ret [OF w] m assms(2) have "map_of ws' = map_of us'" by auto
  with w show ?thesis by blast
qed

lemma pod_units_same:
  assumes "pod_units limits us = Ret us'" "map_of ws = map_of us"
  shows "\<exists>ws'. pod_units limits ws = Ret ws' \<and> map_of ws' = map_of us'"
proof -
  from assms(1) obtain a b c us1 us2 where f: "bind (bind (item limits ''cpu'') text_of) (\<lambda>x. int_of_text (butlast x)) = Ret a"
    "bind (bind (item limits ''memory'') text_of) int_of_text = Ret b"
    "bind (bind (item limits ''ephemeral-storage'') text_of) int_of_text = Ret c"
    and s: "add_units ''cpuMillis'' a us = Ret us1" "add_units ''memoryBytes'' b us1 = Ret us2"
      "add_units ''ephemeralStorageBytes'' c us2 = Ret us'"
    unfolding pod_units_def by (auto simp: bind_eq_Ret)
  from add_units_same [OF s(1) assms(2)] obtain ws1 where 1: "add_units ''cpuMillis'' a ws = Ret ws1" "map_of ws1 = map_of us1"
    by blast
  from add_units_same [OF s(2) 1(2)] obtain ws2 where 2: "add_units ''memoryBytes'' b ws1 = Ret ws2" "map_of ws2 = map_of us2"
    by blast
  from add_units_same [OF s(3) 2(2)] obtain ws3 where 3: "add_units ''ephemeralStorageBytes'' c ws2 = Ret ws3"
    "map_of ws3 = map_of us'" by blast
  from f 1(1) 2(1) 3 show ?thesis unfolding pod_units_def by (auto simp: bind_eq_Ret)
qed

lemma row_units_same:
  assumes "row_units us row = Ret us'" "map_of ws = map_of us"
  shows "\<exists>ws'. row_units ws row = Ret ws' \<and> map_of ws' = map_of us'"
proof -
  from assms(1) obtain manifest kind api u us1 where f: "item row ''manifest'' = Ret manifest"
    "item manifest ''kind'' = Ret kind" "kind_of kind = Ret (api, u)"
    and a: "add_units u 1 us = Ret us1"
    and r: "(if kind = PStr ''Pod'' then
         bind (bind (first_container manifest) (\<lambda>c. bind (item c ''resources'') (\<lambda>r. item r ''limits'')))
           (\<lambda>limits. pod_units limits us1)
       else Ret us1) = Ret us'"
    unfolding row_units_def by (auto simp: bind_eq_Ret)
  from add_units_same [OF a assms(2)] obtain ws1 where w: "add_units u 1 ws = Ret ws1" "map_of ws1 = map_of us1" by blast
  show ?thesis
  proof (cases "kind = PStr ''Pod''")
    case True
    with r obtain limits where l: "bind (first_container manifest) (\<lambda>c. bind (item c ''resources'') (\<lambda>r. item r ''limits'')) = Ret limits"
      "pod_units limits us1 = Ret us'" by (auto simp: bind_eq_Ret)
    from pod_units_same [OF l(2) w(2)] show ?thesis
      using True f w(1) l(1) unfolding row_units_def by (auto simp: bind_eq_Ret)
  next
    case False
    with r f w show ?thesis unfolding row_units_def by (auto simp: bind_eq_Ret)
  qed
qed

lemma rows_same:
  "fold_out row_units us rows = Ret us' \<Longrightarrow> map_of ws = map_of us \<Longrightarrow>
     \<exists>ws'. fold_out row_units ws rows = Ret ws' \<and> map_of ws' = map_of us'"
proof (induction rows arbitrary: us ws)
  case (Cons r rows)
  then obtain us1 where u: "row_units us r = Ret us1" "fold_out row_units us1 rows = Ret us'" by (auto simp: bind_eq_Ret)
  from row_units_same [OF u(1) Cons.prems(2)] obtain ws1 where "row_units ws r = Ret ws1" "map_of ws1 = map_of us1" by blast
  with Cons.IH [OF u(2)] show ?case by (auto simp: bind_eq_Ret)
qed simp

text \<open>The keys of a table never change, and counts only grow.\<close>

definition grown :: "unit_counts \<Rightarrow> unit_counts \<Rightarrow> bool" where
  "grown us ws \<longleftrightarrow> map fst ws = map fst us \<and> (list_all (\<lambda>(_, n). 0 \<le> n) us \<longrightarrow> list_all (\<lambda>(_, n). 0 \<le> n) ws)"

lemma grown_trans: "grown us vs \<Longrightarrow> grown vs ws \<Longrightarrow> grown us ws"
  by (simp add: grown_def)

lemma grown_add: "add_units k n us = Ret ws \<Longrightarrow> 0 \<le> n \<Longrightarrow> grown us ws"
  by (induction k n us arbitrary: ws rule: add_units.induct)
     (auto simp: grown_def bind_eq_Ret split: if_splits)

lemma int_of_text_nonneg: "int_of_text s = Ret n \<Longrightarrow> 0 \<le> n"
  by (auto simp: int_of_text_def split: if_splits)

lemma grown_pod: "pod_units limits us = Ret ws \<Longrightarrow> grown us ws"
  unfolding pod_units_def
  by (auto simp: bind_eq_Ret dest!: grown_add int_of_text_nonneg intro: grown_trans)

lemma grown_row: "row_units us r = Ret ws \<Longrightarrow> grown us ws"
  unfolding row_units_def
  by (auto simp: bind_eq_Ret split: if_splits dest!: grown_add grown_pod intro: grown_trans)

lemma grown_rows: "fold_out row_units us rows = Ret ws \<Longrightarrow> grown us ws"
proof (induction rows arbitrary: us)
  case Nil
  then show ?case by (simp add: grown_def)
next
  case (Cons r rows)
  then show ?case by (auto simp: bind_eq_Ret dest!: grown_row intro: grown_trans)
qed

section \<open>The accounting of a profile\<close>

lemma account_pod_units:
  assumes "account_pod subject manifest A = Ret A'"
  shows "\<exists>limits. bind (first_container manifest) (\<lambda>c. bind (item c ''resources'') (\<lambda>r. item r ''limits'')) = Ret limits \<and>
    pod_units limits (used_units A) = Ret (used_units A')"
  using assms unfolding account_pod_def by (auto simp: bind_eq_Ret)

lemma account_row_units:
  assumes "account_row U b subject ids labels A row = Ret A'"
  shows "row_units (used_units A) row = Ret (used_units A')"
proof -
  from assms obtain manifest kind k api u us name where f: "item row ''manifest'' = Ret manifest"
    "item manifest ''kind'' = Ret kind" "kind_of kind = Ret (api, u)" "text_of kind = Ret k"
    and a: "add_units u 1 (used_units A) = Ret us"
    and r: "\<exists>B. used_units B = us \<and>
      (if k = ''Pod'' then account_pod subject manifest B
       else if k = ''Service'' then
         bind (requires (bind (item manifest ''spec'') (\<lambda>s. item_is s ''selector'' labels)) ''foreign selector'') (\<lambda>_. Ret B)
       else Ret B) = Ret A'"
    unfolding account_row_def Let_def by (fastforce simp: bind_eq_Ret [of _ "\<lambda>_. _"] bind_eq_Ret)
  then have k: "kind = PStr k" by (auto simp: text_of_def split: pyval.splits)
  show ?thesis
  proof (cases "k = ''Pod''")
    case True
    with r obtain B where B: "used_units B = us" "account_pod subject manifest B = Ret A'" by auto
    from account_pod_units [OF B(2)] B(1) obtain limits where
      "bind (first_container manifest) (\<lambda>c. bind (item c ''resources'') (\<lambda>r. item r ''limits'')) = Ret limits"
      "pod_units limits us = Ret (used_units A')" by auto
    with True f a k show ?thesis unfolding row_units_def by (auto simp: bind_eq_Ret)
  next
    case False
    with r have "used_units A' = us" by (auto simp: bind_eq_Ret split: if_splits)
    with False f a k show ?thesis unfolding row_units_def by (auto simp: bind_eq_Ret)
  qed
qed

lemma account_rows_units:
  "fold_out (account_row U b subject ids labels) A rows = Ret A' \<Longrightarrow>
     fold_out row_units (used_units A) rows = Ret (used_units A')"
  by (induction rows arbitrary: A) (auto simp: bind_eq_Ret dest: account_row_units)

lemma within_quota_Ret:
  assumes "within_quota us quota = Ret ()" "map_of us k = Some n"
  obtains i where "item quota k = Ret (PInt i)" "n \<le> i"
proof -
  have "(k, n) \<in> set us" using assms(2) by (rule map_of_SomeD)
  with assms(1) have "bind (item quota k) (\<lambda>q. case q of PInt i \<Rightarrow> Ret (n \<le> i) | _ \<Rightarrow> Raise TypeError) = Ret True"
    unfolding within_quota_def by (auto simp: requires_eq_Ret all_out_True)
  then obtain q where "item quota k = Ret q" "(case q of PInt i \<Rightarrow> Ret (n \<le> i) | _ \<Rightarrow> Raise TypeError) = Ret True"
    by (auto simp: bind_eq_Ret)
  with that show ?thesis by (cases q) auto
qed

text \<open>The quota of an accepted profile has the six units, each a natural number.\<close>

lemma profile_quota:
  assumes "shape SHAPE_FUEL U PROFILE_DEFS PROFILE_SPEC p = Ret ()"
  obtains q where "item p ''quota'' = Ret (PDict q)" "fst ` set q = set UNITS"
    "list_all (\<lambda>(k, v). \<exists>i. v = PInt i \<and> 0 \<le> i \<and> i \<le> 9007199254740991) q"
proof -
  have f: "SHAPE_FUEL = Suc (Suc (Suc (Suc 28)))" by (simp add: SHAPE_FUEL_def)
  obtain x where x: "item p ''quota'' = Ret x" "shape (Suc (Suc (Suc 28))) U PROFILE_DEFS (ref ''units'') x = Ret ()"
    by (rule shape_member [OF assms [unfolded f PROFILE_SPEC_def], of "''quota''"]) simp_all
  have "shape (Suc (Suc 28)) U PROFILE_DEFS units_spec x = Ret ()"
    using x(2) by (rule shape_ref) (simp add: PROFILE_DEFS_def)
  then obtain q where q: "x = PDict q" "fst ` set q = set UNITS"
    and v: "\<And>k w s. (k, w) \<in> set q \<Longrightarrow> map_of
       [(''pods'', pods_spec), (''configMaps'', pods_spec), (''services'', pods_spec), (''cpuMillis'', pods_spec),
        (''memoryBytes'', pods_spec), (''ephemeralStorageBytes'', pods_spec)] k = Some s \<Longrightarrow>
      shape (Suc 28) U PROFILE_DEFS s w = Ret ()"
    unfolding units_spec_def by (rule shape_closed_object) (simp add: UNITS_def)
  have "\<exists>i. w = PInt i \<and> 0 \<le> i \<and> i \<le> 9007199254740991" if "(k, w) \<in> set q" for k w
  proof -
    have "k \<in> set UNITS" using that q(2) by force
    then have "shape (Suc 28) U PROFILE_DEFS pods_spec w = Ret ()"
      by (intro v [OF that]) (auto simp: UNITS_def)
    then show ?thesis unfolding pods_spec_def by (elim shape_integer) auto
  qed
  then have "list_all (\<lambda>(k, v). \<exists>i. v = PInt i \<and> 0 \<le> i \<and> i \<le> 9007199254740991) q" by (auto simp: list_all_iff)
  with x(1) q that show ?thesis by simp
qed

lemma profile_accounting:
  assumes "profile_body U p = Ret ()" "item p ''quota'' = Ret (PDict q)"
  obtains rows us where "bind (item p ''resources'') iter_of = Ret rows"
    "fold_out row_units (map (\<lambda>(k, _). (k, 0)) q) rows = Ret us" "within_quota us (PDict q) = Ret ()"
proof -
  from assms obtain b subject ids entries A where a: "account_resources U p b subject ids = Ret A"
    and g: "profile_grants p b entries A = Ret ()"
    unfolding profile_body_def by (auto simp: bind_eq_Ret)
  from a assms(2) obtain labels rows A0 where r: "bind (item p ''resources'') iter_of = Ret rows"
    and "fold_out (account_row U b subject ids labels) A0 rows = Ret A" "used_units A0 = map (\<lambda>(k, _). (k, 0)) q"
    unfolding account_resources_def fresh_accounting_def by (auto simp: bind_eq_Ret)
  then have "fold_out row_units (map (\<lambda>(k, _). (k, 0)) q) rows = Ret (used_units A)"
    using account_rows_units by metis
  moreover have "within_quota (used_units A) (PDict q) = Ret ()"
    using g assms(2) unfolding profile_grants_def by (auto simp: bind_eq_Ret)
  ultimately show ?thesis using that r by blast
qed

lemma quota_respected:
  assumes "validate_profile U v = Ret p"
  shows "\<exists>us quota. resource_units p = Ret us \<and> map fst us = UNITS \<and> item p ''quota'' = Ret quota \<and>
    list_all (\<lambda>(k, n). 0 \<le> n \<and> (\<exists>i. item quota k = Ret (PInt i) \<and> n \<le> i)) us"
proof -
  from assms have sh: "shape SHAPE_FUEL U PROFILE_DEFS PROFILE_SPEC p = Ret ()" and body: "profile_body U p = Ret ()"
    unfolding validate_profile_def by (auto simp: bind_eq_Ret)
  from sh obtain q where q: "item p ''quota'' = Ret (PDict q)" "fst ` set q = set UNITS"
    and v: "list_all (\<lambda>(k, v). \<exists>i. v = PInt i \<and> 0 \<le> i \<and> i \<le> 9007199254740991) q"
    by (rule profile_quota)
  from body q(1) obtain rows us where r: "bind (item p ''resources'') iter_of = Ret rows"
    and us: "fold_out row_units (map (\<lambda>(k, _). (k, 0)) q) rows = Ret us" "within_quota us (PDict q) = Ret ()"
    by (rule profile_accounting)
  have "map_of (map (\<lambda>k. (k, 0 :: int)) UNITS) k = map_of (map (\<lambda>(k, _). (k, 0)) q) k" for k
  proof (cases "k \<in> set UNITS")
    case True
    then have "k \<in> fst ` set q" using q(2) by simp
    then have "map_of (map (\<lambda>(k, _). (k, 0 :: int)) q) k = Some 0" by (induction q) auto
    moreover have "map_of (map (\<lambda>k. (k, 0 :: int)) UNITS) k = Some 0" using True by (simp add: map_of_map_restrict)
    ultimately show ?thesis by simp
  next
    case False
    then have "k \<notin> fst ` set q" using q(2) by simp
    then have "map_of (map (\<lambda>(k, _). (k, 0 :: int)) q) k = None" by (induction q) auto
    moreover have "map_of (map (\<lambda>k. (k, 0 :: int)) UNITS) k = None" using False by (simp add: map_of_map_restrict)
    ultimately show ?thesis by simp
  qed
  then obtain ws where ws: "fold_out row_units (map (\<lambda>k. (k, 0)) UNITS) rows = Ret ws" "map_of ws = map_of us"
    using rows_same [OF us(1)] by (metis ext)
  from grown_rows [OF ws(1)] have g: "map fst ws = UNITS" "list_all (\<lambda>(_, n). 0 \<le> n) ws"
    by (auto simp: grown_def list_all_iff comp_def)
  have dist: "distinct (map fst ws)" unfolding g(1) by (simp add: UNITS_def)
  have le: "\<exists>i. item (PDict q) k = Ret (PInt i) \<and> n \<le> i \<and> i \<le> 9007199254740991" if "(k, n) \<in> set ws" for k n
  proof -
    have "map_of us k = Some n" using that dist ws(2) by (metis map_of_eq_Some_iff)
    with us(2) obtain i where "item (PDict q) k = Ret (PInt i)" "n \<le> i" by (rule within_quota_Ret)
    moreover from this(1) have "(k, PInt i) \<in> set q" by (simp add: item_def map_of_SomeD split: option.splits)
    ultimately show ?thesis using v by (auto simp: list_all_iff)
  qed
  have all: "list_all (\<lambda>(k, n). 0 \<le> n \<and> (\<exists>i. item (PDict q) k = Ret (PInt i) \<and> n \<le> i)) ws"
    using g(2) le by (fastforce simp: list_all_iff)
  have "list_all (\<lambda>(_, n). 0 \<le> n \<and> n \<le> 9007199254740991) ws" using g(2) le by (fastforce simp: list_all_iff)
  then have "resource_units p = Ret ws" using r ws(1) by (simp add: resource_units_def)
  with g(1) q(1) all show ?thesis by blast
qed

section \<open>Properties\<close>

text \<open>C33: for an accepted profile the separate count of its manifests never overflows and equals, unit by
  unit, what the profile's own accounting compared with its quota: every unit is within the quota.\<close>

theorem profile_within_quota:
  "case validate_profile U v of
     Raise _ \<Rightarrow> True
   | Ret p \<Rightarrow> (\<exists>us quota. resource_units p = Ret us \<and> map fst us = UNITS \<and> item p ''quota'' = Ret quota \<and>
       list_all (\<lambda>(k, n). 0 \<le> n \<and> (\<exists>i. item quota k = Ret (PInt i) \<and> n \<le> i)) us)"
  using quota_respected [of U v] by (cases "validate_profile U v") simp_all

end
