(* ===== verification/Admission.thy ===== *)
theory Admission
  imports Profile PyAddress LinuxVerify
begin

text \<open>
  Admission data of \<open>live_mutation_admission.py\<close>: the observation protocol between the proxy and the policy
  observer, the profile retained from the release, observed manifests, and cleanup receipts.
\<close>

section \<open>Access\<close>

definition at_path :: "pyval \<Rightarrow> string list \<Rightarrow> pyval outcome" where
  "at_path v names = fold_out item v names"

definition int_of_val :: "pyval \<Rightarrow> int outcome" where
  "int_of_val v = (case v of PInt i \<Rightarrow> Ret i | PBool b \<Rightarrow> Ret (if b then 1 else 0) | _ \<Rightarrow> Raise TypeError)"

definition same_at :: "pyval \<Rightarrow> string \<Rightarrow> pyval \<Rightarrow> string \<Rightarrow> bool outcome" where
  "same_at v k w l = bind (item v k) (\<lambda>x. bind (item w l) (\<lambda>y. Ret (py_eq x y)))"

text \<open>\<open>{k: v[k] for k in names}\<close>\<close>

definition selected :: "pyval \<Rightarrow> string list \<Rightarrow> items outcome" where
  "selected v names = map_out (\<lambda>k. bind (item v k) (\<lambda>x. Ret (k, x))) names"

definition without :: "string \<Rightarrow> pyval \<Rightarrow> pyval outcome" where
  "without k v = bind (items_of v) (\<lambda>d. Ret (PDict (dict_without [k] d)))"

text \<open>\<open>{**a, **b}\<close>\<close>

definition dict_update :: "items \<Rightarrow> items \<Rightarrow> items" where
  "dict_update a b = foldl (\<lambda>d (k, v). dict_set d k v) a b"

definition canonical_text :: "ucd \<Rightarrow> pyval \<Rightarrow> pyval outcome" where
  "canonical_text U v = bind (canonical_digest U v None) (\<lambda>d. Ret (PStr d))"

definition POLICIES :: "string list" where
  "POLICIES =
     [''admissionPolicy'', ''resourceQuota'', ''limitRange'', ''serviceAccount'', ''rbac'', ''networkPolicy'',
      ''mutationBroker'']"

definition ZERO_DIGEST :: string where
  "ZERO_DIGEST = ''sha256:'' @ replicate 64 CHR ''0''"

section \<open>Observations\<close>

definition printable_text :: "string \<Rightarrow> bool" where
  "printable_text s = list_all (in_range 32 126) s"

fun ascii_fields :: "pyval \<Rightarrow> bool" where
  "ascii_fields (PStr s) = printable_text s"
| "ascii_fields (PDict kvs) = list_all (\<lambda>(k, v). printable_text k \<and> ascii_fields v) kvs"
| "ascii_fields (PList xs) = list_all ascii_fields xs"
| "ascii_fields v = True"

definition observation_shape :: "ucd \<Rightarrow> pyval \<Rightarrow> string \<Rightarrow> nat \<Rightarrow> pyval outcome" where
  "observation_shape U value variant maximum =
     bind (proxy_document U maximum value) (\<lambda>v.
     bind (require (ascii_fields v) ''OBSERVATION_ASCII_REQUIRED'') (\<lambda>_.
     bind (field OBSERVATION_DEFS variant) (\<lambda>spec.
     bind (shape SHAPE_FUEL U OBSERVATION_DEFS spec v) (\<lambda>_. Ret v))))"

definition policy_kind :: "string \<Rightarrow> string option" where
  "policy_kind key =
     map_of [(''resourceQuota'', ''ResourceQuota''), (''limitRange'', ''LimitRange''),
             (''serviceAccount'', ''ServiceAccount'')] key"

text \<open>One policy of the binding, against the profile and against what was observed.\<close>

definition policy_observed :: "pyval \<Rightarrow> pyval \<Rightarrow> pyval \<Rightarrow> pyval list \<Rightarrow> pyval \<Rightarrow> string \<Rightarrow> unit outcome" where
  "policy_observed b observation policy refs namespace key =
     bind (at_path b [''projections'', key]) (\<lambda>expected.
     bind (requires (same_at expected ''projectionDigest'' policy (key @ ''Digest'')) ''policy digest'') (\<lambda>_.
     bind (requires (bind (item expected ''namespace'') (\<lambda>n. Ret (n = PNone \<or> py_eq n namespace))) ''foreign policy'') (\<lambda>_.
     bind (case policy_kind key of
             None \<Rightarrow> Ret ()
           | Some kind \<Rightarrow>
               bind (filter_out (\<lambda>r. item_is r ''kind'' (PStr kind)) refs) (\<lambda>matches.
               bind (require (length matches = 1) ''required reference'') (\<lambda>_.
               bind (selected (hd matches) [''apiVersion'', ''kind'', ''namespace'', ''name'', ''uid'']) (\<lambda>fields.
               bind (item (hd matches) ''observedDigest'') (\<lambda>digest.
                 require (py_eq expected (PDict (fields @ [(''projectionDigest'', digest)]))) ''policy identity'')))))
       (\<lambda>_.
     bind (bind (at_path observation [''projections'', key]) (without ''resourceVersion'')) (\<lambda>actual.
       require (py_eq actual expected) ''observed identity or digest'')))))"

definition CHAIN_FIELDS :: "string list" where
  "CHAIN_FIELDS = [''bindingDigest'', ''runNonce'', ''challenge'', ''sequence'', ''previousObservationDigest'']"

definition initial_link :: "pyval \<Rightarrow> unit outcome" where
  "initial_link request =
     requires (and_also (item_is request ''sequence'' (PInt 1))
       (item_is request ''previousObservationDigest'' (PStr ZERO_DIGEST))) ''initial chain''"

definition next_link :: "ucd \<Rightarrow> pyval \<Rightarrow> pyval \<Rightarrow> pyval \<Rightarrow> unit outcome" where
  "next_link U request observation previous =
     bind (observation_shape U previous ''observation'' 65536) (\<lambda>_.
     bind (requires
       (and_also (same_at previous ''bindingDigest'' request ''bindingDigest'')
       (and_also (same_at previous ''runNonce'' request ''runNonce'')
       (and_also (bind (item request ''sequence'') (\<lambda>s. bind (bind (item previous ''sequence'') int_of_val) (\<lambda>n.
                   Ret (py_eq s (PInt (n + 1))))))
         (bind (item request ''previousObservationDigest'') (\<lambda>d. bind (canonical_text U previous) (\<lambda>p. Ret (py_eq d p)))))))
       ''chain gap'') (\<lambda>_.
     bind (requires
       (and_also (same_at observation ''observerBootId'' previous ''observerBootId'')
       (and_also (same_at observation ''generation'' previous ''generation'')
         (py_not (same_at request ''challenge'' previous ''challenge'')))) ''restart, drift or reused challenge'') (\<lambda>_.
       requires (bind (bind (item observation ''observedAt'') proxy_time) (\<lambda>a.
         bind (bind (item previous ''observedAt'') proxy_time) (\<lambda>b. time_le b a))) ''clock rollback'')))"

definition observation_window :: "pyval \<Rightarrow> pyval \<Rightarrow> pyval \<Rightarrow> unit outcome" where
  "observation_window scope observation now =
     bind (bind (item observation ''observedAt'') proxy_time) (\<lambda>start.
     bind (bind (item observation ''expiresAt'') proxy_time) (\<lambda>finish.
     bind (proxy_time now) (\<lambda>instant.
     bind (requires
       (and_also (bind (bind (item scope ''validFrom'') proxy_time) (\<lambda>s. time_le s start))
       (and_also (time_le start instant)
       (and_also (time_less instant finish)
         (bind (bind (item scope ''expiresAt'') proxy_time) (\<lambda>e. time_le finish e))))) ''stale or future'') (\<lambda>_.
       requires (bind (time_minus finish start) (\<lambda>us. Ret (0 < us \<and> us \<le> 5000000))) ''freshness window''))))"

definition headroom :: "pyval \<Rightarrow> string \<times> pyval \<Rightarrow> unit outcome" where
  "headroom observation =
     (\<lambda>(u, requested).
        bind (at_path observation [''quota'', ''hard'', u]) (\<lambda>hard.
        bind (at_path observation [''quota'', ''used'', u]) (\<lambda>used.
          requires (case requested of
              PInt r \<Rightarrow>
                if 0 \<le> r \<and> r \<le> 9007199254740991 then
                  bind (int_of_val used) (\<lambda>n. bind (int_of_val hard) (\<lambda>h. Ret (n \<le> h \<and> r \<le> h - n)))
                else Ret False
            | _ \<Rightarrow> Ret False) ''actual quota headroom'')))"

definition validate_messages ::
  "ucd \<Rightarrow> pyval \<Rightarrow> pyval \<Rightarrow> pyval \<Rightarrow> pyval \<Rightarrow> pyval \<Rightarrow> pyval option \<Rightarrow> pyval outcome" where
  "validate_messages U binding_value request_value observation_value profile_value now previous =
     bind (observation_shape U binding_value ''binding'' 65536) (\<lambda>b.
     bind (observation_shape U request_value ''request'' 16384) (\<lambda>request.
     bind (observation_shape U observation_value ''observation'' 65536) (\<lambda>observation.
     bind (validate_profile U profile_value) (\<lambda>profile.
     bind (requires (bind (canonical_text U profile) (item_is b ''profileDigest'')) ''profile digest'') (\<lambda>_.
     bind (bind (item profile ''binding'') (without ''apiEndpointId'')) (\<lambda>scope.
     bind (requires (item_is b ''scope'' scope) ''independent profile scope'') (\<lambda>_.
     bind (item profile ''policy'') (\<lambda>policy.
     bind (item scope ''namespace'') (\<lambda>namespace.
     bind (requires (bind (item policy ''namespaceUid'') (\<lambda>uid.
             item_is b ''namespace'' (PDict [(''name'', namespace), (''uid'', uid)]))) ''namespace binding'') (\<lambda>_.
     bind (bind (at_path profile [''capacityEntries'', ''preexistingResourceRefs'']) iter_of) (\<lambda>refs.
     bind (for_each (policy_observed b observation policy refs namespace) POLICIES) (\<lambda>_.
     bind (requires (bind (bind (item observation ''namespace'') (\<lambda>n. selected n [''name'', ''uid'']))
             (\<lambda>n. item_is b ''namespace'' (PDict n))) ''observed namespace'') (\<lambda>_.
     bind (requires (and_also (bind (canonical_text U b) (item_is request ''bindingDigest''))
             (same_at request ''runNonce'' scope ''runNonce'')) ''request binding'') (\<lambda>_.
     bind (for_each (\<lambda>name. requires (same_at observation name request name) ''response substitution'') CHAIN_FIELDS) (\<lambda>_.
     bind (case previous of None \<Rightarrow> initial_link request | Some p \<Rightarrow> next_link U request observation p) (\<lambda>_.
     bind (observation_window scope observation now) (\<lambda>_.
     bind (requires (bind (item observation ''generation'') (\<lambda>g. bind (bind (item b ''enforcementPins'') items_of) (\<lambda>pins.
             item_is observation ''enforcement'' (PDict (dict_update [(''policyGeneration'', g)] pins)))))
             ''enforcement proof mismatch'') (\<lambda>_.
     bind (bind (bind (item profile ''quota'') items_of) (for_each (headroom observation))) (\<lambda>_.
       Ret observation)))))))))))))))))))"

section \<open>Observed manifests\<close>

text \<open>\<open>re.fullmatch\<close> with the two identifier patterns of this check.\<close>

definition UID_TEXT :: rx where
  "UID_TEXT = IDENT"

definition VERSION_TEXT :: rx where
  "VERSION_TEXT = Seq (class_rx ''._:-'' [alnum]) (up_to 127 (class_rx ''._:-'' [alnum]))"

definition text_matches :: "rx \<Rightarrow> pyval \<Rightarrow> bool" where
  "text_matches r v = (case v of PStr s \<Rightarrow> fullmatch r s | _ \<Rightarrow> False)"

definition get_items :: "items \<Rightarrow> string \<Rightarrow> items outcome" where
  "get_items d k = items_of (get_default d k (PDict []))"

definition with_member :: "items \<Rightarrow> string \<Rightarrow> items \<Rightarrow> items" where
  "with_member d k v = (if map_of d k = None then d else dict_set d k (PDict v))"

definition observed_service :: "items \<Rightarrow> items outcome" where
  "observed_service actual =
     (if get_default actual ''kind'' PNone = PStr ''Service'' then
        bind (case get_default actual ''spec'' (PDict []) of PList _ \<Rightarrow> Raise TypeError | v \<Rightarrow> items_of v) (\<lambda>spec.
        bind (requires (case get_default spec ''clusterIP'' PNone of PStr a \<Rightarrow> canonical_address a | _ \<Rightarrow> Ret False)
                ''ADMISSION_SERVICE_ADDRESS'') (\<lambda>_.
          Ret (with_member actual ''spec'' (dict_without [''clusterIP''] spec))))
      else Ret actual)"

definition validate_observed_manifest :: "ucd \<Rightarrow> pyval \<Rightarrow> pyval \<Rightarrow> pyval \<Rightarrow> (pyval \<times> pyval) outcome" where
  "validate_observed_manifest U observed expected uid =
     bind (bind (proxy_document U 16384 observed) Ret) (\<lambda>actual_value.
     bind (proxy_document U 16384 expected) (\<lambda>sgn.
     bind (items_of actual_value) (\<lambda>actual.
     bind (get_items actual ''metadata'') (\<lambda>meta.
       (let assigned = get_default meta ''uid'' PNone; version = get_default meta ''resourceVersion'' PNone;
            stripped = with_member actual ''metadata'' (dict_without [''uid'', ''resourceVersion'', ''creationTimestamp''] meta)
        in bind (require (text_matches UID_TEXT assigned \<and> text_matches VERSION_TEXT version) ''ADMISSION_IDENTITY_MISSING'') (\<lambda>_.
           bind (require (uid = PNone \<or> py_eq assigned uid) ''ADMISSION_UID_CHANGED'') (\<lambda>_.
           bind (observed_service stripped) (\<lambda>final.
           bind (require (py_eq (PDict final) sgn) ''ADMISSION_POST_MUTATION_MISMATCH'') (\<lambda>_.
             Ret (assigned, version))))))))))"

section \<open>Cleanup receipts\<close>

definition CLEANUP_REASONS :: "string list" where
  "CLEANUP_REASONS = [''DELETE_DENIED'', ''UID_CHANGED'', ''DEADLINE'', ''IO_AMBIGUOUS'', ''OBSERVATION_UNAVAILABLE'']"

definition REMAINING_FIELDS :: "string list" where
  "REMAINING_FIELDS = [''apiVersion'', ''kind'', ''namespace'', ''name'', ''uid'', ''manifestDigest'', ''reasonCode'']"

definition RESOURCE_KINDS :: "string list" where
  "RESOURCE_KINDS = [''Pod'', ''ConfigMap'', ''Service'']"

definition remaining_row :: "pyval list \<Rightarrow> pyval \<Rightarrow> pyval list outcome" where
  "remaining_row identities row =
     bind (items_of row) (\<lambda>r.
     bind (closed r REMAINING_FIELDS []) (\<lambda>_.
     bind (requires (and_also (field_is r ''apiVersion'' (PStr ''v1''))
       (and_also (field_in r ''kind'' RESOURCE_KINDS) (field_in r ''reasonCode'' CLEANUP_REASONS))) ''CLEANUP_SCOPE'') (\<lambda>_.
     bind (for_each (\<lambda>name. requires (bind (field r name) (\<lambda>v. Ret (text_matches LABEL v))) ''CLEANUP_SCOPE'')
             [''namespace'', ''name'']) (\<lambda>_.
     bind (requires (bind (field r ''uid'') (\<lambda>uid. bind (field_is r ''reasonCode'' (PStr ''IO_AMBIGUOUS'')) (\<lambda>ambiguous.
             Ret (uid = PNone \<and> ambiguous \<or> text_matches UID_TEXT uid)))) ''CLEANUP_UID'') (\<lambda>_.
     bind (bind (field r ''manifestDigest'') require_digest) (\<lambda>_.
     bind (bind (items_at row [''kind'', ''namespace'', ''name'']) tuple_of) (\<lambda>key.
     bind (require (\<not> py_in key identities) ''CLEANUP_DUPLICATE'') (\<lambda>_. Ret (key # identities)))))))))"

definition cleanup_receipt :: "ucd \<Rightarrow> pyval \<Rightarrow> pyval \<Rightarrow> pyval \<Rightarrow> pyval \<Rightarrow> pyval \<Rightarrow> pyval outcome" where
  "cleanup_receipt U binding_digest operation now remaining previous =
     bind (require_digest binding_digest) (\<lambda>_.
     bind (require_digest previous) (\<lambda>_.
     bind (require (str_in operation CASES \<and> (case remaining of PList rs \<Rightarrow> length rs \<le> 32 | _ \<Rightarrow> False)) ''CLEANUP_SCOPE'') (\<lambda>_.
     bind (linux_time now) (\<lambda>_.
     bind (bind (iter_of remaining) (fold_out remaining_row [])) (\<lambda>_.
       proxy_document U 16384 (PDict
         [(''schemaVersion'', PStr ''planeon.internal.proxy-cleanup/v1''), (''bindingDigest'', binding_digest),
          (''operation'', operation), (''observedAt'', now),
          (''state'', PStr (if truthy remaining then ''CLEANUP_PENDING'' else ''CLEAN'')),
          (''remainingResources'', remaining), (''previousReceiptDigest'', previous)]))))))"

end
