(* ===== verification/Retained.thy ===== *)
theory Retained
  imports Admission
begin

text \<open>
  The files of the kit that are retained after the release was verified: the profile, the observation binding,
  the policy projections, the CA file and the broker binding, each bound to the release tree by path, mode,
  size and digest (\<open>retained_profile\<close>, \<open>retained_broker_binding\<close>).  \<open>kit\<close> maps a path to the retained bytes.
\<close>

type_synonym kit = "string \<Rightarrow> bytes option"

definition PROFILE_PATH :: string where
  "PROFILE_PATH = ''campaigns/platform/linux-baseline/proxy-profile.json''"

definition OBSERVATION_PATH :: string where
  "OBSERVATION_PATH = ''campaigns/platform/linux-baseline/policy-observation-binding.json''"

definition release_rows :: "pyval \<Rightarrow> pyval \<Rightarrow> pyval list outcome" where
  "release_rows release path =
     bind (bind (item release ''tree'') iter_of) (filter_out (\<lambda>r. item_is r ''path'' path))"

definition release_row :: "pyval \<Rightarrow> bytes \<Rightarrow> pyval" where
  "release_row path raw =
     PDict [(''path'', path), (''mode'', PStr ''0444''), (''size'', PInt (int (length raw))),
       (''sha256'', PStr (byte_digest raw))]"

definition member :: "kit \<Rightarrow> pyval \<Rightarrow> string \<Rightarrow> nat \<Rightarrow> bytes outcome" where
  "member kit release path maximum =
     bind (release_rows release (PStr path)) (\<lambda>rows.
       case (rows, kit path) of
         ([row], Some raw) \<Rightarrow>
           if 0 < length raw \<and> length raw \<le> maximum then
             bind (require (py_eq row (release_row (PStr path) raw)) ''PROFILE_MEMBER_CHANGED'') (\<lambda>_. Ret raw)
           else refuse ''PROFILE_MEMBER_MISSING''
       | _ \<Rightarrow> refuse ''PROFILE_MEMBER_MISSING'')"

definition scope_fields :: "items \<Rightarrow> items \<Rightarrow> items \<Rightarrow> items outcome" where
  "scope_fields envelope capacity plan =
     map_out (\<lambda>(name, d, k). bind (field d k) (\<lambda>v. Ret (name, v)))
       [(''tenantId'', envelope, ''tenantId''), (''environmentId'', envelope, ''environmentId''),
        (''runNonce'', envelope, ''nonce''), (''capacityNonce'', capacity, ''nonce''),
        (''endpointId'', plan, ''endpointId''), (''namespace'', plan, ''namespace''),
        (''serviceAccountSubject'', capacity, ''serviceAccountSubject'')]"

definition retained_scope :: "items \<Rightarrow> items \<Rightarrow> items \<Rightarrow> pyval \<Rightarrow> unit outcome" where
  "retained_scope envelope capacity plan profile =
     bind (item profile ''binding'') (\<lambda>scope. bind (item profile ''policy'') (\<lambda>policy.
     bind (scope_fields envelope capacity plan) (\<lambda>expected.
     bind (requires (all_out (\<lambda>(k, v). item_is scope k v) expected) ''PROFILE_SCOPE_MISMATCH'') (\<lambda>_.
     bind (bind (item profile ''capacityEntries'') items_of) (\<lambda>entries.
     bind (requires (all_out (\<lambda>(k, v). field_is capacity k v) entries) ''PROFILE_CAPACITY_MISMATCH'') (\<lambda>_.
     bind (for_each (\<lambda>name. requires
             (bind (item policy name) (\<lambda>p. bind (field capacity name) (\<lambda>c.
                and_also (Ret (py_eq p c)) (bind (field envelope name) (\<lambda>e. Ret (py_eq c e)))))) ''PROFILE_POLICY_MISMATCH'')
             [''admissionPolicyDigest'', ''resourceQuotaDigest'']) (\<lambda>_.
       requires (bind (item policy ''limitRangeDigest'') (\<lambda>p. field_is capacity ''limitRangeDigest'' p))
         ''PROFILE_POLICY_MISMATCH'')))))))"

definition authority_start :: "items \<Rightarrow> items \<Rightarrow> datetime outcome" where
  "authority_start envelope capacity =
     bind (bind (field envelope ''issuedAt'') linux_time) (\<lambda>a.
     bind (bind (field capacity ''validFrom'') linux_time) (time_max a))"

definition authority_end :: "items \<Rightarrow> items \<Rightarrow> datetime outcome" where
  "authority_end envelope capacity =
     bind (bind (field envelope ''expiresAt'') linux_time) (\<lambda>a.
     bind (bind (field capacity ''expiresAt'') linux_time) (time_min a))"

definition retained_window :: "items \<Rightarrow> items \<Rightarrow> pyval \<Rightarrow> unit outcome" where
  "retained_window envelope capacity scope =
     bind (authority_start envelope capacity) (\<lambda>start.
     bind (bind (item scope ''validFrom'') proxy_time) (\<lambda>s.
     bind (requires (time_le start s) ''PROFILE_WINDOW_MISMATCH'') (\<lambda>_.
     bind (bind (item scope ''expiresAt'') proxy_time) (\<lambda>e.
     bind (requires (time_less s e) ''PROFILE_WINDOW_MISMATCH'') (\<lambda>_.
     bind (authority_end envelope capacity) (\<lambda>finish.
       requires (time_le e finish) ''PROFILE_WINDOW_MISMATCH''))))))"

text \<open>\<open>endpoints = {e["endpointId"]: e for e in ...}\<close> without duplicates, and its lookup.\<close>

definition endpoint_table :: "items \<Rightarrow> (pyval \<times> pyval) list outcome" where
  "endpoint_table envelope =
     bind (bind (field envelope ''endpoints'') iter_of) (\<lambda>es.
     bind (map_out (\<lambda>e. item e ''endpointId'') es) (\<lambda>ids.
     bind (py_set ids) (\<lambda>s.
     bind (require (length s = length es) ''PROFILE_ENDPOINT_DUPLICATE'') (\<lambda>_. Ret (zip ids es)))))"

definition lookup_endpoint :: "(pyval \<times> pyval) list \<Rightarrow> pyval \<Rightarrow> pyval option" where
  "lookup_endpoint table k = (case filter (\<lambda>(i, _). py_eq i k) table of [] \<Rightarrow> None | (_, e) # _ \<Rightarrow> Some e)"

definition retained_endpoint :: "items \<Rightarrow> pyval \<Rightarrow> pyval outcome" where
  "retained_endpoint envelope profile =
     bind (item profile ''binding'') (\<lambda>scope.
     bind (endpoint_table envelope) (\<lambda>table.
     bind (item scope ''endpointId'') (\<lambda>id1.
       case lookup_endpoint table id1 of
         None \<Rightarrow> refuse ''PROFILE_ENDPOINT_MISMATCH''
       | Some endpoint \<Rightarrow>
           bind (requires (and_also (item_is endpoint ''kind'' (PStr ''CAMPAIGN_PROXY''))
                   (bind (bind (at_path profile [''capacityEntries'', ''campaignProxyRules'']) iter_of) (\<lambda>rules.
                      case rules of [] \<Rightarrow> Raise IndexError | r # _ \<Rightarrow> same_at r ''port'' endpoint ''port'')))
                   ''PROFILE_ENDPOINT_MISMATCH'') (\<lambda>_.
           bind (item profile ''resources'') (\<lambda>resources.
           bind (if truthy resources then
                   bind (item scope ''apiEndpointId'') (\<lambda>id2.
                   requires (case lookup_endpoint table id2 of
                       None \<Rightarrow> Ret False | Some e \<Rightarrow> item_is e ''kind'' (PStr ''KUBERNETES_API_PROXY'')) ''PROFILE_API_ENDPOINT_MISSING'')
                 else Ret ()) (\<lambda>_. Ret endpoint))))))"

definition retained_images :: "items \<Rightarrow> pyval \<Rightarrow> unit outcome" where
  "retained_images plan profile =
     bind (bind (bind (field plan ''images'') items_of) (\<lambda>d. py_set (map snd d))) (\<lambda>digests.
     bind (bind (item profile ''localImages'') iter_of) (\<lambda>images.
       requires (all_out (\<lambda>image. bind (bind (text_of image) (last_part CHR ''@'')) (\<lambda>d. Ret (py_in (PStr d) digests))) images)
         ''PROFILE_IMAGE_NOT_RELEASED''))"

definition retained_observation :: "ucd \<Rightarrow> kit \<Rightarrow> pyval \<Rightarrow> pyval \<Rightarrow> pyval outcome" where
  "retained_observation U kit release profile =
     bind (bind (member kit release OBSERVATION_PATH 65536) (\<lambda>raw. observation_shape U (PBytes raw) ''binding'' 65536)) (\<lambda>b.
     bind (item profile ''binding'') (\<lambda>scope.
     bind (requires
       (and_also (bind (canonical_text U profile) (item_is b ''profileDigest''))
       (and_also (bind (without ''apiEndpointId'' scope) (item_is b ''scope''))
         (bind (item scope ''namespace'') (\<lambda>n. bind (at_path profile [''policy'', ''namespaceUid'']) (\<lambda>uid.
            item_is b ''namespace'' (PDict [(''name'', n), (''uid'', uid)]))))))
       ''PROFILE_OBSERVATION_MISMATCH'') (\<lambda>_. Ret b)))"

definition expected_projection :: "items \<Rightarrow> items \<Rightarrow> bytes \<Rightarrow> pyval" where
  "expected_projection head meta raw =
     PDict (dict_set (dict_update head meta) ''projectionDigest'' (PStr (byte_digest raw)))"

definition retained_projection :: "ucd \<Rightarrow> kit \<Rightarrow> pyval \<Rightarrow> pyval \<Rightarrow> pyval \<Rightarrow> string \<Rightarrow> unit outcome" where
  "retained_projection U kit release policy b key =
     bind (member kit release (''campaigns/platform/linux-baseline/proxy-policy/'' @ key @ ''.json'') 65536) (\<lambda>raw.
     bind (bind (proxy_document U 65536 (PBytes raw)) items_of) (\<lambda>projection.
     bind (closed projection [''apiVersion'', ''kind'', ''metadata'', ''spec''] []) (\<lambda>_.
     bind (bind (field projection ''metadata'') items_of) (\<lambda>meta.
     bind (closed meta [''name'', ''namespace'', ''uid''] []) (\<lambda>_.
     bind (selected (PDict projection) [''apiVersion'', ''kind'']) (\<lambda>head.
       requires (and_also (item_is policy (key @ ''Digest'') (PStr (byte_digest raw)))
           (bind (at_path b [''projections'', key]) (\<lambda>p. Ret (py_eq p (expected_projection head meta raw)))))
         ''PROFILE_PROJECTION_MISMATCH''))))))"

definition retained_ca :: "kit \<Rightarrow> pyval \<Rightarrow> items \<Rightarrow> pyval \<Rightarrow> bytes outcome" where
  "retained_ca kit release envelope endpoint =
     bind (bind (at_path endpoint [''tls'', ''caCertificateFileReference'']) text_of) (\<lambda>path.
     bind (bind (field envelope ''conformanceKitRoot'') text_of) (\<lambda>root.
       (let prefix = root @ ''/''; rest = drop (length prefix) path in
        bind (require (starts_with prefix path \<and> rest \<noteq> [] \<and> ''..'' \<notin> set (split_on CHR ''/'' rest)) ''PROFILE_CA_NOT_RELEASED'') (\<lambda>_.
        bind (member kit release rest 262144) (\<lambda>ca.
        bind (require (starts_with ''-----BEGIN CERTIFICATE-----'' ca) ''PROFILE_CA_INVALID'') (\<lambda>_. Ret ca))))))"

definition retained_profile ::
  "ucd \<Rightarrow> items \<Rightarrow> items \<Rightarrow> items \<Rightarrow> pyval \<Rightarrow> kit \<Rightarrow> (pyval \<times> pyval \<times> pyval \<times> bytes) outcome" where
  "retained_profile U envelope capacity plan release kit =
     bind (bind (member kit release PROFILE_PATH 262144) (\<lambda>raw. validate_profile U (PBytes raw))) (\<lambda>profile.
     bind (retained_scope envelope capacity plan profile) (\<lambda>_.
     bind (bind (item profile ''binding'') (retained_window envelope capacity)) (\<lambda>_.
     bind (retained_endpoint envelope profile) (\<lambda>endpoint.
     bind (retained_images plan profile) (\<lambda>_.
     bind (retained_observation U kit release profile) (\<lambda>b.
     bind (item profile ''policy'') (\<lambda>policy.
     bind (for_each (retained_projection U kit release policy b) POLICIES) (\<lambda>_.
     bind (retained_ca kit release envelope endpoint) (\<lambda>ca.
       Ret (profile, b, endpoint, ca))))))))))"

section \<open>The broker\<close>

definition BROKER_BINDING_PATH :: string where
  "BROKER_BINDING_PATH = ''campaigns/platform/linux-baseline/broker-execution-binding.json''"

definition BROKER_VARIANTS :: "string list" where
  "BROKER_VARIANTS = [''binding'', ''dispatch'', ''frame'', ''workerStart'']"

definition broker_document :: "ucd \<Rightarrow> pyval \<Rightarrow> string \<Rightarrow> pyval outcome" where
  "broker_document U value variant =
     bind (require (variant \<in> set BROKER_VARIANTS) ''BROKER_VARIANT_INVALID'') (\<lambda>_.
     bind (proxy_document U (if variant \<in> {''dispatch'', ''workerStart''} then 16384 else 65536) value) (\<lambda>result.
     bind (field BROKER_DEFS variant) (\<lambda>spec.
     bind (shape SHAPE_FUEL U BROKER_DEFS spec result) (\<lambda>_. Ret result))))"

text \<open>\<open>[digest for case in CASES for digest in binding["caseResourceDigests"][case]]\<close>: each digest of a
  manifest of the profile assigned to exactly one case.\<close>

definition assigned_digests :: "pyval \<Rightarrow> pyval list outcome" where
  "assigned_digests b =
     bind (map_out (\<lambda>cas. bind (at_path b [''caseResourceDigests'', cas]) iter_of) CASES) (\<lambda>ds. Ret (concat ds))"

definition owns_resources :: "pyval \<Rightarrow> pyval \<Rightarrow> bool outcome" where
  "owns_resources b profile =
     bind (assigned_digests b) (\<lambda>assigned.
     bind (py_set assigned) (\<lambda>s.
       and_also (Ret (length assigned = length s))
         (bind (bind (item profile ''resources'') iter_of) (\<lambda>rows.
          bind (bind (map_out (\<lambda>r. item r ''manifestDigest'') rows) py_set) (\<lambda>ms. Ret (same_members s ms))))))"

definition retained_broker_binding :: "ucd \<Rightarrow> pyval \<Rightarrow> pyval \<Rightarrow> pyval \<Rightarrow> kit \<Rightarrow> pyval outcome" where
  "retained_broker_binding U profile observation_binding release kit =
     (case kit BROKER_BINDING_PATH of
        None \<Rightarrow> refuse ''BROKER_BINDING_MISSING''
      | Some raw \<Rightarrow>
          bind (require (0 < length raw \<and> length raw \<le> 65536) ''BROKER_BINDING_MISSING'') (\<lambda>_.
          bind (release_rows release (PStr BROKER_BINDING_PATH)) (\<lambda>rows.
          bind (require (py_eq (PList rows) (PList [release_row (PStr BROKER_BINDING_PATH) raw])) ''BROKER_BINDING_CUSTODY'') (\<lambda>_.
          bind (broker_document U (PBytes raw) ''binding'') (\<lambda>b.
          bind (requires (and_also (bind (canonical_text U profile) (item_is b ''profileDigest''))
                  (bind (canonical_text U observation_binding) (item_is b ''observationBindingDigest''))) ''BROKER_INPUT_SUBSTITUTION'') (\<lambda>_.
          bind (requires (owns_resources b profile) ''BROKER_RESOURCE_OWNERSHIP'') (\<lambda>_. Ret b)))))))"

end
