(* ===== verification/Ledger.thy ===== *)
theory Ledger
  imports Retained ReplayStore
begin

text \<open>
  The admission history of \<open>live_mutation_admission.py\<close>: an append-only chained log of reservations of the
  one shared capacity, of the operations run under a reservation with their cleanup receipts, and of the
  resources whose creation was intended or confirmed.  \<open>parse_reservations\<close> replays the log from its first
  byte; \<open>record\<close> and \<open>record_resource\<close> append a row when the log with the row replays.

  Storage is that of \<open>ReplayStore\<close>: an \<open>io_event\<close> says what the system did during one transaction.
\<close>

section \<open>The replayed state\<close>

definition LEDGER_FIELDS :: "string list" where
  "LEDGER_FIELDS = [''sequence'', ''previousDigest'', ''binding'', ''state'', ''operation'', ''observedAt'', ''cleanup'']"

definition LEDGER_IDS :: "string list" where
  "LEDGER_IDS = [''tenantId'', ''environmentId'', ''runNonce'', ''capacityNonce'', ''endpointId'']"

definition LEDGER_DIGESTS :: "string list" where
  "LEDGER_DIGESTS = [''releaseDigest'', ''packetDigest'', ''commandSetDigest'', ''profileDigest'']"

definition LEDGER_BINDING_FIELDS :: "string list" where
  "LEDGER_BINDING_FIELDS = LEDGER_IDS @ LEDGER_DIGESTS"

definition admission_binding :: "ucd \<Rightarrow> items \<Rightarrow> items \<Rightarrow> pyval \<Rightarrow> items outcome" where
  "admission_binding U envelope capacity profile =
     bind (field envelope ''tenantId'') (\<lambda>t. bind (field envelope ''environmentId'') (\<lambda>e.
     bind (field envelope ''nonce'') (\<lambda>n. bind (field capacity ''nonce'') (\<lambda>c.
     bind (at_path profile [''binding'', ''endpointId'']) (\<lambda>p. bind (field envelope ''campaignReleaseDigest'') (\<lambda>r.
     bind (field envelope ''packetDigest'') (\<lambda>d. bind (field envelope ''commandSetDigest'') (\<lambda>s.
     bind (canonical_text U profile) (\<lambda>g.
       Ret [(''tenantId'', t), (''environmentId'', e), (''runNonce'', n), (''capacityNonce'', c), (''endpointId'', p),
            (''releaseDigest'', r), (''packetDigest'', d), (''commandSetDigest'', s), (''profileDigest'', g)])))))))))"

record held_resource =
  hr_fields :: items
  hr_operation :: string
  hr_state :: string

record reservation =
  rv_binding :: pyval
  rv_done :: "string list"
  rv_current :: "string option"
  rv_held :: bool
  rv_cleanup :: string
  rv_last :: datetime
  rv_resources :: "(pyval \<times> held_resource) list"

type_synonym run_key = "string \<times> string"

record ledger =
  reservations :: "(run_key \<times> reservation) list"
  recorded :: "(run_key \<times> string) list"
  chain :: string
  rows :: nat

fun put :: "'k \<Rightarrow> 'v \<Rightarrow> ('k \<times> 'v) list \<Rightarrow> ('k \<times> 'v) list" where
  "put k v [] = [(k, v)]"
| "put k v ((k', w) # xs) = (if k' = k then (k', v) # xs else (k', w) # put k v xs)"

section \<open>Resources of a running operation\<close>

definition RESOURCE_FIELDS :: "string list" where
  "RESOURCE_FIELDS =
     [''actionId'', ''apiVersion'', ''kind'', ''namespace'', ''name'', ''manifestDigest'', ''uid'', ''resourceVersion'']"

definition resource_scope :: "items \<Rightarrow> items \<Rightarrow> reservation \<Rightarrow> pyval outcome" where
  "resource_scope row resource prior =
     bind (closed resource RESOURCE_FIELDS []) (\<lambda>_.
     bind (requires
       (and_also (bind (field row ''cleanup'') (\<lambda>c. Ret (c = PNone)))
       (and_also (bind (field row ''operation'') (\<lambda>v. Ret (map_option PStr (rv_current prior) = Some v)))
       (and_also (bind (field resource ''actionId'') (\<lambda>a. Ret (case a of PInt i \<Rightarrow> 1 \<le> i \<and> i \<le> 256 | _ \<Rightarrow> False)))
       (and_also (field_is resource ''apiVersion'' (PStr ''v1'')) (field_in resource ''kind'' RESOURCE_KINDS)))))
       ''ADMISSION_RESOURCE_SCOPE'') (\<lambda>_.
     bind (for_each (\<lambda>name. requires (bind (field resource name) (\<lambda>v. Ret (text_matches LABEL v))) ''ADMISSION_RESOURCE_SCOPE'')
             [''namespace'', ''name'']) (\<lambda>_.
     bind (bind (field resource ''manifestDigest'') require_digest) (\<lambda>_.
       bind (items_at (PDict resource) [''apiVersion'', ''kind'', ''namespace'', ''name'']) tuple_of))))"

definition action_before :: "items \<Rightarrow> items \<Rightarrow> bool outcome" where
  "action_before r resource =
     bind (bind (field r ''actionId'') int_of_val) (\<lambda>a. bind (bind (field resource ''actionId'') int_of_val) (\<lambda>b. Ret (a < b)))"

definition intent_allowed :: "items \<Rightarrow> string \<Rightarrow> pyval \<Rightarrow> (pyval \<times> held_resource) list \<Rightarrow> unit outcome" where
  "intent_allowed resource operation key resources =
     bind (requires (bind (field resource ''uid'') (\<lambda>u. bind (field resource ''resourceVersion'') (\<lambda>v.
             Ret (u = PNone \<and> v = PNone)))) ''ADMISSION_INTENT_IDENTITY'') (\<lambda>_.
     bind (field resource ''manifestDigest'') (\<lambda>digest.
       requires
         (and_also (Ret (length resources < 32 \<and> map_of resources key = None))
         (and_also (Ret (list_all (\<lambda>(_, r). hr_state r \<noteq> ''CREATE_INTENT'') resources))
         (and_also (all_out (\<lambda>(_, r). py_not (field_is (hr_fields r) ''manifestDigest'' digest)) resources)
           (all_out (\<lambda>(_, r). if hr_operation r = operation then action_before (hr_fields r) resource else Ret True) resources))))
         ''ADMISSION_CREATE_REPLAY''))"

definition created_allowed :: "items \<Rightarrow> string \<Rightarrow> pyval \<Rightarrow> (pyval \<times> held_resource) list \<Rightarrow> unit outcome" where
  "created_allowed resource operation key resources =
     bind (requires (case map_of resources key of
             None \<Rightarrow> Ret False
           | Some original \<Rightarrow>
               and_also (Ret (hr_state original = ''CREATE_INTENT'' \<and> hr_operation original = operation))
                 (all_out (\<lambda>(k, v). if k \<in> {''uid'', ''resourceVersion''} then Ret True else field_is (hr_fields original) k v)
                   resource)) ''ADMISSION_CREATED_WITHOUT_INTENT'') (\<lambda>_.
     bind (field resource ''uid'') (\<lambda>uid. bind (field resource ''resourceVersion'') (\<lambda>version.
       requires (and_also (Ret (text_matches UID_TEXT uid \<and> text_matches VERSION_TEXT version))
         (all_out (\<lambda>(_, r). py_not (field_is (hr_fields r) ''uid'' uid)) resources)) ''ADMISSION_CREATED_IDENTITY'')))"

definition resource_transition :: "reservation \<Rightarrow> items \<Rightarrow> string \<Rightarrow> string \<Rightarrow> reservation outcome" where
  "resource_transition prior row state operation =
     bind (bind (field row ''resource'') items_of) (\<lambda>resource.
     bind (resource_scope row resource prior) (\<lambda>key.
     bind (if state = ''CREATE_INTENT'' then intent_allowed resource operation key (rv_resources prior)
           else created_allowed resource operation key (rv_resources prior)) (\<lambda>_.
       Ret (prior\<lparr>rv_resources := put key \<lparr>hr_fields = resource, hr_operation = operation, hr_state = state\<rparr>
              (rv_resources prior)\<rparr>))))"

section \<open>Cleanup of an operation\<close>

definition IDENTITY_FIELDS :: "string list" where
  "IDENTITY_FIELDS = [''apiVersion'', ''kind'', ''namespace'', ''name'', ''uid'', ''manifestDigest'']"

definition all_remaining :: "pyval \<Rightarrow> held_resource list \<Rightarrow> bool outcome" where
  "all_remaining remaining resources =
     bind (iter_of remaining) (\<lambda>rs.
       and_also (Ret (length rs = length resources))
         (bind (map_out (\<lambda>r. bind (items_at r IDENTITY_FIELDS) tuple_of) rs) (\<lambda>a.
          bind (map_out (\<lambda>r. bind (items_at (PDict (hr_fields r)) IDENTITY_FIELDS) tuple_of) resources) (\<lambda>b.
            Ret (same_members a b)))))"

definition cleanup_recorded :: "ucd \<Rightarrow> reservation \<Rightarrow> items \<Rightarrow> string \<Rightarrow> reservation outcome" where
  "cleanup_recorded U prior row operation =
     bind (field row ''cleanup'') (\<lambda>c.
     bind (require (rv_current prior = Some operation \<and> is_dict c) ''ADMISSION_HISTORY_TRANSITION'') (\<lambda>_.
     bind (items_of c) (\<lambda>receipt.
     bind (canonical_text U (rv_binding prior)) (\<lambda>digest.
     bind (field row ''observedAt'') (\<lambda>observed.
     bind (cleanup_receipt U digest (PStr operation) observed (get_default receipt ''remainingResources'' PNone)
             (PStr (rv_cleanup prior))) (\<lambda>expected.
     bind (require (py_eq c expected) ''ADMISSION_CLEANUP_INVALID'') (\<lambda>_.
     (let resources = filter (\<lambda>r. hr_operation r = operation) (map snd (rv_resources prior)) in
      bind (if resources = [] then Ret ()
            else bind (field receipt ''remainingResources'') (\<lambda>remaining.
              requires (all_remaining remaining resources) ''ADMISSION_RESOURCE_NOT_CLEAN'')) (\<lambda>_.
      bind (canonical_digest U c None) (\<lambda>cleanup.
      bind (field_is receipt ''state'' (PStr ''CLEAN'')) (\<lambda>clean.
        Ret (prior\<lparr>rv_cleanup := cleanup, rv_current := (if clean then None else Some operation),
               rv_held := (length (rv_done prior) < length CASES \<or> \<not> clean)\<rparr>))))))))))))"

section \<open>Replay\<close>

definition ledger_binding :: "pyval \<Rightarrow> items outcome" where
  "ledger_binding v =
     bind (items_of v) (\<lambda>b.
     bind (closed b LEDGER_BINDING_FIELDS []) (\<lambda>_.
     bind (for_each (\<lambda>name. requires (bind (field b name) (\<lambda>x. Ret (text_matches LABEL x))) ''ADMISSION_BINDING_INVALID'')
             LEDGER_IDS) (\<lambda>_.
     bind (for_each (\<lambda>name. bind (bind (field b name) require_digest) (\<lambda>_. Ret ())) LEDGER_DIGESTS) (\<lambda>_. Ret b))))"

definition run_key_of :: "items \<Rightarrow> run_key outcome" where
  "run_key_of b =
     bind (bind (field b ''tenantId'') text_of) (\<lambda>t. bind (bind (field b ''runNonce'') text_of) (\<lambda>n. Ret (t, n)))"

definition first_reservation :: "ledger \<Rightarrow> items \<Rightarrow> pyval \<Rightarrow> datetime \<Rightarrow> reservation outcome" where
  "first_reservation G row b instant =
     bind (requires
       (and_also (field_is row ''state'' (PStr ''RESERVED''))
         (bind (field row ''operation'') (\<lambda>v. bind (field row ''cleanup'') (\<lambda>c. Ret (v = PNone \<and> c = PNone)))))
       ''ADMISSION_HISTORY_INITIAL'') (\<lambda>_.
     bind (require (\<not> list_ex (\<lambda>(_, r). rv_held r) (reservations G)) ''ADMISSION_CAPACITY_HELD'') (\<lambda>_.
       Ret \<lparr>rv_binding = b, rv_done = [], rv_current = None, rv_held = True, rv_cleanup = ZERO_DIGEST,
            rv_last = instant, rv_resources = []\<rparr>))"

text \<open>A row of a known reservation: the new reservation, and the operation when a cleanup was recorded.\<close>

definition next_reservation ::
  "ucd \<Rightarrow> ledger \<Rightarrow> run_key \<Rightarrow> reservation \<Rightarrow> items \<Rightarrow> pyval \<Rightarrow> datetime \<Rightarrow> (reservation \<times> string option) outcome" where
  "next_reservation U G key prior row b instant =
     bind (requires (and_also (Ret (py_eq b (rv_binding prior)))
             (and_also (time_le (rv_last prior) instant) (Ret (rv_held prior)))) ''ADMISSION_HISTORY_TRANSITION'') (\<lambda>_.
     bind (bind (field row ''operation'') (\<lambda>v. case v of
             PStr s \<Rightarrow> if s \<in> set CASES then Ret s else refuse ''ADMISSION_OPERATION_INVALID''
           | _ \<Rightarrow> refuse ''ADMISSION_OPERATION_INVALID'')) (\<lambda>operation.
     bind (field row ''state'') (\<lambda>st.
       if st = PStr ''CREATE_INTENT'' \<or> st = PStr ''CREATED'' then
         bind (require ((key, operation) \<notin> set (recorded G)) ''ADMISSION_RESOURCE_AFTER_CLEANUP'') (\<lambda>_.
         bind (resource_transition prior row (if st = PStr ''CREATED'' then ''CREATED'' else ''CREATE_INTENT'') operation)
           (\<lambda>r. Ret (r, None)))
       else if st = PStr ''RUNNING'' then
         bind (field row ''cleanup'') (\<lambda>c.
         bind (require (rv_current prior = None \<and> operation \<notin> set (rv_done prior) \<and> c = PNone) ''ADMISSION_OPERATION_REPLAY'') (\<lambda>_.
           Ret (prior\<lparr>rv_current := Some operation, rv_done := rv_done prior @ [operation]\<rparr>, None)))
       else if st = PStr ''RECORDED'' then
         bind (cleanup_recorded U prior row operation) (\<lambda>r. Ret (r, Some operation))
       else refuse ''ADMISSION_HISTORY_TRANSITION'')))"

definition strip_eol :: "bytes \<Rightarrow> bytes" where
  "strip_eol l = takeWhile (\<lambda>c. c \<noteq> CHR 0x0A \<and> c \<noteq> CHR 0x0D) l"

definition ledger_row :: "ucd \<Rightarrow> ledger \<Rightarrow> bytes \<Rightarrow> ledger outcome" where
  "ledger_row U G line =
     bind (proxy_document U 32768 (PBytes (strip_eol line))) (\<lambda>v.
     bind (require (is_dict v) ''ADMISSION_HISTORY_INVALID'') (\<lambda>_.
     bind (items_of v) (\<lambda>row.
     bind (closed row (if str_in (get_default row ''state'' PNone) [''CREATE_INTENT'', ''CREATED'']
             then LEDGER_FIELDS @ [''resource''] else LEDGER_FIELDS) []) (\<lambda>_.
     bind (field row ''binding'') (\<lambda>bv.
     bind (ledger_binding bv) (\<lambda>b.
     bind (requires (bind (field row ''sequence'') (\<lambda>n. bind (field_is row ''previousDigest'' (PStr (chain G))) (\<lambda>p.
             Ret (n = PInt (int (rows G + 1)) \<and> p)))) ''ADMISSION_HISTORY_CHAIN'') (\<lambda>_.
     bind (bind (field row ''observedAt'') linux_time) (\<lambda>instant.
     bind (run_key_of b) (\<lambda>key.
     bind (case map_of (reservations G) key of
             None \<Rightarrow> bind (first_reservation G row bv instant) (\<lambda>r. Ret (r, None))
           | Some prior \<Rightarrow> next_reservation U G key prior row bv instant) (\<lambda>(r, finished).
     bind (canonical_digest U v None) (\<lambda>digest.
       Ret (G\<lparr>reservations := put key (r\<lparr>rv_last := instant\<rparr>) (reservations G),
              recorded := (case finished of None \<Rightarrow> recorded G | Some operation \<Rightarrow> (key, operation) # recorded G),
              chain := digest, rows := rows G + 1\<rparr>))))))))))))"

definition empty_ledger :: ledger where
  "empty_ledger = \<lparr>reservations = [], recorded = [], chain = ZERO_DIGEST, rows = 0\<rparr>"

definition parse_reservations :: "ucd \<Rightarrow> bytes \<Rightarrow> ledger outcome" where
  "parse_reservations U raw =
     bind (require (length raw \<le> 4194304 \<and> (raw = [] \<or> last raw = CHR 0x0A)) ''ADMISSION_HISTORY_INVALID'') (\<lambda>_.
     bind (require (length (split_lines raw) \<le> 4096) ''ADMISSION_HISTORY_FULL'') (\<lambda>_.
       fold_out (ledger_row U) empty_ledger (split_lines raw)))"

section \<open>Appending\<close>

definition create_record :: "ucd \<Rightarrow> pyval \<Rightarrow> pyval \<Rightarrow> pyval \<Rightarrow> pyval \<Rightarrow> pyval \<Rightarrow> pyval option \<Rightarrow> pyval outcome" where
  "create_record U binding_value operation profile_value broker_value action_value observed =
     bind (bind (proxy_document U 16384 binding_value) items_of) (\<lambda>b.
     bind (closed b LEDGER_BINDING_FIELDS []) (\<lambda>_.
     bind (validate_profile U profile_value) (\<lambda>profile.
     bind (broker_document U broker_value ''binding'') (\<lambda>broker.
     bind (bind (proxy_document U 16384 action_value) items_of) (\<lambda>action.
     bind (closed action [''actionId'', ''verb'', ''manifestDigest''] []) (\<lambda>_.
     bind (field action ''actionId'') (\<lambda>action_id. bind (field action ''manifestDigest'') (\<lambda>digest.
     bind (requires (and_also (Ret (str_in operation CASES))
             (and_also (Ret (case action_id of PInt i \<Rightarrow> 1 \<le> i \<and> i \<le> 256 | _ \<Rightarrow> False)) (field_is action ''verb'' (PStr ''CREATE''))))
             ''ADMISSION_CREATE_ACTION'') (\<lambda>_.
     bind (require_digest digest) (\<lambda>_.
     bind (requires (bind (canonical_text U profile) (\<lambda>d. and_also (field_is b ''profileDigest'' d)
             (and_also (item_is broker ''profileDigest'' d)
               (all_out (\<lambda>k. bind (at_path profile [''binding'', k]) (field_is b k)) LEDGER_IDS)))) ''ADMISSION_CREATE_BINDING'') (\<lambda>_.
     bind (requires (and_also (owns_resources broker profile)
             (bind (text_of operation) (\<lambda>cas. bind (bind (at_path broker [''caseResourceDigests'', cas]) iter_of) (\<lambda>ds.
                Ret (py_in digest ds))))) ''ADMISSION_CREATE_OWNERSHIP'') (\<lambda>_.
     bind (bind (bind (item profile ''resources'') iter_of) (filter_out (\<lambda>r. item_is r ''manifestDigest'' digest))) (\<lambda>matches.
     bind (case matches of [] \<Rightarrow> Raise StopIteration | r # _ \<Rightarrow> item r ''manifest'') (\<lambda>manifest.
     bind (case observed of None \<Rightarrow> Ret (PNone, PNone)
           | Some seen \<Rightarrow> validate_observed_manifest U seen manifest PNone) (\<lambda>(uid, version).
     bind (items_at manifest [''apiVersion'', ''kind'']) (\<lambda>head.
     bind (bind (item manifest ''metadata'') (\<lambda>m. items_at m [''namespace'', ''name''])) (\<lambda>names.
       Ret (PDict (zip RESOURCE_FIELDS ([action_id] @ head @ names @ [digest, uid, version]))))))))))))))))))))"

text \<open>What \<open>append\<close>, \<open>sync\<close> and the second read of the storage report; see \<open>ReplayStore.write_outcome\<close>.\<close>

definition ledger_write :: "io_event \<Rightarrow> bytes \<Rightarrow> bytes \<Rightarrow> unit outcome" where
  "ledger_write io before encoded =
     bind (if write_error io then Raise OSError
           else require (written io = None \<or> written io = Some (length encoded)) ''ADMISSION_STORE_SHORT_WRITE'') (\<lambda>_.
     bind (if sync_error io then Raise OSError else Ret ()) (\<lambda>_.
       require (shown io = None \<or> shown io = Some (before @ encoded)) ''ADMISSION_READBACK_FAILED''))"

definition opened :: "io_event \<Rightarrow> unit outcome" where
  "opened io = (case refused io of Some reason \<Rightarrow> refuse reason | None \<Rightarrow> Ret ())"

definition appended_row :: "ucd \<Rightarrow> bytes \<Rightarrow> (ledger \<Rightarrow> items) \<Rightarrow> (bytes \<times> string) outcome" where
  "appended_row U before row_at =
     bind (parse_reservations U before) (\<lambda>G.
     bind (canonical_bytes U (PDict (row_at G))) (\<lambda>encoded.
     bind (parse_reservations U (before @ encoded @ [CHR 0x0A])) (\<lambda>_.
     bind (canonical_digest U (PDict (row_at G)) None) (\<lambda>digest. Ret (encoded @ [CHR 0x0A], digest)))))"

definition commit :: "io_event \<Rightarrow> store \<Rightarrow> (bytes \<times> string) outcome \<Rightarrow> string outcome \<times> store" where
  "commit io S decided =
     (case decided of
        Raise e \<Rightarrow> (Raise e, S)
      | Ret (encoded, digest) \<Rightarrow>
          (let S' = S\<lparr>journal := journal S @ on_disk io encoded\<rparr> in
           case ledger_write io (journal S) encoded of
             Raise e \<Rightarrow> (Raise e, S'\<lparr>poisoned := True\<rparr>)
           | Ret _ \<Rightarrow> (Ret digest, S')))"

definition ledger_items :: "ledger \<Rightarrow> pyval \<Rightarrow> pyval \<Rightarrow> pyval \<Rightarrow> pyval \<Rightarrow> pyval \<Rightarrow> items" where
  "ledger_items G b state operation now cleanup =
     [(''sequence'', PInt (int (rows G + 1))), (''previousDigest'', PStr (chain G)), (''binding'', b), (''state'', state),
      (''operation'', operation), (''observedAt'', now), (''cleanup'', cleanup)]"

definition record_admission ::
  "ucd \<Rightarrow> io_event \<Rightarrow> store \<Rightarrow> pyval \<Rightarrow> pyval \<Rightarrow> pyval \<Rightarrow> pyval \<Rightarrow> pyval \<Rightarrow> string outcome \<times> store" where
  "record_admission U io S b state operation now cleanup =
     commit io S
       (bind (require (\<not> poisoned S) ''ADMISSION_STORAGE_AMBIGUOUS'') (\<lambda>_.
        bind (opened io) (\<lambda>_.
          appended_row U (journal S) (\<lambda>G. ledger_items G b state operation now cleanup))))"

definition record_resource ::
  "ucd \<Rightarrow> io_event \<Rightarrow> store \<Rightarrow> pyval \<Rightarrow> pyval \<Rightarrow> pyval \<Rightarrow> pyval \<Rightarrow> pyval \<Rightarrow> pyval \<Rightarrow> pyval \<Rightarrow> bytes \<Rightarrow> pyval option
     \<Rightarrow> string outcome \<times> store" where
  "record_resource U io S b state operation now profile broker action expected_history observed =
     commit io S
       (bind (require (\<not> poisoned S) ''ADMISSION_STORAGE_AMBIGUOUS'') (\<lambda>_.
        bind (require (str_in state [''CREATE_INTENT'', ''CREATED''] \<and> (observed = None \<longleftrightarrow> state = PStr ''CREATE_INTENT''))
                ''ADMISSION_RESOURCE_STATE'') (\<lambda>_.
        bind (require (length expected_history \<le> 4194304) ''ADMISSION_HISTORY_INVALID'') (\<lambda>_.
        bind (proxy_document U 16384 b) (\<lambda>b'.
        bind (create_record U b' operation profile broker action observed) (\<lambda>resource.
        bind (opened io) (\<lambda>_.
        bind (require (journal S = expected_history) ''ADMISSION_RESOURCE_HISTORY_CHANGED'') (\<lambda>_.
          appended_row U (journal S) (\<lambda>G. ledger_items G b' state operation now PNone @ [(''resource'', resource)])))))))))"

end
