(* ===== verification/ProxyLaws.thy ===== *)
theory ProxyLaws
  imports ProxyData
begin

text \<open>
  Laws of the documents that the proxy components exchange: a document is a value in canonical form, and the
  document of a value without byte strings is its canonical form.
\<close>

section \<open>Canonical form\<close>

lemma canon_canon: "canon (canon v) = canon v"
proof (induction v)
  case (PDict kvs)
  let ?c = "\<lambda>(k, v). (k, canon v)"
  have "sort_key fst (map ?c (sort_key fst kvs)) = map ?c (sort_key fst kvs)"
    by (simp add: sort_key_map_snd sort_key_sort_key)
  moreover have "map ?c (map ?c (sort_key fst kvs)) = map ?c (sort_key fst kvs)"
    using PDict by (auto intro!: map_cong)
  ultimately show ?case by simp
qed (auto intro!: map_cong)

lemma canon_item: "canon v = v \<Longrightarrow> item v k = Ret x \<Longrightarrow> canon x = x"
proof -
  assume c: "canon v = v" and i: "item v k = Ret x"
  from i obtain kvs where v: "v = PDict kvs" "(k, x) \<in> set kvs"
    by (auto simp: item_eq_Ret dest: map_of_SomeD)
  from c v(1) have "kvs = map (\<lambda>(k, v). (k, canon v)) (sort_key fst kvs)" by simp
  then have "(k, x) \<in> set (map (\<lambda>(k, v). (k, canon v)) (sort_key fst kvs))" using v(2) by simp
  then obtain y where "x = canon y" by auto
  then show "canon x = x" by (simp add: canon_canon)
qed

lemma wf_item: "wf_val v \<Longrightarrow> item v k = Ret x \<Longrightarrow> wf_val x"
  by (auto simp: item_eq_Ret list_all_iff dest!: map_of_SomeD)

lemma proxy_document_wf: "proxy_document U m v = Ret w \<Longrightarrow> canon w = w \<and> wf_val w"
  unfolding proxy_document_def by (cases v) (auto simp: bind_eq_Ret dest: require_canonical_bytes)

lemma proxy_document_canon:
  assumes "proxy_document U m v = Ret w" "wf_val v" "\<not> is_bytes v"
  shows "w = canon v"
proof -
  from assms(1,3) obtain raw where raw: "canonical_bytes U v = Ret raw" "require_canonical_document U raw = Ret w"
    unfolding proxy_document_def by (cases v) (auto simp: bind_eq_Ret is_bytes_def)
  have "raw = dumps v" using raw(1) by (auto simp: canonical_bytes_Ret)
  moreover have "loads raw = Ret w" using raw(2) by (auto simp: require_canonical_Ret load_json_bytes_Ret)
  ultimately show ?thesis
    using loads_dumps [OF canonical_json_val [OF raw(1) assms(2)], of "[]"] by simp
qed

text \<open>A value in canonical form is its own document.\<close>

lemma proxy_document_same:
  "proxy_document U m v = Ret w \<Longrightarrow> canon v = v \<Longrightarrow> wf_val v \<Longrightarrow> \<not> is_bytes v \<Longrightarrow> w = v"
  by (drule proxy_document_canon) auto

end
