(* ===== verification/LedgerLaws.thy ===== *)
theory LedgerLaws
  imports Ledger ProxyLaws ReplayLaws
begin

text \<open>
  What replaying an admission history guarantees: the reservations of every accepted log satisfy an invariant
  under which at most one of them holds the capacity, and a reservation lets it go only when all ten
  operations ran, each once, and nothing they created is still accounted for.
\<close>

section \<open>Tables\<close>

lemma put_keys [simp]: "fst ` set (put k v xs) = insert k (fst ` set xs)"
  by (induction k v xs rule: put.induct) (simp_all add: insert_commute)

lemma put_distinct: "distinct (map fst xs) \<Longrightarrow> distinct (map fst (put k v xs))"
  by (induction xs) auto

lemma put_set: "distinct (map fst xs) \<Longrightarrow> set (put k v xs) = insert (k, v) {p \<in> set xs. fst p \<noteq> k}"
proof (induction k v xs rule: put.induct)
  case (2 k v k' w xs)
  then show ?case by (cases "k' = k") (auto simp: image_iff)
qed simp

lemma put_member: "(a, b) \<in> set (put k v xs) \<Longrightarrow> (a, b) = (k, v) \<or> (a, b) \<in> set xs"
  by (induction xs) (auto split: if_splits)

lemma at_most_one:
  assumes "distinct xs" "\<And>x y. x \<in> set xs \<Longrightarrow> y \<in> set xs \<Longrightarrow> x = y"
  shows "length xs \<le> 1"
proof -
  have "card (set xs) \<le> 1" using assms(2) by (auto simp: card_le_Suc0_iff_eq)
  then show ?thesis using assms(1) by (simp add: distinct_card)
qed

section \<open>The invariant\<close>

definition released :: "reservation \<Rightarrow> bool" where
  "released r \<longleftrightarrow> rv_current r = None \<and> rv_resources r = [] \<and> distinct (rv_done r) \<and> set (rv_done r) = set CASES"

definition accounted :: "reservation \<Rightarrow> bool" where
  "accounted r \<longleftrightarrow> distinct (rv_done r) \<and> set (rv_done r) \<subseteq> set CASES \<and>
     list_all (\<lambda>(_, h). rv_current r = Some (hr_operation h)) (rv_resources r) \<and> (rv_held r \<or> released r)"

definition exclusive :: "ledger \<Rightarrow> bool" where
  "exclusive G \<longleftrightarrow> distinct (map fst (reservations G)) \<and> list_all (\<lambda>(_, r). accounted r) (reservations G) \<and>
     (\<forall>a \<in> set (reservations G). \<forall>b \<in> set (reservations G). rv_held (snd a) \<and> rv_held (snd b) \<longrightarrow> fst a = fst b)"

lemma exclusive_holder:
  assumes "exclusive G"
  shows "length (filter (\<lambda>(_, r). rv_held r) (reservations G)) \<le> 1"
proof (rule at_most_one)
  have d: "distinct (map fst (reservations G))" using assms by (simp add: exclusive_def)
  then have "distinct (reservations G)" by (simp add: distinct_map)
  then show "distinct (filter (\<lambda>(_, r). rv_held r) (reservations G))" by (rule distinct_filter)
  fix x y
  assume "x \<in> set (filter (\<lambda>(_, r). rv_held r) (reservations G))" "y \<in> set (filter (\<lambda>(_, r). rv_held r) (reservations G))"
  then have xy: "x \<in> set (reservations G)" "y \<in> set (reservations G)" "rv_held (snd x)" "rv_held (snd y)" by auto
  then have "fst x = fst y" using assms unfolding exclusive_def by blast
  with d xy(1,2) show "x = y" by (metis eq_key_imp_eq_value prod.collapse)
qed

section \<open>Rows\<close>

lemma all_done: "distinct done \<Longrightarrow> set done \<subseteq> set CASES \<Longrightarrow> length CASES \<le> length done \<Longrightarrow> set done = set CASES"
proof -
  assume h: "distinct done" "set done \<subseteq> set CASES" "length CASES \<le> length done"
  have "card (set CASES) \<le> length CASES" by (rule card_length)
  then have "card (set CASES) \<le> card (set done)" using h by (simp add: distinct_card)
  then show ?thesis using h(2) by (intro card_seteq) auto
qed

lemma first_accounted: "first_reservation G row b t = Ret r \<Longrightarrow> accounted r"
  unfolding first_reservation_def by (elim bind_RetE) (auto simp: accounted_def)

lemma first_alone: "first_reservation G row b t = Ret r \<Longrightarrow> list_all (\<lambda>(_, r). \<not> rv_held r) (reservations G)"
  unfolding first_reservation_def by (elim bind_RetE) (auto simp: list_all_iff list_ex_iff)

lemma resource_row_operation:
  assumes "resource_scope row resource prior = Ret key" "field row ''operation'' = Ret (PStr operation)"
  shows "rv_current prior = Some operation"
proof -
  from assms(1) have "bind (field row ''operation'') (\<lambda>v. Ret (map_option PStr (rv_current prior) = Some v)) = Ret True"
    unfolding resource_scope_def by (elim bind_RetE) (simp add: requires_eq_Ret and_also_True)
  with assms(2) show ?thesis by simp
qed

lemma resource_accounted:
  assumes "resource_transition prior row state operation = Ret r" "field row ''operation'' = Ret (PStr operation)"
    and "accounted prior" "rv_held prior"
  shows "accounted r"
proof -
  from assms(1) obtain resource key where scope: "resource_scope row resource prior = Ret key"
    and r: "r = prior\<lparr>rv_resources := put key \<lparr>hr_fields = resource, hr_operation = operation, hr_state = state\<rparr> (rv_resources prior)\<rparr>"
    unfolding resource_transition_def by (elim bind_RetE) auto
  have "rv_current prior = Some operation" using resource_row_operation [OF scope assms(2)] .
  then show ?thesis using assms(3,4)
    by (auto simp: accounted_def r list_all_iff dest!: put_member)
qed

lemma pyeq_dict_item:
  "py_eq (PDict xs) (PDict ys) \<Longrightarrow> (k, v) \<in> set xs \<Longrightarrow> \<exists>u. map_of ys k = Some u \<and> py_eq v u"
  by (auto simp: list_all_iff split: option.splits)

fun dict_items :: "pyval \<Rightarrow> items" where
  "dict_items (PDict kvs) = kvs"
| "dict_items _ = []"

lemma canon_lookup:
  "distinct (map fst kvs) \<Longrightarrow>
     map_of (map (\<lambda>(k, v). (k, canon v)) (sort_key fst kvs)) k = map_option canon (map_of kvs k)"
  by (simp add: map_of_map map_of_sort_key)

text \<open>The state of a receipt says whether anything remains.\<close>

lemma receipt_state:
  assumes "cleanup_receipt U d operation now remaining previous = Ret expected"
    and "py_eq (PDict receipt) expected" "field receipt ''state'' = Ret (PStr ''CLEAN'')"
    and "wf_val d" "wf_val operation" "wf_val now" "wf_val remaining" "wf_val previous"
  shows "remaining = PList []"
proof -
  let ?v = "PDict [(''schemaVersion'', PStr ''planeon.internal.proxy-cleanup/v1''), (''bindingDigest'', d),
          (''operation'', operation), (''observedAt'', now),
          (''state'', PStr (if truthy remaining then ''CLEANUP_PENDING'' else ''CLEAN'')),
          (''remainingResources'', remaining), (''previousReceiptDigest'', previous)]"
  from assms(1) have doc: "proxy_document U 16384 ?v = Ret expected"
    and list: "case remaining of PList rs \<Rightarrow> length rs \<le> 32 | _ \<Rightarrow> False"
    unfolding cleanup_receipt_def by (elim bind_RetE, simp)+
  have wf: "wf_val ?v" using assms(4-8) by simp
  have e: "expected = canon ?v" using proxy_document_canon [OF doc wf] by (simp add: is_bytes_def)
  have "(''state'', PStr ''CLEAN'') \<in> set receipt" using assms(3) by (auto simp: field_eq_Ret dest: map_of_SomeD)
  then obtain u where "map_of (map (\<lambda>(k, v). (k, canon v)) (sort_key fst (dict_items ?v))) ''state'' = Some u"
    "py_eq (PStr ''CLEAN'') u"
    using assms(2) unfolding e canon.simps dict_items.simps by (blast dest: pyeq_dict_item)
  then have "PStr (if truthy remaining then ''CLEANUP_PENDING'' else ''CLEAN'') = PStr ''CLEAN''"
    using wf by (simp add: canon_lookup)
  then have "\<not> truthy remaining" by (cases "truthy remaining") auto
  with list show ?thesis by (cases remaining) auto
qed

lemma no_remaining: "all_remaining (PList []) resources = Ret True \<Longrightarrow> resources = []"
  by (simp add: all_remaining_def split: if_splits)

lemma all_of_operation:
  assumes "list_all (\<lambda>(_, h). c = Some (hr_operation h)) xs" "c = Some operation"
  shows "filter (\<lambda>r. hr_operation r = operation) (map snd xs) = map snd xs"
  using assms by (induction xs) auto

lemma cleanup_accounted:
  assumes "cleanup_recorded U prior row operation = Ret r" "accounted prior" "wf_val (PDict row)"
  shows "accounted r"
  using assms(1) unfolding cleanup_recorded_def Let_def
proof (elim bind_RetE)
  let ?rs = "filter (\<lambda>r. hr_operation r = operation) (map snd (rv_resources prior))"
  fix c u receipt digest observed expected u' u'' cleanup clean
  let ?remaining = "get_default receipt ''remainingResources'' PNone"
  assume c: "field row ''cleanup'' = Ret c" "items_of c = Ret receipt" "field row ''observedAt'' = Ret observed"
    and u: "require (rv_current prior = Some operation \<and> is_dict c) ''ADMISSION_HISTORY_TRANSITION'' = Ret u"
    and digest: "canonical_text U (rv_binding prior) = Ret digest"
    and expected: "cleanup_receipt U digest (PStr operation) observed ?remaining (PStr (rv_cleanup prior)) = Ret expected"
    and same: "require (py_eq c expected) ''ADMISSION_CLEANUP_INVALID'' = Ret u'"
    and left: "(if ?rs = [] then Ret () else bind (field receipt ''remainingResources'') (\<lambda>remaining.
              requires (all_remaining remaining ?rs) ''ADMISSION_RESOURCE_NOT_CLEAN'')) = Ret u''"
    and clean: "field_is receipt ''state'' (PStr ''CLEAN'') = Ret clean"
    and r: "Ret (prior\<lparr>rv_cleanup := cleanup, rv_current := (if clean then None else Some operation),
               rv_held := (length (rv_done prior) < length CASES \<or> \<not> clean)\<rparr>) = Ret r"
  have current: "rv_current prior = Some operation" and c': "c = PDict receipt"
    using u c(2) by (simp_all add: items_of_eq_Ret)
  have every: "?rs = map snd (rv_resources prior)"
    using assms(2) current unfolding accounted_def by (blast intro: all_of_operation)
  have "wf_val (PDict receipt)" "wf_val observed"
    using wf_field [OF assms(3)] c(1,3) c' unfolding field_eq_Ret by blast+
  then have wf: "wf_val observed" "wf_val ?remaining"
    by (auto simp: get_default_def split: option.split intro: wf_field)
  have gone: "rv_resources prior = []" if clean
  proof -
    have "?remaining = PList []"
      using receipt_state [OF expected] same c' clean wf digest \<open>clean\<close>
      by (auto simp: field_is_def bind_eq_Ret canonical_text_def)
    then have "?rs = []"
      using left by (auto simp: get_default_def bind_eq_Ret requires_eq_Ret field_eq_Ret
          split: option.splits if_splits dest: no_remaining)
    with every show ?thesis by simp
  qed
  show "accounted r"
  proof (cases clean)
    case True
    with r have r': "r = prior\<lparr>rv_cleanup := cleanup, rv_current := None, rv_held := (length (rv_done prior) < length CASES)\<rparr>"
      by simp
    have "distinct (rv_done prior)" "set (rv_done prior) \<subseteq> set CASES" using assms(2) by (simp_all add: accounted_def)
    then show ?thesis using gone [OF True] all_done [of "rv_done prior"] unfolding r'
      by (simp add: accounted_def released_def not_less) (meson not_less)
  next
    case False
    with r assms(2) current show ?thesis by (auto simp: accounted_def)
  qed
qed

lemma next_accounted:
  assumes "next_reservation U G key prior row b t = Ret (r, finished)" "accounted prior" "wf_val (PDict row)"
  shows "accounted r"
  using assms(1) unfolding next_reservation_def
proof (elim bind_RetE)
  fix operation st v u
  assume ok: "requires (and_also (Ret (py_eq b (rv_binding prior)))
             (and_also (time_le (rv_last prior) t) (Ret (rv_held prior)))) ''ADMISSION_HISTORY_TRANSITION'' = Ret u"
    and v: "field row ''operation'' = Ret v"
    and op: "(case v of PStr s \<Rightarrow> if s \<in> set CASES then Ret s else refuse ''ADMISSION_OPERATION_INVALID''
           | _ \<Rightarrow> refuse ''ADMISSION_OPERATION_INVALID'') = Ret operation"
  have held: "rv_held prior" using ok by (simp add: requires_eq_Ret and_also_True split: if_splits)
  have operation: "field row ''operation'' = Ret (PStr operation)" "operation \<in> set CASES"
    using v op by (auto split: pyval.splits if_splits)
  assume branch: "(if st = PStr ''CREATE_INTENT'' \<or> st = PStr ''CREATED'' then
         bind (require ((key, operation) \<notin> set (recorded G)) ''ADMISSION_RESOURCE_AFTER_CLEANUP'') (\<lambda>_.
         bind (resource_transition prior row (if st = PStr ''CREATED'' then ''CREATED'' else ''CREATE_INTENT'') operation)
           (\<lambda>r. Ret (r, None)))
       else if st = PStr ''RUNNING'' then
         bind (field row ''cleanup'') (\<lambda>c.
         bind (require (rv_current prior = None \<and> operation \<notin> set (rv_done prior) \<and> c = PNone) ''ADMISSION_OPERATION_REPLAY'') (\<lambda>_.
           Ret (prior\<lparr>rv_current := Some operation, rv_done := rv_done prior @ [operation]\<rparr>, None)))
       else if st = PStr ''RECORDED'' then
         bind (cleanup_recorded U prior row operation) (\<lambda>r. Ret (r, Some operation))
       else refuse ''ADMISSION_HISTORY_TRANSITION'') = Ret (r, finished)"
  consider "\<exists>state. resource_transition prior row state operation = Ret r"
    | "rv_current prior = None" "operation \<notin> set (rv_done prior)"
      "r = prior\<lparr>rv_current := Some operation, rv_done := rv_done prior @ [operation]\<rparr>"
    | "cleanup_recorded U prior row operation = Ret r"
    using branch by (auto simp: bind_eq_Ret split: if_splits)
  then show ?thesis
  proof cases
    case 1
    then show ?thesis using resource_accounted [OF _ operation(1) assms(2) held] by blast
  next
    case 2
    then have "rv_resources prior = []"
      using assms(2) by (cases "rv_resources prior") (auto simp: accounted_def)
    with 2 assms(2) held operation(2) show ?thesis by (auto simp: accounted_def)
  next
    case 3
    then show ?thesis using cleanup_accounted assms(2,3) by blast
  qed
qed

lemma next_held: "next_reservation U G key prior row b t = Ret (r, finished) \<Longrightarrow> rv_held prior"
  unfolding next_reservation_def
  by (elim bind_RetE) (simp add: requires_eq_Ret and_also_True split: if_splits)

section \<open>The history\<close>

text \<open>Writing a reservation that may hold the capacity keeps the ledger exclusive when no other one does.\<close>

lemma put_exclusive:
  assumes "exclusive G" "accounted r"
    and "\<And>k' r'. (k', r') \<in> set (reservations G) \<Longrightarrow> rv_held r' \<Longrightarrow> k' = k"
  shows "exclusive (G\<lparr>reservations := put k r (reservations G), recorded := d, chain := c, rows := n\<rparr>)"
proof -
  have d: "distinct (map fst (reservations G))" using assms(1) by (simp add: exclusive_def)
  have "list_all (\<lambda>(_, r). accounted r) (put k r (reservations G))"
    using assms(1,2) by (auto simp: exclusive_def list_all_iff put_set [OF d])
  moreover have "fst a = k" if "a \<in> set (put k r (reservations G))" "rv_held (snd a)" for a
  proof -
    have "a \<in> insert (k, r) {p \<in> set (reservations G). fst p \<noteq> k}" using that(1) by (simp only: put_set [OF d])
    then show ?thesis using that(2) assms(3) [of "fst a" "snd a"] by auto
  qed
  ultimately show ?thesis using put_distinct [OF d] by (simp add: exclusive_def)
qed

lemma accounted_last [simp]: "accounted (r\<lparr>rv_last := t\<rparr>) = accounted r"
  by (simp add: accounted_def released_def)

lemma ledger_row_exclusive:
  assumes "ledger_row U G line = Ret G'" "exclusive G"
  shows "exclusive G'"
  using assms(1) unfolding ledger_row_def
proof (elim bind_RetE)
  fix v row bv instant key p
  assume v: "proxy_document U 32768 (PBytes (strip_eol line)) = Ret v" "items_of v = Ret row"
    and p: "(case map_of (reservations G) key of
             None \<Rightarrow> bind (first_reservation G row bv instant) (\<lambda>r. Ret (r, None))
           | Some prior \<Rightarrow> next_reservation U G key prior row bv instant) = Ret p"
    and last: "(case p of (r, finished) \<Rightarrow> bind (canonical_digest U v None) (\<lambda>digest.
       Ret (G\<lparr>reservations := put key (r\<lparr>rv_last := instant\<rparr>) (reservations G),
              recorded := (case finished of None \<Rightarrow> recorded G | Some operation \<Rightarrow> (key, operation) # recorded G),
              chain := digest, rows := rows G + 1\<rparr>))) = Ret G'"
  obtain r finished where rf: "p = (r, finished)" by (cases p)
  have wf: "wf_val (PDict row)" using proxy_document_wf [OF v(1)] v(2) by (simp add: items_of_eq_Ret)
  have "accounted r \<and> (\<forall>(k', r') \<in> set (reservations G). rv_held r' \<longrightarrow> k' = key)"
  proof (cases "map_of (reservations G) key")
    case None
    with p rf have "first_reservation G row bv instant = Ret r" by (simp add: bind_eq_Ret)
    then show ?thesis using first_accounted first_alone by (fastforce simp: list_all_iff)
  next
    case (Some prior)
    with p rf have n: "next_reservation U G key prior row bv instant = Ret (r, finished)" by simp
    have prior: "(key, prior) \<in> set (reservations G)" using Some by (rule map_of_SomeD)
    then have "accounted prior" using assms(2) by (auto simp: exclusive_def list_all_iff)
    then have "accounted r" using next_accounted [OF n _ wf] by simp
    moreover have "rv_held prior" using n by (rule next_held)
    ultimately show ?thesis using prior assms(2) unfolding exclusive_def by fastforce
  qed
  then have r: "accounted (r\<lparr>rv_last := instant\<rparr>)"
    and only: "\<And>k' r'. (k', r') \<in> set (reservations G) \<Longrightarrow> rv_held r' \<Longrightarrow> k' = key" by auto
  from last rf obtain digest where "G' = G\<lparr>reservations := put key (r\<lparr>rv_last := instant\<rparr>) (reservations G),
      recorded := (case finished of None \<Rightarrow> recorded G | Some operation \<Rightarrow> (key, operation) # recorded G),
      chain := digest, rows := rows G + 1\<rparr>"
    by (auto simp: bind_eq_Ret)
  then show ?thesis using put_exclusive [OF assms(2) r only] by simp
qed

lemma empty_exclusive: "exclusive empty_ledger"
  by (simp add: exclusive_def empty_ledger_def)

lemma parse_exclusive:
  assumes "parse_reservations U raw = Ret G"
  shows "exclusive G"
proof -
  have "fold_out (ledger_row U) empty_ledger (split_lines raw) = Ret G"
    using assms unfolding parse_reservations_def by (elim bind_RetE)
  then show ?thesis
    by (rule fold_out_invariant [where P = exclusive, OF _ empty_exclusive]) (rule ledger_row_exclusive)
qed

lemma accounted_cases:
  assumes "accounted r"
  shows "rv_held r \<or>
      rv_current r = None \<and> rv_resources r = [] \<and> distinct (rv_done r) \<and> set (rv_done r) = set CASES"
  using assms unfolding accounted_def released_def by blast

section \<open>Properties\<close>

text \<open>C10: the one shared capacity is never handed out twice: after the replay of any accepted admission history at
  most one reservation holds it, and a reservation that let it go ran all ten operations, each once, has
  none running, and accounts for no resource that it intended or created.\<close>

theorem capacity_exclusive:
  "case parse_reservations U raw of
     Ret G \<Rightarrow>
       length (filter (\<lambda>(_, r). rv_held r) (reservations G)) \<le> 1 \<and>
       list_all (\<lambda>(_, r). rv_held r \<or>
           rv_current r = None \<and> rv_resources r = [] \<and> distinct (rv_done r) \<and> set (rv_done r) = set CASES)
         (reservations G)
   | Raise _ \<Rightarrow> True"
proof (cases "parse_reservations U raw")
  case (Ret G)
  then have e: "exclusive G" by (rule parse_exclusive)
  then have "list_all (\<lambda>(_, r). accounted r) (reservations G)" by (simp add: exclusive_def)
  then have "list_all (\<lambda>(_, r). rv_held r \<or>
      rv_current r = None \<and> rv_resources r = [] \<and> distinct (rv_done r) \<and> set (rv_done r) = set CASES) (reservations G)"
    by (rule list.pred_mono_strong) (auto dest: accounted_cases)
  with exclusive_holder [OF e] show ?thesis unfolding Ret outcome.case by (rule conjI)
next
  case (Raise e)
  then show ?thesis by (simp only: outcome.case)
qed

end
