(* ===== verification/Broker.thy ===== *)
theory Broker
  imports Retained
begin

text \<open>
  The broker transcript of \<open>live_mutation_admission.py\<close> (class \<open>BrokerTranscript\<close>): an incremental parser of
  the frames that broker and server exchange while one case runs.  Frames are chained by sequence number
  and digest; resource actions, their results, the chunks of the receipt, the cleanup and the terminal
  frame must come in an admissible order; a frame that is refused poisons the transcript.
\<close>

section \<open>Base64\<close>

definition standard_char :: "char \<Rightarrow> char" where
  "standard_char c = (if c = CHR ''-'' then CHR ''+'' else if c = CHR ''_'' then CHR ''/'' else c)"

definition b64_standard :: "bytes \<Rightarrow> string" where
  "b64_standard raw =
     map standard_char (b64url_encode raw) @ replicate ((3 - length raw mod 3) mod 3) CHR ''=''"

text \<open>\<open>b64decode(value, validate=True)\<close> whose result must encode back to the value.\<close>

definition base64_bytes :: "pyval \<Rightarrow> nat \<Rightarrow> bytes outcome" where
  "base64_bytes value maximum =
     (case value of
        PStr s \<Rightarrow>
          bind (catching is_value_error ''BROKER_BASE64_INVALID'' (b64decode (takeWhile (\<lambda>c. c \<noteq> CHR ''='') s))) (\<lambda>raw.
          bind (require (0 < length raw \<and> length raw \<le> maximum \<and> b64_standard raw = s) ''BROKER_BASE64_INVALID'') (\<lambda>_. Ret raw))
      | _ \<Rightarrow> refuse ''BROKER_BASE64_INVALID'')"

section \<open>State\<close>

definition BROKER_COMMON :: "string list" where
  "BROKER_COMMON =
     [''bindingDigest'', ''reservationDigest'', ''runNonce'', ''caseId'', ''requestDigest'', ''observationDigest'',
      ''generation'', ''challenge'']"

record transcript =
  tr_binding :: pyval
  tr_dispatch :: pyval
  tr_sequence :: int
  tr_previous :: string
  tr_execution :: "pyval option"
  tr_pending :: "pyval option"
  tr_cleanup :: "pyval option"
  tr_terminal :: "pyval option"
  tr_actions :: "pyval list"
  tr_chunks :: "bytes list"
  tr_size :: nat
  tr_failed :: bool
  tr_poisoned :: bool

definition new_transcript :: "ucd \<Rightarrow> pyval \<Rightarrow> pyval \<Rightarrow> transcript outcome" where
  "new_transcript U binding_value dispatch_value =
     bind (broker_document U binding_value ''binding'') (\<lambda>b.
     bind (broker_document U dispatch_value ''dispatch'') (\<lambda>d.
     bind (requires (bind (canonical_text U b) (item_is d ''bindingDigest'')) ''BROKER_BINDING_MISMATCH'') (\<lambda>_.
       Ret \<lparr>tr_binding = b, tr_dispatch = d, tr_sequence = 0, tr_previous = ZERO_DIGEST, tr_execution = None,
            tr_pending = None, tr_cleanup = None, tr_terminal = None, tr_actions = [], tr_chunks = [], tr_size = 0,
            tr_failed = False, tr_poisoned = False\<rparr>)))"

definition case_digests :: "transcript \<Rightarrow> pyval list outcome" where
  "case_digests T =
     bind (bind (item (tr_dispatch T) ''caseId'') text_of) (\<lambda>cas.
       bind (at_path (tr_binding T) [''caseResourceDigests'', cas]) iter_of)"

section \<open>The frames\<close>

definition resource_action :: "ucd \<Rightarrow> transcript \<Rightarrow> pyval \<Rightarrow> transcript outcome" where
  "resource_action U T payload =
     bind (item payload ''actionId'') (\<lambda>action.
     bind (requires
       (and_also (Ret (tr_pending T = None \<and> tr_chunks T = [] \<and> tr_cleanup T = None \<and> \<not> py_in action (tr_actions T)))
         (bind (item payload ''manifestDigest'') (\<lambda>d. bind (case_digests T) (\<lambda>ds. Ret (py_in d ds)))))
       ''BROKER_RESOURCE_ACTION_INVALID'') (\<lambda>_.
     bind (proxy_document U 16384 payload) (\<lambda>pending.
       Ret (T\<lparr>tr_pending := Some pending, tr_actions := action # tr_actions T\<rparr>))))"

definition permitted_outcomes :: "pyval \<Rightarrow> string list outcome" where
  "permitted_outcomes verb =
     (case verb of
        PStr v \<Rightarrow>
          (case map_of [(''CREATE'', [''CREATED'']), (''GET'', [''PRESENT'', ''ABSENT'']), (''DELETE'', [''DELETED''])] v of
             Some os \<Rightarrow> Ret (os @ [''DENIED'', ''AMBIGUOUS'']) | None \<Rightarrow> Raise KeyError)
      | v \<Rightarrow> if hashable v then Raise KeyError else Raise TypeError)"

definition resource_result :: "ucd \<Rightarrow> transcript \<Rightarrow> pyval \<Rightarrow> transcript outcome" where
  "resource_result U T payload =
     (case tr_pending T of
        None \<Rightarrow> refuse ''BROKER_RESULT_WITHOUT_ACTION''
      | Some pending \<Rightarrow>
          bind (requires (same_at payload ''actionId'' pending ''actionId'') ''BROKER_RESULT_WITHOUT_ACTION'') (\<lambda>_.
          bind (item payload ''outcome'') (\<lambda>outcome_value.
          bind (bind (item pending ''verb'') permitted_outcomes) (\<lambda>permitted.
          bind (require (str_in outcome_value permitted) ''BROKER_RESOURCE_OUTCOME_INVALID'') (\<lambda>_.
          (let has_object = str_in outcome_value [''CREATED'', ''PRESENT''] in
           bind (item payload ''objectBase64'') (\<lambda>object.
           bind (require (has_object = (object \<noteq> PNone)) ''BROKER_RESOURCE_OBJECT_INVALID'') (\<lambda>_.
           bind (if has_object then
                   bind (bind (base64_bytes object 16384) (\<lambda>raw. proxy_document U 16384 (PBytes raw))) (\<lambda>v.
                     require (is_dict v) ''BROKER_RESOURCE_OBJECT_INVALID'')
                 else Ret ()) (\<lambda>_.
             Ret (T\<lparr>tr_failed := (tr_failed T \<or> str_in outcome_value [''DENIED'', ''AMBIGUOUS'']), tr_pending := None\<rparr>))))))))))"

definition receipt_chunk :: "transcript \<Rightarrow> pyval \<Rightarrow> transcript outcome" where
  "receipt_chunk T payload =
     bind (requires (and_also (Ret (tr_pending T = None \<and> tr_cleanup T = None))
             (item_is payload ''index'' (PInt (int (length (tr_chunks T)))))) ''BROKER_CHUNK_ORDER'') (\<lambda>_.
     bind (bind (item payload ''dataBase64'') (\<lambda>v. base64_bytes v 24576)) (\<lambda>chunk.
     bind (require (tr_size T + length chunk \<le> 4194304) ''BROKER_RECEIPT_SIZE'') (\<lambda>_.
       Ret (T\<lparr>tr_chunks := tr_chunks T @ [chunk], tr_size := tr_size T + length chunk\<rparr>))))"

definition cleanup_row :: "pyval list \<Rightarrow> pyval list \<Rightarrow> pyval \<Rightarrow> pyval list outcome" where
  "cleanup_row digests seen row =
     bind (bind (items_at row [''kind'', ''namespace'', ''name'']) tuple_of) (\<lambda>key.
     bind (requires (and_also (Ret (\<not> py_in key seen))
             (and_also (bind (item row ''manifestDigest'') (\<lambda>d. Ret (py_in d digests)))
               (or_else (bind (item row ''uid'') (\<lambda>u. Ret (u \<noteq> PNone))) (item_is row ''reasonCode'' (PStr ''IO_AMBIGUOUS'')))))
             ''BROKER_CLEANUP_SCOPE'') (\<lambda>_. Ret (key # seen)))"

definition cleanup_frame :: "ucd \<Rightarrow> transcript \<Rightarrow> pyval \<Rightarrow> transcript outcome" where
  "cleanup_frame U T payload =
     bind (item payload ''remainingResources'') (\<lambda>remaining.
     bind (requires (and_also (Ret (tr_pending T = None \<and> tr_chunks T \<noteq> [] \<and> tr_cleanup T = None))
             (bind (item_is payload ''state'' (PStr ''CLEAN'')) (\<lambda>clean. Ret (clean = (\<not> truthy remaining)))))
             ''BROKER_CLEANUP_ORDER'') (\<lambda>_.
     bind (iter_of remaining) (\<lambda>rs.
     bind (if rs = [] then Ret [] else case_digests T) (\<lambda>digests.
     bind (fold_out (cleanup_row digests) [] rs) (\<lambda>_.
     bind (proxy_document U 16384 payload) (\<lambda>cleanup. Ret (T\<lparr>tr_cleanup := Some cleanup\<rparr>)))))))"

definition terminal_frame :: "ucd \<Rightarrow> transcript \<Rightarrow> pyval \<Rightarrow> transcript outcome" where
  "terminal_frame U T payload =
     (case (tr_pending T, tr_cleanup T) of
        (None, Some cleanup) \<Rightarrow>
          bind (requires
            (and_also (item_is payload ''receiptSize'' (PInt (int (tr_size T))))
            (and_also (item_is payload ''receiptDigest'' (PStr (byte_digest (concat (tr_chunks T)))))
              (same_at payload ''cleanupDigest'' cleanup ''cleanupDigest''))) ''BROKER_TERMINAL_MISMATCH'') (\<lambda>_.
          bind (requires (or_else (py_not (item_is payload ''status'' (PStr ''COMPLETED'')))
                  (and_also (item_is cleanup ''state'' (PStr ''CLEAN'')) (Ret (\<not> tr_failed T)))) ''BROKER_FALSE_COMPLETION'') (\<lambda>_.
          bind (proxy_document U 16384 payload) (\<lambda>t. Ret (T\<lparr>tr_terminal := Some t\<rparr>))))
      | _ \<Rightarrow> refuse ''BROKER_TERMINAL_MISMATCH'')"

definition SERVER_KINDS :: "string list" where
  "SERVER_KINDS = [''RESOURCE_RESULT'', ''CLEANUP_RECORDED'', ''ABORT'']"

definition frame_effect :: "ucd \<Rightarrow> transcript \<Rightarrow> pyval \<Rightarrow> pyval \<Rightarrow> transcript outcome" where
  "frame_effect U T kind payload =
     (if kind = PStr ''RESOURCE_ACTION'' then resource_action U T payload
      else if kind = PStr ''RESOURCE_RESULT'' then resource_result U T payload
      else if kind = PStr ''RECEIPT_CHUNK'' then receipt_chunk T payload
      else if kind = PStr ''CLEANUP_RECORDED'' then cleanup_frame U T payload
      else if kind = PStr ''TERMINAL'' then terminal_frame U T payload
      else if kind \<noteq> PStr ''STARTED'' then refuse ''BROKER_ABORTED''
      else Ret T)"

definition bind_execution :: "transcript \<Rightarrow> pyval \<Rightarrow> pyval \<Rightarrow> transcript outcome" where
  "bind_execution T kind execution =
     (case tr_execution T of
        None \<Rightarrow> bind (require (kind = PStr ''STARTED'') ''BROKER_CONTROLLED_START_REQUIRED'') (\<lambda>_.
          Ret (T\<lparr>tr_execution := Some execution\<rparr>))
      | Some e \<Rightarrow> bind (require (py_eq execution e \<and> kind \<noteq> PStr ''STARTED'') ''BROKER_EXECUTION_REPLAY'') (\<lambda>_. Ret T))"

definition frame_step :: "ucd \<Rightarrow> transcript \<Rightarrow> pyval \<Rightarrow> string \<Rightarrow> (pyval \<times> transcript) outcome" where
  "frame_step U T raw sender =
     bind (broker_document U raw ''frame'') (\<lambda>frame.
     bind (require (sender \<in> {''BROKER'', ''SERVER''}) ''BROKER_DIRECTION_INVALID'') (\<lambda>_.
     bind (item frame ''kind'') (\<lambda>kind. bind (item frame ''payload'') (\<lambda>payload.
     bind (require ((sender = ''SERVER'') = str_in kind SERVER_KINDS) ''BROKER_DIRECTION_INVALID'') (\<lambda>_.
     bind (requires (and_also (all_out (\<lambda>k. same_at frame k (tr_dispatch T) k) BROKER_COMMON)
             (and_also (item_is frame ''sequence'' (PInt (tr_sequence T + 1)))
               (item_is frame ''previousDigest'' (PStr (tr_previous T))))) ''BROKER_TRANSCRIPT_BINDING'') (\<lambda>_.
     bind (item frame ''executionId'') (\<lambda>execution.
     bind (bind_execution T kind execution) (\<lambda>T1.
     bind (frame_effect U T1 kind payload) (\<lambda>T2.
     bind (canonical_digest U frame None) (\<lambda>digest.
       Ret (frame, T2\<lparr>tr_sequence := tr_sequence T + 1, tr_previous := digest\<rparr>)))))))))))"

definition accept_frame :: "ucd \<Rightarrow> transcript \<Rightarrow> pyval \<Rightarrow> string \<Rightarrow> pyval outcome \<times> transcript" where
  "accept_frame U T raw sender =
     (if tr_poisoned T \<or> tr_terminal T \<noteq> None then (refuse ''BROKER_TRANSCRIPT_CLOSED'', T)
      else case frame_step U T raw sender of
        Ret (frame, T') \<Rightarrow> (Ret frame, T')
      | Raise e \<Rightarrow> (Raise e, T\<lparr>tr_poisoned := True\<rparr>))"

definition server_frame :: "ucd \<Rightarrow> transcript \<Rightarrow> string \<Rightarrow> pyval \<Rightarrow> bytes outcome \<times> transcript" where
  "server_frame U T kind payload =
     (case tr_execution T of
        None \<Rightarrow> (refuse ''BROKER_CONTROLLED_START_REQUIRED'', T)
      | Some execution \<Rightarrow>
          (case selected (tr_dispatch T) BROKER_COMMON of
             Raise e \<Rightarrow> (Raise e, T)
           | Ret common \<Rightarrow>
               (let frame = PDict ([(''schemaVersion'', PStr ''planeon.internal.broker-frame/v1'')] @ common @
                      [(''executionId'', execution), (''sequence'', PInt (tr_sequence T + 1)),
                       (''previousDigest'', PStr (tr_previous T)), (''kind'', PStr kind), (''payload'', payload)])
                in case accept_frame U T frame ''SERVER'' of
                     (Raise e, T') \<Rightarrow> (Raise e, T')
                   | (Ret _, T') \<Rightarrow> (canonical_bytes U frame, T'))))"

definition receipt_of :: "transcript \<Rightarrow> bytes outcome" where
  "receipt_of T =
     (if tr_poisoned T \<or> tr_terminal T = None then refuse ''BROKER_TERMINAL_REQUIRED'' else Ret (concat (tr_chunks T)))"

section \<open>Runs\<close>

inductive frame_accepted :: "ucd \<Rightarrow> transcript \<Rightarrow> transcript \<Rightarrow> bool" for U :: ucd where
  frame_in: "frame_accepted U T (snd (accept_frame U T raw sender))"

end
