(* ===== verification/BrokerLaws.thy ===== *)
theory BrokerLaws
  imports Broker ProxyLaws Transitions
begin

text \<open>
  What a broker transcript remembers about the frames it accepted, as an invariant of all runs, and what
  a completed transcript therefore guarantees.
\<close>

section \<open>Documents\<close>

lemma broker_document_wf: "broker_document U v variant = Ret w \<Longrightarrow> canon w = w \<and> wf_val w"
  unfolding broker_document_def by (auto simp: bind_eq_Ret dest: proxy_document_wf)

section \<open>Frames\<close>

definition is_kind :: "string \<Rightarrow> pyval \<Rightarrow> bool" where
  "is_kind k f \<longleftrightarrow> item f ''kind'' = Ret (PStr k)"

definition says :: "pyval \<Rightarrow> string \<Rightarrow> string \<Rightarrow> bool" where
  "says f k s \<longleftrightarrow> bind (item f ''payload'') (\<lambda>p. item p k) = Ret (PStr s)"

definition failed_result :: "pyval \<Rightarrow> bool" where
  "failed_result f \<longleftrightarrow> is_kind ''RESOURCE_RESULT'' f \<and> (says f ''outcome'' ''DENIED'' \<or> says f ''outcome'' ''AMBIGUOUS'')"

definition chunk_of :: "pyval \<Rightarrow> bytes list" where
  "chunk_of f =
     (if is_kind ''RECEIPT_CHUNK'' f then
        (case bind (bind (item f ''payload'') (\<lambda>p. item p ''dataBase64'')) (\<lambda>v. base64_bytes v 24576) of
           Ret c \<Rightarrow> [c] | Raise _ \<Rightarrow> [])
      else [])"

text \<open>What the state of a transcript says of the frames accepted so far.\<close>

definition consistent :: "pyval list \<times> transcript \<Rightarrow> bool" where
  "consistent = (\<lambda>(fs, T).
     (tr_failed T \<longleftrightarrow> list_ex failed_result fs) \<and> tr_chunks T = concat (map chunk_of fs) \<and>
     tr_size T = length (concat (tr_chunks T)) \<and>
     (case tr_cleanup T of
        None \<Rightarrow> \<not> list_ex (is_kind ''CLEANUP_RECORDED'') fs
      | Some c \<Rightarrow> length (filter (is_kind ''CLEANUP_RECORDED'') fs) = 1 \<and>
          list_ex (\<lambda>f. is_kind ''CLEANUP_RECORDED'' f \<and> item f ''payload'' = Ret c) fs))"

inductive broker_step :: "ucd \<Rightarrow> pyval list \<times> transcript \<Rightarrow> pyval list \<times> transcript \<Rightarrow> bool" for U :: ucd where
  accepted_frame: "accept_frame U T raw sender = (Ret f, T') \<Longrightarrow> broker_step U (fs, T) (fs @ [f], T')"

definition broker_start :: "ucd \<Rightarrow> pyval list \<times> transcript \<Rightarrow> bool" where
  "broker_start U = (\<lambda>(fs, T). fs = [] \<and> (\<exists>b d. new_transcript U b d = Ret T))"

lemma start_consistent: "broker_start U s \<Longrightarrow> consistent s"
  by (cases s) (auto simp: broker_start_def consistent_def new_transcript_def bind_eq_Ret)

lemma accept_frame_Ret:
  assumes "accept_frame U T raw sender = (Ret f, T')"
  shows "\<not> tr_poisoned T" "tr_terminal T = None" "frame_step U T raw sender = Ret (f, T')"
  using assms unfolding accept_frame_def by (auto split: if_splits outcome.splits simp: refuse_def)

lemma execution_known:
  assumes "bind_execution T kind execution = Ret T1"
  shows "\<exists>x. T1 = T\<lparr>tr_execution := x\<rparr>"
proof (cases "tr_execution T")
  case (Some e)
  then have "T1 = T\<lparr>tr_execution := tr_execution T\<rparr>"
    using assms unfolding bind_execution_def by (simp add: bind_eq_Ret)
  then show ?thesis by blast
qed (use assms in \<open>auto simp: bind_execution_def bind_eq_Ret\<close>)

lemma frame_step_Ret:
  assumes "frame_step U T raw sender = Ret (f, T')"
  obtains kind payload T1 T2 digest where "item f ''kind'' = Ret kind" "item f ''payload'' = Ret payload"
    "\<exists>x. T1 = T\<lparr>tr_execution := x\<rparr>" "frame_effect U T1 kind payload = Ret T2"
    "T' = T2\<lparr>tr_sequence := tr_sequence T + 1, tr_previous := digest\<rparr>" "canon payload = payload" "wf_val payload"
  using assms unfolding frame_step_def
proof (elim bind_RetE requires_bindE)
  fix frame a kind payload b c d T1 T2 digest
  assume h: "broker_document U raw ''frame'' = Ret frame" "item frame ''kind'' = Ret kind" "item frame ''payload'' = Ret payload"
    "bind_execution T kind d = Ret T1" "frame_effect U T1 kind payload = Ret T2"
    "Ret (frame, T2\<lparr>tr_sequence := tr_sequence T + 1, tr_previous := digest\<rparr>) = Ret (f, T')"
  then have "canon payload = payload" "wf_val payload"
    using broker_document_wf canon_item wf_item by blast+
  moreover have "frame = f" "T' = T2\<lparr>tr_sequence := tr_sequence T + 1, tr_previous := digest\<rparr>" using h(6) by simp_all
  ultimately show thesis using that [OF _ _ execution_known [OF h(4)] h(5)] h(2,3) by simp
qed

lemma effect_kind:
  assumes "frame_effect U T kind payload = Ret T'"
  obtains "kind = PStr ''RESOURCE_ACTION''" "resource_action U T payload = Ret T'"
    | "kind = PStr ''RESOURCE_RESULT''" "resource_result U T payload = Ret T'"
    | "kind = PStr ''RECEIPT_CHUNK''" "receipt_chunk T payload = Ret T'"
    | "kind = PStr ''CLEANUP_RECORDED''" "cleanup_frame U T payload = Ret T'"
    | "kind = PStr ''TERMINAL''" "terminal_frame U T payload = Ret T'"
    | "kind = PStr ''STARTED''" "T' = T"
proof -
  have pick: "(if a then A else if b then B else if c then C else if d then D else if e then E
      else if \<not> g then refuse r else Ret t) = Ret t' \<Longrightarrow>
    a \<and> A = Ret t' \<or> b \<and> B = Ret t' \<or> c \<and> C = Ret t' \<or> d \<and> D = Ret t' \<or> e \<and> E = Ret t' \<or> g \<and> t' = t"
    for a b c d e g :: bool and A B C D E :: "transcript outcome" and r t t'
    by (auto simp: refuse_def split: if_splits)
  show thesis
    using pick [OF assms [unfolded frame_effect_def]] that by argo
qed

lemma resource_action_Ret:
  "resource_action U T payload = Ret T' \<Longrightarrow> \<exists>p as. T' = T\<lparr>tr_pending := Some p, tr_actions := as\<rparr>"
  unfolding resource_action_def by (auto simp: bind_eq_Ret)

lemma resource_result_Ret:
  assumes "resource_result U T payload = Ret T'"
  obtains res where "item payload ''outcome'' = Ret res"
    "T' = T\<lparr>tr_failed := (tr_failed T \<or> str_in res [''DENIED'', ''AMBIGUOUS'']), tr_pending := None\<rparr>"
proof (cases "tr_pending T")
  case None
  with assms show thesis by (simp add: resource_result_def)
next
  case (Some pending)
  show thesis using assms unfolding resource_result_def Let_def Some option.case
    by (elim bind_RetE) (rule that, assumption, simp)
qed

lemma receipt_chunk_Ret:
  assumes "receipt_chunk T payload = Ret T'"
  obtains c where "bind (item payload ''dataBase64'') (\<lambda>v. base64_bytes v 24576) = Ret c"
    "T' = T\<lparr>tr_chunks := tr_chunks T @ [c], tr_size := tr_size T + length c\<rparr>"
  using assms that unfolding receipt_chunk_def by (auto simp: bind_eq_Ret)

lemma item_not_bytes: "item v k = Ret x \<Longrightarrow> \<not> is_bytes v"
  by (auto simp: item_eq_Ret is_bytes_def)

lemma cleanup_frame_Ret:
  assumes "cleanup_frame U T payload = Ret T'" "canon payload = payload" "wf_val payload"
  shows "tr_cleanup T = None" "T' = T\<lparr>tr_cleanup := Some payload\<rparr>"
proof -
  have "tr_cleanup T = None \<and> T' = T\<lparr>tr_cleanup := Some payload\<rparr>"
    using assms(1) unfolding cleanup_frame_def
  proof (elim bind_RetE requires_bindE)
    fix remaining rs digests u c x
    assume h: "item payload ''remainingResources'' = Ret remaining" "proxy_document U 16384 payload = Ret c"
      "Ret (T\<lparr>tr_cleanup := Some c\<rparr>) = Ret T'"
      "requires (and_also (Ret (tr_pending T = None \<and> tr_chunks T \<noteq> [] \<and> tr_cleanup T = None))
         (bind (item_is payload ''state'' (PStr ''CLEAN'')) (\<lambda>clean. Ret (clean = (\<not> truthy remaining)))))
         ''BROKER_CLEANUP_ORDER'' = Ret x"
    moreover have "c = payload"
      using proxy_document_same [OF h(2) assms(2,3)] item_not_bytes [OF h(1)] by simp
    ultimately show ?thesis by (auto simp: requires_eq_Ret split: if_splits)
  qed
  then show "tr_cleanup T = None" "T' = T\<lparr>tr_cleanup := Some payload\<rparr>" by blast+
qed

lemma terminal_frame_Ret:
  assumes "terminal_frame U T payload = Ret T'"
  obtains cleanup t where "tr_cleanup T = Some cleanup" "T' = T\<lparr>tr_terminal := Some t\<rparr>"
    "item_is payload ''receiptSize'' (PInt (int (tr_size T))) = Ret True"
    "item_is payload ''receiptDigest'' (PStr (byte_digest (concat (tr_chunks T)))) = Ret True"
    "item payload ''status'' \<noteq> Ret (PStr ''COMPLETED'') \<or>
       item_is cleanup ''state'' (PStr ''CLEAN'') = Ret True \<and> \<not> tr_failed T"
  using assms that unfolding terminal_frame_def
  by (auto simp: bind_eq_Ret requires_eq_Ret and_also_True or_else_def py_not_def item_is_def refuse_def split: option.splits if_splits)

section \<open>The invariant\<close>

lemma not_kind: "item f ''kind'' = Ret (PStr k) \<Longrightarrow> k \<noteq> l \<Longrightarrow> \<not> is_kind l f"
  by (simp add: is_kind_def)

lemma no_chunk: "\<not> is_kind ''RECEIPT_CHUNK'' f \<Longrightarrow> chunk_of f = []"
  by (simp add: chunk_of_def)

lemma no_result: "\<not> is_kind ''RESOURCE_RESULT'' f \<Longrightarrow> \<not> failed_result f"
  by (simp add: failed_result_def)

lemma consistent_step:
  assumes "consistent (fs, T)" "frame_step U T raw sender = Ret (f, T')"
  shows "consistent (fs @ [f], T')"
proof -
  from assms(2) obtain kind payload T1 T2 digest where f: "item f ''kind'' = Ret kind" "item f ''payload'' = Ret payload"
    and T1: "\<exists>x. T1 = T\<lparr>tr_execution := x\<rparr>" and e: "frame_effect U T1 kind payload = Ret T2"
    and T': "T' = T2\<lparr>tr_sequence := tr_sequence T + 1, tr_previous := digest\<rparr>"
    and p: "canon payload = payload" "wf_val payload"
    by (rule frame_step_Ret)
  have "consistent (fs @ [f], T2)"
    using e
  proof (cases rule: effect_kind)
    case 1
    from 1(1) f(1) have "\<not> is_kind ''RESOURCE_RESULT'' f" "\<not> is_kind ''RECEIPT_CHUNK'' f" "\<not> is_kind ''CLEANUP_RECORDED'' f"
      by (auto simp: is_kind_def)
    with resource_action_Ret [OF 1(2)] T1 assms(1) show ?thesis
      by (auto simp: consistent_def no_chunk no_result split: option.splits)
  next
    case 2
    from 2(1) f(1) have k: "is_kind ''RESOURCE_RESULT'' f" "\<not> is_kind ''RECEIPT_CHUNK'' f" "\<not> is_kind ''CLEANUP_RECORDED'' f"
      by (auto simp: is_kind_def)
    from 2(2) obtain res where "item payload ''outcome'' = Ret res"
      "T2 = T1\<lparr>tr_failed := (tr_failed T1 \<or> str_in res [''DENIED'', ''AMBIGUOUS'']), tr_pending := None\<rparr>"
      by (rule resource_result_Ret)
    with k T1 f(2) assms(1) show ?thesis
      by (auto simp: consistent_def no_chunk failed_result_def says_def split: option.splits)
  next
    case 3
    from 3(1) f(1) have k: "is_kind ''RECEIPT_CHUNK'' f" "\<not> is_kind ''RESOURCE_RESULT'' f" "\<not> is_kind ''CLEANUP_RECORDED'' f"
      by (auto simp: is_kind_def)
    from 3(2) obtain c where c: "bind (item payload ''dataBase64'') (\<lambda>v. base64_bytes v 24576) = Ret c"
      "T2 = T1\<lparr>tr_chunks := tr_chunks T1 @ [c], tr_size := tr_size T1 + length c\<rparr>"
      by (rule receipt_chunk_Ret)
    then have "chunk_of f = [c]" using k(1) f(2) by (simp add: chunk_of_def)
    with k c(2) T1 assms(1) show ?thesis
      by (auto simp: consistent_def no_result split: option.splits)
  next
    case 4
    from 4(1) f(1) have k: "is_kind ''CLEANUP_RECORDED'' f" "\<not> is_kind ''RESOURCE_RESULT'' f" "\<not> is_kind ''RECEIPT_CHUNK'' f"
      by (auto simp: is_kind_def)
    note c = cleanup_frame_Ret [OF 4(2) p]
    have "tr_cleanup T = None" using c(1) T1 by auto
    then have "\<not> list_ex (is_kind ''CLEANUP_RECORDED'') fs" using assms(1) by (simp add: consistent_def)
    then have "filter (is_kind ''CLEANUP_RECORDED'') fs = []" by (auto simp: list_ex_iff filter_empty_conv)
    with k c(2) T1 f(2) assms(1) show ?thesis
      by (auto simp: consistent_def no_chunk no_result)
  next
    case 5
    from 5(1) f(1) have "\<not> is_kind ''RESOURCE_RESULT'' f" "\<not> is_kind ''RECEIPT_CHUNK'' f" "\<not> is_kind ''CLEANUP_RECORDED'' f"
      by (auto simp: is_kind_def)
    moreover from 5(2) obtain c t where "T2 = T1\<lparr>tr_terminal := Some t\<rparr>" by (rule terminal_frame_Ret)
    ultimately show ?thesis using T1 assms(1)
      by (auto simp: consistent_def no_chunk no_result split: option.splits)
  next
    case 6
    from 6(1) f(1) have "\<not> is_kind ''RESOURCE_RESULT'' f" "\<not> is_kind ''RECEIPT_CHUNK'' f" "\<not> is_kind ''CLEANUP_RECORDED'' f"
      by (auto simp: is_kind_def)
    with 6(2) T1 assms(1) show ?thesis
      by (auto simp: consistent_def no_chunk no_result split: option.splits)
  qed
  then show ?thesis unfolding T' consistent_def by simp
qed

lemma broker_step_consistent: "broker_step U s t \<Longrightarrow> consistent s \<Longrightarrow> consistent t"
  by (induction rule: broker_step.induct) (auto intro: consistent_step dest: accept_frame_Ret)

interpretation broker: invariant_system "broker_start U" "broker_step U" consistent for U
  by unfold_locales (auto intro: start_consistent broker_step_consistent)

text \<open>A terminal frame that is accepted after the frames \<open>fs\<close>.\<close>

lemma terminal_accepted:
  assumes "reachable (broker_start U) (broker_step U) (fs, T)"
    and "accept_frame U T raw sender = (Ret f, T')" "is_kind ''TERMINAL'' f"
  shows "receipt_of T' = Ret (concat (concat (map chunk_of fs)))"
    "says f ''receiptDigest'' (byte_digest (concat (concat (map chunk_of fs))))"
    "length (filter (is_kind ''CLEANUP_RECORDED'') fs) = 1"
    "says f ''status'' ''COMPLETED'' \<Longrightarrow> \<not> list_ex failed_result fs \<and>
       list_ex (\<lambda>g. is_kind ''CLEANUP_RECORDED'' g \<and> says g ''state'' ''CLEAN'') fs"
proof -
  have inv: "consistent (fs, T)" using assms(1) by (rule broker.reachable_inv)
  note a = accept_frame_Ret [OF assms(2)]
  from a(3) obtain kind payload T1 T2 digest where p: "item f ''kind'' = Ret kind" "item f ''payload'' = Ret payload"
    and T1: "\<exists>x. T1 = T\<lparr>tr_execution := x\<rparr>" and e: "frame_effect U T1 kind payload = Ret T2"
    and T': "T' = T2\<lparr>tr_sequence := tr_sequence T + 1, tr_previous := digest\<rparr>"
    by (rule frame_step_Ret)
  have "terminal_frame U T1 payload = Ret T2"
    using e assms(3) p(1) unfolding is_kind_def by (cases rule: effect_kind) auto
  then obtain cleanup t where t: "tr_cleanup T1 = Some cleanup" "T2 = T1\<lparr>tr_terminal := Some t\<rparr>"
    "item_is payload ''receiptDigest'' (PStr (byte_digest (concat (tr_chunks T1)))) = Ret True"
    "item payload ''status'' \<noteq> Ret (PStr ''COMPLETED'') \<or>
       item_is cleanup ''state'' (PStr ''CLEAN'') = Ret True \<and> \<not> tr_failed T1"
    by (rule terminal_frame_Ret)
  have eq: "tr_cleanup T1 = tr_cleanup T" "tr_chunks T1 = tr_chunks T" "tr_failed T1 = tr_failed T"
    "tr_poisoned T1 = tr_poisoned T" using T1 by auto
  have c: "tr_chunks T = concat (map chunk_of fs)" "tr_failed T \<longleftrightarrow> list_ex failed_result fs"
    "length (filter (is_kind ''CLEANUP_RECORDED'') fs) = 1"
    "list_ex (\<lambda>g. is_kind ''CLEANUP_RECORDED'' g \<and> item g ''payload'' = Ret cleanup) fs"
    using inv t(1) eq(1) by (simp_all add: consistent_def)
  show "receipt_of T' = Ret (concat (concat (map chunk_of fs)))"
    unfolding T' t(2) receipt_of_def using eq(2,4) a(1) c(1) by simp
  show "says f ''receiptDigest'' (byte_digest (concat (concat (map chunk_of fs))))"
    using t(3) p(2) eq(2) c(1) by (auto simp: says_def item_is_eq_Ret)
  show "length (filter (is_kind ''CLEANUP_RECORDED'') fs) = 1" by (fact c(3))
  show "\<not> list_ex failed_result fs \<and> list_ex (\<lambda>g. is_kind ''CLEANUP_RECORDED'' g \<and> says g ''state'' ''CLEAN'') fs"
    if "says f ''status'' ''COMPLETED''"
  proof -
    have "item_is cleanup ''state'' (PStr ''CLEAN'') = Ret True \<and> \<not> tr_failed T"
      using that t(4) p(2) eq(3) by (auto simp: says_def)
    with c(2,4) show ?thesis by (fastforce simp: says_def item_is_eq_Ret list_ex_iff)
  qed
qed

section \<open>Properties\<close>

text \<open>C11: no completion is false: when a transcript accepts a terminal frame that says \<open>COMPLETED\<close>, none of the
  accepted results was denied or ambiguous, exactly one cleanup was recorded and it was clean, the frame
  carries the digest of the receipt, and the receipt is the decoded chunks in their order.\<close>

theorem no_false_completion:
  "\<not> (\<exists>fs T raw sender f T'. reachable (broker_start U) (broker_step U) (fs, T) \<and>
        accept_frame U T raw sender = (Ret f, T') \<and> is_kind ''TERMINAL'' f \<and> says f ''status'' ''COMPLETED'' \<and>
        \<not> (\<not> list_ex failed_result fs \<and>
           length (filter (is_kind ''CLEANUP_RECORDED'') fs) = 1 \<and>
           list_ex (\<lambda>g. is_kind ''CLEANUP_RECORDED'' g \<and> says g ''state'' ''CLEAN'') fs \<and>
           receipt_of T' = Ret (concat (concat (map chunk_of fs))) \<and>
           says f ''receiptDigest'' (byte_digest (concat (concat (map chunk_of fs))))))"
  by (clarify, frule (2) terminal_accepted(1), frule (2) terminal_accepted(2), frule (2) terminal_accepted(3),
      drule (3) terminal_accepted(4)) blast

end
