(* ===== verification/Qualification.thy ===== *)
theory Qualification
  imports Retained
begin

text \<open>
  The native qualification of \<open>live_mutation_admission.py\<close>: the expected record of a host (its files, the
  four roles with their control groups, programs and outbound endpoints) and the cross-check of a capture
  of one role's process against it.  Nothing here grants execution.

  A dictionary that the code builds from rows is a list of pairs, looked up by \<open>lookup_endpoint\<close>; where
  the code first compares its size with the number of rows, no two keys are equal.
\<close>

definition QUALIFICATION_PATH :: string where
  "QUALIFICATION_PATH = ''campaigns/platform/linux-baseline/native-qualification.json''"

definition int_at :: "pyval \<Rightarrow> string \<Rightarrow> int outcome" where
  "int_at v k = bind (item v k) int_of_val"

definition qualification_shape :: "ucd \<Rightarrow> string \<Rightarrow> pyval \<Rightarrow> unit outcome" where
  "qualification_shape U variant v = bind (field QUALIFICATION_DEFS variant) (\<lambda>spec. shape SHAPE_FUEL U QUALIFICATION_DEFS spec v)"

definition qualification_document :: "ucd \<Rightarrow> pyval \<Rightarrow> string \<Rightarrow> pyval outcome" where
  "qualification_document U value variant =
     bind (require (variant = ''record'' \<or> variant = ''capture'') ''QUALIFICATION_VARIANT_INVALID'') (\<lambda>_.
     bind (proxy_document U 262144 value) (\<lambda>v.
     bind (require (ascii_fields v) ''QUALIFICATION_ASCII_REQUIRED'') (\<lambda>_.
     bind (qualification_shape U variant v) (\<lambda>_. Ret v))))"

definition plain_part :: "string \<Rightarrow> bool" where
  "plain_part p \<longleftrightarrow> p \<notin> {'''', ''.'', ''..''}"

definition canonical_path :: "string \<Rightarrow> bool" where
  "canonical_path s \<longleftrightarrow> starts_with ''/'' s \<and> CHR 0x5C \<notin> set s \<and> length (split_on CHR ''/'' s) \<le> 65 \<and>
     list_all plain_part (split_on CHR ''/'' (tl s))"

definition canonical_qualification_path :: "pyval \<Rightarrow> unit outcome" where
  "canonical_qualification_path v =
     require (case v of PStr s \<Rightarrow> canonical_path s | _ \<Rightarrow> False) ''QUALIFICATION_PATH_INVALID''"

section \<open>Endpoints\<close>

definition TUPLE_FIELDS :: "string list" where
  "TUPLE_FIELDS = [''endpointId'', ''kind'', ''addressFamily'', ''ipAddress'', ''port'']"

fun is_v4 :: "ip \<Rightarrow> bool" where
  "is_v4 (V4 _) = True"
| "is_v4 (V6 _) = False"

fun is_mapped :: "ip \<Rightarrow> bool" where
  "is_mapped (V4 _) = False"
| "is_mapped (V6 n) = (n div 2 ^ 32 = 0xFFFF)"

text \<open>The address of an endpoint: numeric, in canonical text, without zone, of the family it says.\<close>

definition tuple_address :: "string \<Rightarrow> pyval \<Rightarrow> bool outcome" where
  "tuple_address text family =
     bind (catching is_value_error ''QUALIFICATION_ENDPOINTS'' (ip_address (PStr text))) (\<lambda>a.
     bind (canonical_address text) (\<lambda>same.
       Ret (same \<and> \<not> is_unspecified a \<and> \<not> is_multicast a \<and> (is_v4 a \<or> \<not> is_mapped a \<and> CHR ''%'' \<notin> set text) \<and>
            family = PStr (if is_v4 a then ''IPV4'' else ''IPV6''))))"

definition endpoint_tuple :: "ucd \<Rightarrow> pyval \<Rightarrow> pyval outcome" where
  "endpoint_tuple U endpoint =
     bind (require (case endpoint of PDict d \<Rightarrow> fst ` set d = set TUPLE_FIELDS | _ \<Rightarrow> False) ''QUALIFICATION_ENDPOINTS'') (\<lambda>_.
     bind (selected endpoint TUPLE_FIELDS) (\<lambda>row.
     bind (qualification_shape U ''endpoint'' (PDict row)) (\<lambda>_.
     bind (bind (field row ''ipAddress'') text_of) (\<lambda>text.
     bind (field row ''addressFamily'') (\<lambda>family.
     bind (requires (tuple_address text family) ''QUALIFICATION_ENDPOINTS'') (\<lambda>_. Ret (PDict row)))))))"

definition expected_kinds :: "pyval \<Rightarrow> (pyval \<times> pyval) list outcome" where
  "expected_kinds profile =
     bind (at_path profile [''binding'', ''endpointId'']) (\<lambda>e.
     bind (item profile ''resources'') (\<lambda>resources.
     if truthy resources then
       bind (at_path profile [''binding'', ''apiEndpointId'']) (\<lambda>a.
         Ret (if py_eq a e then [(e, PStr ''KUBERNETES_API_PROXY'')]
              else [(e, PStr ''CAMPAIGN_PROXY''), (a, PStr ''KUBERNETES_API_PROXY'')]))
     else Ret [(e, PStr ''CAMPAIGN_PROXY'')]))"

text \<open>The tuples of all endpoints, and the ids they have.\<close>

definition qualification_endpoints :: "ucd \<Rightarrow> pyval \<Rightarrow> pyval \<Rightarrow> pyval \<Rightarrow> pyval list outcome" where
  "qualification_endpoints U record_value profile endpoints =
     (case endpoints of
        PList es \<Rightarrow>
          bind (require (1 \<le> length es \<and> length es \<le> 16) ''QUALIFICATION_ENDPOINTS'') (\<lambda>_.
          bind (map_out (endpoint_tuple U) es) (\<lambda>tuples.
          bind (map_out (\<lambda>r. item r ''endpointId'') tuples) (\<lambda>ids.
          bind (py_set ids) (\<lambda>s.
          bind (requires (and_also (Ret (length s = length tuples)) (item_is record_value ''endpointTuples'' (PList tuples)))
                  ''QUALIFICATION_ENDPOINTS'') (\<lambda>_.
          bind (map_out (\<lambda>r. item r ''kind'') tuples) (\<lambda>kinds.
          bind (expected_kinds profile) (\<lambda>expected.
          bind (require (list_all (\<lambda>(i, k). case lookup_endpoint (zip ids kinds) i of None \<Rightarrow> False | Some k' \<Rightarrow> py_eq k' k)
                  expected) ''QUALIFICATION_ENDPOINT_SCOPE'') (\<lambda>_. Ret ids))))))))
      | _ \<Rightarrow> refuse ''QUALIFICATION_ENDPOINTS'')"

section \<open>Files\<close>

type_synonym row_table = "(pyval \<times> pyval) list"

definition row_at :: "row_table \<Rightarrow> pyval \<Rightarrow> pyval outcome" where
  "row_at table k = (case lookup_endpoint table k of None \<Rightarrow> Raise KeyError | Some r \<Rightarrow> Ret r)"

definition file_table :: "pyval \<Rightarrow> row_table outcome" where
  "file_table record_value =
     bind (bind (item record_value ''files'') iter_of) (\<lambda>rows.
     bind (map_out (\<lambda>r. item r ''path'') rows) (\<lambda>paths.
     bind (py_set paths) (\<lambda>s.
     bind (require (length s = length rows) ''QUALIFICATION_FILE_INVENTORY'') (\<lambda>_.
     bind (map_out (\<lambda>r. int_at r ''size'') rows) (\<lambda>sizes.
     bind (require (sum_list sizes \<le> 536870912) ''QUALIFICATION_FILE_INVENTORY'') (\<lambda>_.
       Ret (zip paths rows)))))))"

definition round_up :: "int \<Rightarrow> int" where
  "round_up n = ((n + 4095) div 4096) * 4096"

definition segment_step :: "int \<Rightarrow> pyval list \<Rightarrow> pyval \<Rightarrow> pyval list outcome" where
  "segment_step file_size seen segment =
     bind (bind (items_at segment [''offset'', ''length'', ''permissions'']) tuple_of) (\<lambda>identity.
     bind (int_at segment ''offset'') (\<lambda>offset. bind (int_at segment ''length'') (\<lambda>len.
     bind (require (\<not> py_in identity seen \<and> offset < file_size \<and> offset + len \<le> round_up file_size) ''QUALIFICATION_SEGMENT_INVALID'') (\<lambda>_.
       Ret (identity # seen)))))"

definition file_row :: "pyval \<Rightarrow> unit outcome" where
  "file_row row =
     bind (bind (item row ''path'') canonical_qualification_path) (\<lambda>_.
     bind (requires (py_not (same_at row ''sha256'' row ''verityDigest'')) ''QUALIFICATION_CONFLATED_DIGEST'') (\<lambda>_.
     bind (bind (item row ''executableSegments'') iter_of) (\<lambda>segments.
     bind (int_at row ''size'') (\<lambda>file_size.
     bind (fold_out (segment_step file_size) [] segments) (\<lambda>_. Ret ())))))"

section \<open>Roles\<close>

definition subset_of :: "pyval list \<Rightarrow> pyval list \<Rightarrow> bool" where
  "subset_of xs ys \<longleftrightarrow> list_all (\<lambda>x. py_in x ys) xs"

definition role_program :: "string \<times> pyval \<Rightarrow> unit outcome" where
  "role_program =
     (\<lambda>(hook, program).
        requires (and_also (item_is program ''programType'' (PInt (if hook = ''INET_SOCK_CREATE'' then 9 else 18)))
          (bind (int_at program ''instructionBytes'') (\<lambda>n. Ret (n mod 8 = 0)))) ''QUALIFICATION_PROGRAM_INVALID'')"

definition role_interpreter :: "row_table \<Rightarrow> pyval list \<Rightarrow> pyval \<Rightarrow> pyval \<Rightarrow> unit outcome" where
  "role_interpreter files used_here role artifact =
     bind (item role ''interpreterPath'') (\<lambda>interpreter.
       if interpreter \<noteq> PNone then
         requires (and_also (Ret (py_in interpreter used_here))
           (bind (row_at files interpreter) (\<lambda>f. and_also (item_is f ''mode'' (PStr ''0555''))
              (bind (item f ''executableSegments'') (\<lambda>s. Ret (truthy s)))))) ''QUALIFICATION_INTERPRETER''
       else requires (bind (item artifact ''executableSegments'') (\<lambda>s. Ret (truthy s))) ''QUALIFICATION_NATIVE_ELF_REQUIRED'')"

definition role_outbound :: "pyval \<Rightarrow> pyval list \<Rightarrow> string \<Rightarrow> pyval \<Rightarrow> unit outcome" where
  "role_outbound profile ids name role =
     bind (item role ''outboundEndpointIds'') (\<lambda>outbound.
     bind (bind (iter_of outbound) py_set) (\<lambda>s.
     bind (require (subset_of s ids) ''QUALIFICATION_OUTBOUND_SCOPE'') (\<lambda>_.
     bind (require (name \<noteq> ''WORKER'' \<or> \<not> truthy outbound) ''QUALIFICATION_WORKER_NETWORK'') (\<lambda>_.
     if name = ''SERVER'' then
       bind (item profile ''resources'') (\<lambda>resources.
       bind (if truthy resources then bind (at_path profile [''binding'', ''apiEndpointId'']) (\<lambda>a. Ret [a]) else Ret []) (\<lambda>allowed.
         require (py_eq outbound (PList allowed)) ''QUALIFICATION_OUTBOUND_SCOPE''))
     else Ret ()))))"

text \<open>One role: the files it uses.\<close>

definition role_step :: "pyval \<Rightarrow> pyval list \<Rightarrow> row_table \<Rightarrow> pyval list \<Rightarrow> string \<times> pyval \<Rightarrow> pyval list outcome" where
  "role_step profile ids files used =
     (\<lambda>(name, role).
        bind (bind (at_path role [''cgroup'', ''path'']) canonical_qualification_path) (\<lambda>_.
        bind (bind (bind (item role ''filePaths'') iter_of) py_set) (\<lambda>here.
        bind (item role ''executable'') (\<lambda>executable.
        bind (require (subset_of here (map fst files) \<and> py_in executable here) ''QUALIFICATION_ROLE_FILES'') (\<lambda>_.
        bind (row_at files executable) (\<lambda>artifact.
        bind (requires (and_also (same_at artifact ''sha256'' role ''artifactDigest'') (item_is artifact ''mode'' (PStr ''0555'')))
                ''QUALIFICATION_ARTIFACT_MISMATCH'') (\<lambda>_.
        bind (role_interpreter files here role artifact) (\<lambda>_.
        bind (role_outbound profile ids name role) (\<lambda>_.
        bind (bind (item role ''bpfPrograms'') items_of) (\<lambda>programs.
        bind (for_each role_program programs) (\<lambda>_.
          Ret (here @ used))))))))))))"

section \<open>Records\<close>

definition validate_qualification_record :: "ucd \<Rightarrow> pyval \<Rightarrow> pyval \<Rightarrow> pyval \<Rightarrow> pyval outcome" where
  "validate_qualification_record U value profile_value endpoints =
     bind (qualification_document U value ''record'') (\<lambda>r.
     bind (validate_profile U profile_value) (\<lambda>profile.
     bind (item profile ''binding'') (\<lambda>scope.
     bind (requires
       (and_also (bind (canonical_text U profile) (item_is r ''profileDigest''))
         (bind (item r ''scope'') (\<lambda>s. bind (items_of s) (\<lambda>d. bind (selected scope (map fst d)) (\<lambda>e.
            Ret (py_eq s (PDict e))))))) ''QUALIFICATION_PROFILE_SCOPE'') (\<lambda>_.
     bind (requires (bind (bind (at_path r [''selinux'', ''status'', ''sequence'']) int_of_val) (\<lambda>n. Ret (n mod 2 = 0)))
             ''QUALIFICATION_POLICY_EPOCH'') (\<lambda>_.
     bind (qualification_endpoints U r profile endpoints) (\<lambda>ids.
     bind (file_table r) (\<lambda>files.
     bind (for_each (\<lambda>(_, row). file_row row) files) (\<lambda>_.
     bind (bind (item r ''roles'') items_of) (\<lambda>roles.
     bind (fold_out (role_step profile ids files) [] roles) (\<lambda>used.
     bind (require (same_members used (map fst files)) ''QUALIFICATION_UNUSED_FILE'') (\<lambda>_. Ret r)))))))))))"

definition retained_qualification_record :: "ucd \<Rightarrow> pyval \<Rightarrow> pyval \<Rightarrow> pyval \<Rightarrow> pyval \<Rightarrow> kit \<Rightarrow> pyval outcome" where
  "retained_qualification_record U profile endpoints observation_binding release kit =
     (case kit QUALIFICATION_PATH of
        None \<Rightarrow> refuse ''QUALIFICATION_RECORD_MISSING''
      | Some raw \<Rightarrow>
          bind (require (0 < length raw \<and> length raw \<le> 262144) ''QUALIFICATION_RECORD_MISSING'') (\<lambda>_.
          bind (release_rows release (PStr QUALIFICATION_PATH)) (\<lambda>rows.
          bind (require (py_eq (PList rows) (PList [release_row (PStr QUALIFICATION_PATH) raw])) ''QUALIFICATION_RECORD_CUSTODY'') (\<lambda>_.
          bind (requires (bind (at_path observation_binding [''enforcementPins'', ''hostPreflightDigest'']) (\<lambda>d.
                  Ret (py_eq d (PStr (byte_digest raw))))) ''QUALIFICATION_PREFLIGHT_PIN'') (\<lambda>_.
            validate_qualification_record U (PBytes raw) profile endpoints)))))"

section \<open>Captures\<close>

definition capture_binding :: "ucd \<Rightarrow> pyval \<Rightarrow> pyval \<Rightarrow> pyval \<Rightarrow> unit outcome" where
  "capture_binding U r capture role =
     bind (bind (item r ''roles'') items_of) (\<lambda>roles.
     bind (requires
       (and_also (Ret (case role of PStr n \<Rightarrow> map_of roles n \<noteq> None | _ \<Rightarrow> False))
       (and_also (item_is capture ''role'' role)
       (and_also (bind (canonical_bytes U r) (\<lambda>raw. item_is capture ''qualificationDigest'' (PStr (byte_digest raw))))
         (same_at capture ''host'' r ''host'')))) ''QUALIFICATION_CAPTURE_BINDING'') (\<lambda>_.
       requires
         (and_also (same_at capture ''selinuxBefore'' capture ''selinuxAfter'')
         (and_also (bind (item capture ''selinuxAfter'') (\<lambda>a. bind (at_path r [''selinux'', ''status'']) (\<lambda>b. Ret (py_eq a b))))
           (bind (item capture ''kernelPolicyDigest'') (\<lambda>a. bind (at_path r [''selinux'', ''policyDigest'']) (\<lambda>b. Ret (py_eq a b))))))
         ''QUALIFICATION_POLICY_CHANGED''))"

definition capture_window :: "pyval \<Rightarrow> pyval \<Rightarrow> unit outcome" where
  "capture_window r capture =
     bind (int_at capture ''inspectionStartedMs'') (\<lambda>started. bind (int_at capture ''inspectionFinishedMs'') (\<lambda>finished.
     bind (int_at capture ''deadlineMs'') (\<lambda>deadline.
     bind (require (started \<le> finished \<and> finished < deadline \<and> finished - started \<le> 2000 \<and> deadline - started \<le> 900000)
             ''QUALIFICATION_INSPECTION_EXPIRED'') (\<lambda>_.
     bind (bind (item capture ''observedAt'') proxy_time) (\<lambda>now.
       requires (and_also (bind (bind (at_path r [''scope'', ''validFrom'']) proxy_time) (\<lambda>s. time_le s now))
         (bind (bind (at_path r [''scope'', ''expiresAt'']) proxy_time) (\<lambda>e. time_less now e)))
         ''QUALIFICATION_INSPECTION_EXPIRED'')))))"

text \<open>One observed file: it is the expected one under a fresh inode; its segments become mappings.\<close>

definition captured_file ::
  "row_table \<Rightarrow> pyval list \<times> pyval list \<Rightarrow> pyval \<times> pyval \<Rightarrow> (pyval list \<times> pyval list) outcome" where
  "captured_file expected =
     (\<lambda>(seen, mappings) (path, row).
        bind (items_at row [''device'', ''inode'']) (\<lambda>di. bind (tuple_of di) (\<lambda>identity.
        bind (row_at expected path) (\<lambda>e.
        bind (requires
          (and_also (Ret (\<not> py_in identity seen))
          (and_also (item_is row ''entry'' e)
          (and_also (same_at row ''contentDigest'' e ''sha256'') (same_at row ''measuredVerity'' e ''verityDigest''))))
          ''QUALIFICATION_FILE_CHANGED'') (\<lambda>_.
        bind (bind (item e ''executableSegments'') iter_of) (\<lambda>segments.
        bind (map_out items_of segments) (\<lambda>ds.
          Ret (identity # seen, mappings @ map (\<lambda>d. PDict (dict_update (dict_update [(''path'', path)] d)
            (zip [''device'', ''inode''] di))) ds))))))))"

definition same_bytes :: "ucd \<Rightarrow> pyval list \<Rightarrow> pyval list \<Rightarrow> bool outcome" where
  "same_bytes U xs ys =
     bind (map_out (canonical_bytes U) xs) (\<lambda>a. bind (map_out (canonical_bytes U) ys) (\<lambda>b. Ret (sort_key id a = sort_key id b)))"

definition captured_files :: "ucd \<Rightarrow> pyval \<Rightarrow> pyval \<Rightarrow> pyval \<Rightarrow> unit outcome" where
  "captured_files U r capture role =
     bind (file_table r) (\<lambda>files.
     bind (bind (item role ''filePaths'') iter_of) (\<lambda>here.
     bind (bind (item capture ''files'') iter_of) (\<lambda>rows.
     bind (map_out (\<lambda>row. at_path row [''entry'', ''path'']) rows) (\<lambda>paths.
     bind (py_set paths) (\<lambda>s.
     (let expected = filter (\<lambda>(p, _). py_in p here) files in
      bind (require (length s = length rows \<and> same_members paths (map fst expected)) ''QUALIFICATION_FILE_INVENTORY'') (\<lambda>_.
      bind (fold_out (captured_file expected) ([], []) (zip paths rows)) (\<lambda>(_, mappings).
      bind (bind (item capture ''executableMaps'') iter_of) (\<lambda>maps.
        requires (same_bytes U mappings maps) ''QUALIFICATION_MAPPING_CHANGED'')))))))))"

definition captured_program :: "pyval \<Rightarrow> string \<times> pyval \<Rightarrow> unit outcome" where
  "captured_program role =
     (\<lambda>(hook, observed).
        bind (at_path role [''bpfPrograms'', hook]) (\<lambda>program.
          requires
            (and_also (item_is observed ''program'' program)
            (and_also (same_at observed ''localIds'' observed ''effectiveIds'')
              (bind (item program ''programId'') (\<lambda>i. item_is observed ''effectiveIds'' (PList [i]))))) ''QUALIFICATION_PROGRAM_CHANGED''))"

definition capture_checks :: "ucd \<Rightarrow> pyval \<Rightarrow> pyval \<Rightarrow> pyval \<Rightarrow> unit outcome" where
  "capture_checks U r capture role_name =
     bind (capture_binding U r capture role_name) (\<lambda>_.
     bind (capture_window r capture) (\<lambda>_.
     bind (bind (text_of role_name) (\<lambda>n. at_path r [''roles'', n])) (\<lambda>role.
     bind (item capture ''process'') (\<lambda>process.
     bind (requires (all_out (\<lambda>k. same_at process k role k)
             [''uid'', ''gid'', ''processLabel'', ''namespaceInodes'', ''cgroup'', ''seccompMode'']) ''QUALIFICATION_PROCESS_CHANGED'') (\<lambda>_.
     bind (captured_files U r capture role) (\<lambda>_.
     bind (bind (item capture ''bpfPrograms'') items_of) (\<lambda>programs.
       for_each (captured_program role) programs)))))))"

definition RETAINED_IDENTITY :: "string list" where
  "RETAINED_IDENTITY =
     [''host'', ''process'', ''files'', ''executableMaps'', ''bpfPrograms'', ''selinuxBefore'', ''selinuxAfter'', ''kernelPolicyDigest'']"

definition text_le :: "pyval \<Rightarrow> pyval \<Rightarrow> bool outcome" where
  "text_le v w = bind (text_of v) (\<lambda>a. bind (text_of w) (\<lambda>b. Ret (a \<le> b)))"

definition capture_lifetime :: "pyval \<Rightarrow> pyval \<Rightarrow> unit outcome" where
  "capture_lifetime capture previous =
     bind (for_each (\<lambda>k. requires (same_at capture k previous k) ''QUALIFICATION_RETAINED_IDENTITY_CHANGED'') RETAINED_IDENTITY) (\<lambda>_.
       requires
         (and_also (bind (int_at capture ''inspectionStartedMs'') (\<lambda>a. bind (int_at previous ''inspectionFinishedMs'') (\<lambda>b. Ret (b \<le> a))))
         (and_also (bind (item capture ''observedAt'') (\<lambda>a. bind (item previous ''observedAt'') (\<lambda>b. text_le b a)))
           (same_at capture ''deadlineMs'' previous ''deadlineMs''))) ''QUALIFICATION_LIFETIME_CHANGED'')"

definition validate_capture_once :: "ucd \<Rightarrow> pyval \<Rightarrow> pyval \<Rightarrow> pyval \<Rightarrow> pyval \<Rightarrow> pyval \<Rightarrow> (pyval \<times> pyval) outcome" where
  "validate_capture_once U record_value capture_value profile endpoints role =
     bind (validate_qualification_record U record_value profile endpoints) (\<lambda>r.
     bind (qualification_document U capture_value ''capture'') (\<lambda>capture.
     bind (capture_checks U r capture role) (\<lambda>_. Ret (r, capture))))"

definition validate_qualification_capture ::
  "ucd \<Rightarrow> pyval \<Rightarrow> pyval \<Rightarrow> pyval \<Rightarrow> pyval \<Rightarrow> pyval \<Rightarrow> pyval option \<Rightarrow> unit outcome" where
  "validate_qualification_capture U record_value capture_value profile endpoints role previous =
     bind (validate_capture_once U record_value capture_value profile endpoints role) (\<lambda>(r, capture).
       case previous of
         None \<Rightarrow> Ret ()
       | Some p \<Rightarrow>
           bind (validate_capture_once U r p profile endpoints role) (\<lambda>_. capture_lifetime capture p))"

end
