(* ===== verification/QualificationLaws.thy ===== *)
theory QualificationLaws
  imports Qualification LedgerLaws
begin

text \<open>
  What an accepted qualification record says of the four roles: the files they run and the endpoints they
  may reach.
\<close>

lemma fold_out_each: "fold_out f s xs = Ret t \<Longrightarrow> x \<in> set xs \<Longrightarrow> \<exists>s' t'. f s' x = Ret t'"
  by (induction xs arbitrary: s) (auto simp: bind_eq_Ret)

definition executes :: "row_table \<Rightarrow> pyval \<Rightarrow> bool" where
  "executes files role \<longleftrightarrow> (\<exists>executable artifact.
     item role ''executable'' = Ret executable \<and> row_at files executable = Ret artifact \<and>
     item_is artifact ''mode'' (PStr ''0555'') = Ret True \<and> same_at artifact ''sha256'' role ''artifactDigest'' = Ret True)"

definition reaches :: "pyval \<Rightarrow> string \<Rightarrow> pyval \<Rightarrow> bool" where
  "reaches profile name role \<longleftrightarrow> (\<exists>outbound. item role ''outboundEndpointIds'' = Ret outbound \<and>
     (if name = ''WORKER'' then \<not> truthy outbound
      else if name = ''SERVER'' then \<exists>resources. item profile ''resources'' = Ret resources \<and>
        (if truthy resources then \<exists>a. at_path profile [''binding'', ''apiEndpointId''] = Ret a \<and> py_eq outbound (PList [a])
         else outbound = PList [])
      else True))"

lemma role_outbound_reaches: "role_outbound profile ids name role = Ret u \<Longrightarrow> reaches profile name role"
proof -
  assume "role_outbound profile ids name role = Ret u"
  then obtain outbound where o: "item role ''outboundEndpointIds'' = Ret outbound"
    and w: "name \<noteq> ''WORKER'' \<or> \<not> truthy outbound"
    and s: "(if name = ''SERVER'' then bind (item profile ''resources'') (\<lambda>resources.
       bind (if truthy resources then bind (at_path profile [''binding'', ''apiEndpointId'']) (\<lambda>a. Ret [a]) else Ret [])
         (\<lambda>allowed. require (py_eq outbound (PList allowed)) ''QUALIFICATION_OUTBOUND_SCOPE'')) else Ret ()) = Ret u"
    unfolding role_outbound_def by (elim bind_RetE) (simp only: require_eq_Ret)
  have "py_eq outbound (PList []) \<longleftrightarrow> outbound = PList []" by (cases outbound) auto
  with o w s show ?thesis by (cases "name = ''SERVER''") (auto simp: reaches_def bind_eq_Ret split: if_splits)
qed

lemma role_step_confined:
  assumes "role_step profile ids files used (name, role) = Ret used'"
  shows "executes files role" "reaches profile name role"
proof -
  have "executes files role \<and> reaches profile name role"
    using assms unfolding role_step_def prod.case
  proof (elim bind_RetE)
    fix executable artifact u
    assume "item role ''executable'' = Ret executable" "row_at files executable = Ret artifact"
      "requires (and_also (same_at artifact ''sha256'' role ''artifactDigest'') (item_is artifact ''mode'' (PStr ''0555'')))
         ''QUALIFICATION_ARTIFACT_MISMATCH'' = Ret u"
    moreover fix w
    assume "role_outbound profile ids name role = Ret w"
    ultimately show ?thesis
      by (auto simp: executes_def requires_eq_Ret and_also_True role_outbound_reaches simp del: same_at_def)
  qed
  then show "executes files role" "reaches profile name role" by blast+
qed

lemma file_table_zip:
  assumes "file_table r = Ret files" "(path, row) \<in> set files"
  shows "item row ''path'' = Ret path"
proof -
  from assms(1) obtain rows paths where "map_out (\<lambda>r. item r ''path'') rows = Ret paths" "files = zip paths rows"
    unfolding file_table_def by (elim bind_RetE) auto
  then show ?thesis using assms(2) by (auto simp: map_out_eq_Ret list_all2_conv_all_nth in_set_zip)
qed

lemma qualification_path_Ret: "canonical_qualification_path v = Ret u \<Longrightarrow> \<exists>s. v = PStr s \<and> canonical_path s"
  by (cases v) (simp_all add: canonical_qualification_path_def)

lemma file_row_path:
  assumes "file_row row = Ret u" "item row ''path'' = Ret path"
  shows "\<exists>s. path = PStr s \<and> canonical_path s"
proof -
  obtain w where "bind (item row ''path'') canonical_qualification_path = Ret w"
    using assms(1) unfolding file_row_def by (rule bind_RetE)
  then have "canonical_qualification_path path = Ret w" by (simp only: assms(2) bind_Ret)
  then show ?thesis by (rule qualification_path_Ret)
qed

section \<open>Properties\<close>


end
