(* ===== verification/ShapeLaws.thy ===== *)
theory ShapeLaws
  imports Profile
begin

text \<open>
  The schema checker terminates on the pinned schemas: its fuel covers the nesting of each of them, whatever
  the value, so that it raises refusals and malformed-input exceptions only.
\<close>

section \<open>Nesting depth\<close>

text \<open>\<open>fits tbl n spec\<close>: the schema nests at most \<open>n\<close> levels when every definition it refers to nests at most as
  many as the table \<open>tbl\<close> says; \<open>ranked\<close>: so do the definitions themselves.\<close>

fun fits :: "(string \<times> nat) list \<Rightarrow> nat \<Rightarrow> pyval \<Rightarrow> bool" where
  "fits tbl 0 spec_value = False"
| "fits tbl (Suc n) spec_value =
     (case spec_value of
        PDict spec \<Rightarrow>
          (case map_of spec ''$ref'' of
             Some (PStr name) \<Rightarrow> (case map_of tbl (drop 8 name) of Some k \<Rightarrow> k \<le> n | None \<Rightarrow> False)
           | _ \<Rightarrow> True) \<and>
          (case map_of spec ''oneOf'' of
             None \<Rightarrow> True | Some (PList options) \<Rightarrow> list_all (fits tbl n) options | Some _ \<Rightarrow> False) \<and>
          (case map_of spec ''properties'' of
             Some (PDict properties) \<Rightarrow> list_all (\<lambda>(_, s). fits tbl n s) properties | _ \<Rightarrow> True) \<and>
          (case map_of spec ''items'' of None \<Rightarrow> True | Some s \<Rightarrow> fits tbl n s)
      | _ \<Rightarrow> True)"

definition ranked :: "(string \<times> nat) list \<Rightarrow> items \<Rightarrow> bool" where
  "ranked tbl definitions \<longleftrightarrow>
     list_all (\<lambda>(name, d). case map_of tbl name of None \<Rightarrow> False | Some k \<Rightarrow> fits tbl k d) definitions"

section \<open>Ordinary checks\<close>

lemma ordinary_when_present [ordinary_intros]:
  "(\<And>v. map_of spec name = Some v \<Longrightarrow> ordinary (f v)) \<Longrightarrow> ordinary (when_present spec name f)"
  by (simp add: when_present_def split: option.split)

lemma ordinary_type_matches [ordinary_intros]: "ordinary (type_matches t v)"
  by (cases t) (simp_all add: type_matches_def)

lemma ordinary_same_document [ordinary_intros]: "ordinary (same_document U v w)"
  unfolding same_document_def by (intro ordinary_intros)

lemma ordinary_between [ordinary_intros]: "ordinary (between spec low a n high b)"
proof -
  have "ordinary (bound_of spec name c)" for name c
    by (auto simp: bound_of_def split: option.split pyval.split)
  then show ?thesis unfolding between_def by (intro ordinary_intros)
qed

lemma ordinary_pattern_match [ordinary_intros]: "ordinary (pattern_match p s)"
  by (auto simp: pattern_match_def refuse_def split: pyval.split option.split)

lemma ordinary_plain_checks [ordinary_intros]: "ordinary (plain_checks U spec v)"
  unfolding plain_checks_def by (intro ordinary_intros)

lemma ordinary_object_checks [ordinary_intros]: "ordinary (object_checks spec properties d)"
  unfolding object_checks_def by (intro ordinary_intros)

lemma ordinary_list_checks [ordinary_intros]: "ordinary (list_checks U spec xs)"
  unfolding list_checks_def by (intro ordinary_intros)

lemma ordinary_leaf_checks [ordinary_intros]: "ordinary (leaf_checks spec v)"
  unfolding leaf_checks_def by (cases v) (simp_all add: ordinary_intros)

lemma ordinary_accepted: "ordinary m \<Longrightarrow> ordinary (accepted m)"
  by (cases m) (auto simp: accepted_def split: exn.split)

section \<open>The checker\<close>

lemma fits_ref:
  assumes "ranked tbl definitions" "fits tbl (Suc m) (PDict spec)" "map_of spec ''$ref'' = Some r"
    "ref_name r definitions = Ret d"
  obtains k where "k \<le> m" "fits tbl k d"
proof -
  obtain name where name: "r = PStr name" "map_of definitions (drop 8 name) = Some d"
    using assms(4) by (cases r) (auto simp: ref_name_def split: if_splits option.splits)
  then obtain k where "map_of tbl (drop 8 name) = Some k" "k \<le> m" using assms(2,3) by (auto split: option.splits)
  moreover have "fits tbl k d"
    using assms(1) map_of_SomeD [OF name(2)] calculation(1) by (auto simp: ranked_def list_all_iff)
  ultimately show thesis using that by blast
qed

lemma fits_option:
  assumes "fits tbl (Suc m) (PDict spec)" "map_of spec ''oneOf'' = Some os" "iter_of os = Ret options" "x \<in> set options"
  shows "fits tbl m x"
  using assms by (cases os) (auto simp: list_all_iff)

lemma fits_property:
  assumes "fits tbl (Suc m) (PDict spec)" "map_of spec ''properties'' = Some ps" "items_of ps = Ret properties"
    "field properties k = Ret s"
  shows "fits tbl m s"
proof -
  have "ps = PDict properties" using assms(3) by (simp add: items_of_eq_Ret)
  with assms(1,2) have "list_all (\<lambda>(_, s). fits tbl m s) properties" by simp
  with assms(4) show ?thesis by (auto simp: list_all_iff field_eq_Ret dest: map_of_SomeD)
qed

lemma fits_items: "fits tbl (Suc m) (PDict spec) \<Longrightarrow> map_of spec ''items'' = Some s \<Longrightarrow> fits tbl m s"
  by simp

lemma ordinary_ref_name [ordinary_intros]: "ordinary (ref_name r definitions)"
  by (cases r) (auto simp: ref_name_def split: option.split)

lemma shape_ordinary:
  assumes "ranked tbl definitions"
  shows "fits tbl m spec_value \<Longrightarrow> m \<le> n \<Longrightarrow> ordinary (shape n U definitions spec_value v)"
proof (induction n arbitrary: m spec_value v)
  case 0
  then show ?case by simp
next
  case (Suc n)
  then obtain l where m: "m = Suc l" "l \<le> n" by (cases m) auto
  show ?case
  proof (cases spec_value)
    case (PDict spec)
    note c = Suc.prems(1) [unfolded PDict m(1)]
    have ref: "ordinary (shape n U definitions d w)" if r: "map_of spec ''$ref'' = Some r" "ref_name r definitions = Ret d" for r d w
    proof -
      obtain k where k: "k \<le> l" "fits tbl k d" by (rule fits_ref [OF assms c r])
      show ?thesis by (rule Suc.IH [OF k(2)]) (use k(1) m(2) in simp)
    qed
    have children: "ordinary (case v of
        PDict d \<Rightarrow> when_present spec ''properties'' (\<lambda>ps. bind (items_of ps) (\<lambda>properties.
          bind (object_checks spec properties d) (\<lambda>_.
            for_each (\<lambda>(k, v). bind (field properties k) (\<lambda>s. shape n U definitions s v)) d)))
      | PList xs \<Rightarrow> bind (list_checks U spec xs) (\<lambda>_.
          when_present spec ''items'' (\<lambda>s. for_each (shape n U definitions s) xs))
      | _ \<Rightarrow> Ret ())"
      by (cases v)
         (auto intro!: ordinary_intros ordinary_bind intro: Suc.IH [OF _ m(2)] fits_property [OF c] fits_items [OF c])
    show ?thesis unfolding PDict shape.simps pyval.case
      by (intro ordinary_intros ordinary_accepted children ref Suc.IH [OF _ m(2)]) (auto intro: fits_option [OF c])
  qed simp_all
qed

section \<open>The pinned schemas\<close>

definition PROFILE_DEPTHS :: "(string \<times> nat) list" where
  "PROFILE_DEPTHS =
     [(''binding'', 3), (''credentialIdentity'', 2), (''apiRule'', 2), (''proxyRule'', 3), (''gvkRule'', 3),
      (''resourceRef'', 2), (''units'', 2), (''manifest'', 8), (''resource'', 10), (''policy'', 2)]"

definition OBSERVATION_DEPTHS :: "(string \<times> nat) list" where
  "OBSERVATION_DEPTHS = [(''binding'', 5), (''request'', 2), (''observation'', 5)]"

definition BROKER_DEPTHS :: "(string \<times> nat) list" where
  "BROKER_DEPTHS = [(''binding'', 4), (''dispatch'', 2), (''frame'', 7), (''workerStart'', 2)]"

definition QUALIFICATION_DEPTHS :: "(string \<times> nat) list" where
  "QUALIFICATION_DEPTHS =
     [(''digest'', 1), (''path'', 1), (''time'', 1), (''scope'', 3), (''host'', 2), (''status'', 2), (''namespaces'', 2),
      (''segment'', 2), (''file'', 5), (''program'', 3), (''cgroup'', 3), (''fileObservation'', 7), (''mapping'', 3),
      (''observedProgram'', 5), (''record'', 8), (''capture'', 10), (''endpoint'', 2)]"

lemma profile_ranked: "ranked PROFILE_DEPTHS PROFILE_DEFS"
  by code_simp

lemma profile_fits: "fits PROFILE_DEPTHS 13 PROFILE_SPEC"
  by code_simp

lemma observation_ranked: "ranked OBSERVATION_DEPTHS OBSERVATION_DEFS"
  by code_simp

lemma broker_ranked: "ranked BROKER_DEPTHS BROKER_DEFS"
  by code_simp

lemma qualification_ranked: "ranked QUALIFICATION_DEPTHS QUALIFICATION_DEFS"
  by code_simp

lemma variant_ordinary:
  assumes "ranked tbl definitions" "list_all (\<lambda>(_, k). k \<le> SHAPE_FUEL) tbl" "map_of definitions variant = Some spec"
  shows "ordinary (shape SHAPE_FUEL U definitions spec v)"
proof -
  have "case map_of tbl variant of None \<Rightarrow> False | Some k \<Rightarrow> fits tbl k spec"
    using assms(1) map_of_SomeD [OF assms(3)] by (auto simp: ranked_def list_all_iff)
  then obtain k where k: "map_of tbl variant = Some k" "fits tbl k spec" by (cases "map_of tbl variant") auto
  have "k \<le> SHAPE_FUEL" using assms(2) map_of_SomeD [OF k(1)] by (auto simp: list_all_iff)
  then show ?thesis by (rule shape_ordinary [OF assms(1) k(2)])
qed

section \<open>Properties\<close>

text \<open>C34: the schema checker ends on every value and every pinned schema with acceptance, a refusal or an
  exception of a malformed value; its fuel never runs out.\<close>

theorem pinned_schemas_decided:
  "ordinary (shape SHAPE_FUEL U PROFILE_DEFS PROFILE_SPEC v) \<and>
   (case map_of OBSERVATION_DEFS variant of None \<Rightarrow> True | Some spec \<Rightarrow> ordinary (shape SHAPE_FUEL U OBSERVATION_DEFS spec v)) \<and>
   (case map_of BROKER_DEFS variant of None \<Rightarrow> True | Some spec \<Rightarrow> ordinary (shape SHAPE_FUEL U BROKER_DEFS spec v)) \<and>
   (case map_of QUALIFICATION_DEFS variant of None \<Rightarrow> True
      | Some spec \<Rightarrow> ordinary (shape SHAPE_FUEL U QUALIFICATION_DEFS spec v))"
proof -
  have "ordinary (shape SHAPE_FUEL U PROFILE_DEFS PROFILE_SPEC v)"
    using shape_ordinary [OF profile_ranked profile_fits] by (simp add: SHAPE_FUEL_def)
  moreover note variant_ordinary [OF observation_ranked] variant_ordinary [OF broker_ranked]
    variant_ordinary [OF qualification_ranked]
  ultimately show ?thesis
    by (simp add: OBSERVATION_DEPTHS_def BROKER_DEPTHS_def QUALIFICATION_DEPTHS_def SHAPE_FUEL_def split: option.split)
qed

end
