(* ===== verification/Wire.thy ===== *)
theory Wire
  imports Admission
begin

text \<open>
  The codecs of \<open>live_proxy_client.py\<close>: the DER reader, the identity of a leaf certificate and its checks, and
  the one-shot HTTP message of the proxy protocol with its header parser and reader.

  TLS is not modelled: \<open>stream\<close> is the decrypted application data that a connection delivers, record by record,
  each a non-empty fragment or an exception, then the end.
\<close>

section \<open>DER\<close>

type_synonym der_row = "nat \<times> bytes \<times> bytes"

fun be_int :: "bytes \<Rightarrow> nat" where
  "be_int [] = 0"
| "be_int (b # bs) = code b * 256 ^ length bs + be_int bs"

text \<open>The length of an element: its value and what follows the length octets.\<close>

definition der_length :: "nat \<Rightarrow> bytes \<Rightarrow> (nat \<times> bytes) outcome" where
  "der_length first rest =
     (if first < 128 then Ret (first, rest)
      else (let count = first mod 128 in
        bind (require (1 \<le> count \<and> count \<le> 3 \<and> count \<le> length rest \<and> code (hd rest) \<noteq> 0) ''TLS_DER_LENGTH'') (\<lambda>_.
        (let len = be_int (take count rest) in
          bind (require (128 \<le> len) ''TLS_DER_LENGTH'') (\<lambda>_. Ret (len, drop count rest))))))"

definition der_next :: "bytes \<Rightarrow> (der_row \<times> bytes) outcome" where
  "der_next raw =
     (case raw of
        tag # len # rest \<Rightarrow>
          bind (require (code tag mod 32 \<noteq> 31) ''TLS_DER_TAG'') (\<lambda>_.
          bind (der_length (code len) rest) (\<lambda>(n, body).
          bind (require (n \<le> length body) ''TLS_DER_TRUNCATED'') (\<lambda>_.
            Ret ((code tag, take n body, take (length raw - length (drop n body)) raw), drop n body))))
      | _ \<Rightarrow> refuse ''TLS_DER_INVALID'')"

lemma der_length_shorter: "der_length n s = Ret (k, t) \<Longrightarrow> length t \<le> length s"
  by (auto simp: der_length_def Let_def bind_eq_Ret split: if_splits)

lemma der_next_shorter: "der_next s = Ret (row, t) \<Longrightarrow> length t < length s"
  by (auto simp: der_next_def bind_eq_Ret split: list.splits dest!: der_length_shorter)

function der_loop :: "nat \<Rightarrow> bytes \<Rightarrow> der_row list outcome" where
  "der_loop count raw =
     (if raw = [] then Ret []
      else if 256 \<le> count then refuse ''TLS_DER_INVALID''
      else case der_next raw of
        Raise e \<Rightarrow> Raise e
      | Ret (row, rest) \<Rightarrow> bind (der_loop (count + 1) rest) (\<lambda>rows. Ret (row # rows)))"
  by pat_completeness auto
termination by (relation "measure (length \<circ> snd)") (auto dest: der_next_shorter)

declare der_loop.simps [simp del]

definition der_items :: "bytes \<Rightarrow> der_row list outcome" where
  "der_items raw = bind (require (length raw \<le> 262144) ''TLS_DER_SIZE'') (\<lambda>_. der_loop 0 raw)"

definition der_one :: "bytes \<Rightarrow> nat \<Rightarrow> bytes outcome" where
  "der_one raw tag =
     bind (der_items raw) (\<lambda>rows. case rows of
         [(t, content, _)] \<Rightarrow> if t = tag then Ret content else refuse ''TLS_DER_STRUCTURE''
       | _ \<Rightarrow> refuse ''TLS_DER_STRUCTURE'')"

section \<open>Certificates\<close>

definition bytes_of :: "nat list \<Rightarrow> bytes" where
  "bytes_of = map char_of"

definition tags :: "der_row list \<Rightarrow> nat list" where
  "tags = map fst"

text \<open>A \<open>UTCTime\<close> (tag 0x17) or \<open>GeneralizedTime\<close> (tag 0x18).\<close>

definition cert_instant :: "der_row \<Rightarrow> datetime outcome" where
  "cert_instant =
     (\<lambda>(tag, raw, _).
        bind (require ((tag = 0x17 \<and> length raw = 13 \<or> tag = 0x18 \<and> length raw = 15) \<and> list_all digit (butlast raw) \<and>
               last raw = CHR ''Z'') ''TLS_CERT_VALIDITY'') (\<lambda>_.
        (let text = (if tag = 0x17 then (if 50 \<le> digits_value (take 2 raw) then ''19'' else ''20'') @ raw else raw) in
         fromisoformat (take 4 text @ ''-'' @ take 2 (drop 4 text) @ ''-'' @ take 2 (drop 6 text) @ ''T'' @
           take 2 (drop 8 text) @ '':'' @ take 2 (drop 10 text) @ '':'' @ take 2 (drop 12 text) @ ''+00:00''))))"

type_synonym extensions = "(bytes \<times> bytes) list"

definition extension_of :: "extensions \<Rightarrow> der_row \<Rightarrow> extensions outcome" where
  "extension_of found =
     (\<lambda>(tag, content, _).
        bind (require (tag = 0x30) ''TLS_CERT_EXTENSION'') (\<lambda>_.
        bind (der_items content) (\<lambda>parts.
        bind (require ((length parts = 2 \<or> length parts = 3) \<and> fst (hd parts) = 6 \<and> fst (last parts) = 4 \<and>
                (length parts = 2 \<or> snd (snd (parts ! 1)) = bytes_of [1, 1, 0xFF])) ''TLS_CERT_EXTENSION'') (\<lambda>_.
        (let oid = fst (snd (hd parts)) in
         bind (require (map_of found oid = None) ''TLS_CERT_DUPLICATE_EXTENSION'') (\<lambda>_.
           Ret (found @ [(oid, fst (snd (last parts)))])))))))"

definition BASIC_CONSTRAINTS :: bytes where
  "BASIC_CONSTRAINTS = bytes_of [0x55, 0x1D, 0x13]"

definition EXTENDED_KEY_USAGE :: bytes where
  "EXTENDED_KEY_USAGE = bytes_of [0x55, 0x1D, 0x25]"

definition ALTERNATIVE_NAMES :: bytes where
  "ALTERNATIVE_NAMES = bytes_of [0x55, 0x1D, 0x11]"

definition extension_at :: "extensions \<Rightarrow> bytes \<Rightarrow> bytes outcome" where
  "extension_at found oid = (case map_of found oid of None \<Rightarrow> Raise KeyError | Some v \<Rightarrow> Ret v)"

record identity =
  leaf :: string
  spki :: string
  not_before :: datetime
  not_after :: datetime
  eku :: "bytes list"
  sans :: "(nat \<times> bytes) list"

definition cert_extensions :: "bytes \<Rightarrow> (bytes list \<times> (nat \<times> bytes) list) outcome" where
  "cert_extensions raw =
     bind (bind (der_one raw 0x30) der_items) (\<lambda>entries.
     bind (fold_out extension_of [] entries) (\<lambda>found.
     bind (require (list_all (\<lambda>oid. map_of found oid \<noteq> None) [BASIC_CONSTRAINTS, EXTENDED_KEY_USAGE, ALTERNATIVE_NAMES])
             ''TLS_CERT_EXTENSION_MISSING'') (\<lambda>_.
     bind (bind (extension_at found BASIC_CONSTRAINTS) (\<lambda>v. der_one v 0x30)) (\<lambda>constraints.
     bind (require (constraints = []) ''TLS_LEAF_CA_FORBIDDEN'') (\<lambda>_.
     bind (bind (bind (extension_at found EXTENDED_KEY_USAGE) (\<lambda>v. der_one v 0x30)) der_items) (\<lambda>usages.
     bind (require (usages \<noteq> [] \<and> list_all (\<lambda>(t, _). t = 6) usages \<and> distinct (map (fst \<circ> snd) usages)) ''TLS_CERT_EKU'') (\<lambda>_.
     bind (bind (bind (extension_at found ALTERNATIVE_NAMES) (\<lambda>v. der_one v 0x30)) der_items) (\<lambda>names.
     bind (require (names \<noteq> [] \<and> length names \<le> 32 \<and> list_all (\<lambda>(t, _). t \<in> {0x82, 0x86, 0x87}) names) ''TLS_CERT_SAN'') (\<lambda>_.
       Ret (map (fst \<circ> snd) usages, map (\<lambda>(t, c, _). (t, c)) names))))))))))"

definition certificate_identity :: "bytes \<Rightarrow> identity outcome" where
  "certificate_identity der =
     bind (bind (der_one der 0x30) der_items) (\<lambda>cert.
     bind (require (tags cert = [0x30, 0x30, 3]) ''TLS_CERT_STRUCTURE'') (\<lambda>_.
     bind (der_items (fst (snd (cert ! 0)))) (\<lambda>tbs.
     bind (require (length tbs = 8 \<and> snd (snd (tbs ! 0)) = bytes_of [0xA0, 3, 2, 1, 2] \<and>
             tags (take 6 (drop 1 tbs)) = [2, 0x30, 0x30, 0x30, 0x30, 0x30] \<and> fst (tbs ! 7) = 0xA3 \<and>
             snd (snd (tbs ! 2)) = snd (snd (cert ! 1))) ''TLS_CERT_STRUCTURE'') (\<lambda>_.
     bind (der_items (fst (snd (tbs ! 4)))) (\<lambda>validity.
     bind (require (length validity = 2) ''TLS_CERT_VALIDITY'') (\<lambda>_.
     bind (cert_extensions (fst (snd (tbs ! 7)))) (\<lambda>(usages, names).
     bind (cert_instant (validity ! 0)) (\<lambda>start.
     bind (cert_instant (validity ! 1)) (\<lambda>finish.
       Ret \<lparr>leaf = byte_digest der, spki = byte_digest (snd (snd (tbs ! 6))), not_before = start, not_after = finish,
            eku = usages, sans = names\<rparr>)))))))))"

definition ascii_bytes :: "pyval \<Rightarrow> bytes outcome" where
  "ascii_bytes v =
     (case v of PStr s \<Rightarrow> if is_ascii s then Ret s else Raise UnicodeEncodeError | _ \<Rightarrow> Raise AttributeError)"

definition CLIENT_EKU :: bytes where
  "CLIENT_EKU = bytes_of [0x2B, 6, 1, 5, 5, 7, 3, 2]"

definition SERVER_EKU :: bytes where
  "SERVER_EKU = bytes_of [0x2B, 6, 1, 5, 5, 7, 3, 1]"

text \<open>The name a client certificate must carry, and the enrolled credential it must be.\<close>

definition client_name :: "pyval \<Rightarrow> pyval \<Rightarrow> pyval \<Rightarrow> bytes outcome" where
  "client_name row scope endpoint =
     bind (item_is row ''purpose'' (PStr ''CAMPAIGN_PROXY_CLIENT_MTLS'')) (\<lambda>campaign.
     bind (map_out (\<lambda>k. bind (item scope k) text_of) [''tenantId'', ''environmentId'', ''runNonce'']) (\<lambda>parts.
     bind (bind (item endpoint ''endpointId'') text_of) (\<lambda>endpoint_id.
       ascii_bytes (PStr (''urn:planeon:'' @ (if campaign then ''campaign-proxy'' else ''capacity-proxy'') @ '':'' @
         join_with '':'' parts @ '':'' @ endpoint_id)))))"

definition check_client :: "identity \<Rightarrow> pyval \<Rightarrow> pyval \<Rightarrow> unit outcome" where
  "check_client i profile endpoint =
     bind (bind (at_path profile [''capacityEntries'', ''credentialIdentities'']) iter_of) (\<lambda>all_rows.
     bind (filter_out (\<lambda>r. same_at r ''endpointId'' endpoint ''endpointId'') all_rows) (\<lambda>enrolled.
     bind (require (length enrolled = 1) ''TLS_CREDENTIAL_ENROLLMENT'') (\<lambda>_.
     bind (item profile ''binding'') (\<lambda>scope.
     bind (client_name (hd enrolled) scope endpoint) (\<lambda>san.
       requires (and_also (item_is (hd enrolled) ''certificateDigest'' (PStr (leaf i)))
         (and_also (item_is (hd enrolled) ''clientSpkiDigest'' (PStr (spki i))) (Ret (sans i = [(0x86, san)]))))
         ''TLS_CLIENT_IDENTITY'')))))"

definition check_server :: "identity \<Rightarrow> pyval \<Rightarrow> unit outcome" where
  "check_server i endpoint =
     bind (bind (at_path endpoint [''tls'', ''serverName'']) ascii_bytes) (\<lambda>name.
       requires (and_also (bind (at_path endpoint [''tls'', ''serverSpkiDigest'']) (\<lambda>d. Ret (d = PStr (spki i))))
         (Ret ((0x82, name) \<in> set (sans i) \<and> list_all (\<lambda>(_, raw). CHR ''*'' \<notin> set raw) (sans i)))) ''TLS_SERVER_IDENTITY'')"

definition check_certificate :: "bytes \<Rightarrow> pyval \<Rightarrow> pyval \<Rightarrow> bool \<Rightarrow> identity outcome" where
  "check_certificate der profile endpoint client =
     bind (certificate_identity der) (\<lambda>i.
     bind (bind (at_path profile [''binding'', ''validFrom'']) proxy_time) (\<lambda>start.
     bind (bind (at_path profile [''binding'', ''expiresAt'']) proxy_time) (\<lambda>finish.
     bind (requires (and_also (time_le (not_before i) start) (and_also (time_less start finish) (time_le finish (not_after i))))
             ''TLS_CERT_WINDOW'') (\<lambda>_.
     bind (require (eku i = [if client then CLIENT_EKU else SERVER_EKU]) ''TLS_CERT_EKU'') (\<lambda>_.
     bind (if client then check_client i profile endpoint else check_server i endpoint) (\<lambda>_. Ret i))))))"

section \<open>HTTP messages\<close>

definition CRLF :: bytes where
  "CRLF = [CHR 0x0D, CHR 0x0A]"

definition host_char :: "char \<Rightarrow> bool" where
  "host_char c \<longleftrightarrow> in_range 65 90 c \<or> in_range 97 122 c \<or> digit c \<or> c \<in> {CHR ''.'', CHR '':'', CHR ''-''}"

definition header_lines :: "string \<Rightarrow> bytes \<Rightarrow> string option \<Rightarrow> string list" where
  "header_lines first body host =
     [first, ''Content-Type: application/json'', ''Content-Length: '' @ show_nat (length body), ''Connection: close''] @
     (case host of None \<Rightarrow> [] | Some h \<Rightarrow> [''Host: '' @ h])"

definition http_message :: "string \<Rightarrow> bytes \<Rightarrow> string option \<Rightarrow> bytes outcome" where
  "http_message first body host =
     bind (require (CHR 0x0D \<notin> set first \<and> CHR 0x0A \<notin> set first) ''HTTP_MESSAGE_INVALID'') (\<lambda>_.
     bind (require (case host of None \<Rightarrow> True | Some h \<Rightarrow> 1 \<le> length h \<and> length h \<le> 253 \<and> list_all host_char h)
             ''HTTP_HOST_INVALID'') (\<lambda>_.
     bind (ascii_bytes (PStr (join_with CRLF (header_lines first body host) @ CRLF @ CRLF))) (\<lambda>head. Ret (head @ body))))"

text \<open>\<open>data.split(sep, 1)\<close>: what precedes the first separator and what follows it.\<close>

fun split_first :: "bytes \<Rightarrow> bytes \<Rightarrow> (bytes \<times> bytes) option" where
  "split_first sep [] = (if sep = [] then Some ([], []) else None)"
| "split_first sep (c # s) =
     (if starts_with sep (c # s) then Some ([], drop (length sep) (c # s))
      else map_option (\<lambda>(a, b). (c # a, b)) (split_first sep s))"

lemma split_first_shorter: "split_first sep s = Some (a, b) \<Longrightarrow> sep \<noteq> [] \<Longrightarrow> length b < length s"
  by (induction s arbitrary: a) (auto split: if_splits simp: neq_Nil_conv)

function split_lines_crlf :: "bytes \<Rightarrow> bytes list" where
  "split_lines_crlf s = (case split_first CRLF s of None \<Rightarrow> [s] | Some (a, b) \<Rightarrow> a # split_lines_crlf b)"
  by pat_completeness auto
termination by (relation "measure length") (auto simp: CRLF_def dest: split_first_shorter)

declare split_lines_crlf.simps [simp del]

definition header_field :: "(bytes \<times> bytes) list \<Rightarrow> bytes \<Rightarrow> (bytes \<times> bytes) list outcome" where
  "header_field known line =
     (case split_first '': '' line of
        None \<Rightarrow> refuse ''HTTP_HEADERS_INVALID''
      | Some (raw_name, field_value) \<Rightarrow>
          bind (require (\<not> starts_with '' '' line \<and> \<not> starts_with [CHR 0x09] line) ''HTTP_HEADERS_INVALID'') (\<lambda>_.
          (let name = map lower_char raw_name in
           bind (require (name \<in> {''host'', ''content-type'', ''content-length'', ''connection''} \<and> map_of known name = None \<and>
                   field_value \<noteq> [] \<and> list_all (in_range 32 126) field_value) ''HTTP_HEADER_FORBIDDEN'') (\<lambda>_.
             Ret (known @ [(name, field_value)])))))"

definition decimal_length :: "bytes \<Rightarrow> bool" where
  "decimal_length s \<longleftrightarrow> s = ''0'' \<or> s \<noteq> [] \<and> length s \<le> 7 \<and> list_all digit s \<and> hd s \<noteq> CHR ''0''"

definition request_line :: "string \<Rightarrow> bytes" where
  "request_line cas = ''POST /v1/linux-baseline/'' @ dashed cas @ '' HTTP/1.1''"

definition RESPONSE_LINE :: bytes where
  "RESPONSE_LINE = ''HTTP/1.1 200 OK''"

definition expected_fields :: "bool \<Rightarrow> string list" where
  "expected_fields response = [''content-type'', ''content-length'', ''connection''] @ (if response then [] else [''host''])"

definition parse_headers :: "bytes \<Rightarrow> bool \<Rightarrow> string option \<Rightarrow> (bytes \<times> nat) outcome" where
  "parse_headers raw response host =
     bind (require (length raw \<le> 16384 \<and> ends_with (CRLF @ CRLF) raw) ''HTTP_HEADERS_INVALID'') (\<lambda>_.
     (let lines = split_lines_crlf (take (length raw - 4) raw) in
      bind (require (length lines \<le> 32) ''HTTP_HEADERS_INVALID'') (\<lambda>_.
      bind (fold_out header_field [] (tl lines)) (\<lambda>known.
      bind (require (set (map fst known) = set (expected_fields response) \<and>
              map_of known ''content-type'' = Some ''application/json'' \<and> map_of known ''connection'' = Some ''close'' \<and>
              (case map_of known ''content-length'' of None \<Rightarrow> False | Some s \<Rightarrow> decimal_length s)) ''HTTP_HEADERS_INVALID'') (\<lambda>_.
      (let size = (case map_of known ''content-length'' of None \<Rightarrow> 0 | Some s \<Rightarrow> digits_value s) in
       bind (require (0 < size \<and> size \<le> (if response then 4194304 else 16384)) ''HTTP_BODY_SIZE'') (\<lambda>_.
       bind (if response then require (hd lines = RESPONSE_LINE) ''HTTP_STATUS_INVALID''
             else if hd lines \<notin> set (map request_line CASES) then refuse ''HTTP_REQUEST_TARGET''
             else bind (case host of None \<Rightarrow> Raise AttributeError | Some h \<Rightarrow> ascii_bytes (PStr h)) (\<lambda>h.
               require (map_of known ''host'' = Some h) ''HTTP_REQUEST_TARGET'')) (\<lambda>_.
         Ret (hd lines, size)))))))))"

section \<open>Reading\<close>

datatype arrival = Fragment bytes | Failed exn

text \<open>The decrypted bytes of the current record that were not read yet, and what arrives after them.\<close>

type_synonym stream = "bytes \<times> arrival list"

text \<open>\<open>tls.read(maximum)\<close>: at most that many bytes of the current record; no bytes at the end.\<close>

definition tls_read :: "nat \<Rightarrow> stream \<Rightarrow> (bytes \<times> stream) outcome" where
  "tls_read maximum =
     (\<lambda>(current, arrivals).
        if current \<noteq> [] then Ret (take maximum current, (drop maximum current, arrivals))
        else case arrivals of
          [] \<Rightarrow> Ret ([], ([], []))
        | Failed e # _ \<Rightarrow> Raise e
        | Fragment p # rest \<Rightarrow> Ret (take maximum p, (drop maximum p, rest)))"

fun arrival_size :: "arrival \<Rightarrow> nat" where
  "arrival_size (Fragment p) = length p"
| "arrival_size (Failed _) = 0"

definition stream_size :: "stream \<Rightarrow> nat" where
  "stream_size st = length (fst st) + sum_list (map arrival_size (snd st))"

lemma tls_read_shorter:
  assumes "tls_read n st = Ret (p, st')" "p \<noteq> []"
  shows "stream_size st' < stream_size st"
  using assms by (cases st) (auto simp: tls_read_def stream_size_def split: list.splits arrival.splits if_splits)

function read_head :: "bytes \<Rightarrow> stream \<Rightarrow> (bytes \<times> stream) outcome" where
  "read_head data st =
     (if contains (CRLF @ CRLF) data then Ret (data, st)
      else if 16384 \<le> length data then refuse ''HTTP_HEADERS_SIZE''
      else case tls_read (min 4096 (16384 - length data)) st of
        Raise e \<Rightarrow> Raise e
      | Ret (part, st') \<Rightarrow> if part = [] then refuse ''HTTP_TRUNCATED_HEADERS'' else read_head (data @ part) st')"
  by pat_completeness auto
termination by (relation "measure (stream_size \<circ> snd)") (auto dest: tls_read_shorter)

declare read_head.simps [simp del]

function read_body :: "nat \<Rightarrow> bytes \<Rightarrow> stream \<Rightarrow> (bytes \<times> stream) outcome" where
  "read_body expected body st =
     (if expected \<le> length body then Ret (body, st)
      else case tls_read (min 65536 (expected + 1 - length body)) st of
        Raise e \<Rightarrow> Raise e
      | Ret (part, st') \<Rightarrow>
          if part = [] then refuse ''HTTP_TRUNCATED_BODY''
          else if expected < length (body @ part) then refuse ''HTTP_SURPLUS''
          else read_body expected (body @ part) st')"
  by pat_completeness auto
termination by (relation "measure (stream_size \<circ> snd \<circ> snd)") (auto dest: tls_read_shorter)

declare read_body.simps [simp del]

text \<open>\<open>tls.ssl.pending()\<close> is what the current record has left; \<open>buffered\<close> is \<open>tls.incoming.pending\<close>, the encrypted bytes
  received but not decrypted, which depends on the network.\<close>

definition read_http ::
  "(stream \<Rightarrow> nat) \<Rightarrow> stream \<Rightarrow> bool \<Rightarrow> string option \<Rightarrow> (bytes \<times> bytes) outcome" where
  "read_http buffered st response host =
     bind (read_head [] st) (\<lambda>(data, st1).
     (case split_first (CRLF @ CRLF) data of
        None \<Rightarrow> Raise ValueError
      | Some (headers, start) \<Rightarrow>
          bind (parse_headers (headers @ CRLF @ CRLF) response host) (\<lambda>(first, expected).
          bind (require (length start \<le> expected) ''HTTP_SURPLUS'') (\<lambda>_.
          bind (read_body expected start st1) (\<lambda>(body, st2).
          bind (require (fst st2 = []) ''HTTP_PIPELINING'') (\<lambda>_.
          bind (require (response \<or> buffered st2 = 0) ''HTTP_BUFFERED_RECORD_SURPLUS'') (\<lambda>_.
          bind (if response then bind (tls_read 1 st2) (\<lambda>(part, _). require (part = []) ''HTTP_SURPLUS'') else Ret ()) (\<lambda>_.
            Ret (first, body)))))))))"

end
