(* ===== verification/WireLaws.thy ===== *)
theory WireLaws
  imports Wire
begin

text \<open>
  Laws of the codecs: the DER reader accepts exactly the sequences of minimally encoded elements and nothing
  is lost, and an HTTP message is delivered whole however the connection cuts it.
\<close>

section \<open>DER\<close>

definition length_octets :: "nat \<Rightarrow> nat list" where
  "length_octets n =
     (if n < 128 then [n] else if n < 256 then [129, n] else if n < 65536 then [130, n div 256, n mod 256]
      else [131, n div 65536, n div 256 mod 256, n mod 256])"

definition der_encode :: "nat \<Rightarrow> bytes \<Rightarrow> bytes" where
  "der_encode tag content = bytes_of (tag # length_octets (length content)) @ content"

definition element :: "der_row \<Rightarrow> bool" where
  "element = (\<lambda>(tag, content, encoded).
     tag < 256 \<and> tag mod 32 \<noteq> 31 \<and> length content < 16777216 \<and> encoded = der_encode tag content)"

lemma code_char: "n < 256 \<Longrightarrow> code (char_of n) = n"
  by simp

lemma octets1: "128 \<le> a \<Longrightarrow> a < 256 \<Longrightarrow> length_octets a = [129, a]"
  by (simp add: length_octets_def)

lemma octets2: "a < 256 \<Longrightarrow> 0 < a \<Longrightarrow> b < 256 \<Longrightarrow> length_octets (a * 256 + b) = [130, a, b]"
  by (auto simp: length_octets_def)

lemma octets3:
  assumes "a < 256" "0 < a" "b < 256" "c < 256"
  shows "length_octets (a * 65536 + b * 256 + c) = [131, a, b, c]"
proof -
  let ?n = "a * 65536 + b * 256 + c"
  have e: "?n = c + (a * 256 + b) * 256" by simp
  have n: "?n div 256 = a * 256 + b" unfolding e using assms(4) by (subst div_mult_self1) simp_all
  have m: "?n mod 256 = c" unfolding e using assms(4) by (subst mod_mult_self1) simp
  have "?n div 65536 = ?n div 256 div 256" by (simp add: div_mult2_eq [symmetric])
  then have "?n div 65536 = a" "?n div 256 mod 256 = b" using n assms(3) by simp_all
  moreover have "65536 \<le> ?n" using assms by linarith
  ultimately show ?thesis using m by (simp add: length_octets_def)
qed

text \<open>Every length is of one of these forms.\<close>

lemma octets_cases:
  fixes k :: nat
  assumes "k < 16777216"
  obtains "k < 128" | "128 \<le> k" "k < 256"
    | a b where "k = a * 256 + b" "a < 256" "0 < a" "b < 256"
    | a b c where "k = a * 65536 + b * 256 + c" "a < 256" "0 < a" "b < 256" "c < 256"
proof -
  consider "k < 128" | "128 \<le> k" "k < 256" | "256 \<le> k" "k < 65536" | "65536 \<le> k" by linarith
  then show thesis
  proof cases
    case 3
    moreover have "k = k div 256 * 256 + k mod 256" by simp
    ultimately show thesis using that(3) [of "k div 256" "k mod 256"] by (simp add: div_greater_zero_iff less_mult_imp_div_less)
  next
    case 4
    have "k div 256 = k div 65536 * 256 + k div 256 mod 256" "k = k div 256 * 256 + k mod 256"
      using div_mult_mod_eq [of "k div 256" 256] by (simp_all add: div_mult2_eq [symmetric])
    then have "k = k div 65536 * 65536 + k div 256 mod 256 * 256 + k mod 256" by linarith
    then show thesis using 4 assms that(4) [of "k div 65536" "k div 256 mod 256" "k mod 256"]
      by (simp add: div_greater_zero_iff less_mult_imp_div_less)
  qed (use that in blast)+
qed

lemma length_octets_small:
  assumes "k < 16777216"
  shows "list_all (\<lambda>n. n < 256) (length_octets k)"
  using assms
proof (cases rule: octets_cases)
  case 1
  then show ?thesis by (simp add: length_octets_def)
next
  case 2
  then show ?thesis by (simp add: octets1)
next
  case (3 a b)
  then show ?thesis unfolding 3(1) octets2 [OF 3(2,3,4)] by simp
next
  case (4 a b c)
  then show ?thesis unfolding 4(1) octets3 [OF 4(2-5)] by simp
qed

lemma der_length_Ret:
  assumes "der_length n s = Ret (k, t)" "n < 256"
  shows "n # map code s = length_octets k @ map code t" "k < 16777216"
proof -
  have "n # map code s = length_octets k @ map code t \<and> k < 16777216"
  proof (cases "n < 128")
    case True
    with assms show ?thesis by (auto simp: der_length_def length_octets_def)
  next
    case False
    have m: "n mod 128 = n - 128" using False assms(2) by (subst mod_if) simp
    have "1 \<le> n mod 128 \<and> n mod 128 \<le> 3 \<and> n mod 128 \<le> length s \<and> code (hd s) \<noteq> 0 \<and>
      be_int (take (n mod 128) s) = k \<and> 128 \<le> k \<and> t = drop (n mod 128) s"
      using assms(1) unfolding der_length_def Let_def if_not_P [OF False]
      by (elim bind_RetE) (simp only: require_eq_Ret outcome.inject prod.inject, blast)
    then have r: "1 \<le> n mod 128" "n mod 128 \<le> 3" "n mod 128 \<le> length s" "code (hd s) \<noteq> 0"
      "be_int (take (n mod 128) s) = k" "128 \<le> k" "t = drop (n mod 128) s" by blast+
    consider "n mod 128 = 1" | "n mod 128 = 2" | "n mod 128 = 3" using r(1,2) by linarith
    then show ?thesis
    proof cases
      case 1
      have n: "n = 129" using 1 m False by linarith
      obtain a where s: "s = a # t" using r(3,7) unfolding 1 by (cases s) auto
      have k: "k = code a" using r(5) unfolding 1 s by simp
      have "k < 256" unfolding k by (rule nat_of_char_less_256)
      then have "k < 16777216" by linarith
      moreover have "length_octets k = [129, k]" using r(6) \<open>k < 256\<close> by (rule octets1)
      ultimately show ?thesis unfolding n s using k by simp
    next
      case 2
      have n: "n = 130" using 2 m False by linarith
      obtain a b where s: "s = a # b # t" using r(3,7) unfolding 2 by (auto simp: numeral_2_eq_2 Suc_le_length_iff)
      have k: "k = code a * 256 + code b" using r(5) unfolding 2 s by (simp add: numeral_2_eq_2)
      have "length_octets k = [130, code a, code b]" unfolding k
        using r(4) s by (intro octets2 nat_of_char_less_256) simp
      moreover have "k < 16777216" unfolding k using nat_of_char_less_256 [of a] nat_of_char_less_256 [of b] by linarith
      ultimately show ?thesis unfolding n s by simp
    next
      case 3
      have n: "n = 131" using 3 m False by linarith
      obtain a b c where s: "s = a # b # c # t" using r(3,7) unfolding 3 by (auto simp: numeral_3_eq_3 Suc_le_length_iff)
      have k: "k = code a * 65536 + code b * 256 + code c" using r(5) unfolding 3 s by (simp add: numeral_3_eq_3)
      have "length_octets k = [131, code a, code b, code c]" unfolding k
        using r(4) s by (intro octets3 nat_of_char_less_256) simp
      moreover have "k < 16777216" unfolding k
        using nat_of_char_less_256 [of a] nat_of_char_less_256 [of b] nat_of_char_less_256 [of c] by linarith
      ultimately show ?thesis unfolding n s by simp
    qed
  qed
  then show "n # map code s = length_octets k @ map code t" "k < 16777216" by blast+
qed

lemma der_length_octets:
  assumes "k < 16777216"
  shows "der_length (hd (length_octets k)) (bytes_of (tl (length_octets k)) @ t) = Ret (k, t)"
  using assms
proof (cases rule: octets_cases)
  case 1
  then show ?thesis by (simp add: length_octets_def der_length_def bytes_of_def)
next
  case 2
  then show ?thesis by (simp add: octets1 der_length_def bytes_of_def)
next
  case (3 a b)
  then show ?thesis unfolding 3(1) octets2 [OF 3(2,3,4)] by (simp add: der_length_def bytes_of_def numeral_2_eq_2)
next
  case (4 a b c)
  then show ?thesis unfolding 4(1) octets3 [OF 4(2-5)] by (simp add: der_length_def bytes_of_def numeral_3_eq_3)
qed

lemma length_octets_Cons: "length_octets k = hd (length_octets k) # tl (length_octets k)"
  by (simp add: length_octets_def)

lemma bytes_of_code [simp]: "bytes_of (map code s) = s"
  by (simp add: bytes_of_def comp_def)

lemma bytes_of_append: "bytes_of (xs @ ys) = bytes_of xs @ bytes_of ys"
  by (simp add: bytes_of_def)

text \<open>One element is read exactly from its encoding.\<close>

lemma der_next_Ret: "der_next s = Ret (row, rest) \<longleftrightarrow> element row \<and> s = snd (snd row) @ rest"
proof
  assume "der_next s = Ret (row, rest)"
  then obtain tag l t n body where s: "s = tag # l # t" and tag: "code tag mod 32 \<noteq> 31"
    and len: "der_length (code l) t = Ret (n, body)" and n: "n \<le> length body"
    and row: "row = (code tag, take n body, take (length s - length (drop n body)) s)" "rest = drop n body"
    by (auto simp: der_next_def bind_eq_Ret split: list.splits)
  note r = der_length_Ret [OF len nat_of_char_less_256]
  have "bytes_of (code l # map code t) = bytes_of (length_octets n @ map code body)" using r(1) by simp
  then have lt: "l # t = bytes_of (length_octets n) @ body" by (simp add: bytes_of_append bytes_of_def comp_def)
  then have split: "s = der_encode (code tag) (take n body) @ rest"
    unfolding s row(2) der_encode_def using n by (simp add: bytes_of_def)
  moreover have "take (length s - length rest) s = der_encode (code tag) (take n body)"
    unfolding split by simp
  ultimately show "element row \<and> s = snd (snd row) @ rest"
    using row tag r(2) n nat_of_char_less_256 [of tag] by (simp add: element_def)
next
  assume "element row \<and> s = snd (snd row) @ rest"
  then obtain tag content where row: "row = (tag, content, der_encode tag content)"
    and e: "tag < 256" "tag mod 32 \<noteq> 31" "length content < 16777216" and s: "s = der_encode tag content @ rest"
    by (cases row) (auto simp: element_def)
  let ?l = "length_octets (length content)"
  have s': "s = char_of tag # char_of (hd ?l) # bytes_of (tl ?l) @ content @ rest"
    unfolding s der_encode_def using length_octets_Cons [of "length content"]
    by (metis append.assoc append_Cons bytes_of_def list.simps(9))
  have "hd ?l < 256" using length_octets_small [OF e(3)] length_octets_Cons [of "length content"]
    by (metis list.pred_inject(2))
  then have "der_length (code (char_of (hd ?l))) (bytes_of (tl ?l) @ content @ rest) = Ret (length content, content @ rest)"
    using der_length_octets [OF e(3), of "content @ rest"] by simp
  moreover have "take (length s - length rest) s = der_encode tag content" unfolding s by simp
  ultimately show "der_next s = Ret (row, rest)"
    using e(1,2) unfolding row s' by (simp add: der_next_def)
qed

lemma der_loop_Ret:
  "der_loop count raw = Ret rows \<longleftrightarrow>
     raw = concat (map (snd \<circ> snd) rows) \<and> list_all element rows \<and> (rows = [] \<or> count + length rows \<le> 256)"
proof (induction count raw arbitrary: rows rule: der_loop.induct)
  case (1 count raw)
  have nonempty: "snd (snd r) \<noteq> []" if "element r" for r
    using that by (cases r) (auto simp: element_def der_encode_def bytes_of_def)
  show ?case
  proof (cases "raw = []")
    case True
    then show ?thesis
      using nonempty by (subst der_loop.simps) (cases rows; auto simp: list_all_iff)
  next
    case False
    show ?thesis
    proof (cases "der_next raw")
      case (Raise e)
      have "\<not> (raw = concat (map (snd \<circ> snd) rows) \<and> list_all element rows)"
      proof
        assume a: "raw = concat (map (snd \<circ> snd) rows) \<and> list_all element rows"
        with False obtain r rs where "rows = r # rs" by (cases rows) auto
        with a have "der_next raw = Ret (r, concat (map (snd \<circ> snd) rs))" by (simp add: der_next_Ret)
        with Raise show False by simp
      qed
      then show ?thesis using False Raise by (subst der_loop.simps) auto
    next
      case (Ret p)
      obtain row rest where p: "p = (row, rest)" by (cases p)
      have row: "element row" "raw = snd (snd row) @ rest" using Ret p der_next_Ret by auto
      show ?thesis
      proof (cases "256 \<le> count")
        case True
        then show ?thesis using False by (subst der_loop.simps) (cases rows; simp)
      next
        case le: False
        have IH: "der_loop (Suc count) rest = Ret rs \<longleftrightarrow>
            rest = concat (map (snd \<circ> snd) rs) \<and> list_all element rs \<and> (rs = [] \<or> Suc count + length rs \<le> 256)" for rs
          using 1 False le Ret p by (simp add: comp_def)
        have "der_loop count raw = Ret rows \<longleftrightarrow> (\<exists>rs. rows = row # rs \<and> der_loop (Suc count) rest = Ret rs)"
          using False le Ret p by (subst der_loop.simps) (auto simp: bind_eq_Ret)
        also have "\<dots> \<longleftrightarrow> raw = concat (map (snd \<circ> snd) rows) \<and> list_all element rows \<and> (rows = [] \<or> count + length rows \<le> 256)"
        proof
          assume "\<exists>rs. rows = row # rs \<and> der_loop (Suc count) rest = Ret rs"
          then show "raw = concat (map (snd \<circ> snd) rows) \<and> list_all element rows \<and> (rows = [] \<or> count + length rows \<le> 256)"
            using row le by (auto simp: IH)
        next
          assume a: "raw = concat (map (snd \<circ> snd) rows) \<and> list_all element rows \<and> (rows = [] \<or> count + length rows \<le> 256)"
          with False obtain r rs where rows: "rows = r # rs" by (cases rows) auto
          with a have "der_next raw = Ret (r, concat (map (snd \<circ> snd) rs))" by (simp add: der_next_Ret)
          with Ret p have "r = row" "rest = concat (map (snd \<circ> snd) rs)" by auto
          with a rows IH [of rs] show "\<exists>rs. rows = row # rs \<and> der_loop (Suc count) rest = Ret rs" by simp
        qed
        finally show ?thesis .
      qed
    qed
  qed
qed

text \<open>C30: the DER reader accepts exactly the concatenations of at most 256 elements in the one encoding it allows
  (low tag number, minimal definite length), and returns the tag, the content and the encoding of each:
  two different encodings never read as the same elements.\<close>

theorem der_items_exact:
  "der_items raw = Ret rows \<longleftrightarrow>
     length raw \<le> 262144 \<and> raw = concat (map (snd \<circ> snd) rows) \<and> list_all element rows \<and> length rows \<le> 256"
  by (cases "rows = []") (auto simp: der_items_def bind_eq_Ret der_loop_Ret)

end
