(* ===== verification/HttpLaws.thy ===== *)
theory HttpLaws
  imports Wire
begin

text \<open>
  An HTTP message of the proxy protocol is delivered whole: however the connection cuts it into records, the
  reader returns its first line and its body.
\<close>

section \<open>Separators\<close>

lemma split_first_skip:
  "c \<notin> set a \<Longrightarrow> split_first (c # sep) (a @ t) = map_option (\<lambda>(u, v). (a @ u, v)) (split_first (c # sep) t)"
proof (induction a)
  case Nil
  then show ?case by (cases "split_first (c # sep) t") auto
next
  case (Cons d a)
  then show ?case by (cases "split_first (c # sep) t") auto
qed

lemma split_first_here: "sep \<noteq> [] \<Longrightarrow> split_first sep (sep @ t) = Some ([], t)"
  by (cases sep) (auto simp: starts_with_iff)

lemma split_first_char: "c \<notin> set a \<Longrightarrow> split_first (c # sep) (a @ (c # sep) @ t) = Some (a, t)"
  using split_first_here [of "c # sep" t] by (simp add: split_first_skip)

lemma split_first_none: "c \<notin> set a \<Longrightarrow> split_first (c # sep) a = None"
  using split_first_skip [of c a sep "[]"] by simp

lemma starts_with_drop: "starts_with p s \<Longrightarrow> p @ drop (length p) s = s"
  by (auto simp: starts_with_iff)

lemma starts_with_length: "starts_with p s \<Longrightarrow> length p \<le> length s"
  by (auto simp: starts_with_iff)

lemma starts_with_append: "starts_with p s \<Longrightarrow> starts_with p (s @ t)"
  by (auto simp: starts_with_iff)

lemma prefix_of_append: "xs @ ys = zs @ ts \<Longrightarrow> length zs \<le> length xs \<Longrightarrow> \<exists>us. xs = zs @ us"
  by (auto simp: append_eq_append_conv2)

lemma starts_with_short:
  assumes "starts_with p (s @ t)" "length p \<le> length s"
  shows "starts_with p s"
proof -
  obtain u where "s @ t = p @ u" using assms(1) by (auto simp: starts_with_iff)
  then have "\<exists>us. s = p @ us" using assms(2) by (rule prefix_of_append)
  then show ?thesis by (simp add: starts_with_iff)
qed

lemma split_first_sound: "split_first sep s = Some (a, b) \<Longrightarrow> s = a @ sep @ b"
proof (induction s arbitrary: a b)
  case Nil
  then show ?case by (auto split: if_splits)
next
  case (Cons c s)
  show ?case
  proof (cases "starts_with sep (c # s)")
    case True
    then have "a = []" "b = drop (length sep) (c # s)" using Cons.prems by simp_all
    then show ?thesis using starts_with_drop [OF True] by simp
  next
    case False
    with Cons.prems obtain a' where "split_first sep s = Some (a', b)" "a = c # a'" by auto
    with Cons.IH show ?thesis by simp
  qed
qed

lemma split_first_append:
  "split_first sep s = Some (a, b) \<Longrightarrow> sep \<noteq> [] \<Longrightarrow> split_first sep (s @ t) = Some (a, b @ t)"
proof (induction s arbitrary: a)
  case (Cons c s)
  show ?case
  proof (cases "starts_with sep (c # s)")
    case True
    then have "a = []" "b = drop (length sep) (c # s)" using Cons.prems by simp_all
    then show ?thesis using starts_with_append [OF True, of t] starts_with_length [OF True]
        drop_append [of "length sep" "c # s" t] by simp
  next
    case False
    from Cons.prems False obtain a' where a': "split_first sep s = Some (a', b)" "a = c # a'" by auto
    have "length sep \<le> length (c # s)" using split_first_sound [OF a'(1)] by simp
    then have "\<not> starts_with sep ((c # s) @ t)" using False starts_with_short by blast
    then show ?thesis using Cons.IH [OF a'(1) Cons.prems(2)] a'(2) by simp
  qed
qed simp

lemma contains_split: "sep \<noteq> [] \<Longrightarrow> contains sep s \<longleftrightarrow> split_first sep s \<noteq> None"
  by (induction s) auto

lemma split_exact: "split_first sep s = Some (a, b) \<Longrightarrow> split_first sep (a @ sep) = Some (a, [])"
proof (induction s arbitrary: a)
  case Nil
  then show ?case by (auto split: if_splits)
next
  case (Cons c s)
  show ?case
  proof (cases "starts_with sep (c # s)")
    case True
    then show ?thesis using Cons.prems by (cases sep) (auto simp: starts_with_iff)
  next
    case False
    with Cons.prems obtain a' where a': "split_first sep s = Some (a', b)" "a = c # a'" by auto
    have "c # s = (c # a' @ sep) @ b" using split_first_sound [OF a'(1)] by simp
    then have "\<not> starts_with sep (c # a' @ sep)" using False starts_with_append by metis
    then show ?thesis using Cons.IH [OF a'(1)] a'(2) by simp
  qed
qed

section \<open>Header lines\<close>

definition plain_line :: "bytes \<Rightarrow> bool" where
  "plain_line l \<longleftrightarrow> l \<noteq> [] \<and> CHR 0x0D \<notin> set l"

lemma split_lines_join:
  "ls \<noteq> [] \<Longrightarrow> list_all plain_line ls \<Longrightarrow> split_lines_crlf (join_with CRLF ls) = ls"
proof (induction CRLF ls rule: join_with.induct)
  case (2 x)
  then show ?case by (subst split_lines_crlf.simps) (simp add: plain_line_def CRLF_def split_first_none)
next
  case (3 x y xs)
  have "split_first CRLF (x @ CRLF @ join_with CRLF (y # xs)) = Some (x, join_with CRLF (y # xs))"
    using 3(3) split_first_char [of "CHR 0x0D" x "[CHR 0x0A]"] by (simp add: plain_line_def CRLF_def)
  then show ?case using 3 by (subst split_lines_crlf.simps) simp
qed simp

lemma join_hd: "ls \<noteq> [] \<Longrightarrow> list_all plain_line ls \<Longrightarrow> \<exists>c t. join_with CRLF ls = c # t \<and> c \<noteq> CHR 0x0D"
  by (cases ls; cases "tl ls"; cases "hd ls") (auto simp: plain_line_def)

lemma head_end:
  "ls \<noteq> [] \<Longrightarrow> list_all plain_line ls \<Longrightarrow>
     split_first (CRLF @ CRLF) (join_with CRLF ls @ (CRLF @ CRLF) @ x) = Some (join_with CRLF ls, x)"
proof (induction CRLF ls rule: join_with.induct)
  case (2 l)
  then show ?case using split_first_char [of "CHR 0x0D" l "[CHR 0x0A, CHR 0x0D, CHR 0x0A]" x]
    by (simp add: plain_line_def CRLF_def)
next
  case (3 l m ls)
  let ?J = "join_with CRLF (m # ls)"
  obtain c t where c: "?J = c # t" "c \<noteq> CHR 0x0D" using join_hd [of "m # ls"] 3(3) by auto
  have "split_first (CRLF @ CRLF) (CRLF @ ?J @ (CRLF @ CRLF) @ x) = Some (CRLF @ ?J, x)"
    using 3(1) 3(3) c by (simp add: CRLF_def)
  then show ?case
    using split_first_skip [of "CHR 0x0D" l "[CHR 0x0A, CHR 0x0D, CHR 0x0A]"] 3(3)
    by (simp add: plain_line_def CRLF_def)
qed simp

section \<open>Reading\<close>

definition clean :: "stream \<Rightarrow> bool" where
  "clean st \<longleftrightarrow> list_all (\<lambda>a. case a of Fragment p \<Rightarrow> p \<noteq> [] | Failed _ \<Rightarrow> False) (snd st)"

fun fragment :: "arrival \<Rightarrow> bytes" where
  "fragment (Fragment p) = p"
| "fragment (Failed _) = []"

definition remaining :: "stream \<Rightarrow> bytes" where
  "remaining st = fst st @ concat (map fragment (snd st))"

lemma tls_read_clean:
  assumes "clean st" "remaining st \<noteq> []" "0 < n"
  obtains p st' where "tls_read n st = Ret (p, st')" "p \<noteq> []" "length p \<le> n" "p @ remaining st' = remaining st" "clean st'"
proof (cases "fst st = []")
  case False
  then show thesis using assms that [of "take n (fst st)" "(drop n (fst st), snd st)"]
    by (cases st) (auto simp: tls_read_def remaining_def clean_def)
next
  case True
  with assms(2) obtain a as where st: "st = ([], a # as)" by (cases st; cases "snd st") (auto simp: remaining_def)
  with assms(1) obtain p where a: "a = Fragment p" "p \<noteq> []" by (cases a) (auto simp: clean_def)
  show thesis using assms(1,3) a that [of "take n p" "(drop n p, as)"] unfolding st a(1)
    by (auto simp: tls_read_def remaining_def clean_def)
qed

lemma read_head_delivers:
  assumes "clean st" "data @ remaining st = raw" "split_first (CRLF @ CRLF) raw = Some (h, x)" "length h + 4 \<le> 16384"
  shows "\<exists>data' st'. read_head data st = Ret (data', st') \<and> clean st' \<and> data' @ remaining st' = raw \<and>
    contains (CRLF @ CRLF) data'"
  using assms(1,2)
proof (induction data st rule: read_head.induct)
  case (1 data st)
  show ?case
  proof (cases "contains (CRLF @ CRLF) data")
    case True
    then show ?thesis using 1(2,3) by (subst read_head.simps) auto
  next
    case False
    have raw: "raw = (h @ CRLF @ CRLF) @ x" using split_first_sound [OF assms(3)] by simp
    have short: "length data < length h + 4"
    proof (rule ccontr)
      assume "\<not> length data < length h + 4"
      then have "length (h @ CRLF @ CRLF) \<le> length data" by (simp add: CRLF_def)
      then obtain y where "data = (h @ CRLF @ CRLF) @ y" using prefix_of_append [OF 1(3) [unfolded raw]] by blast
      moreover have "split_first (CRLF @ CRLF) (h @ CRLF @ CRLF) = Some (h, [])"
        using split_exact [OF assms(3)] by simp
      ultimately have "contains (CRLF @ CRLF) data"
        using split_first_append [of "CRLF @ CRLF" "h @ CRLF @ CRLF" h "[]" y] by (simp add: contains_split CRLF_def)
      with False show False ..
    qed
    then have "remaining st \<noteq> []" using 1(3) raw by (auto simp: CRLF_def)
    moreover have "0 < min 4096 (16384 - length data)" using short assms(4) by simp
    ultimately obtain p st' where p: "tls_read (min 4096 (16384 - length data)) st = Ret (p, st')" "p \<noteq> []"
      "p @ remaining st' = remaining st" "clean st'"
      by (rule tls_read_clean [OF 1(2)]) blast
    moreover have "\<not> 16384 \<le> length data" using short assms(4) by simp
    ultimately show ?thesis using 1(1) [OF False _ p(1) refl p(2,4)] 1(3) False
      by (subst read_head.simps) auto
  qed
qed

lemma read_body_delivers:
  assumes "clean st" "start @ remaining st = body"
  shows "\<exists>st'. read_body (length body) start st = Ret (body, st') \<and> clean st' \<and> remaining st' = []"
  using assms
proof (induction "length body" start st rule: read_body.induct)
  case (1 start st)
  show ?case
  proof (cases "length body \<le> length start")
    case True
    then show ?thesis using 1(2,3) by (subst read_body.simps) auto
  next
    case False
    then have "remaining st \<noteq> []" using 1(3) by auto
    moreover have "0 < min 65536 (length body + 1 - length start)" using False by simp
    ultimately obtain p st' where p: "tls_read (min 65536 (length body + 1 - length start)) st = Ret (p, st')" "p \<noteq> []"
      "p @ remaining st' = remaining st" "clean st'"
      by (rule tls_read_clean [OF 1(2)]) blast
    have "length (start @ p) \<le> length body" using 1(3) p(3) by (metis append.assoc le_add1 length_append)
    then show ?thesis using 1(1) [OF False p(1) refl p(2) _ p(4)] 1(3) p False
      by (subst read_body.simps) auto
  qed
qed

lemma clean_end: "clean st \<Longrightarrow> remaining st = [] \<Longrightarrow> st = ([], [])"
  by (cases st; cases "snd st") (auto simp: clean_def remaining_def split: arrival.splits)

section \<open>Headers\<close>

lemma header_field_ok:
  assumes "CHR '':'' \<notin> set name" "map lower_char name = low" "name \<noteq> []" "hd name \<notin> {CHR '' '', CHR 0x09}"
    "low \<in> {''host'', ''content-type'', ''content-length'', ''connection''}" "map_of known low = None"
    "v \<noteq> []" "list_all (in_range 32 126) v"
  shows "header_field known (name @ '': '' @ v) = Ret (known @ [(low, v)])"
proof -
  have "split_first '': '' (name @ '': '' @ v) = Some (name, v)"
    using split_first_char [OF assms(1), of "'' ''" v] by simp
  moreover have "\<not> starts_with '' '' (name @ '': '' @ v)" "\<not> starts_with [CHR 0x09] (name @ '': '' @ v)"
    using assms(3,4) by (cases name; auto)+
  ultimately show ?thesis using assms(2,5-8) by (simp add: header_field_def Let_def)
qed

definition content_fields :: "nat \<Rightarrow> (bytes \<times> bytes) list" where
  "content_fields n =
     [(''content-type'', ''application/json''), (''content-length'', show_nat n), (''connection'', ''close'')]"

lemma printable_digits: "list_all (in_range 32 126) (show_nat n)"
  using show_nat_digits [of n] by (auto simp: list_all_iff digit_def char_range_def in_range_def)

lemma host_printable: "list_all host_char h \<Longrightarrow> list_all (in_range 32 126) h \<and> is_ascii h \<and> CHR 0x0D \<notin> set h"
  by (auto simp: list_all_iff is_ascii_def host_char_def in_range_def digit_def char_range_def)

lemma content_headers:
  "fold_out header_field [] (tl (header_lines first body None)) = Ret (content_fields (length body))"
proof -
  have 1: "header_field [] ''Content-Type: application/json'' = Ret [(''content-type'', ''application/json'')]"
    by code_simp
  have 2: "header_field k (''Content-Length'' @ '': '' @ show_nat n) = Ret (k @ [(''content-length'', show_nat n)])"
    if "map_of k ''content-length'' = None" for k n
    using that printable_digits [of n] by (intro header_field_ok) (simp_all, code_simp)
  have 3: "header_field k (''Connection'' @ '': '' @ ''close'') = Ret (k @ [(''connection'', ''close'')])"
    if "map_of k ''connection'' = None" for k
    using that by (intro header_field_ok) (simp_all, code_simp+)
  show ?thesis
    using 2 [of "[(''content-type'', ''application/json'')]" "length body"]
      3 [of "[(''content-type'', ''application/json''), (''content-length'', show_nat (length body))]"]
    by (simp add: header_lines_def content_fields_def 1)
qed

lemma host_headers:
  assumes "list_all host_char h" "h \<noteq> []"
  shows "fold_out header_field [] (tl (header_lines first body (Some h))) = Ret (content_fields (length body) @ [(''host'', h)])"
proof -
  have "header_field (content_fields n) (''Host'' @ '': '' @ h) = Ret (content_fields n @ [(''host'', h)])" for n
    using host_printable [OF assms(1)] assms(2)
    by (intro header_field_ok) (simp_all add: content_fields_def, code_simp)
  moreover have "tl (header_lines first body (Some h)) = tl (header_lines first body None) @ [''Host: '' @ h]"
    by (simp add: header_lines_def)
  ultimately show ?thesis by (simp add: fold_out_append content_headers)
qed

section \<open>The head\<close>

definition first_line :: "bool \<Rightarrow> string \<Rightarrow> bytes" where
  "first_line response cas = (if response then RESPONSE_LINE else request_line cas)"

definition body_limit :: "bool \<Rightarrow> nat" where
  "body_limit response = (if response then 4194304 else 16384)"

lemma decimal_show_nat: "0 < n \<Longrightarrow> n < 10 ^ 7 \<Longrightarrow> decimal_length (show_nat n)"
  using show_nat_digits [of n] length_show_nat [of n 6] show_nat_leading_zero [of n]
  by (cases "show_nat n") (auto simp: decimal_length_def)

lemma request_lines: "list_all (\<lambda>c. plain_line (request_line c) \<and> length (request_line c) \<le> 128) CASES"
  by code_simp

lemma first_line_ok:
  "cas \<in> set CASES \<Longrightarrow> plain_line (first_line r cas) \<and> length (first_line r cas) \<le> 128"
  using request_lines by (cases r) (auto simp: first_line_def list_all_iff RESPONSE_LINE_def plain_line_def)

lemma host_rows: "list_all plain_line (case host of None \<Rightarrow> [] | Some h \<Rightarrow> [''Host: '' @ h])"
  if "case host of None \<Rightarrow> True | Some h \<Rightarrow> 1 \<le> length h \<and> length h \<le> 253 \<and> list_all host_char h"
  using that host_printable by (cases host) (auto simp: plain_line_def)

lemma header_lines_ok:
  assumes "cas \<in> set CASES" "0 < length body" "length body \<le> body_limit r"
    and "case host of None \<Rightarrow> True | Some h \<Rightarrow> 1 \<le> length h \<and> length h \<le> 253 \<and> list_all host_char h"
  shows "list_all plain_line (header_lines (first_line r cas) body host)"
    and "length (join_with CRLF (header_lines (first_line r cas) body host)) \<le> 16380"
    and "length (header_lines (first_line r cas) body host) \<le> 32"
proof -
  have cr: "CHR 0x0D \<notin> set (show_nat n)" for n
    using show_nat_digits [of n] by (auto simp: list_all_iff digit_def char_range_def in_range_def)
  show "list_all plain_line (header_lines (first_line r cas) body host)"
    using first_line_ok [OF assms(1)] host_rows [OF assms(4)] cr
    by (simp add: header_lines_def plain_line_def [of "''Content-'' @ _"]) (simp add: plain_line_def)
  have "length (show_nat (length body)) \<le> 7"
    using assms(3) by (intro length_show_nat [of _ 6, simplified]) (simp add: body_limit_def split: if_splits)
  then show "length (join_with CRLF (header_lines (first_line r cas) body host)) \<le> 16380"
    using first_line_ok [OF assms(1), of r] assms(4)
    by (cases host) (simp_all add: header_lines_def CRLF_def)
  show "length (header_lines (first_line r cas) body host) \<le> 32"
    by (simp add: header_lines_def split: option.splits)
qed

lemma parse_headers_of:
  assumes "split_lines_crlf J = ls" "length J \<le> 16380" "length ls \<le> 32"
    and "fold_out header_field [] (tl ls) = Ret (content_fields n @ (case host of None \<Rightarrow> [] | Some h \<Rightarrow> [(''host'', h)]))"
    and "decimal_length (show_nat n)" "0 < n" "n \<le> body_limit r" "host = None \<longleftrightarrow> r"
    and "case host of None \<Rightarrow> hd ls = RESPONSE_LINE | Some h \<Rightarrow> hd ls \<in> set (map request_line CASES) \<and> is_ascii h"
  shows "parse_headers (J @ CRLF @ CRLF) r host = Ret (hd ls, n)"
proof -
  have "ends_with (CRLF @ CRLF) (J @ CRLF @ CRLF)" by (simp add: ends_with_def)
  moreover have "length (CRLF @ CRLF) = 4" by (simp add: CRLF_def)
  ultimately show ?thesis using assms
    by (cases host) (auto simp: parse_headers_def Let_def content_fields_def expected_fields_def body_limit_def ascii_bytes_def)
qed

lemma parse_message:
  assumes "cas \<in> set CASES" "0 < length body" "length body \<le> body_limit r" "host = None \<longleftrightarrow> r"
    and "case host of None \<Rightarrow> True | Some h \<Rightarrow> 1 \<le> length h \<and> length h \<le> 253 \<and> list_all host_char h"
  shows "parse_headers (join_with CRLF (header_lines (first_line r cas) body host) @ CRLF @ CRLF) r host =
    Ret (first_line r cas, length body)"
proof -
  let ?ls = "header_lines (first_line r cas) body host"
  let ?host = "case host of None \<Rightarrow> [] | Some h \<Rightarrow> [(''host'', h)]"
  have ne: "?ls \<noteq> []" by (simp add: header_lines_def)
  have sp: "split_lines_crlf (join_with CRLF ?ls) = ?ls"
    using header_lines_ok(1) [OF assms(1-3,5)] by (rule split_lines_join [OF ne])
  have fields: "fold_out header_field [] (tl ?ls) = Ret (content_fields (length body) @ ?host)"
  proof (cases host)
    case None
    then show ?thesis by (simp add: content_headers)
  next
    case (Some h)
    then have "list_all host_char h" "h \<noteq> []" using assms(5) by auto
    with Some show ?thesis by (simp add: host_headers)
  qed
  have dec: "decimal_length (show_nat (length body))"
    using assms(2,3) by (intro decimal_show_nat) (simp_all add: body_limit_def split: if_splits)
  have "case host of None \<Rightarrow> hd ?ls = RESPONSE_LINE | Some h \<Rightarrow> hd ?ls \<in> set (map request_line CASES) \<and> is_ascii h"
    using assms(1,4,5) host_printable by (cases host) (auto simp: header_lines_def first_line_def)
  then show ?thesis
    using parse_headers_of [OF sp _ _ fields dec assms(2-4)] header_lines_ok(2,3) [OF assms(1-3,5)]
    by (simp add: header_lines_def)
qed

text \<open>C24: An HTTP message of the proxy protocol survives the connection: whatever non-empty records the message that
  \<open>http_message\<close> wrote is cut into, \<open>read_http\<close> returns its first line and its body, and nothing else of the
  message is left or misread.  This holds for the request of every case, with its host, and for the response.\<close>

theorem http_delivered:
  assumes "http_message (first_line response cas) body host = Ret raw"
    and "cas \<in> set CASES" "host = None \<longleftrightarrow> response" "0 < length body" "length body \<le> body_limit response"
    and "concat parts = raw" "[] \<notin> set parts"
  shows "read_http (\<lambda>_. 0) ([], map Fragment parts) response host = Ret (first_line response cas, body)"
proof -
  let ?J = "join_with CRLF (header_lines (first_line response cas) body host)"
  have host: "case host of None \<Rightarrow> True | Some h \<Rightarrow> 1 \<le> length h \<and> length h \<le> 253 \<and> list_all host_char h"
    and raw: "raw = ?J @ (CRLF @ CRLF) @ body"
    using assms(1) by (auto simp: http_message_def ascii_bytes_def bind_eq_Ret require_eq_Ret split: if_splits)
  note ok = header_lines_ok [OF assms(2,4,5) host]
  have cut: "split_first (CRLF @ CRLF) raw = Some (?J, body)"
    unfolding raw using ok(1) by (intro head_end) (simp_all add: header_lines_def)
  let ?st = "([], map Fragment parts) :: stream"
  have clean: "clean ?st" using assms(7) by (auto simp: clean_def list_all_iff)
  have "[] @ remaining ?st = raw" using assms(6) by (simp add: remaining_def comp_def)
  then obtain data st1 where head: "read_head [] ?st = Ret (data, st1)" "clean st1" "data @ remaining st1 = raw"
    "contains (CRLF @ CRLF) data"
    using read_head_delivers [OF clean _ cut] ok(2) by auto
  obtain h start where split: "split_first (CRLF @ CRLF) data = Some (h, start)"
    using head(4) contains_split [of "CRLF @ CRLF" data] by (auto simp: CRLF_def)
  have "h = ?J" "start @ remaining st1 = body"
    using split_first_append [OF split, of "remaining st1"] cut head(3) by (auto simp: CRLF_def)
  moreover obtain st2 where "read_body (length body) start st1 = Ret (body, st2)" "clean st2" "remaining st2 = []"
    using read_body_delivers [OF head(2) \<open>start @ remaining st1 = body\<close>] by blast
  moreover have "st2 = ([], [])" using calculation(4,5) by (rule clean_end)
  moreover have "length start \<le> length body" using calculation(2) by auto
  ultimately show ?thesis
    using head(1) split parse_message [OF assms(2,4,5,3) host]
    by (simp add: read_http_def tls_read_def)
qed

theorem http_delivered_witness:
  "read_http (\<lambda>_. 0) ([], map (\<lambda>c. Fragment [c])
     (case http_message (first_line False (hd CASES)) ''{}'' (Some ''127.0.0.1:8443'') of Ret raw \<Rightarrow> raw | Raise _ \<Rightarrow> []))
     False (Some ''127.0.0.1:8443'') = Ret (request_line (hd CASES), ''{}'')"
proof -
  have "case http_message (first_line False (hd CASES)) ''{}'' (Some ''127.0.0.1:8443'') of Ret _ \<Rightarrow> True | Raise _ \<Rightarrow> False"
    by code_simp
  then obtain raw where raw: "http_message (first_line False (hd CASES)) ''{}'' (Some ''127.0.0.1:8443'') = Ret raw"
    by (cases "http_message (first_line False (hd CASES)) ''{}'' (Some ''127.0.0.1:8443'')") simp_all
  have "hd CASES \<in> set CASES" by code_simp
  then show ?thesis
    using http_delivered [OF raw, of "map (\<lambda>c. [c]) raw"] raw
    by (auto simp: first_line_def body_limit_def comp_def)
qed

end
