(* ===== verification/Actions.thy ===== *)
theory Actions
  imports PyTime
begin

text \<open>
  Operations on a mutable object, as functions from its state to a result and the new state: a call that raises
  leaves the state as it was then.  \<open>along R m\<close> says that an action moves the state along the relation \<open>R\<close>
  whether it raises or not; the locale \<open>action_order\<close> shows what a preorder inherits from the parts of an action.
\<close>

type_synonym ('s, 'a) action = "'s \<Rightarrow> 'a outcome \<times> 's"

definition seq :: "('s, 'a) action \<Rightarrow> ('a \<Rightarrow> ('s, 'b) action) \<Rightarrow> ('s, 'b) action" where
  "seq m f = (\<lambda>S. case m S of (Raise e, T) \<Rightarrow> (Raise e, T) | (Ret x, T) \<Rightarrow> f x T)"

definition lift :: "'a outcome \<Rightarrow> ('s, 'a) action" where
  "lift m = (\<lambda>S. (m, S))"

definition update :: "('s \<Rightarrow> 's) \<Rightarrow> ('s, unit) action" where
  "update f = (\<lambda>S. (Ret (), f S))"

text \<open>A call whose result depends on the state and that does not change it.\<close>

definition inspect :: "('s \<Rightarrow> 'a outcome) \<Rightarrow> ('s, 'a) action" where
  "inspect f = (\<lambda>S. (f S, S))"

text \<open>\<open>try: m finally: g\<close>, where an exception of \<open>g\<close> replaces the result of \<open>m\<close>.\<close>

definition finally_do :: "('s, 'a) action \<Rightarrow> ('s, 'b) action \<Rightarrow> ('s, 'a) action" where
  "finally_do m g = (\<lambda>S. case m S of (r, T) \<Rightarrow> (case g T of (Raise e, V) \<Rightarrow> (Raise e, V) | (Ret _, V) \<Rightarrow> (r, V)))"

text \<open>\<open>try: m except BaseException: h; raise\<close>, where \<open>h\<close> only assigns.\<close>

definition failing :: "('s \<Rightarrow> 's) \<Rightarrow> ('s, 'a) action \<Rightarrow> ('s, 'a) action" where
  "failing h m = (\<lambda>S. case m S of (Raise e, T) \<Rightarrow> (Raise e, h T) | (Ret x, T) \<Rightarrow> (Ret x, T))"

text \<open>The difference of two instants, in microseconds.\<close>

definition time_minus :: "datetime \<Rightarrow> datetime \<Rightarrow> int outcome" where
  "time_minus a b = (if is_aware a = is_aware b then Ret (utc_us a - utc_us b) else Raise TypeError)"

section \<open>Inversion\<close>

lemma seq_Ret: "seq m f S = (Ret y, V) \<longleftrightarrow> (\<exists>x T. m S = (Ret x, T) \<and> f x T = (Ret y, V))"
  by (auto simp: seq_def split: prod.splits outcome.splits)

lemma seq_Raise:
  "seq m f S = (Raise e, V) \<longleftrightarrow> m S = (Raise e, V) \<or> (\<exists>x T. m S = (Ret x, T) \<and> f x T = (Raise e, V))"
  by (auto simp: seq_def split: prod.splits outcome.splits)

lemma seq_RetE:
  assumes "seq m f S = (Ret y, V)"
  obtains x T where "m S = (Ret x, T)" "f x T = (Ret y, V)"
  using assms by (auto simp: seq_Ret)

lemma seq_assoc: "seq (seq m f) g = seq m (\<lambda>x. seq (f x) g)"
  by (rule ext) (simp add: seq_def split: prod.splits outcome.splits)

lemma lift_eq [simp]: "lift m S = (r, T) \<longleftrightarrow> m = r \<and> T = S"
  by (auto simp: lift_def)

lemma update_eq [simp]: "update f S = (r, T) \<longleftrightarrow> r = Ret () \<and> T = f S"
  by (auto simp: update_def)

lemma inspect_eq [simp]: "inspect f S = (r, T) \<longleftrightarrow> f S = r \<and> T = S"
  by (auto simp: inspect_def)

lemma finally_Ret: "finally_do m g S = (Ret x, V) \<longleftrightarrow> (\<exists>T y. m S = (Ret x, T) \<and> g T = (Ret y, V))"
  by (auto simp: finally_do_def split: prod.splits outcome.splits)

lemma failing_Ret: "failing h m S = (Ret x, T) \<longleftrightarrow> m S = (Ret x, T)"
  by (auto simp: failing_def split: prod.splits outcome.splits)

lemma failing_Raise: "failing h m S = (Raise e, V) \<longleftrightarrow> (\<exists>T. m S = (Raise e, T) \<and> V = h T)"
  by (auto simp: failing_def split: prod.splits outcome.splits)

section \<open>Actions along a relation\<close>

definition along :: "('s \<Rightarrow> 's \<Rightarrow> bool) \<Rightarrow> ('s, 'a) action \<Rightarrow> bool" where
  "along R m \<longleftrightarrow> (\<forall>S. R S (snd (m S)))"

lemma alongD: "along R m \<Longrightarrow> m S = (r, T) \<Longrightarrow> R S T"
  by (metis along_def snd_conv)

lemma alongI: "(\<And>S r T. m S = (r, T) \<Longrightarrow> R S T) \<Longrightarrow> along R m"
  unfolding along_def by (metis prod.collapse)

lemma along_update: "(\<And>S. R S (f S)) \<Longrightarrow> along R (update f)"
  by (simp add: along_def update_def)

locale action_order =
  fixes R :: "'s \<Rightarrow> 's \<Rightarrow> bool"
  assumes order_refl: "R S S"
    and order_trans: "R S T \<Longrightarrow> R T V \<Longrightarrow> R S V"
begin

lemma along_seq_Ret: "along R m \<Longrightarrow> (\<And>x S T. m S = (Ret x, T) \<Longrightarrow> along R (f x)) \<Longrightarrow> along R (seq m f)"
  unfolding along_def seq_def by (auto split: prod.splits outcome.splits) (metis order_trans snd_conv)+

lemma along_seq: "along R m \<Longrightarrow> (\<And>x. along R (f x)) \<Longrightarrow> along R (seq m f)"
  by (rule along_seq_Ret)

lemma along_lift: "along R (lift m)"
  by (simp add: along_def lift_def order_refl)

lemma along_read: "along R (\<lambda>S. (f S, S))"
  by (simp add: along_def order_refl)

lemma along_inspect: "along R (inspect f)"
  by (simp add: along_def inspect_def order_refl)

lemma along_finally: "along R m \<Longrightarrow> along R g \<Longrightarrow> along R (finally_do m g)"
  unfolding along_def finally_do_def by (auto split: prod.splits outcome.splits) (metis order_trans snd_conv)+

lemma along_failing: "along R m \<Longrightarrow> (\<And>S. R S (h S)) \<Longrightarrow> along R (failing h m)"
  unfolding along_def failing_def by (auto split: prod.splits outcome.splits) (metis order_trans snd_conv)+

lemmas along_parts = along_seq along_lift along_read along_inspect along_finally

end

section \<open>Assertions\<close>

text \<open>\<open>maintains I P m Q\<close>: started in a state with \<open>I\<close> and \<open>P\<close>, the action keeps \<open>I\<close> whatever it raises, and has \<open>Q\<close> of its
  result and the new state when it returns.  \<open>stable R P\<close>: the condition survives every move along \<open>R\<close>.\<close>

definition maintains ::
  "('s \<Rightarrow> bool) \<Rightarrow> ('s \<Rightarrow> bool) \<Rightarrow> ('s, 'a) action \<Rightarrow> ('a \<Rightarrow> 's \<Rightarrow> bool) \<Rightarrow> bool" where
  "maintains I P m Q \<longleftrightarrow>
     (\<forall>S r T. I S \<longrightarrow> P S \<longrightarrow> m S = (r, T) \<longrightarrow> I T \<and> (case r of Ret x \<Rightarrow> Q x T | Raise e \<Rightarrow> True))"

definition stable :: "('s \<Rightarrow> 's \<Rightarrow> bool) \<Rightarrow> ('s \<Rightarrow> bool) \<Rightarrow> bool" where
  "stable R P \<longleftrightarrow> (\<forall>S T. R S T \<longrightarrow> P S \<longrightarrow> P T)"

lemma stable_conj: "stable R P \<Longrightarrow> stable R Q \<Longrightarrow> stable R (\<lambda>S. P S \<and> Q S)"
  by (auto simp: stable_def)

lemma stable_const: "stable R (\<lambda>_. c)"
  by (simp add: stable_def)

lemma stable_ex: "(\<And>x. stable R (\<lambda>S. P x S)) \<Longrightarrow> stable R (\<lambda>S. \<exists>x. P x S)"
  by (auto simp: stable_def)

lemma maintainsI:
  assumes "\<And>S x T. I S \<Longrightarrow> P S \<Longrightarrow> m S = (Ret x, T) \<Longrightarrow> I T \<and> Q x T"
    and "\<And>S e T. I S \<Longrightarrow> P S \<Longrightarrow> m S = (Raise e, T) \<Longrightarrow> I T"
  shows "maintains I P m Q"
  unfolding maintains_def
proof (intro allI impI)
  fix S r T
  assume run: "I S" "P S" "m S = (r, T)"
  show "I T \<and> (case r of Ret x \<Rightarrow> Q x T | Raise e \<Rightarrow> True)"
  proof (cases r)
    case (Raise e)
    with run have "m S = (Raise e, T)" by simp
    from assms(2) [OF run(1,2) this] show ?thesis using Raise by simp
  next
    case (Ret x)
    with run have "m S = (Ret x, T)" by simp
    from assms(1) [OF run(1,2) this] show ?thesis using Ret by simp
  qed
qed

lemma maintains_Ret: "maintains I P m Q \<Longrightarrow> I S \<Longrightarrow> P S \<Longrightarrow> m S = (Ret x, T) \<Longrightarrow> I T \<and> Q x T"
  unfolding maintains_def by (metis outcome.simps(6))

lemma maintains_Raise: "maintains I P m Q \<Longrightarrow> I S \<Longrightarrow> P S \<Longrightarrow> m S = (Raise e, T) \<Longrightarrow> I T"
  unfolding maintains_def by blast

lemma maintains_start: "maintains I P m Q \<Longrightarrow> I S \<Longrightarrow> P S \<Longrightarrow> I (snd (m S))"
  unfolding maintains_def by (metis prod.collapse)

lemma maintains_seq:
  assumes "maintains I P m Q" "\<And>x. maintains I (Q x) (f x) V"
  shows "maintains I P (seq m f) V"
proof (rule maintainsI)
  fix S x T
  assume S: "I S" "P S" and run: "seq m f S = (Ret x, T)"
  then obtain y T' where "m S = (Ret y, T')" "f y T' = (Ret x, T)" by (auto simp: seq_Ret)
  then show "I T \<and> V x T" using assms S maintains_Ret by metis
next
  fix S e T
  assume S: "I S" "P S" and run: "seq m f S = (Raise e, T)"
  then show "I T"
    unfolding seq_Raise by (metis assms S maintains_Ret maintains_Raise)
qed

lemma maintains_lift: "maintains I P (lift m) (\<lambda>x S. P S \<and> m = Ret x)"
  by (auto simp: maintains_def lift_def split: outcome.splits)

lemma maintains_inspect: "maintains I P (inspect f) (\<lambda>x S. P S \<and> f S = Ret x)"
  by (auto simp: maintains_def inspect_def split: outcome.splits)

lemma maintains_update: "(\<And>S. I S \<Longrightarrow> P S \<Longrightarrow> I (f S) \<and> Q (f S)) \<Longrightarrow> maintains I P (update f) (\<lambda>_. Q)"
  by (auto simp: maintains_def update_def)

lemma maintains_calm: "along R m \<Longrightarrow> stable R I \<Longrightarrow> stable R P \<Longrightarrow> maintains I P m (\<lambda>_. P)"
  by (rule maintainsI) (auto simp: stable_def dest: alongD)

lemma maintains_failing: "maintains I P m Q \<Longrightarrow> (\<And>S. I S \<Longrightarrow> I (h S)) \<Longrightarrow> maintains I P (failing h m) Q"
  by (rule maintainsI) (auto simp: failing_Ret failing_Raise dest: maintains_Ret maintains_Raise)

lemma maintains_pre: "maintains I P m Q \<Longrightarrow> (\<And>S. I S \<Longrightarrow> P' S \<Longrightarrow> P S) \<Longrightarrow> maintains I P' m Q"
  unfolding maintains_def by blast

lemma maintains_post: "maintains I P m Q \<Longrightarrow> (\<And>x S. I S \<Longrightarrow> Q x S \<Longrightarrow> Q' x S) \<Longrightarrow> maintains I P m Q'"
  by (rule maintainsI) (auto dest: maintains_Ret maintains_Raise)

lemma maintains_ex: "(\<And>x. maintains I (P x) m Q) \<Longrightarrow> maintains I (\<lambda>S. \<exists>x. P x S) m Q"
  unfolding maintains_def by blast

lemma lift_then: "(\<And>x. m = Ret x \<Longrightarrow> maintains I P (f x) V) \<Longrightarrow> maintains I P (seq (lift m) f) V"
  by (rule maintains_seq [OF maintains_lift]) (auto intro: maintains_pre simp: maintains_def)

lemma inspect_then:
  "(\<And>x. maintains I (\<lambda>S. P S \<and> g S = Ret x) (f x) V) \<Longrightarrow> maintains I P (seq (inspect g) f) V"
  by (rule maintains_seq [OF maintains_inspect])

lemma update_then:
  "(\<And>S. I S \<Longrightarrow> P S \<Longrightarrow> I (g S) \<and> Q (g S)) \<Longrightarrow> maintains I Q (f ()) V \<Longrightarrow> maintains I P (seq (update g) f) V"
  by (rule maintains_seq [OF maintains_update, of _ _ _ Q]) auto

text \<open>An invariant that survives every move along a preorder.\<close>

locale stable_invariant = action_order R for R :: "'s \<Rightarrow> 's \<Rightarrow> bool" +
  fixes I :: "'s \<Rightarrow> bool"
  assumes invariant_stable: "stable R I"
begin

lemma calm_last: "along R m \<Longrightarrow> stable R P \<Longrightarrow> maintains I P m (\<lambda>_. P)"
  by (rule maintains_calm [OF _ invariant_stable])

lemma calm_then:
  "along R m \<Longrightarrow> stable R P \<Longrightarrow> (\<And>x. maintains I P (f x) V) \<Longrightarrow> maintains I P (seq m f) V"
  by (rule maintains_seq [OF calm_last])

lemma finally_calm:
  assumes "maintains I P m Q" "along R g" "\<And>x. stable R (Q x)"
  shows "maintains I P (finally_do m g) Q"
proof (rule maintainsI)
  fix S x T
  assume S: "I S" "P S" and run: "finally_do m g S = (Ret x, T)"
  then obtain V y where V: "m S = (Ret x, V)" "g V = (Ret y, T)" by (auto simp: finally_Ret)
  then show "I T \<and> Q x T"
    using maintains_Ret [OF assms(1) S V(1)] alongD [OF assms(2) V(2)] assms(3) invariant_stable by (auto simp: stable_def)
next
  fix S e T
  assume S: "I S" "P S" and run: "finally_do m g S = (Raise e, T)"
  obtain r V where V: "m S = (r, V)" by fastforce
  then have "R V T" using run alongD [OF assms(2)] by (auto simp: finally_do_def split: prod.splits outcome.splits)
  moreover have "I V" using assms(1) S V unfolding maintains_def by blast
  ultimately show "I T" using invariant_stable by (auto simp: stable_def)
qed

lemma failing_calm: "maintains I P m Q \<Longrightarrow> (\<And>S. R S (h S)) \<Longrightarrow> maintains I P (failing h m) Q"
  using invariant_stable by (auto intro: maintains_failing simp: stable_def)

lemma along_keeps: "along R m \<Longrightarrow> I S \<Longrightarrow> I (snd (m S))"
  using invariant_stable by (auto simp: stable_def along_def)

end

end
