(* ===== verification/Supervisor.thy ===== *)
theory Supervisor
  imports Actions Admission BackendAuthority ReplayStore Complex_Main
begin

text \<open>
  \<open>src/src/harness_conformance/live_supervisor.py\<close>: the lifecycle that the native and the unit supervisor share
  (class \<open>_Lifecycle\<close>) and the data checks that precede and follow it.  The lifecycle is modelled as
  \<open>UnitSupervisor\<close> runs it: the branches taken only when \<open>type(self) is NativeSupervisor\<close> call into the
  operating system and are left out.

  The clocks and the boundary adapter are code that a supervisor is given.  \<open>world\<close> holds their answers by the
  number of the call: a call may answer anything, or raise.  A monotonic reading is a rational number, or \<open>None\<close>
  when it is not a finite number; \<open>rounded\<close> is the rounding of floating-point arithmetic.
\<close>

section \<open>Authority before references\<close>

text \<open>\<open>_verify_reference_authority\<close>: both signatures of the envelope hold before any file that it names is opened.\<close>

definition reference_scope :: "items \<Rightarrow> datetime \<Rightarrow> unit outcome" where
  "reference_scope e instant =
     requires
       (and_also (field_is e ''packetId'' (PStr PACKET_ID))
       (and_also (field_is e ''packetDigest'' (PStr BACKEND_PACKET_DIGEST))
       (and_also (field_is e ''campaignId'' (PStr ''linux-baseline''))
       (and_also (field_is e ''commands'' BACKEND_COMMANDS)
         (bind (bind (field e ''expiresAt'') linux_time) (time_less instant)))))) ''REFERENCE_AUTHORITY_SCOPE_INVALID''"

definition reference_signer ::
  "ucd \<Rightarrow> items \<Rightarrow> datetime \<Rightarrow> bytes \<Rightarrow> bytes \<times> string \<times> string \<times> string \<times> pyval \<times> pyval \<Rightarrow> (bytes \<times> pyval) outcome" where
  "reference_signer U e instant payload =
     (\<lambda>(raw, role, key_field, signature_field, tenant, environment).
        bind (require_canonical_document U raw) (\<lambda>trust.
        bind (field e key_field) (\<lambda>key_id.
        bind (trust_key trust key_id role tenant environment instant) (\<lambda>key.
        bind (bind (bind (item trust ''keys'') iter_of) (first_key key_id)) (\<lambda>record.
        bind (requires (bind (bind (item record ''validUntil'') linux_time) (time_less instant)) ''REFERENCE_TRUST_EXPIRED'') (\<lambda>_.
        bind (require_signature key payload e signature_field ''REFERENCE_SIGNATURE_INVALID'') (\<lambda>_.
        bind (item record ''owner'') (\<lambda>owner. Ret (key, owner)))))))))"

definition verify_reference_authority :: "ucd \<Rightarrow> items \<Rightarrow> bytes \<Rightarrow> bytes \<Rightarrow> pyval \<Rightarrow> unit outcome" where
  "verify_reference_authority U e release_raw tenant_raw t =
     bind (linux_time t) (\<lambda>instant.
     bind (reference_scope e instant) (\<lambda>_.
     bind (requires (and_also (field_is e ''releaseTrustStoreDigest'' (PStr (byte_digest release_raw)))
             (field_is e ''tenantTrustStoreDigest'' (PStr (byte_digest tenant_raw)))) ''REFERENCE_TRUST_DIGEST_MISMATCH'') (\<lambda>_.
     bind (signature_payload U ENVELOPE_DOMAIN e [''platformSignature'', ''tenantSignature'']) (\<lambda>payload.
     bind (field e ''tenantId'') (\<lambda>tenant. bind (field e ''environmentId'') (\<lambda>environment.
     bind (map_out (reference_signer U e instant payload)
             [(release_raw, ''PLATFORM_RELEASE'', ''platformSignerKeyId'', ''platformSignature'', PNone, PNone),
              (tenant_raw, ''TENANT_LIVE_EXECUTION'', ''tenantSignerKeyId'', ''tenantSignature'', tenant, environment)])
       (\<lambda>signers.
         require (fst (signers ! 0) \<noteq> fst (signers ! 1) \<and> \<not> py_eq (snd (signers ! 0)) (snd (signers ! 1)))
           ''SIGNER_ROLES_NOT_INDEPENDENT'')))))))"

section \<open>The credential of the proxy\<close>

text \<open>\<open>_credential_spec\<close>, the checks of the retained data: the profile of the kit, the verified envelope and capacity, the
  session binding, the plan and the clock.  It yields the reference of the credential and its endpoint.\<close>

record credential_context =
  cc_profile :: "bytes option"
  cc_envelope :: items
  cc_capacity :: items
  cc_binding :: items
  cc_plan :: pyval
  cc_now :: pyval

definition profile_scope :: "credential_context \<Rightarrow> pyval \<Rightarrow> unit outcome" where
  "profile_scope C binding =
     bind (map_out (\<lambda>(name, source). bind source (\<lambda>x. Ret (name, x)))
       [(''tenantId'', field (cc_envelope C) ''tenantId''), (''environmentId'', field (cc_envelope C) ''environmentId''),
        (''runNonce'', field (cc_envelope C) ''nonce''), (''capacityNonce'', field (cc_capacity C) ''nonce''),
        (''namespace'', item (cc_plan C) ''namespace'')])
     (for_each (\<lambda>(name, expected). requires (item_is binding name expected) ''CREDENTIAL_PROFILE_SCOPE''))"

definition capacity_unchanged :: "credential_context \<Rightarrow> pyval \<Rightarrow> bool outcome" where
  "capacity_unchanged C entries =
     (case entries of
        PDict kvs \<Rightarrow> Ret (kvs \<noteq> [] \<and> list_all (\<lambda>(k, v). case map_of (cc_capacity C) k of
          None \<Rightarrow> py_eq PNone v | Some x \<Rightarrow> py_eq x v) kvs)
      | _ \<Rightarrow> Ret False)"

definition proxy_endpoint :: "credential_context \<Rightarrow> pyval \<Rightarrow> pyval outcome" where
  "proxy_endpoint C binding =
     bind (bind (field (cc_envelope C) ''endpoints'') iter_of) (\<lambda>all_endpoints.
     bind (filter_out (\<lambda>e. and_also (item_is e ''kind'' (PStr ''CAMPAIGN_PROXY'')) (same_at e ''endpointId'' binding ''endpointId''))
             all_endpoints) (\<lambda>endpoints.
     bind (require (length endpoints = 1) ''CREDENTIAL_ENDPOINT_INVALID'') (\<lambda>_. Ret (hd endpoints))))"

definition enrolled_identity :: "credential_context \<Rightarrow> pyval \<Rightarrow> pyval \<Rightarrow> unit outcome" where
  "enrolled_identity C binding endpoint =
     bind (bind (field (cc_capacity C) ''credentialIdentities'') iter_of) (\<lambda>all_identities.
     bind (filter_out (\<lambda>e. same_at e ''endpointId'' endpoint ''endpointId'') all_identities) (\<lambda>identities.
       requires (and_also (Ret (length identities = 1))
         (and_also (item_is (hd identities) ''purpose'' (PStr ''CAMPAIGN_PROXY_CLIENT_MTLS''))
         (and_also (same_at (hd identities) ''subject'' binding ''serviceAccountSubject'')
           (same_at (hd identities) ''expiresAt'' binding ''expiresAt'')))) ''CREDENTIAL_IDENTITY_INVALID''))"

definition endpoint_address :: "pyval \<Rightarrow> unit outcome" where
  "endpoint_address endpoint =
     bind (item endpoint ''ipAddress'') (\<lambda>v.
     bind (ip_address v) (\<lambda>_.
       requires (and_also (case v of PStr s \<Rightarrow> canonical_address s | _ \<Rightarrow> Ret False)
         (bind (item endpoint ''port'') (\<lambda>p. Ret (case p of PInt n \<Rightarrow> 0 < n \<and> n < 65536 | _ \<Rightarrow> False))))
         ''CREDENTIAL_ENDPOINT_INVALID''))"

definition credential_spec :: "ucd \<Rightarrow> credential_context \<Rightarrow> (pyval \<times> pyval) outcome" where
  "credential_spec U C =
     bind (case cc_profile C of
             Some raw \<Rightarrow> bind (require (0 < length raw \<and> length raw \<le> 262144) ''CREDENTIAL_PROFILE_UNAVAILABLE'') (\<lambda>_. Ret raw)
           | None \<Rightarrow> refuse ''CREDENTIAL_PROFILE_UNAVAILABLE'') (\<lambda>raw.
     bind (require_canonical_document U raw) (\<lambda>profile.
     bind (bind (items_of profile) (\<lambda>d. require (map_of d ''profileId'' = Some (PStr ''CAMPAIGN_PROXY_MTLS_ZERO_COST_V1''))
             ''CREDENTIAL_PROFILE_UNAVAILABLE'')) (\<lambda>_.
     bind (item profile ''binding'') (\<lambda>binding.
     bind (profile_scope C binding) (\<lambda>_.
     bind (requires (bind (item profile ''capacityEntries'') (capacity_unchanged C)) ''CREDENTIAL_CAPACITY_CHANGED'') (\<lambda>_.
     bind (proxy_endpoint C binding) (\<lambda>endpoint.
     bind (requires (bind (field (cc_binding C) ''endpointId'') (\<lambda>own. bind (item endpoint ''endpointId'') (\<lambda>x.
             and_also (Ret (py_eq own x)) (item_is (cc_plan C) ''endpointId'' x)))) ''CREDENTIAL_ENDPOINT_CHANGED'') (\<lambda>_.
     bind (enrolled_identity C binding endpoint) (\<lambda>_.
     bind (linux_time (cc_now C)) (\<lambda>instant.
     bind (requires (and_also (bind (bind (item binding ''validFrom'') linux_time) (\<lambda>s. time_le s instant))
             (bind (bind (item binding ''expiresAt'') linux_time) (time_less instant))) ''CREDENTIAL_EXPIRED'') (\<lambda>_.
     bind (endpoint_address endpoint) (\<lambda>_.
     bind (item endpoint ''credentialFileReference'') (\<lambda>reference. Ret (reference, endpoint))))))))))))))"

section \<open>State\<close>

record active =
  ac_binding :: items
  ac_session :: items
  ac_plan :: pyval
  ac_done :: "(string \<times> string) list"
  ac_handle :: "nat option"
  ac_deadline :: rat
  ac_last_wall :: datetime
  ac_last_mono :: rat

record supervisor =
  sv_store :: store
  sv_active :: "active option"
  sv_serial :: nat
  sv_opened :: bool
  sv_calls :: nat

record world =
  wall :: "nat \<Rightarrow> pyval"
  monotonic :: "nat \<Rightarrow> rat option"
  rounded :: "rat \<Rightarrow> rat"
  established :: "nat \<Rightarrow> unit outcome"
  peer_checked :: "nat \<Rightarrow> unit outcome"
  requested :: "nat \<Rightarrow> string \<Rightarrow> pyval outcome"
  executed :: "nat \<Rightarrow> pyval \<Rightarrow> pyval outcome"
  cleaned :: "nat \<Rightarrow> unit outcome"
  interrupted :: "nat \<Rightarrow> unit outcome"
  store_io :: "nat \<Rightarrow> io_event"

text \<open>A handle made by this supervisor, or any other object.\<close>

datatype handle = Handle nat | Stranger

definition new_supervisor :: "store \<Rightarrow> nat \<Rightarrow> supervisor" where
  "new_supervisor st calls =
     \<lparr>sv_store = st, sv_active = None, sv_serial = 0, sv_opened = False, sv_calls = calls\<rparr>"

section \<open>Actions\<close>

type_synonym 'a act = "(supervisor, 'a) action"

definition ask :: "(nat \<Rightarrow> 'a outcome) \<Rightarrow> 'a act" where
  "ask f = (\<lambda>S. (f (sv_calls S), S\<lparr>sv_calls := sv_calls S + 1\<rparr>))"

text \<open>The local variable \<open>active\<close> of an operation: the object that \<open>self._active\<close> refers to while it runs.\<close>

definition current :: "active act" where
  "current = (\<lambda>S. (case sv_active S of None \<Rightarrow> Raise TypeError | Some a \<Rightarrow> Ret a, S))"

definition journal_call :: "world \<Rightarrow> (io_event \<Rightarrow> store \<Rightarrow> string outcome \<times> store) \<Rightarrow> string act" where
  "journal_call W f = (\<lambda>S. case f (store_io W (sv_calls S)) (sv_store S) of
     (r, st) \<Rightarrow> (r, S\<lparr>sv_store := st, sv_calls := sv_calls S + 1\<rparr>))"

section \<open>Time\<close>

definition steady :: "rat \<Rightarrow> rat option \<Rightarrow> rat outcome" where
  "steady previous reading =
     (case reading of
        None \<Rightarrow> refuse ''SUPERVISOR_MONOTONIC_ROLLBACK''
      | Some m \<Rightarrow> bind (require (previous \<le> m) ''SUPERVISOR_MONOTONIC_ROLLBACK'') (\<lambda>_. Ret m))"

definition binding_end :: "items \<Rightarrow> datetime outcome" where
  "binding_end b = bind (field b ''notAfter'') linux_time"

definition now :: "world \<Rightarrow> pyval act" where
  "now W =
     seq current (\<lambda>a.
     seq (ask (\<lambda>n. Ret (wall W n))) (\<lambda>t.
     seq (lift (linux_time t)) (\<lambda>instant.
     seq (ask (\<lambda>n. Ret (monotonic W n))) (\<lambda>reading.
     seq (lift (steady (ac_last_mono a) reading)) (\<lambda>m.
     seq (lift (requires (time_le (ac_last_wall a) instant) ''SUPERVISOR_CLOCK_ROLLBACK'')) (\<lambda>_.
     seq (update (\<lambda>S. S\<lparr>sv_active := Some (a\<lparr>ac_last_wall := instant, ac_last_mono := m\<rparr>)\<rparr>)) (\<lambda>_.
     seq (lift (requires (and_also (bind (binding_end (ac_binding a)) (time_less instant)) (Ret (m < ac_deadline a)))
             ''SUPERVISOR_EXPIRED'')) (\<lambda>_.
       lift (Ret t)))))))))"

section \<open>Termination\<close>

text \<open>The state to record: the one asked for, unless the session has expired or its deadline has passed.\<close>

definition final_state :: "active \<Rightarrow> datetime \<Rightarrow> rat \<Rightarrow> string \<Rightarrow> string outcome" where
  "final_state a instant m state =
     bind (bind (binding_end (ac_binding a)) (\<lambda>e. time_le e instant)) (\<lambda>expired.
       Ret (if expired then ''EXPIRED'' else if ac_deadline a \<le> m then ''FAILED'' else state))"

definition judged :: "world \<Rightarrow> active \<Rightarrow> string \<Rightarrow> (pyval \<times> string) act" where
  "judged W a state =
     seq (ask (\<lambda>n. Ret (wall W n))) (\<lambda>t.
     seq (lift (linux_time t)) (\<lambda>instant.
     seq (ask (\<lambda>n. Ret (monotonic W n))) (\<lambda>reading.
     seq (lift (requires (time_le (ac_last_wall a) instant) ''SUPERVISOR_CLOCK_ROLLBACK'')) (\<lambda>_.
     seq (lift (steady (ac_last_mono a) reading)) (\<lambda>m.
     seq (lift (final_state a instant m state)) (\<lambda>final. lift (Ret (t, final))))))))"

definition terminal_record :: "string \<Rightarrow> active \<Rightarrow> pyval" where
  "terminal_record state a =
     PDict [(''state'', PStr state), (''receipts'', PDict (map (\<lambda>(c, d). (c, PStr d)) (ac_done a))),
       (''nativeAcceptance'', PBool False)]"

definition record_terminal :: "world \<Rightarrow> ucd \<Rightarrow> active \<Rightarrow> pyval \<Rightarrow> string \<Rightarrow> unit act" where
  "record_terminal W U a t state =
     seq (lift (canonical_digest U (terminal_record state a) None)) (\<lambda>digest.
     seq (journal_call W (\<lambda>io st. terminal U io st (PDict (ac_binding a)) (PStr state) t (PStr digest))) (\<lambda>_.
       lift (Ret ())))"

text \<open>\<open>_terminate\<close>; \<open>original\<close> is the exception being handled when it is called.  The session is invalid before
  anything else happens; the boundary is cleaned up whatever the clocks say.\<close>

definition terminate :: "world \<Rightarrow> ucd \<Rightarrow> exn option \<Rightarrow> string \<Rightarrow> unit act" where
  "terminate W U original state S =
     (case sv_active S of
        None \<Rightarrow> (Ret (), S)
      | Some a \<Rightarrow>
          (case judged W a state (S\<lparr>sv_active := None\<rparr>) of
             (verdict, S1) \<Rightarrow>
               (case ask (cleaned W) S1 of
                  (cleanup, S2) \<Rightarrow>
                    (case (verdict, cleanup) of
                       (Ret (t, final), Ret _) \<Rightarrow> record_terminal W U a t final S2
                     | (Raise e, _) \<Rightarrow> (Raise (case original of None \<Rightarrow> e | Some x \<Rightarrow> x), S2)
                     | (_, Raise e) \<Rightarrow> (Raise (case original of None \<Rightarrow> e | Some x \<Rightarrow> x), S2)))))"

text \<open>\<open>except BaseException\<close>: the session fails, and the exception goes on unless recording the failure raises.\<close>

definition guarded :: "world \<Rightarrow> ucd \<Rightarrow> 'a act \<Rightarrow> 'a act" where
  "guarded W U m S =
     (case m S of
        (Ret x, T) \<Rightarrow> (Ret x, T)
      | (Raise e, T) \<Rightarrow>
          (case terminate W U (Some e) ''FAILED'' T of (Ret _, V) \<Rightarrow> (Raise e, V) | (Raise x, V) \<Rightarrow> (Raise x, V)))"

section \<open>Opening\<close>

definition session_record :: "items \<Rightarrow> items outcome" where
  "session_record b =
     bind (field b ''notBefore'') (\<lambda>start. bind (field b ''notAfter'') (\<lambda>finish.
       Ret (filter (\<lambda>(k, _). k \<notin> {''notBefore'', ''notAfter''}) b @
         [(''schemaVersion'', PStr SESSION_SCHEMA), (''issuedAt'', start), (''expiresAt'', finish),
          (''state'', PStr ''RESERVED'')])))"

definition in_state :: "string \<Rightarrow> items \<Rightarrow> items" where
  "in_state state s = map (\<lambda>(k, v). (k, if k = ''state'' then PStr state else v)) s"

definition new_active :: "world \<Rightarrow> ucd \<Rightarrow> items \<Rightarrow> pyval \<Rightarrow> (pyval \<times> active) act" where
  "new_active W U b plan =
     seq (ask (\<lambda>n. Ret (wall W n))) (\<lambda>t.
     seq (lift (session_record b)) (\<lambda>state.
     seq (lift (validate_session U (PDict state) (PDict b) t)) (\<lambda>_.
     seq (lift (bind (at_path plan [''target'', ''architecture'']) (\<lambda>v.
           require (str_in v ARCHITECTURES) ''SUPERVISOR_ARCHITECTURE_INVALID''))) (\<lambda>_.
     seq (lift (linux_time t)) (\<lambda>instant.
     seq (lift (bind (binding_end b) (\<lambda>e. time_minus e instant))) (\<lambda>duration.
     seq (ask (\<lambda>n. Ret (monotonic W n))) (\<lambda>reading.
     seq (lift (case reading of None \<Rightarrow> refuse ''SUPERVISOR_MONOTONIC_INVALID'' | Some m \<Rightarrow> Ret m)) (\<lambda>m.
       lift (Ret (t, \<lparr>ac_binding = b, ac_session = state, ac_plan = plan, ac_done = [], ac_handle = None,
         ac_deadline = rounded W (m + min (rounded W (of_int duration / 1000000)) 900),
         ac_last_wall = instant, ac_last_mono = m\<rparr>))))))))))"

definition start_session :: "world \<Rightarrow> ucd \<Rightarrow> active \<Rightarrow> handle act" where
  "start_session W U a0 =
     seq (update (\<lambda>S. S\<lparr>sv_active := Some a0\<rparr>)) (\<lambda>_.
     seq (now W) (\<lambda>_.
     seq (ask (established W)) (\<lambda>_.
     seq (ask (peer_checked W)) (\<lambda>_.
     seq (now W) (\<lambda>t2.
     seq (journal_call W (\<lambda>io st. running U io st (PDict (ac_binding a0)) t2)) (\<lambda>_.
     seq current (\<lambda>a.
     seq (update (\<lambda>S. S\<lparr>sv_serial := sv_serial S + 1,
           sv_active := Some (a\<lparr>ac_session := in_state ''RUNNING'' (ac_session a), ac_handle := Some (sv_serial S + 1)\<rparr>)\<rparr>)) (\<lambda>_.
       (\<lambda>S. (Ret (Handle (sv_serial S)), S))))))))))"

text \<open>No child, credential or operation exists before the nonce is reserved.\<close>

definition establish_session :: "world \<Rightarrow> ucd \<Rightarrow> pyval \<Rightarrow> active \<Rightarrow> handle act" where
  "establish_session W U t a =
     seq (journal_call W (\<lambda>io st. reserve_nonce U io st (PDict (ac_binding a)) t)) (\<lambda>_. start_session W U a)"

definition open_session :: "world \<Rightarrow> ucd \<Rightarrow> pyval \<Rightarrow> pyval \<Rightarrow> handle act" where
  "open_session W U binding plan =
     seq (lift (validate_binding U binding)) (\<lambda>b.
     seq (\<lambda>S. (require (sv_active S = None \<and> \<not> sv_opened S) ''SUPERVISOR_BUSY'', S)) (\<lambda>_.
     seq (new_active W U b plan) (\<lambda>(t, a).
     seq (update (\<lambda>S. S\<lparr>sv_opened := True\<rparr>)) (\<lambda>_.
       guarded W U (establish_session W U t a)))))"

section \<open>Executing\<close>

definition check_handle :: "handle \<Rightarrow> unit act" where
  "check_handle h =
     (\<lambda>S. (require (case (h, sv_active S) of (Handle n, Some a) \<Rightarrow> ac_handle a = Some n | _ \<Rightarrow> False)
       ''SUPERVISOR_HANDLE_INVALID'', S))"

definition admissible_case :: "pyval \<Rightarrow> active \<Rightarrow> string outcome" where
  "admissible_case case_id a =
     (case case_id of
        PStr cas \<Rightarrow> bind (require (cas \<in> set CASES \<and> cas \<notin> set (map fst (ac_done a))) ''SUPERVISOR_OPERATION_INVALID'')
          (\<lambda>_. Ret cas)
      | _ \<Rightarrow> refuse ''SUPERVISOR_OPERATION_INVALID'')"

definition accepted_receipt :: "ucd \<Rightarrow> active \<Rightarrow> string \<Rightarrow> pyval \<Rightarrow> pyval \<Rightarrow> pyval \<Rightarrow> items outcome" where
  "accepted_receipt U a cas raw request t =
     bind (if cas = ''FULL_PREDECESSOR_REGRESSION'' then item (ac_plan a) ''regressions'' else Ret (PDict [])) (\<lambda>expected.
       validate_receipt U raw (PDict (ac_session a)) (PDict (ac_binding a)) request expected t)"

definition settle :: "world \<Rightarrow> ucd \<Rightarrow> exn option \<Rightarrow> pyval \<Rightarrow> nat \<Rightarrow> unit act" where
  "settle W U outer status finished =
     (if status \<noteq> PStr ''PASS'' then terminate W U outer ''FAILED''
      else if finished = length CASES then terminate W U outer ''COMPLETED''
      else lift (Ret ()))"

text \<open>One case up to its accepted receipt, whose digest is noted; also how many cases are finished then.\<close>

definition run_case :: "world \<Rightarrow> ucd \<Rightarrow> pyval \<Rightarrow> pyval \<Rightarrow> (items \<times> nat) act" where
  "run_case W U case_id architecture =
     seq current (\<lambda>a0.
     seq (lift (admissible_case case_id a0)) (\<lambda>cas.
     seq (lift (bind (at_path (ac_plan a0) [''target'', ''architecture'']) (\<lambda>v.
           require (py_eq architecture v) ''SUPERVISOR_ARCHITECTURE_MISMATCH''))) (\<lambda>_.
     seq (now W) (\<lambda>_.
     seq (ask (peer_checked W)) (\<lambda>_.
     seq (ask (\<lambda>n. requested W n cas)) (\<lambda>request.
     seq (ask (\<lambda>n. executed W n request)) (\<lambda>raw.
     seq (now W) (\<lambda>t.
     seq (ask (peer_checked W)) (\<lambda>_.
     seq current (\<lambda>a.
     seq (lift (accepted_receipt U a cas raw request t)) (\<lambda>receipt.
     seq (lift (canonical_digest U (PDict receipt) None)) (\<lambda>digest.
     seq (update (\<lambda>S. S\<lparr>sv_active := Some (a\<lparr>ac_done := ac_done a @ [(cas, digest)]\<rparr>)\<rparr>)) (\<lambda>_.
       lift (Ret (receipt, length (ac_done a) + 1)))))))))))))))"

definition execute_case :: "world \<Rightarrow> ucd \<Rightarrow> exn option \<Rightarrow> pyval \<Rightarrow> pyval \<Rightarrow> items act" where
  "execute_case W U outer case_id architecture =
     seq (run_case W U case_id architecture) (\<lambda>(receipt, finished).
     seq (lift (field receipt ''status'')) (\<lambda>status.
     seq (settle W U outer status finished) (\<lambda>_.
       lift (Ret [(''receipt'', PDict receipt), (''evidenceClass'', PStr ''UNIT_VERIFICATION_ONLY''),
         (''nativeAcceptance'', PBool False)]))))"

text \<open>\<open>busy\<close>: another thread holds the lock; \<open>outer\<close>: the exception that the caller is handling.\<close>

definition execute_fixed :: "world \<Rightarrow> ucd \<Rightarrow> bool \<Rightarrow> exn option \<Rightarrow> handle \<Rightarrow> pyval \<Rightarrow> pyval \<Rightarrow> items act" where
  "execute_fixed W U busy outer h case_id architecture =
     (if busy then lift (refuse ''SUPERVISOR_BUSY'')
      else seq (check_handle h) (\<lambda>_. guarded W U (execute_case W U outer case_id architecture)))"

section \<open>Cancelling and closing\<close>

text \<open>\<open>cancel\<close> checks the handle and interrupts the boundary without the lock; then it waits for the lock.\<close>

definition cancel_request :: "world \<Rightarrow> handle \<Rightarrow> unit act" where
  "cancel_request W h = seq (check_handle h) (\<lambda>_. ask (interrupted W))"

definition cancel_locked :: "world \<Rightarrow> ucd \<Rightarrow> exn option \<Rightarrow> unit act" where
  "cancel_locked W U outer = terminate W U outer ''CANCELLED''"

definition close_session :: "world \<Rightarrow> ucd \<Rightarrow> exn option \<Rightarrow> unit act" where
  "close_session W U outer = terminate W U outer ''FAILED''"

text \<open>Operations run one at a time; a restart makes a new supervisor on the same file.\<close>

inductive sup_step :: "world \<Rightarrow> ucd \<Rightarrow> supervisor \<Rightarrow> supervisor \<Rightarrow> bool" for W :: world and U :: ucd where
  sup_open: "sup_step W U S (snd (open_session W U binding plan S))"
| sup_execute: "sup_step W U S (snd (execute_fixed W U busy outer h case_id architecture S))"
| sup_request: "sup_step W U S (snd (cancel_request W h S))"
| sup_cancel: "sup_step W U S (snd (cancel_locked W U outer S))"
| sup_close: "sup_step W U S (snd (close_session W U outer S))"
| sup_restart: "sup_step W U S (new_supervisor (sv_store S\<lparr>poisoned := False\<rparr>) (sv_calls S))"

end
