(* ===== verification/SupervisorLaws.thy ===== *)
theory SupervisorLaws
  imports Supervisor ReplayLaws
begin

text \<open>
  Laws of the supervisor.  \<open>ordered_actions\<close> is what an action promises when it moves the supervisor along a
  preorder, and \<open>store_actions\<close> extends it to the actions that write the journal; they are interpreted on the
  growth of the journal, the set of completed sessions, and what stays of the active session.
\<close>

section \<open>Actions along a preorder\<close>

lemma ask_eq: "ask f S = (r, T) \<longleftrightarrow> r = f (sv_calls S) \<and> T = S\<lparr>sv_calls := sv_calls S + 1\<rparr>"
  by (auto simp: ask_def)

lemma current_eq: "current S = (r, T) \<longleftrightarrow> T = S \<and> r = (case sv_active S of None \<Rightarrow> Raise TypeError | Some a \<Rightarrow> Ret a)"
  by (auto simp: current_def)

lemma snd_guarded:
  "snd (guarded W U m S) =
     (case m S of (Ret _, T) \<Rightarrow> T | (Raise e, T) \<Rightarrow> snd (terminate W U (Some e) ''FAILED'' T))"
  by (simp add: guarded_def split: prod.splits outcome.splits)

locale ordered_actions = action_order R for R :: "supervisor \<Rightarrow> supervisor \<Rightarrow> bool" +
  assumes bookkeeping: "sv_store T = sv_store S \<Longrightarrow> sv_active T = sv_active S \<Longrightarrow> R S T"
begin

lemma along_ask: "along R (ask f)"
  by (simp add: along_def ask_def bookkeeping)

lemma along_judged: "along R (judged W a state)"
  unfolding judged_def by (intro along_seq along_ask along_lift)

lemma along_current: "along R current"
  by (simp add: along_def current_def order_refl)

lemma along_check_handle: "along R (check_handle h)"
  by (simp add: along_def check_handle_def order_refl)

lemmas along_rules = along_seq along_lift along_ask along_judged along_current along_check_handle along_read

lemma along_new_active: "along R (new_active W U b plan)"
  unfolding new_active_def by (intro along_rules)

lemma along_request: "along R (cancel_request W h)"
  unfolding cancel_request_def by (intro along_rules)

text \<open>Once the session is invalid, the rest of its termination is along the order if recording is.\<close>

lemma terminate_rest:
  assumes "\<And>a t final. along R (record_terminal W U a t final)" "sv_active S \<noteq> None"
  shows "R (S\<lparr>sv_active := None\<rparr>) (snd (terminate W U original state S))"
proof -
  obtain a where a: "sv_active S = Some a" using assms(2) by auto
  obtain v S1 where j: "judged W a state (S\<lparr>sv_active := None\<rparr>) = (v, S1)" by fastforce
  obtain c S2 where k: "ask (cleaned W) S1 = (c, S2)" by fastforce
  have 2: "R (S\<lparr>sv_active := None\<rparr>) S2"
    using alongD [OF along_judged j] alongD [OF along_ask k] order_trans by blast
  moreover have "R S2 (snd (record_terminal W U a t final S2))" for t final
    using assms(1) by (simp add: along_def)
  ultimately show ?thesis
    using a j k order_trans by (auto simp: terminate_def split: outcome.splits)
qed

end

section \<open>A session stays invalid\<close>

definition active_kept :: "supervisor \<Rightarrow> supervisor \<Rightarrow> bool" where
  "active_kept S T \<longleftrightarrow> sv_active T = sv_active S"

interpretation kept: ordered_actions active_kept
  by unfold_locales (auto simp: active_kept_def)

lemma kept_journal: "along active_kept (journal_call W f)"
  by (auto simp: along_def journal_call_def active_kept_def split: prod.splits)

lemma kept_record: "along active_kept (record_terminal W U a t state)"
  unfolding record_terminal_def by (intro kept.along_rules kept_journal)

lemma terminate_inactive: "sv_active (snd (terminate W U original state S)) = None"
proof (cases "sv_active S")
  case (Some a)
  then show ?thesis using kept.terminate_rest [OF kept_record, of S W U original state] by (simp add: active_kept_def)
qed (simp add: terminate_def)

lemma guarded_Ret: "guarded W U m S = (Ret x, T) \<longleftrightarrow> m S = (Ret x, T)"
  by (auto simp: guarded_def split: prod.splits outcome.splits)

lemma guarded_Raise: "guarded W U m S = (Raise e, T) \<Longrightarrow> \<exists>e' V. m S = (Raise e', V) \<and> T = snd (terminate W U (Some e') ''FAILED'' V)"
  by (auto simp: guarded_def split: prod.splits outcome.splits)

text \<open>C19: A failed operation leaves no session: when \<open>execute_fixed\<close> raises anything, either it refused a busy
  supervisor or a foreign or stale handle and changed nothing, or the session is invalid, so that no
  later operation with any handle runs.\<close>

theorem execute_fails_closed:
  "case execute_fixed W U busy outer h case_id architecture S of
     (Ret _, T) \<Rightarrow> \<not> busy \<and> fst (check_handle h S) = Ret ()
   | (Raise e, T) \<Rightarrow>
       T = S \<and> e \<in> {ConformanceError ''SUPERVISOR_BUSY'', ConformanceError ''SUPERVISOR_HANDLE_INVALID''} \<or>
       sv_active T = None \<and>
         fst (execute_fixed W' U busy' outer' h' case_id' architecture' T) \<in>
           {refuse ''SUPERVISOR_BUSY'', refuse ''SUPERVISOR_HANDLE_INVALID''}"
proof (cases "execute_fixed W U busy outer h case_id architecture S")
  case (Pair r T)
  have invalid: "fst (execute_fixed W' U busy' outer' h' case_id' architecture' T) \<in>
      {refuse ''SUPERVISOR_BUSY'', refuse ''SUPERVISOR_HANDLE_INVALID''}" if "sv_active T = None"
    using that by (simp add: execute_fixed_def seq_def check_handle_def lift_def refuse_def split: handle.splits)
  have raised: "sv_active T = None" if "guarded W U (execute_case W U outer case_id architecture) S = (Raise e, T)" for e
    using guarded_Raise [OF that] terminate_inactive by auto
  show ?thesis
  proof (cases busy)
    case True
    then show ?thesis using Pair by (auto simp: execute_fixed_def lift_def refuse_def)
  next
    case False
    note run = Pair [unfolded execute_fixed_def]
    show ?thesis
    proof (cases r)
      case (Raise e)
      then consider "check_handle h S = (Raise e, T)"
        | "guarded W U (execute_case W U outer case_id architecture) S = (Raise e, T)"
        using run False by (auto simp: seq_Raise check_handle_def)
      then show ?thesis
        using Pair Raise raised invalid by cases (auto simp: check_handle_def require_def split: if_splits)
    next
      case (Ret x)
      then show ?thesis using run Pair False by (auto simp: seq_Ret check_handle_def)
    qed
  qed
qed

section \<open>What the journal says\<close>

definition completed :: "ucd \<Rightarrow> bytes \<Rightarrow> string set" where
  "completed U raw = {k. case key_states U raw of None \<Rightarrow> False | Some m \<Rightarrow> m k = Some ''COMPLETED''}"

lemma completed_record:
  "completed U (journal (snd (record_row U io S b (PStr state) t rd))) \<subseteq>
     completed U (journal S) \<union>
     {k. state = ''COMPLETED'' \<and> (\<exists>val. validate_binding U b = Ret val \<and> replay_key U (PDict val) = Ret k)}"
proof (cases "record_row U io S b (PStr state) t rd")
  case (Pair r T)
  then consider "T = S" | "key_states U (journal T) = None" | "journal T = journal S"
    | "spec_writes U b (PStr state) (journal S) (journal T)"
    using record_row_writes [where U = U and io = io and S = S and b = b and st = "PStr state" and now = t and rd = rd]
    by (auto split: outcome.splits)
  then show ?thesis
    using Pair by cases (auto simp: completed_def spec_writes_def split: if_splits)
qed

definition recorded :: "ucd \<Rightarrow> string \<Rightarrow> store \<Rightarrow> store \<Rightarrow> bool" where
  "recorded U state st st' \<longleftrightarrow>
     (\<exists>io b t rd. st' = snd (record_row U io st b (PStr state) t rd) \<and> (rd = PNone \<or> state \<in> set TERMINAL))"

lemma recordedI:
  "rd = PNone \<or> state \<in> set TERMINAL \<Longrightarrow> recorded U state st (snd (record_row U io st b (PStr state) t rd))"
  unfolding recorded_def by blast

locale store_actions = ordered_actions R for R +
  fixes U :: ucd and recordable :: "string \<Rightarrow> bool"
  assumes store_only: "sv_store T = sv_store S \<Longrightarrow> R S T"
    and journalled: "recordable state \<Longrightarrow> recorded U state (sv_store S) (sv_store T) \<Longrightarrow> R S T"
    and failures: "recordable ''RESERVED''" "recordable ''RUNNING''" "recordable ''FAILED''" "recordable ''EXPIRED''"
begin

lemma along_store_update: "(\<And>S. sv_store (f S) = sv_store S) \<Longrightarrow> along R (update f)"
  by (rule along_update) (simp add: store_only)

lemma along_journal:
  "recordable state \<Longrightarrow> rd = PNone \<or> state \<in> set TERMINAL \<Longrightarrow>
     along R (journal_call W (\<lambda>io st. record_row U io st b (PStr state) t rd))"
  by (simp add: along_def journal_call_def split_beta journalled recordedI)

lemma along_refused: "along R (journal_call W (\<lambda>io st. (r, st)))"
  by (simp add: along_def journal_call_def store_only)

lemma along_now: "along R (now W)"
  unfolding now_def by (intro along_rules along_store_update) simp

lemma along_record: "recordable state \<Longrightarrow> along R (record_terminal W U a t state)"
  unfolding record_terminal_def terminal_def
  by (cases "state \<in> set TERMINAL") (auto simp: str_in_PStr intro!: along_rules along_journal along_refused)

lemma final_recordable: "recordable state \<Longrightarrow> final_state a i m state = Ret s \<Longrightarrow> recordable s"
  using failures by (auto simp: final_state_def bind_eq_Ret)

lemma judged_recordable: "recordable state \<Longrightarrow> judged W a state S = (Ret (t, s), T) \<Longrightarrow> recordable s"
  using final_recordable by (auto simp: judged_def seq_Ret)

lemma along_terminate: "recordable state \<Longrightarrow> along R (terminate W U original state)"
  unfolding along_def
proof
  fix S
  assume st: "recordable state"
  show "R S (snd (terminate W U original state S))"
  proof (cases "sv_active S")
    case None
    then show ?thesis by (simp add: terminate_def order_refl)
  next
    case (Some a)
    obtain v S1 where j: "judged W a state (S\<lparr>sv_active := None\<rparr>) = (v, S1)" by fastforce
    obtain c S2 where k: "ask (cleaned W) S1 = (c, S2)" by fastforce
    have "R S (S\<lparr>sv_active := None\<rparr>)" by (rule store_only) simp
    then have 2: "R S S2" using alongD [OF along_judged j] alongD [OF along_ask k] order_trans by blast
    have "R S2 (snd (record_terminal W U a t final S2))" if "v = Ret (t, final)" for t final
      using along_record [OF judged_recordable [OF st]] j that by (simp add: along_def)
    then show ?thesis using Some 2 j k order_trans by (auto simp: terminate_def split: outcome.splits)
  qed
qed

lemma along_guarded:
  assumes "along R m"
  shows "along R (guarded W U m)"
  unfolding along_def
proof
  fix S
  obtain r T where m: "m S = (r, T)" by fastforce
  have 1: "R S T" using alongD [OF assms m] .
  have "R T (snd (terminate W U (Some e) ''FAILED'' T))" for e
    using along_terminate [OF failures(3)] by (simp add: along_def)
  then have 2: "R S (snd (terminate W U (Some e) ''FAILED'' T))" for e using 1 order_trans by blast
  show "R S (snd (guarded W U m S))"
    using 1 2 m by (simp add: snd_guarded split: outcome.splits)
qed

lemma along_start: "along R (start_session W U a)"
  unfolding start_session_def running_def
  by (intro along_rules along_now along_store_update along_journal failures) simp_all

lemma along_establish: "along R (establish_session W U t a)"
  unfolding establish_session_def reserve_nonce_def by (intro along_rules along_journal along_start failures) simp_all

lemma along_open: "along R (open_session W U b plan)"
  unfolding open_session_def split_beta
  by (intro along_rules along_store_update along_new_active along_guarded along_establish) simp_all

lemma along_run_case: "along R (run_case W U case_id architecture)"
  unfolding run_case_def by (intro along_rules along_now along_store_update) simp

lemma along_settle:
  "recordable ''COMPLETED'' \<or> status \<noteq> PStr ''PASS'' \<or> n \<noteq> length CASES \<Longrightarrow> along R (settle W U outer status n)"
  using along_terminate [OF failures(3)] along_terminate along_lift by (auto simp: settle_def)

end

section \<open>Supervisors grow the journal\<close>

definition journal_grows :: "ucd \<Rightarrow> supervisor \<Rightarrow> supervisor \<Rightarrow> bool" where
  "journal_grows U S T \<longleftrightarrow> (store_step U)\<^sup>*\<^sup>* (sv_store S) (sv_store T)"

lemma record_step:
  assumes "recorded U state st st'" "state \<in> set (''RESERVED'' # ''RUNNING'' # TERMINAL)"
  shows "store_step U st st'"
proof -
  obtain io b t rd where st': "st' = snd (record_row U io st b (PStr state) t rd)" "rd = PNone \<or> state \<in> set TERMINAL"
    using assms(1) by (auto simp: recorded_def)
  then consider "state = ''RESERVED''" "rd = PNone" | "state = ''RUNNING''" "rd = PNone" | "state \<in> set TERMINAL"
    using assms(2) by auto
  then show ?thesis
    using step_reserve [of U st io b t] step_running [of U st io b t] step_terminal [of U st io b "PStr state" t rd] st'(1)
    by cases (simp_all add: reserve_nonce_def running_def terminal_def str_in_PStr)
qed

interpretation grows: store_actions "journal_grows U" U "\<lambda>state. state \<in> set (''RESERVED'' # ''RUNNING'' # TERMINAL)" for U
  by unfold_locales (auto simp: journal_grows_def TERMINAL_def dest!: record_step)

lemma sup_step_grows: "sup_step W U S T \<Longrightarrow> journal_grows U S T"
proof (induction rule: sup_step.induct)
  case (sup_open S binding plan)
  then show ?case using grows.along_open by (simp add: along_def)
next
  case (sup_execute S busy outer h case_id architecture)
  have "along (journal_grows U) (execute_fixed W U busy outer h case_id architecture)"
    unfolding execute_fixed_def execute_case_def split_beta
    by (auto intro!: grows.along_rules grows.along_guarded grows.along_run_case grows.along_settle simp: TERMINAL_def)
  then show ?case by (simp add: along_def)
next
  case (sup_request S h)
  then show ?case using grows.along_request by (simp add: along_def)
next
  case (sup_cancel S outer)
  then show ?case using grows.along_terminate by (simp add: along_def cancel_locked_def TERMINAL_def)
next
  case (sup_close S outer)
  then show ?case using grows.along_terminate by (simp add: along_def close_session_def TERMINAL_def)
next
  case (sup_restart S)
  then show ?case using step_restart by (auto simp: journal_grows_def new_supervisor_def)
qed

lemma sup_steps_grow: "(sup_step W U)\<^sup>*\<^sup>* S T \<Longrightarrow> (store_step U)\<^sup>*\<^sup>* (sv_store S) (sv_store T)"
proof (induction rule: rtranclp_induct)
  case (step T V)
  then show ?case using sup_step_grows [of W U T V] by (simp add: journal_grows_def)
qed simp

section \<open>One session per nonce\<close>

definition store_kept :: "supervisor \<Rightarrow> supervisor \<Rightarrow> bool" where
  "store_kept S T \<longleftrightarrow> sv_store T = sv_store S"

interpretation same_store: ordered_actions store_kept
  by unfold_locales (auto simp: store_kept_def)

text \<open>A session that was opened has reserved its nonce first.\<close>

lemma opened_reserved:
  assumes "open_session W U b plan S = (Ret h, T)" "validate_binding U b = Ret val"
  obtains io t d where "fst (reserve_nonce U io (sv_store S) (PDict val) t) = Ret d"
    "(store_step U)\<^sup>*\<^sup>* (snd (reserve_nonce U io (sv_store S) (PDict val) t)) (sv_store T)"
proof -
  obtain t a S1 where new: "new_active W U val plan S = (Ret (t, a), S1)"
    and est: "establish_session W U t a (S1\<lparr>sv_opened := True\<rparr>) = (Ret h, T)"
    using assms by (auto simp: open_session_def seq_Ret guarded_Ret)
  have a: "ac_binding a = val" using new by (auto simp: new_active_def seq_Ret)
  have same: "sv_store S1 = sv_store S"
    using alongD [OF same_store.along_new_active new] by (simp add: store_kept_def)
  let ?io = "store_io W (sv_calls (S1\<lparr>sv_opened := True\<rparr>))"
  obtain d S2 where res: "journal_call W (\<lambda>io st. reserve_nonce U io st (PDict val) t) (S1\<lparr>sv_opened := True\<rparr>) = (Ret d, S2)"
    and start: "start_session W U a S2 = (Ret h, T)"
    using est a by (auto simp: establish_session_def seq_Ret)
  have "fst (reserve_nonce U ?io (sv_store S) (PDict val) t) = Ret d"
    "sv_store S2 = snd (reserve_nonce U ?io (sv_store S) (PDict val) t)"
    using res same by (auto simp: journal_call_def split: prod.splits)
  moreover have "(store_step U)\<^sup>*\<^sup>* (sv_store S2) (sv_store T)"
    using alongD [OF grows.along_start start] by (simp add: journal_grows_def)
  ultimately show ?thesis using that by simp
qed

text \<open>C2: A tenant's nonce opens at most one session: once a session was opened, no supervisor on the same journal
  opens another one whose binding has the same tenant and nonce, whatever operations, failures, expiries and
  restarts lie between, and whatever the clocks, the boundary and the storage do.\<close>

theorem session_once:
  "\<not> (\<exists>b plan h val T b' plan' h' val'.
        fst (open_session W U b plan S) = Ret h \<and> validate_binding U b = Ret val \<and>
        (sup_step W U)\<^sup>*\<^sup>* (snd (open_session W U b plan S)) T \<and>
        validate_binding U b' = Ret val' \<and> map_of val' ''tenantId'' = map_of val ''tenantId'' \<and>
        map_of val' ''nonce'' = map_of val ''nonce'' \<and> fst (open_session W U b' plan' T) = Ret h')"
proof clarify
  fix b plan h val T b' plan' h' val'
  assume o: "fst (open_session W U b plan S) = Ret h" "fst (open_session W U b' plan' T) = Ret h'"
    and v: "validate_binding U b = Ret val" "validate_binding U b' = Ret val'"
    and steps: "(sup_step W U)\<^sup>*\<^sup>* (snd (open_session W U b plan S)) T"
    and same: "map_of val' ''tenantId'' = map_of val ''tenantId''" "map_of val' ''nonce'' = map_of val ''nonce''"
  obtain S2 T2 where s: "open_session W U b plan S = (Ret h, S2)" "open_session W U b' plan' T = (Ret h', T2)"
    using o by (metis prod.collapse)
  obtain io t d where first: "fst (reserve_nonce U io (sv_store S) (PDict val) t) = Ret d"
    "(store_step U)\<^sup>*\<^sup>* (snd (reserve_nonce U io (sv_store S) (PDict val) t)) (sv_store S2)"
    using s(1) v(1) by (rule opened_reserved)
  obtain io' t' d' where second: "fst (reserve_nonce U io' (sv_store T) (PDict val') t') = Ret d'"
    using s(2) v(2) by (rule opened_reserved)
  have "(store_step U)\<^sup>*\<^sup>* (snd (reserve_nonce U io (sv_store S) (PDict val) t)) (sv_store T)"
    using first(2) sup_steps_grow [OF steps] s(1) by simp
  moreover obtain l k r where "validate_binding U (PDict val) = Ret l" using first(1) by (auto elim!: reserve_Ret)
  moreover obtain l' where "validate_binding U (PDict val') = Ret l'" using second by (auto elim!: reserve_Ret)
  moreover have "l = val" "l' = val'"
    using validate_binding_again v calculation by blast+
  ultimately show False using nonce_consumed [OF first(1)] second same by blast
qed

section \<open>Completion\<close>

definition completes_nothing :: "ucd \<Rightarrow> supervisor \<Rightarrow> supervisor \<Rightarrow> bool" where
  "completes_nothing U S T \<longleftrightarrow> completed U (journal (sv_store T)) \<subseteq> completed U (journal (sv_store S))"

lemma recorded_completes_nothing:
  "recorded U state st st' \<Longrightarrow> state \<noteq> ''COMPLETED'' \<Longrightarrow> completed U (journal st') \<subseteq> completed U (journal st)"
  using completed_record by (fastforce simp: recorded_def)

interpretation idle: store_actions "completes_nothing U" U "\<lambda>state. state \<noteq> ''COMPLETED''" for U
  by unfold_locales (auto simp: completes_nothing_def dest!: recorded_completes_nothing)

text \<open>What a session is: everything of it but its clocks and handle.\<close>

definition session_view :: "supervisor \<Rightarrow> (items \<times> items \<times> pyval \<times> (string \<times> string) list) option" where
  "session_view S = map_option (\<lambda>a. (ac_binding a, ac_session a, ac_plan a, ac_done a)) (sv_active S)"

definition session_kept :: "supervisor \<Rightarrow> supervisor \<Rightarrow> bool" where
  "session_kept S T \<longleftrightarrow> session_view T = session_view S"

interpretation session: ordered_actions session_kept
  by unfold_locales (auto simp: session_kept_def session_view_def)

lemma now_session: "along session_kept (now W)"
  unfolding along_def
proof
  fix S
  show "session_kept S (snd (now W S))"
    by (cases "sv_active S")
       (auto simp: now_def seq_def lift_def ask_def update_def current_def session_kept_def session_view_def
         split: prod.splits outcome.splits)
qed

definition case_passed :: "world \<Rightarrow> ucd \<Rightarrow> items \<times> items \<times> pyval \<Rightarrow> string \<times> string \<Rightarrow> bool" where
  "case_passed W U = (\<lambda>(binding, session, plan) (cas, digest).
     \<exists>m n t request raw receipt expected.
       requested W m cas = Ret request \<and> executed W n request = Ret raw \<and>
       validate_receipt U raw (PDict session) (PDict binding) request expected t = Ret receipt \<and>
       map_of receipt ''status'' = Some (PStr ''PASS'') \<and> canonical_digest U (PDict receipt) None = Ret digest)"

definition progress :: "world \<Rightarrow> ucd \<Rightarrow> supervisor \<Rightarrow> bool" where
  "progress W U S \<longleftrightarrow>
     (case session_view S of
        None \<Rightarrow> True
      | Some (b, s, p, rows) \<Rightarrow> distinct (map fst rows) \<and> set (map fst rows) \<subseteq> set CASES \<and> list_all (case_passed W U (b, s, p)) rows)"

lemma run_case_Ret:
  assumes "run_case W U case_id architecture S = (Ret (receipt, finished), T)"
  obtains b s p rows cas digest m n t request raw expected where "session_view S = Some (b, s, p, rows)"
    "session_view T = Some (b, s, p, rows @ [(cas, digest)])" "finished = length rows + 1" "cas \<in> set CASES"
    "cas \<notin> set (map fst rows)" "requested W m cas = Ret request" "executed W n request = Ret raw"
    "validate_receipt U raw (PDict s) (PDict b) request expected t = Ret receipt"
    "canonical_digest U (PDict receipt) None = Ret digest"
proof -
  from assms obtain a0 cas S1 t1 S2 request S3 raw S4 t S5 S6 a digest where
    run: "sv_active S = Some a0" "admissible_case case_id a0 = Ret cas" "now W S = (Ret t1, S1)"
      "ask (peer_checked W) S1 = (Ret (), S2)" "ask (\<lambda>n. requested W n cas) S2 = (Ret request, S3)"
      "ask (\<lambda>n. executed W n request) S3 = (Ret raw, S4)" "now W S4 = (Ret t, S5)"
      "ask (peer_checked W) S5 = (Ret (), S6)" "sv_active S6 = Some a"
    and got: "accepted_receipt U a cas raw request t = Ret receipt" "canonical_digest U (PDict receipt) None = Ret digest"
      "T = S6\<lparr>sv_active := Some (a\<lparr>ac_done := ac_done a @ [(cas, digest)]\<rparr>)\<rparr>" "finished = length (ac_done a) + 1"
    by (auto simp: run_case_def seq_Ret current_eq split: option.splits)
  note ask = alongD [OF session.along_ask] and now = alongD [OF now_session]
  have "session_view S6 = session_view S"
    using now [OF run(3)] ask [OF run(4)] ask [OF run(5)] ask [OF run(6)] now [OF run(7)] ask [OF run(8)]
    by (simp add: session_kept_def)
  then have same: "ac_binding a = ac_binding a0" "ac_session a = ac_session a0" "ac_plan a = ac_plan a0" "ac_done a = ac_done a0"
    using run(1,9) by (simp_all add: session_view_def)
  obtain expected where receipt: "validate_receipt U raw (PDict (ac_session a)) (PDict (ac_binding a)) request expected t = Ret receipt"
    using got(1) by (auto simp: accepted_receipt_def bind_eq_Ret)
  have new: "cas \<in> set CASES" "cas \<notin> set (map fst (ac_done a))"
    using run(2) same(4) by (auto simp: admissible_case_def bind_eq_Ret refuse_def split: pyval.splits)
  have calls: "requested W (sv_calls S2) cas = Ret request" "executed W (sv_calls S3) request = Ret raw"
    using run(5,6) by (auto simp: ask_eq)
  have views: "session_view S = Some (ac_binding a, ac_session a, ac_plan a, ac_done a)"
    "session_view T = Some (ac_binding a, ac_session a, ac_plan a, ac_done a @ [(cas, digest)])"
    using run(1) got(3) same by (simp_all add: session_view_def)
  show ?thesis by (rule that [OF views got(4) new calls receipt got(2)])
qed

text \<open>Every case that was noted has an accepted receipt; a case is noted at most once.\<close>

lemma distinct_CASES: "distinct CASES"
  by code_simp

lemma all_cases:
  "distinct (map fst rows) \<Longrightarrow> set (map fst rows) \<subseteq> set CASES \<Longrightarrow> length rows = length CASES \<Longrightarrow> set (map fst rows) = set CASES"
  using distinct_CASES by (metis card_subset_eq distinct_card finite_set length_map)

lemma progress_inactive: "sv_active S = None \<Longrightarrow> progress W U S"
  by (simp add: progress_def session_view_def)

lemma noted_progress:
  assumes "progress W U S" "run_case W U case_id architecture S = (Ret (receipt, finished), T)"
    and "map_of receipt ''status'' = Some (PStr ''PASS'')"
  shows "progress W U T"
  using assms(2)
proof (rule run_case_Ret)
  fix b s p rows cas digest m n t request raw expected
  assume "session_view S = Some (b, s, p, rows)" "session_view T = Some (b, s, p, rows @ [(cas, digest)])"
    "cas \<in> set CASES" "cas \<notin> set (map fst rows)" "requested W m cas = Ret request" "executed W n request = Ret raw"
    "validate_receipt U raw (PDict s) (PDict b) request expected t = Ret receipt"
    "canonical_digest U (PDict receipt) None = Ret digest"
  moreover then have "case_passed W U (b, s, p) (cas, digest)" using assms(3) unfolding case_passed_def by blast
  ultimately show ?thesis using assms(1) by (simp add: progress_def)
qed

text \<open>What \<open>execute_case\<close> did: it stopped before its receipt, or it noted the receipt and settled.\<close>

lemma settle_cases:
  assumes "settle W U outer status finished S = (r, T)"
  obtains "T = S" "status = PStr ''PASS''" "finished \<noteq> length CASES" | "sv_active T = None"
  using assms terminate_inactive [of W U outer _ S]
  by (auto simp: settle_def split: if_splits) (metis snd_conv)+

lemma execute_progress:
  assumes "progress W U S"
  shows "progress W U (snd (execute_fixed W U busy outer h case_id architecture S))"
proof (cases "execute_fixed W U busy outer h case_id architecture S")
  case (Pair r T)
  have stopped: "progress W U T" if "guarded W U m V = (Raise e, T)" for m :: "items act" and V e
    using guarded_Raise [OF that] terminate_inactive by (auto intro: progress_inactive)
  consider "T = S" | x where "execute_case W U outer case_id architecture S = (Ret x, T)" | "progress W U T"
    using Pair stopped by (cases r) (auto simp: execute_fixed_def seq_Ret seq_Raise check_handle_def guarded_Ret split: if_splits)
  then have "progress W U T"
  proof cases
    case 2
    then obtain receipt finished S1 status S2 where run: "run_case W U case_id architecture S = (Ret (receipt, finished), S1)"
      "map_of receipt ''status'' = Some status" "settle W U outer status finished S1 = (Ret (), T)"
      by (auto simp: execute_case_def seq_Ret field_eq_Ret)
    from run(3) show ?thesis
      using noted_progress [OF assms run(1)] run(2) progress_inactive by (cases rule: settle_cases) auto
  qed (use assms in auto)
  then show ?thesis using Pair by simp
qed

definition fresh :: "supervisor \<Rightarrow> bool" where
  "fresh S \<longleftrightarrow> (case sv_active S of None \<Rightarrow> True | Some a \<Rightarrow> ac_done a = [])"

lemma now_fresh: "now W S = (r, T) \<Longrightarrow> fresh S \<Longrightarrow> fresh T"
  using alongD [OF now_session, of W S r T]
  by (auto simp: session_kept_def session_view_def fresh_def split: option.splits)

lemma journal_active: "journal_call W f S = (r, T) \<Longrightarrow> sv_active T = sv_active S"
  using alongD [OF kept_journal] by (simp add: active_kept_def)

lemma start_fresh:
  assumes "start_session W U a S = (Ret h, T)" "ac_done a = []"
  shows "fresh T"
proof -
  from assms(1) obtain t1 S1 S2 S3 t2 S4 d S5 a' where
    run: "now W (S\<lparr>sv_active := Some a\<rparr>) = (Ret t1, S1)" "ask (established W) S1 = (Ret (), S2)"
      "ask (peer_checked W) S2 = (Ret (), S3)" "now W S3 = (Ret t2, S4)"
      "journal_call W (\<lambda>io st. running U io st (PDict (ac_binding a)) t2) S4 = (Ret d, S5)"
    and last: "sv_active S5 = Some a'" "sv_active T = Some (a'\<lparr>ac_session := in_state ''RUNNING'' (ac_session a'), ac_handle := Some (sv_serial S5 + 1)\<rparr>)"
    by (auto simp: start_session_def seq_Ret current_eq split: option.splits)
  have "fresh S1" using now_fresh [OF run(1)] assms(2) by (simp add: fresh_def)
  then have "fresh S3" using run(2,3) by (auto simp: ask_eq fresh_def)
  then have "fresh S4" by (rule now_fresh [OF run(4)])
  then show ?thesis using last journal_active [OF run(5)] by (simp add: fresh_def)
qed

lemma open_progress:
  assumes "progress W U S"
  shows "progress W U (snd (open_session W U b plan S))"
proof (cases "open_session W U b plan S")
  case (Pair r T)
  have stopped: "progress W U T" if "guarded W U m V = (Raise e, T)" for m :: "handle act" and V e
    using guarded_Raise [OF that] terminate_inactive by (auto intro: progress_inactive)
  have kept: "progress W U V" if "session_kept S V" for V
    using assms that by (simp add: progress_def session_kept_def)
  have new: "progress W U V" if "new_active W U val plan S = (x, V)" for val x V
    using kept alongD [OF session.along_new_active that] by simp
  have started: "progress W U T" if "establish_session W U t a V = (Ret h, T)" "new_active W U val plan S = (Ret (t, a), V')" for val t a V V' h
  proof -
    have "ac_done a = []" using that(2) by (auto simp: new_active_def seq_Ret)
    then have "fresh T" using that(1) start_fresh by (auto simp: establish_session_def seq_Ret)
    then show ?thesis by (auto simp: progress_def session_view_def fresh_def split: option.splits)
  qed
  have "progress W U T"
    using Pair assms new stopped started
    by (cases r) (auto simp: open_session_def seq_Ret seq_Raise guarded_Ret split: prod.splits)
  then show ?thesis using Pair by simp
qed

lemma step_progress:
  assumes "progress W U S" "sup_step W U S T"
  shows "progress W U T"
  using assms(2,1)
proof (induction rule: sup_step.induct)
  case (sup_open S binding plan)
  then show ?case by (rule open_progress)
next
  case (sup_execute S busy outer h case_id architecture)
  then show ?case by (rule execute_progress)
next
  case (sup_request S h)
  then show ?case using session.along_request [of W h] by (simp add: along_def progress_def session_kept_def)
next
  case (sup_cancel S outer)
  then show ?case by (simp add: cancel_locked_def terminate_inactive progress_inactive)
next
  case (sup_close S outer)
  then show ?case by (simp add: close_session_def terminate_inactive progress_inactive)
next
  case (sup_restart S)
  then show ?case by (simp add: new_supervisor_def progress_inactive)
qed

interpretation lifecycle: invariant_system "\<lambda>S. \<exists>st n. S = new_supervisor st n" "sup_step W U" "progress W U" for W U
  by unfold_locales (auto intro: step_progress simp: progress_inactive new_supervisor_def)

text \<open>The journal gains a completed session only when the last case settles it.\<close>

lemma record_completed:
  "completed U (journal (sv_store (snd (record_terminal W U a t state S)))) \<subseteq>
     completed U (journal (sv_store S)) \<union>
     {k. \<exists>val. validate_binding U (PDict (ac_binding a)) = Ret val \<and> replay_key U (PDict val) = Ret k}"
proof -
  have "completed U (journal (snd (terminal U io st b (PStr state) t rd))) \<subseteq> completed U (journal st) \<union>
      {k. \<exists>val. validate_binding U b = Ret val \<and> replay_key U (PDict val) = Ret k}" for io st b rd
    using completed_record [of U io st b state t rd] by (auto simp: terminal_def)
  moreover have "sv_store (snd (record_terminal W U a t state S)) = sv_store S \<or>
      (\<exists>io rd. sv_store (snd (record_terminal W U a t state S)) =
        snd (terminal U io (sv_store S) (PDict (ac_binding a)) (PStr state) t rd))"
    unfolding record_terminal_def seq_def lift_def journal_call_def split_beta
    by (cases "canonical_digest U (terminal_record state a) None") (auto split: outcome.splits)
  ultimately show ?thesis by force
qed

lemma terminate_completed:
  "completed U (journal (sv_store (snd (terminate W U original state S)))) \<subseteq>
     completed U (journal (sv_store S)) \<union>
     {k. \<exists>b s p rows val. session_view S = Some (b, s, p, rows) \<and>
        validate_binding U (PDict b) = Ret val \<and> replay_key U (PDict val) = Ret k}"
proof (cases "sv_active S")
  case None
  then show ?thesis by (simp add: terminate_def)
next
  case (Some a)
  obtain v S1 where j: "judged W a state (S\<lparr>sv_active := None\<rparr>) = (v, S1)" by fastforce
  obtain c S2 where k: "ask (cleaned W) S1 = (c, S2)" by fastforce
  have "sv_store S2 = sv_store S"
    using alongD [OF same_store.along_judged j] alongD [OF same_store.along_ask k] by (simp add: store_kept_def)
  then show ?thesis
    using Some j k record_completed [of U W a] by (fastforce simp: terminate_def session_view_def split: outcome.splits)
qed

lemma no_completion:
  "along (completes_nothing U) m \<Longrightarrow> k \<notin> completed U (journal (sv_store S)) \<Longrightarrow> k \<notin> completed U (journal (sv_store (snd (m S))))"
  by (auto simp: along_def completes_nothing_def)

lemma guarded_completed:
  assumes "k \<in> completed U (journal (sv_store (snd (guarded W U m S))))"
  shows "k \<in> completed U (journal (sv_store (snd (m S))))"
proof (rule ccontr)
  assume n: "k \<notin> completed U (journal (sv_store (snd (m S))))"
  obtain r T where m: "m S = (r, T)" by fastforce
  have "k \<notin> completed U (journal (sv_store (snd (terminate W U (Some e) ''FAILED'' T))))" for e
    using n m no_completion [OF idle.along_terminate] by simp
  then show False using assms n m by (simp add: snd_guarded split: outcome.splits)
qed

lemma snd_execute_fixed:
  "snd (execute_fixed W U busy outer h case_id architecture S) = S \<or>
     snd (execute_fixed W U busy outer h case_id architecture S) =
       snd (guarded W U (execute_case W U outer case_id architecture) S)"
  by (simp add: execute_fixed_def seq_def lift_def check_handle_def split: outcome.splits)

lemma snd_execute_case:
  assumes "run_case W U case_id architecture S = (r, T)"
  shows "snd (execute_case W U outer case_id architecture S) = T \<or>
    (\<exists>receipt n status. r = Ret (receipt, n) \<and> map_of receipt ''status'' = Some status \<and>
       snd (execute_case W U outer case_id architecture S) = snd (settle W U outer status n T))"
  using assms by (auto simp: execute_case_def seq_def lift_def field_eq_Ret split: outcome.splits prod.splits)

definition completes :: "world \<Rightarrow> ucd \<Rightarrow> supervisor \<Rightarrow> string \<Rightarrow> bool" where
  "completes W U S k \<longleftrightarrow>
     (\<exists>b s p rows val. map_option ac_binding (sv_active S) = Some b \<and> distinct (map fst rows) \<and>
        set (map fst rows) = set CASES \<and> list_all (case_passed W U (b, s, p)) rows \<and>
        validate_binding U (PDict b) = Ret val \<and> replay_key U (PDict val) = Ret k)"

lemma completesI:
  "map_option ac_binding (sv_active S) = Some b \<Longrightarrow> distinct (map fst rows) \<Longrightarrow> set (map fst rows) = set CASES \<Longrightarrow>
     list_all (case_passed W U (b, s, p)) rows \<Longrightarrow> validate_binding U (PDict b) = Ret val \<Longrightarrow>
     replay_key U (PDict val) = Ret k \<Longrightarrow> completes W U S k"
  unfolding completes_def by blast

lemma execute_completed:
  assumes "progress W U S" "k \<in> completed U (journal (sv_store (snd (execute_fixed W U busy outer h case_id architecture S))))"
    and "k \<notin> completed U (journal (sv_store S))"
  shows "completes W U S k"
proof -
  let ?done = "\<lambda>V. completed U (journal (sv_store V))"
  have 1: "k \<in> ?done (snd (execute_case W U outer case_id architecture S))"
    using snd_execute_fixed [of W U busy outer h case_id architecture S] assms(2,3) guarded_completed by metis
  obtain r S1 where run: "run_case W U case_id architecture S = (r, S1)" by fastforce
  have k1: "k \<notin> ?done S1" using no_completion [OF idle.along_run_case assms(3)] run by (metis snd_conv)
  obtain receipt finished status where r: "r = Ret (receipt, finished)" "map_of receipt ''status'' = Some status"
    and k2: "k \<in> ?done (snd (settle W U outer status finished S1))"
    using snd_execute_case [OF run, of outer] 1 k1 by metis
  have pass: "status = PStr ''PASS''" "finished = length CASES"
    using k2 no_completion [OF idle.along_settle k1] by blast+
  obtain b s p rows cas digest where views: "session_view S = Some (b, s, p, rows)"
    "session_view S1 = Some (b, s, p, rows @ [(cas, digest)])" "finished = length rows + 1"
    using run unfolding r(1) by (rule run_case_Ret) blast
  have "progress W U S1" using noted_progress [OF assms(1)] run r pass(1) by blast
  then have rows: "distinct (map fst (rows @ [(cas, digest)]))" "set (map fst (rows @ [(cas, digest)])) \<subseteq> set CASES"
    "list_all (case_passed W U (b, s, p)) (rows @ [(cas, digest)])"
    using views(2) by (simp_all add: progress_def)
  have every: "set (map fst (rows @ [(cas, digest)])) = set CASES"
    using rows(1,2) views(3) pass(2) by (intro all_cases) simp_all
  have settled: "k \<in> ?done (snd (terminate W U outer ''COMPLETED'' S1))" using k2 pass by (simp add: settle_def)
  obtain val where "validate_binding U (PDict b) = Ret val" "replay_key U (PDict val) = Ret k"
    using subsetD [OF terminate_completed settled] k1 views(2) by auto
  moreover have "map_option ac_binding (sv_active S) = Some b" using views(1) by (auto simp: session_view_def)
  ultimately show ?thesis using rows(1,3) every completesI by metis
qed

text \<open>C3: A session is recorded as completed only after every case of the campaign passed: in every run from a new
  supervisor, whatever the clocks, the boundary and the storage answer, a step that makes the journal say
  COMPLETED for a replay key finds an active session with that key, in which each of the ten cases has,
  exactly once, a request of the boundary and an answer to it that was accepted as a receipt with status PASS.\<close>

theorem completion_needs_every_case:
  "\<not> (\<exists>S T k. reachable (\<lambda>S. \<exists>st n. S = new_supervisor st n) (sup_step W U) S \<and> sup_step W U S T \<and>
        k \<in> completed U (journal (sv_store T)) - completed U (journal (sv_store S)) \<and> \<not> completes W U S k)"
proof clarify
  fix S T k
  assume "reachable (\<lambda>S. \<exists>st n. S = new_supervisor st n) (sup_step W U) S" and step: "sup_step W U S T"
    and k: "k \<in> completed U (journal (sv_store T))" "k \<notin> completed U (journal (sv_store S))" and no: "\<not> completes W U S k"
  then have progress: "progress W U S" using lifecycle.reachable_inv by blast
  from step show False
  proof cases
    case (sup_open binding plan)
    then show ?thesis using k no_completion [OF idle.along_open k(2)] by simp
  next
    case (sup_execute busy outer h case_id architecture)
    then show ?thesis using execute_completed [OF progress] k no by blast
  next
    case (sup_request h)
    then show ?thesis using k no_completion [OF idle.along_request k(2)] by simp
  next
    case (sup_cancel outer)
    then show ?thesis using k no_completion [OF idle.along_terminate k(2)] by (simp add: cancel_locked_def)
  next
    case (sup_close outer)
    then show ?thesis using k no_completion [OF idle.along_terminate k(2)] by (simp add: close_session_def)
  next
    case sup_restart
    then show ?thesis using k by (simp add: new_supervisor_def)
  qed
qed

end
