(* ===== verification/Boundary.thy ===== *)
theory Boundary
  imports Prelude "HOL-Library.Word"
begin

unbundle bit_operations_syntax

text \<open>
  The decisions of \<open>live_linux_boundary.py\<close> that do not depend on the operating system: the seccomp program
  that the child installs before it runs, the identity that a peer must keep, and the credentials that
  a message of the supervisor's channel must carry.
\<close>

section \<open>The seccomp program\<close>

text \<open>An instruction of classic BPF: operation, jumps if true and if false, operand.\<close>

record insn =
  op :: "16 word"
  jt :: "8 word"
  jf :: "8 word"
  operand :: "32 word"

definition insn :: "16 word \<Rightarrow> 8 word \<Rightarrow> 8 word \<Rightarrow> 32 word \<Rightarrow> insn" where
  "insn c t f k = \<lparr>op = c, jt = t, jf = f, operand = k\<rparr>"

definition LOAD :: "16 word" where "LOAD = 0x20"

definition EQUAL :: "16 word" where "EQUAL = 0x15"

definition BITS :: "16 word" where "BITS = 0x45"

definition RET :: "16 word" where "RET = 0x06"

definition KILL :: "32 word" where "KILL = 0x80000000"

definition ALLOW :: "32 word" where "ALLOW = 0x7FFF0000"

definition EPERM :: "32 word" where "EPERM = 1"

definition ENOSYS :: "32 word" where "ENOSYS = 38"

definition errno_action :: "32 word \<Rightarrow> 32 word" where
  "errno_action n = 0x00050000 OR n"

text \<open>Architecture number, number of \<open>clone\<close>, and the system calls that are denied.\<close>

type_synonym arch_row = "32 word \<times> 32 word \<times> 32 word list"

definition ARCHES :: "(string \<times> arch_row) list" where
  "ARCHES =
     [(''x86_64'', 0xC000003E, 56, [41, 42, 49, 50, 101, 165, 166, 272, 308, 321, 323, 425, 426, 427, 435, 438]),
      (''aarch64'', 0xC00000B7, 220, [198, 203, 200, 201, 117, 40, 39, 97, 268, 280, 282, 425, 426, 427, 435, 438])]"

definition CLONE3 :: "32 word" where
  "CLONE3 = 435"

definition X32_BIT :: "32 word" where
  "X32_BIT = 0x40000000"

definition NAMESPACE_FLAGS :: "32 word list" where
  "NAMESPACE_FLAGS = [0x10000000, 0x20000, 0x20000000, 0x40000000, 0x04000000, 0x08000000, 0x02000000]"

definition NAMESPACE_MASK :: "32 word" where
  "NAMESPACE_MASK = fold (OR) NAMESPACE_FLAGS 0"

definition deny_rule :: "32 word \<Rightarrow> insn list" where
  "deny_rule n =
     [insn EQUAL 0 1 n, insn RET 0 0 (errno_action (if n = CLONE3 then ENOSYS else EPERM))]"

definition seccomp_program :: "string \<Rightarrow> insn list outcome" where
  "seccomp_program machine =
     (case map_of ARCHES machine of
        None \<Rightarrow> refuse ''LINUX_ARCHITECTURE_UNAVAILABLE''
      | Some (arch, clone, denied) \<Rightarrow>
          Ret ([insn LOAD 0 0 4, insn EQUAL 1 0 arch, insn RET 0 0 KILL, insn LOAD 0 0 0] @
            (if machine = ''x86_64'' then [insn BITS 0 1 X32_BIT, insn RET 0 0 KILL] else []) @
            concat (map deny_rule denied) @
            [insn EQUAL 0 3 clone, insn LOAD 0 0 16, insn BITS 0 1 NAMESPACE_MASK,
             insn RET 0 0 (errno_action EPERM), insn RET 0 0 ALLOW]))"

section \<open>What the program decides\<close>

text \<open>The data that the kernel shows to the filter, read by words at byte offsets 0, 4 and 16: the number of
  the system call, the architecture, and the low half of its first argument.\<close>

record syscall =
  sc_number :: "32 word"
  sc_arch :: "32 word"
  sc_first :: "32 word"

definition data_word :: "syscall \<Rightarrow> 32 word \<Rightarrow> 32 word option" where
  "data_word s offset =
     (if offset = 0 then Some (sc_number s) else if offset = 4 then Some (sc_arch s)
      else if offset = 16 then Some (sc_first s) else None)"

text \<open>The documented meaning of the four operations; \<open>None\<close> when a program runs off its end.\<close>

function run_filter :: "syscall \<Rightarrow> 32 word \<Rightarrow> insn list \<Rightarrow> 32 word option" where
  "run_filter s acc [] = None"
| "run_filter s acc (i # is) =
     (if op i = RET then Some (operand i)
      else if op i = LOAD then (case data_word s (operand i) of None \<Rightarrow> None | Some w \<Rightarrow> run_filter s w is)
      else if op i = EQUAL then run_filter s acc (drop (unat (if acc = operand i then jt i else jf i)) is)
      else if op i = BITS then run_filter s acc (drop (unat (if acc AND operand i \<noteq> 0 then jt i else jf i)) is)
      else None)"
  by pat_completeness auto
termination by (relation "measure (\<lambda>(s, acc, is). length is)") auto

text \<open>The policy that the program is meant to enforce.\<close>

definition policy :: "string \<Rightarrow> arch_row \<Rightarrow> syscall \<Rightarrow> 32 word" where
  "policy machine = (\<lambda>(arch, clone, denied) s.
     if sc_arch s \<noteq> arch then KILL
     else if machine = ''x86_64'' \<and> sc_number s AND X32_BIT \<noteq> 0 then KILL
     else if sc_number s = CLONE3 then errno_action ENOSYS
     else if sc_number s \<in> set denied then errno_action EPERM
     else if sc_number s = clone \<and> list_ex (\<lambda>flag. sc_first s AND flag \<noteq> 0) NAMESPACE_FLAGS then errno_action EPERM
     else ALLOW)"

section \<open>Peers\<close>

record peer_identity =
  pe_pid :: int
  pe_start :: int
  pe_parent :: int
  pe_uid :: "int list"
  pe_gid :: "int list"
  pe_capabilities :: "int list"
  pe_seccomp :: int
  pe_no_new_privs :: int
  pe_cgroup :: string
  pe_namespaces :: "(string \<times> int) list"

definition CHILD_UID :: int where
  "CHILD_UID = 65532"

text \<open>Dictionaries are equal when they have the same entries.\<close>

definition same_identity :: "peer_identity \<Rightarrow> peer_identity \<Rightarrow> bool" where
  "same_identity a b \<longleftrightarrow>
     a\<lparr>pe_namespaces := []\<rparr> = b\<lparr>pe_namespaces := []\<rparr> \<and> set (pe_namespaces a) = set (pe_namespaces b)"

definition validate_peer :: "peer_identity \<Rightarrow> peer_identity \<Rightarrow> (string \<times> int) list \<Rightarrow> unit outcome" where
  "validate_peer observed expected parent_namespaces =
     bind (require (same_identity observed expected \<and> 1 < pe_pid observed \<and> 0 < pe_start observed) ''PEER_IDENTITY_CHANGED'') (\<lambda>_.
     bind (require (pe_uid observed = replicate 4 CHILD_UID \<and> pe_gid observed = replicate 4 CHILD_UID \<and>
             pe_capabilities observed = replicate 5 0 \<and> pe_seccomp observed = 2 \<and> pe_no_new_privs observed = 1)
             ''PEER_PRIVILEGE_INVALID'') (\<lambda>_.
     bind (require (pe_cgroup observed = ''0::/planeon-live/session'' @ [CHR 0x0A]) ''PEER_CGROUP_MISMATCH'') (\<lambda>_.
       requires (and_also
         (Ret (set (map fst (pe_namespaces observed)) = {''user'', ''mnt'', ''pid'', ''net''}))
         (all_out (\<lambda>(k, parent). case map_of (pe_namespaces observed) k of
            None \<Rightarrow> Raise KeyError | Some own \<Rightarrow> Ret (own \<noteq> parent)) parent_namespaces)) ''PEER_NAMESPACE_MISMATCH'')))"

section \<open>Credentials\<close>

text \<open>A native integer: four bytes, the lowest first.\<close>

definition native_int :: "char list \<Rightarrow> int" where
  "native_int bs = sint (horner_sum of_char 256 bs :: 32 word)"

fun native_ints :: "char list \<Rightarrow> int list" where
  "native_ints (a # b # c # d # rest) = native_int [a, b, c, d] # native_ints rest"
| "native_ints _ = []"

type_synonym control_message = "int \<times> int \<times> char list"

definition SOL_SOCKET :: int where
  "SOL_SOCKET = 1"

definition SCM_RIGHTS :: int where
  "SCM_RIGHTS = 1"

definition SCM_CREDENTIALS :: int where
  "SCM_CREDENTIALS = 2"

definition TRUNCATED :: "32 word" where
  "TRUNCATED = 0x20 OR 0x08"

definition is_rights :: "control_message \<Rightarrow> bool" where
  "is_rights = (\<lambda>(level, kind, raw). level = SOL_SOCKET \<and> kind = SCM_RIGHTS)"

definition is_credentials :: "control_message \<Rightarrow> bool" where
  "is_credentials = (\<lambda>(level, kind, raw). level = SOL_SOCKET \<and> kind = SCM_CREDENTIALS \<and> length raw = 12)"

text \<open>The descriptors that were closed, the credentials found, and whether anything else was found.\<close>

definition control_step ::
  "int list \<times> int list list \<times> bool \<Rightarrow> control_message \<Rightarrow> int list \<times> int list list \<times> bool" where
  "control_step = (\<lambda>(closed, values, unexpected) m.
     if is_rights m then (closed @ native_ints (snd (snd m)), values, True)
     else if is_credentials m then (closed, values @ [native_ints (snd (snd m))], unexpected)
     else (closed, values, True))"

definition credentials :: "control_message list \<Rightarrow> 32 word \<Rightarrow> int list outcome \<times> int list" where
  "credentials ancillary flags =
     (case foldl control_step ([], [], False) ancillary of
        (closed, values, unexpected) \<Rightarrow>
          (bind (require (flags AND TRUNCATED = 0 \<and> \<not> unexpected \<and> length values = 1) ''PEER_CHANNEL_INVALID'')
             (\<lambda>_. Ret (hd values)), closed))"

end
