(* ===== verification/BoundaryLaws.thy ===== *)
theory BoundaryLaws
  imports Boundary
begin

unbundle bit_operations_syntax

text \<open>The seccomp program decides every system call as the policy says; received descriptors never pass.\<close>

section \<open>The filter\<close>

lemma op_codes [simp]: "LOAD \<noteq> RET" "EQUAL \<noteq> RET" "EQUAL \<noteq> LOAD" "BITS \<noteq> RET" "BITS \<noteq> LOAD" "BITS \<noteq> EQUAL"
  by (simp_all add: LOAD_def EQUAL_def BITS_def RET_def)

lemma run_ret [simp]: "run_filter s acc (insn RET t f k # is) = Some k"
  by (simp add: insn_def)

lemma run_load [simp]:
  "run_filter s acc (insn LOAD t f k # is) = (case data_word s k of None \<Rightarrow> None | Some w \<Rightarrow> run_filter s w is)"
  by (simp add: insn_def)

lemma run_equal [simp]:
  "run_filter s acc (insn EQUAL t f k # is) = run_filter s acc (drop (unat (if acc = k then t else f)) is)"
  by (simp add: insn_def)

lemma run_bits [simp]:
  "run_filter s acc (insn BITS t f k # is) = run_filter s acc (drop (unat (if acc AND k \<noteq> 0 then t else f)) is)"
  by (simp add: insn_def)

declare run_filter.simps [simp del]

lemma run_denied:
  "run_filter s acc (concat (map deny_rule denied) @ rest) =
     (if acc \<in> set denied then Some (errno_action (if acc = CLONE3 then ENOSYS else EPERM)) else run_filter s acc rest)"
  by (induction denied) (auto simp: deny_rule_def)

lemma and_or_zero: "w AND (a OR b) = 0 \<longleftrightarrow> w AND a = 0 \<and> w AND b = 0" for w a b :: "32 word"
  by (simp only: bit.conj_disj_distrib or_eq_0_iff)

lemma and_fold_or: "w AND fold (OR) fs m = 0 \<longleftrightarrow> w AND m = 0 \<and> list_all (\<lambda>f. w AND f = 0) fs" for w m :: "32 word"
proof (induction fs arbitrary: m)
  case (Cons f fs)
  have "w AND fold (OR) (f # fs) m = w AND fold (OR) fs (f OR m)" by simp
  with Cons show ?case by (auto simp: and_or_zero)
qed simp

lemma namespace_flags: "w AND NAMESPACE_MASK = 0 \<longleftrightarrow> \<not> list_ex (\<lambda>flag. w AND flag \<noteq> 0) NAMESPACE_FLAGS"
  by (simp add: NAMESPACE_MASK_def and_fold_or list_all_iff list_ex_iff)

lemma clone_denied: "list_all (\<lambda>(m, arch, clone, denied). CLONE3 \<in> set denied \<and> clone \<notin> set denied) ARCHES"
  by (simp add: ARCHES_def CLONE3_def)

text \<open>C12: The seccomp program, run by the documented rules of classic BPF, never runs off its end and decides every
  system call of every architecture it is built for as the policy says: kill for a foreign
  architecture and for x32, ENOSYS for \<open>clone3\<close>, EPERM for the denied calls and for \<open>clone\<close> with any
  namespace flag, and allow for the rest.\<close>

theorem seccomp_enforces_policy:
  "case seccomp_program machine of
     Raise e \<Rightarrow> map_of ARCHES machine = None
   | Ret code \<Rightarrow>
       (case map_of ARCHES machine of
          None \<Rightarrow> False
        | Some row \<Rightarrow> run_filter s 0 code = Some (policy machine row s))"
proof (cases "map_of ARCHES machine")
  case None
  then show ?thesis by (simp add: seccomp_program_def refuse_def)
next
  case (Some row)
  obtain arch clone denied where row: "row = (arch, clone, denied)" by (cases row)
  have "(machine, row) \<in> set ARCHES" using Some by (rule map_of_SomeD)
  then have d: "CLONE3 \<in> set denied" "clone \<notin> set denied" using clone_denied by (auto simp: row list_all_iff)
  show ?thesis
    using d by (simp add: seccomp_program_def Some row policy_def data_word_def run_denied namespace_flags X32_BIT_def)
qed

end
