(* ===== verification/Kernel.thy ===== *)
theory Kernel
  imports Admission ReplayStore
begin

unbundle bit_operations_syntax

text \<open>
  What \<open>live_proxy_server.py\<close> decodes of the kernel's own reports, before anything is compared with enrolled data:
  the SELinux status page, a verity measurement, the auxiliary vector, the loadable segments of an ELF
  file, the memory maps and the status of a process, mount pins and cgroup members.
\<close>

section \<open>Bytes\<close>

text \<open>\<open>struct\<close> with little-endian fields: the unsigned integer of some bytes at an offset.\<close>

definition le_nat :: "bytes \<Rightarrow> nat" where
  "le_nat bs = horner_sum code 256 bs"

definition word_at :: "nat \<Rightarrow> nat \<Rightarrow> bytes \<Rightarrow> nat" where
  "word_at offset n raw = le_nat (take n (drop offset raw))"

definition slice :: "nat \<Rightarrow> nat \<Rightarrow> bytes \<Rightarrow> bytes" where
  "slice i j s = take (j - i) (drop i s)"

text \<open>\<open>raw.splitlines()\<close> and \<open>value.split()\<close> on bytes.\<close>

definition is_eol :: "char \<Rightarrow> bool" where
  "is_eol c \<longleftrightarrow> c = CHR 0x0A \<or> c = CHR 0x0D"

definition lines_of :: "bytes \<Rightarrow> bytes list" where
  "lines_of raw = map (takeWhile (\<lambda>c. \<not> is_eol c)) (split_lines raw)"

definition is_space :: "char \<Rightarrow> bool" where
  "is_space c \<longleftrightarrow> in_range 9 13 c \<or> c = CHR '' ''"

function split_words :: "bytes \<Rightarrow> bytes list" where
  "split_words s =
     (case dropWhile is_space s of
        [] \<Rightarrow> []
      | c # t \<Rightarrow> takeWhile (\<lambda>d. \<not> is_space d) (c # t) # split_words (dropWhile (\<lambda>d. \<not> is_space d) (c # t)))"
  by pat_completeness auto
termination
proof (relation "measure length", goal_cases)
  case (2 s c t)
  then have "length (c # t) \<le> length s" by (metis length_dropWhile_le)
  moreover have "\<not> is_space c" using 2 by (metis hd_dropWhile list.distinct(1) list.sel(1))
  ultimately show ?case using length_dropWhile_le [of "\<lambda>d. \<not> is_space d" t] by simp
qed simp

declare split_words.simps [simp del]

text \<open>The value of a decimal or lower-case hexadecimal literal that a pattern has admitted.\<close>

definition hex_nat :: "bytes \<Rightarrow> nat" where
  "hex_nat = nat_digits 16 hextet_value"

definition dec_int :: "bytes \<Rightarrow> int" where
  "dec_int s = (case s of c # t \<Rightarrow> if c = CHR ''-'' then - int (digits_value t) else int (digits_value s) | [] \<Rightarrow> 0)"

text \<open>\<open>0|[1-9][0-9]{0,n}\<close>\<close>

definition decimal_within :: "nat \<Rightarrow> bytes \<Rightarrow> bool" where
  "decimal_within n s \<longleftrightarrow> s = ''0'' \<or> s \<noteq> [] \<and> length s \<le> n + 1 \<and> list_all digit s \<and> hd s \<noteq> CHR ''0''"

text \<open>\<open>[1-9][0-9]{0,9}\<close>\<close>

definition positive_number :: "bytes \<Rightarrow> bool" where
  "positive_number s \<longleftrightarrow> decimal_within 9 s \<and> s \<noteq> ''0''"

section \<open>Status page, measurement, auxiliary vector\<close>

record selinux_status =
  se_version :: nat
  se_sequence :: nat
  se_enforcing :: nat
  se_policyload :: nat
  se_deny_unknown :: nat

definition selinux_status_fields :: "bytes \<Rightarrow> selinux_status outcome" where
  "selinux_status_fields raw =
     bind (require (length raw = 20) ''KERNEL_STATUS_LAYOUT'') (\<lambda>_.
     (let s = \<lparr>se_version = word_at 0 4 raw, se_sequence = word_at 4 4 raw, se_enforcing = word_at 8 4 raw,
            se_policyload = word_at 12 4 raw, se_deny_unknown = word_at 16 4 raw\<rparr> in
      bind (require (se_version s = 1 \<and> se_sequence s mod 2 = 0 \<and> se_enforcing s = 1 \<and> se_deny_unknown s = 1 \<and>
              0 < se_policyload s) ''KERNEL_STATUS_INVALID'') (\<lambda>_. Ret s)))"

definition verity_measurement :: "bytes \<Rightarrow> string outcome" where
  "verity_measurement raw =
     bind (require (length raw = 36) ''KERNEL_VERITY_LAYOUT'') (\<lambda>_.
     bind (require (word_at 0 2 raw = 1 \<and> word_at 2 2 raw = 32) ''KERNEL_VERITY_ALGORITHM'') (\<lambda>_.
       Ret (''sha256:'' @ hexdigest (drop 4 raw))))"

type_synonym auxv = "(nat \<times> nat) list"

function auxv_rows :: "auxv \<Rightarrow> bytes \<Rightarrow> auxv outcome" where
  "auxv_rows known raw =
     (if raw = [] then refuse ''KERNEL_AUXV_TERMINATOR''
      else (let key = word_at 0 8 raw; entry = word_at 8 8 raw; rest = drop 16 raw in
        if key = 0 then bind (require (entry = 0 \<and> rest = []) ''KERNEL_AUXV_TERMINATOR'') (\<lambda>_. Ret known)
        else if map_of known key \<noteq> None then refuse ''KERNEL_AUXV_DUPLICATE''
        else auxv_rows (known @ [(key, entry)]) rest))"
  by pat_completeness auto
termination by (relation "measure (\<lambda>(known, raw). length raw)") auto

declare auxv_rows.simps [simp del]

definition PAGE_SIZES :: "nat list" where
  "PAGE_SIZES = [4096, 16384, 65536]"

definition native_auxv :: "bytes \<Rightarrow> auxv outcome" where
  "native_auxv raw =
     bind (require (16 \<le> length raw \<and> length raw \<le> 65536 \<and> length raw mod 16 = 0) ''KERNEL_AUXV_LAYOUT'') (\<lambda>_.
     bind (auxv_rows [] raw) (\<lambda>rows.
     bind (require (case (map_of rows 6, map_of rows 33) of
               (Some page, Some vdso) \<Rightarrow> page \<in> set PAGE_SIZES \<and> 0 < vdso \<and> vdso mod page = 0
             | _ \<Rightarrow> False) ''KERNEL_AUXV_REQUIRED'') (\<lambda>_. Ret rows)))"

section \<open>Code segments of an ELF file\<close>

record segment =
  sg_offset :: nat
  sg_length :: nat
  sg_permissions :: string
  sg_address :: nat

record layout =
  ly_kind :: nat
  ly_interpreter :: "string option"
  ly_segments :: "segment list"

definition MACHINES :: "string list" where
  "MACHINES = [''x86_64'', ''aarch64'']"

definition machine_number :: "string \<Rightarrow> nat" where
  "machine_number machine = (if machine = ''x86_64'' then 62 else 183)"

definition FILE_PATH :: rx where
  "FILE_PATH = Seq (Cls (\<lambda>c. c = CHR ''/''))
     (plus1 (Cls (\<lambda>c. alnum c \<or> c \<in> {CHR ''_'', CHR ''.'', CHR ''/'', CHR ''+'', CHR ''-''})))"

definition plain_parts :: "string \<Rightarrow> bool" where
  "plain_parts path \<longleftrightarrow> list_all (\<lambda>p. p \<notin> {[], ''.'', ''..''}) (split_on CHR ''/'' (drop 1 path))"

definition elf_header :: "bytes \<Rightarrow> string \<Rightarrow> unit outcome" where
  "elf_header raw machine =
     (let ident = take 16 raw; phoff = word_at 32 8 raw; count = word_at 56 2 raw in
      require (take 4 ident = [CHR 0x7F, CHR ''E'', CHR ''L'', CHR ''F''] \<and> map code (take 3 (drop 4 ident)) = [2, 1, 1] \<and>
        code (ident ! 7) \<in> {0, 3} \<and> drop 8 ident = replicate 8 CHR 0x00 \<and> word_at 16 2 raw \<in> {2, 3} \<and>
        word_at 20 4 raw = 1 \<and> word_at 48 4 raw = 0 \<and> word_at 18 2 raw = machine_number machine \<and>
        word_at 52 2 raw = 64 \<and> word_at 54 2 raw = 56 \<and> 1 \<le> count \<and> count \<le> 128 \<and> 64 \<le> phoff \<and> phoff mod 8 = 0 \<and>
        phoff + count * 56 \<le> length raw) ''KERNEL_ELF_LAYOUT'')"

record program_header =
  ph_tag :: nat
  ph_flags :: nat
  ph_offset :: nat
  ph_address :: nat
  ph_size :: nat
  ph_memory :: nat
  ph_alignment :: nat

definition program_header_at :: "bytes \<Rightarrow> nat \<Rightarrow> program_header" where
  "program_header_at raw at =
     \<lparr>ph_tag = word_at at 4 raw, ph_flags = word_at (at + 4) 4 raw, ph_offset = word_at (at + 8) 8 raw,
      ph_address = word_at (at + 16) 8 raw, ph_size = word_at (at + 32) 8 raw, ph_memory = word_at (at + 40) 8 raw,
      ph_alignment = word_at (at + 48) 8 raw\<rparr>"

definition interpreter_of :: "bytes \<Rightarrow> program_header \<Rightarrow> string option \<Rightarrow> string outcome" where
  "interpreter_of raw h found =
     bind (require (found = None \<and> 2 \<le> ph_size h \<and> ph_size h \<le> 4096) ''KERNEL_ELF_INTERPRETER'') (\<lambda>_.
     (let data = slice (ph_offset h) (ph_offset h + ph_size h) raw in
      bind (require (last data = CHR 0x00 \<and> CHR 0x00 \<notin> set (butlast data)) ''KERNEL_ELF_INTERPRETER'') (\<lambda>_.
      bind (require (fullmatch FILE_PATH (butlast data)) ''KERNEL_ELF_INTERPRETER'') (\<lambda>_.
      bind (require (plain_parts (butlast data)) ''KERNEL_ELF_INTERPRETER'') (\<lambda>_. Ret (butlast data))))))"

definition round_up :: "nat \<Rightarrow> nat \<Rightarrow> nat" where
  "round_up page n = (n + page - 1) div page * page"

definition load_layout :: "nat \<Rightarrow> program_header \<Rightarrow> nat \<Rightarrow> bool" where
  "load_layout page h last_end \<longleftrightarrow>
     ph_flags h \<le> 7 \<and> ph_size h \<le> ph_memory h \<and> 0 < ph_memory h \<and> last_end \<le> ph_address h \<and>
     (ph_alignment h \<in> {0, 1} \<or> ph_alignment h AND (ph_alignment h - 1) = 0) \<and>
     (ph_alignment h \<le> 1 \<or> ph_address h mod ph_alignment h = ph_offset h mod ph_alignment h) \<and>
     ph_address h mod page = ph_offset h mod page"

definition code_segment :: "nat \<Rightarrow> program_header \<Rightarrow> segment" where
  "code_segment page h =
     (let start = ph_offset h - ph_offset h mod page in
      \<lparr>sg_offset = start, sg_length = round_up page (ph_offset h + ph_size h) - start,
       sg_permissions = (if bit (ph_flags h) 2 then ''r'' else ''-'') @ ''-xp'',
       sg_address = ph_address h - ph_address h mod page\<rparr>)"

type_synonym elf_state = "segment list \<times> string option \<times> nat"

definition elf_step :: "bytes \<Rightarrow> nat \<Rightarrow> elf_state \<Rightarrow> program_header \<Rightarrow> elf_state outcome" where
  "elf_step raw page = (\<lambda>(segments, interpreter, last_end) h.
     bind (require (ph_offset h + ph_size h \<le> length raw \<and> ph_address h + ph_memory h \<le> 2 ^ 64) ''KERNEL_ELF_BOUNDS'') (\<lambda>_.
     bind (require (ph_tag h \<noteq> 0x6474e551 \<or> \<not> bit (ph_flags h) 0) ''KERNEL_ELF_EXECUTABLE_STACK'') (\<lambda>_.
     bind (if ph_tag h = 3 then bind (interpreter_of raw h interpreter) (\<lambda>i. Ret (Some i)) else Ret interpreter) (\<lambda>interpreter'.
       if ph_tag h \<noteq> 1 then Ret (segments, interpreter', last_end)
       else
         bind (require (load_layout page h last_end) ''KERNEL_ELF_LOAD_LAYOUT'') (\<lambda>_.
         (let last_end' = ph_address h + ph_memory h in
          if \<not> bit (ph_flags h) 0 then Ret (segments, interpreter', last_end')
          else
            bind (require (\<not> bit (ph_flags h) 1 \<and> 0 < ph_size h \<and> length segments < 16) ''KERNEL_ELF_EXECUTABLE_LOAD'') (\<lambda>_.
            bind (require (round_up page (ph_offset h + ph_memory h) = round_up page (ph_offset h + ph_size h) \<and>
                    sg_length (code_segment page h) \<le> 67108864) ''KERNEL_ELF_ANONYMOUS_CODE'') (\<lambda>_.
              Ret (segments @ [code_segment page h], interpreter', last_end')))))))))"

definition elf_code_layout :: "bytes \<Rightarrow> string \<Rightarrow> nat \<Rightarrow> layout outcome" where
  "elf_code_layout raw machine page =
     bind (require (64 \<le> length raw \<and> length raw \<le> 67108864) ''KERNEL_ELF_SIZE'') (\<lambda>_.
     bind (require (machine \<in> set MACHINES \<and> page \<in> set PAGE_SIZES) ''KERNEL_ELF_ABI'') (\<lambda>_.
     bind (elf_header raw machine) (\<lambda>_.
     (let headers = map (\<lambda>i. program_header_at raw (word_at 32 8 raw + i * 56)) [0..<word_at 56 2 raw] in
      bind (fold_out (elf_step raw page) ([], None, 0) headers) (\<lambda>(segments, interpreter, _).
      bind (require (segments \<noteq> []) ''KERNEL_ELF_CODE_MISSING'') (\<lambda>_.
      bind (require (distinct (map (\<lambda>s. (sg_offset s, sg_length s)) segments)) ''KERNEL_ELF_DUPLICATE_CODE'') (\<lambda>_.
        Ret \<lparr>ly_kind = word_at 16 2 raw, ly_interpreter = interpreter, ly_segments = segments\<rparr>)))))))"

section \<open>The maps of a process\<close>

record mapping =
  mp_path :: string
  mp_start :: nat
  mp_end :: nat
  mp_permissions :: string
  mp_offset :: nat
  mp_major :: nat
  mp_minor :: nat
  mp_inode :: nat

text \<open>A line of the maps: the mapping, and its path when it has one.\<close>

definition run_of :: "(char \<Rightarrow> bool) \<Rightarrow> nat \<Rightarrow> nat \<Rightarrow> bytes \<Rightarrow> (bytes \<times> bytes) option" where
  "run_of p least most s =
     (let r = takeWhile p s in if least \<le> length r \<and> length r \<le> most then Some (r, dropWhile p s) else None)"

definition expect :: "bytes \<Rightarrow> bytes \<Rightarrow> bytes option" where
  "expect prefix s = (if starts_with prefix s then Some (drop (length prefix) s) else None)"

definition hex_field :: "nat \<Rightarrow> nat \<Rightarrow> bytes \<Rightarrow> bytes \<Rightarrow> (nat \<times> bytes) option" where
  "hex_field least most separator s =
     Option.bind (run_of lower_hex least most s) (\<lambda>(r, t).
     Option.bind (expect separator t) (\<lambda>u. Some (hex_nat r, u)))"

definition permissions_field :: "bytes \<Rightarrow> (bytes \<times> bytes) option" where
  "permissions_field s =
     (case s of
        r # w # x # p # t \<Rightarrow>
          if r \<in> {CHR ''r'', CHR ''-''} \<and> w \<in> {CHR ''w'', CHR ''-''} \<and> x \<in> {CHR ''x'', CHR ''-''} \<and> p \<in> {CHR ''p'', CHR ''s''}
          then map_option (\<lambda>u. ([r, w, x, p], u)) (expect '' '' t) else None
      | _ \<Rightarrow> None)"

definition map_line :: "bytes \<Rightarrow> (mapping \<times> bytes option) option" where
  "map_line line =
     Option.bind (hex_field 1 16 ''-'' line) (\<lambda>(start, a).
     Option.bind (hex_field 1 16 '' '' a) (\<lambda>(finish, b).
     Option.bind (permissions_field b) (\<lambda>(permissions, c).
     Option.bind (hex_field 1 16 '' '' c) (\<lambda>(offset, d).
     Option.bind (hex_field 2 8 '':'' d) (\<lambda>(major, e).
     Option.bind (hex_field 2 8 '' '' e) (\<lambda>(minor, f).
     Option.bind (run_of digit 1 20 (dropWhile (\<lambda>k. k = CHR '' '') f)) (\<lambda>(inode, g).
       (let m = \<lparr>mp_path = [], mp_start = start, mp_end = finish, mp_permissions = permissions, mp_offset = offset,
              mp_major = major, mp_minor = minor, mp_inode = digits_value inode\<rparr>;
            path = dropWhile (\<lambda>k. k = CHR '' '') g in
        if g = [] then Some (m, None) else if hd g = CHR '' '' then Some (m, Some path) else None))))))))"

definition writable :: "string \<Rightarrow> bool" where
  "writable permissions \<longleftrightarrow> CHR ''w'' \<in> set permissions"

definition executable :: "string \<Rightarrow> bool" where
  "executable permissions \<longleftrightarrow> CHR ''x'' \<in> set permissions"

record kernel_map =
  km_start :: nat
  km_end :: nat
  km_permissions :: string

type_synonym maps_state = "mapping list \<times> (string \<times> kernel_map) list \<times> nat"

definition special_map :: "string \<Rightarrow> nat \<Rightarrow> (string \<times> kernel_map) list \<Rightarrow> mapping \<Rightarrow> string \<Rightarrow> kernel_map outcome" where
  "special_map machine vdso special m name =
     bind (require (map_of special name = None \<and> mp_offset m = 0 \<and> mp_major m = 0 \<and> mp_minor m = 0 \<and> mp_inode m = 0)
             ''KERNEL_MAPS_SPECIAL'') (\<lambda>_.
     bind (if name = ''[vdso]'' then
             require (mp_start m = vdso \<and> mp_permissions m = ''r-xp'' \<and> mp_end m - mp_start m \<le> 1048576) ''KERNEL_MAPS_VDSO''
           else
             require (machine = ''x86_64'' \<and> mp_start m = 0xffffffffff600000 \<and> mp_end m - mp_start m = 4096 \<and>
               mp_permissions m = ''--xp'') ''KERNEL_MAPS_VSYSCALL'') (\<lambda>_.
       Ret \<lparr>km_start = mp_start m, km_end = mp_end m, km_permissions = mp_permissions m\<rparr>))"

definition maps_step :: "string \<Rightarrow> nat \<Rightarrow> nat \<Rightarrow> maps_state \<Rightarrow> bytes \<Rightarrow> maps_state outcome" where
  "maps_step machine page vdso = (\<lambda>(maps, special, previous_end) line.
     bind (require (length line \<le> 8192) ''KERNEL_MAPS_LINE_SIZE'') (\<lambda>_.
     (case map_line line of
        None \<Rightarrow> refuse ''KERNEL_MAPS_LAYOUT''
      | Some (m, path) \<Rightarrow>
          bind (require (previous_end \<le> mp_start m \<and> mp_start m < mp_end m \<and> mp_start m mod page = 0 \<and>
                  mp_end m mod page = 0 \<and> mp_offset m mod page = 0 \<and> mp_inode m < 2 ^ 64 \<and>
                  \<not> (writable (mp_permissions m) \<and> executable (mp_permissions m))) ''KERNEL_MAPS_RANGE'') (\<lambda>_.
            if \<not> executable (mp_permissions m) then Ret (maps, special, mp_end m)
            else (case path of
                None \<Rightarrow> refuse ''KERNEL_MAPS_ANONYMOUS_CODE''
              | Some name \<Rightarrow>
                  bind (require (length maps + length special < 256) ''KERNEL_MAPS_ANONYMOUS_CODE'') (\<lambda>_.
                    if name \<in> {''[vdso]'', ''[vsyscall]''} then
                      bind (special_map machine vdso special m name) (\<lambda>k. Ret (maps, special @ [(name, k)], mp_end m))
                    else
                      bind (require (fullmatch FILE_PATH name \<and> 0 < mp_inode m) ''KERNEL_MAPS_FILE_PATH'') (\<lambda>_.
                      bind (require (plain_parts name) ''KERNEL_MAPS_FILE_PATH'') (\<lambda>_.
                        Ret (maps @ [m\<lparr>mp_path := name\<rparr>], special, mp_end m)))))))))"

record code_maps =
  cm_files :: "mapping list"
  cm_kernel :: "(string \<times> kernel_map) list"
  cm_page :: nat

definition proc_code_maps :: "bytes \<Rightarrow> string \<Rightarrow> bytes \<Rightarrow> code_maps outcome" where
  "proc_code_maps raw machine auxv =
     bind (require (0 < length raw \<and> length raw \<le> 1048576 \<and> last raw = CHR 0x0A \<and> CHR 0x00 \<notin> set raw \<and> CHR 0x0D \<notin> set raw)
             ''KERNEL_MAPS_SIZE'') (\<lambda>_.
     bind (require (machine \<in> set MACHINES) ''KERNEL_MAPS_ABI'') (\<lambda>_.
     bind (native_auxv auxv) (\<lambda>rows.
     (let page = the (map_of rows 6); vdso = the (map_of rows 33); lines = lines_of raw in
      bind (require (0 < length lines \<and> length lines \<le> 16384) ''KERNEL_MAPS_COUNT'') (\<lambda>_.
      bind (fold_out (maps_step machine page vdso) ([], [], 0) lines) (\<lambda>(maps, special, _).
      bind (require (maps \<noteq> [] \<and> map_of special ''[vdso]'' \<noteq> None) ''KERNEL_MAPS_CODE_MISSING'') (\<lambda>_.
        Ret \<lparr>cm_files = maps, cm_kernel = special, cm_page = page\<rparr>)))))))"

end
