(* ===== verification/KernelProcess.thy ===== *)
theory KernelProcess
  imports Kernel
begin

text \<open>
  The rest of what \<open>live_proxy_server.py\<close> decodes of the kernel: the status of a process, mount pins, cgroup members;
  and the comparison of executable mappings with the layouts of enrolled files (\<open>_KernelCodeFiles\<close>).
\<close>

section \<open>The status of a process\<close>

text \<open>\<open>s.partition(sep)\<close>: the separator is found, what precedes it, what follows it.\<close>

fun partition_at :: "bytes \<Rightarrow> bytes \<Rightarrow> bool \<times> bytes \<times> bytes" where
  "partition_at sep [] = (False, [], [])"
| "partition_at sep (c # s) =
     (if starts_with sep (c # s) then (True, [], drop (length sep) (c # s))
      else (case partition_at sep s of (found, a, b) \<Rightarrow> (found, c # a, b)))"

text \<open>\<open>s.rfind(sep)\<close>\<close>

definition rfind :: "bytes \<Rightarrow> bytes \<Rightarrow> int" where
  "rfind sep s =
     (case filter (\<lambda>i. starts_with sep (drop i s)) [0..<Suc (length s)] of [] \<Rightarrow> -1 | is \<Rightarrow> int (last is))"

definition signed_decimal :: "bytes \<Rightarrow> bool" where
  "signed_decimal s \<longleftrightarrow> decimal_within 19 s \<or> (case s of [] \<Rightarrow> False | c # t \<Rightarrow> c = CHR ''-'' \<and> decimal_within 19 t)"

record stat_fields =
  sf_pid :: int
  sf_parent :: int
  sf_threads :: int
  sf_start :: int

definition process_stat :: "bytes \<Rightarrow> stat_fields outcome" where
  "process_stat raw =
     bind (require (0 < length raw \<and> length raw \<le> 8192 \<and> last raw = CHR 0x0A \<and> CHR 0x00 \<notin> set raw)
             ''KERNEL_PROCESS_STAT_LAYOUT'') (\<lambda>_.
     (case partition_at '' ('' raw of
        (found, prefix, rest) \<Rightarrow>
          (let finish = rfind '') '' rest in
           bind (require (found \<and> positive_number prefix \<and> 0 < finish \<and> finish \<le> 256) ''KERNEL_PROCESS_STAT_LAYOUT'') (\<lambda>_.
           (let fields = split_on CHR '' '' (butlast (drop (nat finish + 2) rest)) in
            bind (require (length fields = 50 \<and> hd fields \<in> {''R'', ''S'', ''D'', ''T'', ''t'', ''I''} \<and>
                    list_all signed_decimal (tl fields)) ''KERNEL_PROCESS_STAT_LAYOUT'') (\<lambda>_.
            (let numbers = map dec_int (tl fields) in
             bind (require (list_all (\<lambda>v. - (2 ^ 63) \<le> v \<and> v < 2 ^ 64) numbers) ''KERNEL_PROCESS_STAT_RANGE'') (\<lambda>_.
             (let s = \<lparr>sf_pid = dec_int prefix, sf_parent = numbers ! 0, sf_threads = numbers ! 16, sf_start = numbers ! 18\<rparr> in
              bind (require (1 < sf_pid s \<and> sf_pid s < 2 ^ 31 \<and> 0 < sf_parent s \<and> sf_parent s < 2 ^ 31 \<and>
                      1 \<le> sf_threads s \<and> sf_threads s \<le> 4096 \<and> 0 < sf_start s \<and> sf_start s \<le> 9007199254740991)
                      ''KERNEL_PROCESS_STAT_RANGE'') (\<lambda>_. Ret s))))))))))"

type_synonym status_rows = "(bytes \<times> bytes list) list"

definition status_key :: "bytes \<Rightarrow> bool" where
  "status_key key \<longleftrightarrow>
     key \<noteq> [] \<and> length key \<le> 64 \<and> list_all (\<lambda>c. alnum c \<or> c = CHR ''_'') key \<and> \<not> digit (hd key)"

definition status_row :: "status_rows \<Rightarrow> bytes \<Rightarrow> status_rows outcome" where
  "status_row rows line =
     (case partition_at '':'' line of
        (colon, key, field_value) \<Rightarrow>
          bind (require (colon \<and> status_key key \<and> map_of rows key = None) ''KERNEL_PROCESS_STATUS_LAYOUT'') (\<lambda>_.
            Ret (rows @ [(key, split_words field_value)])))"

definition row_values :: "status_rows \<Rightarrow> string \<Rightarrow> bytes list" where
  "row_values rows key = (case map_of rows key of None \<Rightarrow> [] | Some vs \<Rightarrow> vs)"

definition integers :: "status_rows \<Rightarrow> string \<Rightarrow> int \<Rightarrow> int \<Rightarrow> nat \<Rightarrow> int list outcome" where
  "integers rows key minimum maximum count =
     (let values = row_values rows key in
      bind (require (length values = count \<and> list_all (decimal_within 15) values) ''KERNEL_PROCESS_STATUS_FIELD'') (\<lambda>_.
      (let numbers = map dec_int values in
       bind (require (list_all (\<lambda>v. minimum \<le> v \<and> v \<le> maximum) numbers) ''KERNEL_PROCESS_STATUS_RANGE'') (\<lambda>_.
         Ret numbers))))"

definition MAX_PID :: int where
  "MAX_PID = 2147483647"

definition integers_are :: "status_rows \<Rightarrow> string \<Rightarrow> int \<Rightarrow> int \<Rightarrow> int \<Rightarrow> bool outcome" where
  "integers_are rows key minimum maximum expected =
     bind (integers rows key minimum maximum 1) (\<lambda>ns. Ret (ns = [expected]))"

definition status_agrees :: "status_rows \<Rightarrow> stat_fields \<Rightarrow> bool outcome" where
  "status_agrees rows s =
     and_also (bind (integers rows ''Pid'' 2 MAX_PID 1) (\<lambda>a. bind (integers rows ''Tgid'' 2 MAX_PID 1) (\<lambda>b.
       Ret (a = b \<and> b = [sf_pid s]))))
     (and_also (integers_are rows ''PPid'' 1 MAX_PID (sf_parent s))
     (and_also (integers_are rows ''Threads'' 1 4096 (sf_threads s))
       (integers_are rows ''TracerPid'' 0 0 0)))"

definition capability :: "status_rows \<Rightarrow> string \<Rightarrow> nat outcome" where
  "capability rows key =
     (case row_values rows key of
        [v] \<Rightarrow> bind (require (length v = 16 \<and> list_all lower_hex v) ''KERNEL_PROCESS_CAPABILITIES'') (\<lambda>_. Ret (hex_nat v))
      | _ \<Rightarrow> refuse ''KERNEL_PROCESS_CAPABILITIES'')"

record process_fields =
  pf_stat :: stat_fields
  pf_uid :: "int list"
  pf_gid :: "int list"
  pf_namespace_pids :: "int list"
  pf_groups :: "int list"
  pf_capabilities :: "nat list"
  pf_seccomp :: int
  pf_no_new_privs :: int

definition status_rows_of :: "bytes \<Rightarrow> status_rows outcome" where
  "status_rows_of status =
     bind (require (0 < length status \<and> length status \<le> 65536 \<and> last status = CHR 0x0A \<and> CHR 0x00 \<notin> set status \<and>
             length (lines_of status) \<le> 512) ''KERNEL_PROCESS_STATUS_LAYOUT'') (\<lambda>_.
       fold_out status_row [] (lines_of status))"

definition namespace_chain :: "status_rows \<Rightarrow> stat_fields \<Rightarrow> int list outcome" where
  "namespace_chain rows s =
     (let size = length (row_values rows ''NSpid'') in
      bind (require (1 \<le> size \<and> size \<le> 32) ''KERNEL_PROCESS_PID_NAMESPACE'') (\<lambda>_.
      bind (integers rows ''NSpid'' 1 MAX_PID size) (\<lambda>chain.
      bind (requires (and_also (Ret (hd chain = sf_pid s))
              (bind (integers rows ''NStgid'' 1 MAX_PID size) (\<lambda>b. Ret (b = chain)))) ''KERNEL_PROCESS_PID_NAMESPACE'') (\<lambda>_.
        Ret chain))))"

definition proc_process_fields :: "bytes \<Rightarrow> bytes \<Rightarrow> process_fields outcome" where
  "proc_process_fields raw status =
     bind (process_stat raw) (\<lambda>s.
     bind (status_rows_of status) (\<lambda>rows.
     bind (requires (status_agrees rows s) ''KERNEL_PROCESS_STATUS_MISMATCH'') (\<lambda>_.
     bind (namespace_chain rows s) (\<lambda>chain.
     bind (integers rows ''Groups'' 0 MAX_PID (length (row_values rows ''Groups''))) (\<lambda>groups.
     bind (require (map_of rows ''Groups'' \<noteq> None \<and> length groups \<le> 256 \<and> distinct groups) ''KERNEL_PROCESS_GROUPS'') (\<lambda>_.
     bind (map_out (capability rows) [''CapInh'', ''CapPrm'', ''CapEff'', ''CapBnd'', ''CapAmb'']) (\<lambda>capabilities.
     bind (integers rows ''Uid'' 0 MAX_PID 4) (\<lambda>uid.
     bind (integers rows ''Gid'' 0 MAX_PID 4) (\<lambda>gid.
     bind (integers rows ''Seccomp'' 2 2 1) (\<lambda>seccomp.
     bind (integers rows ''NoNewPrivs'' 0 1 1) (\<lambda>no_new_privs.
       Ret \<lparr>pf_stat = s, pf_uid = uid, pf_gid = gid, pf_namespace_pids = chain, pf_groups = groups,
            pf_capabilities = capabilities, pf_seccomp = hd seccomp, pf_no_new_privs = hd no_new_privs\<rparr>)))))))))))"

section \<open>Cgroup members\<close>

definition membership :: "int \<Rightarrow> bytes \<Rightarrow> unit outcome" where
  "membership own raw =
     bind (require (ends_with [CHR 0x0A] raw) ''KERNEL_CGROUP_MEMBERSHIP'') (\<lambda>_.
     (let lines = split_on CHR 0x0A (butlast raw) in
      bind (require (1 \<le> length lines \<and> length lines \<le> 4096 \<and> list_all positive_number lines) ''KERNEL_CGROUP_MEMBERSHIP'') (\<lambda>_.
      (let pids = map dec_int lines in
       require (list_all (\<lambda>p. p < 2 ^ 31) pids \<and> distinct pids \<and> own \<in> set pids) ''KERNEL_CGROUP_MEMBERSHIP''))))"

section \<open>Matching maps with code\<close>

text \<open>An enrolled file: its layout, when it holds code, and its device and inode.\<close>

record enrolled =
  en_layout :: "layout option"
  en_major :: nat
  en_minor :: nat
  en_inode :: nat

type_synonym enrolment = "string \<rightharpoonup> enrolled"

definition check_enrolled :: "enrolment \<Rightarrow> mapping \<Rightarrow> unit outcome" where
  "check_enrolled E m =
     (case E (mp_path m) of
        None \<Rightarrow> refuse ''KERNEL_CODE_MAP_UNENROLLED''
      | Some f \<Rightarrow>
          bind (require (en_layout f \<noteq> None) ''KERNEL_CODE_MAP_UNENROLLED'') (\<lambda>_.
            require (mp_major m = en_major f \<and> mp_minor m = en_minor f \<and> mp_inode m = en_inode f)
              ''KERNEL_CODE_MAP_FILE_IDENTITY''))"

definition observed_bias :: "segment \<Rightarrow> nat \<Rightarrow> mapping \<Rightarrow> int" where
  "observed_bias s cursor m = int (mp_start m) - int (sg_address s) - (int cursor - int (sg_offset s))"

definition fits :: "layout \<Rightarrow> nat \<Rightarrow> segment \<Rightarrow> nat \<Rightarrow> int option \<Rightarrow> mapping \<Rightarrow> bool" where
  "fits ly page s cursor bias m \<longleftrightarrow>
     mp_permissions m = sg_permissions s \<and>
     int cursor + (int (mp_end m) - int (mp_start m)) \<le> int (sg_offset s + sg_length s) \<and>
     0 \<le> observed_bias s cursor m \<and> observed_bias s cursor m mod int page = 0 \<and>
     (ly_kind ly = 2 \<longrightarrow> observed_bias s cursor m = 0) \<and>
     (case bias of None \<Rightarrow> True | Some b \<Rightarrow> observed_bias s cursor m = b)"

text \<open>The mappings of one segment, in the order of their offsets; each is consumed.\<close>

function match_segment ::
  "layout \<Rightarrow> nat \<Rightarrow> segment \<Rightarrow> nat \<Rightarrow> int option \<Rightarrow> mapping list \<Rightarrow> (int option \<times> mapping list) outcome" where
  "match_segment ly page s cursor bias remaining =
     (if sg_offset s + sg_length s \<le> cursor then Ret (bias, remaining)
      else case filter (\<lambda>m. mp_offset m = cursor) remaining of
        [m] \<Rightarrow>
          if fits ly page s cursor bias m
          then match_segment ly page s (nat (int cursor + (int (mp_end m) - int (mp_start m))))
                 (Some (observed_bias s cursor m)) (remove1 m remaining)
          else refuse ''KERNEL_CODE_MAP_LAYOUT''
      | _ \<Rightarrow> refuse ''KERNEL_CODE_MAP_SEGMENT_COVERAGE'')"
  by pat_completeness auto
termination
proof (relation "measure (\<lambda>(ly, page, s, cursor, bias, remaining). length remaining)", goal_cases)
  case (2 ly page s cursor bias remaining m)
  then have "m \<in> set (filter (\<lambda>m. mp_offset m = cursor) remaining)" by simp
  then have "m \<in> set remaining" by simp
  then show ?case using length_remove1 [of m remaining] by (cases remaining) auto
qed simp

declare match_segment.simps [simp del]

definition match_file :: "layout \<Rightarrow> nat \<Rightarrow> mapping list \<Rightarrow> unit outcome" where
  "match_file ly page actual =
     bind (fold_out (\<lambda>(bias, remaining) s. match_segment ly page s (sg_offset s) bias remaining) (None, actual) (ly_segments ly))
       (\<lambda>(_, remaining). require (remaining = []) ''KERNEL_CODE_MAP_EXTRA_SEGMENT'')"

definition match_group :: "enrolment \<Rightarrow> nat \<Rightarrow> mapping list \<Rightarrow> string \<Rightarrow> unit outcome" where
  "match_group E page files path =
     (case Option.bind (E path) en_layout of
        None \<Rightarrow> Raise TypeError
      | Some ly \<Rightarrow>
          bind (match_file ly page (filter (\<lambda>m. mp_path m = path) files)) (\<lambda>_.
            require (case ly_interpreter ly of None \<Rightarrow> True | Some i \<Rightarrow> i \<in> set (map mp_path files))
              ''KERNEL_CODE_MAP_LOADER_MISSING''))"

text \<open>The keys of \<open>grouped\<close>: the paths in the order of their first mapping.\<close>

definition remdups_first :: "'a list \<Rightarrow> 'a list" where
  "remdups_first xs = rev (remdups (rev xs))"

definition match_maps :: "enrolment \<Rightarrow> nat \<Rightarrow> string \<Rightarrow> bytes \<Rightarrow> bytes \<Rightarrow> code_maps outcome" where
  "match_maps E page machine raw auxv =
     bind (proc_code_maps raw machine auxv) (\<lambda>maps.
     bind (require (cm_page maps = page) ''KERNEL_CODE_MAP_PAGE_SIZE'') (\<lambda>_.
     bind (for_each (check_enrolled E) (cm_files maps)) (\<lambda>_.
     bind (for_each (match_group E page (cm_files maps)) (remdups_first (map mp_path (cm_files maps)))) (\<lambda>_.
       Ret maps))))"

end
