(* ===== verification/KernelLaws.thy ===== *)
theory KernelLaws
  imports KernelProcess "HOL-Library.Multiset"
begin

unbundle bit_operations_syntax

text \<open>
  Laws of the kernel observations: executable mappings that match enrolled files cover their code segments exactly,
  at one load address per file, and none of them is writable.
\<close>

section \<open>Placement\<close>

definition span :: "mapping \<Rightarrow> nat" where
  "span m = mp_end m - mp_start m"

definition placed :: "nat \<Rightarrow> layout \<Rightarrow> int \<Rightarrow> segment \<Rightarrow> mapping \<Rightarrow> bool" where
  "placed page ly b s m \<longleftrightarrow>
     mp_permissions m = sg_permissions s \<and> sg_offset s \<le> mp_offset m \<and>
     mp_offset m + span m \<le> sg_offset s + sg_length s \<and>
     int (mp_start m) = b + int (sg_address s) + (int (mp_offset m) - int (sg_offset s)) \<and>
     0 \<le> b \<and> b mod int page = 0 \<and> (if ly_kind ly = 2 then b = 0 else True)"

definition maps_byte :: "nat \<Rightarrow> mapping \<Rightarrow> bool" where
  "maps_byte x m \<longleftrightarrow> mp_offset m \<le> x \<and> x < mp_offset m + span m"

lemma fits_placed:
  assumes "fits ly page s (mp_offset m) bias m" "sg_offset s \<le> mp_offset m" "mp_start m < mp_end m"
  shows "placed page ly (observed_bias s (mp_offset m) m) s m"
  using assms by (auto simp: fits_def placed_def observed_bias_def span_def)

definition extends :: "int option \<Rightarrow> int option \<Rightarrow> bool" where
  "extends bias bias' \<longleftrightarrow> bias = None \<or> bias' = bias"

text \<open>The mappings that a segment consumes lie in it, at one bias, and leave no byte of it out.\<close>

lemma match_segment_Ret:
  assumes "match_segment ly page s cursor bias remaining = Ret (bias', rest)" "sg_offset s \<le> cursor"
    and "list_all (\<lambda>m. mp_start m < mp_end m) remaining"
  shows "\<exists>used. mset remaining = mset used + mset rest \<and> extends bias bias' \<and>
    (\<forall>m \<in> set used. \<exists>b. bias' = Some b \<and> placed page ly b s m) \<and>
    (\<forall>x. cursor \<le> x \<and> x < sg_offset s + sg_length s \<longrightarrow> (\<exists>m \<in> set used. maps_byte x m))"
  using assms
proof (induction ly page s cursor bias remaining rule: match_segment.induct)
  case (1 ly page s cursor bias remaining)
  show ?case
  proof (cases "sg_offset s + sg_length s \<le> cursor")
    case True
    then have "bias' = bias" "rest = remaining" using 1(2) by (simp_all add: match_segment.simps)
    then show ?thesis using True by (intro exI [of _ "[]"]) (auto simp: extends_def)
  next
    case False
    then obtain m where m: "filter (\<lambda>m. mp_offset m = cursor) remaining = [m]" "fits ly page s cursor bias m"
      and rec: "match_segment ly page s (nat (int cursor + (int (mp_end m) - int (mp_start m))))
        (Some (observed_bias s cursor m)) (remove1 m remaining) = Ret (bias', rest)"
      using 1(2) by (auto simp: match_segment.simps [of ly page s cursor] refuse_def split: list.splits if_splits)
    have "m \<in> set (filter (\<lambda>m. mp_offset m = cursor) remaining)" using m(1) by simp
    then have at: "mp_offset m = cursor" "m \<in> set remaining" by auto
    then have span: "mp_start m < mp_end m" using 1(4) by (simp add: list_all_iff)
    have next_cursor: "nat (int cursor + (int (mp_end m) - int (mp_start m))) = cursor + span m"
      using span by (simp add: span_def)
    obtain used where used: "mset (remove1 m remaining) = mset used + mset rest"
      "extends (Some (observed_bias s cursor m)) bias'"
      "\<forall>m \<in> set used. \<exists>b. bias' = Some b \<and> placed page ly b s m"
      "\<forall>x. cursor + span m \<le> x \<and> x < sg_offset s + sg_length s \<longrightarrow> (\<exists>m \<in> set used. maps_byte x m)"
      using 1(1) [OF False m(1) _ m(2) rec] 1(3,4) by (auto simp: next_cursor list_all_iff dest: notin_set_remove1 in_set_remove1)
    have bias': "bias' = Some (observed_bias s cursor m)" using used(2) by (simp add: extends_def)
    have "mset remaining = mset (m # used) + mset rest" using used(1) insert_DiffM [of m "mset remaining"] at(2) by simp
    moreover have "extends bias bias'" using m(2) bias' by (auto simp: fits_def extends_def split: option.splits)
    moreover have "placed page ly (observed_bias s cursor m) s m"
      using fits_placed [of ly page s m bias] m(2) at(1) 1(3) span by simp
    moreover have "\<exists>k \<in> set (m # used). maps_byte x k" if "cursor \<le> x" "x < sg_offset s + sg_length s" for x
      using used(4) that at(1) by (cases "x < cursor + span m") (auto simp: maps_byte_def)
    ultimately show ?thesis using used(3) bias' by (intro exI [of _ "m # used"]) auto
  qed
qed

lemma match_segments_Ret:
  assumes "fold_out (\<lambda>(bias, remaining) s. match_segment ly page s (sg_offset s) bias remaining) (bias, actual) ss = Ret (bias', rest)"
    and "list_all (\<lambda>m. mp_start m < mp_end m) actual"
  shows "\<exists>used. mset actual = mset used + mset rest \<and> extends bias bias' \<and>
    (\<forall>m \<in> set used. \<exists>b. bias' = Some b \<and> (\<exists>s \<in> set ss. placed page ly b s m)) \<and>
    (\<forall>s \<in> set ss. \<forall>x. sg_offset s \<le> x \<and> x < sg_offset s + sg_length s \<longrightarrow>
       (\<exists>m \<in> set used. \<exists>b. bias' = Some b \<and> placed page ly b s m \<and> maps_byte x m))"
  using assms
proof (induction ss arbitrary: bias actual)
  case Nil
  then show ?case by (intro exI [of _ "[]"]) (auto simp: extends_def)
next
  case (Cons s ss)
  then obtain mid remaining where first: "match_segment ly page s (sg_offset s) bias actual = Ret (mid, remaining)"
    and rec: "fold_out (\<lambda>(bias, remaining) s. match_segment ly page s (sg_offset s) bias remaining) (mid, remaining) ss = Ret (bias', rest)"
    by (auto simp: bind_eq_Ret)
  obtain used where u: "mset actual = mset used + mset remaining" "extends bias mid"
    "\<forall>m \<in> set used. \<exists>b. mid = Some b \<and> placed page ly b s m"
    "\<forall>x. sg_offset s \<le> x \<and> x < sg_offset s + sg_length s \<longrightarrow> (\<exists>m \<in> set used. maps_byte x m)"
    using match_segment_Ret [OF first _ Cons.prems(2)] by blast
  have "set remaining \<subseteq> set actual" using u(1) by (metis set_mset_mset set_mset_union sup.cobounded2)
  then have "list_all (\<lambda>m. mp_start m < mp_end m) remaining" using Cons.prems(2) by (auto simp: list_all_iff)
  then obtain used' where v: "mset remaining = mset used' + mset rest" "extends mid bias'"
    "\<forall>m \<in> set used'. \<exists>b. bias' = Some b \<and> (\<exists>s \<in> set ss. placed page ly b s m)"
    "\<forall>s \<in> set ss. \<forall>x. sg_offset s \<le> x \<and> x < sg_offset s + sg_length s \<longrightarrow>
       (\<exists>m \<in> set used'. \<exists>b. bias' = Some b \<and> placed page ly b s m \<and> maps_byte x m)"
    using Cons.IH [OF rec] by blast
  have w: "\<exists>b. bias' = Some b \<and> placed page ly b s m" if "m \<in> set used" for m
    using u(3) that v(2) by (auto simp: extends_def)
  show ?case
  proof (intro exI [of _ "used @ used'"] conjI ballI allI impI)
    show "mset actual = mset (used @ used') + mset rest" using u(1) v(1) by (simp add: ac_simps)
    show "extends bias bias'" using u(2) v(2) by (auto simp: extends_def)
  next
    fix m assume "m \<in> set (used @ used')"
    then show "\<exists>b. bias' = Some b \<and> (\<exists>s \<in> set (s # ss). placed page ly b s m)" using w v(3) by fastforce
  next
    fix r x assume r: "r \<in> set (s # ss)" "sg_offset r \<le> x \<and> x < sg_offset r + sg_length r"
    show "\<exists>m \<in> set (used @ used'). \<exists>b. bias' = Some b \<and> placed page ly b r m \<and> maps_byte x m"
    proof (cases "r = s")
      case True
      then obtain m where "m \<in> set used" "maps_byte x m" using u(4) r(2) by blast
      then show ?thesis using w True by fastforce
    next
      case False
      then have "r \<in> set ss" using r(1) by simp
      then show ?thesis using v(4) r(2) by (metis Un_iff set_append)
    qed
  qed
qed

definition covers :: "nat \<Rightarrow> layout \<Rightarrow> int \<Rightarrow> mapping list \<Rightarrow> bool" where
  "covers page ly b ms \<longleftrightarrow>
     list_all (\<lambda>m. list_ex (\<lambda>s. placed page ly b s m) (ly_segments ly)) ms \<and>
     list_all (\<lambda>s. list_all (\<lambda>x. list_ex (\<lambda>m. placed page ly b s m \<and> maps_byte x m) ms)
       [sg_offset s..<sg_offset s + sg_length s]) (ly_segments ly)"

lemma match_file_covers:
  assumes "match_file ly page actual = Ret ()" "list_all (\<lambda>m. mp_start m < mp_end m) actual" "actual \<noteq> []"
  shows "\<exists>b. covers page ly b actual"
proof -
  obtain bias' where fold: "fold_out (\<lambda>(bias, remaining) s. match_segment ly page s (sg_offset s) bias remaining) (None, actual)
      (ly_segments ly) = Ret (bias', [])"
    using assms(1) by (auto simp: match_file_def bind_eq_Ret)
  obtain used where u: "mset actual = mset used"
    "\<forall>m \<in> set used. \<exists>b. bias' = Some b \<and> (\<exists>s \<in> set (ly_segments ly). placed page ly b s m)"
    "\<forall>s \<in> set (ly_segments ly). \<forall>x. sg_offset s \<le> x \<and> x < sg_offset s + sg_length s \<longrightarrow>
       (\<exists>m \<in> set used. \<exists>b. bias' = Some b \<and> placed page ly b s m \<and> maps_byte x m)"
    using match_segments_Ret [OF fold assms(2)] by auto
  have same: "set used = set actual" using u(1) by (metis set_mset_mset)
  then obtain b where b: "bias' = Some b" using u(2) assms(3) by (cases actual) auto
  show ?thesis
    using u(2,3) unfolding same b covers_def list_all_iff list_ex_iff by (intro exI [of _ b]) auto
qed

section \<open>The maps\<close>

definition code_mapping :: "nat \<Rightarrow> mapping \<Rightarrow> bool" where
  "code_mapping page m \<longleftrightarrow>
     mp_start m < mp_end m \<and> mp_start m mod page = 0 \<and> mp_end m mod page = 0 \<and> executable (mp_permissions m) \<and>
     \<not> writable (mp_permissions m) \<and> 0 < mp_inode m"

definition ordered_maps :: "nat \<Rightarrow> maps_state \<Rightarrow> bool" where
  "ordered_maps page = (\<lambda>(maps, special, previous_end).
     list_all (code_mapping page) maps \<and> list_all (\<lambda>m. mp_end m \<le> previous_end) maps \<and>
     sorted_wrt (\<lambda>a b. mp_end a \<le> mp_start b) maps)"

lemma maps_step_ordered:
  assumes "maps_step machine page vdso st line = Ret st'" "ordered_maps page st"
  shows "ordered_maps page st'"
proof -
  obtain maps special previous where st: "st = (maps, special, previous)" by (cases st)
  from assms(1) obtain m path where m: "map_line line = Some (m, path)"
    and r: "previous \<le> mp_start m" "mp_start m < mp_end m" "mp_start m mod page = 0" "mp_end m mod page = 0"
      "\<not> (writable (mp_permissions m) \<and> executable (mp_permissions m))"
    and st': "\<exists>special'. st' = (maps, special', mp_end m) \<or>
      executable (mp_permissions m) \<and> 0 < mp_inode m \<and> (\<exists>name. st' = (maps @ [m\<lparr>mp_path := name\<rparr>], special', mp_end m))"
    unfolding maps_step_def st by (auto simp: bind_eq_Ret refuse_def split: option.splits if_splits) blast
  have "list_all (\<lambda>k. mp_end k \<le> mp_end m) maps" "list_all (\<lambda>k. mp_end k \<le> mp_start m) maps"
    using assms(2) r(1,2) by (auto simp: st ordered_maps_def list_all_iff)
  then show ?thesis
    using assms(2) st' r by (auto simp: st ordered_maps_def sorted_wrt_append code_mapping_def list_all_iff)
qed

lemma code_maps_ordered:
  assumes "proc_code_maps raw machine auxv = Ret maps"
  shows "list_all (code_mapping (cm_page maps)) (cm_files maps)" "sorted_wrt (\<lambda>a b. mp_end a \<le> mp_start b) (cm_files maps)"
proof -
  obtain rows :: auxv and special last where rows: "cm_page maps = the (map_of rows 6)"
    and fold: "fold_out (maps_step machine (the (map_of rows 6)) (the (map_of rows 33))) ([], [], 0) (lines_of raw) =
      Ret (cm_files maps, special, last)"
    using assms by (auto simp: proc_code_maps_def bind_eq_Ret Let_def)
  have "ordered_maps (cm_page maps) (cm_files maps, special, last)"
    unfolding rows using fold
    by (rule fold_out_invariant) (simp add: ordered_maps_def, rule maps_step_ordered)
  then show "list_all (code_mapping (cm_page maps)) (cm_files maps)" "sorted_wrt (\<lambda>a b. mp_end a \<le> mp_start b) (cm_files maps)"
    by (simp_all add: ordered_maps_def)
qed

text \<open>C13: Executable mappings are exactly the enrolled code: when the maps of a process are accepted, there is one load
  address per file such that every executable mapping of a file belongs to an enrolled file with the
  device and inode observed, lies inside one of its code segments with that segment's permissions at the
  address the segment's link address and the load address give, every byte of every code segment of a mapped
  file is mapped, and the mappings are page aligned, disjoint, in order and never writable.\<close>

theorem code_maps_exact:
  "case match_maps E page machine raw auxv of
     Raise _ \<Rightarrow> True
   | Ret maps \<Rightarrow>
       list_all (code_mapping page) (cm_files maps) \<and> sorted_wrt (\<lambda>a b. mp_end a \<le> mp_start b) (cm_files maps) \<and>
       (\<exists>load. list_all (\<lambda>m.
          case E (mp_path m) of
            None \<Rightarrow> False
          | Some f \<Rightarrow>
              mp_major m = en_major f \<and> mp_minor m = en_minor f \<and> mp_inode m = en_inode f \<and>
              (case en_layout f of
                 None \<Rightarrow> False
               | Some ly \<Rightarrow> covers page ly (load (mp_path m)) (filter (\<lambda>k. mp_path k = mp_path m) (cm_files maps))))
          (cm_files maps))"
proof (cases "match_maps E page machine raw auxv")
  case (Ret maps)
  then have maps: "proc_code_maps raw machine auxv = Ret maps" "cm_page maps = page"
    and enrolled: "\<forall>m \<in> set (cm_files maps). check_enrolled E m = Ret ()"
    and groups: "\<forall>m \<in> set (cm_files maps). match_group E page (cm_files maps) (mp_path m) = Ret ()"
    by (auto simp: match_maps_def bind_eq_Ret for_each_eq_Ret remdups_first_def)
  have files: "list_all (code_mapping page) (cm_files maps)" "sorted_wrt (\<lambda>a b. mp_end a \<le> mp_start b) (cm_files maps)"
    using code_maps_ordered [OF maps(1)] maps(2) by simp_all
  let ?group = "\<lambda>p. filter (\<lambda>k. mp_path k = p) (cm_files maps)"
  have one: "\<exists>b. case Option.bind (E (mp_path m)) en_layout of None \<Rightarrow> False | Some ly \<Rightarrow> covers page ly b (?group (mp_path m))"
    if m: "m \<in> set (cm_files maps)" for m
  proof -
    obtain ly where ly: "Option.bind (E (mp_path m)) en_layout = Some ly" "match_file ly page (?group (mp_path m)) = Ret ()"
      using groups [rule_format, OF m] by (cases "Option.bind (E (mp_path m)) en_layout") (auto simp: match_group_def bind_eq_Ret)
    moreover have "list_all (\<lambda>k. mp_start k < mp_end k) (?group (mp_path m))"
      using files(1) by (auto simp: list_all_iff code_mapping_def)
    moreover have "m \<in> set (?group (mp_path m))" using m by simp
    then have "?group (mp_path m) \<noteq> []" by (metis empty_iff list.set(1))
    ultimately show ?thesis using match_file_covers by (metis option.simps(5))
  qed
  define P where "P p b \<longleftrightarrow> (case Option.bind (E p) en_layout of None \<Rightarrow> False | Some ly \<Rightarrow> covers page ly b (?group p))" for p b
  define load where "load p = (SOME b. P p b)" for p
  have "\<exists>b. P (mp_path m) b" if "m \<in> set (cm_files maps)" for m
    using one [OF that] by (simp add: P_def)
  then have "P (mp_path m) (load (mp_path m))" if "m \<in> set (cm_files maps)" for m
    using that someI_ex unfolding load_def by metis
  then have covered: "case Option.bind (E (mp_path m)) en_layout of None \<Rightarrow> False | Some ly \<Rightarrow> covers page ly (load (mp_path m)) (?group (mp_path m))"
    if "m \<in> set (cm_files maps)" for m
    using that by (simp add: P_def)
  have "case E (mp_path m) of
          None \<Rightarrow> False
        | Some f \<Rightarrow>
            mp_major m = en_major f \<and> mp_minor m = en_minor f \<and> mp_inode m = en_inode f \<and>
            (case en_layout f of None \<Rightarrow> False | Some ly \<Rightarrow> covers page ly (load (mp_path m)) (?group (mp_path m)))"
    if "m \<in> set (cm_files maps)" for m
    using enrolled [rule_format, OF that] covered [OF that]
    by (cases "E (mp_path m)"; cases "en_layout (the (E (mp_path m)))") (auto simp: check_enrolled_def bind_eq_Ret refuse_def)
  then have "\<exists>load. list_all (\<lambda>m.
      case E (mp_path m) of
        None \<Rightarrow> False
      | Some f \<Rightarrow>
          mp_major m = en_major f \<and> mp_minor m = en_minor f \<and> mp_inode m = en_inode f \<and>
          (case en_layout f of None \<Rightarrow> False | Some ly \<Rightarrow> covers page ly (load (mp_path m)) (?group (mp_path m))))
      (cm_files maps)"
    unfolding list_all_iff by blast
  then show ?thesis unfolding Ret outcome.case using files by blast
qed simp

section \<open>Layouts\<close>

lemma round_up_bounds:
  assumes "0 < page"
  shows "n \<le> round_up page n" "round_up page n < n + page" "page dvd round_up page n"
proof -
  let ?k = "(n + page - 1) div page"
  have "?k * page \<le> n + page - 1" by (rule div_times_less_eq_dividend)
  then show "round_up page n < n + page" using assms unfolding round_up_def by linarith
  have "n + page - 1 < page + ?k * page" using assms by (rule dividend_less_div_times)
  then show "n \<le> round_up page n" unfolding round_up_def by linarith
  show "page dvd round_up page n" unfolding round_up_def by simp
qed

lemma round_down: "n - n mod page \<le> n" "page dvd n - n mod page" for n page :: nat
  by (simp_all add: dvd_minus_mod)

definition wf_segment :: "nat \<Rightarrow> nat \<Rightarrow> segment \<Rightarrow> bool" where
  "wf_segment page bytes_read s \<longleftrightarrow>
     sg_offset s mod page = 0 \<and> sg_length s mod page = 0 \<and> sg_address s mod page = 0 \<and> 0 < sg_length s \<and>
     sg_length s \<le> 67108864 \<and> sg_offset s + sg_length s < bytes_read + page \<and> sg_permissions s \<in> {''r-xp'', ''--xp''}"

lemma code_segment_wf:
  assumes "page \<in> set PAGE_SIZES" "ph_offset h + ph_size h \<le> bytes_read" "0 < ph_size h" "sg_length (code_segment page h) \<le> 67108864"
  shows "wf_segment page bytes_read (code_segment page h)"
proof -
  have p: "0 < page" using assms(1) by (auto simp: PAGE_SIZES_def)
  define e where "e = round_up page (ph_offset h + ph_size h)"
  define s where "s = ph_offset h - ph_offset h mod page"
  have e: "ph_offset h + ph_size h \<le> e" "e < ph_offset h + ph_size h + page" "page dvd e"
    using round_up_bounds [OF p, of "ph_offset h + ph_size h"] by (simp_all add: e_def)
  have s: "s \<le> ph_offset h" "page dvd s" using round_down [of "ph_offset h" page] by (simp_all add: s_def)
  have seg: "sg_offset (code_segment page h) = s" "sg_length (code_segment page h) = e - s"
    "page dvd sg_address (code_segment page h)" "sg_permissions (code_segment page h) \<in> {''r-xp'', ''--xp''}"
    using round_down(2) [of page "ph_address h"] by (simp_all add: code_segment_def Let_def e_def s_def)
  have "page dvd e - s" using e(3) s(2) by (rule dvd_diff_nat)
  moreover have "0 < e - s" "s + (e - s) < bytes_read + page" using e(1,2) s(1) assms(2,3) by linarith+
  ultimately show ?thesis using seg s(2) assms(4) by (simp add: wf_segment_def)
qed

definition wf_interpreter :: "string option \<Rightarrow> bool" where
  "wf_interpreter i = (case i of None \<Rightarrow> True | Some p \<Rightarrow> fullmatch FILE_PATH p \<and> plain_parts p)"

definition wf_elf :: "nat \<Rightarrow> nat \<Rightarrow> elf_state \<Rightarrow> bool" where
  "wf_elf page bytes_read = (\<lambda>(segments, interpreter, _).
     list_all (wf_segment page bytes_read) segments \<and> length segments \<le> 16 \<and> wf_interpreter interpreter)"

lemma elf_step_wf:
  assumes "elf_step raw page st h = Ret st'" "wf_elf page (length raw) st" "page \<in> set PAGE_SIZES"
  shows "wf_elf page (length raw) st'"
proof -
  obtain segments i last_end where st: "st = (segments, i, last_end)" by (cases st)
  have wf: "list_all (wf_segment page (length raw)) segments" "length segments \<le> 16" "wf_interpreter i"
    using assms(2) by (simp_all add: st wf_elf_def)
  from assms(1) obtain i' where bounds: "ph_offset h + ph_size h \<le> length raw"
    and i': "(if ph_tag h = 3 then bind (interpreter_of raw h i) (\<lambda>i. Ret (Some i)) else Ret i) = Ret i'"
    and st': "(\<exists>e. st' = (segments, i', e)) \<or> (\<exists>e. st' = (segments @ [code_segment page h], i', e) \<and> 0 < ph_size h \<and>
      length segments < 16 \<and> sg_length (code_segment page h) \<le> 67108864)"
    unfolding st elf_step_def by (auto simp: bind_eq_Ret Let_def split: if_splits)
  have "wf_interpreter i'"
    using i' wf(3) by (auto simp: interpreter_of_def bind_eq_Ret Let_def wf_interpreter_def split: if_splits)
  then show ?thesis
    using st' wf(1,2) code_segment_wf [OF assms(3) bounds] by (auto simp: wf_elf_def)
qed

text \<open>An accepted ELF layout is well formed: it has one to sixteen code segments, all page aligned in file and in memory,
  readable or not but never writable, at most 64 MiB, inside the file rounded up to a page, no two
  of them the same range; an interpreter is an absolute path without empty, \<open>.\<close> or \<open>..\<close> parts.\<close>

theorem elf_layout_wf:
  "case elf_code_layout raw machine page of
     Raise _ \<Rightarrow> True
   | Ret ly \<Rightarrow>
       page \<in> set PAGE_SIZES \<and> list_all (wf_segment page (length raw)) (ly_segments ly) \<and>
       1 \<le> length (ly_segments ly) \<and> length (ly_segments ly) \<le> 16 \<and> wf_interpreter (ly_interpreter ly) \<and>
       ly_kind ly \<in> {2, 3} \<and> distinct (map (\<lambda>s. (sg_offset s, sg_length s)) (ly_segments ly))"
proof (cases "elf_code_layout raw machine page")
  case (Ret ly)
  then obtain segments i e where page: "page \<in> set PAGE_SIZES" and head: "elf_header raw machine = Ret ()"
    and fold: "fold_out (elf_step raw page) ([], None, 0)
      (map (\<lambda>i. program_header_at raw (word_at 32 8 raw + i * 56)) [0..<word_at 56 2 raw]) = Ret (segments, i, e)"
    and some: "segments \<noteq> []" "distinct (map (\<lambda>s. (sg_offset s, sg_length s)) segments)"
    and ly: "ly = \<lparr>ly_kind = word_at 16 2 raw, ly_interpreter = i, ly_segments = segments\<rparr>"
    by (auto simp: elf_code_layout_def bind_eq_Ret Let_def)
  have "wf_elf page (length raw) (segments, i, e)"
    using fold by (rule fold_out_invariant) (simp add: wf_elf_def wf_interpreter_def, rule elf_step_wf [OF _ _ page])
  moreover have "word_at 16 2 raw \<in> {2, 3}" using head by (simp add: elf_header_def Let_def)
  moreover have "1 \<le> length segments" using some(1) by (cases segments) auto
  ultimately show ?thesis unfolding Ret outcome.case using page some(2) by (simp add: ly wf_elf_def)
qed simp

end
