(* ===== verification/Storage.thy ===== *)
theory Storage
  imports Ledger
begin

text \<open>
  The storage of an admission history (\<open>_State\<close> of \<open>live_proxy_server.py\<close>): every read must extend the content that
  the last one returned.  An \<open>io_event\<close> says what the operating system did during one use of it.
\<close>

text \<open>\<open>_State.read\<close>: the content, unless it is refused, too long, or does not extend what was \<open>seen\<close>.\<close>

definition read_history :: "bytes \<Rightarrow> store \<Rightarrow> io_event \<Rightarrow> bytes outcome" where
  "read_history seen st io =
     bind (opened io) (\<lambda>_.
     (let raw = (case shown io of None \<Rightarrow> journal st | Some raw \<Rightarrow> raw) in
      bind (require (length raw \<le> 4194304) ''ADMISSION_STORE_FULL'') (\<lambda>_.
      bind (require (starts_with seen raw) ''ADMISSION_STORE_ROLLBACK'') (\<lambda>_. Ret raw))))"

text \<open>The first read of an append refuses a content that does not extend the last one; what the append reads back is
  the content that later reads must extend.\<close>

definition extending :: "bytes \<Rightarrow> store \<Rightarrow> io_event \<Rightarrow> io_event" where
  "extending seen st io =
     (if refused io = None \<and> \<not> starts_with seen (journal st)
      then io\<lparr>refused := Some ''ADMISSION_STORE_ROLLBACK''\<rparr> else io)"

definition seen_after :: "bytes \<Rightarrow> string outcome \<times> store \<Rightarrow> bytes" where
  "seen_after seen result = (case fst result of Ret _ \<Rightarrow> journal (snd result) | Raise _ \<Rightarrow> seen)"

lemma read_history_extends: "read_history seen st io = Ret raw \<Longrightarrow> starts_with seen raw"
  by (auto simp: read_history_def Let_def bind_eq_Ret)

text \<open>A record that succeeds extends what was seen, and its log parses before and after.\<close>

lemma commit_Ret:
  assumes "commit io st decided = (Ret d, st')"
  obtains encoded where "decided = Ret (encoded, d)" "journal st' = journal st @ on_disk io encoded"
    "ledger_write io (journal st) encoded = Ret ()"
  using assms by (auto simp: commit_def Let_def split: outcome.splits prod.splits)

lemma written_whole: "ledger_write io before encoded = Ret () \<Longrightarrow> on_disk io encoded = encoded"
  by (auto simp: ledger_write_def on_disk_def bind_eq_Ret split: if_splits option.splits)

lemma opened_extending: "opened (extending seen st io) = Ret () \<Longrightarrow> starts_with seen (journal st)"
  by (auto simp: opened_def extending_def split: option.splits if_splits)

end
