(* ===== verification/Driver.thy ===== *)
theory Driver
  imports Actions Boundary Broker Storage BackendAuthority Wire Complex_Main
begin

text \<open>
  The broker side of \<open>live_proxy_server.py\<close>: the classes \<open>_Broker\<close>, \<open>_BrokerStart\<close> and \<open>_BrokerEvents\<close>.  A server
  with a running operation dispatches its case to the capacity broker, receives the broker's frames, and (in
  \<open>DriverCreate\<close>) carries out one CREATE that the broker asks for.

  The state is one record: the admission history on disk and whether its writer is poisoned, the broker's flags and
  clocks, and one optional record for each object of the broker, whose fields are the attributes of that class.
  Python keeps two references to each of these objects and compares them with \<open>is\<close>; the record holds one, so that
  these comparisons hold by construction and are not repeated here, as are the class checks of the objects.

  What is observed outside the process comes from \<open>surroundings\<close>, by the number of the call: clocks, what the sockets
  accept and deliver, what the storage does, and whether the native custody checks that are not modelled
  (\<open>_base_check\<close> of the server, \<open>_check_peer\<close> of the broker, the descriptors of the API connection) succeed.
  The observer's copy of its last answer is part of the observation, as is its own check of the answer.
  \<open>dr_trace\<close> is a history variable: the messages that left the server and the rows it wrote, in order.
\<close>

section \<open>State\<close>

text \<open>Retained by the server for the whole run.\<close>

record owner =
  ow_envelope :: items
  ow_capacity :: items
  ow_plan :: items
  ow_profile :: pyval
  ow_observation :: pyval
  ow_reservation :: pyval
  ow_binding :: bytes
  ow_peer :: "int list"
  ow_deadline :: rat
  ow_kit :: kit
  ow_release :: bytes

record surroundings =
  wall_at :: "nat \<Rightarrow> pyval"
  mono_at :: "nat \<Rightarrow> rat"
  rounding :: "rat \<Rightarrow> rat"
  base_kept :: "nat \<Rightarrow> unit outcome"
  peer_kept :: "nat \<Rightarrow> unit outcome"
  observed_at :: "nat \<Rightarrow> pyval outcome"
  random_at :: "nat \<Rightarrow> bytes outcome"
  ledger_io :: "nat \<Rightarrow> io_event"
  timeout_set :: "nat \<Rightarrow> unit outcome"
  sent_to :: "nat \<Rightarrow> bytes \<Rightarrow> nat outcome"
  selected_at :: "nat \<Rightarrow> (bool \<times> bool) outcome"
  received_at :: "nat \<Rightarrow> (bytes \<times> control_message list \<times> 32 word) outcome"
  transport_kept :: "nat \<Rightarrow> unit outcome"
  credential_at :: "nat \<Rightarrow> bytes outcome"
  connected_at :: "nat \<Rightarrow> unit outcome"
  handshaken_at :: "nat \<Rightarrow> unit outcome"
  written_to :: "nat \<Rightarrow> bytes \<Rightarrow> unit outcome"
  response_at :: "nat \<Rightarrow> stream"
  buffered_at :: "nat \<Rightarrow> stream \<Rightarrow> nat"
  released_at :: "nat \<Rightarrow> unit outcome"

record start =
  bs_operation :: string
  bs_reservation :: bytes
  bs_request :: bytes
  bs_ledger :: bytes
  bs_pin :: "(pyval \<times> pyval) option"
  bs_dispatch :: bytes
  bs_transcript :: "transcript option"
  bs_frame :: "bytes option"
  bs_started :: "bytes option"
  bs_failed :: bool

record events =
  ev_started :: bytes
  ev_snapshot :: bytes
  ev_failed :: bool

record intent =
  in_before :: bytes
  in_after :: bytes
  in_row :: bytes
  in_action :: bytes
  in_profile :: bytes
  in_digest :: string
  in_writing :: bool
  in_advanced :: bool
  in_committed :: bool
  in_failed :: bool

record api =
  ap_action :: bytes
  ap_endpoint :: bytes
  ap_ca :: bytes
  ap_last :: rat
  ap_ready :: bool
  ap_closed :: bool
  ap_failed :: bool

record exchange =
  ex_action :: bytes
  ex_request :: bytes
  ex_response :: "bytes option"
  ex_attempted :: bool
  ex_complete :: bool
  ex_failed :: bool

record created =
  cr_before :: bytes
  cr_after :: bytes
  cr_row :: bytes
  cr_response :: bytes
  cr_action :: bytes
  cr_digest :: string
  cr_writing :: bool
  cr_advanced :: bool
  cr_committed :: bool
  cr_failed :: bool

record answer =
  an_before :: bytes
  an_after :: bytes
  an_frame :: bytes
  an_response :: bytes
  an_record :: bytes
  an_action :: bytes
  an_ledger :: bytes
  an_attempted :: bool
  an_complete :: bool
  an_failed :: bool

text \<open>The data of the objects that a retirement retains, apart from their flags of failure.\<close>

type_synonym retained_data = "(answer \<times> created \<times> intent \<times> exchange \<times> bytes \<times> bytes \<times> bytes) option"

record retirement =
  rt_before :: bytes
  rt_after :: bytes
  rt_frame :: bytes
  rt_ledger :: bytes
  rt_pin :: retained_data
  rt_retired :: bool
  rt_advanced :: bool
  rt_complete :: bool
  rt_failed :: bool

datatype effect = Dispatched bytes | Intended bytes | Requested bytes | Recorded bytes | Answered bytes

record driver =
  dr_store :: store
  dr_floor :: bytes
  dr_calls :: nat
  dr_active :: pyval
  dr_reserved :: bool
  dr_sealed :: bool
  dr_busy :: bool
  dr_failed :: bool
  dr_closed :: bool
  dr_end :: rat
  dr_phase :: "datetime option"
  dr_last_wall :: "datetime option"
  dr_last_mono :: rat
  dr_attempted :: "string list"
  dr_start :: "start option"
  dr_events :: "events option"
  dr_intent :: "intent option"
  dr_api :: "api option"
  dr_exchange :: "exchange option"
  dr_created :: "created option"
  dr_answer :: "answer option"
  dr_retirement :: "retirement option"
  dr_trace :: "effect list"

definition new_driver :: "store \<Rightarrow> bytes \<Rightarrow> nat \<Rightarrow> rat \<Rightarrow> datetime option \<Rightarrow> driver" where
  "new_driver st seen calls now wall =
     \<lparr>dr_store = st, dr_floor = seen, dr_calls = calls, dr_active = PNone, dr_reserved = True, dr_sealed = True,
      dr_busy = False, dr_failed = False, dr_closed = False, dr_end = now, dr_phase = None, dr_last_wall = wall,
      dr_last_mono = now, dr_attempted = [], dr_start = None, dr_events = None, dr_intent = None, dr_api = None,
      dr_exchange = None, dr_created = None, dr_answer = None, dr_retirement = None, dr_trace = []\<rparr>"

type_synonym 'a drive = "(driver, 'a) action"

definition await :: "(nat \<Rightarrow> 'a outcome) \<Rightarrow> 'a drive" where
  "await f = (\<lambda>S. (f (dr_calls S), S\<lparr>dr_calls := dr_calls S + 1\<rparr>))"

definition emit :: "effect \<Rightarrow> unit drive" where
  "emit e = update (\<lambda>S. S\<lparr>dr_trace := dr_trace S @ [e]\<rparr>)"

definition checked :: "(driver \<Rightarrow> bool outcome) \<Rightarrow> string \<Rightarrow> unit drive" where
  "checked c reason = inspect (\<lambda>S. requires (c S) reason)"

text \<open>The attribute of an object that may not exist yet.\<close>

definition needed :: "(driver \<Rightarrow> 'a option) \<Rightarrow> 'a drive" where
  "needed part = inspect (\<lambda>S. case part S of None \<Rightarrow> Raise AttributeError | Some x \<Rightarrow> Ret x)"

section \<open>Guards and phases\<close>

text \<open>A phase lasts at most two seconds of both clocks.\<close>

definition in_phase :: "driver \<Rightarrow> datetime \<Rightarrow> bool outcome" where
  "in_phase S w =
     (case dr_phase S of
        None \<Rightarrow> Raise AttributeError
      | Some p \<Rightarrow> bind (time_minus w p) (\<lambda>d. Ret (0 \<le> d \<and> d < 2000000)))"

definition clock_step :: "surroundings \<Rightarrow> rat \<Rightarrow> unit drive" where
  "clock_step W low =
     seq (await (\<lambda>n. Ret (mono_at W n))) (\<lambda>m.
     seq (await (\<lambda>n. linux_time (wall_at W n))) (\<lambda>w.
     seq (checked (\<lambda>S. and_also (Ret (low \<le> m \<and> m < dr_end S))
             (and_also (case dr_last_wall S of None \<Rightarrow> Ret True | Some l \<Rightarrow> time_le l w) (in_phase S w)))
           ''BROKER_CLOCK_OR_DEADLINE'') (\<lambda>_.
       update (\<lambda>S. S\<lparr>dr_last_mono := m, dr_last_wall := Some w\<rparr>))))"

definition guard :: "surroundings \<Rightarrow> unit drive" where
  "guard W =
     seq (checked (\<lambda>S. Ret (\<not> dr_closed S \<and> \<not> dr_failed S \<and> dr_busy S)) ''BROKER_OWNER_CHANGED'') (\<lambda>_.
     seq (await (base_kept W)) (\<lambda>_.
     seq (inspect (\<lambda>S. Ret (dr_last_mono S))) (clock_step W)))"

text \<open>\<open>with self._phase(): m\<close>\<close>

definition phase :: "surroundings \<Rightarrow> owner \<Rightarrow> 'a drive \<Rightarrow> 'a drive" where
  "phase W A m =
     seq (checked (\<lambda>S. Ret (\<not> dr_closed S \<and> \<not> dr_failed S \<and> \<not> dr_busy S)) ''BROKER_UNAVAILABLE'') (\<lambda>_.
     seq (update (\<lambda>S. S\<lparr>dr_busy := True\<rparr>)) (\<lambda>_.
     seq (await (\<lambda>n. Ret (mono_at W n))) (\<lambda>m0.
     seq (update (\<lambda>S. S\<lparr>dr_end := min (ow_deadline A) (rounding W (m0 + 2))\<rparr>)) (\<lambda>_.
     seq (await (\<lambda>n. linux_time (wall_at W n))) (\<lambda>w.
     seq (update (\<lambda>S. S\<lparr>dr_phase := Some w\<rparr>)) (\<lambda>_.
     seq (failing (\<lambda>S. S\<lparr>dr_failed := True, dr_busy := False\<rparr>)
            (seq (guard W) (\<lambda>_. seq m (\<lambda>x. seq (guard W) (\<lambda>_. lift (Ret x)))))) (\<lambda>x.
     seq (update (\<lambda>S. S\<lparr>dr_busy := False\<rparr>)) (\<lambda>_. lift (Ret x)))))))))"

definition broker_io :: "surroundings \<Rightarrow> 'a drive \<Rightarrow> 'a drive" where
  "broker_io W m = seq (guard W) (\<lambda>_. finally_do m (guard W))"

definition prepare_wait :: "surroundings \<Rightarrow> unit drive" where
  "prepare_wait W =
     seq (guard W) (\<lambda>_.
     seq (await (\<lambda>n. Ret (mono_at W n))) (\<lambda>before.
     seq (checked (\<lambda>S. Ret (dr_last_mono S \<le> before \<and> before < dr_end S)) ''BROKER_CLOCK_OR_DEADLINE'') (\<lambda>_.
     seq (\<lambda>S. case await (timeout_set W) S of
            (Raise e, T) \<Rightarrow> seq (guard W) (\<lambda>_. lift (Raise e)) T
          | (Ret x, T) \<Rightarrow> (Ret x, T)) (\<lambda>_.
       clock_step W before))))"

definition check_peer :: "surroundings \<Rightarrow> unit drive" where
  "check_peer W = broker_io W (await (peer_kept W))"

section \<open>The history on disk\<close>

definition read_ledger :: "surroundings \<Rightarrow> bytes drive" where
  "read_ledger W =
     seq (await (\<lambda>n. Ret (ledger_io W n))) (\<lambda>io.
     seq (inspect (\<lambda>S. read_history (dr_floor S) (dr_store S) io)) (\<lambda>raw.
     seq (update (\<lambda>S. S\<lparr>dr_floor := raw\<rparr>)) (\<lambda>_. lift (Ret raw))))"

section \<open>Starting a case\<close>

definition reservation_bytes :: "ucd \<Rightarrow> owner \<Rightarrow> bytes outcome" where
  "reservation_bytes U A =
     bind (admission_binding U (ow_envelope A) (ow_capacity A) (ow_profile A)) (\<lambda>b. canonical_bytes U (PDict b))"

definition request_bytes :: "ucd \<Rightarrow> owner \<Rightarrow> string \<Rightarrow> bytes outcome" where
  "request_bytes U A operation =
     bind (build_probe_request U (ow_envelope A) (ow_capacity A) (ow_plan A) (PStr operation)) (\<lambda>r. canonical_bytes U (PDict r))"

definition bytes_are :: "bytes outcome \<Rightarrow> bytes \<Rightarrow> bool outcome" where
  "bytes_are m raw = bind m (\<lambda>b. Ret (b = raw))"

definition start_inputs :: "ucd \<Rightarrow> owner \<Rightarrow> start \<Rightarrow> bool outcome" where
  "start_inputs U A s =
     and_also (bytes_are (canonical_bytes U (ow_reservation A)) (bs_reservation s))
     (and_also (bytes_are (reservation_bytes U A) (bs_reservation s))
       (bytes_are (request_bytes U A (bs_operation s)) (bs_request s)))"

definition set_start :: "(start \<Rightarrow> start) \<Rightarrow> unit drive" where
  "set_start f = update (\<lambda>S. S\<lparr>dr_start := map_option f (dr_start S)\<rparr>)"

definition start_state_check :: "surroundings \<Rightarrow> ucd \<Rightarrow> owner \<Rightarrow> unit drive" where
  "start_state_check W U A =
     seq (needed dr_start) (\<lambda>s.
     seq (lift (require (\<not> bs_failed s) ''BROKER_START_OWNER_CHANGED'')) (\<lambda>_.
     seq (guard W) (\<lambda>_.
     seq (checked (\<lambda>S. and_also
             (Ret (\<not> poisoned (dr_store S) \<and> dr_reserved S \<and> dr_sealed S \<and> dr_active S = PStr (bs_operation s)))
             (start_inputs U A s)) ''BROKER_START_STATE_CHANGED'') (\<lambda>_.
     seq (broker_io W (read_ledger W)) (\<lambda>raw.
       lift (require (raw = bs_ledger s) ''BROKER_RUNNING_CHANGED''))))))"

definition observation_bound :: "ucd \<Rightarrow> owner \<Rightarrow> pyval \<Rightarrow> bool outcome" where
  "observation_bound U A observed =
     and_also (Ret (is_dict observed))
     (and_also (bind (canonical_text U (ow_observation A)) (item_is observed ''bindingDigest''))
       (bind (field (ow_envelope A) ''nonce'') (item_is observed ''runNonce'')))"

definition observation_current :: "pyval \<Rightarrow> datetime \<Rightarrow> bool outcome" where
  "observation_current observed now =
     bind (bind (item observed ''observedAt'') proxy_time) (\<lambda>start.
     bind (bind (item observed ''expiresAt'') proxy_time) (\<lambda>finish.
       and_also (time_le start now) (and_also (time_less now finish)
         (bind (time_minus finish start) (\<lambda>d. Ret (0 < d \<and> d \<le> 5000000))))))"

definition observation_pin :: "pyval \<Rightarrow> (pyval \<times> pyval) outcome" where
  "observation_pin observed =
     bind (item observed ''observerBootId'') (\<lambda>b. bind (item observed ''generation'') (\<lambda>g. Ret (b, g)))"

definition same_pin :: "(pyval \<times> pyval) option \<Rightarrow> pyval \<times> pyval \<Rightarrow> bool" where
  "same_pin old new = (case old of None \<Rightarrow> True | Some p \<Rightarrow> py_eq (fst p) (fst new) \<and> py_eq (snd p) (snd new))"

text \<open>\<open>_BrokerStart._check\<close>: the running operation, the peer and a current observation of the policy.\<close>

definition start_check :: "surroundings \<Rightarrow> ucd \<Rightarrow> owner \<Rightarrow> pyval drive" where
  "start_check W U A =
     seq (start_state_check W U A) (\<lambda>_.
     seq (check_peer W) (\<lambda>_.
     seq (finally_do (await (observed_at W)) (check_peer W)) (\<lambda>observed.
     seq (lift (requires (observation_bound U A observed) ''BROKER_OBSERVATION_BINDING'')) (\<lambda>_.
     seq (await (\<lambda>n. linux_time (wall_at W n))) (\<lambda>now.
     seq (lift (requires (observation_current observed now) ''BROKER_OBSERVATION_EXPIRED'')) (\<lambda>_.
     seq (lift (observation_pin observed)) (\<lambda>pin.
     seq (needed dr_start) (\<lambda>s.
     seq (lift (require (same_pin (bs_pin s) pin) ''BROKER_GENERATION_CHANGED'')) (\<lambda>_.
     seq (set_start (\<lambda>s. s\<lparr>bs_pin := Some pin\<rparr>)) (\<lambda>_.
     seq (start_state_check W U A) (\<lambda>_. lift (Ret observed))))))))))))"

definition last_line :: "bytes \<Rightarrow> bytes outcome" where
  "last_line raw = (case split_lines raw of [] \<Rightarrow> Raise IndexError | ls \<Rightarrow> Ret (strip_eol (last ls)))"

text \<open>The operation is the running one of the held reservation, and the last row of the history says so.\<close>

definition running_required :: "ucd \<Rightarrow> owner \<Rightarrow> string \<Rightarrow> bytes \<Rightarrow> bytes \<Rightarrow> datetime \<Rightarrow> unit outcome" where
  "running_required U A operation reservation raw now =
     bind (parse_reservations U raw) (\<lambda>G.
     bind (bind (field (ow_envelope A) ''tenantId'') text_of) (\<lambda>t.
     bind (bind (field (ow_envelope A) ''nonce'') text_of) (\<lambda>n.
     bind (requires (case map_of (reservations G) (t, n) of
             None \<Rightarrow> Ret False
           | Some r \<Rightarrow> and_also (Ret (rv_current r = Some operation \<and> rv_held r))
               (and_also (time_le (rv_last r) now) (bytes_are (canonical_bytes U (rv_binding r)) reservation)))
             ''BROKER_RUNNING_REQUIRED'') (\<lambda>_.
     bind (bind (last_line raw) (\<lambda>l. proxy_document U 32768 (PBytes l))) (\<lambda>row.
       requires (and_also (item_is row ''state'' (PStr ''RUNNING''))
         (and_also (item_is row ''operation'' (PStr operation))
         (and_also (bind (item row ''cleanup'') (\<lambda>c. Ret (c = PNone)))
           (bind (item row ''binding'') (\<lambda>b. bytes_are (canonical_bytes U b) reservation)))))
         ''BROKER_RUNNING_REQUIRED'')))))"

definition new_start :: "string \<Rightarrow> bytes \<Rightarrow> bytes \<Rightarrow> bytes \<Rightarrow> start" where
  "new_start operation reservation request ledger_raw =
     \<lparr>bs_operation = operation, bs_reservation = reservation, bs_request = request, bs_ledger = ledger_raw,
      bs_pin = None, bs_dispatch = [], bs_transcript = None, bs_frame = None, bs_started = None, bs_failed = False\<rparr>"

definition dispatch_items :: "ucd \<Rightarrow> owner \<Rightarrow> start \<Rightarrow> pyval \<Rightarrow> bytes \<Rightarrow> items outcome" where
  "dispatch_items U A s observed challenge =
     bind (field (ow_envelope A) ''nonce'') (\<lambda>nonce.
     bind (canonical_text U observed) (\<lambda>observation.
     bind (item observed ''generation'') (\<lambda>generation.
       Ret [(''schemaVersion'', PStr ''planeon.internal.broker-dispatch/v1''), (''operation'', PStr ''EXECUTE_FIXED_PROBE''),
         (''bindingDigest'', PStr (byte_digest (ow_binding A))), (''reservationDigest'', PStr (byte_digest (bs_reservation s))),
         (''runNonce'', nonce), (''caseId'', PStr (bs_operation s)), (''requestDigest'', PStr (byte_digest (bs_request s))),
         (''observationDigest'', observation), (''generation'', generation), (''challenge'', PStr (hexdigest challenge))])))"

text \<open>The transcript is advanced by the frame, or poisoned by it.\<close>

definition transcript_accept :: "ucd \<Rightarrow> bytes \<Rightarrow> string \<Rightarrow> pyval drive" where
  "transcript_accept U raw sender =
     (\<lambda>S. case dr_start S of
        None \<Rightarrow> (Raise AttributeError, S)
      | Some s \<Rightarrow>
          (case bs_transcript s of
             None \<Rightarrow> (Raise AttributeError, S)
           | Some T \<Rightarrow>
               (case accept_frame U T (PBytes raw) sender of
                  (r, T') \<Rightarrow> (r, S\<lparr>dr_start := Some (s\<lparr>bs_transcript := Some T'\<rparr>)\<rparr>))))"

definition send_broker :: "surroundings \<Rightarrow> bytes \<Rightarrow> string \<Rightarrow> unit drive" where
  "send_broker W raw reason =
     seq (await (\<lambda>n. sent_to W n raw)) (\<lambda>count. lift (require (count = length raw) reason))"

definition receive_broker :: "surroundings \<Rightarrow> owner \<Rightarrow> bytes drive" where
  "receive_broker W A =
     seq (await (received_at W)) (\<lambda>(raw, ancillary, flags).
     seq (lift (bind (fst (credentials ancillary flags)) (\<lambda>c. require (c = ow_peer A) ''BROKER_MESSAGE_PEER''))) (\<lambda>_.
       lift (Ret raw)))"

text \<open>\<open>_BrokerStart.__init__\<close>, up to the checked preconditions.\<close>

definition claim_operation :: "surroundings \<Rightarrow> ucd \<Rightarrow> owner \<Rightarrow> unit drive" where
  "claim_operation W U A =
     seq (guard W) (\<lambda>_.
     seq (inspect (\<lambda>S. case dr_active S of
             PStr cas \<Rightarrow> bind (require (cas \<in> set CASES \<and> cas \<notin> set (dr_attempted S)) ''BROKER_DISPATCH_REPLAY'') (\<lambda>_. Ret cas)
           | _ \<Rightarrow> refuse ''BROKER_DISPATCH_REPLAY'')) (\<lambda>operation.
     seq (lift (reservation_bytes U A)) (\<lambda>reservation.
     seq (lift (request_bytes U A operation)) (\<lambda>request.
     seq (check_peer W) (\<lambda>_.
     seq (broker_io W (read_ledger W)) (\<lambda>raw.
     seq (await (\<lambda>n. linux_time (wall_at W n))) (\<lambda>now.
     seq (lift (running_required U A operation reservation raw now)) (\<lambda>_.
       update (\<lambda>S. S\<lparr>dr_start := Some (new_start operation reservation request raw)\<rparr>)))))))))"

definition prepare_dispatch :: "surroundings \<Rightarrow> ucd \<Rightarrow> owner \<Rightarrow> bytes drive" where
  "prepare_dispatch W U A =
     seq (start_check W U A) (\<lambda>observed.
     seq (broker_io W (await (random_at W))) (\<lambda>challenge.
     seq (lift (require (length challenge = 32) ''BROKER_CHALLENGE_INVALID'')) (\<lambda>_.
     seq (needed dr_start) (\<lambda>s.
     seq (lift (bind (dispatch_items U A s observed challenge) (\<lambda>d.
           bind (broker_document U (PDict d) ''dispatch'') (canonical_bytes U)))) (\<lambda>raw.
     seq (set_start (\<lambda>s. s\<lparr>bs_dispatch := raw\<rparr>)) (\<lambda>_. lift (Ret raw)))))))"

text \<open>The case is marked as attempted before the frame is sent.\<close>

definition send_dispatch :: "surroundings \<Rightarrow> ucd \<Rightarrow> owner \<Rightarrow> bytes \<Rightarrow> unit drive" where
  "send_dispatch W U A raw =
     seq (start_check W U A) (\<lambda>_.
     seq (prepare_wait W) (\<lambda>_.
     seq (needed dr_start) (\<lambda>s.
     seq (update (\<lambda>S. S\<lparr>dr_attempted := bs_operation s # dr_attempted S\<rparr>)) (\<lambda>_.
     seq (emit (Dispatched raw)) (\<lambda>_.
     seq (finally_do (send_broker W raw ''BROKER_SEND_AMBIGUOUS'') (start_check W U A)) (\<lambda>_.
     seq (start_check W U A) (\<lambda>_. lift (Ret ()))))))))"

definition await_started :: "surroundings \<Rightarrow> ucd \<Rightarrow> owner \<Rightarrow> bytes \<Rightarrow> unit drive" where
  "await_started W U A dispatch_raw =
     seq (prepare_wait W) (\<lambda>_.
     seq (finally_do (receive_broker W A) (start_check W U A)) (\<lambda>raw.
     seq (lift (new_transcript U (PBytes (ow_binding A)) (PBytes dispatch_raw))) (\<lambda>T.
     seq (lift (fst (accept_frame U T (PBytes raw) ''BROKER''))) (\<lambda>frame.
     seq (lift (requires (item_is frame ''kind'' (PStr ''STARTED'')) ''BROKER_CONTROLLED_START_REQUIRED'')) (\<lambda>_.
     seq (start_check W U A) (\<lambda>_.
     seq (lift (canonical_bytes U frame)) (\<lambda>started.
       set_start (\<lambda>s. s\<lparr>bs_transcript := Some (snd (accept_frame U T (PBytes raw) ''BROKER'')), bs_frame := Some started\<rparr>))))))))"

definition start_case :: "surroundings \<Rightarrow> ucd \<Rightarrow> owner \<Rightarrow> unit drive" where
  "start_case W U A =
     seq (claim_operation W U A) (\<lambda>_.
     seq (prepare_dispatch W U A) (\<lambda>raw.
     seq (send_dispatch W U A raw) (\<lambda>_. await_started W U A raw)))"

section \<open>Failing closed\<close>

text \<open>\<open>_Broker.close\<close>: the connection to the API goes with the broker; it is never opened again.\<close>

definition closing :: "driver \<Rightarrow> driver" where
  "closing S = (if dr_closed S then S else S\<lparr>dr_closed := True, dr_api := None\<rparr>)"

definition fail_start :: "driver \<Rightarrow> driver" where
  "fail_start S = S\<lparr>dr_start := map_option (\<lambda>s. s\<lparr>bs_failed := True\<rparr>) (dr_start S)\<rparr>"

definition fail_events :: "driver \<Rightarrow> driver" where
  "fail_events S = S\<lparr>dr_events := map_option (\<lambda>e. e\<lparr>ev_failed := True\<rparr>) (dr_events S)\<rparr>"

definition begin_case :: "surroundings \<Rightarrow> ucd \<Rightarrow> owner \<Rightarrow> unit drive" where
  "begin_case W U A =
     failing (closing \<circ> fail_start)
       (seq (phase W A (seq (checked (\<lambda>S. Ret (dr_start S = None)) ''BROKER_DISPATCH_ALREADY_OWNED'') (\<lambda>_. start_case W U A)))
         (\<lambda>_. set_start (\<lambda>s. s\<lparr>bs_started := bs_frame s\<rparr>)))"

section \<open>Receiving frames\<close>

definition is_int :: "pyval \<Rightarrow> bool" where
  "is_int v = (case v of PInt _ \<Rightarrow> True | _ \<Rightarrow> False)"

definition optional :: "pyval option \<Rightarrow> pyval" where
  "optional v = (case v of None \<Rightarrow> PNone | Some x \<Rightarrow> x)"

text \<open>The content of a transcript as bytes; of the chunks only size and digest.\<close>

definition snapshot :: "ucd \<Rightarrow> transcript \<Rightarrow> bytes outcome" where
  "snapshot U T =
     bind (require (list_all is_int (tr_actions T)) ''BROKER_TRANSCRIPT_STATE'') (\<lambda>_.
     bind (map_out int_of_val (tr_actions T)) (\<lambda>actions.
       canonical_bytes U (PDict
         [(''binding'', tr_binding T), (''dispatch'', tr_dispatch T), (''sequence'', PInt (tr_sequence T)),
          (''previous'', PStr (tr_previous T)), (''execution'', optional (tr_execution T)),
          (''pending'', optional (tr_pending T)), (''cleanup'', optional (tr_cleanup T)),
          (''terminal'', optional (tr_terminal T)), (''actions'', PList (map PInt (sort actions))),
          (''chunks'', PList (map (\<lambda>c. PDict [(''size'', PInt (int (length c))), (''sha256'', PStr (byte_digest c))]) (tr_chunks T))),
          (''receipt_size'', PInt (int (tr_size T))), (''failed_action'', PBool (tr_failed T)),
          (''poisoned'', PBool (tr_poisoned T))])))"

definition current_transcript :: "driver \<Rightarrow> transcript outcome" where
  "current_transcript S =
     (case dr_start S of
        None \<Rightarrow> Raise AttributeError
      | Some s \<Rightarrow> (case bs_transcript s of None \<Rightarrow> refuse ''BROKER_TRANSCRIPT_OWNER'' | Some T \<Rightarrow> Ret T))"

definition pending_bytes :: "ucd \<Rightarrow> driver \<Rightarrow> bytes outcome" where
  "pending_bytes U S = bind (current_transcript S) (\<lambda>T. canonical_bytes U (optional (tr_pending T)))"

definition transcript_is :: "ucd \<Rightarrow> driver \<Rightarrow> bytes \<Rightarrow> bool outcome" where
  "transcript_is U S raw = bind (current_transcript S) (\<lambda>T. bytes_are (snapshot U T) raw)"

definition events_state_check :: "surroundings \<Rightarrow> ucd \<Rightarrow> unit drive" where
  "events_state_check W U =
     seq (needed dr_events) (\<lambda>e.
     seq (needed dr_start) (\<lambda>s.
     seq (lift (require (\<not> ev_failed e \<and> \<not> bs_failed s \<and> bs_started s = Some (ev_started e) \<and> bs_frame s = bs_started s)
           ''BROKER_EVENTS_OWNER_CHANGED'')) (\<lambda>_.
     seq (guard W) (\<lambda>_.
       checked (\<lambda>S. and_also (transcript_is U S (ev_snapshot e))
         (bind (current_transcript S) (\<lambda>T. Ret (\<not> tr_poisoned T)))) ''BROKER_TRANSCRIPT_CHANGED''))))"

definition events_check :: "surroundings \<Rightarrow> ucd \<Rightarrow> owner \<Rightarrow> unit drive" where
  "events_check W U A =
     seq (events_state_check W U) (\<lambda>_.
     seq (start_check W U A) (\<lambda>_. events_state_check W U))"

definition set_snapshot :: "bytes \<Rightarrow> unit drive" where
  "set_snapshot raw = update (\<lambda>S. S\<lparr>dr_events := map_option (\<lambda>e. e\<lparr>ev_snapshot := raw\<rparr>) (dr_events S)\<rparr>)"

text \<open>\<open>_BrokerEvents.__init__\<close>: the transcript must be that of the STARTED frame alone.\<close>

definition open_events :: "surroundings \<Rightarrow> ucd \<Rightarrow> owner \<Rightarrow> unit drive" where
  "open_events W U A =
     seq (inspect (\<lambda>S. case dr_start S of
            None \<Rightarrow> refuse ''BROKER_STARTED_REQUIRED''
          | Some s \<Rightarrow> (case bs_started s of
              None \<Rightarrow> refuse ''BROKER_STARTED_REQUIRED''
            | Some raw \<Rightarrow> bind (require (bs_frame s = Some raw) ''BROKER_STARTED_REQUIRED'') (\<lambda>_. Ret (s, raw))))) (\<lambda>(s, started).
     seq (inspect current_transcript) (\<lambda>_.
     seq (lift (bind (new_transcript U (PBytes (ow_binding A)) (PBytes (bs_dispatch s))) (\<lambda>T.
           bind (fst (accept_frame U T (PBytes started) ''BROKER'')) (\<lambda>_.
             snapshot U (snd (accept_frame U T (PBytes started) ''BROKER'')))))) (\<lambda>raw.
     seq (update (\<lambda>S. S\<lparr>dr_events := Some \<lparr>ev_started = started, ev_snapshot = raw, ev_failed = False\<rparr>\<rparr>)) (\<lambda>_.
       events_check W U A))))"

definition inbound_allowed :: "bytes \<Rightarrow> transcript \<Rightarrow> pyval \<Rightarrow> unit outcome" where
  "inbound_allowed raw T frame =
     bind (item frame ''kind'') (\<lambda>kind.
     bind (require (str_in kind [''RESOURCE_ACTION'', ''RECEIPT_CHUNK'']) ''BROKER_INBOUND_KIND_UNAVAILABLE'') (\<lambda>_.
       if py_eq kind (PStr ''RESOURCE_ACTION'') then require (length raw \<le> 16384) ''BROKER_ACTION_SIZE''
       else require (length (tr_chunks T) < 171) ''BROKER_RECEIPT_CHUNK_LIMIT''))"

definition receivable :: "driver \<Rightarrow> unit outcome" where
  "receivable S =
     bind (current_transcript S) (\<lambda>T.
     bind (require (dr_retirement S = None) ''BROKER_ACTION_HANDOFF_REQUIRED'') (\<lambda>_.
     bind (require (tr_pending T = None) ''BROKER_RESOURCE_RESULT_REQUIRED'') (\<lambda>_.
       require (tr_cleanup T = None \<and> tr_terminal T = None) ''BROKER_INBOUND_PHASE_CLOSED'')))"

definition accept_inbound :: "surroundings \<Rightarrow> ucd \<Rightarrow> owner \<Rightarrow> bytes \<Rightarrow> bytes drive" where
  "accept_inbound W U A raw =
     seq (lift (broker_document U (PBytes raw) ''frame'')) (\<lambda>frame.
     seq (inspect (\<lambda>S. bind (current_transcript S) (\<lambda>T. inbound_allowed raw T frame))) (\<lambda>_.
     seq (transcript_accept U raw ''BROKER'') (\<lambda>_.
     seq (inspect (\<lambda>S. bind (current_transcript S) (snapshot U))) (\<lambda>now.
     seq (set_snapshot now) (\<lambda>_.
     seq (events_check W U A) (\<lambda>_. lift (canonical_bytes U frame)))))))"

definition receive_frame :: "surroundings \<Rightarrow> ucd \<Rightarrow> owner \<Rightarrow> bytes option drive" where
  "receive_frame W U A =
     seq (events_check W U A) (\<lambda>_.
     seq (inspect receivable) (\<lambda>_.
     seq (await (\<lambda>n. Ret (mono_at W n))) (\<lambda>before.
     seq (checked (\<lambda>S. Ret (dr_last_mono S \<le> before \<and> before < dr_end S \<and> dr_end S \<le> ow_deadline A)) ''BROKER_CLOCK_OR_DEADLINE'') (\<lambda>_.
     seq (finally_do (await (selected_at W)) (events_check W U A)) (\<lambda>(readable, exceptional).
     seq (lift (require (\<not> exceptional) ''BROKER_READINESS_INVALID'')) (\<lambda>_.
       if \<not> readable then lift (Ret None)
       else seq (events_check W U A) (\<lambda>_.
         seq (prepare_wait W) (\<lambda>_.
         seq (finally_do (receive_broker W A) (events_check W U A)) (\<lambda>raw.
         seq (accept_inbound W U A raw) (\<lambda>frame. lift (Ret (Some frame))))))))))))"

definition poll :: "surroundings \<Rightarrow> ucd \<Rightarrow> owner \<Rightarrow> bytes option drive" where
  "poll W U A =
     failing (closing \<circ> fail_events)
       (phase W A
         (seq (inspect (\<lambda>S. Ret (dr_events S = None))) (\<lambda>first.
          seq (if first then open_events W U A else lift (Ret ())) (\<lambda>_. receive_frame W U A))))"

end
