(* ===== verification/DriverCreate.thy ===== *)
theory DriverCreate
  imports Driver Qualification
begin

text \<open>
  One CREATE on behalf of the broker: the classes \<open>_BrokerIntent\<close>, \<open>_BrokerApi\<close>, \<open>_BrokerCreateExchange\<close>,
  \<open>_BrokerCreated\<close>, \<open>_BrokerCreateResult\<close> and \<open>_BrokerCreateRetirement\<close> of \<open>live_proxy_server.py\<close>, and the operations of
  \<open>_Broker\<close> that run them.  The intent is on disk before the request leaves, the identity of the created object
  is on disk before the broker is told, and every failure closes the broker and poisons what may be ambiguous.
  Each \<open>_kept\<close> is the \<open>_state_check\<close> of a class: a condition on the state, without calls of the system.
\<close>

section \<open>Conditions on the state\<close>

definition IDENTITY_FILE :: string where
  "IDENTITY_FILE = ''/etc/planeon/live-proxy/server-identity.pem''"

definition pending_is :: "ucd \<Rightarrow> driver \<Rightarrow> bytes \<Rightarrow> bool outcome" where
  "pending_is U S raw = bytes_are (pending_bytes U S) raw"

definition line_of :: "bytes \<Rightarrow> bytes" where
  "line_of row = row @ [CHR 0x0A]"

definition created_kept :: "ucd \<Rightarrow> driver \<Rightarrow> unit outcome" where
  "created_kept U S =
     (case (dr_created S, dr_intent S, dr_exchange S, dr_api S, dr_start S) of
        (Some c, Some i, Some x, Some p, Some s) \<Rightarrow>
          bind (require (\<not> cr_failed c \<and> in_committed i \<and> in_advanced i \<and> \<not> in_failed i \<and> ex_complete x \<and>
                  ex_attempted x \<and> \<not> ex_failed x \<and> ap_ready p \<and> \<not> ap_closed p \<and> \<not> ap_failed p \<and>
                  \<not> poisoned (dr_store S)) ''BROKER_CREATED_OWNER_CHANGED'') (\<lambda>_.
          bind (requires (and_also (Ret (0 < length (cr_response c) \<and> length (cr_response c) \<le> 16384 \<and>
                  ex_response x = Some (cr_response c) \<and> ex_action x = cr_action c \<and> in_action i = cr_action c \<and>
                  ap_action p = cr_action c)) (pending_is U S (cr_action c))) ''BROKER_CREATED_INPUT_CHANGED'') (\<lambda>_.
            require (cr_before c = in_after i \<and> cr_digest c = byte_digest (cr_row c) \<and>
              cr_after c = cr_before c @ line_of (cr_row c) \<and> (\<not> cr_advanced c \<or> cr_writing c) \<and>
              bs_ledger s = (if cr_advanced c then cr_after c else cr_before c)) ''BROKER_CREATED_HISTORY_CHANGED''))
      | _ \<Rightarrow> refuse ''BROKER_CREATED_OWNER_CHANGED'')"

definition history_kept :: "ucd \<Rightarrow> driver \<Rightarrow> unit outcome" where
  "history_kept U S =
     (case (dr_intent S, dr_start S) of
        (Some i, Some s) \<Rightarrow>
          (if dr_created S \<noteq> None then
             bind (require (in_advanced i \<and> in_committed i) ''BROKER_CREATED_OWNER_CHANGED'') (\<lambda>_. created_kept U S)
           else require (bs_ledger s = (if in_advanced i then in_after i else in_before i)) ''BROKER_INTENT_HISTORY_CHANGED'')
      | _ \<Rightarrow> Raise AttributeError)"

section \<open>The intent\<close>

definition intent_pending_check :: "surroundings \<Rightarrow> ucd \<Rightarrow> owner \<Rightarrow> unit drive" where
  "intent_pending_check W U A =
     seq (needed dr_intent) (\<lambda>i.
     seq (checked (\<lambda>S. and_also (Ret (\<not> in_failed i \<and> \<not> poisoned (dr_store S)))
            (bytes_are (canonical_bytes U (ow_profile A)) (in_profile i))) ''BROKER_INTENT_OWNER_CHANGED'') (\<lambda>_.
     seq (events_state_check W U) (\<lambda>_.
       checked (\<lambda>S. pending_is U S (in_action i)) ''BROKER_INTENT_ACTION_CHANGED'')))"

definition intent_check :: "surroundings \<Rightarrow> ucd \<Rightarrow> owner \<Rightarrow> unit drive" where
  "intent_check W U A =
     seq (intent_pending_check W U A) (\<lambda>_.
     seq (inspect (history_kept U)) (\<lambda>_.
     seq (events_check W U A) (\<lambda>_. intent_pending_check W U A)))"

text \<open>The row to append, for which the history with it must replay.\<close>

definition planned_row ::
  "ucd \<Rightarrow> owner \<Rightarrow> start \<Rightarrow> bytes \<Rightarrow> string \<Rightarrow> pyval \<Rightarrow> bytes \<Rightarrow> pyval \<Rightarrow> pyval option \<Rightarrow> bytes outcome" where
  "planned_row U A s before state now profile_raw action observed =
     bind (proxy_document U 262144 (PBytes (bs_reservation s))) (\<lambda>b.
     bind (create_record U b (PStr (bs_operation s)) (PBytes profile_raw) (PBytes (ow_binding A)) action observed) (\<lambda>resource.
     bind (parse_reservations U before) (\<lambda>G.
     bind (canonical_bytes U (PDict (ledger_items G b (PStr state) (PStr (bs_operation s)) now PNone @
             [(''resource'', resource)]))) (\<lambda>row.
     bind (parse_reservations U (before @ line_of row)) (\<lambda>_. Ret row)))))"

text \<open>\<open>_AdmissionLog.record_resource\<close> on the storage of the server.\<close>

definition write_resource ::
  "surroundings \<Rightarrow> ucd \<Rightarrow> owner \<Rightarrow> start \<Rightarrow> bytes \<Rightarrow> string \<Rightarrow> pyval \<Rightarrow> bytes \<Rightarrow> pyval \<Rightarrow> pyval option \<Rightarrow> string drive" where
  "write_resource W U A s before state now profile_raw action observed =
     seq (lift (proxy_document U 262144 (PBytes (bs_reservation s)))) (\<lambda>b S.
       let result = record_resource U (extending (dr_floor S) (dr_store S) (ledger_io W (dr_calls S))) (dr_store S) b
             (PStr state) (PStr (bs_operation s)) now (PBytes profile_raw) (PBytes (ow_binding A)) action before observed in
       (fst result, S\<lparr>dr_store := snd result, dr_calls := dr_calls S + 1, dr_floor := seen_after (dr_floor S) result\<rparr>))"

definition set_intent :: "(intent \<Rightarrow> intent) \<Rightarrow> unit drive" where
  "set_intent f = update (\<lambda>S. S\<lparr>dr_intent := map_option f (dr_intent S)\<rparr>)"

definition new_intent :: "bytes \<Rightarrow> bytes \<Rightarrow> bytes \<Rightarrow> intent" where
  "new_intent before action profile_raw =
     \<lparr>in_before = before, in_after = [], in_row = [], in_action = action, in_profile = profile_raw, in_digest = [],
      in_writing = False, in_advanced = False, in_committed = False, in_failed = False\<rparr>"

definition create_action :: "ucd \<Rightarrow> bytes \<Rightarrow> pyval outcome" where
  "create_action U raw =
     bind (proxy_document U 16384 (PBytes raw)) (\<lambda>action.
     bind (require (case action of PDict d \<Rightarrow> map_of d ''verb'' = Some (PStr ''CREATE'') | _ \<Rightarrow> False)
             ''BROKER_CREATE_INTENT_REQUIRED'') (\<lambda>_. Ret action))"

definition plan_intent :: "surroundings \<Rightarrow> ucd \<Rightarrow> owner \<Rightarrow> (pyval \<times> pyval) drive" where
  "plan_intent W U A =
     seq (checked (\<lambda>S. Ret (dr_events S \<noteq> None)) ''BROKER_INTENT_EVENTS_REQUIRED'') (\<lambda>_.
     seq (events_check W U A) (\<lambda>_.
     seq (needed dr_start) (\<lambda>s.
     seq (inspect (pending_bytes U)) (\<lambda>action_raw.
     seq (lift (canonical_bytes U (ow_profile A))) (\<lambda>profile_raw.
     seq (update (\<lambda>S. S\<lparr>dr_intent := Some (new_intent (bs_ledger s) action_raw profile_raw)\<rparr>)) (\<lambda>_.
     seq (intent_check W U A) (\<lambda>_.
     seq (lift (create_action U action_raw)) (\<lambda>action.
     seq (await (\<lambda>n. Ret (wall_at W n))) (\<lambda>now.
     seq (lift (planned_row U A s (bs_ledger s) ''CREATE_INTENT'' now profile_raw action None)) (\<lambda>row.
     seq (set_intent (\<lambda>i. i\<lparr>in_row := row, in_after := in_before i @ line_of row, in_digest := byte_digest row\<rparr>)) (\<lambda>_.
       lift (Ret (action, now)))))))))))))"

definition commit_intent :: "surroundings \<Rightarrow> ucd \<Rightarrow> owner \<Rightarrow> pyval \<Rightarrow> pyval \<Rightarrow> unit drive" where
  "commit_intent W U A action now =
     seq (intent_check W U A) (\<lambda>_.
     seq (set_intent (\<lambda>i. i\<lparr>in_writing := True\<rparr>)) (\<lambda>_.
     seq (needed dr_intent) (\<lambda>i.
     seq (needed dr_start) (\<lambda>s.
     seq (emit (Intended (in_row i))) (\<lambda>_.
     seq (broker_io W (write_resource W U A s (in_before i) ''CREATE_INTENT'' now (in_profile i) action None)) (\<lambda>digest.
     seq (lift (require (digest = in_digest i) ''BROKER_INTENT_COMMIT_MISMATCH'')) (\<lambda>_.
     seq (broker_io W (read_ledger W)) (\<lambda>raw.
     seq (lift (require (raw = in_after i) ''BROKER_INTENT_READBACK_MISMATCH'')) (\<lambda>_.
     seq (intent_pending_check W U A) (\<lambda>_.
     seq (needed dr_start) (\<lambda>s'.
     seq (lift (require (bs_ledger s' = in_before i) ''BROKER_INTENT_HISTORY_CHANGED'')) (\<lambda>_.
     seq (set_start (\<lambda>s. s\<lparr>bs_ledger := in_after i\<rparr>)) (\<lambda>_.
     seq (set_intent (\<lambda>i. i\<lparr>in_advanced := True\<rparr>)) (\<lambda>_.
       intent_check W U A))))))))))))))"

definition poison_intent :: "driver \<Rightarrow> driver" where
  "poison_intent S =
     (case dr_intent S of
        None \<Rightarrow> S
      | Some i \<Rightarrow> S\<lparr>dr_intent := Some (i\<lparr>in_failed := True\<rparr>),
          dr_store := (if in_writing i then dr_store S\<lparr>poisoned := True\<rparr> else dr_store S)\<rparr>)"

definition fail_broker :: "driver \<Rightarrow> driver" where
  "fail_broker S = S\<lparr>dr_failed := True\<rparr>"

definition record_create_intent :: "surroundings \<Rightarrow> ucd \<Rightarrow> owner \<Rightarrow> unit drive" where
  "record_create_intent W U A =
     failing (closing \<circ> poison_intent \<circ> fail_broker)
       (seq (phase W A
          (seq (checked (\<lambda>S. Ret (dr_intent S = None)) ''BROKER_INTENT_ALREADY_ATTEMPTED'') (\<lambda>_.
           seq (plan_intent W U A) (\<lambda>(action, now). commit_intent W U A action now)))) (\<lambda>_.
        seq (needed dr_intent) (\<lambda>i.
        seq (needed dr_start) (\<lambda>s.
        seq (checked (\<lambda>S. Ret (\<not> in_failed i \<and> \<not> poisoned (dr_store S) \<and> bs_ledger s = in_after i))
               ''BROKER_INTENT_PUBLICATION_CHANGED'') (\<lambda>_.
          set_intent (\<lambda>i. i\<lparr>in_committed := True\<rparr>))))))"

definition check_intent :: "surroundings \<Rightarrow> ucd \<Rightarrow> owner \<Rightarrow> unit drive" where
  "check_intent W U A =
     failing (closing \<circ> fail_broker \<circ> poison_intent)
       (seq (checked (\<lambda>S. Ret (case dr_intent S of None \<Rightarrow> False | Some i \<Rightarrow> in_committed i)) ''BROKER_INTENT_NOT_COMMITTED'')
         (\<lambda>_. phase W A (intent_check W U A)))"

section \<open>The connection to the API\<close>

definition PLURALS :: "(string \<times> string) list" where
  "PLURALS = [(''Pod'', ''pods''), (''ConfigMap'', ''configmaps''), (''Service'', ''services'')]"

definition plural_of :: "pyval \<Rightarrow> string outcome" where
  "plural_of manifest =
     bind (bind (item manifest ''kind'') text_of) (\<lambda>k. case map_of PLURALS k of None \<Rightarrow> Raise KeyError | Some p \<Rightarrow> Ret p)"

definition only_resource :: "pyval \<Rightarrow> pyval \<Rightarrow> string \<Rightarrow> pyval outcome" where
  "only_resource profile digest reason =
     bind (bind (bind (item profile ''resources'') iter_of) (filter_out (\<lambda>r. item_is r ''manifestDigest'' digest))) (\<lambda>rs.
     bind (require (length rs = 1) reason) (\<lambda>_. item (hd rs) ''manifest''))"

definition api_endpoint :: "owner \<Rightarrow> pyval \<Rightarrow> pyval outcome" where
  "api_endpoint A scope =
     bind (bind (field (ow_envelope A) ''endpoints'') iter_of) (\<lambda>all_endpoints.
     bind (filter_out (\<lambda>e. same_at e ''endpointId'' scope ''apiEndpointId'') all_endpoints) (\<lambda>es.
     bind (requires (and_also (Ret (length es = 1)) (and_also (item_is (hd es) ''kind'' (PStr ''KUBERNETES_API_PROXY''))
             (py_not (same_at (hd es) ''endpointId'' scope ''endpointId'')))) ''API_ENDPOINT_REQUIRED'') (\<lambda>_.
     bind (requires (and_also (py_not (item_is (hd es) ''credentialFileReference'' (PStr IDENTITY_FILE)))
             (all_out (\<lambda>e. or_else (same_at e ''endpointId'' (hd es) ''endpointId'')
                (py_not (same_at (hd es) ''credentialFileReference'' e ''credentialFileReference''))) all_endpoints))
             ''API_CREDENTIAL_REUSE'') (\<lambda>_. Ret (hd es)))))"

definition api_credential :: "owner \<Rightarrow> pyval \<Rightarrow> unit outcome" where
  "api_credential A endpoint =
     bind (bind (at_path (ow_profile A) [''capacityEntries'', ''credentialIdentities'']) iter_of) (\<lambda>rows.
     bind (filter_out (\<lambda>r. and_also (same_at r ''endpointId'' endpoint ''endpointId'')
             (item_is r ''purpose'' (PStr ''KUBERNETES_PROXY_SERVER_MTLS''))) rows) (\<lambda>enrolled.
       require (length enrolled = 1) ''API_CREDENTIAL_ENROLLMENT''))"

definition api_grant :: "owner \<Rightarrow> pyval \<Rightarrow> pyval \<Rightarrow> pyval \<Rightarrow> pyval \<Rightarrow> unit outcome" where
  "api_grant A scope endpoint verb manifest =
     bind (plural_of manifest) (\<lambda>resource.
     bind (item endpoint ''endpointId'') (\<lambda>endpoint_id.
     bind (text_of verb) (\<lambda>v.
     bind (item scope ''namespace'') (\<lambda>namespace.
     bind (at_path manifest [''metadata'', ''name'']) (\<lambda>name.
     bind (bind (at_path (ow_profile A) [''capacityEntries'', ''kubernetesApiRules'']) iter_of) (\<lambda>rules.
       require (py_in (PDict [(''endpointId'', endpoint_id), (''verb'', PStr (map lower_char v)), (''resource'', PStr resource),
           (''namespace'', namespace), (''name'', name), (''apiGroup'', PStr ''''), (''apiVersion'', PStr ''v1''),
           (''subresource'', PStr ''''), (''requestMediaType'', PStr ''application/json''),
           (''responseMediaType'', PStr ''application/json''), (''requestMaxBytes'', PInt 16384),
           (''responseMaxBytes'', PInt 4194304)]) rules) ''API_EXACT_GRANT_REQUIRED''))))))"

definition api_ca :: "ucd \<Rightarrow> owner \<Rightarrow> pyval \<Rightarrow> bytes outcome" where
  "api_ca U A endpoint =
     bind (bind (field (ow_envelope A) ''conformanceKitRoot'') text_of) (\<lambda>root.
     bind (bind (at_path endpoint [''tls'', ''caCertificateFileReference'']) text_of) (\<lambda>path.
     (let prefix = root @ ''/''; relative = drop (length prefix) path in
      bind (require (starts_with prefix path \<and> list_all (\<lambda>p. p \<notin> {[], ''.'', ''..''}) (split_on CHR ''/'' relative))
              ''API_CA_NOT_RELEASED'') (\<lambda>_.
      bind (requires (field_is (ow_envelope A) ''campaignReleaseDigest'' (PStr (byte_digest (ow_release A))))
              ''API_RELEASE_CHANGED'') (\<lambda>_.
      bind (require_canonical_document U (ow_release A)) (\<lambda>release.
      bind (release_rows release (PStr relative)) (\<lambda>rows.
        case ow_kit A relative of
          None \<Rightarrow> refuse ''API_CA_CHANGED''
        | Some ca \<Rightarrow> bind (require (0 < length ca \<and> length ca \<le> 262144 \<and> starts_with ''-----BEGIN CERTIFICATE-----'' ca \<and>
              \<not> contains ''PRIVATE KEY'' ca \<and> py_eq (PList rows) (PList [release_row (PStr relative) ca])) ''API_CA_CHANGED'')
            (\<lambda>_. Ret ca)))))))) "

text \<open>\<open>_BrokerApi._inputs\<close>: the endpoint that the signed inputs allow for the pending action, and its CA.\<close>

definition api_inputs :: "ucd \<Rightarrow> owner \<Rightarrow> string \<Rightarrow> bytes \<Rightarrow> (bytes \<times> bytes) outcome" where
  "api_inputs U A operation action_raw =
     bind (proxy_document U 16384 (PBytes action_raw)) (\<lambda>action.
     bind (requires (and_also (Ret (case action of PDict d \<Rightarrow> fst ` set d = {''actionId'', ''verb'', ''manifestDigest''} | _ \<Rightarrow> False))
             (and_also (bind (item action ''verb'') (\<lambda>v. Ret (str_in v [''CREATE'', ''GET'', ''DELETE''])))
               (bind (item (ow_profile A) ''resources'') (\<lambda>r. Ret (truthy r))))) ''API_ACTION_REQUIRED'') (\<lambda>_.
     bind (broker_document U (PBytes (ow_binding A)) ''binding'') (\<lambda>b.
     bind (item action ''manifestDigest'') (\<lambda>digest.
     bind (requires (bind (bind (at_path b [''caseResourceDigests'', operation]) iter_of) (\<lambda>ds. Ret (py_in digest ds)))
             ''API_ACTION_CASE'') (\<lambda>_.
     bind (only_resource (ow_profile A) digest ''API_ACTION_MANIFEST'') (\<lambda>manifest.
     bind (item (ow_profile A) ''binding'') (\<lambda>scope.
     bind (api_endpoint A scope) (\<lambda>endpoint.
     bind (api_credential A endpoint) (\<lambda>_.
     bind (bind (item action ''verb'') (\<lambda>verb. api_grant A scope endpoint verb manifest)) (\<lambda>_.
     bind (api_ca U A endpoint) (\<lambda>ca.
     bind (canonical_bytes U endpoint) (\<lambda>raw. Ret (raw, ca)))))))))))))"

definition api_address :: "pyval \<Rightarrow> unit outcome" where
  "api_address endpoint =
     bind (item endpoint ''ipAddress'') (\<lambda>v.
     bind (ip_address v) (\<lambda>a.
       requires (and_also (case v of PStr s \<Rightarrow> canonical_address s | _ \<Rightarrow> Ret False)
         (and_also (Ret (\<not> is_unspecified a \<and> \<not> is_multicast a \<and>
             (is_v4 a \<or> \<not> is_mapped a \<and> (case v of PStr s \<Rightarrow> CHR ''%'' \<notin> set s | _ \<Rightarrow> False))))
           (item_is endpoint ''addressFamily'' (PStr (if is_v4 a then ''IPV4'' else ''IPV6''))))) ''API_ENDPOINT_ADDRESS''))"

text \<open>The request for the pending CREATE, derived from retained data only.\<close>

definition create_request :: "ucd \<Rightarrow> bytes \<Rightarrow> bytes \<Rightarrow> bytes \<Rightarrow> bytes outcome" where
  "create_request U action_raw profile_raw endpoint_raw =
     bind (proxy_document U 16384 (PBytes action_raw)) (\<lambda>action.
     bind (bind (items_of action) (\<lambda>d. require (map_of d ''verb'' = Some (PStr ''CREATE'')) ''API_EXCHANGE_CREATE_REQUIRED'')) (\<lambda>_.
     bind (proxy_document U 262144 (PBytes profile_raw)) (\<lambda>profile.
     bind (item action ''manifestDigest'') (\<lambda>digest.
     bind (only_resource profile digest ''API_EXCHANGE_MANIFEST_REQUIRED'') (\<lambda>manifest.
     bind (plural_of manifest) (\<lambda>plural.
     bind (at_path manifest [''metadata'', ''namespace'']) (\<lambda>namespace.
     bind (requires (and_also (item_is manifest ''apiVersion'' (PStr ''v1''))
             (and_also (bind (at_path profile [''binding'', ''namespace'']) (\<lambda>n. Ret (py_eq namespace n)))
               (Ret (text_matches LABEL namespace)))) ''API_EXCHANGE_PATH_SCOPE'') (\<lambda>_.
     bind (canonical_bytes U manifest) (\<lambda>body.
     bind (require (0 < length body \<and> length body \<le> 16384 \<and> py_eq (PStr (byte_digest body)) digest)
             ''API_EXCHANGE_BODY_SCOPE'') (\<lambda>_.
     bind (text_of namespace) (\<lambda>ns.
     bind (proxy_document U 262144 (PBytes endpoint_raw)) (\<lambda>endpoint.
     bind (bind (at_path endpoint [''tls'', ''serverName'']) text_of) (\<lambda>host.
       http_message (''POST /api/v1/namespaces/'' @ ns @ ''/'' @ plural @ '' HTTP/1.1'') body (Some host))))))))))))))"

definition exchange_kept :: "ucd \<Rightarrow> driver \<Rightarrow> unit outcome" where
  "exchange_kept U S =
     (case (dr_exchange S, dr_api S, dr_intent S) of
        (Some x, Some p, Some i) \<Rightarrow>
          bind (requires (and_also (Ret (\<not> ex_failed x \<and> ap_ready p \<and> in_committed i \<and> \<not> in_failed i \<and>
                  \<not> poisoned (dr_store S) \<and> ex_action x = in_action i \<and> ap_action p = in_action i))
                  (pending_is U S (ex_action x))) ''API_EXCHANGE_STATE_CHANGED'') (\<lambda>_.
          bind (history_kept U S) (\<lambda>_.
            requires (bytes_are (create_request U (ex_action x) (in_profile i) (ap_endpoint p)) (ex_request x))
              ''API_EXCHANGE_REQUEST_CHANGED''))
      | _ \<Rightarrow> refuse ''API_EXCHANGE_STATE_CHANGED'')"

definition set_api :: "(api \<Rightarrow> api) \<Rightarrow> unit drive" where
  "set_api f = update (\<lambda>S. S\<lparr>dr_api := map_option f (dr_api S)\<rparr>)"

definition exchange_if_any :: "ucd \<Rightarrow> unit drive" where
  "exchange_if_any U = inspect (\<lambda>S. if dr_exchange S = None then Ret () else exchange_kept U S)"

definition transport_check :: "surroundings \<Rightarrow> ucd \<Rightarrow> owner \<Rightarrow> unit drive" where
  "transport_check W U A =
     seq (checked (\<lambda>S. Ret (case dr_api S of None \<Rightarrow> False | Some p \<Rightarrow> \<not> ap_closed p \<and> \<not> ap_failed p)) ''API_OWNER_CHANGED'') (\<lambda>_.
     seq (phase W A (seq (events_check W U A) (\<lambda>_.
           seq (inspect (\<lambda>S. Ret (dr_exchange S = None))) (\<lambda>none.
             if none then lift (Ret ())
             else seq (inspect (exchange_kept U)) (\<lambda>_. intent_check W U A))))) (\<lambda>_.
     seq (needed dr_api) (\<lambda>p.
     seq (needed dr_start) (\<lambda>s.
     seq (checked (\<lambda>S. and_also (pending_is U S (ap_action p))
             (bind (api_inputs U A (bs_operation s) (ap_action p)) (\<lambda>i. Ret (i = (ap_endpoint p, ap_ca p)))))
           ''API_INPUTS_CHANGED'') (\<lambda>_.
     seq (await (transport_kept W)) (\<lambda>_.
     seq (await (\<lambda>n. Ret (mono_at W n))) (\<lambda>now.
     seq (lift (require (ap_last p \<le> now \<and> now < ow_deadline A) ''API_CLOCK_OR_DEADLINE'')) (\<lambda>_.
     seq (set_api (\<lambda>p. p\<lparr>ap_last := now\<rparr>)) (\<lambda>_. exchange_if_any U)))))))))"

definition api_io :: "surroundings \<Rightarrow> ucd \<Rightarrow> owner \<Rightarrow> 'a drive \<Rightarrow> 'a drive" where
  "api_io W U A m = seq (transport_check W U A) (\<lambda>_. finally_do m (transport_check W U A))"

text \<open>\<open>_BrokerApi.__init__\<close>: the credential is read and checked after the endpoint; creating the sealed memory file,
  the TLS context and the socket, and connecting, is one native call here, the handshake another.\<close>

definition open_api :: "surroundings \<Rightarrow> ucd \<Rightarrow> owner \<Rightarrow> unit drive" where
  "open_api W U A =
     seq (checked (\<lambda>S. Ret (dr_events S \<noteq> None)) ''API_BROKER_EVENTS_REQUIRED'') (\<lambda>_.
     seq (needed dr_start) (\<lambda>s.
     seq (await (\<lambda>n. Ret (mono_at W n))) (\<lambda>now.
     seq (inspect (pending_bytes U)) (\<lambda>action_raw.
     seq (lift (api_inputs U A (bs_operation s) action_raw)) (\<lambda>(endpoint_raw, ca).
     seq (lift (proxy_document U 262144 (PBytes endpoint_raw))) (\<lambda>endpoint.
     seq (lift (api_address endpoint)) (\<lambda>_.
     seq (update (\<lambda>S. S\<lparr>dr_api := Some \<lparr>ap_action = action_raw, ap_endpoint = endpoint_raw, ap_ca = ca, ap_last = now,
           ap_ready = False, ap_closed = False, ap_failed = False\<rparr>\<rparr>)) (\<lambda>_.
     seq (transport_check W U A) (\<lambda>_.
     seq (api_io W U A (await (credential_at W))) (\<lambda>leaf_raw.
     seq (api_io W U A (lift (check_certificate leaf_raw (ow_profile A) endpoint True))) (\<lambda>_.
     seq (api_io W U A (await (connected_at W))) (\<lambda>_.
     seq (api_io W U A (await (handshaken_at W))) (\<lambda>_.
       set_api (\<lambda>p. p\<lparr>ap_ready := True\<rparr>))))))))))))))"

definition prepare_api :: "surroundings \<Rightarrow> ucd \<Rightarrow> owner \<Rightarrow> unit drive" where
  "prepare_api W U A =
     failing (closing \<circ> fail_broker)
       (seq (checked (\<lambda>S. Ret (\<not> dr_closed S \<and> \<not> dr_failed S \<and> \<not> dr_busy S \<and> dr_api S = None)) ''BROKER_API_ALREADY_ATTEMPTED'')
         (\<lambda>_. open_api W U A))"

end
