(* ===== verification/DriverEffects.thy ===== *)
theory DriverEffects
  imports DriverCreate
begin

text \<open>
  The CREATE that the broker asked for: the exchange with the API (\<open>_BrokerCreateExchange\<close>), the durable record of
  what was created (\<open>_BrokerCreated\<close>), the answer to the broker (\<open>_BrokerCreateResult\<close>) and its retirement
  (\<open>_BrokerCreateRetirement\<close>), with the operations of \<open>_Broker\<close> that run them and the steps of a driver.
\<close>

section \<open>The exchange\<close>

definition set_exchange :: "(exchange \<Rightarrow> exchange) \<Rightarrow> unit drive" where
  "set_exchange f = update (\<lambda>S. S\<lparr>dr_exchange := map_option f (dr_exchange S)\<rparr>)"

definition fail_exchange :: "driver \<Rightarrow> driver" where
  "fail_exchange S = S\<lparr>dr_exchange := map_option (\<lambda>x. x\<lparr>ex_failed := True\<rparr>) (dr_exchange S)\<rparr>"

text \<open>Nothing of the kind was attempted, and the broker is idle.\<close>

definition fresh :: "(driver \<Rightarrow> 'a option) \<Rightarrow> string \<Rightarrow> unit drive" where
  "fresh part reason =
     checked (\<lambda>S. Ret (\<not> dr_closed S \<and> \<not> dr_failed S \<and> \<not> dr_busy S \<and> part S = None)) reason"

definition plan_exchange :: "surroundings \<Rightarrow> ucd \<Rightarrow> owner \<Rightarrow> bytes drive" where
  "plan_exchange W U A =
     seq (checked (\<lambda>S. Ret (case dr_api S of None \<Rightarrow> False | Some p \<Rightarrow> ap_ready p)) ''API_EXCHANGE_AUTHENTICATION_REQUIRED'') (\<lambda>_.
     seq (checked (\<lambda>S. Ret (case dr_intent S of None \<Rightarrow> False | Some i \<Rightarrow> in_committed i \<and> \<not> in_failed i))
            ''API_EXCHANGE_INTENT_REQUIRED'') (\<lambda>_.
     seq (needed dr_api) (\<lambda>p.
     seq (needed dr_intent) (\<lambda>i.
     seq (lift (create_request U (in_action i) (in_profile i) (ap_endpoint p))) (\<lambda>request.
     seq (update (\<lambda>S. S\<lparr>dr_exchange := Some \<lparr>ex_action = in_action i, ex_request = request, ex_response = None,
            ex_attempted = False, ex_complete = False, ex_failed = False\<rparr>\<rparr>)) (\<lambda>_.
     seq (inspect (exchange_kept U)) (\<lambda>_.
     seq (transport_check W U A) (\<lambda>_. lift (Ret request)))))))))"

text \<open>The object that the API returned must be the one that was asked for.\<close>

definition response_accepted :: "ucd \<Rightarrow> owner \<Rightarrow> start \<Rightarrow> intent \<Rightarrow> bytes \<Rightarrow> pyval outcome" where
  "response_accepted U A s i raw =
     bind (require (0 < length raw \<and> length raw \<le> 16384) ''API_EXCHANGE_RESPONSE_SIZE'') (\<lambda>_.
     bind (proxy_document U 262144 (PBytes (bs_reservation s))) (\<lambda>b.
     bind (proxy_document U 262144 (PBytes (in_action i))) (\<lambda>action.
       create_record U b (PStr (bs_operation s)) (PBytes (in_profile i)) (PBytes (ow_binding A)) action (Some (PBytes raw)))))"

definition run_exchange :: "surroundings \<Rightarrow> ucd \<Rightarrow> owner \<Rightarrow> bytes \<Rightarrow> unit drive" where
  "run_exchange W U A request =
     seq (set_exchange (\<lambda>x. x\<lparr>ex_attempted := True\<rparr>)) (\<lambda>_.
     seq (emit (Requested request)) (\<lambda>_.
     seq (await (\<lambda>n. written_to W n request)) (\<lambda>_.
     seq (transport_check W U A) (\<lambda>_.
     seq (await (\<lambda>n. read_http (buffered_at W n) (response_at W n) True None)) (\<lambda>(first, raw).
     seq (transport_check W U A) (\<lambda>_.
     seq (needed dr_start) (\<lambda>s.
     seq (needed dr_intent) (\<lambda>i.
     seq (lift (response_accepted U A s i raw)) (\<lambda>_.
     seq (set_exchange (\<lambda>x. x\<lparr>ex_response := Some raw\<rparr>)) (\<lambda>_.
       transport_check W U A))))))))))"

definition exchange_api_create :: "surroundings \<Rightarrow> ucd \<Rightarrow> owner \<Rightarrow> unit drive" where
  "exchange_api_create W U A =
     failing (closing \<circ> poison_intent \<circ> fail_exchange \<circ> fail_broker)
       (seq (fresh dr_exchange ''BROKER_EXCHANGE_ALREADY_ATTEMPTED'') (\<lambda>_.
        seq (plan_exchange W U A) (\<lambda>request.
        seq (run_exchange W U A request) (\<lambda>_.
        seq (checked (\<lambda>S. Ret (case dr_exchange S of None \<Rightarrow> False | Some x \<Rightarrow> \<not> ex_failed x \<and> ex_response x \<noteq> None))
               ''BROKER_EXCHANGE_PUBLICATION_CHANGED'') (\<lambda>_.
          set_exchange (\<lambda>x. x\<lparr>ex_complete := True\<rparr>))))))"

definition check_exchange :: "surroundings \<Rightarrow> ucd \<Rightarrow> owner \<Rightarrow> unit drive" where
  "check_exchange W U A =
     failing (closing \<circ> poison_intent \<circ> fail_exchange \<circ> fail_broker)
       (seq (checked (\<lambda>S. Ret (case dr_exchange S of None \<Rightarrow> False | Some x \<Rightarrow> ex_complete x)) ''API_EXCHANGE_NOT_COMPLETE'') (\<lambda>_.
        seq (inspect (exchange_kept U)) (\<lambda>_.
        seq (transport_check W U A) (\<lambda>_. inspect (exchange_kept U)))))"

section \<open>The record of what was created\<close>

definition set_created :: "(created \<Rightarrow> created) \<Rightarrow> unit drive" where
  "set_created f = update (\<lambda>S. S\<lparr>dr_created := map_option f (dr_created S)\<rparr>)"

definition poison_created :: "driver \<Rightarrow> driver" where
  "poison_created S =
     (case dr_created S of
        None \<Rightarrow> S
      | Some c \<Rightarrow> S\<lparr>dr_created := Some (c\<lparr>cr_failed := True\<rparr>),
          dr_store := (if cr_writing c then dr_store S\<lparr>poisoned := True\<rparr> else dr_store S)\<rparr>)"

text \<open>\<open>_BrokerCreated._check\<close>, before and after which the state must be kept.\<close>

definition created_live :: "surroundings \<Rightarrow> ucd \<Rightarrow> owner \<Rightarrow> unit drive" where
  "created_live W U A =
     seq (inspect (created_kept U)) (\<lambda>_. seq (check_exchange W U A) (\<lambda>_. inspect (created_kept U)))"

definition new_created :: "bytes \<Rightarrow> bytes \<Rightarrow> bytes \<Rightarrow> bytes \<Rightarrow> created" where
  "new_created before row response action =
     \<lparr>cr_before = before, cr_after = before @ line_of row, cr_row = row, cr_response = response, cr_action = action,
      cr_digest = byte_digest row, cr_writing = False, cr_advanced = False, cr_committed = False, cr_failed = False\<rparr>"

definition exchange_finished :: "driver \<Rightarrow> bytes outcome" where
  "exchange_finished S =
     (case dr_exchange S of
        None \<Rightarrow> refuse ''BROKER_CREATED_EXCHANGE_REQUIRED''
      | Some x \<Rightarrow>
          bind (require (ex_complete x \<and> ex_attempted x \<and> \<not> ex_failed x) ''BROKER_CREATED_EXCHANGE_REQUIRED'') (\<lambda>_.
            case ex_response x of None \<Rightarrow> Raise TypeError | Some raw \<Rightarrow> Ret raw))"

definition plan_created :: "surroundings \<Rightarrow> ucd \<Rightarrow> owner \<Rightarrow> (pyval \<times> pyval) drive" where
  "plan_created W U A =
     seq (inspect exchange_finished) (\<lambda>response.
     seq (checked (\<lambda>S. Ret (case dr_intent S of None \<Rightarrow> False | Some i \<Rightarrow> in_committed i \<and> in_advanced i \<and> \<not> in_failed i))
            ''BROKER_CREATED_INTENT_REQUIRED'') (\<lambda>_.
     seq (needed dr_intent) (\<lambda>i.
     seq (needed dr_start) (\<lambda>s.
     seq (await (\<lambda>n. Ret (wall_at W n))) (\<lambda>now.
     seq (lift (proxy_document U 262144 (PBytes (in_action i)))) (\<lambda>action.
     seq (lift (planned_row U A s (in_after i) ''CREATED'' now (in_profile i) action (Some (PBytes response)))) (\<lambda>row.
     seq (update (\<lambda>S. S\<lparr>dr_created := Some (new_created (in_after i) row response (in_action i))\<rparr>)) (\<lambda>_.
     seq (created_live W U A) (\<lambda>_. lift (Ret (action, now)))))))))))"

definition commit_created :: "surroundings \<Rightarrow> ucd \<Rightarrow> owner \<Rightarrow> pyval \<Rightarrow> pyval \<Rightarrow> unit drive" where
  "commit_created W U A action now =
     seq (events_check W U A) (\<lambda>_.
     seq (inspect (created_kept U)) (\<lambda>_.
     seq (set_created (\<lambda>c. c\<lparr>cr_writing := True\<rparr>)) (\<lambda>_.
     seq (needed dr_created) (\<lambda>c.
     seq (needed dr_intent) (\<lambda>i.
     seq (needed dr_start) (\<lambda>s.
     seq (emit (Recorded (cr_row c))) (\<lambda>_.
     seq (broker_io W (write_resource W U A s (cr_before c) ''CREATED'' now (in_profile i) action (Some (PBytes (cr_response c))))) (\<lambda>digest.
     seq (lift (require (digest = cr_digest c) ''BROKER_CREATED_COMMIT_MISMATCH'')) (\<lambda>_.
     seq (broker_io W (read_ledger W)) (\<lambda>raw.
     seq (lift (require (raw = cr_after c) ''BROKER_CREATED_READBACK_MISMATCH'')) (\<lambda>_.
     seq (intent_pending_check W U A) (\<lambda>_.
     seq (inspect (created_kept U)) (\<lambda>_.
     seq (update (\<lambda>S. S\<lparr>dr_start := map_option (\<lambda>s. s\<lparr>bs_ledger := cr_after c\<rparr>) (dr_start S),
            dr_created := map_option (\<lambda>c. c\<lparr>cr_advanced := True\<rparr>) (dr_created S)\<rparr>)) (\<lambda>_.
     seq (events_check W U A) (\<lambda>_. inspect (created_kept U))))))))))))))))"

definition record_api_created :: "surroundings \<Rightarrow> ucd \<Rightarrow> owner \<Rightarrow> unit drive" where
  "record_api_created W U A =
     failing (closing \<circ> poison_intent \<circ> poison_created \<circ> fail_broker)
       (seq (fresh dr_created ''BROKER_CREATED_ALREADY_ATTEMPTED'') (\<lambda>_.
        seq (plan_created W U A) (\<lambda>(action, now).
        seq (phase W A (commit_created W U A action now)) (\<lambda>_.
        seq (created_live W U A) (\<lambda>_.
        seq (checked (\<lambda>S. Ret (case dr_created S of None \<Rightarrow> False | Some c \<Rightarrow> \<not> cr_failed c \<and> cr_advanced c))
               ''BROKER_CREATED_PUBLICATION_CHANGED'') (\<lambda>_.
        seq (inspect (created_kept U)) (\<lambda>_. set_created (\<lambda>c. c\<lparr>cr_committed := True\<rparr>))))))))"

definition check_created :: "surroundings \<Rightarrow> ucd \<Rightarrow> owner \<Rightarrow> unit drive" where
  "check_created W U A =
     failing (closing \<circ> fail_broker \<circ> poison_intent \<circ> poison_created)
       (seq (checked (\<lambda>S. Ret (case dr_created S of None \<Rightarrow> False | Some c \<Rightarrow> cr_committed c \<and> cr_advanced c))
              ''BROKER_CREATED_NOT_COMMITTED'') (\<lambda>_. created_live W U A))"

section \<open>The answer to the broker\<close>

definition set_answer :: "(answer \<Rightarrow> answer) \<Rightarrow> unit drive" where
  "set_answer f = update (\<lambda>S. S\<lparr>dr_answer := map_option f (dr_answer S)\<rparr>)"

definition poison_answer :: "driver \<Rightarrow> driver" where
  "poison_answer S = poison_created (S\<lparr>dr_answer := map_option (\<lambda>a. a\<lparr>an_failed := True\<rparr>) (dr_answer S)\<rparr>)"

definition optional_of :: "pyval \<Rightarrow> pyval option" where
  "optional_of v = (if v = PNone then None else Some v)"

definition bool_of :: "pyval \<Rightarrow> bool outcome" where
  "bool_of v = (case v of PBool b \<Rightarrow> Ret b | _ \<Rightarrow> Raise TypeError)"

text \<open>A transcript without chunks from its snapshot.\<close>

definition restored :: "ucd \<Rightarrow> owner \<Rightarrow> bytes \<Rightarrow> pyval \<Rightarrow> transcript outcome" where
  "restored U A dispatch_raw d =
     bind (new_transcript U (PBytes (ow_binding A)) (PBytes dispatch_raw)) (\<lambda>T.
     bind (bind (item d ''sequence'') int_of_val) (\<lambda>sequence.
     bind (bind (item d ''previous'') text_of) (\<lambda>previous.
     bind (item d ''execution'') (\<lambda>execution. bind (item d ''pending'') (\<lambda>pending.
     bind (item d ''cleanup'') (\<lambda>cleanup. bind (item d ''terminal'') (\<lambda>terminal.
     bind (bind (item d ''receipt_size'') int_of_val) (\<lambda>size.
     bind (bind (item d ''failed_action'') bool_of) (\<lambda>failed.
     bind (bind (item d ''poisoned'') bool_of) (\<lambda>poison.
     bind (bind (item d ''actions'') iter_of) (\<lambda>actions.
       Ret (T\<lparr>tr_sequence := sequence, tr_previous := previous, tr_execution := optional_of execution,
         tr_pending := optional_of pending, tr_cleanup := optional_of cleanup, tr_terminal := optional_of terminal,
         tr_size := nat size, tr_failed := failed, tr_poisoned := poison, tr_actions := actions\<rparr>)))))))))))) "

definition answer_items :: "transcript \<Rightarrow> items \<Rightarrow> pyval \<Rightarrow> bytes \<Rightarrow> items" where
  "answer_items T started action_id response =
     dict_update started [(''sequence'', PInt (tr_sequence T + 1)), (''previousDigest'', PStr (tr_previous T)),
       (''kind'', PStr ''RESOURCE_RESULT''),
       (''payload'', PDict [(''actionId'', action_id), (''outcome'', PStr ''CREATED''), (''objectBase64'', PStr (b64_standard response))])]"

text \<open>\<open>_candidate\<close>: the frame to send, and the snapshot of the transcript once it is accepted.\<close>

definition candidate :: "ucd \<Rightarrow> owner \<Rightarrow> bytes \<Rightarrow> bytes \<Rightarrow> bytes \<Rightarrow> bytes \<Rightarrow> bytes \<Rightarrow> (bytes \<times> bytes) outcome" where
  "candidate U A dispatch_raw started_raw before action_raw response =
     bind (proxy_document U 262144 (PBytes before)) (\<lambda>d.
     bind (proxy_document U 16384 (PBytes action_raw)) (\<lambda>action.
     bind (requires (and_also (bind (item d ''pending'') (\<lambda>p. Ret (py_eq p action)))
             (and_also (item_is action ''verb'' (PStr ''CREATE''))
             (and_also (bind (item d ''chunks'') (\<lambda>v. Ret (\<not> truthy v)))
             (and_also (bind (item d ''cleanup'') (\<lambda>v. Ret (v = PNone))) (bind (item d ''terminal'') (\<lambda>v. Ret (v = PNone)))))))
             ''BROKER_RESULT_PHASE_INVALID'') (\<lambda>_.
     bind (restored U A dispatch_raw d) (\<lambda>T.
     bind (requires (bytes_are (snapshot U T) before) ''BROKER_RESULT_TRANSCRIPT_CHANGED'') (\<lambda>_.
     bind (bind (proxy_document U 16384 (PBytes started_raw)) items_of) (\<lambda>started.
     bind (item action ''actionId'') (\<lambda>action_id.
     bind (canonical_bytes U (PDict (answer_items T started action_id response))) (\<lambda>raw.
     bind (require (0 < length raw \<and> length raw \<le> 65536) ''BROKER_RESULT_FRAME_SIZE'') (\<lambda>_.
     bind (fst (accept_frame U T (PBytes raw) ''SERVER'')) (\<lambda>_.
     bind (snapshot U (snd (accept_frame U T (PBytes raw) ''SERVER''))) (\<lambda>after.
       Ret (raw, after))))))))))))"

definition candidate_is :: "ucd \<Rightarrow> owner \<Rightarrow> start \<Rightarrow> events \<Rightarrow> answer \<Rightarrow> bool outcome" where
  "candidate_is U A s e a =
     bind (candidate U A (bs_dispatch s) (ev_started e) (an_before a) (an_action a) (an_response a)) (\<lambda>c.
       Ret (c = (an_frame a, an_after a)))"

definition answer_kept :: "ucd \<Rightarrow> owner \<Rightarrow> driver \<Rightarrow> unit outcome" where
  "answer_kept U A S =
     (case (dr_answer S, dr_created S, dr_events S, dr_start S) of
        (Some a, Some c, Some e, Some s) \<Rightarrow>
          bind (require (\<not> an_failed a \<and> cr_committed c \<and> cr_advanced c \<and> \<not> cr_failed c) ''BROKER_RESULT_OWNER_CHANGED'') (\<lambda>_.
          bind (created_kept U S) (\<lambda>_.
          bind (requires (and_also (Ret (an_before a = ev_snapshot e)) (and_also (transcript_is U S (an_before a))
                  (Ret (an_action a = cr_action c \<and> an_response a = cr_response c \<and> an_record a = cr_row c \<and>
                    an_ledger a = cr_after c \<and> bs_ledger s = an_ledger a)))) ''BROKER_RESULT_INPUT_CHANGED'') (\<lambda>_.
            requires (candidate_is U A s e a) ''BROKER_RESULT_CANDIDATE_CHANGED'')))
      | _ \<Rightarrow> refuse ''BROKER_RESULT_OWNER_CHANGED'')"

text \<open>\<open>_BrokerCreateResult._check\<close> and \<open>_guard\<close>.\<close>

definition answer_live :: "surroundings \<Rightarrow> ucd \<Rightarrow> owner \<Rightarrow> unit drive" where
  "answer_live W U A =
     seq (inspect (answer_kept U A)) (\<lambda>_. seq (check_created W U A) (\<lambda>_. inspect (answer_kept U A)))"

definition answer_guard :: "surroundings \<Rightarrow> ucd \<Rightarrow> owner \<Rightarrow> unit drive" where
  "answer_guard W U A =
     seq (inspect (answer_kept U A)) (\<lambda>_. seq (events_check W U A) (\<lambda>_. inspect (answer_kept U A)))"

definition plan_answer :: "surroundings \<Rightarrow> ucd \<Rightarrow> owner \<Rightarrow> unit drive" where
  "plan_answer W U A =
     seq (checked (\<lambda>S. Ret (case dr_created S of None \<Rightarrow> False | Some c \<Rightarrow> cr_committed c \<and> cr_advanced c \<and> \<not> cr_failed c))
            ''BROKER_RESULT_CREATED_REQUIRED'') (\<lambda>_.
     seq (needed dr_created) (\<lambda>c.
     seq (needed dr_events) (\<lambda>e.
     seq (needed dr_start) (\<lambda>s.
     seq (lift (candidate U A (bs_dispatch s) (ev_started e) (ev_snapshot e) (cr_action c) (cr_response c))) (\<lambda>(frame, after).
     seq (update (\<lambda>S. S\<lparr>dr_answer := Some \<lparr>an_before = ev_snapshot e, an_after = after, an_frame = frame,
            an_response = cr_response c, an_record = cr_row c, an_action = cr_action c, an_ledger = cr_after c,
            an_attempted = False, an_complete = False, an_failed = False\<rparr>\<rparr>)) (\<lambda>_.
       answer_live W U A))))))"

definition deliver_answer :: "surroundings \<Rightarrow> ucd \<Rightarrow> owner \<Rightarrow> unit drive" where
  "deliver_answer W U A =
     seq (answer_guard W U A) (\<lambda>_.
     seq (needed dr_answer) (\<lambda>a.
     seq (prepare_wait W) (\<lambda>_.
     seq (set_answer (\<lambda>a. a\<lparr>an_attempted := True\<rparr>)) (\<lambda>_.
     seq (emit (Answered (an_frame a))) (\<lambda>_.
       finally_do (send_broker W (an_frame a) ''BROKER_RESULT_SEND_AMBIGUOUS'') (answer_guard W U A))))))"

definition send_create_result :: "surroundings \<Rightarrow> ucd \<Rightarrow> owner \<Rightarrow> unit drive" where
  "send_create_result W U A =
     failing (closing \<circ> fail_broker \<circ> poison_answer)
       (seq (fresh dr_answer ''BROKER_RESULT_ALREADY_ATTEMPTED'') (\<lambda>_.
        seq (plan_answer W U A) (\<lambda>_.
        seq (phase W A (deliver_answer W U A)) (\<lambda>_.
        seq (answer_live W U A) (\<lambda>_.
        seq (checked (\<lambda>S. Ret (case dr_answer S of None \<Rightarrow> False | Some a \<Rightarrow> \<not> an_failed a \<and> an_attempted a))
               ''BROKER_RESULT_PUBLICATION_CHANGED'') (\<lambda>_.
        seq (inspect (answer_kept U A)) (\<lambda>_. set_answer (\<lambda>a. a\<lparr>an_complete := True\<rparr>))))))))"

definition check_answer :: "surroundings \<Rightarrow> ucd \<Rightarrow> owner \<Rightarrow> unit drive" where
  "check_answer W U A =
     failing (closing \<circ> fail_broker \<circ> poison_answer)
       (seq (checked (\<lambda>S. Ret (case dr_answer S of None \<Rightarrow> False | Some a \<Rightarrow> an_complete a \<and> an_attempted a))
              ''BROKER_RESULT_NOT_COMPLETE'') (\<lambda>_. answer_live W U A))"

end
