(* ===== verification/DriverRetire.thy ===== *)
theory DriverRetire
  imports DriverEffects
begin

text \<open>
  The retirement of an answered CREATE (\<open>_BrokerCreateRetirement\<close>): the connection to the API is closed for good, then
  the original transcript takes the frame that was sent.  Then the steps of a driver: every public operation of
  \<open>_Broker\<close> and of its objects, in any order, and what the rest of the server and other writers of the history do.
\<close>

section \<open>The retirement\<close>

definition retained_data :: "driver \<Rightarrow> retained_data" where
  "retained_data S =
     (case (dr_answer S, dr_created S, dr_intent S, dr_exchange S, dr_api S) of
        (Some a, Some c, Some i, Some x, Some p) \<Rightarrow>
          Some (a\<lparr>an_failed := False\<rparr>, c\<lparr>cr_failed := False\<rparr>, i\<lparr>in_failed := False\<rparr>, x\<lparr>ex_failed := False\<rparr>,
            ap_action p, ap_endpoint p, ap_ca p)
      | _ \<Rightarrow> None)"

definition set_retirement :: "(retirement \<Rightarrow> retirement) \<Rightarrow> unit drive" where
  "set_retirement f = update (\<lambda>S. S\<lparr>dr_retirement := map_option f (dr_retirement S)\<rparr>)"

definition poison_retirement :: "driver \<Rightarrow> driver" where
  "poison_retirement S =
     poison_answer (S\<lparr>dr_retirement := map_option (\<lambda>r. r\<lparr>rt_failed := True\<rparr>) (dr_retirement S)\<rparr>)"

text \<open>\<open>_owners_check\<close>\<close>

definition retirement_owners :: "driver \<Rightarrow> unit outcome" where
  "retirement_owners S =
     (case (dr_retirement S, dr_answer S, dr_created S, dr_intent S, dr_exchange S, dr_api S) of
        (Some r, Some a, Some c, Some i, Some x, Some p) \<Rightarrow>
          require (\<not> rt_failed r \<and> \<not> dr_closed S \<and> \<not> dr_failed S \<and> \<not> an_failed a \<and> \<not> cr_failed c \<and> \<not> in_failed i \<and>
            \<not> ex_failed x \<and> \<not> ap_failed p \<and> \<not> poisoned (dr_store S)) ''BROKER_RETIREMENT_OWNER_CHANGED''
      | _ \<Rightarrow> refuse ''BROKER_RETIREMENT_OWNER_CHANGED'')"

definition retirement_data :: "ucd \<Rightarrow> owner \<Rightarrow> driver \<Rightarrow> retirement \<Rightarrow> bool outcome" where
  "retirement_data U A S r =
     (case (dr_answer S, dr_events S, dr_start S, dr_api S) of
        (Some a, Some e, Some s, Some p) \<Rightarrow>
          and_also (Ret (retained_data S = rt_pin r \<and> an_before a = rt_before r \<and> an_after a = rt_after r \<and>
              an_frame a = rt_frame r \<and> an_ledger a = rt_ledger r \<and> bs_ledger s = rt_ledger r))
          (and_also (candidate_is U A s e a)
            (bind (api_inputs U A (bs_operation s) (ap_action p)) (\<lambda>i. Ret (i = (ap_endpoint p, ap_ca p)))))
      | _ \<Rightarrow> Ret False)"

definition retirement_transcript :: "ucd \<Rightarrow> driver \<Rightarrow> retirement \<Rightarrow> bool outcome" where
  "retirement_transcript U S r =
     (let expected = (if rt_advanced r then rt_after r else rt_before r) in
      and_also (Ret ((\<not> rt_advanced r \<or> rt_retired r) \<and> map_option ev_snapshot (dr_events S) = Some expected))
        (transcript_is U S expected))"

text \<open>\<open>_state_check\<close>; \<open>closing\<close> after the API was closed and before the answer counts as retired.\<close>

definition retirement_kept :: "ucd \<Rightarrow> owner \<Rightarrow> bool \<Rightarrow> driver \<Rightarrow> unit outcome" where
  "retirement_kept U A shutting S =
     bind (retirement_owners S) (\<lambda>_.
     (case (dr_retirement S, dr_api S) of
        (Some r, Some p) \<Rightarrow>
          bind (requires (retirement_data U A S r) ''BROKER_RETIREMENT_DATA_CHANGED'') (\<lambda>_.
          bind (requires (retirement_transcript U S r) ''BROKER_RETIREMENT_TRANSCRIPT_CHANGED'') (\<lambda>_.
            if shutting \<or> rt_retired r then require (ap_closed p \<and> \<not> ap_ready p) ''BROKER_RETIREMENT_API_NOT_CLOSED''
            else require (\<not> ap_closed p \<and> ap_ready p) ''BROKER_RETIREMENT_API_NOT_READY''))
      | _ \<Rightarrow> refuse ''BROKER_RETIREMENT_OWNER_CHANGED''))"

definition retirement_check :: "surroundings \<Rightarrow> ucd \<Rightarrow> owner \<Rightarrow> bool \<Rightarrow> unit drive" where
  "retirement_check W U A shutting =
     seq (inspect retirement_owners) (\<lambda>_.
     seq (events_check W U A) (\<lambda>_.
     seq (inspect (retirement_kept U A shutting)) (\<lambda>_.
     seq (events_check W U A) (\<lambda>_. inspect (retirement_kept U A shutting)))))"

definition close_api :: "surroundings \<Rightarrow> unit drive" where
  "close_api W = seq (set_api (\<lambda>p. p\<lparr>ap_closed := True, ap_ready := False\<rparr>)) (\<lambda>_. await (released_at W))"

text \<open>Even a failed close is followed by the check, whose own failure does not replace it.\<close>

definition shut_api :: "surroundings \<Rightarrow> ucd \<Rightarrow> owner \<Rightarrow> unit drive" where
  "shut_api W U A =
     (\<lambda>S. case close_api W S of
        (Raise e, T) \<Rightarrow> (Raise e, snd (retirement_check W U A True T))
      | (Ret _, T) \<Rightarrow> retirement_check W U A True T)"

definition plan_retirement :: "surroundings \<Rightarrow> ucd \<Rightarrow> owner \<Rightarrow> unit drive" where
  "plan_retirement W U A =
     seq (checked (\<lambda>S. Ret (case dr_answer S of None \<Rightarrow> False | Some a \<Rightarrow> an_complete a \<and> an_attempted a \<and> \<not> an_failed a))
            ''BROKER_RETIREMENT_DELIVERY_REQUIRED'') (\<lambda>_.
     seq (check_answer W U A) (\<lambda>_.
     seq (needed dr_answer) (\<lambda>a.
       update (\<lambda>S. S\<lparr>dr_retirement := Some \<lparr>rt_before = an_before a, rt_after = an_after a, rt_frame = an_frame a,
         rt_ledger = an_ledger a, rt_pin = retained_data S, rt_retired = False, rt_advanced = False, rt_complete = False,
         rt_failed = False\<rparr>\<rparr>))))"

definition advance_transcript :: "surroundings \<Rightarrow> ucd \<Rightarrow> owner \<Rightarrow> unit drive" where
  "advance_transcript W U A =
     seq (retirement_check W U A False) (\<lambda>_.
     seq (shut_api W U A) (\<lambda>_.
     seq (set_retirement (\<lambda>r. r\<lparr>rt_retired := True\<rparr>)) (\<lambda>_.
     seq (retirement_check W U A False) (\<lambda>_.
     seq (needed dr_retirement) (\<lambda>r.
     seq (transcript_accept U (rt_frame r) ''SERVER'') (\<lambda>_.
     seq (checked (\<lambda>S. transcript_is U S (rt_after r)) ''BROKER_RETIREMENT_ADVANCE_MISMATCH'') (\<lambda>_.
     seq (set_snapshot (rt_after r)) (\<lambda>_.
     seq (set_retirement (\<lambda>r. r\<lparr>rt_advanced := True\<rparr>)) (\<lambda>_. retirement_check W U A False)))))))))"

definition retire_create_result :: "surroundings \<Rightarrow> ucd \<Rightarrow> owner \<Rightarrow> unit drive" where
  "retire_create_result W U A =
     failing (closing \<circ> fail_broker \<circ> poison_retirement)
       (seq (fresh dr_retirement ''BROKER_RETIREMENT_ALREADY_ATTEMPTED'') (\<lambda>_.
        seq (plan_retirement W U A) (\<lambda>_.
        seq (phase W A (advance_transcript W U A)) (\<lambda>_.
        seq (phase W A (retirement_check W U A False)) (\<lambda>_.
        seq (checked (\<lambda>S. Ret (case dr_retirement S of None \<Rightarrow> False | Some r \<Rightarrow> rt_retired r \<and> rt_advanced r \<and> \<not> rt_failed r))
               ''BROKER_RETIREMENT_PUBLICATION_CHANGED'') (\<lambda>_.
        seq (inspect (retirement_kept U A False)) (\<lambda>_. set_retirement (\<lambda>r. r\<lparr>rt_complete := True\<rparr>))))))))"

definition check_retirement :: "surroundings \<Rightarrow> ucd \<Rightarrow> owner \<Rightarrow> unit drive" where
  "check_retirement W U A =
     failing (closing \<circ> fail_broker \<circ> poison_retirement)
       (seq (checked (\<lambda>S. Ret (case dr_retirement S of None \<Rightarrow> False | Some r \<Rightarrow> rt_complete r \<and> rt_retired r \<and> rt_advanced r))
              ''BROKER_RETIREMENT_NOT_COMPLETE'') (\<lambda>_. phase W A (retirement_check W U A False)))"

section \<open>Steps\<close>

definition check_broker :: "surroundings \<Rightarrow> owner \<Rightarrow> unit drive" where
  "check_broker W A = phase W A (check_peer W)"

definition check_api :: "surroundings \<Rightarrow> ucd \<Rightarrow> owner \<Rightarrow> unit drive" where
  "check_api W U A =
     failing (closing \<circ> fail_broker)
       (seq (checked (\<lambda>S. Ret (case dr_api S of None \<Rightarrow> False | Some p \<Rightarrow> ap_ready p)) ''API_NOT_READY'')
         (\<lambda>_. transport_check W U A))"

text \<open>The last two steps: the server goes on to another operation, and the file is written by anybody.\<close>

inductive driver_step :: "surroundings \<Rightarrow> ucd \<Rightarrow> owner \<Rightarrow> driver \<Rightarrow> driver \<Rightarrow> bool"
  for W :: surroundings and U :: ucd and A :: owner where
  step_begin: "driver_step W U A S (snd (begin_case W U A S))"
| step_poll: "driver_step W U A S (snd (poll W U A S))"
| step_prepare: "driver_step W U A S (snd (prepare_api W U A S))"
| step_intent: "driver_step W U A S (snd (record_create_intent W U A S))"
| step_exchange: "driver_step W U A S (snd (exchange_api_create W U A S))"
| step_created: "driver_step W U A S (snd (record_api_created W U A S))"
| step_answer: "driver_step W U A S (snd (send_create_result W U A S))"
| step_retire: "driver_step W U A S (snd (retire_create_result W U A S))"
| step_check: "driver_step W U A S (snd (check_broker W A S))"
| step_check_api: "driver_step W U A S (snd (check_api W U A S))"
| step_check_intent: "driver_step W U A S (snd (check_intent W U A S))"
| step_check_exchange: "driver_step W U A S (snd (check_exchange W U A S))"
| step_check_created: "driver_step W U A S (snd (check_created W U A S))"
| step_check_answer: "driver_step W U A S (snd (check_answer W U A S))"
| step_check_retirement: "driver_step W U A S (snd (check_retirement W U A S))"
| step_close: "driver_step W U A S (closing S)"
| step_operation: "driver_step W U A S (S\<lparr>dr_active := active, dr_reserved := reserved, dr_sealed := sealed\<rparr>)"
| step_written: "driver_step W U A S (S\<lparr>dr_store := (dr_store S)\<lparr>journal := raw\<rparr>\<rparr>)"

end
