(* ===== verification/DriverLaws.thy ===== *)
theory DriverLaws
  imports DriverRetire "HOL-Library.Sublist"
begin

text \<open>
  Laws of the broker driver.  A move is \<open>calm\<close> when it adds nothing to the history of effects and leaves the data of
  the objects as they are: every check, poll and failure is calm.  The invariant \<open>sound_driver\<close> says in which order
  the effects happened and what was on disk before each; the five operations that cause an effect maintain it.
\<close>

section \<open>Calm moves\<close>

text \<open>The objects without their flags of failure and without what only checks use.\<close>

definition start_part :: "driver \<Rightarrow> (bytes option \<times> string \<times> bytes \<times> bytes) option" where
  "start_part S = map_option (\<lambda>s. (bs_started s, bs_operation s, bs_reservation s, bs_request s)) (dr_start S)"

definition intent_part :: "driver \<Rightarrow> intent option" where
  "intent_part S = map_option (\<lambda>i. i\<lparr>in_failed := False\<rparr>) (dr_intent S)"

definition exchange_part :: "driver \<Rightarrow> exchange option" where
  "exchange_part S = map_option (\<lambda>x. x\<lparr>ex_failed := False\<rparr>) (dr_exchange S)"

definition created_part :: "driver \<Rightarrow> created option" where
  "created_part S = map_option (\<lambda>c. c\<lparr>cr_failed := False\<rparr>) (dr_created S)"

definition answer_part :: "driver \<Rightarrow> answer option" where
  "answer_part S = map_option (\<lambda>a. a\<lparr>an_failed := False\<rparr>) (dr_answer S)"

lemmas part_defs = start_part_def intent_part_def exchange_part_def created_part_def answer_part_def

definition calm :: "driver \<Rightarrow> driver \<Rightarrow> bool" where
  "calm S T \<longleftrightarrow>
     dr_trace T = dr_trace S \<and> start_part T = start_part S \<and> intent_part T = intent_part S \<and>
     exchange_part T = exchange_part S \<and> created_part T = created_part S \<and> answer_part T = answer_part S \<and>
     prefix (dr_floor S) (dr_floor T)"

interpretation calm: action_order calm
  by unfold_locales (auto simp: calm_def)

lemma calm_await: "along calm (await f)"
  by (simp add: along_def await_def calm_def part_defs)

lemma calm_checked: "along calm (checked c r)"
  unfolding checked_def by (rule calm.along_inspect)

lemma calm_needed: "along calm (needed p)"
  unfolding needed_def by (rule calm.along_inspect)

lemmas calm_parts = calm.along_parts calm_await calm_checked calm_needed

lemma calm_update:
  assumes "\<And>S. dr_trace (f S) = dr_trace S" "\<And>S. start_part (f S) = start_part S" "\<And>S. intent_part (f S) = intent_part S"
    "\<And>S. exchange_part (f S) = exchange_part S" "\<And>S. created_part (f S) = created_part S"
    "\<And>S. answer_part (f S) = answer_part S" "\<And>S. dr_floor (f S) = dr_floor S"
  shows "along calm (update f)"
  by (rule along_update) (simp add: calm_def assms)

lemma calm_clock: "along calm (clock_step W low)"
  unfolding clock_step_def by (intro calm_parts calm_update) (simp_all add: part_defs)

lemma calm_guard: "along calm (guard W)"
  unfolding guard_def by (intro calm_parts calm_clock)

lemma calm_phase: "along calm m \<Longrightarrow> along calm (phase W A m)"
  unfolding phase_def
  by (intro calm_parts calm_update calm.along_failing calm_guard) (simp_all add: part_defs calm_def)

lemma calm_broker_io: "along calm m \<Longrightarrow> along calm (broker_io W m)"
  unfolding broker_io_def by (intro calm_parts calm_guard)

lemma calm_prepare_wait: "along calm (prepare_wait W)"
proof -
  have "along calm (\<lambda>S. case await (timeout_set W) S of
            (Raise e, T) \<Rightarrow> seq (guard W) (\<lambda>_. lift (Raise e)) T | (Ret x, T) \<Rightarrow> (Ret x, T))"
  proof (rule alongI)
    fix S r V
    assume run: "(case await (timeout_set W) S of
      (Raise e, T) \<Rightarrow> seq (guard W) (\<lambda>_. lift (Raise e)) T | (Ret x, T) \<Rightarrow> (Ret x, T)) = (r, V)"
    obtain x T where await: "await (timeout_set W) S = (x, T)" by fastforce
    have raised: "along calm (seq (guard W) (\<lambda>_. lift (Raise e)) :: unit drive)" for e
      by (intro calm_parts calm_guard)
    show "calm S V"
    proof (cases x)
      case (Raise e)
      then show ?thesis using run await alongD [OF calm_await await] alongD [OF raised] calm.order_trans by fastforce
    next
      case (Ret y)
      then show ?thesis using run await alongD [OF calm_await await] by simp
    qed
  qed
  then show ?thesis unfolding prepare_wait_def by (intro calm_parts calm_guard calm_clock)
qed

lemma calm_check_peer: "along calm (check_peer W)"
  unfolding check_peer_def by (intro calm_broker_io calm_await)

lemma calm_read: "along calm (read_ledger W)"
proof (rule alongI)
  fix S r T
  assume "read_ledger W S = (r, T)"
  then show "calm S T"
    by (cases r) (auto simp: read_ledger_def seq_Ret seq_Raise await_def checked_def outcome_simps calm_def part_defs starts_with_iff
        dest!: read_history_extends)
qed

lemma calm_start: "(\<And>s. bs_started (f s) = bs_started s) \<Longrightarrow> (\<And>s. bs_operation (f s) = bs_operation s) \<Longrightarrow>
    (\<And>s. bs_reservation (f s) = bs_reservation s) \<Longrightarrow> (\<And>s. bs_request (f s) = bs_request s) \<Longrightarrow> along calm (set_start f)"
  unfolding set_start_def by (rule calm_update) (simp_all add: part_defs option.map_comp comp_def)

lemma calm_start_state: "along calm (start_state_check W U A)"
  unfolding start_state_check_def by (intro calm_parts calm_guard calm_broker_io calm_read)

lemma calm_start_check: "along calm (start_check W U A)"
  unfolding start_check_def by (intro calm_parts calm_start_state calm_check_peer calm_start) simp_all

lemma calm_accept: "along calm (transcript_accept U raw sender)"
  by (simp add: along_def transcript_accept_def calm_def part_defs split: option.splits prod.splits)

lemma calm_events_state: "along calm (events_state_check W U)"
  unfolding events_state_check_def by (intro calm_parts calm_guard)

lemma calm_events: "along calm (events_check W U A)"
  unfolding events_check_def by (intro calm_parts calm_events_state calm_start_check)

lemma calm_snapshot: "along calm (set_snapshot raw)"
  unfolding set_snapshot_def by (rule calm_update) (simp_all add: part_defs)

lemma calm_open_events: "along calm (open_events W U A)"
  unfolding open_events_def split_beta by (intro calm_parts calm_events calm_update) (simp_all add: part_defs)

lemma calm_send: "along calm (send_broker W raw reason)"
  unfolding send_broker_def by (intro calm_parts)

lemma calm_receive: "along calm (receive_broker W A)"
  unfolding receive_broker_def split_beta by (intro calm_parts)

lemma calm_inbound: "along calm (accept_inbound W U A raw)"
  unfolding accept_inbound_def by (intro calm_parts calm_accept calm_snapshot calm_events)

lemma calm_if: "along calm a \<Longrightarrow> along calm b \<Longrightarrow> along calm (if c then a else b)"
  by simp

lemma calm_frame: "along calm (receive_frame W U A)"
  unfolding receive_frame_def split_beta
  by (intro calm_parts calm_if calm_events calm_prepare_wait calm_receive calm_inbound)

section \<open>Failures are calm\<close>

lemma calm_closing: "calm S (closing S)"
  by (simp add: closing_def calm_def part_defs)

lemma calm_fail_start: "calm S (fail_start S)"
  by (simp add: fail_start_def calm_def part_defs option.map_comp comp_def)

lemma calm_fail_events: "calm S (fail_events S)"
  by (simp add: fail_events_def calm_def part_defs)

lemma calm_poison_intent: "calm S (poison_intent S)"
  by (simp add: poison_intent_def calm_def part_defs split: option.split)

lemma calm_fail_broker: "calm S (fail_broker S)"
  by (simp add: fail_broker_def calm_def part_defs)

lemma calm_fail_exchange: "calm S (fail_exchange S)"
  by (simp add: fail_exchange_def calm_def part_defs option.map_comp comp_def)

lemma calm_poison_created: "calm S (poison_created S)"
  by (simp add: poison_created_def calm_def part_defs split: option.split)

lemma calm_poison_answer: "calm S (poison_answer S)"
  unfolding poison_answer_def
  by (rule calm.order_trans [OF _ calm_poison_created]) (simp add: calm_def part_defs option.map_comp comp_def)

lemma calm_poison_retirement: "calm S (poison_retirement S)"
  unfolding poison_retirement_def
  by (rule calm.order_trans [OF _ calm_poison_answer]) (simp add: calm_def part_defs)

lemmas calm_failures [simp] =
  calm.order_trans [OF _ calm_closing] calm.order_trans [OF _ calm_fail_start] calm.order_trans [OF _ calm_fail_events]
  calm.order_trans [OF _ calm_poison_intent] calm.order_trans [OF _ calm_fail_broker] calm.order_trans [OF _ calm_fail_exchange]
  calm.order_trans [OF _ calm_poison_created] calm.order_trans [OF _ calm_poison_answer]
  calm.order_trans [OF _ calm_poison_retirement] calm.order_refl

lemma calm_failing: "along calm m \<Longrightarrow> (\<And>S. calm S (h S)) \<Longrightarrow> along calm (failing h m)"
  by (rule calm.along_failing)

section \<open>Operations without an effect\<close>

lemma calm_poll: "along calm (poll W U A)"
  unfolding poll_def by (intro calm_failing calm_phase calm_parts calm_if calm_open_events calm_frame) simp

lemma calm_pending: "along calm (intent_pending_check W U A)"
  unfolding intent_pending_check_def by (intro calm_parts calm_events_state)

lemma calm_intent: "along calm (intent_check W U A)"
  unfolding intent_check_def by (intro calm_parts calm_pending calm_events)

lemma calm_check_intent: "along calm (check_intent W U A)"
  unfolding check_intent_def by (intro calm_failing calm_parts calm_phase calm_intent) simp

lemma calm_set_api: "along calm (set_api f)"
  unfolding set_api_def by (rule calm_update) (simp_all add: part_defs)

lemma calm_transport: "along calm (transport_check W U A)"
  unfolding transport_check_def exchange_if_any_def
  by (intro calm_parts calm_phase calm_if calm_events calm_intent calm_set_api)

lemma calm_api_io: "along calm m \<Longrightarrow> along calm (api_io W U A m)"
  unfolding api_io_def by (intro calm_parts calm_transport)

lemma calm_open_api: "along calm (open_api W U A)"
  unfolding open_api_def split_beta
  by (intro calm_parts calm_update calm_transport calm_api_io calm_set_api) (simp_all add: part_defs)

lemma calm_prepare_api: "along calm (prepare_api W U A)"
  unfolding prepare_api_def by (intro calm_failing calm_parts calm_open_api) simp

lemma calm_check_api: "along calm (check_api W U A)"
  unfolding check_api_def by (intro calm_failing calm_parts calm_transport) simp

lemma calm_check_exchange: "along calm (check_exchange W U A)"
  unfolding check_exchange_def by (intro calm_failing calm_parts calm_transport) simp

lemma calm_created_live: "along calm (created_live W U A)"
  unfolding created_live_def by (intro calm_parts calm_check_exchange)

lemma calm_check_created: "along calm (check_created W U A)"
  unfolding check_created_def by (intro calm_failing calm_parts calm_created_live) simp

lemma calm_answer_live: "along calm (answer_live W U A)"
  unfolding answer_live_def by (intro calm_parts calm_check_created)

lemma calm_answer_guard: "along calm (answer_guard W U A)"
  unfolding answer_guard_def by (intro calm_parts calm_events)

lemma calm_check_answer: "along calm (check_answer W U A)"
  unfolding check_answer_def by (intro calm_failing calm_parts calm_answer_live) simp

lemma calm_retirement: "along calm (retirement_check W U A shutting)"
  unfolding retirement_check_def by (intro calm_parts calm_events)

lemma calm_set_retirement: "along calm (set_retirement f)"
  unfolding set_retirement_def by (rule calm_update) (simp_all add: part_defs)

lemma calm_shut: "along calm (shut_api W U A)"
proof -
  have "along calm (close_api W)" unfolding close_api_def by (intro calm_parts calm_set_api)
  then show ?thesis
    using calm_retirement [of W U A True] calm.order_trans
    by (auto simp: along_def shut_api_def split: prod.splits outcome.splits) (metis snd_conv)+
qed

lemma calm_advance: "along calm (advance_transcript W U A)"
  unfolding advance_transcript_def
  by (intro calm_parts calm_retirement calm_shut calm_set_retirement calm_accept calm_snapshot)

lemma calm_retire: "along calm (retire_create_result W U A)"
  unfolding retire_create_result_def plan_retirement_def fresh_def
  by (intro calm_failing calm_parts calm_check_answer calm_phase calm_advance calm_retirement calm_set_retirement calm_update)
    (simp_all add: part_defs)

lemma calm_check_retirement: "along calm (check_retirement W U A)"
  unfolding check_retirement_def by (intro calm_failing calm_parts calm_phase calm_retirement) simp

lemma calm_check_broker: "along calm (check_broker W A)"
  unfolding check_broker_def by (intro calm_phase calm_check_peer)

section \<open>Writing the history\<close>

lemma appended_prefix:
  assumes "record_resource U io st b state cas now pv bv action before obs = (Ret d, st')"
  shows "refused io = None" "prefix (journal st) (journal st')"
proof -
  from assms show "refused io = None" "prefix (journal st) (journal st')"
    by (auto simp: record_resource_def commit_def opened_def bind_eq_Ret refuse_def Let_def
        split: outcome.splits prod.splits option.splits if_splits)
qed

lemma calm_write: "along calm (write_resource W U A s before state now raw action obs)"
proof (rule alongI)
  fix S r T
  assume run: "write_resource W U A s before state now raw action obs S = (r, T)"
  show "calm S T"
  proof (cases "proxy_document U 262144 (PBytes (bs_reservation s))")
    case (Raise e)
    then show ?thesis using run by (auto simp: write_resource_def seq_def lift_def)
  next
    case (Ret b)
    let ?io = "extending (dr_floor S) (dr_store S) (ledger_io W (dr_calls S))"
    obtain r' st where rec: "record_resource U ?io (dr_store S) b (PStr state)
        (PStr (bs_operation s)) now (PBytes raw) (PBytes (ow_binding A)) action before obs = (r', st)"
      by fastforce
    have T: "T = S\<lparr>dr_store := st, dr_calls := dr_calls S + 1, dr_floor := seen_after (dr_floor S) (r', st)\<rparr>"
      using run rec Ret by (auto simp: write_resource_def seq_def lift_def Let_def)
    have "prefix (dr_floor S) (seen_after (dr_floor S) (r', st))"
    proof (cases r')
      case (Ret d)
      note rec' = rec [unfolded Ret]
      have "prefix (dr_floor S) (journal (dr_store S))"
        using appended_prefix(1) [OF rec'] by (auto simp: extending_def starts_with_iff prefix_def split: if_splits)
      then show ?thesis
        using appended_prefix(2) [OF rec'] prefix_order.trans by (auto simp: seen_after_def Ret)
    qed (simp add: seen_after_def)
    then show ?thesis by (simp add: T calm_def part_defs)
  qed
qed

end
