(* ===== verification/DriverSound.thy ===== *)
theory DriverSound
  imports DriverLaws
begin

text \<open>
  What the broker driver does to the world, and in which order.  The invariant \<open>sound_driver\<close> links the history of
  effects with the objects that caused them and with the part of the admission history that the server has read
  back; each operation that causes an effect maintains it, whatever it raises and wherever it stops.
\<close>

section \<open>Effects and their justification\<close>

fun effect_name :: "effect \<Rightarrow> string" where
  "effect_name (Dispatched _) = ''DISPATCH''"
| "effect_name (Intended _) = ''INTENT''"
| "effect_name (Requested _) = ''REQUEST''"
| "effect_name (Recorded _) = ''CREATED''"
| "effect_name (Answered _) = ''RESULT''"

definition EFFECT_ORDER :: "string list" where
  "EFFECT_ORDER = [''DISPATCH'', ''INTENT'', ''REQUEST'', ''CREATED'', ''RESULT'']"

text \<open>The data of the started case, without what changes while it runs.\<close>

definition of_start :: "driver \<Rightarrow> start \<Rightarrow> bool" where
  "of_start S s \<longleftrightarrow> (\<exists>b. start_part S = Some (b, bs_operation s, bs_reservation s, bs_request s))"

text \<open>The history that the server has read says that the operation runs under this reservation.\<close>

definition running_read :: "ucd \<Rightarrow> owner \<Rightarrow> driver \<Rightarrow> start \<Rightarrow> bool" where
  "running_read U A S s \<longleftrightarrow>
     (\<exists>raw now. prefix raw (dr_floor S) \<and> running_required U A (bs_operation s) (bs_reservation s) raw now = Ret ())"

definition dispatch_ready :: "ucd \<Rightarrow> owner \<Rightarrow> driver \<Rightarrow> bytes \<Rightarrow> bool" where
  "dispatch_ready U A S frame \<longleftrightarrow>
     (\<exists>s observed challenge d v.
        of_start S s \<and> reservation_bytes U A = Ret (bs_reservation s) \<and> request_bytes U A (bs_operation s) = Ret (bs_request s) \<and>
        running_read U A S s \<and> length challenge = 32 \<and> dispatch_items U A s observed challenge = Ret d \<and>
        broker_document U (PDict d) ''dispatch'' = Ret v \<and> canonical_bytes U v = Ret frame)"

definition planned_intent :: "ucd \<Rightarrow> owner \<Rightarrow> driver \<Rightarrow> intent \<Rightarrow> bool" where
  "planned_intent U A S i \<longleftrightarrow>
     in_after i = in_before i @ line_of (in_row i) \<and>
     (\<exists>s now action. of_start S s \<and> create_action U (in_action i) = Ret action \<and>
        planned_row U A s (in_before i) ''CREATE_INTENT'' now (in_profile i) action None = Ret (in_row i))"

definition planned_created :: "ucd \<Rightarrow> owner \<Rightarrow> driver \<Rightarrow> created \<Rightarrow> bool" where
  "planned_created U A S c \<longleftrightarrow>
     cr_after c = cr_before c @ line_of (cr_row c) \<and>
     (\<exists>i s now action. intent_part S = Some i \<and> of_start S s \<and> cr_before c = in_after i \<and> cr_action c = in_action i \<and>
        proxy_document U 262144 (PBytes (in_action i)) = Ret action \<and>
        planned_row U A s (cr_before c) ''CREATED'' now (in_profile i) action (Some (PBytes (cr_response c))) = Ret (cr_row c))"

definition answers :: "ucd \<Rightarrow> owner \<Rightarrow> created \<Rightarrow> bytes \<Rightarrow> bool" where
  "answers U A c frame \<longleftrightarrow>
     (\<exists>dispatched started before after. candidate U A dispatched started before (cr_action c) (cr_response c) = Ret (frame, after))"

text \<open>What was the case before each effect.\<close>

fun justified :: "ucd \<Rightarrow> owner \<Rightarrow> driver \<Rightarrow> effect \<Rightarrow> bool" where
  "justified U A S (Dispatched frame) \<longleftrightarrow> dispatch_ready U A S frame"
| "justified U A S (Intended row) \<longleftrightarrow> (\<exists>i. intent_part S = Some i \<and> in_row i = row \<and> planned_intent U A S i)"
| "justified U A S (Requested request) \<longleftrightarrow>
     (\<exists>i endpoint. intent_part S = Some i \<and> planned_intent U A S i \<and> prefix (in_after i) (dr_floor S) \<and>
        create_request U (in_action i) (in_profile i) endpoint = Ret request)"
| "justified U A S (Recorded row) \<longleftrightarrow> (\<exists>c. created_part S = Some c \<and> cr_row c = row \<and> planned_created U A S c)"
| "justified U A S (Answered frame) \<longleftrightarrow>
     (\<exists>c. created_part S = Some c \<and> planned_created U A S c \<and> prefix (cr_after c) (dr_floor S) \<and> answers U A c frame)"

section \<open>The invariant\<close>

definition intent_sound :: "ucd \<Rightarrow> owner \<Rightarrow> driver \<Rightarrow> bool" where
  "intent_sound U A S \<longleftrightarrow>
     (case intent_part S of
        None \<Rightarrow> length (dr_trace S) < 2
      | Some i \<Rightarrow> in_committed i \<longrightarrow> 2 \<le> length (dr_trace S) \<and> planned_intent U A S i \<and> prefix (in_after i) (dr_floor S))"

definition created_sound :: "ucd \<Rightarrow> owner \<Rightarrow> driver \<Rightarrow> bool" where
  "created_sound U A S \<longleftrightarrow>
     (case created_part S of
        None \<Rightarrow> length (dr_trace S) < 4
      | Some c \<Rightarrow> cr_committed c \<longrightarrow> 4 \<le> length (dr_trace S) \<and> planned_created U A S c \<and> prefix (cr_after c) (dr_floor S))"

definition start_sound :: "driver \<Rightarrow> bool" where
  "start_sound S \<longleftrightarrow>
     (case start_part S of None \<Rightarrow> dr_trace S = []
      | Some (started, _) \<Rightarrow> started \<noteq> None \<longrightarrow> dr_trace S \<noteq> [])"

definition exchange_sound :: "driver \<Rightarrow> bool" where
  "exchange_sound S \<longleftrightarrow>
     (case exchange_part S of None \<Rightarrow> length (dr_trace S) < 3 | Some x \<Rightarrow> ex_complete x \<longrightarrow> 3 \<le> length (dr_trace S))"

definition answer_sound :: "driver \<Rightarrow> bool" where
  "answer_sound S \<longleftrightarrow> (answer_part S = None \<longrightarrow> length (dr_trace S) < 5)"

definition sound_driver :: "ucd \<Rightarrow> owner \<Rightarrow> driver \<Rightarrow> bool" where
  "sound_driver U A S \<longleftrightarrow>
     prefix (map effect_name (dr_trace S)) EFFECT_ORDER \<and> list_all (justified U A S) (dr_trace S) \<and>
     start_sound S \<and> intent_sound U A S \<and> exchange_sound S \<and> created_sound U A S \<and> answer_sound S"

lemmas sound_parts = start_sound_def intent_sound_def exchange_sound_def created_sound_def answer_sound_def

lemma sound_new: "sound_driver U A (new_driver st seen calls now wall)"
  by (simp add: sound_driver_def sound_parts new_driver_def part_defs)

section \<open>Calm moves keep it\<close>

lemma calm_planned: "calm S T \<Longrightarrow> planned_intent U A S i = planned_intent U A T i"
  "calm S T \<Longrightarrow> planned_created U A S c = planned_created U A T c"
  by (simp_all add: planned_intent_def planned_created_def of_start_def calm_def)

lemma calm_ready:
  assumes "calm S T" "dispatch_ready U A S frame"
  shows "dispatch_ready U A T frame"
proof -
  have "running_read U A T s" if "running_read U A S s" for s
    using that assms(1) prefix_order.trans unfolding running_read_def calm_def by blast
  moreover have "of_start T s = of_start S s" for s using assms(1) by (simp add: of_start_def calm_def)
  ultimately show ?thesis using assms(2) unfolding dispatch_ready_def by fast
qed

lemma calm_floor: "calm S T \<Longrightarrow> prefix raw (dr_floor S) \<Longrightarrow> prefix raw (dr_floor T)"
  unfolding calm_def using prefix_order.trans by blast

lemma calm_same:
  assumes "calm S T"
  shows "dr_trace T = dr_trace S" "start_part T = start_part S" "intent_part T = intent_part S"
    "exchange_part T = exchange_part S" "created_part T = created_part S" "answer_part T = answer_part S"
  using assms by (simp_all add: calm_def)

lemma calm_justified: "calm S T \<Longrightarrow> justified U A S e \<Longrightarrow> justified U A T e"
  by (cases e) (auto simp: calm_same calm_planned [of S T] intro: calm_ready calm_floor)

lemma calm_parts_sound:
  assumes "calm S T"
  shows "start_sound S \<Longrightarrow> start_sound T" "exchange_sound S \<Longrightarrow> exchange_sound T" "answer_sound S \<Longrightarrow> answer_sound T"
    "intent_sound U A S \<Longrightarrow> intent_sound U A T" "created_sound U A S \<Longrightarrow> created_sound U A T"
  using assms calm_floor [OF assms]
  by (simp_all only: start_sound_def exchange_sound_def answer_sound_def calm_same [OF assms])
    (auto simp: intent_sound_def created_sound_def calm_same [OF assms] calm_planned [OF assms] split: option.splits)

lemma calm_sound:
  assumes "calm S T" "sound_driver U A S"
  shows "sound_driver U A T"
proof -
  have "list_all (justified U A T) (dr_trace T)"
    using assms calm_justified [OF assms(1)] by (simp add: sound_driver_def calm_same list_all_iff)
  then show ?thesis
    using assms calm_parts_sound [OF assms(1)] by (simp add: sound_driver_def calm_same [OF assms(1)])
qed

lemma sound_stable: "stable calm (sound_driver U A)"
  using calm_sound by (auto simp: stable_def)

end
