(* ===== verification/DriverOps.thy ===== *)
theory DriverOps
  imports DriverSound
begin

text \<open>
  The five operations that cause an effect maintain \<open>sound_driver\<close>, and so does every step of a driver: its effects
  come in the order of the protocol, once each, and each is justified by what the server had read back of the
  history before it.  \<open>sound\<close> interprets \<open>stable_invariant\<close> on the calm moves of the driver.
\<close>

interpretation sound: stable_invariant calm "sound_driver U A" for U A
  by unfold_locales (rule sound_stable)

lemma stableI: "(\<And>S T. calm S T \<Longrightarrow> P S \<Longrightarrow> P T) \<Longrightarrow> stable calm P"
  by (simp add: stable_def)

lemma checked_then:
  "maintains J (\<lambda>S. P S \<and> c S = Ret True) (f ()) V \<Longrightarrow> maintains J P (seq (checked c r) f) V"
  unfolding checked_def by (rule inspect_then) (auto elim: maintains_pre simp: outcome_simps)

lemma needed_then:
  assumes "\<And>x. maintains J (\<lambda>S. P S \<and> part S = Some x) (f x) V"
  shows "maintains J P (seq (needed part) f) V"
  unfolding needed_def
proof (rule inspect_then)
  fix x
  show "maintains J (\<lambda>S. P S \<and> (case part S of None \<Rightarrow> Raise AttributeError | Some y \<Rightarrow> Ret y) = Ret x) (f x) V"
    by (rule maintains_pre [OF assms]) (auto split: option.splits)
qed

lemma maintains_phase:
  assumes "maintains (sound_driver U A) P m (\<lambda>_. K)" "stable calm P" "stable calm K"
  shows "maintains (sound_driver U A) P (phase W A m) (\<lambda>_. K)"
proof -
  have flags: "along calm (update (\<lambda>S. S\<lparr>dr_busy := b\<rparr>))" "along calm (update (\<lambda>S. S\<lparr>dr_phase := w\<rparr>))"
    "along calm (update (\<lambda>S. S\<lparr>dr_end := e\<rparr>))" for b w e
    by (rule calm_update; simp add: part_defs)+
  have handler: "calm S (S\<lparr>dr_failed := True, dr_busy := False\<rparr>)" for S by (simp add: calm_def part_defs)
  have body: "maintains (sound_driver U A) P (seq (guard W) (\<lambda>_. seq m (\<lambda>x. seq (guard W) (\<lambda>_. lift (Ret x))))) (\<lambda>_. K)"
    by (rule sound.calm_then [OF calm_guard assms(2)], rule maintains_seq [OF assms(1)],
        rule sound.calm_then [OF calm_guard assms(3)], rule sound.calm_last [OF calm.along_lift assms(3)])
  show ?thesis
    unfolding phase_def
    by (rule sound.calm_then [OF calm_checked assms(2)], rule sound.calm_then [OF flags(1) assms(2)],
        rule sound.calm_then [OF calm_await assms(2)], rule sound.calm_then [OF flags(3) assms(2)],
        rule sound.calm_then [OF calm_await assms(2)], rule sound.calm_then [OF flags(2) assms(2)],
        rule maintains_seq [OF sound.failing_calm [OF body handler]],
        rule sound.calm_then [OF flags(1) assms(3)], rule sound.calm_last [OF calm.along_lift assms(3)])
qed

lemma read_then:
  assumes "stable calm P" "\<And>raw. maintains (sound_driver U A) (\<lambda>S. P S \<and> prefix raw (dr_floor S)) (f raw) V"
  shows "maintains (sound_driver U A) P (seq (broker_io W (read_ledger W)) f) V"
proof (rule maintains_seq [OF maintainsI assms(2)])
  fix S raw T
  assume S: "sound_driver U A S" "P S" "broker_io W (read_ledger W) S = (Ret raw, T)"
  then obtain y S1 V z where "read_ledger W S1 = (Ret raw, V)" "guard W V = (Ret z, T)"
    by (auto simp: broker_io_def seq_Ret finally_Ret)
  then have "dr_floor V = raw" "calm V T"
    using alongD [OF calm_guard] by (auto simp: read_ledger_def seq_Ret)
  moreover have "calm S T" using S(3) alongD [OF calm_broker_io [OF calm_read]] by blast
  ultimately show "sound_driver U A T \<and> P T \<and> prefix raw (dr_floor T)"
    using S assms(1) calm_sound by (auto simp: stable_def calm_def)
next
  fix S e T
  assume "sound_driver U A S" "broker_io W (read_ledger W) S = (Raise e, T)"
  then show "sound_driver U A T" using calm_sound alongD [OF calm_broker_io [OF calm_read]] by blast
qed

text \<open>Behind the events there is a case whose dispatch was sent.\<close>

lemma events_then:
  assumes "stable calm P" "\<And>x. maintains (sound_driver U A) (\<lambda>S. P S \<and> dr_trace S \<noteq> []) (f x) V"
  shows "maintains (sound_driver U A) P (seq (events_check W U A) f) V"
proof (rule maintains_seq [OF maintainsI assms(2)])
  fix S x T
  assume S: "sound_driver U A S" "P S" "events_check W U A S = (Ret x, T)"
  have c: "calm S T" using S(3) alongD [OF calm_events] by blast
  obtain s where "dr_start S = Some s" "bs_started s \<noteq> None"
    using S(3) by (auto simp: events_check_def events_state_check_def seq_Ret needed_def split: option.splits)
  then have "dr_trace S \<noteq> []" using S(1) by (auto simp: sound_driver_def start_sound_def start_part_def)
  then show "sound_driver U A T \<and> P T \<and> dr_trace T \<noteq> []"
    using S c assms(1) calm_sound by (auto simp: stable_def calm_same)
next
  fix S e T
  assume "sound_driver U A S" "events_check W U A S = (Raise e, T)"
  then show "sound_driver U A T" using calm_sound alongD [OF calm_events] by blast
qed

section \<open>Extending the history\<close>

lemma order_snoc:
  assumes "prefix xs EFFECT_ORDER" "length xs < 5"
  shows "prefix (xs @ [EFFECT_ORDER ! length xs]) EFFECT_ORDER"
proof -
  have "xs = take (length xs) EFFECT_ORDER" using assms(1) by (metis append_eq_conv_conj prefix_def)
  then have "xs @ [EFFECT_ORDER ! length xs] = take (Suc (length xs)) EFFECT_ORDER"
    using take_Suc_conv_app_nth [of "length xs" EFFECT_ORDER] assms(2) by (simp add: EFFECT_ORDER_def del: take_Suc_Cons)
  then show ?thesis by (metis take_is_prefix)
qed

lemma justified_same:
  assumes "start_part T = start_part S" "intent_part T = intent_part S" "created_part T = created_part S" "dr_floor T = dr_floor S"
  shows "justified U A T e = justified U A S e"
    "planned_intent U A T i = planned_intent U A S i" "planned_created U A T c = planned_created U A S c"
  using assms by (cases e; simp add: dispatch_ready_def running_read_def planned_intent_def planned_created_def of_start_def)+

lemma emitted_parts [simp]:
  "start_part (S\<lparr>dr_trace := x\<rparr>) = start_part S" "intent_part (S\<lparr>dr_trace := x\<rparr>) = intent_part S"
  "exchange_part (S\<lparr>dr_trace := x\<rparr>) = exchange_part S" "created_part (S\<lparr>dr_trace := x\<rparr>) = created_part S"
  "answer_part (S\<lparr>dr_trace := x\<rparr>) = answer_part S"
  by (simp_all add: part_defs)

lemma sound_emit:
  assumes "sound_driver U A S" "length (dr_trace S) = n" "n < 5" "EFFECT_ORDER ! n = effect_name e" "justified U A S e"
    "start_part S \<noteq> None" "intent_part S = None \<Longrightarrow> Suc n < 2" "exchange_part S = None \<Longrightarrow> Suc n < 3"
    "created_part S = None \<Longrightarrow> Suc n < 4" "answer_part S = None \<Longrightarrow> Suc n < 5"
  shows "sound_driver U A (S\<lparr>dr_trace := dr_trace S @ [e]\<rparr>)"
proof -
  let ?T = "S\<lparr>dr_trace := dr_trace S @ [e]\<rparr>"
  have same: "justified U A ?T = justified U A S" "planned_intent U A ?T = planned_intent U A S"
    "planned_created U A ?T = planned_created U A S"
    by (intro ext justified_same; simp)+
  have "prefix (map effect_name (dr_trace ?T)) EFFECT_ORDER"
    using order_snoc [of "map effect_name (dr_trace S)"] assms by (simp add: sound_driver_def)
  moreover have "list_all (justified U A ?T) (dr_trace ?T)"
    using assms same by (simp add: sound_driver_def)
  ultimately show ?thesis
    using assms unfolding sound_driver_def sound_parts same emitted_parts by (auto split: option.splits)
qed

section \<open>Dispatching\<close>

definition claimed :: "ucd \<Rightarrow> owner \<Rightarrow> driver \<Rightarrow> bool" where
  "claimed U A S \<longleftrightarrow>
     dr_trace S = [] \<and> (\<exists>s. start_part S = Some (None, bs_operation s, bs_reservation s, bs_request s) \<and>
       reservation_bytes U A = Ret (bs_reservation s) \<and> request_bytes U A (bs_operation s) = Ret (bs_request s) \<and>
       running_read U A S s)"

definition dispatchable :: "ucd \<Rightarrow> owner \<Rightarrow> bytes \<Rightarrow> driver \<Rightarrow> bool" where
  "dispatchable U A frame S \<longleftrightarrow> dr_trace S = [] \<and> dispatch_ready U A S frame"

lemma running_calm: "calm S T \<Longrightarrow> running_read U A S s \<Longrightarrow> running_read U A T s"
  unfolding running_read_def using calm_floor by blast

lemma stable_claimed: "stable calm (claimed U A)"
proof (rule stableI)
  fix S T
  assume "calm S T" "claimed U A S"
  then show "claimed U A T" unfolding claimed_def calm_same(1,2) [OF \<open>calm S T\<close>] using running_calm by blast
qed

lemma stable_dispatchable: "stable calm (dispatchable U A frame)"
  by (rule stableI) (auto simp: dispatchable_def calm_same intro: calm_ready)

lemma stable_trace: "stable calm (\<lambda>S. dr_trace S \<noteq> [])"
  by (rule stableI) (simp add: calm_same)

text \<open>A new start while there was none: nothing happened before.\<close>

lemma sound_start:
  assumes "sound_driver U A S" "dr_trace S = []"
  shows "sound_driver U A (S\<lparr>dr_start := Some (new_start cas res req raw)\<rparr>)"
  using assms unfolding sound_driver_def sound_parts
  by (auto simp: part_defs new_start_def split: option.splits)

lemma claim_maintains:
  "maintains (sound_driver U A) (\<lambda>S. start_part S = None) (claim_operation W U A) (\<lambda>_. claimed U A)"
  unfolding claim_operation_def
proof (rule sound.calm_then [OF calm_guard], goal_cases _ a)
  case (a x)
  have st: "stable calm (\<lambda>S. start_part S = None)" by (rule stableI) (simp add: calm_same)
  show ?case
  proof (rule sound.calm_then [OF calm.along_inspect st], rule lift_then, rule lift_then, rule sound.calm_then [OF calm_check_peer st],
      rule read_then [OF st], rule sound.calm_then [OF calm_await], goal_cases _ b)
    case (b cas res req y raw now)
    show ?case
    proof (rule lift_then, rule maintains_update)
      fix u S
      assume run: "running_required U A cas res raw now = Ret u"
        and S: "sound_driver U A S" "start_part S = None \<and> prefix raw (dr_floor S)"
      let ?T = "S\<lparr>dr_start := Some (new_start cas res req raw)\<rparr>"
      have none: "dr_trace S = []" using S by (simp add: sound_driver_def start_sound_def)
      have "running_read U A ?T (new_start cas res req raw)"
        using run S by (auto simp: running_read_def new_start_def)
      then have "claimed U A ?T"
        using b none by (auto simp: claimed_def start_part_def new_start_def intro!: exI [of _ "new_start cas res req raw"])
      then show "sound_driver U A ?T \<and> claimed U A ?T" using sound_start S(1) none by blast
    qed
  qed (auto intro!: stableI simp: calm_same calm_floor)
qed (auto intro!: stableI simp: calm_same)

lemma prepare_maintains:
  "maintains (sound_driver U A) (claimed U A) (prepare_dispatch W U A) (dispatchable U A)"
  unfolding prepare_dispatch_def
proof (rule sound.calm_then [OF calm_start_check stable_claimed],
    rule sound.calm_then [OF calm_broker_io [OF calm_await] stable_claimed], rule lift_then, rule needed_then, rule lift_then, goal_cases)
  case (1 observed challenge u s frame)
  then obtain d v where d: "dispatch_items U A s observed challenge = Ret d" "broker_document U (PDict d) ''dispatch'' = Ret v"
    "canonical_bytes U v = Ret frame" by (auto simp: bind_eq_Ret)
  have ready: "dispatchable U A frame S" if "claimed U A S" "dr_start S = Some s" for S
  proof -
    have p: "start_part S = Some (bs_started s, bs_operation s, bs_reservation s, bs_request s)" using that by (simp add: start_part_def)
    then have "running_read U A S s" using that(1) by (auto simp: claimed_def running_read_def) blast
    then show ?thesis
      using that(1) p d 1(1) by (auto simp: dispatchable_def dispatch_ready_def claimed_def of_start_def intro!: exI [of _ s])
  qed
  show ?case
  proof (rule maintains_pre [where P = "dispatchable U A frame"])
    show "maintains (sound_driver U A) (dispatchable U A frame)
        (seq (set_start (\<lambda>s. s\<lparr>bs_dispatch := frame\<rparr>)) (\<lambda>_. lift (Ret frame))) (dispatchable U A)"
      by (rule sound.calm_then [OF calm_start stable_dispatchable]) (auto intro: maintains_post [OF maintains_lift])
  qed (use ready in blast)
qed

lemma send_maintains:
  "maintains (sound_driver U A) (dispatchable U A frame) (send_dispatch W U A frame) (\<lambda>_ S. dr_trace S \<noteq> [])"
  unfolding send_dispatch_def emit_def
proof (rule sound.calm_then [OF calm_start_check stable_dispatchable], rule sound.calm_then [OF calm_prepare_wait stable_dispatchable],
    rule sound.calm_then [OF calm_needed stable_dispatchable], rule sound.calm_then [OF _ stable_dispatchable],
    goal_cases _ emit)
  case (emit x y z u)
  show ?case
  proof (rule update_then)
    fix S
    assume S: "sound_driver U A S" "dispatchable U A frame S"
    then have "start_part S \<noteq> None" by (auto simp: dispatchable_def dispatch_ready_def of_start_def)
    then have "sound_driver U A (S\<lparr>dr_trace := dr_trace S @ [Dispatched frame]\<rparr>)"
      using S by (intro sound_emit [where n = 0]) (auto simp: dispatchable_def EFFECT_ORDER_def)
    then show "sound_driver U A (S\<lparr>dr_trace := dr_trace S @ [Dispatched frame]\<rparr>) \<and>
        dr_trace (S\<lparr>dr_trace := dr_trace S @ [Dispatched frame]\<rparr>) \<noteq> []"
      by simp
  next
    show "maintains (sound_driver U A) (\<lambda>S. dr_trace S \<noteq> [])
        (seq (finally_do (send_broker W frame ''BROKER_SEND_AMBIGUOUS'') (start_check W U A))
          (\<lambda>_. seq (start_check W U A) (\<lambda>_. lift (Ret ())))) (\<lambda>_ S. dr_trace S \<noteq> [])"
      by (intro sound.calm_last stable_trace calm_parts calm_send calm_start_check)
  qed
qed (auto intro!: calm_update simp: part_defs)

lemma calm_await_started: "along calm (await_started W U A frame)"
  unfolding await_started_def
  by (intro calm_parts calm_prepare_wait calm_receive calm_start_check calm_start) simp_all

lemma start_maintains:
  "maintains (sound_driver U A) (\<lambda>S. start_part S = None) (start_case W U A) (\<lambda>_ S. dr_trace S \<noteq> [])"
  unfolding start_case_def
  by (rule maintains_seq [OF claim_maintains], rule maintains_seq [OF prepare_maintains], rule maintains_seq [OF send_maintains],
      rule sound.calm_last [OF calm_await_started stable_trace])

lemma sound_started:
  assumes "sound_driver U A S" "dr_trace S \<noteq> []"
  shows "sound_driver U A (S\<lparr>dr_start := map_option (\<lambda>s. s\<lparr>bs_started := bs_frame s\<rparr>) (dr_start S)\<rparr>)" (is "sound_driver U A ?T")
proof -
  have same: "of_start ?T = of_start S" by (rule ext) (auto simp: of_start_def start_part_def)
  have parts: "intent_part ?T = intent_part S" "created_part ?T = created_part S" "exchange_part ?T = exchange_part S"
    "answer_part ?T = answer_part S" by (simp_all add: part_defs)
  have just: "justified U A ?T e = justified U A S e" "planned_intent U A ?T i = planned_intent U A S i"
    "planned_created U A ?T c = planned_created U A S c" for e i c
    using same parts by (cases e; simp add: dispatch_ready_def running_read_def planned_intent_def planned_created_def)+
  have "list_all (justified U A ?T) (dr_trace S)" using assms(1) just(1) by (simp add: sound_driver_def list_all_iff)
  then show ?thesis
    using assms by (auto simp: sound_driver_def sound_parts parts just start_part_def split: option.splits)
qed

lemma begin_sound:
  assumes "sound_driver U A S"
  shows "sound_driver U A (snd (begin_case W U A S))"
proof -
  let ?first = "seq (checked (\<lambda>S. Ret (dr_start S = None)) ''BROKER_DISPATCH_ALREADY_OWNED'') (\<lambda>_. start_case W U A)"
  have "maintains (sound_driver U A) (\<lambda>_. True) ?first (\<lambda>_ S. dr_trace S \<noteq> [])"
    by (rule checked_then, rule maintains_pre [OF start_maintains]) (simp add: start_part_def)
  from maintains_phase [OF this stable_const stable_trace]
  have "maintains (sound_driver U A) (\<lambda>_. True) (seq (phase W A ?first) (\<lambda>_. set_start (\<lambda>s. s\<lparr>bs_started := bs_frame s\<rparr>))) (\<lambda>_ _. True)"
    unfolding set_start_def by (rule maintains_seq) (rule maintains_update, simp add: sound_started)
  then have "maintains (sound_driver U A) (\<lambda>_. True) (begin_case W U A) (\<lambda>_ _. True)"
    unfolding begin_case_def by (rule sound.failing_calm) simp
  then show ?thesis using assms by (rule maintains_start) simp
qed

section \<open>The intent\<close>

lemma sound_same:
  "start_part T = start_part S \<Longrightarrow> dr_trace T = dr_trace S \<Longrightarrow> start_sound T = start_sound S"
  "exchange_part T = exchange_part S \<Longrightarrow> dr_trace T = dr_trace S \<Longrightarrow> exchange_sound T = exchange_sound S"
  "answer_part T = answer_part S \<Longrightarrow> dr_trace T = dr_trace S \<Longrightarrow> answer_sound T = answer_sound S"
  by (simp_all only: start_sound_def exchange_sound_def answer_sound_def)

definition same_intent :: "intent \<Rightarrow> intent \<Rightarrow> bool" where
  "same_intent i j \<longleftrightarrow> in_before i = in_before j \<and> in_after i = in_after j \<and> in_row i = in_row j \<and>
     in_action i = in_action j \<and> in_profile i = in_profile j"

lemma planned_same: "same_intent i j \<Longrightarrow> planned_intent U A S i = planned_intent U A S j"
  by (simp add: same_intent_def planned_intent_def)

text \<open>As long as only the dispatch was sent, the object of the intent may be anything that is not committed.\<close>

lemma early_trace:
  assumes "sound_driver U A S" "length (dr_trace S) < 2" "e \<in> set (dr_trace S)"
  shows "\<exists>frame. e = Dispatched frame"
proof -
  have "dr_trace S = [e]" using assms(2,3) by (cases "dr_trace S") (auto simp: length_Suc_conv less_Suc_eq)
  then have "effect_name e = ''DISPATCH''" using assms(1) by (auto simp: sound_driver_def EFFECT_ORDER_def)
  then show ?thesis by (cases e) auto
qed

lemma sound_early_intent:
  assumes "sound_driver U A S" "length (dr_trace S) < 2" "case x of None \<Rightarrow> True | Some i \<Rightarrow> \<not> in_committed i"
  shows "sound_driver U A (S\<lparr>dr_intent := x\<rparr>)"
proof -
  let ?T = "S\<lparr>dr_intent := x\<rparr>"
  have parts: "start_part ?T = start_part S" "exchange_part ?T = exchange_part S" "created_part ?T = created_part S"
    "answer_part ?T = answer_part S" "intent_part ?T = map_option (\<lambda>i. i\<lparr>in_failed := False\<rparr>) x"
    by (simp_all add: part_defs)
  have "justified U A ?T e" if "e \<in> set (dr_trace S)" for e
    using early_trace [OF assms(1,2) that] that assms(1) parts
    by (auto simp: sound_driver_def list_all_iff dispatch_ready_def running_read_def of_start_def)
  then show ?thesis
    using assms unfolding sound_driver_def sound_parts parts
    by (auto simp: list_all_iff split: option.splits)
qed

text \<open>Later its data stay, and it is committed only when its row was read back.\<close>

lemma sound_set_intent:
  assumes "sound_driver U A S" "\<And>i. same_intent (f i) i"
    "\<And>i. intent_part S = Some i \<Longrightarrow> 2 \<le> length (dr_trace S) \<and> planned_intent U A S i \<and> prefix (in_after i) (dr_floor S)"
  shows "sound_driver U A (S\<lparr>dr_intent := map_option f (dr_intent S)\<rparr>)"
proof -
  let ?T = "S\<lparr>dr_intent := map_option f (dr_intent S)\<rparr>"
  have parts: "start_part ?T = start_part S" "exchange_part ?T = exchange_part S" "created_part ?T = created_part S"
    "answer_part ?T = answer_part S" by (simp_all add: part_defs)
  have planned: "planned_intent U A ?T i = planned_intent U A S i" for i by (simp add: planned_intent_def of_start_def parts)
  have some: "\<exists>j. intent_part ?T = Some j \<and> same_intent j i" if "intent_part S = Some i" for i
    using that assms(2) by (auto simp: intent_part_def same_intent_def)
  have made: "planned_created U A ?T c" if c: "planned_created U A S c" for c
  proof -
    obtain i s now action where i: "intent_part S = Some i" "of_start S s" "cr_before c = in_after i" "cr_action c = in_action i"
      "proxy_document U 262144 (PBytes (in_action i)) = Ret action"
      "planned_row U A s (cr_before c) ''CREATED'' now (in_profile i) action (Some (PBytes (cr_response c))) = Ret (cr_row c)"
      using c unfolding planned_created_def by blast
    obtain j where j: "intent_part ?T = Some j" "same_intent j i" using some i(1) by blast
    have "of_start ?T s" using i(2) by (simp add: of_start_def parts)
    moreover have "cr_after c = cr_before c @ line_of (cr_row c)" using c by (simp add: planned_created_def)
    ultimately show ?thesis
      unfolding planned_created_def using i(3-6) j [unfolded same_intent_def] by (metis (no_types))
  qed
  have "justified U A ?T e" if just: "justified U A S e" for e
  proof (cases e)
    case (Dispatched x)
    then show ?thesis using just by (simp add: dispatch_ready_def running_read_def of_start_def parts)
  next
    case (Intended x)
    then obtain i where i: "intent_part S = Some i" "in_row i = x" "planned_intent U A S i" using just by auto
    obtain j where "intent_part ?T = Some j" "same_intent j i" using some i(1) by blast
    then show ?thesis using i planned planned_same [of j i U A S] Intended by (auto simp: same_intent_def)
  next
    case (Requested x)
    then obtain i endpoint where i: "intent_part S = Some i" "planned_intent U A S i" "prefix (in_after i) (dr_floor S)"
      "create_request U (in_action i) (in_profile i) endpoint = Ret x" using just by auto
    obtain j where "intent_part ?T = Some j" "same_intent j i" using some i(1) by blast
    then have "planned_intent U A ?T j" "prefix (in_after j) (dr_floor ?T)"
      "create_request U (in_action j) (in_profile j) endpoint = Ret x"
      using i planned planned_same [of j i U A S] by (auto simp: same_intent_def)
    then show ?thesis using \<open>intent_part ?T = Some j\<close> Requested by auto
  next
    case (Recorded x)
    then show ?thesis using just made parts by auto
  next
    case (Answered x)
    then show ?thesis using just made parts by auto
  qed
  moreover have "intent_sound U A ?T"
  proof (cases "intent_part S")
    case None
    then have "intent_part ?T = None" by (simp add: intent_part_def)
    then show ?thesis using assms(1) None by (simp add: sound_driver_def intent_sound_def)
  next
    case (Some i)
    obtain j where "intent_part ?T = Some j" "same_intent j i" using some Some by blast
    then show ?thesis using assms(3) [OF Some] planned planned_same [of j i U A S] by (simp add: intent_sound_def same_intent_def)
  qed
  moreover have "created_sound U A ?T"
    using assms(1) made by (auto simp: sound_driver_def created_sound_def parts split: option.splits)
  ultimately show ?thesis
    using assms(1) sound_same [of ?T S] parts by (simp add: sound_driver_def list_all_iff)
qed

definition drafted :: "start \<Rightarrow> (intent \<Rightarrow> bool) \<Rightarrow> driver \<Rightarrow> bool" where
  "drafted s c S \<longleftrightarrow> length (dr_trace S) = 1 \<and> of_start S s \<and> (\<exists>i. intent_part S = Some i \<and> \<not> in_committed i \<and> c i)"

lemma stable_drafted: "stable calm (drafted s c)"
  by (rule stableI) (auto simp: drafted_def of_start_def calm_same)

definition ready_intent :: "ucd \<Rightarrow> owner \<Rightarrow> driver \<Rightarrow> bool" where
  "ready_intent U A S \<longleftrightarrow>
     length (dr_trace S) = 1 \<and> start_part S \<noteq> None \<and>
     (\<exists>i. intent_part S = Some i \<and> \<not> in_committed i \<and> planned_intent U A S i)"

lemma stable_ready_intent: "stable calm (ready_intent U A)"
  by (rule stableI) (auto simp: ready_intent_def calm_same calm_planned)

lemma plan_intent_maintains:
  "maintains (sound_driver U A) (\<lambda>S. intent_part S = None) (plan_intent W U A) (\<lambda>_. ready_intent U A)"
proof -
  let ?I = "sound_driver U A"
  let ?N = "\<lambda>S. intent_part S = None"
  have st: "stable calm ?N" by (rule stableI) (simp add: calm_same)
  let ?N1 = "\<lambda>s S. (intent_part S = None \<and> dr_trace S \<noteq> []) \<and> of_start S s"
  have st1: "stable calm (?N1 s)" for s by (rule stableI) (simp add: calm_same of_start_def)
  have last: "maintains ?I (drafted s (\<lambda>i. same_intent i (new_intent (bs_ledger s) raw profile)))
      (seq (set_intent (\<lambda>i. i\<lparr>in_row := row, in_after := in_before i @ line_of row, in_digest := byte_digest row\<rparr>)) (\<lambda>_. lift (Ret z)))
      (\<lambda>_. ready_intent U A)"
    if row: "planned_row U A s (bs_ledger s) ''CREATE_INTENT'' now profile action None = Ret row" "create_action U raw = Ret action"
    for s raw profile now row action and z :: "pyval \<times> pyval"
    unfolding set_intent_def
  proof (rule update_then)
    fix S
    assume S: "?I S" "drafted s (\<lambda>i. same_intent i (new_intent (bs_ledger s) raw profile)) S"
    let ?f = "\<lambda>i. i\<lparr>in_row := row, in_after := in_before i @ line_of row, in_digest := byte_digest row\<rparr>"
    let ?T = "S\<lparr>dr_intent := map_option ?f (dr_intent S)\<rparr>"
    have "of_start ?T s" using S(2) by (simp add: drafted_def of_start_def start_part_def)
    then have "planned_intent U A ?T j" if "intent_part ?T = Some j" for j
      using that S(2) row by (auto simp: drafted_def planned_intent_def intent_part_def same_intent_def new_intent_def) blast
    then have "ready_intent U A ?T"
      using S(2) by (auto simp: ready_intent_def drafted_def of_start_def part_defs)
    moreover have "?I ?T"
      using S by (intro sound_early_intent) (auto simp: drafted_def intent_part_def split: option.splits)
    ultimately show "?I ?T \<and> ready_intent U A ?T" by blast
  next
    show "maintains ?I (ready_intent U A) (lift (Ret z)) (\<lambda>_. ready_intent U A)"
      by (rule sound.calm_last [OF calm.along_lift stable_ready_intent])
  qed
  show ?thesis
    unfolding plan_intent_def
  proof (rule sound.calm_then [OF calm_checked st], rule events_then [OF st], rule needed_then, goal_cases)
    case (1 u v s)
    let ?D = "\<lambda>raw profile. drafted s (\<lambda>i. same_intent i (new_intent (bs_ledger s) raw profile))"
    show ?case
    proof (rule maintains_pre [where P = "?N1 s"], rule sound.calm_then [OF calm.along_inspect st1], rule lift_then, goal_cases)
      case (1 raw profile)
      show ?case
      proof (rule update_then [where Q = "?D raw profile"], goal_cases)
        case S: (1 S)
        then have "length (dr_trace S) < 2" by (simp add: sound_driver_def intent_sound_def)
        then have one: "length (dr_trace S) = 1" using S(2) by (cases "dr_trace S") auto
        then show ?case
          using S by (auto intro!: sound_early_intent simp: drafted_def of_start_def part_defs new_intent_def same_intent_def)
      next
        case 2
        show ?case
          by (rule sound.calm_then [OF calm_intent stable_drafted], rule lift_then,
              rule sound.calm_then [OF calm_await stable_drafted], rule lift_then, rule last)
      qed
    qed (auto simp: of_start_def start_part_def)
  qed
qed

text \<open>The row of the intent was sent to the disk, and read back.\<close>

definition sent_intent :: "ucd \<Rightarrow> owner \<Rightarrow> intent \<Rightarrow> driver \<Rightarrow> bool" where
  "sent_intent U A i S \<longleftrightarrow>
     2 \<le> length (dr_trace S) \<and> (\<exists>j. intent_part S = Some j \<and> same_intent j i) \<and> planned_intent U A S i"

definition landed_intent :: "ucd \<Rightarrow> owner \<Rightarrow> driver \<Rightarrow> bool" where
  "landed_intent U A S \<longleftrightarrow>
     2 \<le> length (dr_trace S) \<and> (\<exists>i. intent_part S = Some i \<and> planned_intent U A S i \<and> prefix (in_after i) (dr_floor S))"

lemma stable_sent_intent: "stable calm (sent_intent U A i)"
  by (rule stableI) (auto simp: sent_intent_def calm_same calm_planned)

lemma stable_landed_intent: "stable calm (landed_intent U A)"
  by (rule stableI) (auto simp: landed_intent_def calm_same calm_planned intro: calm_floor)

lemma landed_set_intent:
  assumes "sound_driver U A S" "landed_intent U A S" "\<And>i. same_intent (f i) i"
  shows "sound_driver U A (S\<lparr>dr_intent := map_option f (dr_intent S)\<rparr>)"
    "landed_intent U A (S\<lparr>dr_intent := map_option f (dr_intent S)\<rparr>)"
proof -
  let ?T = "S\<lparr>dr_intent := map_option f (dr_intent S)\<rparr>"
  obtain i where i: "intent_part S = Some i" "planned_intent U A S i" "prefix (in_after i) (dr_floor S)" "2 \<le> length (dr_trace S)"
    using assms(2) by (auto simp: landed_intent_def)
  show "sound_driver U A ?T" using assms i by (intro sound_set_intent) auto
  obtain j where j: "intent_part ?T = Some j" "same_intent j i"
    using i(1) assms(3) by (auto simp: intent_part_def same_intent_def)
  have "planned_intent U A ?T i" using i(2) by (simp add: planned_intent_def of_start_def start_part_def)
  then show "landed_intent U A ?T"
    using i j planned_same [OF j(2)] by (auto simp: landed_intent_def same_intent_def)
qed

lemma intent_flag:
  assumes "sound_driver U A S" "ready_intent U A S"
  shows "sound_driver U A (S\<lparr>dr_intent := map_option (in_writing_update (\<lambda>_. True)) (dr_intent S)\<rparr>)"
    "ready_intent U A (S\<lparr>dr_intent := map_option (in_writing_update (\<lambda>_. True)) (dr_intent S)\<rparr>)"
proof -
  let ?T = "S\<lparr>dr_intent := map_option (in_writing_update (\<lambda>_. True)) (dr_intent S)\<rparr>"
  show "sound_driver U A ?T"
    using assms by (intro sound_early_intent) (auto simp: ready_intent_def intent_part_def split: option.splits)
  obtain i where i: "dr_intent S = Some i" "\<not> in_committed i" "planned_intent U A S (i\<lparr>in_failed := False\<rparr>)"
    using assms(2) by (auto simp: ready_intent_def intent_part_def)
  have "planned_intent U A ?T ((i\<lparr>in_writing := True\<rparr>)\<lparr>in_failed := False\<rparr>)"
    using i(3) by (simp add: planned_intent_def of_start_def start_part_def)
  then show "ready_intent U A ?T"
    using assms(2) i by (auto simp: ready_intent_def intent_part_def start_part_def)
qed

lemma commit_intent_maintains:
  "maintains (sound_driver U A) (ready_intent U A) (commit_intent W U A action now) (\<lambda>_. landed_intent U A)"
  unfolding commit_intent_def
proof (rule sound.calm_then [OF calm_intent stable_ready_intent], unfold set_intent_def,
    rule update_then [where Q = "ready_intent U A"], goal_cases)
  case (1 u S)
  then show ?case using intent_flag by blast
next
  case 2
  show ?case
  proof (rule needed_then, goal_cases)
    case (1 i)
    have st: "stable calm (\<lambda>S. ready_intent U A S \<and> intent_part S = Some (i\<lparr>in_failed := False\<rparr>))"
      by (intro stable_conj stable_ready_intent stableI) (simp add: calm_same)
    show ?case
    proof (rule maintains_pre [where P = "\<lambda>S. ready_intent U A S \<and> intent_part S = Some (i\<lparr>in_failed := False\<rparr>)"],
        rule sound.calm_then [OF calm_needed st], unfold emit_def, rule update_then [where Q = "sent_intent U A i"], goal_cases)
      case (1 s S)
      let ?T = "S\<lparr>dr_trace := dr_trace S @ [Intended (in_row i)]\<rparr>"
      have p: "planned_intent U A S (i\<lparr>in_failed := False\<rparr>)" "length (dr_trace S) = 1" "start_part S \<noteq> None"
        using 1 by (auto simp: ready_intent_def)
      have "sound_driver U A ?T"
        using 1 p by (intro sound_emit [where n = 1]) (auto simp: EFFECT_ORDER_def)
      moreover have "sent_intent U A i ?T"
        using 1 p by (auto simp: sent_intent_def same_intent_def planned_intent_def of_start_def)
      ultimately show ?case by blast
    next
      case (2 s)
      note st = stable_sent_intent [of U A i]
      show ?case
      proof (rule sound.calm_then [OF calm_broker_io [OF calm_write] st], rule lift_then, rule read_then [OF st], rule lift_then, goal_cases)
        case (1 digest v raw w)
        then have raw: "raw = in_after i" by simp
        have adv: "maintains (sound_driver U A) (landed_intent U A)
            (seq (intent_pending_check W U A) (\<lambda>_. seq (needed dr_start) (\<lambda>s'.
             seq (lift (require (bs_ledger s' = in_before i) ''BROKER_INTENT_HISTORY_CHANGED'')) (\<lambda>_.
             seq (set_start (\<lambda>s. s\<lparr>bs_ledger := in_after i\<rparr>)) (\<lambda>_.
             seq (update (\<lambda>S. S\<lparr>dr_intent := map_option (\<lambda>i. i\<lparr>in_advanced := True\<rparr>) (dr_intent S)\<rparr>)) (\<lambda>_.
               intent_check W U A)))))) (\<lambda>_. landed_intent U A)"
          by (rule sound.calm_then [OF calm_pending stable_landed_intent], rule sound.calm_then [OF calm_needed stable_landed_intent],
              rule lift_then, rule sound.calm_then [OF calm_start stable_landed_intent], (simp; fail)+,
              rule update_then [where Q = "landed_intent U A"])
            (use landed_set_intent [where f = "in_advanced_update (\<lambda>_. True)"] in \<open>auto simp: same_intent_def\<close>,
             rule sound.calm_last [OF calm_intent stable_landed_intent])
        show ?case
          by (rule maintains_pre [OF adv])
            (auto simp: raw sent_intent_def landed_intent_def same_intent_def planned_intent_def, blast)
      qed
    qed (auto simp: intent_part_def)
  qed
qed

lemma intent_sound_step:
  assumes "sound_driver U A S"
  shows "sound_driver U A (snd (record_create_intent W U A S))"
proof -
  let ?body = "seq (checked (\<lambda>S. Ret (dr_intent S = None)) ''BROKER_INTENT_ALREADY_ATTEMPTED'') (\<lambda>_.
           seq (plan_intent W U A) (\<lambda>(action, now). commit_intent W U A action now))"
  have "maintains (sound_driver U A) (\<lambda>_. True) ?body (\<lambda>_. landed_intent U A)"
  proof (rule checked_then, rule maintains_seq [OF maintains_pre [OF plan_intent_maintains]])
    show "maintains (sound_driver U A) (ready_intent U A) (case x of (action, now) \<Rightarrow> commit_intent W U A action now)
        (\<lambda>_. landed_intent U A)" for x
      by (cases x) (simp add: commit_intent_maintains)
  qed (simp add: intent_part_def)
  note body = maintains_phase [OF this stable_const stable_landed_intent]
  have "maintains (sound_driver U A) (\<lambda>_. True) (record_create_intent W U A) (\<lambda>_ _. True)"
    unfolding record_create_intent_def set_intent_def
    by (rule sound.failing_calm, rule maintains_seq [OF body], rule sound.calm_then [OF calm_needed stable_landed_intent],
        rule sound.calm_then [OF calm_needed stable_landed_intent], rule sound.calm_then [OF calm_checked stable_landed_intent],
        rule maintains_update) (auto intro: landed_set_intent simp: same_intent_def)
  then show ?thesis using assms by (rule maintains_start) simp
qed

end
