(* ===== verification/DriverOrder.thy ===== *)
theory DriverOrder
  imports DriverOps
begin

text \<open>
  The exchange with the API, the record of the created object and the answer maintain \<open>sound_driver\<close>, hence so does
  every step of a driver.  The theorems on the order of the effects and on their justification follow.
\<close>

section \<open>The exchange\<close>

lemma sound_exchange:
  assumes "sound_driver U A S" "case x of None \<Rightarrow> length (dr_trace S) < 3 | Some y \<Rightarrow> ex_complete y \<longrightarrow> 3 \<le> length (dr_trace S)"
  shows "sound_driver U A (S\<lparr>dr_exchange := x\<rparr>)"
proof -
  let ?T = "S\<lparr>dr_exchange := x\<rparr>"
  have parts: "start_part ?T = start_part S" "intent_part ?T = intent_part S" "created_part ?T = created_part S"
    "answer_part ?T = answer_part S" "exchange_part ?T = map_option (\<lambda>i. i\<lparr>ex_failed := False\<rparr>) x"
    by (simp_all add: part_defs)
  have same: "justified U A ?T = justified U A S" "planned_intent U A ?T = planned_intent U A S"
    "planned_created U A ?T = planned_created U A S"
    by (intro ext justified_same; simp add: parts)+
  show ?thesis
    using assms unfolding sound_driver_def sound_parts same parts by (auto split: option.splits)
qed

definition requestable :: "ucd \<Rightarrow> owner \<Rightarrow> bytes \<Rightarrow> driver \<Rightarrow> bool" where
  "requestable U A request S \<longleftrightarrow>
     length (dr_trace S) = 2 \<and> justified U A S (Requested request) \<and> (\<exists>x. exchange_part S = Some x \<and> \<not> ex_complete x)"

definition requested :: "driver \<Rightarrow> bool" where
  "requested S \<longleftrightarrow> 3 \<le> length (dr_trace S)"

lemma stable_requestable: "stable calm (requestable U A request)"
  by (rule stableI) (simp add: requestable_def calm_same calm_justified del: justified.simps)

lemma stable_requested: "stable calm requested"
  by (rule stableI) (simp add: requested_def calm_same)

lemma justified_start:
  assumes "justified U A S (Requested request)"
  shows "start_part S \<noteq> None" "intent_part S \<noteq> None"
  using assms by (auto simp: planned_intent_def of_start_def)

lemma committed_intent:
  assumes "sound_driver U A S" "intent_part S = Some i" "in_committed i"
  shows "2 \<le> length (dr_trace S)" "planned_intent U A S i" "prefix (in_after i) (dr_floor S)"
  using assms by (simp_all add: sound_driver_def intent_sound_def)

lemma plan_exchange_maintains:
  "maintains (sound_driver U A) (\<lambda>S. exchange_part S = None) (plan_exchange W U A) (requestable U A)"
proof -
  let ?N = "\<lambda>S. exchange_part S = None"
  have st: "stable calm ?N" by (rule stableI) (simp add: calm_same)
  show ?thesis
    unfolding plan_exchange_def
  proof (rule sound.calm_then [OF calm_checked st], rule checked_then, rule needed_then, rule needed_then, rule lift_then, goal_cases)
    case (1 u p i request)
    show ?case
    proof (rule update_then [where Q = "requestable U A request"], goal_cases)
      case S: (1 S)
      let ?x = "\<lparr>ex_action = in_action i, ex_request = request, ex_response = None, ex_attempted = False,
        ex_complete = False, ex_failed = False\<rparr>"
      let ?i = "i\<lparr>in_failed := False\<rparr>"
      let ?T = "S\<lparr>dr_exchange := Some ?x\<rparr>"
      have i: "intent_part S = Some ?i" "in_committed ?i" using S(2) by (auto simp: intent_part_def split: option.splits)
      note c = committed_intent [OF S(1) i]
      have "length (dr_trace S) < 3" using S by (simp add: sound_driver_def exchange_sound_def)
      then have two: "length (dr_trace S) = 2" using c(1) by simp
      have "justified U A S (Requested request)" using i c 1 by auto
      then have "justified U A ?T (Requested request)"
        using justified_same(1) [of ?T S U A "Requested request"] by (simp add: part_defs del: justified.simps)
      then have "requestable U A request ?T"
        using two by (simp add: requestable_def exchange_part_def del: justified.simps)
      moreover have "sound_driver U A ?T" by (rule sound_exchange [OF S(1)]) simp
      ultimately show ?case by blast
    next
      case 2
      show ?case
      proof (rule sound.calm_then [OF calm.along_inspect stable_requestable],
          rule sound.calm_then [OF calm_transport stable_requestable])
        show "maintains (sound_driver U A) (requestable U A request) (lift (Ret request)) (requestable U A)"
          by (auto intro: maintains_post [OF maintains_lift])
      qed
    qed
  qed
qed

lemma set_exchange_later:
  "maintains (sound_driver U A) requested (set_exchange f) (\<lambda>_. requested)"
proof (unfold set_exchange_def, rule maintains_update)
  fix S
  assume S: "sound_driver U A S" "requested S"
  have "case map_option f (dr_exchange S) of None \<Rightarrow> length (dr_trace S) < 3 | Some y \<Rightarrow> ex_complete y \<longrightarrow> 3 \<le> length (dr_trace S)"
    using S by (cases "dr_exchange S") (auto simp: requested_def sound_driver_def exchange_sound_def exchange_part_def)
  then show "sound_driver U A (S\<lparr>dr_exchange := map_option f (dr_exchange S)\<rparr>) \<and>
      requested (S\<lparr>dr_exchange := map_option f (dr_exchange S)\<rparr>)"
    using S sound_exchange by (auto simp: requested_def)
qed

lemma run_exchange_maintains:
  "maintains (sound_driver U A) (requestable U A request) (run_exchange W U A request) (\<lambda>_. requested)"
  unfolding run_exchange_def
proof (unfold set_exchange_def [of "ex_attempted_update _"] emit_def, rule update_then [where Q = "requestable U A request"], goal_cases)
  case S: (1 S)
  let ?T = "S\<lparr>dr_exchange := map_option (\<lambda>x. x\<lparr>ex_attempted := True\<rparr>) (dr_exchange S)\<rparr>"
  have "justified U A ?T (Requested request)"
    using S(2) justified_same(1) [of ?T S U A "Requested request"] by (simp add: requestable_def part_defs del: justified.simps)
  then have "requestable U A request ?T"
    using S(2) by (auto simp: requestable_def exchange_part_def simp del: justified.simps)
  moreover have "sound_driver U A ?T"
    using S by (intro sound_exchange) (auto simp: requestable_def exchange_part_def split: option.splits)
  ultimately show ?case by blast
next
  case 2
  show ?case
  proof (rule update_then [where Q = requested], goal_cases)
    case S: (1 S)
    then have j: "justified U A S (Requested request)" "length (dr_trace S) = 2" "exchange_part S \<noteq> None"
      by (auto simp: requestable_def simp del: justified.simps)
    have "sound_driver U A (S\<lparr>dr_trace := dr_trace S @ [Requested request]\<rparr>)"
      using S(1) j justified_start [OF j(1)] by (intro sound_emit [where n = 2]) (simp_all add: EFFECT_ORDER_def del: justified.simps)
    then show ?case using j by (simp add: requested_def)
  next
    case 2
    note st = stable_requested
    show ?case
    proof (rule sound.calm_then [OF calm_await st], rule sound.calm_then [OF calm_transport st], rule sound.calm_then [OF calm_await st], goal_cases)
      case (1 x y z)
      then show ?case
        by (cases z, simp only: prod.case)
          (rule sound.calm_then [OF calm_transport st], rule sound.calm_then [OF calm_needed st],
           rule sound.calm_then [OF calm_needed st], rule sound.calm_then [OF calm.along_lift st],
           rule maintains_seq [OF set_exchange_later], rule sound.calm_last [OF calm_transport st])
    qed
  qed
qed

lemma exchange_sound_step:
  assumes "sound_driver U A S"
  shows "sound_driver U A (snd (exchange_api_create W U A S))"
proof -
  have "maintains (sound_driver U A) (\<lambda>_. True) (exchange_api_create W U A) (\<lambda>_ _. True)"
    unfolding exchange_api_create_def fresh_def
  proof (rule sound.failing_calm, rule checked_then, rule maintains_seq [OF maintains_pre [OF plan_exchange_maintains]], goal_cases)
    case (2 request)
    show ?case
      by (rule maintains_seq [OF run_exchange_maintains], rule sound.calm_then [OF calm_checked stable_requested],
          rule maintains_post [OF set_exchange_later]) simp
  qed (simp_all add: exchange_part_def)
  then show ?thesis using assms by (rule maintains_start) simp
qed

section \<open>The record of the created object\<close>

definition same_created :: "created \<Rightarrow> created \<Rightarrow> bool" where
  "same_created c d \<longleftrightarrow> cr_before c = cr_before d \<and> cr_after c = cr_after d \<and> cr_row c = cr_row d \<and>
     cr_response c = cr_response d \<and> cr_action c = cr_action d"

lemma created_same:
  "same_created c d \<Longrightarrow> planned_created U A S c = planned_created U A S d"
  "same_created c d \<Longrightarrow> answers U A c frame = answers U A d frame"
  by (simp_all add: same_created_def planned_created_def answers_def)

text \<open>Until the row is sent to the disk, the object may be anything that is not committed.\<close>

lemma early_effects:
  assumes "sound_driver U A S" "length (dr_trace S) < 4" "e \<in> set (dr_trace S)"
  shows "effect_name e \<in> {''DISPATCH'', ''INTENT'', ''REQUEST''}"
proof -
  have "prefix (map effect_name (dr_trace S)) EFFECT_ORDER" using assms(1) by (simp add: sound_driver_def)
  then have "map effect_name (dr_trace S) = take (length (dr_trace S)) EFFECT_ORDER"
    by (metis append_eq_conv_conj length_map prefix_def)
  then have "set (map effect_name (dr_trace S)) \<subseteq> set (take 3 EFFECT_ORDER)"
    using assms(2) set_take_subset_set_take [of "length (dr_trace S)" 3 EFFECT_ORDER] by simp
  then show ?thesis using assms(3) by (auto simp: EFFECT_ORDER_def)
qed

lemma sound_early_created:
  assumes "sound_driver U A S" "length (dr_trace S) < 4" "case x of None \<Rightarrow> True | Some c \<Rightarrow> \<not> cr_committed c"
  shows "sound_driver U A (S\<lparr>dr_created := x\<rparr>)"
proof -
  let ?T = "S\<lparr>dr_created := x\<rparr>"
  have parts: "start_part ?T = start_part S" "exchange_part ?T = exchange_part S" "intent_part ?T = intent_part S"
    "answer_part ?T = answer_part S" "created_part ?T = map_option (\<lambda>i. i\<lparr>cr_failed := False\<rparr>) x"
    by (simp_all add: part_defs)
  have planned: "planned_intent U A ?T = planned_intent U A S"
    by (intro ext) (simp add: planned_intent_def of_start_def parts)
  have "justified U A ?T e" if "e \<in> set (dr_trace S)" for e
  proof -
    have "justified U A S e" using that assms(1) by (simp add: sound_driver_def list_all_iff)
    then show ?thesis
      using early_effects [OF assms(1,2) that] parts planned
      by (cases e) (simp_all add: dispatch_ready_def running_read_def of_start_def)
  qed
  then show ?thesis
    using assms unfolding sound_driver_def sound_parts parts planned
    by (auto simp: list_all_iff split: option.splits)
qed

lemma sound_set_created:
  assumes "sound_driver U A S" "\<And>c. same_created (f c) c"
    "\<And>c. created_part S = Some c \<Longrightarrow> 4 \<le> length (dr_trace S) \<and> planned_created U A S c \<and> prefix (cr_after c) (dr_floor S)"
  shows "sound_driver U A (S\<lparr>dr_created := map_option f (dr_created S)\<rparr>)"
proof -
  let ?T = "S\<lparr>dr_created := map_option f (dr_created S)\<rparr>"
  have parts: "start_part ?T = start_part S" "exchange_part ?T = exchange_part S" "intent_part ?T = intent_part S"
    "answer_part ?T = answer_part S" by (simp_all add: part_defs)
  have planned: "planned_intent U A ?T = planned_intent U A S" "planned_created U A ?T = planned_created U A S"
    by (intro ext; simp add: planned_intent_def planned_created_def of_start_def parts)+
  have some: "\<exists>d. created_part ?T = Some d \<and> same_created d c" if "created_part S = Some c" for c
    using that assms(2) by (auto simp: created_part_def same_created_def)
  have "justified U A ?T e" if just: "justified U A S e" for e
  proof (cases e)
    case (Recorded x)
    then obtain c where c: "created_part S = Some c" "cr_row c = x" "planned_created U A S c" using just by auto
    obtain d where "created_part ?T = Some d" "same_created d c" using some c(1) by blast
    then show ?thesis using c planned created_same(1) [of d c] Recorded by (auto simp: same_created_def)
  next
    case (Answered x)
    then obtain c where c: "created_part S = Some c" "planned_created U A S c" "prefix (cr_after c) (dr_floor S)" "answers U A c x"
      using just by auto
    obtain d where "created_part ?T = Some d" "same_created d c" using some c(1) by blast
    then show ?thesis using c planned created_same [of d c] Answered by (auto simp: same_created_def)
  qed (use just parts planned in \<open>simp_all add: dispatch_ready_def running_read_def of_start_def\<close>)
  moreover have "created_sound U A ?T"
  proof (cases "created_part S")
    case None
    then have "created_part ?T = None" by (simp add: created_part_def)
    then show ?thesis using assms(1) None by (simp add: sound_driver_def created_sound_def)
  next
    case (Some c)
    obtain d where "created_part ?T = Some d" "same_created d c" using some Some by blast
    then show ?thesis using assms(3) [OF Some] planned created_same(1) [of d c] by (simp add: created_sound_def same_created_def)
  qed
  moreover have "intent_sound U A ?T"
    using assms(1) unfolding sound_driver_def intent_sound_def parts planned by (simp split: option.splits)
  ultimately show ?thesis
    using assms(1) sound_same [of ?T S] parts by (simp add: sound_driver_def list_all_iff)
qed

definition recordable :: "ucd \<Rightarrow> owner \<Rightarrow> driver \<Rightarrow> bool" where
  "recordable U A S \<longleftrightarrow>
     length (dr_trace S) = 3 \<and> start_part S \<noteq> None \<and> intent_part S \<noteq> None \<and> exchange_part S \<noteq> None \<and>
     (\<exists>c. created_part S = Some c \<and> \<not> cr_committed c \<and> planned_created U A S c)"

definition sent_created :: "ucd \<Rightarrow> owner \<Rightarrow> created \<Rightarrow> driver \<Rightarrow> bool" where
  "sent_created U A c S \<longleftrightarrow>
     4 \<le> length (dr_trace S) \<and> (\<exists>d. created_part S = Some d \<and> same_created d c) \<and> planned_created U A S c"

definition landed_created :: "ucd \<Rightarrow> owner \<Rightarrow> driver \<Rightarrow> bool" where
  "landed_created U A S \<longleftrightarrow>
     4 \<le> length (dr_trace S) \<and> (\<exists>c. created_part S = Some c \<and> planned_created U A S c \<and> prefix (cr_after c) (dr_floor S))"

lemma stable_recordable: "stable calm (recordable U A)"
  by (rule stableI) (auto simp: recordable_def calm_same calm_planned)

lemma stable_sent_created: "stable calm (sent_created U A c)"
  by (rule stableI) (auto simp: sent_created_def calm_same calm_planned)

lemma stable_landed_created: "stable calm (landed_created U A)"
  by (rule stableI) (auto simp: landed_created_def calm_same calm_planned intro: calm_floor)

lemma landed_set_created:
  assumes "sound_driver U A S" "landed_created U A S" "\<And>c. same_created (f c) c"
  shows "sound_driver U A (S\<lparr>dr_created := map_option f (dr_created S)\<rparr>)"
    "landed_created U A (S\<lparr>dr_created := map_option f (dr_created S)\<rparr>)"
proof -
  let ?T = "S\<lparr>dr_created := map_option f (dr_created S)\<rparr>"
  obtain c where c: "created_part S = Some c" "planned_created U A S c" "prefix (cr_after c) (dr_floor S)" "4 \<le> length (dr_trace S)"
    using assms(2) by (auto simp: landed_created_def)
  show "sound_driver U A ?T" using assms c by (intro sound_set_created) auto
  obtain d where d: "created_part ?T = Some d" "same_created d c"
    using c(1) assms(3) by (auto simp: created_part_def same_created_def)
  have "planned_created U A ?T c" using c(2) by (simp add: planned_created_def of_start_def part_defs)
  then show "landed_created U A ?T"
    using c d created_same(1) [OF d(2)] by (auto simp: landed_created_def same_created_def)
qed

lemma committed_created:
  assumes "sound_driver U A S" "created_part S = Some c" "cr_committed c"
  shows "4 \<le> length (dr_trace S)" "planned_created U A S c" "prefix (cr_after c) (dr_floor S)"
  using assms by (simp_all add: sound_driver_def created_sound_def)

lemma plan_created_maintains:
  "maintains (sound_driver U A) (\<lambda>S. created_part S = None) (plan_created W U A) (\<lambda>_. recordable U A)"
  unfolding plan_created_def
proof (rule inspect_then, rule checked_then, rule needed_then, rule needed_then, goal_cases)
  case (1 response i s)
  let ?P = "\<lambda>S. length (dr_trace S) = 3 \<and> of_start S s \<and> intent_part S = Some (i\<lparr>in_failed := False\<rparr>) \<and> exchange_part S \<noteq> None"
  have st: "stable calm ?P" by (rule stableI) (simp add: of_start_def calm_same)
  show ?case
  proof (rule maintains_pre [where P = ?P], rule sound.calm_then [OF calm_await st], rule lift_then, rule lift_then, goal_cases)
    case (1 now action row)
    show ?case
    proof (rule update_then [where Q = "recordable U A"], goal_cases)
      case S: (1 S)
      let ?c = "new_created (in_after i) row response (in_action i)"
      let ?T = "S\<lparr>dr_created := Some ?c\<rparr>"
      have part: "created_part ?T = Some ?c" by (simp add: created_part_def new_created_def)
      have "planned_created U A ?T ?c"
        using S(2) 1 by (auto simp: planned_created_def new_created_def of_start_def part_defs) blast
      then have "recordable U A ?T"
        using S(2) part by (auto simp: recordable_def new_created_def of_start_def part_defs)
      moreover have "sound_driver U A ?T" using S by (intro sound_early_created) (simp_all add: new_created_def)
      ultimately show ?case by blast
    next
      case 2
      show ?case
        by (rule sound.calm_then [OF calm_created_live stable_recordable], rule sound.calm_last [OF calm.along_lift stable_recordable])
    qed
  next
    case (2 S)
    then have i: "intent_part S = Some (i\<lparr>in_failed := False\<rparr>)" by (simp add: intent_part_def)
    obtain x where x: "dr_exchange S = Some x" "ex_complete x"
      using 2 by (auto simp: exchange_finished_def bind_eq_Ret split: option.splits)
    then have "3 \<le> length (dr_trace S)" using 2(1) by (auto simp: sound_driver_def exchange_sound_def exchange_part_def)
    moreover have "length (dr_trace S) < 4" using 2 by (simp add: sound_driver_def created_sound_def)
    ultimately show ?case using 2 i x by (auto simp: of_start_def part_defs)
  qed
qed

lemma created_writing:
  assumes "sound_driver U A S" "recordable U A S"
  shows "sound_driver U A (S\<lparr>dr_created := map_option (cr_writing_update (\<lambda>_. True)) (dr_created S)\<rparr>)"
    "recordable U A (S\<lparr>dr_created := map_option (cr_writing_update (\<lambda>_. True)) (dr_created S)\<rparr>)"
proof -
  let ?T = "S\<lparr>dr_created := map_option (cr_writing_update (\<lambda>_. True)) (dr_created S)\<rparr>"
  show "sound_driver U A ?T"
    using assms by (intro sound_early_created) (auto simp: recordable_def created_part_def split: option.splits)
  obtain c where c: "dr_created S = Some c" "\<not> cr_committed c" "planned_created U A S (c\<lparr>cr_failed := False\<rparr>)"
    using assms(2) by (auto simp: recordable_def created_part_def)
  have "planned_created U A ?T ((c\<lparr>cr_writing := True\<rparr>)\<lparr>cr_failed := False\<rparr>)"
    using c(3) by (simp add: planned_created_def of_start_def part_defs)
  then show "recordable U A ?T"
    using assms(2) c by (auto simp: recordable_def part_defs)
qed

lemma commit_created_maintains:
  "maintains (sound_driver U A) (recordable U A) (commit_created W U A action now) (\<lambda>_. landed_created U A)"
  unfolding commit_created_def
proof (rule sound.calm_then [OF calm_events stable_recordable], rule sound.calm_then [OF calm.along_inspect stable_recordable],
    unfold set_created_def, rule update_then [where Q = "recordable U A"], goal_cases)
  case (1 u v S)
  then show ?case using created_writing by blast
next
  case 2
  show ?case
  proof (rule needed_then, goal_cases)
    case (1 c)
    let ?c = "c\<lparr>cr_failed := False\<rparr>"
    have st: "stable calm (\<lambda>S. recordable U A S \<and> created_part S = Some ?c)"
      by (intro stable_conj stable_recordable stableI) (simp add: calm_same)
    show ?case
    proof (rule maintains_pre [where P = "\<lambda>S. recordable U A S \<and> created_part S = Some ?c"],
        rule sound.calm_then [OF calm_needed st], rule sound.calm_then [OF calm_needed st],
        unfold emit_def, rule update_then [where Q = "sent_created U A c"], goal_cases)
      case (1 i s S)
      let ?T = "S\<lparr>dr_trace := dr_trace S @ [Recorded (cr_row c)]\<rparr>"
      have p: "planned_created U A S ?c" "length (dr_trace S) = 3" "start_part S \<noteq> None" "intent_part S \<noteq> None" "exchange_part S \<noteq> None"
        using 1 by (auto simp: recordable_def)
      have "sound_driver U A ?T"
        using 1 p by (intro sound_emit [where n = 3]) (auto simp: EFFECT_ORDER_def)
      moreover have "planned_created U A S c" using p(1) created_same(1) [of c ?c U A S] by (simp add: same_created_def)
      then have "planned_created U A ?T c" by (simp add: planned_created_def of_start_def)
      then have "sent_created U A c ?T"
        using 1 p by (auto simp: sent_created_def same_created_def)
      ultimately show ?case by blast
    next
      case (2 i s)
      note st = stable_sent_created [of U A c] and stl = stable_landed_created [of U A]
      show ?case
      proof (rule sound.calm_then [OF calm_broker_io [OF calm_write] st], rule lift_then, rule read_then [OF st], rule lift_then, goal_cases)
        case (1 digest v raw w)
        then have raw: "raw = cr_after c" by simp
        have advance: "sound_driver U A T \<and> landed_created U A T"
          if S: "sound_driver U A S" "landed_created U A S"
            and T: "T = S\<lparr>dr_start := map_option (\<lambda>s. s\<lparr>bs_ledger := cr_after c\<rparr>) (dr_start S),
              dr_created := map_option (\<lambda>c. c\<lparr>cr_advanced := True\<rparr>) (dr_created S)\<rparr>" for S T
        proof -
          let ?V = "S\<lparr>dr_start := map_option (\<lambda>s. s\<lparr>bs_ledger := cr_after c\<rparr>) (dr_start S)\<rparr>"
          have "calm S ?V" by (simp add: calm_def part_defs option.map_comp comp_def)
          then have "sound_driver U A ?V" "landed_created U A ?V" using S calm_sound stl by (auto simp: stable_def)
          then show ?thesis
            using landed_set_created [of U A ?V "cr_advanced_update (\<lambda>_. True)"] by (simp add: T same_created_def)
        qed
        have adv: "maintains (sound_driver U A) (landed_created U A)
            (seq (intent_pending_check W U A) (\<lambda>_. seq (inspect (created_kept U)) (\<lambda>_.
             seq (update (\<lambda>S. S\<lparr>dr_start := map_option (\<lambda>s. s\<lparr>bs_ledger := cr_after c\<rparr>) (dr_start S),
                    dr_created := map_option (\<lambda>c. c\<lparr>cr_advanced := True\<rparr>) (dr_created S)\<rparr>)) (\<lambda>_.
             seq (events_check W U A) (\<lambda>_. inspect (created_kept U)))))) (\<lambda>_. landed_created U A)"
          by (rule sound.calm_then [OF calm_pending stl], rule sound.calm_then [OF calm.along_inspect stl],
              rule update_then [where Q = "landed_created U A"], erule (1) advance, rule refl,
              rule sound.calm_then [OF calm_events stl], rule sound.calm_last [OF calm.along_inspect stl])
        show ?case
          by (rule maintains_pre [OF adv])
            (auto simp: raw sent_created_def landed_created_def same_created_def, metis created_same(1) same_created_def)
      qed
    qed (auto simp: created_part_def)
  qed
qed

lemma created_sound_step:
  assumes "sound_driver U A S"
  shows "sound_driver U A (snd (record_api_created W U A S))"
proof -
  note stl = stable_landed_created [of U A]
  have "maintains (sound_driver U A) (\<lambda>_. True) (record_api_created W U A) (\<lambda>_ _. True)"
    unfolding record_api_created_def fresh_def set_created_def
  proof (rule sound.failing_calm, rule checked_then, rule maintains_seq [OF maintains_pre [OF plan_created_maintains]], goal_cases)
    case (2 x)
    obtain action now where x: "x = (action, now)" by fastforce
    show ?case
      unfolding x prod.case
      by (rule maintains_seq [OF maintains_phase [OF commit_created_maintains stable_recordable stl]],
          rule sound.calm_then [OF calm_created_live stl], rule sound.calm_then [OF calm_checked stl],
          rule sound.calm_then [OF calm.along_inspect stl], rule maintains_update)
        (auto intro: landed_set_created simp: same_created_def)
  qed (simp_all add: created_part_def)
  then show ?thesis using assms by (rule maintains_start) simp
qed

section \<open>The answer\<close>

lemma sound_answer:
  assumes "sound_driver U A S" "x = None \<Longrightarrow> length (dr_trace S) < 5"
  shows "sound_driver U A (S\<lparr>dr_answer := x\<rparr>)"
proof -
  let ?T = "S\<lparr>dr_answer := x\<rparr>"
  have parts: "start_part ?T = start_part S" "intent_part ?T = intent_part S" "created_part ?T = created_part S"
    "exchange_part ?T = exchange_part S" "answer_part ?T = map_option (\<lambda>i. i\<lparr>an_failed := False\<rparr>) x"
    by (simp_all add: part_defs)
  have same: "justified U A ?T = justified U A S" "planned_intent U A ?T = planned_intent U A S"
    "planned_created U A ?T = planned_created U A S"
    by (intro ext justified_same; simp add: parts)+
  show ?thesis
    using assms unfolding sound_driver_def sound_parts same parts by (auto split: option.splits)
qed

definition answerable :: "ucd \<Rightarrow> owner \<Rightarrow> driver \<Rightarrow> bool" where
  "answerable U A S \<longleftrightarrow>
     length (dr_trace S) = 4 \<and> (\<exists>a. answer_part S = Some a \<and> justified U A S (Answered (an_frame a)))"

definition answered :: "driver \<Rightarrow> bool" where
  "answered S \<longleftrightarrow> answer_part S \<noteq> None"

lemma stable_answerable: "stable calm (answerable U A)"
  by (rule stableI) (auto simp: answerable_def calm_same intro: calm_justified simp del: justified.simps)

lemma stable_answered: "stable calm answered"
  by (rule stableI) (simp add: answered_def calm_same)

lemma plan_answer_maintains:
  "maintains (sound_driver U A) (\<lambda>S. answer_part S = None) (plan_answer W U A) (\<lambda>_. answerable U A)"
proof -
  have st: "stable calm (\<lambda>S. answer_part S = None \<and> created_part S = Some c \<and> cr_committed c)" for c
    by (rule stableI) (simp add: calm_same)
  show ?thesis
    unfolding plan_answer_def
  proof (rule checked_then, rule needed_then, goal_cases)
    case (1 c)
    let ?c = "c\<lparr>cr_failed := False\<rparr>"
    show ?case
    proof (rule maintains_pre [where P = "\<lambda>S. answer_part S = None \<and> created_part S = Some ?c \<and> cr_committed ?c"],
        rule sound.calm_then [OF calm_needed st], rule sound.calm_then [OF calm_needed st], rule lift_then, goal_cases)
      case (1 e s z)
      obtain frame after where z: "z = (frame, after)" by fastforce
      show ?case
        unfolding z prod.case
      proof (rule update_then [where Q = "answerable U A"], goal_cases)
        case S: (1 S)
        let ?a = "\<lparr>an_before = ev_snapshot e, an_after = after, an_frame = frame,
            an_response = cr_response c, an_record = cr_row c, an_action = cr_action c, an_ledger = cr_after c,
            an_attempted = False, an_complete = False, an_failed = False\<rparr>"
        let ?T = "S\<lparr>dr_answer := Some ?a\<rparr>"
        have part: "created_part S = Some ?c" "cr_committed ?c" using S(2) by auto
        note c = committed_created [OF S(1) part]
        have "length (dr_trace S) < 5" using S by (simp add: sound_driver_def answer_sound_def)
        then have four: "length (dr_trace S) = 4" using c(1) by simp
        have "justified U A S (Answered frame)" using part c 1 z by (auto simp: answers_def)
        then have "justified U A ?T (Answered frame)"
          using justified_same(1) [of ?T S U A "Answered frame"] by (simp add: part_defs del: justified.simps)
        then have "answerable U A ?T"
          using four by (simp add: answerable_def answer_part_def del: justified.simps)
        moreover have "sound_driver U A ?T" by (rule sound_answer [OF S(1)]) simp
        ultimately show ?case by blast
      next
        case 2
        show ?case by (rule sound.calm_last [OF calm_answer_live stable_answerable])
      qed
    qed (auto simp: created_part_def)
  qed
qed

lemma set_answer_maintains:
  assumes "\<And>a. an_frame (f a) = an_frame a"
  shows "maintains (sound_driver U A) (answerable U A) (set_answer f) (\<lambda>_. answerable U A)"
proof (unfold set_answer_def, rule maintains_update)
  fix S
  assume S: "sound_driver U A S" "answerable U A S"
  let ?T = "S\<lparr>dr_answer := map_option f (dr_answer S)\<rparr>"
  obtain a where a: "dr_answer S = Some a" "justified U A S (Answered (an_frame a))" "length (dr_trace S) = 4"
    using S(2) by (auto simp: answerable_def answer_part_def simp del: justified.simps)
  then have "justified U A ?T (Answered (an_frame a))"
    using justified_same(1) [of ?T S U A "Answered (an_frame a)"] by (simp add: part_defs del: justified.simps)
  then have "answerable U A ?T"
    using a assms by (simp add: answerable_def answer_part_def del: justified.simps)
  moreover have "sound_driver U A ?T" using S(1) a by (intro sound_answer) simp_all
  ultimately show "sound_driver U A ?T \<and> answerable U A ?T" by blast
qed

lemma deliver_answer_maintains:
  "maintains (sound_driver U A) (answerable U A) (deliver_answer W U A) (\<lambda>_. answered)"
  unfolding deliver_answer_def
proof (rule sound.calm_then [OF calm_answer_guard stable_answerable], rule needed_then, goal_cases)
  case (1 u a)
  let ?P = "\<lambda>S. answerable U A S \<and> justified U A S (Answered (an_frame a))"
  have st: "stable calm ?P"
    by (intro stable_conj stable_answerable stableI) (rule calm_justified)
  show ?case
  proof (rule maintains_pre [where P = ?P], rule sound.calm_then [OF calm_prepare_wait st], unfold set_answer_def emit_def,
      rule update_then [where Q = ?P], goal_cases)
    case (1 v S)
    let ?T = "S\<lparr>dr_answer := map_option (\<lambda>a. a\<lparr>an_attempted := True\<rparr>) (dr_answer S)\<rparr>"
    have "sound_driver U A ?T \<and> answerable U A ?T"
      using maintains_Ret [OF set_answer_maintains [of "an_attempted_update (\<lambda>_. True)" U A]] 1
      by (simp add: set_answer_def)
    moreover have "justified U A ?T (Answered (an_frame a))"
      using 1(2) justified_same(1) [of ?T S U A "Answered (an_frame a)"] by (simp add: part_defs del: justified.simps)
    ultimately show ?case by blast
  next
    case (2 v)
    show ?case
    proof (rule update_then [where Q = answered], goal_cases)
      case S: (1 S)
      then have j: "justified U A S (Answered (an_frame a))" "length (dr_trace S) = 4" "answer_part S \<noteq> None"
        by (auto simp: answerable_def simp del: justified.simps)
      have "exchange_part S \<noteq> None" using S(1) j(2) by (auto simp: sound_driver_def exchange_sound_def split: option.splits)
      moreover have "start_part S \<noteq> None" "intent_part S \<noteq> None" "created_part S \<noteq> None"
        using j(1) by (auto simp: planned_created_def of_start_def)
      ultimately have "sound_driver U A (S\<lparr>dr_trace := dr_trace S @ [Answered (an_frame a)]\<rparr>)"
        using S(1) j by (intro sound_emit [where n = 4]) (simp_all add: EFFECT_ORDER_def del: justified.simps)
      then show ?case using j(3) by (simp add: answered_def)
    next
      case 2
      show ?case by (rule sound.calm_last [OF calm.along_finally [OF calm_send calm_answer_guard] stable_answered])
    qed
  next
    case (3 S)
    then show ?case by (auto simp: answerable_def answer_part_def simp del: justified.simps)
  qed
qed

lemma answer_sound_step:
  assumes "sound_driver U A S"
  shows "sound_driver U A (snd (send_create_result W U A S))"
proof -
  note st = stable_answered
  have last: "maintains (sound_driver U A) answered (set_answer f) (\<lambda>_. answered)" for f
    unfolding set_answer_def
    by (rule maintains_update) (auto intro!: sound_answer simp: answered_def answer_part_def)
  have "maintains (sound_driver U A) (\<lambda>_. True) (send_create_result W U A) (\<lambda>_ _. True)"
    unfolding send_create_result_def fresh_def
  proof (rule sound.failing_calm, rule checked_then, rule maintains_seq [OF maintains_pre [OF plan_answer_maintains]], goal_cases)
    case (2 x)
    show ?case
      by (rule maintains_seq [OF maintains_phase [OF deliver_answer_maintains stable_answerable st]],
          rule sound.calm_then [OF calm_answer_live st], rule sound.calm_then [OF calm_checked st],
          rule sound.calm_then [OF calm.along_inspect st], rule maintains_post [OF last]) simp
  qed (simp_all add: answer_part_def)
  then show ?thesis using assms by (rule maintains_start) simp
qed

section \<open>Every step\<close>

lemma driver_step_sound: "driver_step W U A S T \<Longrightarrow> sound_driver U A S \<Longrightarrow> sound_driver U A T"
proof (induction rule: driver_step.induct)
  case (step_check S)
  then show ?case by (rule sound.along_keeps [OF calm_check_broker])
next
  case (step_operation S a r b)
  have "calm S (S\<lparr>dr_active := a, dr_reserved := r, dr_sealed := b\<rparr>)" for a r b by (simp add: calm_def part_defs)
  then show ?case using step_operation calm_sound by blast
next
  case (step_written S raw)
  have "calm S (S\<lparr>dr_store := (dr_store S)\<lparr>journal := raw\<rparr>\<rparr>)" by (simp add: calm_def part_defs)
  then show ?case using step_written calm_sound by blast
qed (blast intro: begin_sound intent_sound_step exchange_sound_step created_sound_step answer_sound_step
    sound.along_keeps [OF calm_poll] sound.along_keeps [OF calm_prepare_api] sound.along_keeps [OF calm_retire]
    sound.along_keeps [OF calm_check_api] sound.along_keeps [OF calm_check_intent]
    sound.along_keeps [OF calm_check_exchange] sound.along_keeps [OF calm_check_created]
    sound.along_keeps [OF calm_check_answer] sound.along_keeps [OF calm_check_retirement]
    calm_sound [OF calm_closing])+

lemma driver_reachable_sound:
  assumes "(driver_step W U A)\<^sup>*\<^sup>* (new_driver st seen calls now wall) S"
  shows "sound_driver U A S"
  using assms by (induction rule: rtranclp_induct) (use sound_new driver_step_sound in blast)+

section \<open>Failing closed\<close>

text \<open>The operation closes the broker when it raises; a closed broker always raises, writes nothing and sends nothing.\<close>

definition fails_closed :: "'a drive \<Rightarrow> driver \<Rightarrow> bool" where
  "fails_closed m S \<longleftrightarrow>
     (case m S of
        (Ret _, T) \<Rightarrow> \<not> dr_closed S
      | (Raise _, T) \<Rightarrow> dr_closed T \<and>
          (if dr_closed S then dr_trace T = dr_trace S \<and> journal (dr_store T) = journal (dr_store S) else True))"

definition still :: "driver \<Rightarrow> driver \<Rightarrow> bool" where
  "still S T \<longleftrightarrow> dr_closed T = dr_closed S \<and> dr_trace T = dr_trace S \<and> journal (dr_store T) = journal (dr_store S)"

definition refuses :: "'a drive \<Rightarrow> bool" where
  "refuses m \<longleftrightarrow> (\<forall>S. dr_closed S \<longrightarrow> (\<exists>e T. m S = (Raise e, T) \<and> still S T))"

lemma refuses_seq: "refuses m \<Longrightarrow> refuses (seq m f)"
  unfolding refuses_def seq_def by fastforce

lemma refuses_after: "(\<And>x. refuses (f x)) \<Longrightarrow> refuses (seq (inspect g) f)"
  unfolding refuses_def seq_def inspect_def by (auto simp: still_def split: outcome.splits)

lemma refuses_checked: "(\<And>x. refuses (f x)) \<Longrightarrow> refuses (seq (checked c r) f)"
  unfolding checked_def by (rule refuses_after)

lemma refuses_unless: "(\<And>S. dr_closed S \<Longrightarrow> c S = Ret False) \<Longrightarrow> refuses (checked c r)"
  by (auto simp: refuses_def checked_def inspect_def outcome_simps still_def)

lemma refuses_open: "refuses (seq (checked (\<lambda>S. Ret (\<not> dr_closed S \<and> c S)) r) f)"
  by (rule refuses_seq, rule refuses_unless) simp

lemma refuses_failing: "refuses m \<Longrightarrow> (\<And>S. dr_closed S \<Longrightarrow> still S (h S)) \<Longrightarrow> refuses (failing h m)"
  unfolding refuses_def failing_def still_def by (fastforce split: prod.splits outcome.splits)

lemma refuses_fresh: "refuses (fresh part r)"
  unfolding fresh_def by (rule refuses_unless) simp

lemma refuses_phase: "refuses (phase W A m)"
  unfolding phase_def by (rule refuses_seq, rule refuses_unless) simp

lemma still_closing: "still S T \<Longrightarrow> dr_closed S \<Longrightarrow> still S (closing T)"
  by (simp add: still_def closing_def)

lemma refuses_closing: "refuses m \<Longrightarrow> (\<And>S. still S (h S)) \<Longrightarrow> refuses (failing (closing \<circ> h) m)"
  by (rule refuses_failing) (simp_all add: still_closing)

lemma fails_closed_failing:
  assumes "refuses m" "\<And>S. still S (h S)"
  shows "fails_closed (failing (closing \<circ> h) m) S"
proof (cases "dr_closed S")
  case True
  then show ?thesis
    using refuses_closing [OF assms] by (auto simp: fails_closed_def refuses_def still_def split: prod.splits outcome.splits)
next
  case False
  have "dr_closed (closing T)" for T by (simp add: closing_def)
  then show ?thesis using False by (auto simp: fails_closed_def failing_def split: prod.splits outcome.splits)
qed

lemmas handler_defs = still_def fail_start_def fail_events_def fail_broker_def fail_exchange_def poison_intent_def
  poison_created_def poison_answer_def poison_retirement_def

lemma refuses_transport: "refuses (transport_check W U A)"
  unfolding transport_check_def by (intro refuses_checked refuses_seq [OF refuses_phase])

lemma refuses_check_exchange: "refuses (check_exchange W U A)"
  unfolding check_exchange_def comp_assoc
  by (intro refuses_closing refuses_checked refuses_after refuses_seq [OF refuses_transport])
    (simp add: handler_defs split: option.split)

lemma refuses_created_live: "refuses (created_live W U A)"
  unfolding created_live_def by (intro refuses_after refuses_seq [OF refuses_check_exchange])

lemma refuses_check_created: "refuses (check_created W U A)"
  unfolding check_created_def comp_assoc
  by (intro refuses_closing refuses_checked refuses_created_live) (simp add: handler_defs split: option.split)

lemma refuses_answer_live: "refuses (answer_live W U A)"
  unfolding answer_live_def by (intro refuses_after refuses_seq [OF refuses_check_created])

lemma checks_fail_closed:
  "fails_closed (check_exchange W U A) S" "fails_closed (check_created W U A) S" "fails_closed (check_answer W U A) S"
  unfolding check_exchange_def check_created_def check_answer_def comp_assoc
  by (intro fails_closed_failing refuses_checked refuses_after refuses_seq [OF refuses_transport] refuses_created_live
      refuses_answer_live; simp add: handler_defs split: option.split)+


section \<open>Order and justification of the effects\<close>

text \<open>C5: however the operations of a broker are called, and whatever the clocks, sockets, storage and the other side do,
  its effects are a prefix of one order, each at most once: the dispatch of the case, the row of the intent, the request
  to the API, the row of the created object, the answer to the broker.\<close>

theorem effects_in_order:
  "{S. (driver_step W U A)\<^sup>*\<^sup>* (new_driver st seen calls now wall) S} \<subseteq>
   {S. prefix (map effect_name (dr_trace S)) EFFECT_ORDER}"
  using driver_reachable_sound by (auto simp: sound_driver_def)

text \<open>C4: every effect is justified by what the server read back before it.  The dispatch was sent for an operation that
  the history shows as running under this reservation.  The row of the intent is the planned one.  The request left
  after the history with the intent was read back, and is derived from the retained action and profile.  The row of the
  created object follows the intent and holds what the API answered.  The answer left after the history with that row
  was read back, and is the frame for the recorded response.\<close>

theorem effects_justified:
  "{S. (driver_step W U A)\<^sup>*\<^sup>* (new_driver st seen calls now wall) S} \<subseteq>
   {S. list_all (justified U A S) (dr_trace S)}"
  using driver_reachable_sound by (auto simp: sound_driver_def)

end
