(* ===== verification/Server.thy ===== *)
theory Server
  imports Actions Storage Session BackendAuthority Wire Complex_Main
begin

text \<open>
  The serving loop of \<open>NativeProxyServer\<close> in \<open>live_proxy_server.py\<close>: a run reserves the capacity, then serves at most one
  request for each case.  A request is accepted on one connection at a time, compared with the request that the
  retained authority gives for the operation, recorded as running, probed, recorded with the receipt of its
  cleanup, and answered; the loop ends at the first receipt that is no \<open>PASS\<close>.

  \<open>outside\<close> says what happens outside the process, by the number of the call; the fixed probes, which are not part of
  the repository, are the function \<open>probe_at\<close>, which may write to the history.  The checks of descriptors, of the
  qualification binding, of the kernel's reports and of the broker are calls that succeed or fail.
  \<open>sr_trace\<close> is a history variable: operations recorded as running, recorded with their cleanup, and answered.
\<close>

section \<open>State\<close>

record installation =
  it_authority :: "bytes \<times> bytes \<times> bytes \<times> bytes"
  it_envelope :: items
  it_capacity :: items
  it_plan :: items
  it_session :: items
  it_profile :: pyval
  it_observation :: pyval
  it_endpoint :: pyval
  it_snapshot :: bytes
  it_deadline :: rat

text \<open>What \<open>accept\<close> and the following \<open>set_inheritable\<close> do.\<close>

datatype accepting = Accepted | Timed_out | Not_accepted exn | Lost exn

record outside =
  utc_at :: "nat \<Rightarrow> string"
  clock_at :: "nat \<Rightarrow> rat"
  rounded :: "rat \<Rightarrow> rat"
  files_kept :: "nat \<Rightarrow> unit outcome"
  contained :: "nat \<Rightarrow> unit outcome"
  broker_kept :: "nat \<Rightarrow> unit outcome"
  storage_kept :: "nat \<Rightarrow> unit outcome"
  policy_at :: "nat \<Rightarrow> unit outcome"
  history_io :: "nat \<Rightarrow> io_event"
  leaf_at :: "nat \<Rightarrow> bytes outcome"
  context_at :: "nat \<Rightarrow> unit outcome"
  listening_at :: "nat \<Rightarrow> unit outcome"
  timer_at :: "nat \<Rightarrow> unit outcome"
  accepting_at :: "nat \<Rightarrow> accepting"
  bound_at :: "nat \<Rightarrow> bool outcome"
  client_at :: "nat \<Rightarrow> unit outcome"
  request_at :: "nat \<Rightarrow> stream"
  buffer_at :: "nat \<Rightarrow> stream \<Rightarrow> nat"
  probe_at :: "nat \<Rightarrow> pyval \<Rightarrow> store \<Rightarrow> (bytes \<times> pyval list) outcome \<times> store \<times> bytes"
  reply_at :: "nat \<Rightarrow> bytes \<Rightarrow> unit outcome"
  closed_at :: "nat \<Rightarrow> unit outcome"
  released_by :: "nat \<Rightarrow> unit outcome"

datatype happening = Started string | Finished string "pyval list" pyval | Replied string items

record server =
  sr_store :: store
  sr_seen :: bytes
  sr_calls :: nat
  sr_wall :: datetime
  sr_mono :: rat
  sr_reservation :: pyval
  sr_reserved :: bool
  sr_operation :: "string option"
  sr_connected :: bool
  sr_closed :: bool
  sr_trace :: "happening list"

definition new_server :: "store \<Rightarrow> bytes \<Rightarrow> datetime \<Rightarrow> rat \<Rightarrow> server" where
  "new_server st seen wall mono0 =
     \<lparr>sr_store = st, sr_seen = seen, sr_calls = 0, sr_wall = wall, sr_mono = mono0, sr_reservation = PNone,
      sr_reserved = False, sr_operation = None, sr_connected = False, sr_closed = False, sr_trace = []\<rparr>"

type_synonym 'a serving = "(server, 'a) action"

definition call :: "(nat \<Rightarrow> 'a outcome) \<Rightarrow> 'a serving" where
  "call f = (\<lambda>S. (f (sr_calls S), S\<lparr>sr_calls := sr_calls S + 1\<rparr>))"

definition happens :: "happening \<Rightarrow> unit serving" where
  "happens h = update (\<lambda>S. S\<lparr>sr_trace := sr_trace S @ [h]\<rparr>)"

section \<open>Checks\<close>

definition within_profile :: "installation \<Rightarrow> datetime \<Rightarrow> bool outcome" where
  "within_profile A now =
     and_also (bind (bind (at_path (it_profile A) [''binding'', ''validFrom'']) proxy_time) (\<lambda>t. time_le t now))
       (bind (bind (at_path (it_profile A) [''binding'', ''expiresAt'']) proxy_time) (\<lambda>t. time_less now t))"

definition snapshot_of :: "ucd \<Rightarrow> installation \<Rightarrow> bytes outcome" where
  "snapshot_of U A =
     canonical_bytes U (PList [PDict (it_envelope A), PDict (it_capacity A), PDict (it_plan A), PDict (it_session A),
       it_profile A, it_observation A, it_endpoint A])"

text \<open>The signed authority still verifies, at the present time, to the retained data.\<close>

definition authority_kept :: "ucd \<Rightarrow> installation \<Rightarrow> datetime \<Rightarrow> unit outcome" where
  "authority_kept U A now =
     (case it_authority A of (e_raw, c_raw, release_raw, tenant_raw) \<Rightarrow>
        bind (verify_backend_authority U e_raw c_raw release_raw tenant_raw now) (\<lambda>(e, c, _, _).
          requires (and_also (Ret (py_eq (PDict e) (PDict (it_envelope A)) \<and> py_eq (PDict c) (PDict (it_capacity A))))
            (bind (snapshot_of U A) (\<lambda>raw. Ret (raw = it_snapshot A)))) ''PROXY_AUTHORITY_CHANGED''))"

definition owner_check :: "unit serving" where
  "owner_check = inspect (\<lambda>S. require (\<not> sr_closed S) ''PROXY_OWNER_INVALID'')"

definition base_check :: "outside \<Rightarrow> ucd \<Rightarrow> installation \<Rightarrow> unit serving" where
  "base_check W U A =
     seq owner_check (\<lambda>_.
     seq (call (files_kept W)) (\<lambda>_.
     seq (call (\<lambda>n. linux_time (PStr (utc_at W n)))) (\<lambda>now.
     seq (call (\<lambda>n. Ret (clock_at W n))) (\<lambda>m.
     seq (inspect (\<lambda>S. requires (and_also (time_le (sr_wall S) now)
            (and_also (Ret (sr_mono S \<le> m \<and> m < it_deadline A)) (within_profile A now))) ''PROXY_CLOCK_OR_EXPIRY'')) (\<lambda>_.
     seq (update (\<lambda>S. S\<lparr>sr_wall := now, sr_mono := m\<rparr>)) (\<lambda>_.
     seq (lift (authority_kept U A now)) (\<lambda>_. call (contained W))))))))"

definition session_check :: "outside \<Rightarrow> ucd \<Rightarrow> installation \<Rightarrow> unit serving" where
  "session_check W U A =
     seq (base_check W U A) (\<lambda>_.
     seq owner_check (\<lambda>_.
     seq (call (broker_kept W)) (\<lambda>_.
     seq (inspect (\<lambda>S. require (sr_reserved S \<and> \<not> poisoned (sr_store S)) ''PROXY_RESERVATION_REQUIRED'')) (\<lambda>_.
     seq (call (storage_kept W)) (\<lambda>_. call (policy_at W))))))"

section \<open>The history\<close>

definition record_state :: "outside \<Rightarrow> ucd \<Rightarrow> string \<Rightarrow> pyval \<Rightarrow> pyval \<Rightarrow> pyval \<Rightarrow> string serving" where
  "record_state W U state operation now cleanup =
     (\<lambda>S. let result = record_admission U (extending (sr_seen S) (sr_store S) (history_io W (sr_calls S))) (sr_store S)
             (sr_reservation S) (PStr state) operation now cleanup in
       (fst result, S\<lparr>sr_store := snd result, sr_calls := sr_calls S + 1, sr_seen := seen_after (sr_seen S) result\<rparr>))"

definition read_state :: "outside \<Rightarrow> bytes serving" where
  "read_state W =
     seq (call (\<lambda>n. Ret (history_io W n))) (\<lambda>io.
     seq (inspect (\<lambda>S. read_history (sr_seen S) (sr_store S) io)) (\<lambda>raw.
     seq (update (\<lambda>S. S\<lparr>sr_seen := raw\<rparr>)) (\<lambda>_. lift (Ret raw))))"

section \<open>Opening\<close>

text \<open>The last part of \<open>__init__\<close>: the capacity is reserved before the identity of the server is read.\<close>

definition open_server :: "outside \<Rightarrow> ucd \<Rightarrow> installation \<Rightarrow> unit serving" where
  "open_server W U A =
     seq (call (policy_at W)) (\<lambda>_.
     seq (lift (admission_binding U (it_envelope A) (it_capacity A) (it_profile A))) (\<lambda>b.
     seq (update (\<lambda>S. S\<lparr>sr_reservation := PDict b\<rparr>)) (\<lambda>_.
     seq (call (\<lambda>n. Ret (utc_at W n))) (\<lambda>now.
     seq (record_state W U ''RESERVED'' PNone (PStr now) PNone) (\<lambda>_.
     seq (update (\<lambda>S. S\<lparr>sr_reserved := True\<rparr>)) (\<lambda>_.
     seq (session_check W U A) (\<lambda>_.
     seq (call (leaf_at W)) (\<lambda>leaf.
     seq (session_check W U A) (\<lambda>_.
     seq (lift (check_certificate leaf (it_profile A) (it_endpoint A) False)) (\<lambda>_.
     seq (call (context_at W)) (\<lambda>_.
     seq (session_check W U A) (\<lambda>_.
     seq (call (listening_at W)) (\<lambda>_. session_check W U A)))))))))))))"

section \<open>Accepting a connection\<close>

definition take_connection :: "outside \<Rightarrow> unit serving" where
  "take_connection W =
     (\<lambda>S. let T = S\<lparr>sr_calls := sr_calls S + 1\<rparr> in
        case accepting_at W (sr_calls S) of
          Accepted \<Rightarrow> (Ret (), T\<lparr>sr_connected := True\<rparr>)
        | Timed_out \<Rightarrow> (Ret (), T)
        | Not_accepted e \<Rightarrow> (Raise e, T)
        | Lost e \<Rightarrow> (Raise e, T\<lparr>sr_connected := True\<rparr>))"

text \<open>One round of waiting.  The check after the wait replaces what the wait raised.\<close>

definition accept_round :: "outside \<Rightarrow> ucd \<Rightarrow> installation \<Rightarrow> rat \<Rightarrow> unit serving" where
  "accept_round W U A limit =
     seq (session_check W U A) (\<lambda>_.
     seq (call (\<lambda>n. Ret (clock_at W n))) (\<lambda>before.
     seq (lift (require (before < limit) ''PROXY_ACCEPT_DEADLINE'')) (\<lambda>_.
     seq (call (timer_at W)) (\<lambda>_.
       finally_do (take_connection W)
         (seq (session_check W U A) (\<lambda>_.
          seq (call (\<lambda>n. Ret (clock_at W n))) (\<lambda>now.
            lift (require (before \<le> now \<and> now < limit) ''PROXY_ACCEPT_DEADLINE''))))))))"

text \<open>The loop, for at most as many rounds as the fuel; \<open>ServerLaws\<close> shows how much is enough.\<close>

fun accept_within :: "nat \<Rightarrow> outside \<Rightarrow> ucd \<Rightarrow> installation \<Rightarrow> rat \<Rightarrow> unit serving" where
  "accept_within 0 W U A limit = lift (Raise OutOfFuel)"
| "accept_within (Suc n) W U A limit =
     seq (accept_round W U A limit) (\<lambda>_.
     seq (inspect (\<lambda>S. Ret (sr_connected S))) (\<lambda>connected.
       if connected then lift (Ret ()) else accept_within n W U A limit))"

definition accept_connection :: "nat \<Rightarrow> outside \<Rightarrow> ucd \<Rightarrow> installation \<Rightarrow> unit serving" where
  "accept_connection fuel W U A =
     seq (inspect (\<lambda>S. require (\<not> sr_connected S) ''PROXY_CONNECTION_ALREADY_OWNED'')) (\<lambda>_.
     seq (call (\<lambda>n. Ret (clock_at W n))) (\<lambda>m.
       accept_within fuel W U A (min (it_deadline A) (rounded W (m + 10)))))"

section \<open>Serving one request\<close>

text \<open>The request must be the one that the retained authority gives for its operation.\<close>

definition bound_operation :: "ucd \<Rightarrow> installation \<Rightarrow> bytes \<Rightarrow> pyval \<Rightarrow> string outcome" where
  "bound_operation U A first request =
     bind (bind (items_of request) (\<lambda>d. Ret (get_default d ''operation'' PNone))) (\<lambda>v.
     (case v of
        PStr operation \<Rightarrow>
          if operation \<in> set CASES then
            bind (requires (and_also
              (bind (build_probe_request U (it_envelope A) (it_capacity A) (it_plan A) (PStr operation)) (\<lambda>r.
                 Ret (py_eq request (PDict r))))
              (bind (bind (item request ''path'') text_of) (\<lambda>path. Ret (first = ''POST '' @ path @ '' HTTP/1.1''))))
              ''PROXY_REQUEST_BINDING'') (\<lambda>_. Ret operation)
          else refuse ''PROXY_REQUEST_BINDING''
      | _ \<Rightarrow> refuse ''PROXY_REQUEST_BINDING''))"

definition receive_request :: "nat \<Rightarrow> outside \<Rightarrow> ucd \<Rightarrow> installation \<Rightarrow> (pyval \<times> string) serving" where
  "receive_request fuel W U A =
     seq (accept_connection fuel W U A) (\<lambda>_.
     seq (session_check W U A) (\<lambda>_.
     seq (call (bound_at W)) (\<lambda>same.
     seq (lift (require same ''PROXY_LISTENER_CHANGED'')) (\<lambda>_.
     seq (call (client_at W)) (\<lambda>_.
     seq (lift (bind (at_path (it_endpoint A) [''tls'', ''serverName'']) text_of)) (\<lambda>host.
     seq (call (\<lambda>n. read_http (buffer_at W n) (request_at W n) False (Some host))) (\<lambda>(first, raw).
     seq (lift (proxy_document U 16384 (PBytes raw))) (\<lambda>request.
     seq (lift (bound_operation U A first request)) (\<lambda>operation. lift (Ret (request, operation)))))))))))"

definition execute_probe :: "outside \<Rightarrow> pyval \<Rightarrow> (bytes \<times> pyval list) serving" where
  "execute_probe W request =
     (\<lambda>S. case probe_at W (sr_calls S) request (sr_store S) of
        (r, st, news) \<Rightarrow> (r, S\<lparr>sr_store := st, sr_seen := sr_seen S @ news, sr_calls := sr_calls S + 1\<rparr>))"

text \<open>The receipt of what the operation left behind, chained to the last one of the reservation.\<close>

definition case_cleanup :: "ucd \<Rightarrow> installation \<Rightarrow> pyval \<Rightarrow> bytes \<Rightarrow> string \<Rightarrow> string \<Rightarrow> pyval list \<Rightarrow> pyval outcome" where
  "case_cleanup U A reservation raw operation now remaining =
     bind (parse_reservations U raw) (\<lambda>G.
     bind (bind (field (it_envelope A) ''tenantId'') text_of) (\<lambda>t.
     bind (bind (field (it_envelope A) ''nonce'') text_of) (\<lambda>n.
     (case map_of (reservations G) (t, n) of
        None \<Rightarrow> Raise KeyError
      | Some prior \<Rightarrow> bind (canonical_digest U reservation None) (\<lambda>d.
          cleanup_receipt U (PStr d) (PStr operation) (PStr now) (PList remaining) (PStr (rv_cleanup prior)))))))"

definition running_session :: "installation \<Rightarrow> items outcome" where
  "running_session A =
     bind (field (it_session A) ''notBefore'') (\<lambda>start.
     bind (field (it_session A) ''notAfter'') (\<lambda>finish.
       Ret (dict_update (filter (\<lambda>(k, _). k \<notin> {''notBefore'', ''notAfter''}) (it_session A))
         [(''schemaVersion'', PStr SESSION_SCHEMA), (''issuedAt'', start), (''expiresAt'', finish),
          (''state'', PStr ''RUNNING'')])))"

definition case_receipt :: "ucd \<Rightarrow> installation \<Rightarrow> bytes \<Rightarrow> pyval \<Rightarrow> string \<Rightarrow> string \<Rightarrow> items outcome" where
  "case_receipt U A raw request operation now =
     bind (running_session A) (\<lambda>session.
     bind (if operation = ''FULL_PREDECESSOR_REGRESSION'' then field (it_plan A) ''regressions'' else Ret (PDict [])) (\<lambda>regressions.
       validate_receipt U (PBytes raw) (PDict session) (PDict (it_session A)) request regressions (PStr now)))"

definition passed :: "items \<Rightarrow> bool outcome" where
  "passed receipt = field_is receipt ''status'' (PStr ''PASS'')"

definition run_operation :: "outside \<Rightarrow> ucd \<Rightarrow> installation \<Rightarrow> pyval \<Rightarrow> string \<Rightarrow> items serving" where
  "run_operation W U A request operation =
     seq (session_check W U A) (\<lambda>_.
     seq (call (\<lambda>n. Ret (utc_at W n))) (\<lambda>now.
     seq (record_state W U ''RUNNING'' (PStr operation) (PStr now) PNone) (\<lambda>_.
     seq (happens (Started operation)) (\<lambda>_.
     seq (update (\<lambda>S. S\<lparr>sr_operation := Some operation\<rparr>)) (\<lambda>_.
     seq (execute_probe W request) (\<lambda>(raw, remaining).
     seq (session_check W U A) (\<lambda>_.
     seq (read_state W) (\<lambda>history.
     seq (call (\<lambda>n. Ret (utc_at W n))) (\<lambda>noted.
     seq (inspect (\<lambda>S. case_cleanup U A (sr_reservation S) history operation noted remaining)) (\<lambda>cleanup.
     seq (call (\<lambda>n. Ret (utc_at W n))) (\<lambda>received.
     seq (lift (case_receipt U A raw request operation received)) (\<lambda>receipt.
     seq (lift (requires (bind (passed receipt) (\<lambda>p. Ret (\<not> p \<or> remaining = []))) ''PROXY_CLEANUP_NOT_PROVEN'')) (\<lambda>_.
     seq (lift (item cleanup ''observedAt'')) (\<lambda>observed.
     seq (record_state W U ''RECORDED'' (PStr operation) observed cleanup) (\<lambda>_.
     seq (happens (Finished operation remaining cleanup)) (\<lambda>_.
     seq (update (\<lambda>S. S\<lparr>sr_operation := None\<rparr>)) (\<lambda>_. lift (Ret receipt))))))))))))))))))"

text \<open>The answer, with the closing notification of the connection.\<close>

definition answer_request :: "outside \<Rightarrow> ucd \<Rightarrow> installation \<Rightarrow> string \<Rightarrow> items \<Rightarrow> unit serving" where
  "answer_request W U A operation receipt =
     seq (session_check W U A) (\<lambda>_.
     seq (lift (bind (canonical_bytes U (PDict receipt)) (\<lambda>body. http_message ''HTTP/1.1 200 OK'' body None))) (\<lambda>message.
     seq (happens (Replied operation receipt)) (\<lambda>_.
       call (\<lambda>n. reply_at W n message))))"

definition disconnect :: "outside \<Rightarrow> unit serving" where
  "disconnect W =
     (\<lambda>S. if sr_connected S then call (closed_at W) (S\<lparr>sr_connected := False\<rparr>) else (Ret (), S))"

definition serve_case :: "nat \<Rightarrow> outside \<Rightarrow> ucd \<Rightarrow> installation \<Rightarrow> bool serving" where
  "serve_case fuel W U A =
     finally_do
       (seq (receive_request fuel W U A) (\<lambda>(request, operation).
        seq (run_operation W U A request operation) (\<lambda>receipt.
        seq (answer_request W U A operation receipt) (\<lambda>_. lift (passed receipt)))))
       (disconnect W)"

fun serve_cases :: "nat \<Rightarrow> outside \<Rightarrow> ucd \<Rightarrow> installation \<Rightarrow> string list \<Rightarrow> unit serving" where
  "serve_cases fuel W U A [] = lift (Ret ())"
| "serve_cases fuel W U A (_ # rest) =
     seq (serve_case fuel W U A) (\<lambda>go. if go then serve_cases fuel W U A rest else lift (Ret ()))"

section \<open>The program\<close>

definition close_server :: "outside \<Rightarrow> unit serving" where
  "close_server W =
     (\<lambda>S. if sr_closed S then (Ret (), S) else call (released_by W) (S\<lparr>sr_closed := True, sr_connected := False\<rparr>))"

definition expected_failure :: "exn \<Rightarrow> bool" where
  "expected_failure e = (is_value_error e \<or> e = OSError \<or> e = KeyError)"

text \<open>\<open>except (ConformanceError, OSError, ValueError, KeyError): return 2\<close>\<close>

definition exit_status :: "unit serving \<Rightarrow> int serving" where
  "exit_status m =
     (\<lambda>S. case m S of
        (Ret _, T) \<Rightarrow> (Ret 0, T)
      | (Raise e, T) \<Rightarrow> (if expected_failure e then Ret 2 else Raise e, T))"

text \<open>\<open>main\<close> from the reservation on.  A failure of the opening closes the server and stays the failure.\<close>

definition server_main :: "nat \<Rightarrow> outside \<Rightarrow> ucd \<Rightarrow> installation \<Rightarrow> int serving" where
  "server_main fuel W U A =
     (\<lambda>S. case open_server W U A S of
        (Raise e, T) \<Rightarrow> exit_status (\<lambda>V. (Raise e, snd (close_server W V))) T
      | (Ret _, T) \<Rightarrow> finally_do (exit_status (serve_cases fuel W U A CASES)) (close_server W) T)"

end
