(* ===== verification/ServerLaws.thy ===== *)
theory ServerLaws
  imports Server LedgerLaws "HOL-Library.Sublist"
begin

text \<open>
  Laws of the serving loop.  First the history: it only grows, what a reservation has done stays done, and a row that
  says \<open>RUNNING\<close> is refused for an operation that was done.  Then the wait for a connection: when the clock advances by
  some amount with each call, a fuel that covers the time to the deadline gives the result of every larger fuel.
\<close>

section \<open>What stays in the history\<close>

lemma put_lookup: "map_of (put k v xs) k' = (if k' = k then Some v else map_of xs k')"
  by (induction k v xs rule: put.induct) auto

lemma next_done:
  assumes "next_reservation U G key prior row b t = Ret (r, finished)"
  shows "set (rv_done prior) \<subseteq> set (rv_done r)"
  using assms unfolding next_reservation_def resource_transition_def cleanup_recorded_def
  by (auto simp: bind_eq_Ret Let_def split: if_splits)

text \<open>How a row changes the reservations.\<close>

lemma ledger_row_Ret:
  assumes "ledger_row U G line = Ret G'"
  obtains v row bv b instant key r finished where
    "proxy_document U 32768 (PBytes (strip_eol line)) = Ret v" "items_of v = Ret row" "field row ''binding'' = Ret bv"
    "ledger_binding bv = Ret b" "run_key_of b = Ret key"
    "case map_of (reservations G) key of
       None \<Rightarrow> first_reservation G row bv instant = Ret r \<and> finished = None
     | Some prior \<Rightarrow> next_reservation U G key prior row bv instant = Ret (r, finished)"
    "reservations G' = put key (r\<lparr>rv_last := instant\<rparr>) (reservations G)"
    "recorded G' = (case finished of None \<Rightarrow> recorded G | Some operation \<Rightarrow> (key, operation) # recorded G)"
  using assms unfolding ledger_row_def
proof (elim bind_RetE)
  fix v row bv b instant key p
  assume v: "proxy_document U 32768 (PBytes (strip_eol line)) = Ret v" "items_of v = Ret row" "field row ''binding'' = Ret bv"
    "ledger_binding bv = Ret b" "run_key_of b = Ret key"
    and p: "(case map_of (reservations G) key of
             None \<Rightarrow> bind (first_reservation G row bv instant) (\<lambda>r. Ret (r, None))
           | Some prior \<Rightarrow> next_reservation U G key prior row bv instant) = Ret p"
    and last: "(case p of (r, finished) \<Rightarrow> bind (canonical_digest U v None) (\<lambda>digest.
       Ret (G\<lparr>reservations := put key (r\<lparr>rv_last := instant\<rparr>) (reservations G),
              recorded := (case finished of None \<Rightarrow> recorded G | Some operation \<Rightarrow> (key, operation) # recorded G),
              chain := digest, rows := rows G + 1\<rparr>))) = Ret G'"
  obtain r finished where rf: "p = (r, finished)" by (cases p)
  have "case map_of (reservations G) key of
       None \<Rightarrow> first_reservation G row bv instant = Ret r \<and> finished = None
     | Some prior \<Rightarrow> next_reservation U G key prior row bv instant = Ret (r, finished)"
    using p rf by (auto simp: bind_eq_Ret split: option.splits)
  moreover from last rf obtain digest where "G' = G\<lparr>reservations := put key (r\<lparr>rv_last := instant\<rparr>) (reservations G),
      recorded := (case finished of None \<Rightarrow> recorded G | Some operation \<Rightarrow> (key, operation) # recorded G),
      chain := digest, rows := rows G + 1\<rparr>"
    by (auto simp: bind_eq_Ret)
  ultimately show ?thesis using that v by simp
qed

definition done_by :: "run_key \<Rightarrow> ledger \<Rightarrow> string set" where
  "done_by key G = (case map_of (reservations G) key of None \<Rightarrow> {} | Some r \<Rightarrow> set (rv_done r))"

lemma ledger_row_done:
  assumes "ledger_row U G line = Ret G'"
  shows "done_by key G \<subseteq> done_by key G'"
proof -
  obtain k row bv instant r finished where
    step: "case map_of (reservations G) k of
       None \<Rightarrow> first_reservation G row bv instant = Ret r \<and> finished = None
     | Some prior \<Rightarrow> next_reservation U G k prior row bv instant = Ret (r, finished)"
    and G': "reservations G' = put k (r\<lparr>rv_last := instant\<rparr>) (reservations G)"
    by (rule ledger_row_Ret [OF assms])
  then show ?thesis
    by (auto simp: done_by_def put_lookup dest!: next_done split: option.splits)
qed

lemma parse_grows:
  assumes "parse_reservations U raw = Ret G" "parse_reservations U (raw @ news) = Ret G'"
  shows "done_by key G \<subseteq> done_by key G'"
proof -
  have nl: "raw = [] \<or> last raw = CHR 0x0A" and old: "fold_out (ledger_row U) empty_ledger (split_lines raw) = Ret G"
    using assms(1) by (auto simp: parse_reservations_def bind_eq_Ret)
  have "fold_out (ledger_row U) empty_ledger (split_lines (raw @ news)) = Ret G'"
    using assms(2) unfolding parse_reservations_def by (elim bind_RetE)
  then have "fold_out (ledger_row U) G (split_lines news) = Ret G'"
    using old by (simp add: split_lines_append [OF nl] fold_out_append)
  then show ?thesis
    by (rule fold_out_invariant [where P = "\<lambda>H. done_by key G \<subseteq> done_by key H"]) (use ledger_row_done in blast)+
qed

section \<open>A row that was appended\<close>

definition reservation_key :: "pyval \<Rightarrow> run_key outcome" where
  "reservation_key v = bind (items_of v) run_key_of"

lemma text_canon: "text_of (canon v) = text_of v"
  by (cases v) (simp_all add: text_of_def)

lemma canon_field: "distinct (map fst kvs) \<Longrightarrow>
    field (map (\<lambda>(k, v). (k, canon v)) (sort_key fst kvs)) k = (case field kvs k of Raise e \<Rightarrow> Raise e | Ret v \<Rightarrow> Ret (canon v))"
  by (simp add: field_def canon_lookup split: option.splits)

lemma canon_key:
  assumes "wf_val b" "items_of (canon b) = Ret bi"
  shows "reservation_key b = run_key_of bi"
proof -
  obtain kvs where b: "b = PDict kvs" using assms(2) by (cases b) (auto simp: items_of_def)
  have "bind (field bi k) text_of = bind (field kvs k) text_of" for k
    using assms b by (auto simp: items_of_def canon_field text_canon bind_def split: outcome.splits)
  then show ?thesis by (simp add: reservation_key_def run_key_of_def b items_of_def)
qed

lemma appended_row_Ret:
  assumes "appended_row U before row_at = Ret (encoded, digest)" "\<And>G. wf_val (PDict (row_at G))"
  obtains G G' line where "parse_reservations U before = Ret G" "parse_reservations U (before @ encoded) = Ret G'"
    "ledger_row U G line = Ret G'"
    "\<And>v. proxy_document U 32768 (PBytes (strip_eol line)) = Ret v \<Longrightarrow> v = canon (PDict (row_at G))"
proof -
  obtain G raw G' where G: "parse_reservations U before = Ret G" "canonical_bytes U (PDict (row_at G)) = Ret raw"
    "parse_reservations U (before @ raw @ [CHR 0x0A]) = Ret G'" "encoded = raw @ [CHR 0x0A]"
    using assms(1) by (auto simp: appended_row_def bind_eq_Ret)
  have dumps: "raw = dumps (PDict (row_at G))" "json_val (PDict (row_at G))"
    using G(2) canonical_json_val [OF G(2) assms(2)] by (auto simp: canonical_bytes_Ret)
  have pr: "printable raw" unfolding dumps(1) by (rule printable_dumps)
  have nl: "before = [] \<or> last before = CHR 0x0A" and old: "fold_out (ledger_row U) empty_ledger (split_lines before) = Ret G"
    using G(1) by (auto simp: parse_reservations_def bind_eq_Ret)
  have "fold_out (ledger_row U) empty_ledger (split_lines (before @ encoded)) = Ret G'"
    using G(3) unfolding parse_reservations_def G(4) by (elim bind_RetE)
  then have row: "ledger_row U G encoded = Ret G'"
    using old split_lines_line [OF pr, of "[]"]
    by (simp add: split_lines_append [OF nl] fold_out_append G(4) bind_eq_Ret)
  have strip: "strip_eol encoded = raw"
  proof -
    have "c \<noteq> CHR 0x0A \<and> c \<noteq> CHR 0x0D" if "c \<in> set raw" for c
      using pr that by (auto simp: printable_def list_all_iff)
    then show ?thesis by (simp add: strip_eol_def G(4) takeWhile_append2)
  qed
  have doc: "v = canon (PDict (row_at G))" if "proxy_document U 32768 (PBytes (strip_eol encoded)) = Ret v" for v
  proof -
    have "loads raw = Ret v"
      using that by (auto simp: strip proxy_document_def bind_eq_Ret require_canonical_Ret load_json_bytes_Ret)
    then show ?thesis using loads_dumps [OF dumps(2), of "[]"] by (simp add: dumps(1))
  qed
  show thesis
  proof (rule that)
    show "parse_reservations U (before @ encoded) = Ret G'" using G(3,4) by simp
  qed (use G(1) row doc in blast)+
qed

lemma recorded_row:
  assumes "record_admission U (extending seen st io) st b (PStr state) operation now cleanup = (Ret d, st')"
    and "wf_val b" "wf_val operation" "wf_val now" "wf_val cleanup"
  obtains G G' line where "prefix seen (journal st)" "prefix (journal st) (journal st')"
    "parse_reservations U (journal st) = Ret G" "parse_reservations U (journal st') = Ret G'" "ledger_row U G line = Ret G'"
    "\<And>v. proxy_document U 32768 (PBytes (strip_eol line)) = Ret v \<Longrightarrow>
      v = canon (PDict (ledger_items G b (PStr state) operation now cleanup))"
proof -
  let ?row = "\<lambda>G. ledger_items G b (PStr state) operation now cleanup"
  from assms(1) obtain encoded where e: "appended_row U (journal st) ?row = Ret (encoded, d)" "opened (extending seen st io) = Ret ()"
    "journal st' = journal st @ on_disk (extending seen st io) encoded"
    "ledger_write (extending seen st io) (journal st) encoded = Ret ()"
    unfolding record_admission_def by (auto elim!: commit_Ret simp: bind_eq_Ret)
  have wf: "wf_val (PDict (?row G))" for G using assms(2-5) by (simp add: ledger_items_def)
  obtain G G' line where g: "parse_reservations U (journal st) = Ret G" "parse_reservations U (journal st @ encoded) = Ret G'"
    "ledger_row U G line = Ret G'"
    "\<And>v. proxy_document U 32768 (PBytes (strip_eol line)) = Ret v \<Longrightarrow> v = canon (PDict (?row G))"
    using appended_row_Ret [OF e(1) wf] by blast
  show thesis
  proof (rule that)
    show "prefix seen (journal st)" using opened_extending [OF e(2)] by (simp add: starts_with_iff prefix_def)
    show "prefix (journal st) (journal st')" using e(3) by simp
    show "parse_reservations U (journal st') = Ret G'" using g(2) e(3) written_whole [OF e(4)] by simp
  qed (use g in blast)+
qed

text \<open>The fields of the document of a row.\<close>

lemma row_fields:
  assumes "items_of (canon (PDict (ledger_items G b (PStr state) operation now cleanup))) = Ret row"
  shows "field row ''state'' = Ret (PStr state)" "field row ''operation'' = Ret (canon operation)"
    "field row ''binding'' = Ret (canon b)"
proof -
  let ?kvs = "ledger_items G b (PStr state) operation now cleanup"
  have row: "row = map (\<lambda>(k, v). (k, canon v)) (sort_key fst ?kvs)" using assms by (simp add: items_of_def)
  have d: "distinct (map fst ?kvs)" by (simp add: ledger_items_def)
  show "field row ''state'' = Ret (PStr state)" "field row ''operation'' = Ret (canon operation)" "field row ''binding'' = Ret (canon b)"
    unfolding row canon_field [OF d] by (simp_all add: ledger_items_def field_def)
qed

lemma appended_key:
  assumes "ledger_row U G line = Ret G'" "wf_val b"
    and "\<And>v. proxy_document U 32768 (PBytes (strip_eol line)) = Ret v \<Longrightarrow>
      v = canon (PDict (ledger_items G b (PStr state) (PStr operation) now cleanup))"
  obtains row bv instant key r finished where "reservation_key b = Ret key" "field row ''state'' = Ret (PStr state)"
    "field row ''operation'' = Ret (PStr operation)"
    "case map_of (reservations G) key of
       None \<Rightarrow> first_reservation G row bv instant = Ret r \<and> finished = None
     | Some prior \<Rightarrow> next_reservation U G key prior row bv instant = Ret (r, finished)"
    "reservations G' = put key (r\<lparr>rv_last := instant\<rparr>) (reservations G)"
    "recorded G' = (case finished of None \<Rightarrow> recorded G | Some operation \<Rightarrow> (key, operation) # recorded G)"
proof -
  obtain v row bv bi instant key r finished where
    l: "proxy_document U 32768 (PBytes (strip_eol line)) = Ret v" "items_of v = Ret row" "field row ''binding'' = Ret bv"
    "ledger_binding bv = Ret bi" "run_key_of bi = Ret key"
    "case map_of (reservations G) key of
       None \<Rightarrow> first_reservation G row bv instant = Ret r \<and> finished = None
     | Some prior \<Rightarrow> next_reservation U G key prior row bv instant = Ret (r, finished)"
    "reservations G' = put key (r\<lparr>rv_last := instant\<rparr>) (reservations G)"
    "recorded G' = (case finished of None \<Rightarrow> recorded G | Some operation \<Rightarrow> (key, operation) # recorded G)"
    by (rule ledger_row_Ret [OF assms(1)])
  note f = row_fields [OF l(2) [unfolded assms(3) [OF l(1)]]]
  have "items_of (canon b) = Ret bi" using l(3,4) f(3) by (auto simp: ledger_binding_def bind_eq_Ret)
  then have "reservation_key b = Ret key" using canon_key [OF assms(2)] l(5) by simp
  then show thesis using that f(1,2) l(6-8) by simp
qed

lemma running_row:
  assumes "ledger_row U G line = Ret G'" "wf_val b"
    and "\<And>v. proxy_document U 32768 (PBytes (strip_eol line)) = Ret v \<Longrightarrow>
      v = canon (PDict (ledger_items G b (PStr ''RUNNING'') (PStr operation) now cleanup))"
  shows "\<exists>key. reservation_key b = Ret key \<and> operation \<notin> done_by key G \<and> operation \<in> done_by key G'"
proof -
  obtain row bv instant key r finished where
    l: "reservation_key b = Ret key" "field row ''state'' = Ret (PStr ''RUNNING'')" "field row ''operation'' = Ret (PStr operation)"
    "case map_of (reservations G) key of
       None \<Rightarrow> first_reservation G row bv instant = Ret r \<and> finished = None
     | Some prior \<Rightarrow> next_reservation U G key prior row bv instant = Ret (r, finished)"
    "reservations G' = put key (r\<lparr>rv_last := instant\<rparr>) (reservations G)"
    by (rule appended_key [OF assms])
  show ?thesis
  proof (cases "map_of (reservations G) key")
    case None
    then show ?thesis
      using l(2,4) by (auto simp: first_reservation_def bind_eq_Ret requires_eq_Ret and_also_True field_is_def)
  next
    case (Some prior)
    then have "next_reservation U G key prior row bv instant = Ret (r, finished)" using l(4) by simp
    then have "operation \<notin> set (rv_done prior)" "operation \<in> set (rv_done r)"
      using l(2,3) by (auto simp: next_reservation_def bind_eq_Ret split: if_splits)
    then show ?thesis using l(1,5) Some by (auto simp: done_by_def put_lookup)
  qed
qed

lemma finished_row:
  assumes "ledger_row U G line = Ret G'" "wf_val b"
    and "\<And>v. proxy_document U 32768 (PBytes (strip_eol line)) = Ret v \<Longrightarrow>
      v = canon (PDict (ledger_items G b (PStr ''RECORDED'') (PStr operation) now cleanup))"
  shows "\<exists>key. reservation_key b = Ret key \<and> (key, operation) \<in> set (recorded G')"
proof -
  obtain row bv instant key r finished where
    l: "reservation_key b = Ret key" "field row ''state'' = Ret (PStr ''RECORDED'')" "field row ''operation'' = Ret (PStr operation)"
    "case map_of (reservations G) key of
       None \<Rightarrow> first_reservation G row bv instant = Ret r \<and> finished = None
     | Some prior \<Rightarrow> next_reservation U G key prior row bv instant = Ret (r, finished)"
    "recorded G' = (case finished of None \<Rightarrow> recorded G | Some operation \<Rightarrow> (key, operation) # recorded G)"
    by (rule appended_key [OF assms])
  have "finished = Some operation"
  proof (cases "map_of (reservations G) key")
    case None
    then show ?thesis
      using l(2,4) by (auto simp: first_reservation_def bind_eq_Ret requires_eq_Ret and_also_True field_is_def)
  next
    case (Some prior)
    then have "next_reservation U G key prior row bv instant = Ret (r, finished)" using l(4) by simp
    then show ?thesis using l(2,3) by (auto simp: next_reservation_def bind_eq_Ret split: if_splits)
  qed
  then show ?thesis using l(1,5) by simp
qed

section \<open>The wait for a connection ends\<close>

definition later :: "server \<Rightarrow> server \<Rightarrow> bool" where
  "later S T \<longleftrightarrow> sr_calls S \<le> sr_calls T"

interpretation later: action_order later
  by unfold_locales (simp_all add: later_def)

lemma later_call: "along later (call f)"
  by (simp add: along_def call_def later_def)

lemma later_session: "along later (session_check W U A)"
  unfolding session_check_def base_check_def owner_check_def
  by (intro later.along_parts later_call along_update) (simp add: later_def)

lemma later_take: "along later (take_connection W)"
  by (auto simp: along_def take_connection_def Let_def later_def split: accepting.split)

text \<open>A round that ends has read the clock before the limit, and has made more calls.\<close>

lemma accept_round_Ret:
  assumes "accept_round W U A limit S = (Ret x, T)"
  shows "\<exists>k. sr_calls S \<le> k \<and> k < sr_calls T \<and> clock_at W k < limit"
proof -
  let ?wait = "\<lambda>y. finally_do (take_connection W)
     (seq (session_check W U A) (\<lambda>_.
      seq (call (\<lambda>n. Ret (clock_at W n))) (\<lambda>now. lift (require (y \<le> now \<and> now < limit) ''PROXY_ACCEPT_DEADLINE''))))"
  obtain V where V: "session_check W U A S = (Ret (), V)"
    and "clock_at W (sr_calls V) < limit"
    and rest: "seq (call (timer_at W)) (\<lambda>_. ?wait (clock_at W (sr_calls V))) (V\<lparr>sr_calls := sr_calls V + 1\<rparr>) = (Ret x, T)"
    using assms unfolding accept_round_def by (auto simp: seq_Ret call_def)
  moreover have "sr_calls S \<le> sr_calls V" using alongD [OF later_session V] by (simp add: later_def)
  moreover have "along later (seq (call (timer_at W)) (\<lambda>_. ?wait (clock_at W (sr_calls V))))"
    by (intro later.along_parts later_call later_session later_take)
  then have "later (V\<lparr>sr_calls := sr_calls V + 1\<rparr>) T" using rest by (rule alongD)
  then have "sr_calls V < sr_calls T" by (simp add: later_def)
  ultimately show ?thesis by blast
qed

lemma accept_enough:
  assumes advance: "\<And>i j. i < j \<Longrightarrow> clock_at W i + d \<le> clock_at W j" and "0 \<le> d"
    and "limit \<le> clock_at W (sr_calls S) + of_nat n * d"
  shows "accept_within (Suc n + m) W U A limit S = accept_within (Suc n) W U A limit S"
  using assms(3)
proof (induction n arbitrary: S)
  case 0
  have False if run: "accept_round W U A limit S = (Ret x, T)" for x T
  proof -
    obtain k where "sr_calls S \<le> k" "clock_at W k < limit" using accept_round_Ret [OF run] by blast
    then show False using advance [of "sr_calls S" k] 0 \<open>0 \<le> d\<close> by (cases "k = sr_calls S") auto
  qed
  then show ?case by (cases "accept_round W U A limit S") (auto simp: seq_def split: outcome.split)
next
  case (Suc n)
  have "accept_within (Suc n + m) W U A limit T = accept_within (Suc n) W U A limit T"
    if run: "accept_round W U A limit S = (Ret x, T)" for x T
  proof (rule Suc.IH)
    obtain k where "sr_calls S \<le> k" "k < sr_calls T" using accept_round_Ret [OF run] by blast
    then show "limit \<le> clock_at W (sr_calls T) + of_nat n * d"
      using advance [of "sr_calls S" "sr_calls T"] Suc.prems by (simp add: algebra_simps)
  qed
  then show ?case
    unfolding add_Suc accept_within.simps(2) [of "Suc (n + m)"] accept_within.simps(2) [of "Suc n"]
    by (auto simp: seq_def inspect_def split: prod.split outcome.split simp del: accept_within.simps)
qed

end
