(* ===== verification/ServerRun.thy ===== *)
theory ServerRun
  imports ServerLaws
begin

text \<open>
  What a server did in one run: its rounds, each an operation that was started, finished and answered.
\<close>

section \<open>Rounds\<close>

fun started :: "happening list \<Rightarrow> string list" where
  "started [] = []"
| "started (Started operation # tr) = operation # started tr"
| "started (_ # tr) = started tr"

text \<open>Rounds that are complete and passed with nothing left behind.\<close>

fun all_passed :: "happening list \<Rightarrow> bool" where
  "all_passed [] \<longleftrightarrow> True"
| "all_passed (Started a # Finished b remaining c # Replied d receipt # tr) \<longleftrightarrow>
     a = b \<and> a = d \<and> passed receipt = Ret True \<and> remaining = [] \<and> all_passed tr"
| "all_passed _ \<longleftrightarrow> False"

text \<open>Such rounds, then at most one that was not finished, not answered, or did not pass.\<close>

fun well_served :: "happening list \<Rightarrow> bool" where
  "well_served [] \<longleftrightarrow> True"
| "well_served [Started a] \<longleftrightarrow> True"
| "well_served [Started a, Finished b remaining c] \<longleftrightarrow> a = b"
| "well_served (Started a # Finished b remaining c # Replied d receipt # tr) \<longleftrightarrow>
     a = b \<and> a = d \<and>
     (passed receipt = Ret True \<and> remaining = [] \<and> well_served tr \<or> passed receipt = Ret False \<and> tr = [])"
| "well_served _ \<longleftrightarrow> False"

lemma started_append [simp]: "started (xs @ ys) = started xs @ started ys"
  by (induction xs rule: started.induct) simp_all

lemma started_set: "a \<in> set (started tr) \<longleftrightarrow> Started a \<in> set tr"
  by (induction tr rule: started.induct) auto

lemma all_passed_append: "all_passed tr \<Longrightarrow> all_passed (tr @ xs) = all_passed xs \<and> well_served (tr @ xs) = well_served xs"
  by (induction tr rule: all_passed.induct) auto

section \<open>The invariant\<close>

text \<open>What the history that the server has seen, or its retained data, say of something that happened.\<close>

fun kept_in :: "ucd \<Rightarrow> installation \<Rightarrow> pyval \<Rightarrow> bytes \<Rightarrow> happening \<Rightarrow> bool" where
  "kept_in U A b seen (Started operation) \<longleftrightarrow>
     (\<exists>key raw G. reservation_key b = Ret key \<and> prefix raw seen \<and> parse_reservations U raw = Ret G \<and>
        operation \<in> done_by key G)"
| "kept_in U A b seen (Finished operation remaining cleanup) \<longleftrightarrow>
     (\<exists>key raw G. reservation_key b = Ret key \<and> prefix raw seen \<and> parse_reservations U raw = Ret G \<and>
        (key, operation) \<in> set (recorded G)) \<and>
     (\<exists>d now previous. cleanup_receipt U d (PStr operation) now (PList remaining) previous = Ret cleanup)"
| "kept_in U A b seen (Replied operation receipt) \<longleftrightarrow>
     (\<exists>raw request now. case_receipt U A raw request operation now = Ret receipt)"

definition served :: "ucd \<Rightarrow> installation \<Rightarrow> server \<Rightarrow> bool" where
  "served U A S \<longleftrightarrow>
     wf_val (sr_reservation S) \<and> well_served (sr_trace S) \<and> distinct (started (sr_trace S)) \<and>
     list_all (kept_in U A (sr_reservation S) (sr_seen S)) (sr_trace S)"

definition quiet :: "server \<Rightarrow> server \<Rightarrow> bool" where
  "quiet S T \<longleftrightarrow> sr_trace T = sr_trace S \<and> sr_reservation T = sr_reservation S \<and> prefix (sr_seen S) (sr_seen T)"

interpretation quiet: action_order quiet
  by unfold_locales (auto simp: quiet_def)

lemma kept_grows: "kept_in U A b seen h \<Longrightarrow> prefix seen seen' \<Longrightarrow> kept_in U A b seen' h"
  by (cases h) (auto intro: prefix_order.trans)

lemma quiet_served: "stable quiet (served U A)"
  by (auto simp: stable_def served_def quiet_def list_all_iff intro: kept_grows)

interpretation served: stable_invariant quiet "served U A" for U A
  by unfold_locales (rule quiet_served)

section \<open>Quiet moves\<close>

lemma quiet_call: "along quiet (call f)"
  by (simp add: along_def call_def quiet_def)

lemmas quiet_parts = quiet.along_parts quiet_call

lemma quiet_update:
  "(\<And>S. sr_trace (f S) = sr_trace S) \<Longrightarrow> (\<And>S. sr_reservation (f S) = sr_reservation S) \<Longrightarrow> (\<And>S. sr_seen (f S) = sr_seen S)
    \<Longrightarrow> along quiet (update f)"
  by (rule along_update) (simp add: quiet_def)

lemma quiet_base: "along quiet (base_check W U A)"
  unfolding base_check_def owner_check_def by (intro quiet_parts quiet_update) simp_all

lemma quiet_session: "along quiet (session_check W U A)"
  unfolding session_check_def owner_check_def by (intro quiet_parts quiet_base)

lemma quiet_record: "along quiet (record_state W U state operation now cleanup)"
proof (rule alongI)
  fix S r T
  assume run: "record_state W U state operation now cleanup S = (r, T)"
  let ?io = "extending (sr_seen S) (sr_store S) (history_io W (sr_calls S))"
  obtain r' st where rec: "record_admission U ?io (sr_store S) (sr_reservation S) (PStr state) operation now cleanup = (r', st)"
    by fastforce
  have T: "T = S\<lparr>sr_store := st, sr_calls := sr_calls S + 1, sr_seen := seen_after (sr_seen S) (r', st)\<rparr>"
    using run rec by (auto simp: record_state_def Let_def)
  have "prefix (sr_seen S) (seen_after (sr_seen S) (r', st))"
  proof (cases r')
    case (Ret d)
    have "opened ?io = Ret ()" "prefix (journal (sr_store S)) (journal st)"
      using rec Ret unfolding record_admission_def by (auto elim!: commit_Ret simp: bind_eq_Ret)
    then have "prefix (sr_seen S) (journal (sr_store S))" using opened_extending by (auto simp: starts_with_iff prefix_def)
    then show ?thesis
      using \<open>prefix (journal (sr_store S)) (journal st)\<close> prefix_order.trans by (auto simp: seen_after_def Ret)
  qed (simp add: seen_after_def)
  then show "quiet S T" by (simp add: T quiet_def)
qed

lemma quiet_read: "along quiet (read_state W)"
proof (rule alongI)
  fix S r T
  assume "read_state W S = (r, T)"
  then show "quiet S T"
    by (cases r) (auto simp: read_state_def seq_Ret seq_Raise call_def quiet_def starts_with_iff dest!: read_history_extends)
qed

lemma quiet_take: "along quiet (take_connection W)"
  by (auto simp: along_def take_connection_def Let_def quiet_def split: accepting.split)

lemma quiet_round: "along quiet (accept_round W U A limit)"
  unfolding accept_round_def by (intro quiet_parts quiet_session quiet_take)

lemma quiet_if: "along quiet a \<Longrightarrow> along quiet b \<Longrightarrow> along quiet (if c then a else b)"
  by simp

lemma quiet_within: "along quiet (accept_within fuel W U A limit)"
  by (induction fuel) (auto intro!: quiet_parts quiet_round quiet_if)

lemma quiet_receive: "along quiet (receive_request fuel W U A)"
  unfolding receive_request_def accept_connection_def split_beta by (intro quiet_parts quiet_within quiet_session)

lemma quiet_probe: "along quiet (execute_probe W request)"
  by (auto simp: along_def execute_probe_def quiet_def split: prod.split)

lemma quiet_disconnect: "along quiet (disconnect W)"
  by (auto simp: along_def disconnect_def call_def quiet_def)

lemma quiet_close: "along quiet (close_server W)"
  by (auto simp: along_def close_server_def call_def quiet_def)

section \<open>One operation\<close>

definition idle :: "server \<Rightarrow> bool" where
  "idle S \<longleftrightarrow> all_passed (sr_trace S)"

definition startable :: "ucd \<Rightarrow> installation \<Rightarrow> string \<Rightarrow> server \<Rightarrow> bool" where
  "startable U A operation S \<longleftrightarrow>
     idle S \<and> kept_in U A (sr_reservation S) (sr_seen S) (Started operation) \<and> operation \<notin> set (started (sr_trace S))"

definition busy_with :: "string \<Rightarrow> server \<Rightarrow> bool" where
  "busy_with operation S \<longleftrightarrow> (\<exists>tr. sr_trace S = tr @ [Started operation] \<and> all_passed tr)"

definition finished_with :: "string \<Rightarrow> pyval list \<Rightarrow> server \<Rightarrow> bool" where
  "finished_with operation remaining S \<longleftrightarrow>
     (\<exists>tr c. sr_trace S = tr @ [Started operation, Finished operation remaining c] \<and> all_passed tr)"

lemma stable_traces: "stable quiet idle" "stable quiet (busy_with operation)" "stable quiet (finished_with operation remaining)"
  by (auto simp: stable_def quiet_def idle_def busy_with_def finished_with_def)

lemma record_maintains:
  assumes "\<And>S d T. served U A S \<Longrightarrow> P S \<Longrightarrow> record_state W U state operation now cleanup S = (Ret d, T) \<Longrightarrow> V T"
  shows "maintains (served U A) P (record_state W U state operation now cleanup) (\<lambda>_. V)"
proof (rule maintainsI)
  fix S d T
  assume S: "served U A S" "P S" "record_state W U state operation now cleanup S = (Ret d, T)"
  then show "served U A T \<and> V T"
    using assms served.along_keeps [OF quiet_record S(1), of W U state operation now cleanup] by simp
next
  fix S e T
  assume S: "served U A S" "record_state W U state operation now cleanup S = (Raise e, T)"
  then show "served U A T" using served.along_keeps [OF quiet_record S(1), of W U state operation now cleanup] by simp
qed

lemma record_state_Ret:
  assumes "record_state W U state operation now cleanup S = (Ret d, T)" "wf_val (sr_reservation S)" "wf_val operation"
    "wf_val now" "wf_val cleanup"
  obtains G G' line where "prefix (sr_seen S) (journal (sr_store S))" "parse_reservations U (journal (sr_store S)) = Ret G"
    "parse_reservations U (sr_seen T) = Ret G'" "ledger_row U G line = Ret G'"
    "\<And>v. proxy_document U 32768 (PBytes (strip_eol line)) = Ret v \<Longrightarrow>
      v = canon (PDict (ledger_items G (sr_reservation S) (PStr state) operation now cleanup))"
    "sr_trace T = sr_trace S" "sr_reservation T = sr_reservation S"
proof -
  let ?io = "extending (sr_seen S) (sr_store S) (history_io W (sr_calls S))"
  obtain st where rec: "record_admission U ?io (sr_store S) (sr_reservation S) (PStr state) operation now cleanup = (Ret d, st)"
    and T: "sr_seen T = journal st" "sr_trace T = sr_trace S" "sr_reservation T = sr_reservation S"
    using assms(1) by (auto simp: record_state_def Let_def seen_after_def prod_eq_iff)
  show thesis
    by (rule recorded_row [OF rec assms(2-5)]) (use T that in auto)
qed

lemma running_maintains:
  "maintains (served U A) idle (record_state W U ''RUNNING'' (PStr operation) (PStr now) PNone) (\<lambda>_. startable U A operation)"
proof (rule record_maintains)
  fix S d T
  assume S: "served U A S" "idle S" and run: "record_state W U ''RUNNING'' (PStr operation) (PStr now) PNone S = (Ret d, T)"
  have wf: "wf_val (sr_reservation S)" using S(1) by (simp add: served_def)
  obtain G G' line where g: "prefix (sr_seen S) (journal (sr_store S))" "parse_reservations U (journal (sr_store S)) = Ret G"
    "parse_reservations U (sr_seen T) = Ret G'" "ledger_row U G line = Ret G'"
    "\<And>v. proxy_document U 32768 (PBytes (strip_eol line)) = Ret v \<Longrightarrow>
      v = canon (PDict (ledger_items G (sr_reservation S) (PStr ''RUNNING'') (PStr operation) (PStr now) PNone))"
    "sr_trace T = sr_trace S" "sr_reservation T = sr_reservation S"
    by (rule record_state_Ret [OF run wf]) simp_all
  obtain key where key: "reservation_key (sr_reservation S) = Ret key" "operation \<notin> done_by key G" "operation \<in> done_by key G'"
    using running_row [OF g(4) wf g(5)] by blast
  have "operation \<noteq> a" if "a \<in> set (started (sr_trace S))" for a
  proof -
    have "kept_in U A (sr_reservation S) (sr_seen S) (Started a)"
      using that S(1) by (simp add: started_set served_def list_all_iff del: kept_in.simps)
    then obtain raw G0 where raw: "prefix raw (sr_seen S)" "parse_reservations U raw = Ret G0" "a \<in> done_by key G0"
      using key(1) by auto
    then obtain news where "journal (sr_store S) = raw @ news" using g(1) prefix_order.trans by (metis prefix_def)
    then have "a \<in> done_by key G" using parse_grows [OF raw(2)] g(2) raw(3) by (metis subsetD)
    then show ?thesis using key(2) by blast
  qed
  then show "startable U A operation T"
    using key g(3,6,7) S(2) by (auto simp: startable_def idle_def)
qed

lemma finish_maintains:
  assumes "cleanup_receipt U d (PStr operation) now' (PList remaining) previous = Ret cleanup" "item cleanup ''observedAt'' = Ret observed"
  shows "maintains (served U A) (busy_with operation) (record_state W U ''RECORDED'' (PStr operation) observed cleanup)
    (\<lambda>_ S. busy_with operation S \<and> kept_in U A (sr_reservation S) (sr_seen S) (Finished operation remaining cleanup))"
proof (rule record_maintains)
  fix S e T
  assume S: "served U A S" "busy_with operation S" and run: "record_state W U ''RECORDED'' (PStr operation) observed cleanup S = (Ret e, T)"
  have wf: "wf_val (sr_reservation S)" using S(1) by (simp add: served_def)
  have c: "wf_val cleanup" using assms(1) unfolding cleanup_receipt_def by (elim bind_RetE) (simp add: proxy_document_wf)
  obtain G G' line where g: "parse_reservations U (sr_seen T) = Ret G'" "ledger_row U G line = Ret G'"
    "\<And>v. proxy_document U 32768 (PBytes (strip_eol line)) = Ret v \<Longrightarrow>
      v = canon (PDict (ledger_items G (sr_reservation S) (PStr ''RECORDED'') (PStr operation) observed cleanup))"
    "sr_trace T = sr_trace S" "sr_reservation T = sr_reservation S"
    by (rule record_state_Ret [OF run wf _ wf_item [OF c assms(2)] c]) simp_all
  obtain key where "reservation_key (sr_reservation S) = Ret key" "(key, operation) \<in> set (recorded G')"
    using finished_row [OF g(2) wf g(3)] by blast
  then show "busy_with operation T \<and> kept_in U A (sr_reservation T) (sr_seen T) (Finished operation remaining cleanup)"
    using g S(2) assms(1) by (auto simp: busy_with_def)
qed

lemma wf_started: "all_passed tr \<Longrightarrow> well_served (tr @ [Started a]) \<and> well_served (tr @ [Started a, Finished a remaining c])"
  by (simp add: all_passed_append)

lemma served_happens:
  assumes "served U A S" "kept_in U A (sr_reservation S) (sr_seen S) h" "well_served (sr_trace S @ [h])"
    "distinct (started (sr_trace S @ [h]))"
  shows "served U A (S\<lparr>sr_trace := sr_trace S @ [h]\<rparr>)"
  using assms by (simp add: served_def del: started_append kept_in.simps)

definition receipt_of_case :: "ucd \<Rightarrow> installation \<Rightarrow> string \<Rightarrow> items \<Rightarrow> pyval list \<Rightarrow> bool" where
  "receipt_of_case U A operation receipt remaining \<longleftrightarrow>
     (\<exists>raw request now. case_receipt U A raw request operation now = Ret receipt) \<and>
     (\<exists>p. passed receipt = Ret p \<and> (p \<longrightarrow> remaining = []))"

lemma case_cleanup_Ret:
  assumes "case_cleanup U A b raw operation now remaining = Ret cleanup"
  shows "\<exists>d previous. cleanup_receipt U d (PStr operation) (PStr now) (PList remaining) previous = Ret cleanup"
  using assms unfolding case_cleanup_def
proof (elim bind_RetE)
  fix G t n v w
  assume "(case map_of (reservations G) (t, n) of None \<Rightarrow> Raise KeyError
      | Some prior \<Rightarrow> bind (canonical_digest U b None) (\<lambda>d.
          cleanup_receipt U (PStr d) (PStr operation) (PStr now) (PList remaining) (PStr (rv_cleanup prior)))) = Ret cleanup"
  then show ?thesis
    by (cases "map_of (reservations G) (t, n)") (simp_all add: bind_eq_Ret, blast)
qed

lemma run_maintains:
  "maintains (served U A) idle (run_operation W U A request operation)
     (\<lambda>receipt S. \<exists>remaining. finished_with operation remaining S \<and> receipt_of_case U A operation receipt remaining)"
  unfolding run_operation_def happens_def
proof (rule served.calm_then [OF quiet_session stable_traces(1)], rule served.calm_then [OF quiet_call stable_traces(1)],
    rule maintains_seq [OF running_maintains], rule update_then [where Q = "busy_with operation"], goal_cases)
  case S: (1 u now d S)
  have "served U A (S\<lparr>sr_trace := sr_trace S @ [Started operation]\<rparr>)"
    using S wf_started [of "sr_trace S"] by (intro served_happens) (auto simp: startable_def idle_def served_def)
  then show ?case using S(2) by (auto simp: busy_with_def startable_def idle_def)
next
  case (2 u now d)
  note st = stable_traces(2) [of operation]
  show ?case
  proof (rule served.calm_then [OF quiet_update st], simp, simp, simp, rule served.calm_then [OF quiet_probe st], goal_cases)
    case (1 v z)
    obtain raw remaining where z: "z = (raw, remaining)" by fastforce
    show ?case
      unfolding z prod.case
    proof (rule served.calm_then [OF quiet_session st], rule served.calm_then [OF quiet_read st],
        rule served.calm_then [OF quiet_call st], rule inspect_then, goal_cases)
      case (1 w history noted cleanup)
      have clean: "(\<exists>d previous. cleanup_receipt U d (PStr operation) (PStr noted) (PList remaining) previous = Ret cleanup)"
        if "case_cleanup U A (sr_reservation S) history operation noted remaining = Ret cleanup" for S
        using case_cleanup_Ret [OF that] .
      show ?case
      proof (cases "\<exists>d previous. cleanup_receipt U d (PStr operation) (PStr noted) (PList remaining) previous = Ret cleanup")
        case False
        then show ?thesis using clean by (auto simp: maintains_def)
      next
        case True
        then obtain d previous where c: "cleanup_receipt U d (PStr operation) (PStr noted) (PList remaining) previous = Ret cleanup"
          by blast
        show ?thesis
        proof (rule maintains_pre [where P = "busy_with operation"], rule served.calm_then [OF quiet_call st],
            rule lift_then, rule lift_then, rule lift_then, rule maintains_seq [OF finish_maintains [OF c]], assumption,
            rule update_then [where Q = "finished_with operation remaining"], goal_cases)
          case S: (1 received receipt x observed e S)
          then obtain tr where tr: "sr_trace S = tr @ [Started operation]" "all_passed tr" by (auto simp: busy_with_def)
          have "served U A (S\<lparr>sr_trace := sr_trace S @ [Finished operation remaining cleanup]\<rparr>)"
            using S wf_started [OF tr(2)] by (intro served_happens) (auto simp: tr(1) served_def simp del: kept_in.simps)
          then show ?case using tr by (auto simp: finished_with_def)
        next
          case (2 received receipt x observed e)
          have "receipt_of_case U A operation receipt remaining"
            using 2(1,2) by (auto simp: receipt_of_case_def requires_eq_Ret bind_eq_Ret split: if_splits)
          then show ?case
            by (intro served.calm_then [OF quiet_update stable_traces(3)] maintains_post [OF maintains_lift]) auto
        qed simp
      qed
    qed
  qed
qed

section \<open>A run\<close>

definition continuing :: "items \<Rightarrow> server \<Rightarrow> bool" where
  "continuing receipt S \<longleftrightarrow> (passed receipt = Ret True \<longrightarrow> idle S)"

lemma stable_continuing: "stable quiet (continuing receipt)"
  by (auto simp: stable_def quiet_def idle_def continuing_def)

lemma answer_maintains:
  "maintains (served U A) (\<lambda>S. finished_with operation remaining S \<and> receipt_of_case U A operation receipt remaining)
     (answer_request W U A operation receipt) (\<lambda>_. continuing receipt)"
  unfolding answer_request_def happens_def
proof (rule served.calm_then [OF quiet_session], goal_cases _ a)
  case (a x)
  show ?case
  proof (rule lift_then, rule update_then [where Q = "continuing receipt"], goal_cases)
    case S: (1 message S)
    then obtain tr c p where tr: "sr_trace S = tr @ [Started operation, Finished operation remaining c]" "all_passed tr"
      and r: "kept_in U A (sr_reservation S) (sr_seen S) (Replied operation receipt)" "passed receipt = Ret p" "p \<longrightarrow> remaining = []"
      by (auto simp: finished_with_def receipt_of_case_def)
    let ?T = "S\<lparr>sr_trace := sr_trace S @ [Replied operation receipt]\<rparr>"
    have "well_served (sr_trace ?T)" using r all_passed_append [OF tr(2)] by (cases p) (simp_all add: tr(1))
    moreover have "distinct (started (sr_trace S @ [Replied operation receipt]))" using S(2) by (simp add: served_def)
    ultimately have "served U A ?T" using served_happens [OF S(2) r(1)] by simp
    moreover have "continuing receipt ?T"
      using r all_passed_append [OF tr(2)] by (cases p) (simp_all add: continuing_def idle_def tr(1))
    ultimately show ?case by blast
  next
    case 2
    show ?case by (rule served.calm_last [OF quiet_call stable_continuing])
  qed
qed (intro stable_conj stable_traces stable_const)

lemma serve_case_maintains: "maintains (served U A) idle (serve_case fuel W U A) (\<lambda>go S. go \<longrightarrow> idle S)"
  unfolding serve_case_def
proof (rule served.finally_calm [OF _ quiet_disconnect], rule served.calm_then [OF quiet_receive stable_traces(1)], goal_cases)
  case (1 z)
  obtain request operation where z: "z = (request, operation)" by fastforce
  show ?case
    unfolding z prod.case
  proof (rule maintains_seq [OF run_maintains], rule maintains_ex, rule maintains_seq [OF answer_maintains], goal_cases)
    case (1 receipt remaining x)
    show ?case by (rule maintains_post [OF maintains_lift]) (auto simp: continuing_def)
  qed
qed (auto simp: stable_def quiet_def idle_def)

lemma serve_cases_maintains: "maintains (served U A) idle (serve_cases fuel W U A cases) (\<lambda>_ _. True)"
proof (induction cases)
  case Nil
  then show ?case by (simp add: maintains_def)
next
  case (Cons c rest)
  have "maintains (served U A) (\<lambda>S. go \<longrightarrow> idle S) (if go then serve_cases fuel W U A rest else lift (Ret ())) (\<lambda>_ _. True)" for go
    using Cons by (cases go) (simp_all add: maintains_def)
  then show ?case
    unfolding serve_cases.simps by (rule maintains_seq [OF serve_case_maintains])
qed

text \<open>The inputs are documents: the keys of their dictionaries are distinct.\<close>

definition wf_installation :: "installation \<Rightarrow> bool" where
  "wf_installation A \<longleftrightarrow> wf_val (PDict (it_envelope A)) \<and> wf_val (PDict (it_capacity A)) \<and> wf_val (it_profile A)"

lemma wf_key: "wf_val (PDict kvs) \<Longrightarrow> field kvs k = Ret v \<Longrightarrow> wf_val v"
  by (auto simp: field_eq_Ret list_all_iff dest!: map_of_SomeD)

lemma wf_path: "wf_val v \<Longrightarrow> at_path v names = Ret w \<Longrightarrow> wf_val w"
  unfolding at_path_def by (induction names arbitrary: v) (auto simp: bind_eq_Ret dest: wf_item)

lemma admission_binding_wf:
  assumes "admission_binding U e c profile = Ret b" "wf_val (PDict e)" "wf_val (PDict c)" "wf_val profile"
  shows "wf_val (PDict b)"
  using assms(1) unfolding admission_binding_def
  by (elim bind_RetE)
    (use assms(2-4) in \<open>auto simp: canonical_text_def bind_eq_Ret dest: wf_key [OF assms(2)] wf_key [OF assms(3)]
      wf_path [OF assms(4)]\<close>)

lemma open_maintains:
  assumes "wf_installation A"
  shows "maintains (served U A) (\<lambda>S. sr_trace S = []) (open_server W U A) (\<lambda>_ S. sr_trace S = [])"
proof -
  have st: "stable quiet (\<lambda>S. sr_trace S = [])" by (auto simp: stable_def quiet_def)
  have later: "maintains (served U A) (\<lambda>S. sr_trace S = []) m (\<lambda>_ S. sr_trace S = [])" if "along quiet m" for m :: "unit serving"
    by (rule served.calm_last [OF that st])
  show ?thesis
    unfolding open_server_def
  proof (rule served.calm_then [OF quiet_call st], rule lift_then, rule update_then [where Q = "\<lambda>S. sr_trace S = []"], goal_cases)
    case (1 x b S)
    then show ?case using admission_binding_wf [of U "it_envelope A" "it_capacity A" "it_profile A" b] assms
      by (simp add: served_def wf_installation_def)
  next
    case (2 x b)
    show ?case by (rule later) (intro quiet_parts quiet_record quiet_session quiet_update; simp)
  qed
qed

lemma served_new: "served U A (new_server st seen wall m)"
  by (simp add: served_def new_server_def)

lemma server_main_served:
  assumes "wf_installation A"
  shows "served U A (snd (server_main fuel W U A (new_server st seen wall m)))"
proof -
  let ?S = "new_server st seen wall m"
  note new = served_new [of U A st seen wall m]
  obtain r T where run: "open_server W U A ?S = (r, T)" by fastforce
  have exit: "snd (exit_status n V) = snd (n V)" for n V
    by (simp add: exit_status_def split: prod.split outcome.split)
  show ?thesis
  proof (cases r)
    case (Raise e)
    have "served U A T" using maintains_Raise [OF open_maintains [OF assms] new] run Raise by (simp add: new_server_def)
    then show ?thesis
      using run Raise served.along_keeps [OF quiet_close] by (simp add: server_main_def exit)
  next
    case (Ret x)
    have T: "served U A T" "sr_trace T = []"
      using maintains_Ret [OF open_maintains [OF assms] new] run Ret by (simp_all add: new_server_def)
    have "maintains (served U A) idle (exit_status (serve_cases fuel W U A CASES)) (\<lambda>_ _. True)"
      using serve_cases_maintains [of U A fuel W CASES]
      by (auto simp: maintains_def exit_status_def split: prod.splits outcome.splits if_splits)
    then have "maintains (served U A) idle (finally_do (exit_status (serve_cases fuel W U A CASES)) (close_server W)) (\<lambda>_ _. True)"
      by (rule served.finally_calm [OF _ quiet_close stable_const])
    then have "served U A (snd (finally_do (exit_status (serve_cases fuel W U A CASES)) (close_server W) T))"
      using maintains_start [where I = "served U A" and P = idle and S = T] T by (simp add: idle_def)
    then show ?thesis using run Ret by (simp add: server_main_def)
  qed
qed

section \<open>Rounds of a run\<close>

text \<open>C6: A run of the proxy server serves in rounds: an operation is recorded as running, recorded with the receipt of its
  cleanup, and only then answered.  Every round but the last has answered \<open>PASS\<close> with nothing left behind; a round that
  answered anything else, or did not come to its answer, ends the run, whatever happened outside.  No operation is
  started twice, each start and each finish stands in the history that the server has seen, and each answer is a
  validated receipt.\<close>

theorem server_rounds:
  "{S. wf_installation A \<and> S = snd (server_main fuel W U A (new_server st seen wall m))} \<subseteq>
   {S. well_served (sr_trace S) \<and> distinct (started (sr_trace S)) \<and>
     list_all (kept_in U A (sr_reservation S) (sr_seen S)) (sr_trace S)}"
  using server_main_served [of A U fuel W st seen wall m] by (auto simp: served_def simp del: kept_in.simps)

end
