(* ===== verification/ParityVectors.thy ===== *)
theory ParityVectors
  imports SchemaBase
begin

text \<open>
  \<open>parity/adapters/run_parity.py\<close>, which runs one vector against the adapter of its family, and
  \<open>parity/adapters/validate_registry.py\<close>, which checks the registry of provenance records and vectors and runs them all.

  \<open>checkout\<close> says how the repository is found: \<open>ck_root\<close> is its resolved path, \<open>ck_resolved\<close> the result of
  \<open>(root / str(fixture)).resolve()\<close>, \<open>ck_files\<close> the files.  Output that only informs is left out.
\<close>

section \<open>Adapters\<close>

definition closed_input :: "pyval \<Rightarrow> string list \<Rightarrow> items outcome" where
  "closed_input v names =
     (case v of
        PDict d \<Rightarrow> if set (map fst d) = set names then Ret d else refuse ''VECTOR_SHAPE_INVALID''
      | _ \<Rightarrow> refuse ''VECTOR_SHAPE_INVALID'')"

text \<open>\<open>text.startswith(prefix)\<close>, where either may be another value.\<close>

definition py_startswith :: "pyval \<Rightarrow> pyval \<Rightarrow> bool outcome" where
  "py_startswith v p =
     (case v of
        PStr s \<Rightarrow> (case p of PStr t \<Rightarrow> Ret (starts_with t s) | _ \<Rightarrow> Raise TypeError)
      | _ \<Rightarrow> Raise AttributeError)"

text \<open>\<open>closed(v, set(v), name)\<close>: any dictionary, but a set is built first.\<close>

definition attributes_of :: "pyval \<Rightarrow> items outcome" where
  "attributes_of v =
     bind (bind (iter_of v) py_set) (\<lambda>_.
       case v of PDict d \<Rightarrow> Ret d | _ \<Rightarrow> refuse ''VECTOR_SHAPE_INVALID'')"

definition neutral_key :: "items \<Rightarrow> string \<Rightarrow> bool outcome" where
  "neutral_key d key =
     and_also (Ret (starts_with ''mcp.integration.'' key))
       (py_not (bind (bind (field d ''forbiddenPrefixes'') iter_of) (any_out (py_startswith (PStr key)))))"

definition model_usage :: "pyval \<Rightarrow> items outcome" where
  "model_usage v =
     bind (closed_input v [''attributes'', ''forbiddenPrefixes'']) (\<lambda>d.
     bind (bind (field d ''attributes'') attributes_of) (\<lambda>attributes.
     bind (and_also (Ret (attributes \<noteq> [])) (all_out (neutral_key d) (map fst attributes))) (\<lambda>valid.
       Ret [(''tenantNeutral'', PBool valid)])))"

definition model_route :: "pyval \<Rightarrow> items outcome" where
  "model_route v =
     bind (closed_input v [''enforcement'', ''selectedRoute'']) (\<lambda>d.
     bind (and_also (bind (field d ''enforcement'') (\<lambda>x. Ret (x = PBool True)))
        (bind (field d ''selectedRoute'') (\<lambda>x. Ret (x = PNone)))) (\<lambda>refused.
       Ret [(''disposition'', PStr (if refused then ''REFUSED'' else ''ROUTED''))]))"

text \<open>\<open>a <= b\<close> on numbers, where truth values are numbers.\<close>

definition number_of :: "pyval \<Rightarrow> int outcome" where
  "number_of v =
     (case v of PInt n \<Rightarrow> Ret n | PBool b \<Rightarrow> Ret (if b then 1 else 0) | _ \<Rightarrow> Raise TypeError)"

definition upstream_retry :: "pyval \<Rightarrow> items outcome" where
  "upstream_retry v =
     bind (closed_input v [''attempts'', ''maximumAttempts'']) (\<lambda>d.
     bind (field d ''attempts'') (\<lambda>attempts.
     bind (case number_of attempts of
             Raise _ \<Rightarrow> Ret False
           | Ret a \<Rightarrow>
               and_also (Ret (0 \<le> a))
                 (bind (bind (field d ''maximumAttempts'') number_of) (\<lambda>m. Ret (a \<le> m \<and> m \<le> 8)))) (\<lambda>bounded.
       Ret [(''bounded'', PBool bounded)])))"

definition data_batch :: "pyval \<Rightarrow> items outcome" where
  "data_batch v =
     bind (closed_input v [''batchId'', ''lineage'', ''records'']) (\<lambda>d.
     bind (field d ''lineage'') (\<lambda>lineage.
     bind (and_also
        (Ret (case lineage of PDict l \<Rightarrow> set (map fst l) = {''sourceId'', ''watermark''} | _ \<Rightarrow> False))
        (bind (field d ''records'') (\<lambda>x. Ret (is_list x)))) (\<lambda>valid.
       Ret [(''valid'', PBool valid)])))"

definition connector_profile :: "pyval \<Rightarrow> items outcome" where
  "connector_profile v =
     bind (closed_input v [''connectorId'', ''discoveryMethod'', ''localOnly'']) (\<lambda>d.
     bind (and_also (field_is d ''discoveryMethod'' (PStr ''DECLARED_SCHEMA''))
        (bind (field d ''localOnly'') (\<lambda>x. Ret (x = PBool True)))) (\<lambda>valid.
       Ret [(''valid'', PBool valid)]))"

definition local_only :: "pyval \<Rightarrow> items outcome" where
  "local_only v =
     bind (closed_input v [''endpointKind'', ''onlineFallback'']) (\<lambda>d.
     bind (and_also (bind (field d ''endpointKind'') (\<lambda>x. py_startswith x (PStr ''LOCAL_'')))
        (bind (field d ''onlineFallback'') (\<lambda>x. Ret (x = PBool False)))) (\<lambda>valid.
       Ret [(''localOnly'', PBool valid)]))"

definition parity_handlers :: "(string \<times> (pyval \<Rightarrow> items outcome)) list" where
  "parity_handlers =
     [(''MODEL_USAGE'', model_usage), (''MODEL_ROUTE'', model_route), (''UPSTREAM_RETRY'', upstream_retry),
      (''DATA_BATCH'', data_batch), (''CONNECTOR_PROFILE'', connector_profile), (''LOCAL_ONLY'', local_only)]"

definition parity_handler :: "pyval \<Rightarrow> (pyval \<Rightarrow> items outcome) outcome" where
  "parity_handler family =
     (case family of
        PStr name \<Rightarrow> (case map_of parity_handlers name of None \<Rightarrow> refuse ''UNKNOWN_PARITY_FAMILY'' | Some h \<Rightarrow> Ret h)
      | _ \<Rightarrow> if hashable family then refuse ''UNKNOWN_PARITY_FAMILY'' else Raise TypeError)"

section \<open>One vector\<close>

definition UNTESTABLE :: pyval where
  "UNTESTABLE = PStr ''UNTESTABLE_NO_DESTINATION_TARGET''"

text \<open>Status, reason and what the adapter gave.\<close>

definition observe_vector :: "items \<Rightarrow> pyval \<Rightarrow> pyval \<Rightarrow> (string \<times> pyval \<times> items) outcome" where
  "observe_vector vector entry relation =
     (if py_eq relation UNTESTABLE then
        bind (item entry ''reason'') (\<lambda>reason. Ret (''WARN'', reason, [(''available'', PBool False)]))
      else
        bind (bind (field vector ''family'') parity_handler) (\<lambda>handler.
        bind (bind (field vector ''input'') handler) (\<lambda>actual.
        bind (field_is vector ''expected'' (PDict actual)) (\<lambda>same.
          Ret (if same then (''PASS'', PStr ''PARITY_EQUIVALENT'', actual)
               else (''FAIL'', PStr ''PARITY_MISMATCH'', actual))))))"

definition execute_vector :: "ucd \<Rightarrow> pyval \<Rightarrow> pyval \<Rightarrow> items outcome" where
  "execute_vector U vector entry =
     bind (closed_input vector [''vectorId'', ''family'', ''input'', ''expected'', ''exclusions'']) (\<lambda>d.
     bind (requires (and_also
        (bind (field d ''vectorId'') (\<lambda>a. bind (item entry ''vectorId'') (\<lambda>b. Ret (py_eq a b))))
        (bind (field d ''family'') (\<lambda>a. bind (item entry ''adapter'') (\<lambda>b. Ret (py_eq a b)))))
        ''VECTOR_BINDING_MISMATCH'') (\<lambda>_.
     bind (item entry ''expectedRelation'') (\<lambda>relation.
     bind (observe_vector d entry relation) (\<lambda>(status, reason, actual).
     bind (field d ''expected'') (\<lambda>expected.
     bind (canonical_digest U (PDict [(''actual'', PDict actual), (''expected'', expected)])
        (Some ''planeon.harness-parity-observation/v1alpha1'')) (\<lambda>digest.
     bind (item entry ''records'') (\<lambda>records.
     bind (field d ''vectorId'') (\<lambda>vector_id.
       Ret [(''observationDigest'', PStr digest), (''provenanceRecordIds'', records), (''reasonCode'', reason),
            (''relation'', relation), (''status'', PStr status), (''vectorId'', vector_id)]))))))))"

section \<open>The registry\<close>

record checkout =
  ck_root :: string
  ck_resolved :: "pyval \<Rightarrow> string outcome"
  ck_linked :: "string \<Rightarrow> bool outcome"
  ck_files :: filesystem

text \<open>\<open>root / name\<close>\<close>

definition below :: "string \<Rightarrow> string \<Rightarrow> string" where
  "below root name = (if is_absolute name then name else root @ ''/'' @ name)"

definition load_vector :: "ucd \<Rightarrow> checkout \<Rightarrow> pyval \<Rightarrow> pyval outcome" where
  "load_vector U K v =
     (case v of PStr name \<Rightarrow> load_json U (ck_files K) False (below (ck_root K) name) | _ \<Rightarrow> Raise TypeError)"

definition load_registry :: "ucd \<Rightarrow> checkout \<Rightarrow> pyval outcome" where
  "load_registry U K = load_json U (ck_files K) False (below (ck_root K) ''parity/registry.yaml'')"

text \<open>\<open>main\<close> of \<open>run_parity.py\<close>: the exit code, and what it writes to the standard output.\<close>

definition select_vectors :: "pyval \<Rightarrow> string \<Rightarrow> pyval list outcome" where
  "select_vectors registry vector_id =
     bind (bind (item registry ''vectors'') iter_of) (\<lambda>xs.
     bind (map_out (\<lambda>x. bind (item_is x ''vectorId'' (PStr vector_id)) (\<lambda>b. Ret (if b then [x] else []))) xs) (\<lambda>yss.
       Ret (concat yss)))"

definition parity_main :: "ucd \<Rightarrow> checkout \<Rightarrow> string list \<Rightarrow> (int \<times> bytes) outcome" where
  "parity_main U K argv =
     (case argv of
        [vector_id] \<Rightarrow>
          bind (load_registry U K) (\<lambda>registry.
          bind (select_vectors registry vector_id) (\<lambda>matches.
          (case matches of
             [entry] \<Rightarrow>
               bind (bind (item entry ''fixture'') (load_vector U K)) (\<lambda>vector.
               (case execute_vector U vector entry of
                  Raise (ConformanceError _) \<Rightarrow> Ret (2, [])
                | Raise e \<Rightarrow> Raise e
                | Ret result \<Rightarrow>
                    bind (canonical_bytes U (PDict result)) (\<lambda>out.
                    bind (field_in result ''status'' [''PASS'', ''WARN'']) (\<lambda>good.
                      Ret (if good then 0 else 1, out @ [CHR 0x0A])))))
           | _ \<Rightarrow> Ret (2, []))))
      | _ \<Rightarrow> Ret (2, []))"

definition EXPECTED_OBJECTS :: "(string \<times> string) list" where
  "EXPECTED_OBJECTS =
     [(''model-usage-contract'', ''c3ac327e2989ffbbc2452209e2a32f76be911534''),
      (''model-routing-policy'', ''68340eccbe4f7784f80788967add702995d0424b''),
      (''model-request-identity'', ''657b26d35244cc28fe2ce4339af3f67082d76b29''),
      (''model-upstream-resilience'', ''c110ed4d990736b2dc126b3c218333ab7cb16899''),
      (''data-white-goods-pack'', ''b18e6d7099220d1b6a2e6797097400a9b3e4e510''),
      (''data-batch-schema'', ''aaf77198b1ef680d1f6fa8deaaca1d198f1796a8''),
      (''data-connector-profile'', ''224728dadb9c9829494c4db04fd9c90833c7bc30''),
      (''data-contract-tests'', ''4e197257af4b372e4e9d949d7b6a23d3cbfed51f''),
      (''data-local-only-tests'', ''988ed77cce9beaea8c6c5c0c15fbee2e4b02ce61'')]"

definition RECORD_FIELDS :: "string list" where
  "RECORD_FIELDS = [''recordId'', ''repository'', ''commit'', ''path'', ''gitObject'', ''recordType'', ''reuseDisposition'']"

definition VECTOR_FIELDS :: "string list" where
  "VECTOR_FIELDS = [''vectorId'', ''records'', ''fixture'', ''adapter'', ''expectedRelation'', ''reason'']"

definition FORBIDDEN_FIELDS :: "string list" where
  "FORBIDDEN_FIELDS =
     [''content'', ''bytes'', ''copyAuthorization'', ''sourceDigest'', ''sourceOutput'', ''command'', ''url'', ''credential'']"

definition REGISTRY_FIELDS :: "string list" where
  "REGISTRY_FIELDS = [''schemaVersion'', ''provenanceAuthority'', ''records'', ''vectors'', ''exclusions'']"

definition PARITY_EXCLUSIONS :: "string list" where
  "PARITY_EXCLUSIONS =
     [''CLOUD_API'', ''BILLING_API'', ''THIRD_PARTY_KEY'', ''PUBLIC_NETWORK'', ''SOURCE_EXECUTION'', ''MUTATION'']"

definition PROVENANCE_AUTHORITY :: pyval where
  "PROVENANCE_AUTHORITY =
     PDict [(''commit'', PStr ''95d14248d6bfcfbcbec48a7372d7f2d3bfb19ce6''),
       (''reuseMapSha256'', PStr ''77a7a1613cd7584ed692d8ca8db64e0142ec536d9fa9654da3cd3867075589b8''),
       (''reusePathIndexSha256'', PStr ''5e6843e56b0e4f884400848277c8c3a14b8d0c1d21bf66933a0f5bf0a712c283'')]"

text \<open>\<open>set(value) == {names}\<close>\<close>

definition set_equals :: "pyval \<Rightarrow> string list \<Rightarrow> bool outcome" where
  "set_equals v names = bind (bind (iter_of v) py_set) (\<lambda>xs. Ret (set xs = set (map PStr names)))"

text \<open>\<open>str(value)\<close> of a hashable value; byte strings do not come from JSON.\<close>

definition str_of :: "pyval \<Rightarrow> string" where
  "str_of v =
     (case v of
        PStr s \<Rightarrow> s
      | PInt n \<Rightarrow> show_int n
      | PBool b \<Rightarrow> if b then ''True'' else ''False''
      | PNone \<Rightarrow> ''None''
      | _ \<Rightarrow> [])"

text \<open>\<open>value in d\<close>, where the members of \<open>d\<close> are strings.\<close>

definition hashed_in :: "pyval \<Rightarrow> string list \<Rightarrow> bool outcome" where
  "hashed_in v d = (if hashable v then Ret (str_in v d) else Raise TypeError)"

definition closed_entry :: "pyval \<Rightarrow> string list \<Rightarrow> string \<Rightarrow> items outcome" where
  "closed_entry v names reason =
     (case v of
        PDict d \<Rightarrow>
          if set (map fst d) = set names \<and> set (map fst d) \<inter> set FORBIDDEN_FIELDS = {} then Ret d else refuse reason
      | _ \<Rightarrow> refuse reason)"

definition triple_of :: "items \<Rightarrow> pyval outcome" where
  "triple_of d =
     bind (field d ''repository'') (\<lambda>a. bind (field d ''commit'') (\<lambda>b. bind (field d ''path'') (\<lambda>c.
       if list_all hashable [a, b, c] then Ret (PList [a, b, c]) else Raise TypeError)))"

text \<open>The identifiers and the triples of the records so far.\<close>

type_synonym provenance = "string list \<times> pyval list"

definition register_record :: "provenance \<Rightarrow> pyval \<Rightarrow> provenance outcome" where
  "register_record acc v =
     (case acc of (by_id, triples) \<Rightarrow>
        bind (closed_entry v RECORD_FIELDS ''PROVENANCE_RECORD_SHAPE'') (\<lambda>d.
        bind (field d ''recordId'') (\<lambda>record_id.
        bind (hashed_in record_id by_id) (\<lambda>known.
        bind (require (\<not> known \<and>
           py_eq (get_default d ''gitObject'' PNone)
             (case record_id of PStr s \<Rightarrow> (case map_of EXPECTED_OBJECTS s of None \<Rightarrow> PNone | Some g \<Rightarrow> PStr g) | _ \<Rightarrow> PNone))
           ''PROVENANCE_OBJECT_MISMATCH'') (\<lambda>_.
        bind (triple_of d) (\<lambda>triple.
        bind (requires (and_also (Ret (\<not> py_in triple triples))
           (and_also (field_is d ''recordType'' (PStr ''BLOB_PENDING''))
              (field_is d ''reuseDisposition'' (PStr ''REFERENCE_ONLY_PENDING_PATH_REVIEW''))))
           ''PROVENANCE_DISPOSITION_INVALID'') (\<lambda>_.
          Ret (str_of record_id # by_id, triple # triples))))))))"

definition RELATIONS :: "string list" where
  "RELATIONS = [''EXACT'', ''INTENTIONAL_DIVERGENCE'', ''UNTESTABLE_NO_DESTINATION_TARGET'']"

definition vector_bound :: "string list \<Rightarrow> string list \<Rightarrow> items \<Rightarrow> bool outcome" where
  "vector_bound by_id seen d =
     bind (field d ''vectorId'') (\<lambda>vector_id.
     bind (field d ''records'') (\<lambda>records.
       and_also (py_not (hashed_in vector_id seen)) (and_also (Ret (truthy records))
         (py_not (bind (iter_of records) (any_out (\<lambda>r. py_not (hashed_in r by_id))))))))"

definition fixture_of :: "checkout \<Rightarrow> items \<Rightarrow> string outcome" where
  "fixture_of K d =
     bind (bind (field d ''fixture'') (ck_resolved K)) (\<lambda>path.
     bind (requires (and_also
        (Ret (let root = path_parts (ck_root K); parts = path_parts path in
           length root < length parts \<and> take (length root) parts = root))
        (py_not (ck_linked K path))) ''PARITY_FIXTURE_PATH'') (\<lambda>_. Ret path))"

text \<open>The vectors seen so far, and the results.\<close>

definition check_vector ::
  "ucd \<Rightarrow> checkout \<Rightarrow> string list \<Rightarrow> string list \<times> items list \<Rightarrow> pyval \<Rightarrow> (string list \<times> items list) outcome" where
  "check_vector U K by_id acc entry =
     (case acc of (seen, results) \<Rightarrow>
        bind (closed_entry entry VECTOR_FIELDS ''PARITY_VECTOR_SHAPE'') (\<lambda>d.
        bind (requires (vector_bound by_id seen d) ''PARITY_VECTOR_BINDING'') (\<lambda>_.
        bind (field d ''vectorId'') (\<lambda>vector_id.
        bind (requires (and_also (bind (field d ''expectedRelation'') (\<lambda>r. hashed_in r RELATIONS))
           (bind (field d ''reason'') (\<lambda>r. Ret (truthy r)))) ''PARITY_RELATION_INVALID'') (\<lambda>_.
        bind (fixture_of K d) (\<lambda>path.
        bind (load_json U (ck_files K) False path) (\<lambda>vector.
        bind (execute_vector U vector entry) (\<lambda>first.
        bind (execute_vector U vector entry) (\<lambda>second.
        bind (requires (bind (canonical_bytes U (PDict first)) (\<lambda>a.
           bind (canonical_bytes U (PDict second)) (\<lambda>b. Ret (a = b)))) ''PARITY_NONDETERMINISTIC'') (\<lambda>_.
        bind (requires (py_not (and_also (field_is d ''expectedRelation'' (PStr ''EXACT''))
           (py_not (field_is first ''status'' (PStr ''PASS''))))) ''EXACT_PARITY_FAILED'') (\<lambda>_.
        bind (requires (py_not (and_also (field_is d ''expectedRelation'' UNTESTABLE)
           (py_not (field_is first ''status'' (PStr ''WARN''))))) ''UNTESTABLE_FALSE_PASS'') (\<lambda>_.
          Ret (str_of vector_id # seen, results @ [first])))))))))))))"

text \<open>The checks before the loops, and the records.\<close>

definition registry_head :: "pyval \<Rightarrow> unit outcome" where
  "registry_head registry =
     bind (requires (set_equals registry REGISTRY_FIELDS) ''REGISTRY_SHAPE_INVALID'') (\<lambda>_.
     bind (requires (item_is registry ''schemaVersion'' (PStr ''harness.planeon.ai/warm-parity-registry/v1alpha1''))
        ''REGISTRY_SCHEMA_INVALID'') (\<lambda>_.
     bind (requires (item_is registry ''provenanceAuthority'' PROVENANCE_AUTHORITY) ''PROVENANCE_AUTHORITY_MISMATCH'') (\<lambda>_.
       requires (bind (item registry ''exclusions'') (\<lambda>x. set_equals x PARITY_EXCLUSIONS)) ''PARITY_EXCLUSIONS_INVALID'')))"

definition registry_records :: "pyval \<Rightarrow> string list outcome" where
  "registry_records registry =
     bind (item registry ''records'') (\<lambda>v.
     (case v of
        PList records \<Rightarrow>
          bind (require (length records = length EXPECTED_OBJECTS) ''PROVENANCE_RECORD_COUNT'') (\<lambda>_.
          bind (fold_out register_record ([], []) records) (\<lambda>(by_id, _). Ret by_id))
      | _ \<Rightarrow> refuse ''PROVENANCE_RECORD_COUNT''))"

definition validate_registry :: "ucd \<Rightarrow> checkout \<Rightarrow> items list outcome" where
  "validate_registry U K =
     bind (load_registry U K) (\<lambda>registry.
     bind (registry_head registry) (\<lambda>_.
     bind (registry_records registry) (\<lambda>by_id.
     bind (item registry ''vectors'') (\<lambda>v.
     (case v of
        PList vectors \<Rightarrow>
          bind (require (vectors \<noteq> []) ''PARITY_VECTOR_COUNT'') (\<lambda>_.
          bind (fold_out (check_vector U K by_id) ([], []) vectors) (\<lambda>(_, results). Ret results))
      | _ \<Rightarrow> refuse ''PARITY_VECTOR_COUNT'')))))"

text \<open>\<open>main\<close> of \<open>validate_registry.py\<close>: the exit code, with the counts that it prints.\<close>

definition registry_main :: "ucd \<Rightarrow> checkout \<Rightarrow> (int \<times> nat list) outcome" where
  "registry_main U K =
     (case validate_registry U K of
        Raise (ConformanceError _) \<Rightarrow> Ret (2, [])
      | Raise e \<Rightarrow> Raise e
      | Ret results \<Rightarrow>
          bind (map_out (\<lambda>r. field_is r ''status'' (PStr ''PASS'')) results) (\<lambda>exact.
          bind (map_out (\<lambda>r. field_is r ''status'' (PStr ''WARN'')) results) (\<lambda>untestable.
            Ret (0, [length EXPECTED_OBJECTS, length results, length (filter id exact), length (filter id untestable)]))))"

end
