(* ===== verification/ParityLaws.thy ===== *)
theory ParityLaws
  imports ParityVectors
begin

text \<open>
  What an accepted registry shows: a status is what the relation and the adapter give.  Then a record that the registry
  accepts although its identifier is unknown.
\<close>

section \<open>One vector\<close>

text \<open>A \<open>PASS\<close> is an adapter's answer that equals the expected one.\<close>

definition agrees :: "items \<Rightarrow> bool" where
  "agrees vector \<longleftrightarrow>
     (\<exists>handler actual expected. bind (field vector ''family'') parity_handler = Ret handler \<and>
        bind (field vector ''input'') handler = Ret actual \<and> field vector ''expected'' = Ret expected \<and>
        py_eq expected (PDict actual))"

fun status_justified :: "items \<Rightarrow> pyval \<Rightarrow> string \<Rightarrow> bool" where
  "status_justified vector relation status \<longleftrightarrow>
     (relation = UNTESTABLE \<and> status = ''WARN'') \<or>
     (relation \<noteq> UNTESTABLE \<and> agrees vector \<and> status = ''PASS'') \<or>
     (relation \<noteq> UNTESTABLE \<and> relation \<noteq> PStr ''EXACT'' \<and> status = ''FAIL'')"

lemma observe_vector_status:
  assumes "observe_vector vector entry relation = Ret (status, reason, actual)"
  shows "(relation = UNTESTABLE \<and> status = ''WARN'') \<or> (relation \<noteq> UNTESTABLE \<and> agrees vector \<and> status = ''PASS'') \<or>
    (relation \<noteq> UNTESTABLE \<and> status = ''FAIL'')"
  using assms unfolding observe_vector_def agrees_def field_is_def UNTESTABLE_def
  by (auto simp: bind_eq_Ret split: if_splits)

lemma execute_vector_Ret:
  assumes "execute_vector U vector entry = Ret r"
  obtains d status relation where "vector = PDict d" "item entry ''expectedRelation'' = Ret relation"
    "map_of r ''status'' = Some (PStr status)" "map_of r ''relation'' = Some relation"
    "(relation = UNTESTABLE \<and> status = ''WARN'') \<or> (relation \<noteq> UNTESTABLE \<and> agrees d \<and> status = ''PASS'') \<or>
      (relation \<noteq> UNTESTABLE \<and> status = ''FAIL'')"
    "map_of r ''provenanceRecordIds'' = map_option id (case item entry ''records'' of Ret x \<Rightarrow> Some x | _ \<Rightarrow> None)"
proof -
  obtain d relation z expected digest records vector_id where v: "vector = PDict d"
      "item entry ''expectedRelation'' = Ret relation" "observe_vector d entry relation = Ret z"
      "item entry ''records'' = Ret records"
    and r: "r = (case z of (status, reason, actual) \<Rightarrow>
      [(''observationDigest'', PStr digest), (''provenanceRecordIds'', records), (''reasonCode'', reason),
       (''relation'', relation), (''status'', PStr status), (''vectorId'', vector_id)])"
    using assms unfolding execute_vector_def
    by (elim bind_RetE) (auto simp: closed_input_def refuse_def bind_eq_Ret split: pyval.splits if_splits)
  obtain status reason actual where z: "z = (status, reason, actual)" by (cases z)
  show thesis by (rule that [OF v(1,2)]) (use v r z observe_vector_status [of d entry relation status reason actual] in simp_all)
qed

section \<open>The registry\<close>

definition honest_result :: "ucd \<Rightarrow> checkout \<Rightarrow> string list \<Rightarrow> pyval \<Rightarrow> items \<Rightarrow> bool" where
  "honest_result U K by_id entry r \<longleftrightarrow>
     (\<exists>path d relation status records names.
        load_json U (ck_files K) False path = Ret (PDict d) \<and>
        take (length (path_parts (ck_root K))) (path_parts path) = path_parts (ck_root K) \<and>
        item entry ''expectedRelation'' = Ret relation \<and> map_of r ''relation'' = Some relation \<and>
        map_of r ''status'' = Some (PStr status) \<and> status_justified d relation status \<and>
        item entry ''records'' = Ret records \<and> map_of r ''provenanceRecordIds'' = Some records \<and>
        iter_of records = Ret (map PStr names) \<and> names \<noteq> [] \<and> set names \<subseteq> set by_id)"

lemma vector_bound_True:
  assumes "vector_bound by_id seen d = Ret True"
  obtains records names where "map_of d ''records'' = Some records" "iter_of records = Ret (map PStr names)" "truthy records"
    "set names \<subseteq> set by_id"
proof -
  obtain vector_id records where r: "map_of d ''records'' = Some records" and m:
      "and_also (py_not (hashed_in vector_id seen)) (and_also (Ret (truthy records))
         (py_not (bind (iter_of records) (any_out (\<lambda>r. py_not (hashed_in r by_id)))))) = Ret True"
    using assms unfolding vector_bound_def by (auto simp: bind_eq_Ret field_eq_Ret)
  then have "truthy records" and i: "bind (iter_of records) (any_out (\<lambda>r. py_not (hashed_in r by_id))) = Ret False"
    by (auto simp: and_also_True py_not_eq_Ret split: if_splits)
  from i obtain xs where x: "iter_of records = Ret xs" "any_out (\<lambda>r. py_not (hashed_in r by_id)) xs = Ret False"
    by (auto simp: bind_eq_Ret)
  from x(2) have xs: "list_all (\<lambda>r. hashed_in r by_id = Ret True) xs"
    by (auto simp: any_out_False py_not_eq_Ret list_all_iff)
  have "\<exists>names. xs = map PStr names \<and> set names \<subseteq> set by_id"
    using xs
  proof (induction xs)
    case (Cons x xs)
    then obtain names where "xs = map PStr names" "set names \<subseteq> set by_id" by auto
    moreover obtain s where "x = PStr s" "s \<in> set by_id" using Cons.prems by (auto simp: hashed_in_def split: if_splits)
    ultimately show ?case by (intro exI [of _ "s # names"]) simp
  qed simp
  then show thesis using that r x(1) \<open>truthy records\<close> by blast
qed

lemma truthy_iter: "truthy records \<Longrightarrow> iter_of records = Ret (map PStr names) \<Longrightarrow> names \<noteq> []"
  by (cases records) (auto simp: iter_of_def neq_Nil_conv)

lemma fixture_of_Ret:
  "fixture_of K d = Ret path \<Longrightarrow> take (length (path_parts (ck_root K))) (path_parts path) = path_parts (ck_root K)"
  unfolding fixture_of_def by (elim bind_RetE requires_bindE) (simp add: Let_def requires_eq_Ret split: if_splits)

lemma check_vector_Ret:
  assumes "check_vector U K by_id (seen, results) entry = Ret acc"
  shows "\<exists>r seen'. acc = (seen', results @ [r]) \<and> honest_result U K by_id entry r"
proof -
  obtain d path vector r vector_id where d: "closed_entry entry VECTOR_FIELDS ''PARITY_VECTOR_SHAPE'' = Ret d"
    and bound: "vector_bound by_id seen d = Ret True" and path: "fixture_of K d = Ret path"
    and vector: "load_json U (ck_files K) False path = Ret vector" and run: "execute_vector U vector entry = Ret r"
    and exact: "py_not (and_also (field_is d ''expectedRelation'' (PStr ''EXACT''))
           (py_not (field_is r ''status'' (PStr ''PASS'')))) = Ret True"
    and acc: "acc = (str_of vector_id # seen, results @ [r])"
    using assms unfolding check_vector_def prod.case by (elim bind_RetE requires_bindE) (auto simp: requires_eq_Ret)
  have entry: "entry = PDict d" using d by (auto simp: closed_entry_def refuse_def split: pyval.splits if_splits)
  obtain e status relation where e: "vector = PDict e" "item entry ''expectedRelation'' = Ret relation"
    "map_of r ''status'' = Some (PStr status)" "map_of r ''relation'' = Some relation"
    "(relation = UNTESTABLE \<and> status = ''WARN'') \<or> (relation \<noteq> UNTESTABLE \<and> agrees e \<and> status = ''PASS'') \<or>
      (relation \<noteq> UNTESTABLE \<and> status = ''FAIL'')"
    "map_of r ''provenanceRecordIds'' = map_option id (case item entry ''records'' of Ret x \<Rightarrow> Some x | _ \<Rightarrow> None)"
    by (rule execute_vector_Ret [OF run])
  obtain records names where n: "map_of d ''records'' = Some records" "iter_of records = Ret (map PStr names)" "truthy records"
    "set names \<subseteq> set by_id"
    by (rule vector_bound_True [OF bound])
  have rel: "map_of d ''expectedRelation'' = Some relation"
    using e(2) by (simp add: entry item_def split: option.splits)
  then have "relation = PStr ''EXACT'' \<Longrightarrow> status = ''PASS''"
    using exact e(3) by (simp add: field_is_def field_def split: if_splits)
  then have "status_justified e relation status" using e(5) by auto
  moreover have "names \<noteq> []" by (rule truthy_iter [OF n(3,2)])
  moreover have "item entry ''records'' = Ret records" using n(1) by (simp add: entry item_def)
  ultimately have "honest_result U K by_id entry r"
    using vector fixture_of_Ret [OF path] e n unfolding honest_result_def by (simp del: status_justified.simps) blast
  then show ?thesis using acc by blast
qed

lemma check_vectors_Ret:
  assumes "fold_out (check_vector U K by_id) (seen, results) vectors = Ret (seen', results')"
  shows "\<exists>rs. results' = results @ rs \<and> list_all2 (honest_result U K by_id) vectors rs"
  using assms
proof (induction vectors arbitrary: seen results)
  case Nil
  then show ?case by simp
next
  case (Cons entry vectors)
  then obtain acc where acc: "check_vector U K by_id (seen, results) entry = Ret acc"
    "fold_out (check_vector U K by_id) acc vectors = Ret (seen', results')"
    by (auto simp: bind_eq_Ret)
  then obtain r s where r: "acc = (s, results @ [r])" "honest_result U K by_id entry r"
    using check_vector_Ret by blast
  then obtain rs where "results' = (results @ [r]) @ rs" "list_all2 (honest_result U K by_id) vectors rs"
    using Cons.IH acc(2) by blast
  then show ?case using r(2) by (intro exI [of _ "r # rs"]) simp
qed

text \<open>C22: An accepted registry has one result for each of its vectors, in their order.  Each result comes from a fixture
  inside the checkout and rests on registered records; it says \<open>WARN\<close> exactly where no target exists, \<open>PASS\<close> only where
  the adapter of the family gives the expected answer, and never \<open>FAIL\<close> where the relation is \<open>EXACT\<close>.\<close>

theorem parity_honest:
  "{results. validate_registry U K = Ret results} \<subseteq>
   {results. \<exists>registry vectors by_id. load_registry U K = Ret registry \<and> item registry ''vectors'' = Ret (PList vectors) \<and>
     registry_records registry = Ret by_id \<and> vectors \<noteq> [] \<and> list_all2 (honest_result U K by_id) vectors results}"
proof clarify
  fix results
  assume "validate_registry U K = Ret results"
  then obtain registry by_id v where v: "load_registry U K = Ret registry" "registry_records registry = Ret by_id"
      "item registry ''vectors'' = Ret v"
    and loop: "(case v of
        PList vectors \<Rightarrow>
          bind (require (vectors \<noteq> []) ''PARITY_VECTOR_COUNT'') (\<lambda>_.
          bind (fold_out (check_vector U K by_id) ([], []) vectors) (\<lambda>(_, results). Ret results))
      | _ \<Rightarrow> refuse ''PARITY_VECTOR_COUNT'') = Ret results"
    unfolding validate_registry_def by (elim bind_RetE) blast
  then obtain vectors where "v = PList vectors" by (cases v) simp_all
  with loop obtain seen where "vectors \<noteq> []" "fold_out (check_vector U K by_id) ([], []) vectors = Ret (seen, results)"
    by (auto simp: bind_eq_Ret)
  then show "\<exists>registry vectors by_id. load_registry U K = Ret registry \<and> item registry ''vectors'' = Ret (PList vectors) \<and>
     registry_records registry = Ret by_id \<and> vectors \<noteq> [] \<and> list_all2 (honest_result U K by_id) vectors results"
    using check_vectors_Ret [of U K by_id "[]" "[]" vectors seen results] v \<open>v = PList vectors\<close> by auto
qed

section \<open>Unknown records\<close>

text \<open>The object of an unknown identifier is \<open>None\<close>, so that a record without an object is accepted under it.\<close>

lemma unknown_record_accepted:
  "register_record ([], [])
     (PDict [(''recordId'', PStr ''unknown''), (''repository'', PStr ''r''), (''commit'', PStr ''c''), (''path'', PStr ''p''),
       (''gitObject'', PNone), (''recordType'', PStr ''BLOB_PENDING''),
       (''reuseDisposition'', PStr ''REFERENCE_ONLY_PENDING_PATH_REVIEW'')])
   = Ret ([''unknown''], [PList [PStr ''r'', PStr ''c'', PStr ''p'']])"
  by code_simp

end
