(* ===== verification/PlainJson.thy ===== *)
theory PlainJson
  imports Json
begin

text \<open>
  What the scripts under \<open>ci\<close> use of Python's text and \<open>json.loads\<close>, which unlike the reader of \<open>canonical.py\<close> admit
  floating-point numbers and constants, and duplicate members unless a hook refuses them.

  A floating-point number becomes \<open>0\<close> when it is zero, which Python takes to equal \<open>False\<close>, and a byte string otherwise: the scripts
  compare values with texts and truth values only, and ask whether a value is a text, a list or a dictionary.
\<close>

section \<open>Text\<close>

text \<open>The code points that end a line for \<open>splitlines\<close>, and those that \<open>strip\<close> takes away.\<close>

definition LINE_BREAKS :: "string list" where
  "LINE_BREAKS =
     [[CHR 0x0A], [CHR 0x0D], [CHR 0x0B], [CHR 0x0C], [CHR 0x1C], [CHR 0x1D], [CHR 0x1E], [CHR 0xC2, CHR 0x85],
      [CHR 0xE2, CHR 0x80, CHR 0xA8], [CHR 0xE2, CHR 0x80, CHR 0xA9]]"

definition SPACES :: "string list" where
  "SPACES =
     LINE_BREAKS @ [[CHR 0x09], [CHR 0x1F], [CHR 0x20], [CHR 0xC2, CHR 0xA0], [CHR 0xE1, CHR 0x9A, CHR 0x80],
      [CHR 0xE2, CHR 0x80, CHR 0x80], [CHR 0xE2, CHR 0x80, CHR 0x81], [CHR 0xE2, CHR 0x80, CHR 0x82], [CHR 0xE2, CHR 0x80, CHR 0x83],
      [CHR 0xE2, CHR 0x80, CHR 0x84], [CHR 0xE2, CHR 0x80, CHR 0x85], [CHR 0xE2, CHR 0x80, CHR 0x86], [CHR 0xE2, CHR 0x80, CHR 0x87],
      [CHR 0xE2, CHR 0x80, CHR 0x88], [CHR 0xE2, CHR 0x80, CHR 0x89], [CHR 0xE2, CHR 0x80, CHR 0x8A], [CHR 0xE2, CHR 0x80, CHR 0xAF],
      [CHR 0xE2, CHR 0x81, CHR 0x9F], [CHR 0xE3, CHR 0x80, CHR 0x80]]"

fun lines_from :: "string \<Rightarrow> string list \<Rightarrow> string list" where
  "lines_from line [] = (if line = [] then [] else [line])"
| "lines_from line (c # cs) =
     (if c \<notin> set LINE_BREAKS then lines_from (line @ c) cs
      else line # lines_from [] (if c = [CHR 0x0D] \<and> take 1 cs = [[CHR 0x0A]] then drop 1 cs else cs))"

definition splitlines :: "string \<Rightarrow> string list" where
  "splitlines s = lines_from [] (chars s)"

definition strip :: "string \<Rightarrow> string" where
  "strip s =
     concat (rev (dropWhile (\<lambda>c. c \<in> set SPACES) (rev (dropWhile (\<lambda>c. c \<in> set SPACES) (chars s)))))"

text \<open>Reading in text mode turns every end of line into a line feed.\<close>

fun universal_newlines :: "string \<Rightarrow> string" where
  "universal_newlines [] = []"
| "universal_newlines (c # s) =
     (if c = CHR 0x0D then CHR 0x0A # universal_newlines (if take 1 s = [CHR 0x0A] then drop 1 s else s)
      else c # universal_newlines s)"

text \<open>
  \<open>casefold\<close> where its result is ASCII: besides the letters these are the long and sharp s, the ligatures of f and s, and the
  Kelvin sign.  Other code points stay as they are, which no comparison with an ASCII word can tell from their folding.
\<close>

definition FOLDINGS :: "(string \<times> string) list" where
  "FOLDINGS =
     [([CHR 0xC5, CHR 0xBF], ''s''), ([CHR 0xC3, CHR 0x9F], ''ss''), ([CHR 0xE1, CHR 0xBA, CHR 0x9E], ''ss''),
      ([CHR 0xE2, CHR 0x84, CHR 0xAA], ''k''), ([CHR 0xEF, CHR 0xAC, CHR 0x80], ''ff''), ([CHR 0xEF, CHR 0xAC, CHR 0x81], ''fi''),
      ([CHR 0xEF, CHR 0xAC, CHR 0x82], ''fl''), ([CHR 0xEF, CHR 0xAC, CHR 0x83], ''ffi''), ([CHR 0xEF, CHR 0xAC, CHR 0x84], ''ffl''),
      ([CHR 0xEF, CHR 0xAC, CHR 0x85], ''st''), ([CHR 0xEF, CHR 0xAC, CHR 0x86], ''st'')]"

definition casefold :: "string \<Rightarrow> string" where
  "casefold s =
     concat (map (\<lambda>p. case map_of FOLDINGS p of Some t \<Rightarrow> t | None \<Rightarrow> map lower_char p) (chars s))"

section \<open>Numbers\<close>

definition scan_fraction :: "string \<Rightarrow> string \<times> string" where
  "scan_fraction s =
     (if take 1 s = ''.'' \<and> takeWhile digit (drop 1 s) \<noteq> [] then (takeWhile digit (drop 1 s), dropWhile digit (drop 1 s))
      else ([], s))"

definition scan_exponent :: "string \<Rightarrow> int \<times> string" where
  "scan_exponent s =
     (let t = drop 1 s; neg = (take 1 t = ''-''); u = (if take 1 t = ''-'' \<or> take 1 t = ''+'' then drop 1 t else t);
          ds = takeWhile digit u
      in if (take 1 s = ''e'' \<or> take 1 s = ''E'') \<and> ds \<noteq> []
         then (if neg then - int (digits_value ds) else int (digits_value ds), drop (length ds) u) else (0, s))"

text \<open>Up to half of the least positive double, a decimal is rounded to zero.\<close>

definition rounds_to_zero :: "nat \<Rightarrow> int \<Rightarrow> bool" where
  "rounds_to_zero m e \<longleftrightarrow> m = 0 \<or> (e < 0 \<and> m * 2 ^ 1075 \<le> 10 ^ nat (- e))"

definition plain_number :: "string \<Rightarrow> (pyval \<times> string) outcome" where
  "plain_number s =
     (let neg = (take 1 s = ''-''); t = (if neg then drop 1 s else s);
          ds = lead_digits t; rest = drop (length ds) t; (fraction, more) = scan_fraction rest; (e, left) = scan_exponent more
      in if ds = [] then Raise JSONDecodeError
         else if float_tail rest then
           Ret (if rounds_to_zero (digits_value (ds @ fraction)) (e - int (length fraction)) then PInt 0
                else PBytes (take (length s - length left) s), left)
         else if 4300 < length ds then Raise ValueError
         else Ret (PInt (if neg then - int (digits_value ds) else int (digits_value ds)), rest))"

definition plain_atom :: "string \<Rightarrow> (pyval \<times> string) outcome" where
  "plain_atom s =
     (if take 4 s = ''null'' then Ret (PNone, drop 4 s)
      else if take 4 s = ''true'' then Ret (PBool True, drop 4 s)
      else if take 5 s = ''false'' then Ret (PBool False, drop 5 s)
      else if take 3 s = ''NaN'' then Ret (PBytes ''NaN'', drop 3 s)
      else if take 8 s = ''Infinity'' then Ret (PBytes ''Infinity'', drop 8 s)
      else if take 9 s = ''-Infinity'' then Ret (PBytes ''-Infinity'', drop 9 s)
      else plain_number s)"

section \<open>\<open>json.loads\<close>\<close>

text \<open>The hook gets the members of each object in their order; without one, the last of two members with one name stays.\<close>

type_synonym pairs_hook = "items \<Rightarrow> items outcome"

definition last_member :: pairs_hook where
  "last_member kvs = Ret (foldl (\<lambda>d (k, v). dict_set d k v) [] kvs)"

fun plain_value :: "pairs_hook \<Rightarrow> nat \<Rightarrow> string \<Rightarrow> (pyval \<times> string) outcome"
  and plain_elems :: "pairs_hook \<Rightarrow> nat \<Rightarrow> string \<Rightarrow> (pyval list \<times> string) outcome"
  and plain_members :: "pairs_hook \<Rightarrow> nat \<Rightarrow> string \<Rightarrow> (items \<times> string) outcome" where
  "plain_value hook 0 s = Raise OutOfFuel"
| "plain_value hook (Suc n) s =
     (if s = [] then Raise JSONDecodeError
      else if take 1 s = [CHR 0x22] then
        (case scan_string (drop 1 s) of None \<Rightarrow> Raise JSONDecodeError | Some (r, z) \<Rightarrow> Ret (PStr r, z))
      else if take 1 s = [CHR 0x7B] then
        (let t = skip_ws (drop 1 s) in
         bind (if take 1 t = [CHR 0x7D] then Ret ([], drop 1 t) else plain_members hook n t) (\<lambda>(kvs, z).
         bind (hook kvs) (\<lambda>d. Ret (PDict d, z))))
      else if take 1 s = [CHR 0x5B] then
        (let t = skip_ws (drop 1 s) in
         if take 1 t = [CHR 0x5D] then Ret (PList [], drop 1 t)
         else bind (plain_elems hook n t) (\<lambda>(xs, z). Ret (PList xs, z)))
      else plain_atom s)"
| "plain_elems hook 0 s = Raise OutOfFuel"
| "plain_elems hook (Suc n) s =
     bind (plain_value hook n s) (\<lambda>(v, z).
       (let y = skip_ws z in
        if take 1 y = [CHR 0x5D] then Ret ([v], drop 1 y)
        else if take 1 y = '','' then
          bind (plain_elems hook n (skip_ws (drop 1 y))) (\<lambda>(vs, x). Ret (v # vs, x))
        else Raise JSONDecodeError))"
| "plain_members hook 0 s = Raise OutOfFuel"
| "plain_members hook (Suc n) s =
     (if take 1 s \<noteq> [CHR 0x22] then Raise JSONDecodeError
      else case scan_string (drop 1 s) of
        None \<Rightarrow> Raise JSONDecodeError
      | Some (k, z) \<Rightarrow>
          if take 1 (skip_ws z) \<noteq> '':'' then Raise JSONDecodeError
          else bind (plain_value hook n (skip_ws (drop 1 (skip_ws z)))) (\<lambda>(v, y).
            (let x = skip_ws y in
             if take 1 x = [CHR 0x7D] then Ret ([(k, v)], drop 1 x)
             else if take 1 x = '','' then
               bind (plain_members hook n (skip_ws (drop 1 x))) (\<lambda>(kvs, w). Ret ((k, v) # kvs, w))
             else Raise JSONDecodeError)))"

definition json_loads :: "pairs_hook \<Rightarrow> string \<Rightarrow> pyval outcome" where
  "json_loads hook text =
     bind (plain_value hook (2 * length text + 1) (skip_ws text)) (\<lambda>(v, rest).
       if skip_ws rest = [] then Ret v else Raise JSONDecodeError)"

section \<open>Agreement with the strict reader, and termination\<close>

text \<open>\<open>members_hook\<close> states what the proofs need of the hook for the members of an object.\<close>

lemma plain_number_shorter:
  assumes "plain_number s = Ret (v, z)"
  shows "length z < length s"
proof -
  define t where "t = (if take 1 s = ''-'' then drop 1 s else s)"
  define rest where "rest = drop (length (lead_digits t)) t"
  obtain fraction more e left where f: "scan_fraction rest = (fraction, more)" "scan_exponent more = (e, left)" by fastforce
  have ds: "lead_digits t \<noteq> []" and z: "z = left \<or> z = rest"
    using assms f unfolding plain_number_def Let_def t_def [symmetric] rest_def [symmetric]
    by (auto simp: rest_def t_def split: if_splits)
  have "length rest < length t" using ds by (cases t) (auto simp: rest_def)
  moreover have "length t \<le> length s" by (simp add: t_def)
  moreover have "length more \<le> length rest"
    using f(1) length_dropWhile_le [of digit "drop 1 rest"] by (auto simp: scan_fraction_def split: if_splits)
  moreover have "length left \<le> length more"
    using f(2) by (auto simp: scan_exponent_def Let_def split: if_splits)
  ultimately show ?thesis using z by auto
qed

lemma plain_atom_shorter: "plain_atom s = Ret (v, z) \<Longrightarrow> length z < length s"
  by (cases s) (auto simp: plain_atom_def dest!: plain_number_shorter split: if_splits)

lemma plain_atom_no_fuel: "plain_atom s \<noteq> Raise OutOfFuel"
  by (simp add: plain_atom_def plain_number_def Let_def split: prod.split)

locale members_hook =
  fixes hook :: pairs_hook
  assumes hook_distinct: "distinct (map fst kvs) \<Longrightarrow> hook kvs = Ret kvs"
    and hook_fuel: "hook kvs \<noteq> Raise OutOfFuel"
begin

lemma atom_agrees: "scan_atom s = Ret (v, z) \<Longrightarrow> plain_atom s = Ret (v, z)"
  by (auto simp: scan_atom_def plain_atom_def scan_number_def plain_number_def Let_def refuse_def split: if_splits prod.split)

lemma value_agrees_step:
  assumes E: "\<And>s vs z. scan_elems n s = Ret (vs, z) \<Longrightarrow> plain_elems hook n s = Ret (vs, z)"
    and M: "\<And>s kvs z. scan_members n s = Ret (kvs, z) \<Longrightarrow> plain_members hook n s = Ret (kvs, z)"
    and run: "scan_value (Suc n) s = Ret (v, z)"
  shows "plain_value hook (Suc n) s = Ret (v, z)"
proof (cases s)
  case (Cons c t)
  consider (str) "c = CHR 0x22" | (obj) "c = CHR 0x7B" | (arr) "c = CHR 0x5B"
    | (other) "c \<notin> {CHR 0x22, CHR 0x7B, CHR 0x5B}" by blast
  then show ?thesis
  proof cases
    case str
    with run Cons show ?thesis by (auto split: option.splits)
  next
    case obj
    show ?thesis
    proof (cases "take 1 (skip_ws t) = [CHR 0x7D]")
      case True
      with run Cons obj show ?thesis by (simp add: Let_def hook_distinct)
    next
      case False
      with run Cons obj obtain kvs d where k: "scan_members n (skip_ws t) = Ret (kvs, z)" "pairs [] kvs = Ret d" "v = PDict d"
        by (auto simp: Let_def bind_eq_Ret)
      moreover have "d = kvs \<and> distinct (map fst kvs)" using pairs_Ret [OF k(2)] by auto
      ultimately have "hook kvs = Ret d" by (simp add: hook_distinct)
      with False Cons obj k(3) M [OF k(1)] show ?thesis by (simp add: Let_def)
    qed
  next
    case arr
    with run Cons show ?thesis by (auto simp: Let_def bind_eq_Ret dest!: E split: if_splits)
  next
    case other
    with run Cons show ?thesis by (simp add: atom_agrees)
  qed
qed (use run in simp)

lemma elems_agree_step:
  assumes V: "\<And>s v z. scan_value n s = Ret (v, z) \<Longrightarrow> plain_value hook n s = Ret (v, z)"
    and E: "\<And>s vs z. scan_elems n s = Ret (vs, z) \<Longrightarrow> plain_elems hook n s = Ret (vs, z)"
    and run: "scan_elems (Suc n) s = Ret (vs, z)"
  shows "plain_elems hook (Suc n) s = Ret (vs, z)"
proof -
  from run obtain w y where y: "scan_value n s = Ret (w, y)" by (auto simp: bind_eq_Ret)
  show ?thesis
  proof (cases "take 1 (skip_ws y) = [CHR 0x5D]")
    case True
    with run y V [OF y] show ?thesis by (simp add: Let_def)
  next
    case False
    with run y obtain ws where "scan_elems n (skip_ws (drop 1 (skip_ws y))) = Ret (ws, z)" "vs = w # ws"
      "take 1 (skip_ws y) = '',''"
      by (auto simp: Let_def bind_eq_Ret split: if_splits)
    with V [OF y] E show ?thesis by (simp add: Let_def)
  qed
qed

lemma members_agree_step:
  assumes V: "\<And>s v z. scan_value n s = Ret (v, z) \<Longrightarrow> plain_value hook n s = Ret (v, z)"
    and M: "\<And>s kvs z. scan_members n s = Ret (kvs, z) \<Longrightarrow> plain_members hook n s = Ret (kvs, z)"
    and run: "scan_members (Suc n) s = Ret (kvs, z)"
  shows "plain_members hook (Suc n) s = Ret (kvs, z)"
proof -
  from run obtain k z0 v y where k: "take 1 s = [CHR 0x22]" "scan_string (drop 1 s) = Some (k, z0)" "take 1 (skip_ws z0) = '':''"
    and y: "scan_value n (skip_ws (drop 1 (skip_ws z0))) = Ret (v, y)"
    by (auto simp: Let_def bind_eq_Ret split: if_splits option.splits)
  show ?thesis
  proof (cases "take 1 (skip_ws y) = [CHR 0x7D]")
    case True
    with run k y V [OF y] show ?thesis by (simp add: Let_def)
  next
    case False
    with run k y obtain ws where "scan_members n (skip_ws (drop 1 (skip_ws y))) = Ret (ws, z)" "kvs = (k, v) # ws"
      "take 1 (skip_ws y) = '',''"
      by (auto simp: Let_def bind_eq_Ret split: if_splits)
    with V [OF y] M k show ?thesis by (simp add: Let_def)
  qed
qed

lemma scan_agrees:
  "scan_value n s = Ret (v, z) \<Longrightarrow> plain_value hook n s = Ret (v, z)"
  "scan_elems n s = Ret (vs, z) \<Longrightarrow> plain_elems hook n s = Ret (vs, z)"
  "scan_members n s = Ret (kvs, z) \<Longrightarrow> plain_members hook n s = Ret (kvs, z)"
proof (induction n arbitrary: s v z vs kvs)
  case (Suc n)
  {
    case 1
    then show ?case using value_agrees_step [of n] Suc.IH by blast
  next
    case 2
    then show ?case using elems_agree_step [of n] Suc.IH by blast
  next
    case 3
    then show ?case using members_agree_step [of n] Suc.IH by blast
  }
qed simp_all

lemma loads_agrees: "loads s = Ret v \<Longrightarrow> json_loads hook s = Ret v"
  by (auto simp: loads_def json_loads_def bind_eq_Ret dest!: scan_agrees(1) simp del: scan_value.simps plain_value.simps
      split: if_splits)

text \<open>The text that is left gets shorter, and the fuel covers it.\<close>

lemma plain_shorter:
  "plain_value hook n s = Ret (v, z) \<Longrightarrow> length z < length s"
  "plain_elems hook n s = Ret (vs, z) \<Longrightarrow> length z < length s"
  "plain_members hook n s = Ret (kvs, z) \<Longrightarrow> length z < length s"
proof (induction n arbitrary: s v z vs kvs)
  case (Suc n)
  {
    case 1
    have "s \<noteq> []" using 1 by auto
    then have t: "length (skip_ws (drop 1 s)) < length s" using length_skip_ws [of "drop 1 s"] by (cases s) auto
    show ?case
      using 1 t \<open>s \<noteq> []\<close> scan_string_shorter [of "drop 1 s"] plain_atom_shorter [of s]
      by (auto simp: Let_def bind_eq_Ret split: if_splits option.splits dest!: Suc.IH(2,3))
  next
    case 2
    then obtain w y where y: "plain_value hook n s = Ret (w, y)" by (auto simp: bind_eq_Ret)
    have "length (skip_ws y) < length s" using Suc.IH(1) [OF y] length_skip_ws [of y] by simp
    moreover have "length z \<le> length (skip_ws y)"
      using 2 y length_skip_ws [of "drop 1 (skip_ws y)"] by (auto simp: Let_def bind_eq_Ret split: if_splits dest!: Suc.IH(2))
    ultimately show ?case by simp
  next
    case 3
    then obtain k z0 w y where k: "scan_string (drop 1 s) = Some (k, z0)"
      and y: "plain_value hook n (skip_ws (drop 1 (skip_ws z0))) = Ret (w, y)"
      by (auto simp: Let_def bind_eq_Ret split: if_splits option.splits)
    have "length (skip_ws y) < length s"
      using scan_string_shorter [OF k] Suc.IH(1) [OF y] length_skip_ws [of y] length_skip_ws [of z0]
        length_skip_ws [of "drop 1 (skip_ws z0)"] by simp
    moreover have "length z \<le> length (skip_ws y)"
      using 3 k y length_skip_ws [of "drop 1 (skip_ws y)"] by (auto simp: Let_def bind_eq_Ret split: if_splits dest!: Suc.IH(3))
    ultimately show ?case by simp
  }
qed simp_all

lemma plain_fuel:
  "2 * length s + 1 \<le> n \<Longrightarrow> plain_value hook n s \<noteq> Raise OutOfFuel"
  "2 * length s + 2 \<le> n \<Longrightarrow> plain_elems hook n s \<noteq> Raise OutOfFuel"
  "2 * length s + 2 \<le> n \<Longrightarrow> plain_members hook n s \<noteq> Raise OutOfFuel"
proof (induction n arbitrary: s)
  case (Suc n)
  {
    case 1
    show ?case
    proof (cases "s = []")
      case False
      then have "2 * length (skip_ws (drop 1 s)) + 2 \<le> n" using 1 length_skip_ws [of "drop 1 s"] by (cases s) auto
      then show ?thesis
        using False Suc.IH(2) [of "skip_ws (drop 1 s)"] Suc.IH(3) [of "skip_ws (drop 1 s)"] hook_fuel plain_atom_no_fuel [of s]
        by (auto simp: Let_def bind_eq_Raise split: option.splits)
    qed simp
  next
    case 2
    show ?case
    proof
      assume run: "plain_elems hook (Suc n) s = Raise OutOfFuel"
      then obtain w y where y: "plain_value hook n s = Ret (w, y)" using Suc.IH(1) [of s] 2 by (auto simp: bind_eq_Raise)
      let ?r = "skip_ws (drop 1 (skip_ws y))"
      from run y have c: "take 1 (skip_ws y) = '',''" and e: "plain_elems hook n ?r = Raise OutOfFuel"
        by (auto simp: Let_def bind_eq_Raise split: if_splits)
      have "length ?r < length s"
        using plain_shorter(1) [OF y] length_skip_ws [of y] length_skip_ws [of "drop 1 (skip_ws y)"] drop1_shorter [OF c] by simp
      then show False using Suc.IH(2) [of ?r] 2 e by simp
    qed
  next
    case 3
    show ?case
    proof
      assume run: "plain_members hook (Suc n) s = Raise OutOfFuel"
      then obtain k z where k: "scan_string (drop 1 s) = Some (k, z)" by (auto simp: Let_def split: if_splits option.splits)
      let ?q = "skip_ws (drop 1 (skip_ws z))"
      have q: "length ?q < length s"
        using scan_string_shorter [OF k] length_skip_ws [of z] length_skip_ws [of "drop 1 (skip_ws z)"] by simp
      with run k obtain w y where y: "plain_value hook n ?q = Ret (w, y)"
        using Suc.IH(1) [of ?q] 3 by (auto simp: Let_def bind_eq_Raise split: if_splits)
      let ?r = "skip_ws (drop 1 (skip_ws y))"
      from run k y have e: "plain_members hook n ?r = Raise OutOfFuel"
        by (auto simp: Let_def bind_eq_Raise split: if_splits)
      have "length ?r < length s"
        using plain_shorter(1) [OF y] length_skip_ws [of y] length_skip_ws [of "drop 1 (skip_ws y)"] q by simp
      then show False using Suc.IH(3) [of ?r] 3 e by simp
    qed
  }
qed simp_all

lemma json_loads_no_fuel: "json_loads hook s \<noteq> Raise OutOfFuel"
  using plain_fuel(1) [of "skip_ws s" "2 * length s + 1"] length_skip_ws [of s]
  by (auto simp: json_loads_def bind_eq_Raise simp del: plain_value.simps split: if_splits)

end

lemma last_member_distinct: "distinct (map fst kvs) \<Longrightarrow> foldl (\<lambda>d (k, v). dict_set d k v) acc kvs = acc @ kvs"
  if "fst ` set acc \<inter> fst ` set kvs = {}" for acc kvs
  using that
proof (induction kvs arbitrary: acc)
  case (Cons kv kvs)
  obtain k v where kv: "kv = (k, v)" by fastforce
  have "dict_set d k v = d @ [(k, v)]" if "k \<notin> fst ` set d" for d
    using that by (induction d k v rule: dict_set.induct) auto
  then have "dict_set acc k v = acc @ [(k, v)]" using Cons.prems by (auto simp: kv)
  moreover have "foldl (\<lambda>d (k, v). dict_set d k v) (acc @ [(k, v)]) kvs = (acc @ [(k, v)]) @ kvs"
    using Cons by (intro Cons.IH) (auto simp: kv)
  ultimately show ?case by (simp add: kv)
qed simp

interpretation plain: members_hook last_member
  by unfold_locales (simp_all add: last_member_def last_member_distinct)

end
