(* ===== verification/Commands.thy ===== *)
theory Commands
  imports Actions PlainJson Canonical
begin

text \<open>
  Commands that a script starts one after the other.  \<open>runner\<close> counts the calls that leave the process and holds a history
  variable: which command was started with which environment and how it ended, and when the packet was found unchanged.
  The status of a command is given by the number of the call.

  The locale \<open>command_check\<close> is the contract of what a script does after each command: it starts nothing itself.
\<close>

type_synonym environment = "(string \<times> string) list"

datatype run_event = Spawned "string list" environment "int outcome" | Verified

record runner =
  rn_calls :: nat
  rn_trace :: "run_event list"

definition new_runner :: runner where
  "new_runner = \<lparr>rn_calls = 0, rn_trace = []\<rparr>"

type_synonym 'a running = "(runner, 'a) action"

definition asked :: "(nat \<Rightarrow> 'a outcome) \<Rightarrow> 'a running" where
  "asked f = (\<lambda>S. (f (rn_calls S), S\<lparr>rn_calls := rn_calls S + 1\<rparr>))"

definition verified :: "unit running" where
  "verified = update (\<lambda>S. S\<lparr>rn_trace := rn_trace S @ [Verified]\<rparr>)"

text \<open>\<open>subprocess.run(command, env=environment, shell=False, check=False)\<close>\<close>

definition spawn :: "(nat \<Rightarrow> int outcome) \<Rightarrow> environment \<Rightarrow> string list \<Rightarrow> int running" where
  "spawn exits env argv =
     (\<lambda>S. let r = exits (rn_calls S) in
       (r, S\<lparr>rn_calls := rn_calls S + 1, rn_trace := rn_trace S @ [Spawned argv env r]\<rparr>))"

text \<open>The loop of the scripts: each command, then the check, and the first status that is not zero ends it.\<close>

fun run_each :: "(nat \<Rightarrow> int outcome) \<Rightarrow> unit running \<Rightarrow> environment \<Rightarrow> string list list \<Rightarrow> int running" where
  "run_each exits check env [] = lift (Ret 0)"
| "run_each exits check env (argv # rest) =
     seq (spawn exits env argv) (\<lambda>status.
     seq check (\<lambda>_. if status \<noteq> 0 then lift (Ret status) else run_each exits check env rest))"

lemma seq_lift_case: "seq (lift m) f S = (case m of Raise e \<Rightarrow> (Raise e, S) | Ret x \<Rightarrow> f x S)"
  by (simp add: seq_def lift_def split: outcome.split)

lemma seq_spawn:
  "exits (rn_calls S) = Ret status \<Longrightarrow>
     seq (spawn exits env argv) f S =
       f status (S\<lparr>rn_calls := rn_calls S + 1, rn_trace := rn_trace S @ [Spawned argv env (Ret status)]\<rparr>)"
  "exits (rn_calls S) = Raise e \<Longrightarrow>
     seq (spawn exits env argv) f S =
       (Raise e, S\<lparr>rn_calls := rn_calls S + 1, rn_trace := rn_trace S @ [Spawned argv env (Raise e)]\<rparr>)"
  by (simp_all add: seq_def spawn_def Let_def)

section \<open>What was run\<close>

text \<open>The trace of commands that all ended with zero and were followed by the check.\<close>

definition completed :: "run_event list \<Rightarrow> environment \<Rightarrow> string list list \<Rightarrow> run_event list" where
  "completed mark env argvs = concat (map (\<lambda>argv. Spawned argv env (Ret 0) # mark) argvs)"

text \<open>How a run ends with some commands left: there are none and the status is zero; or the next one ended with another
  status, which is the result; or it could not be started or checked.\<close>

definition stopped :: "run_event list \<Rightarrow> environment \<Rightarrow> string list list \<Rightarrow> run_event list \<Rightarrow> int outcome \<Rightarrow> bool" where
  "stopped mark env rest tail r \<longleftrightarrow>
     (rest = [] \<and> tail = [] \<and> r = Ret 0) \<or>
     (\<exists>argv others status. rest = argv # others \<and> status \<noteq> 0 \<and> r = Ret status \<and>
        (tail = [Spawned argv env (Ret status)] \<or> tail = Spawned argv env (Ret status) # mark)) \<or>
     (\<exists>argv others ended e. rest = argv # others \<and> r = Raise e \<and> tail = [Spawned argv env ended])"

definition ran_in_order :: "run_event list \<Rightarrow> environment \<Rightarrow> string list list \<Rightarrow> run_event list \<Rightarrow> int outcome \<Rightarrow> bool" where
  "ran_in_order mark env argvs tr r \<longleftrightarrow>
     (\<exists>passed rest tail. argvs = passed @ rest \<and> tr = completed mark env passed @ tail \<and> stopped mark env rest tail r)"

lemma completed_Nil [simp]: "completed mark env [] = []"
  by (simp add: completed_def)

lemma completed_Cons [simp]: "completed mark env (argv # argvs) = Spawned argv env (Ret 0) # mark @ completed mark env argvs"
  by (simp add: completed_def)

lemma ran_nothing: "ran_in_order mark env [] [] (Ret 0)"
  by (auto simp: ran_in_order_def stopped_def)

lemma ran_more:
  assumes "ran_in_order mark env argvs tr r"
  shows "ran_in_order mark env (argv # argvs) (Spawned argv env (Ret 0) # mark @ tr) r"
proof -
  obtain passed rest tail where "argvs = passed @ rest" "tr = completed mark env passed @ tail" "stopped mark env rest tail r"
    using assms by (auto simp: ran_in_order_def)
  then show ?thesis unfolding ran_in_order_def by (intro exI [of _ "argv # passed"] exI [of _ rest] exI [of _ tail]) simp
qed

lemma ran_status:
  "status \<noteq> 0 \<Longrightarrow> ran_in_order mark env (argv # argvs) [Spawned argv env (Ret status)] (Ret status)"
  "status \<noteq> 0 \<Longrightarrow> ran_in_order mark env (argv # argvs) (Spawned argv env (Ret status) # mark) (Ret status)"
  unfolding ran_in_order_def stopped_def by (rule exI [of _ "[]"], simp)+

lemma ran_raise: "ran_in_order mark env (argv # argvs) [Spawned argv env ended] (Raise e)"
  unfolding ran_in_order_def stopped_def by (rule exI [of _ "[]"]) simp

text \<open>Two phases: the second one is entered when the first one returned zero.\<close>

lemma ran_zero: "ran_in_order mark env argvs tr (Ret 0) \<longleftrightarrow> tr = completed mark env argvs"
  by (auto simp: ran_in_order_def stopped_def)

lemma ran_then:
  assumes "ran_in_order mark env others tr' r"
  shows "ran_in_order mark env (argvs @ others) (completed mark env argvs @ tr') r"
  using assms by (induction argvs) (simp_all add: ran_more)

lemma ran_short:
  assumes "ran_in_order mark env argvs tr r" "r \<noteq> Ret 0"
  shows "ran_in_order mark env (argvs @ others) tr r"
proof -
  obtain passed rest tail where p: "argvs = passed @ rest" "tr = completed mark env passed @ tail" "stopped mark env rest tail r"
    using assms(1) by (auto simp: ran_in_order_def)
  have "stopped mark env (rest @ others) tail r" using p(3) assms(2) by (auto simp: stopped_def)
  then show ?thesis using p unfolding ran_in_order_def by (intro exI [of _ passed] exI [of _ "rest @ others"] exI [of _ tail]) simp
qed

section \<open>The contract of a check\<close>

locale command_check =
  fixes check :: "unit running" and mark :: "run_event list"
  assumes check_Ret: "check S = (Ret u, T) \<Longrightarrow> rn_trace T = rn_trace S @ mark"
    and check_Raise: "check S = (Raise e, T) \<Longrightarrow> rn_trace T = rn_trace S"
begin

lemma spawn_checked:
  assumes "seq (spawn exits env argv) (\<lambda>status. seq check (\<lambda>_. f status)) S = (r, T)"
  shows "(\<exists>ended e. r = Raise e \<and> rn_trace T = rn_trace S @ [Spawned argv env ended]) \<or>
    (\<exists>status V. rn_trace V = rn_trace S @ Spawned argv env (Ret status) # mark \<and> f status V = (r, T))"
proof (cases "exits (rn_calls S)")
  case (Raise e)
  then show ?thesis using assms by (auto simp: seq_def spawn_def Let_def)
next
  case (Ret status)
  let ?U = "S\<lparr>rn_calls := rn_calls S + 1, rn_trace := rn_trace S @ [Spawned argv env (Ret status)]\<rparr>"
  obtain c V where c: "check ?U = (c, V)" by fastforce
  show ?thesis
  proof (cases c)
    case (Raise e)
    then show ?thesis using assms c check_Raise [of ?U e V] by (auto simp: seq_def spawn_def Let_def Ret)
  next
    case (Ret u)
    then have "rn_trace V = rn_trace S @ Spawned argv env (Ret status) # mark" "f status V = (r, T)"
      using assms c check_Ret [of ?U u V] \<open>exits (rn_calls S) = Ret status\<close> by (simp_all add: seq_def spawn_def Let_def)
    then show ?thesis by blast
  qed
qed

lemma run_each_order:
  "run_each exits check env argvs S = (r, T) \<Longrightarrow> \<exists>tr. rn_trace T = rn_trace S @ tr \<and> ran_in_order mark env argvs tr r"
proof (induction argvs arbitrary: S)
  case Nil
  then show ?case using ran_nothing by auto
next
  case (Cons argv argvs)
  consider (broken) ended e where "r = Raise e" "rn_trace T = rn_trace S @ [Spawned argv env ended]"
    | (went_on) status V where "rn_trace V = rn_trace S @ Spawned argv env (Ret status) # mark"
        "(if status \<noteq> 0 then lift (Ret status) else run_each exits check env argvs) V = (r, T)"
    using spawn_checked [OF Cons.prems [unfolded run_each.simps(2)]] by blast
  then show ?case
  proof cases
    case broken
    then show ?thesis using ran_raise by auto
  next
    case went_on
    show ?thesis
    proof (cases "status = 0")
      case True
      then obtain tr where "rn_trace T = rn_trace V @ tr" "ran_in_order mark env argvs tr r" using Cons.IH went_on(2) by auto
      then show ?thesis using ran_more [of mark env argvs tr r argv] went_on(1) True by auto
    next
      case False
      then show ?thesis using ran_status(2) [OF False] went_on by auto
    qed
  qed
qed

end

end
