(* ===== verification/PacketRun.thy ===== *)
theory PacketRun
  imports Commands Live
begin

text \<open>
  \<open>ci/run_packet.py\<close>: the runner that keeps the packet open.  It takes a packet whose custody is fixed, extracts six fields,
  checks them, and runs the canary and the commands, comparing descriptor, path and digest after each.

  \<open>packet_file\<close> is what the first reading finds, \<open>later_look\<close> what a later comparison finds, by the number of the call.
\<close>

section \<open>The file\<close>

record file_status =
  fs_dev :: nat
  fs_ino :: nat
  fs_size :: nat
  fs_mtime :: int
  fs_ctime :: int
  fs_mode :: nat
  fs_uid :: nat
  fs_gid :: nat
  fs_nlink :: nat

record packet_session =
  packet_file :: "nat \<Rightarrow> (file_status \<times> bytes list) outcome"
  later_look :: "nat \<Rightarrow> file_status outcome \<times> file_status outcome \<times> bytes outcome"
  ended_with :: "nat \<Rightarrow> int outcome"

definition refused :: "'a outcome" where
  "refused = Raise (SystemExit 2)"

definition demand :: "bool \<Rightarrow> unit outcome" where
  "demand c = (if c then Ret () else refused)"

text \<open>\<open>except <class>: refuse(...)\<close>\<close>

definition or_refuse :: "exn \<Rightarrow> 'a outcome \<Rightarrow> 'a outcome" where
  "or_refuse caught m = (case m of Raise e \<Rightarrow> if e = caught then refused else Raise e | Ret a \<Rightarrow> Ret a)"

text \<open>A regular file of root that everybody can read and nobody write.\<close>

definition fixed_custody :: "file_status \<Rightarrow> bool" where
  "fixed_custody info \<longleftrightarrow>
     fs_mode info div 4096 = 8 \<and> fs_uid info = 0 \<and> fs_gid info = 0 \<and> fs_nlink info = 1 \<and> fs_mode info mod 4096 = 292"

fun read_upto :: "bytes list \<Rightarrow> bytes \<Rightarrow> bytes" where
  "read_upto [] data = data"
| "read_upto (b # bs) data =
     (if 4194304 < length data \<or> b = [] then data else read_upto bs (data @ take 1048576 b))"

definition read_once :: "packet_session \<Rightarrow> string \<Rightarrow> (file_status \<times> bytes) running" where
  "read_once W path =
     seq (lift (demand (is_absolute path \<and> ''..'' \<notin> set (path_parts path)))) (\<lambda>_.
     seq (asked (\<lambda>n. or_refuse OSError (packet_file W n))) (\<lambda>(info, parts).
     seq (lift (demand (fixed_custody info))) (\<lambda>_.
     seq (lift (demand (length (read_upto parts []) = fs_size info \<and> length (read_upto parts []) \<le> 4194304))) (\<lambda>_.
       lift (Ret (info, read_upto parts []))))))"

definition still_same :: "packet_session \<Rightarrow> file_status \<Rightarrow> string \<Rightarrow> unit running" where
  "still_same W original digest =
     seq (asked (\<lambda>n. case later_look W n of (by_descriptor, by_path, data) \<Rightarrow>
       bind by_descriptor (\<lambda>a.
       bind (or_refuse OSError by_path) (\<lambda>b.
       bind (demand (a = original \<and> b = original)) (\<lambda>_.
       bind data (\<lambda>raw. demand (hexdigest (sha256 raw) = digest))))))) (\<lambda>_. verified)"

section \<open>Fields\<close>

definition PACKET_FIELDS :: "string list" where
  "PACKET_FIELDS =
     [''id'', ''repository'', ''warmSourceAccess'', ''prefetchCommands'', ''offlineAcceptanceCommands'', ''offlineExecution'']"

definition IDENTIFIER :: rx where
  "IDENTIFIER =
     Seq (Cls (\<lambda>c. lowercase c \<or> uppercase c)) (up_to 127 (Cls (\<lambda>c. lowercase c \<or> uppercase c \<or> digit c \<or> c = CHR ''_'' \<or> c = CHR ''-'')))"

text \<open>The lines that start with the name and a colon, without the blanks around the rest.\<close>

definition field_lines :: "string \<Rightarrow> string \<Rightarrow> string list" where
  "field_lines text name =
     map (\<lambda>line. strip (dropWhile (\<lambda>c. c = CHR 0x20 \<or> c = CHR 0x09) (drop (length name + 1) line)))
       (filter (starts_with (name @ '':'')) (split_on CHR 0x0A text))"

definition extract_value :: "string \<Rightarrow> string \<Rightarrow> pyval outcome" where
  "extract_value name raw =
     (if name \<in> {''prefetchCommands'', ''offlineAcceptanceCommands'', ''offlineExecution''}
      then or_refuse JSONDecodeError (json_loads last_member raw)
      else bind (if take 1 raw = [CHR 0x22] then or_refuse JSONDecodeError (json_loads last_member raw) else Ret (PStr raw)) (\<lambda>v.
        (case v of PStr s \<Rightarrow> if fullmatch IDENTIFIER s then Ret v else refused | _ \<Rightarrow> refused)))"

definition extract_fields :: "string \<Rightarrow> items outcome" where
  "extract_fields text =
     map_out (\<lambda>name. case field_lines text name of
         [raw] \<Rightarrow> bind (extract_value name raw) (\<lambda>v. Ret (name, v))
       | _ \<Rightarrow> refused) PACKET_FIELDS"

section \<open>Commands\<close>

definition PACKET_SHELLS :: "string list" where
  "PACKET_SHELLS = [''sh'', ''bash'', ''zsh'', ''fish'', ''dash'', ''cmd'', ''powershell'', ''pwsh'']"

definition DOWNLOAD_TOKENS :: "string list" where
  "DOWNLOAD_TOKENS = [''fetch'', ''download'', ''install'', ''pull'', ''clone'', ''curl'', ''wget'', ''pip'', ''npm'', ''npx'']"

definition bounded_word :: "pyval \<Rightarrow> string outcome" where
  "bounded_word v = (case v of PStr s \<Rightarrow> if s \<noteq> [] \<and> py_len s \<le> 4096 then Ret s else refused | _ \<Rightarrow> refused)"

definition validate_command :: "bool \<Rightarrow> pyval \<Rightarrow> string list outcome" where
  "validate_command offline v =
     (case v of
        PList xs \<Rightarrow>
          bind (demand (xs \<noteq> [] \<and> length xs \<le> 32)) (\<lambda>_.
          bind (map_out bounded_word xs) (\<lambda>argv.
          bind (demand (lower (path_name (hd argv)) \<notin> set PACKET_SHELLS \<and> lower (path_name (hd argv)) \<notin> set DOWNLOAD_TOKENS \<and>
            set (map (lower \<circ> path_name) argv) \<inter> set DOWNLOAD_TOKENS = {})) (\<lambda>_.
          bind (demand (take 2 argv \<noteq> [''make'', ''verify-offline''] \<and> \<not> (offline \<and> take 2 argv = [''make'', ''prefetch'']))) (\<lambda>_.
            Ret argv))))
      | _ \<Rightarrow> refused)"

definition validate_commands :: "bool \<Rightarrow> bool \<Rightarrow> pyval \<Rightarrow> string list list outcome" where
  "validate_commands allow_empty offline v =
     (case v of
        PList commands \<Rightarrow> if commands = [] \<and> \<not> allow_empty then refused else map_out (validate_command offline) commands
      | _ \<Rightarrow> refused)"

definition EXPECTED_OFFLINE :: pyval where
  "EXPECTED_OFFLINE =
     PDict [(''wrapperArgv'', PList [PStr ''./ci/verify-offline.sh'']),
       (''packetPathEnvironment'', PStr ''HARNESS_TASK_PACKET''),
       (''packetPathMode'', PStr ''HASH_PINNED_READ_ONCE_NO_CHILD_PATH''),
       (''commandTransport'', PStr ''ARGV_ARRAY_V1''),
       (''isolation'', PStr ''OS_ENFORCED_DENY_ALL_OUTBOUND''),
       (''sessionScope'', PStr ''SINGLE_PROCESS_TREE''),
       (''prefetchOutsideSession'', PBool False),
       (''offlineEnvironment'', PDict [(''UV_OFFLINE'', PStr ''1''), (''UV_FROZEN'', PStr ''1''), (''UV_NO_SYNC'', PStr ''1'')])]"

definition PACKET_ID :: rx where
  "PACKET_ID = Seq (lit ''CONF-'') (plus1 (Cls (\<lambda>c. uppercase c \<or> digit c \<or> c = CHR ''-'')))"

definition validate_packet :: "items \<Rightarrow> (string list list \<times> string list list) outcome" where
  "validate_packet document =
     bind (and_also (field_is document ''repository'' (PStr ''mas-harness-conformance-labs''))
       (bind (field document ''id'') (\<lambda>v. case v of PStr s \<Rightarrow> Ret (fullmatch PACKET_ID s) | _ \<Rightarrow> Raise TypeError))) (\<lambda>named.
     bind (demand named) (\<lambda>_.
     bind (field_is document ''warmSourceAccess'' (PStr ''PROHIBITED_DURING_IMPLEMENTATION'')) (\<lambda>cold.
     bind (demand cold) (\<lambda>_.
     bind (field_is document ''offlineExecution'' EXPECTED_OFFLINE) (\<lambda>agreed.
     bind (demand agreed) (\<lambda>_.
     bind (bind (field document ''prefetchCommands'') (validate_commands True False)) (\<lambda>prefetch.
     bind (bind (field document ''offlineAcceptanceCommands'') (validate_commands False True)) (\<lambda>offline.
       Ret (prefetch, offline)))))))))"

section \<open>The program\<close>

definition CHILD_ENVIRONMENT :: "string list" where
  "CHILD_ENVIRONMENT =
     [''PATH'', ''HOME'', ''TMPDIR'', ''USER'', ''LOGNAME'', ''LANG'', ''LC_ALL'',
      ''CI'', ''GITHUB_ACTIONS'', ''GITHUB_REPOSITORY'', ''GITHUB_SHA'', ''GITHUB_WORKSPACE'',
      ''HARNESS_OFFLINE_ENFORCED'', ''HARNESS_OFFLINE_BACKEND'', ''HARNESS_OFFLINE_SESSION_ID'',
      ''UV_CACHE_DIR'', ''UV_OFFLINE'', ''UV_FROZEN'', ''UV_NO_SYNC'', ''UV_PYTHON_DOWNLOADS'']"

text \<open>A frozen set has no order, nor has an environment: the names come in the order of the source.\<close>

definition child_environment :: "environment \<Rightarrow> string \<Rightarrow> environment" where
  "child_environment environ root =
     concat (map (\<lambda>name. case map_of environ name of None \<Rightarrow> [] | Some value \<Rightarrow> [(name, value)]) CHILD_ENVIRONMENT)
     @ [(''PYTHONPATH'', root @ ''/src''), (''PYTHONDONTWRITEBYTECODE'', ''1'')]"

definition nonempty_variable :: "environment \<Rightarrow> string \<Rightarrow> bool" where
  "nonempty_variable environ name = (case map_of environ name of None \<Rightarrow> False | Some value \<Rightarrow> value \<noteq> [])"

definition backend_of :: "string \<Rightarrow> string option" where
  "backend_of platform = map_of [(''darwin'', ''darwin-sandbox''), (''linux'', ''linux-firejail'')] platform"

definition inside_session :: "string \<Rightarrow> environment \<Rightarrow> bool" where
  "inside_session platform environ \<longleftrightarrow>
     backend_of platform \<noteq> None \<and> map_of environ ''HARNESS_OFFLINE_ENFORCED'' = Some ''1'' \<and>
     map_of environ ''HARNESS_OFFLINE_BACKEND'' = backend_of platform \<and>
     nonempty_variable environ ''HARNESS_OFFLINE_SESSION_ID''"

definition packet_main :: "packet_session \<Rightarrow> string \<Rightarrow> environment \<Rightarrow> string \<Rightarrow> string \<Rightarrow> string list \<Rightarrow> int running" where
  "packet_main W platform environ root interpreter argv =
     seq (lift (demand (length argv = 1))) (\<lambda>_.
     seq (lift (demand (inside_session platform environ))) (\<lambda>_.
     seq (lift (demand (\<not> nonempty_variable environ ''HARNESS_WARM_SOURCE_ROOTS''))) (\<lambda>_.
     seq (read_once W (hd argv)) (\<lambda>(info, data).
     seq (lift (demand (utf8_valid data))) (\<lambda>_.
     seq (lift (bind (extract_fields data) validate_packet)) (\<lambda>(prefetch, acceptance).
       run_each (ended_with W) (still_same W info (hexdigest (sha256 data))) (child_environment environ root)
         ([interpreter, ''ci/network_canary.py''] # prefetch @ acceptance)))))))"

end
