(* ===== verification/PacketArgv.thy ===== *)
theory PacketArgv
  imports Commands Live
begin

text \<open>
  \<open>ci/run_packet_argv.py\<close>: it reads a task packet once, takes the commands from its inline JSON fields, checks them,
  and runs them without a shell in a scrubbed environment, comparing the packet's digest after each command.

  \<open>packet_world\<close> says what each call that leaves the process gives: what opening the packet finds, and the
  status of each command.  The environment of the process, the interpreter and the path of the canary are parameters.
\<close>

section \<open>The packet\<close>

definition PACKET_ENVIRONMENT :: string where
  "PACKET_ENVIRONMENT = ''HARNESS_TASK_PACKET''"

definition OFFLINE_ENVIRONMENT :: environment where
  "OFFLINE_ENVIRONMENT = [(''UV_OFFLINE'', ''1''), (''UV_FROZEN'', ''1''), (''UV_NO_SYNC'', ''1'')]"

definition EXPECTED_EXECUTION :: pyval where
  "EXPECTED_EXECUTION =
     PDict [(''wrapperArgv'', PList [PStr ''./ci/verify-offline.sh'']),
       (''packetPathEnvironment'', PStr PACKET_ENVIRONMENT),
       (''packetPathMode'', PStr ''HASH_PINNED_READ_ONCE_NO_CHILD_PATH''),
       (''commandTransport'', PStr ''ARGV_ARRAY_V1''),
       (''isolation'', PStr ''OS_ENFORCED_DENY_ALL_OUTBOUND''),
       (''sessionScope'', PStr ''SINGLE_PROCESS_TREE''),
       (''prefetchOutsideSession'', PBool False),
       (''offlineEnvironment'', PDict (map (\<lambda>(k, v). (k, PStr v)) OFFLINE_ENVIRONMENT))]"

text \<open>What opening and reading the path finds: a regular file or not, and its bytes.\<close>

record packet_world =
  packet_at :: "nat \<Rightarrow> (bool \<times> bytes) outcome"
  status_at :: "nat \<Rightarrow> int outcome"

definition packet_text :: "bool \<times> bytes \<Rightarrow> (string \<times> string) outcome" where
  "packet_text found =
     (case found of (is_regular, raw) \<Rightarrow>
        if \<not> is_regular then Raise PacketTransportError
        else if \<not> utf8_valid raw then Raise UnicodeDecodeError
        else (let text = universal_newlines raw in Ret (text, hexdigest (sha256 text))))"

definition read_packet_text :: "packet_world \<Rightarrow> (string \<times> string) running" where
  "read_packet_text W = asked (\<lambda>n. bind (packet_at W n) packet_text)"

definition packet_require :: "bool \<Rightarrow> unit outcome" where
  "packet_require c = (if c then Ret () else Raise PacketTransportError)"

definition verify_packet_digest :: "packet_world \<Rightarrow> string \<Rightarrow> unit running" where
  "verify_packet_digest W expected =
     seq (read_packet_text W) (\<lambda>(_, digest).
     seq (lift (packet_require (digest = expected))) (\<lambda>_. verified))"

section \<open>Its fields\<close>

definition load_json_field :: "string \<Rightarrow> string \<Rightarrow> pyval outcome" where
  "load_json_field text name =
     (let prefix = name @ '':'';
          matches = map (\<lambda>line. strip (drop (length prefix) line)) (filter (starts_with prefix) (splitlines text))
      in case matches of
           [raw] \<Rightarrow>
             if raw = [] then Raise PacketTransportError
             else (case json_loads last_member raw of
                     Raise e \<Rightarrow> Raise (if e = JSONDecodeError then PacketTransportError else e)
                   | Ret v \<Rightarrow> Ret v)
         | _ \<Rightarrow> Raise PacketTransportError)"

definition argv_word :: "pyval \<Rightarrow> string outcome" where
  "argv_word v =
     (case v of
        PStr s \<Rightarrow> if s \<noteq> [] \<and> CHR 0x00 \<notin> set s then Ret s else Raise PacketTransportError
      | _ \<Rightarrow> Raise PacketTransportError)"

definition load_command :: "pyval \<Rightarrow> string list outcome" where
  "load_command v =
     (case v of
        PList argv \<Rightarrow> if argv = [] then Raise PacketTransportError else map_out argv_word argv
      | _ \<Rightarrow> Raise PacketTransportError)"

definition load_command_field :: "string \<Rightarrow> string \<Rightarrow> string list list outcome" where
  "load_command_field text name =
     bind (load_json_field text name) (\<lambda>v.
     (case v of PList commands \<Rightarrow> map_out load_command commands | _ \<Rightarrow> Raise PacketTransportError))"

section \<open>Commands\<close>

definition FORBIDDEN_OFFLINE_TOKENS :: "string list" where
  "FORBIDDEN_OFFLINE_TOKENS =
     [''curl'', ''wget'', ''npx'', ''prefetch'', ''fetch'', ''download'', ''install'', ''sync'', ''add'', ''pull'']"

definition FORBIDDEN_EXECUTABLE_BASENAMES :: "string list" where
  "FORBIDDEN_EXECUTABLE_BASENAMES = [''sh'', ''bash'', ''zsh'', ''dash'', ''env'']"

definition CHILD_ENVIRONMENT_ALLOWLIST :: "string list" where
  "CHILD_ENVIRONMENT_ALLOWLIST =
     [''CI'', ''GITHUB_ACTIONS'', ''GITHUB_WORKSPACE'', ''HARNESS_OFFLINE_BACKEND'', ''HARNESS_OFFLINE_ENFORCED'',
      ''HARNESS_OFFLINE_SESSION_ID'', ''HOME'', ''LANG'', ''LC_ALL'', ''LOGNAME'', ''PATH'', ''PYTHONDONTWRITEBYTECODE'',
      ''TMPDIR'', ''USER'', ''UV_CACHE_DIR'', ''UV_FROZEN'', ''UV_NO_SYNC'', ''UV_OFFLINE'', ''UV_PROJECT_ENVIRONMENT'',
      ''UV_PYTHON_DOWNLOADS'', ''VIRTUAL_ENV'']"

definition validate_direct_argv :: "string list \<Rightarrow> unit outcome" where
  "validate_direct_argv argv = packet_require (path_name (hd argv) \<notin> set FORBIDDEN_EXECUTABLE_BASENAMES)"

definition validate_offline_argv :: "string list \<Rightarrow> unit outcome" where
  "validate_offline_argv argv =
     bind (validate_direct_argv argv) (\<lambda>_.
     bind (packet_require (set (map casefold argv) \<inter> set FORBIDDEN_OFFLINE_TOKENS = {})) (\<lambda>_.
     bind (packet_require (take 2 argv \<noteq> [''make'', ''verify-offline''])) (\<lambda>_.
       packet_require (hd argv = ''uv'' \<longrightarrow> set [''--offline'', ''--frozen'', ''--no-sync''] \<subseteq> set argv))))"

definition validate_execution_contract :: "string \<Rightarrow> unit outcome" where
  "validate_execution_contract text =
     bind (load_json_field text ''offlineExecution'') (\<lambda>v. packet_require (py_eq v EXPECTED_EXECUTION))"

definition scrub_environment :: "environment \<Rightarrow> environment" where
  "scrub_environment env = filter (\<lambda>(k, v). k \<in> set CHILD_ENVIRONMENT_ALLOWLIST) env"

definition run_commands :: "packet_world \<Rightarrow> environment \<Rightarrow> string \<Rightarrow> string list list \<Rightarrow> int running" where
  "run_commands W env digest commands = run_each (status_at W) (verify_packet_digest W digest) env commands"

section \<open>The program\<close>

text \<open>The prefetch and the offline commands of a packet, all checked.\<close>

definition packet_commands :: "string \<Rightarrow> (string list list \<times> string list list) outcome" where
  "packet_commands text =
     bind (validate_execution_contract text) (\<lambda>_.
     bind (load_command_field text ''prefetchCommands'') (\<lambda>prefetch.
     bind (load_command_field text ''offlineAcceptanceCommands'') (\<lambda>offline.
     bind (for_each validate_direct_argv (prefetch @ offline)) (\<lambda>_.
     bind (for_each (\<lambda>argv. packet_require (argv = [''make'', ''prefetch''])) prefetch) (\<lambda>_.
     bind (for_each validate_offline_argv offline) (\<lambda>_. Ret (prefetch, offline)))))))"

definition isolated_environment :: "environment \<Rightarrow> environment outcome" where
  "isolated_environment environ =
     (let env = scrub_environment environ in
      bind (packet_require (map_of env ''HARNESS_OFFLINE_ENFORCED'' = Some ''1'')) (\<lambda>_.
      bind (for_each (\<lambda>(name, value). packet_require (map_of env name = Some value)) OFFLINE_ENVIRONMENT) (\<lambda>_. Ret env)))"

text \<open>\<open>argv_main\<close> after the arguments of the command line, which take no option.\<close>

definition argv_main :: "packet_world \<Rightarrow> environment \<Rightarrow> string \<Rightarrow> string \<Rightarrow> int running" where
  "argv_main W environ interpreter canary =
     seq (lift (packet_require (case map_of environ PACKET_ENVIRONMENT of None \<Rightarrow> False | Some path \<Rightarrow> path \<noteq> []))) (\<lambda>_.
     seq (read_packet_text W) (\<lambda>(text, digest).
     seq (lift (packet_commands text)) (\<lambda>(prefetch, offline).
     seq (lift (isolated_environment environ)) (\<lambda>env.
     seq (spawn (status_at W) env [interpreter, ''-I'', canary]) (\<lambda>status.
       if status \<noteq> 0 then lift (Ret status)
       else
         seq (verify_packet_digest W digest) (\<lambda>_.
         seq (run_commands W env digest prefetch) (\<lambda>first.
           if first \<noteq> 0 then lift (Ret first) else run_commands W env digest offline)))))))"

text \<open>The module's last lines: a refused packet is the exit status 2.\<close>

definition argv_exit :: "int outcome \<Rightarrow> int outcome" where
  "argv_exit r = (case r of Raise PacketTransportError \<Rightarrow> Ret 2 | _ \<Rightarrow> r)"

end
