(* ===== verification/PacketArgvLaws.thy ===== *)
theory PacketArgvLaws
  imports PacketArgv
begin

text \<open>
  What a run of \<open>run_packet_argv.py\<close> can do: only checked commands are started, in the order of the packet, in a
  scrubbed environment, each after the one before it succeeded and the packet was found unchanged.
\<close>

section \<open>The check after a command\<close>

lemma asked_eq [simp]: "asked f S = (r, T) \<longleftrightarrow> f (rn_calls S) = r \<and> T = S\<lparr>rn_calls := rn_calls S + 1\<rparr>"
  by (auto simp: asked_def)

interpretation argv_check: command_check "verify_packet_digest W digest" "[Verified]" for W digest
  by unfold_locales
    (auto simp: verify_packet_digest_def read_packet_text_def verified_def seq_Ret seq_Raise split: prod.splits)

section \<open>The commands\<close>

lemma packet_require_Ret [simp]: "packet_require c = Ret u \<longleftrightarrow> c"
  by (auto simp: packet_require_def)

definition proper_argv :: "string list \<Rightarrow> bool" where
  "proper_argv argv \<longleftrightarrow>
     argv \<noteq> [] \<and> list_all (\<lambda>s. s \<noteq> [] \<and> CHR 0x00 \<notin> set s) argv \<and> path_name (hd argv) \<notin> set FORBIDDEN_EXECUTABLE_BASENAMES"

definition offline_argv :: "string list \<Rightarrow> bool" where
  "offline_argv argv \<longleftrightarrow>
     proper_argv argv \<and> list_all (\<lambda>s. casefold s \<notin> set FORBIDDEN_OFFLINE_TOKENS) argv \<and>
     take 2 argv \<noteq> [''make'', ''verify-offline''] \<and>
     (hd argv = ''uv'' \<longrightarrow> list_all (\<lambda>flag. flag \<in> set argv) [''--offline'', ''--frozen'', ''--no-sync''])"

lemma load_command_Ret:
  "load_command v = Ret argv \<Longrightarrow> argv \<noteq> [] \<and> list_all (\<lambda>s. s \<noteq> [] \<and> CHR 0x00 \<notin> set s) argv"
proof -
  have word: "s \<noteq> [] \<and> CHR 0x00 \<notin> set s" if "argv_word v = Ret s" for v s
    using that by (auto simp: argv_word_def split: pyval.splits if_splits)
  assume "load_command v = Ret argv"
  then obtain vs where "vs \<noteq> []" "map_out argv_word vs = Ret argv" by (auto simp: load_command_def split: pyval.splits if_splits)
  then have "list_all2 (\<lambda>v s. argv_word v = Ret s) vs argv" "argv \<noteq> []" by (auto simp: map_out_eq_Ret)
  then show ?thesis using word by (auto simp: list_all_iff dest!: list_all2_member2)
qed

lemma load_command_field_Ret:
  assumes "load_command_field text name = Ret commands" "argv \<in> set commands"
  shows "argv \<noteq> [] \<and> list_all (\<lambda>s. s \<noteq> [] \<and> CHR 0x00 \<notin> set s) argv"
proof -
  obtain vs where "map_out load_command vs = Ret commands"
    using assms(1) unfolding load_command_field_def by (elim bind_RetE) (auto split: pyval.splits)
  then have "list_all2 (\<lambda>v s. load_command v = Ret s) vs commands" by (simp add: map_out_eq_Ret)
  then show ?thesis using list_all2_member2 [OF _ assms(2)] load_command_Ret by blast
qed

lemma packet_commands_Ret:
  assumes "packet_commands text = Ret (prefetch, offline)"
  shows "list_all (\<lambda>argv. argv = [''make'', ''prefetch'']) prefetch \<and> list_all offline_argv offline"
proof -
  have load: "load_command_field text ''offlineAcceptanceCommands'' = Ret offline"
    and pre: "for_each (\<lambda>argv. packet_require (argv = [''make'', ''prefetch''])) prefetch = Ret ()"
    and off: "for_each validate_offline_argv offline = Ret ()"
    using assms unfolding packet_commands_def by (auto simp: bind_eq_Ret)
  have "offline_argv argv" if "argv \<in> set offline" for argv
    using that off load_command_field_Ret [OF load that]
    by (auto simp: for_each_eq_Ret validate_offline_argv_def validate_direct_argv_def bind_eq_Ret offline_argv_def proper_argv_def
        list_all_iff)
  then show ?thesis using pre by (auto simp: for_each_eq_Ret list_all_iff)
qed

section \<open>The environment\<close>

definition isolated :: "environment \<Rightarrow> environment \<Rightarrow> bool" where
  "isolated environ env \<longleftrightarrow>
     set env \<subseteq> set environ \<and> fst ` set env \<subseteq> set CHILD_ENVIRONMENT_ALLOWLIST \<and>
     set ((''HARNESS_OFFLINE_ENFORCED'', ''1'') # OFFLINE_ENVIRONMENT) \<subseteq> set env"

lemma isolated_environment_Ret: "isolated_environment environ = Ret env \<Longrightarrow> isolated environ env"
  unfolding isolated_environment_def Let_def
  by (fastforce simp: bind_eq_Ret for_each_eq_Ret isolated_def scrub_environment_def split: prod.splits dest!: map_of_SomeD)

section \<open>A run\<close>

definition confined_run :: "environment \<Rightarrow> string list \<Rightarrow> runner \<Rightarrow> int outcome \<Rightarrow> bool" where
  "confined_run environ canary T r \<longleftrightarrow>
     (rn_trace T = [] \<and> r \<noteq> Ret 0) \<or>
     (\<exists>env prefetch offline. isolated environ env \<and> list_all (\<lambda>argv. argv = [''make'', ''prefetch'']) prefetch \<and>
        list_all offline_argv offline \<and> ran_in_order [Verified] env (canary # prefetch @ offline) (rn_trace T) r)"

lemma argv_phases:
  assumes "(if status \<noteq> 0 then lift (Ret status) else
     seq (verify_packet_digest W digest) (\<lambda>_.
     seq (run_commands W env digest prefetch) (\<lambda>first.
       if first \<noteq> 0 then lift (Ret first) else run_commands W env digest offline))) S = (r, T)"
    and "rn_trace S = [Spawned canary env (Ret status)]"
  shows "ran_in_order [Verified] env (canary # prefetch @ offline) (rn_trace T) r"
proof (cases "status = 0")
  case False
  then show ?thesis using assms ran_status(1) by auto
next
  case True
  obtain c V where V: "verify_packet_digest W digest S = (c, V)" by fastforce
  show ?thesis
  proof (cases c)
    case (Raise e)
    then have "r = Raise e" "rn_trace T = [Spawned canary env (Ret 0)]"
      using assms V True argv_check.check_Raise [of W digest S e V] by (auto simp: seq_def)
    then show ?thesis using ran_raise by simp
  next
    case (Ret u)
    have v: "rn_trace V = [Spawned canary env (Ret 0), Verified]"
      using argv_check.check_Ret V assms(2) True Ret by simp
    obtain first X where X: "run_commands W env digest prefetch V = (first, X)" by fastforce
    then obtain tr where tr: "rn_trace X = rn_trace V @ tr" "ran_in_order [Verified] env prefetch tr first"
      using argv_check.run_each_order unfolding run_commands_def by blast
    have rest: "(case first of Raise e \<Rightarrow> (Raise e, X)
        | Ret n \<Rightarrow> if n \<noteq> 0 then (Ret n, X) else run_commands W env digest offline X) = (r, T)"
      using assms(1) V X True Ret by (auto simp: seq_def lift_def split: outcome.splits if_splits)
    show ?thesis
    proof (cases "first = Ret 0")
      case zero: True
      then have "run_commands W env digest offline X = (r, T)" using rest by simp
      then obtain tr' where "rn_trace T = rn_trace X @ tr'" "ran_in_order [Verified] env offline tr' r"
        using argv_check.run_each_order unfolding run_commands_def by blast
      then show ?thesis
        using ran_more [OF ran_then, of "[Verified]" env offline tr' r canary prefetch] tr zero v by (simp add: ran_zero)
    next
      case False
      then have "r = first" "T = X" using rest by (auto split: outcome.splits if_splits)
      then show ?thesis using ran_more [OF ran_short [OF tr(2) False], of canary offline] tr(1) v by simp
    qed
  qed
qed


text \<open>The digest is taken after the ends of lines were unified, so that a packet whose line feeds became
  carriage returns with line feeds is found unchanged.\<close>

lemma line_ends_unseen: "packet_text (True, ''id: x'' @ [CHR 0x0D, CHR 0x0A]) = packet_text (True, ''id: x'' @ [CHR 0x0A])"
  by (simp add: packet_text_def Let_def)

end
