(* ===== verification/PacketRunLaws.thy ===== *)
theory PacketRunLaws
  imports PacketRun PacketArgvLaws
begin

text \<open>What a run of \<open>run_packet.py\<close> can do.\<close>

interpretation packet_check: command_check "still_same W info digest" "[Verified]" for W info digest
  by unfold_locales (auto simp: still_same_def verified_def seq_Ret seq_Raise)

lemma demand_Ret [simp]: "demand c = Ret u \<longleftrightarrow> c"
  by (auto simp: demand_def refused_def)

lemma refused_Ret [simp]: "refused \<noteq> Ret a"
  by (simp add: refused_def)

text \<open>A bounded command without a shell and without a word of a download.\<close>

definition bounded_argv :: "string list \<Rightarrow> bool" where
  "bounded_argv argv \<longleftrightarrow>
     argv \<noteq> [] \<and> length argv \<le> 32 \<and> list_all (\<lambda>s. s \<noteq> [] \<and> py_len s \<le> 4096) argv \<and>
     lower (path_name (hd argv)) \<notin> set PACKET_SHELLS \<and> list_all (\<lambda>s. lower (path_name s) \<notin> set DOWNLOAD_TOKENS) argv \<and>
     take 2 argv \<noteq> [''make'', ''verify-offline'']"

lemma validate_command_Ret:
  assumes "validate_command offline v = Ret argv"
  shows "bounded_argv argv \<and> (offline \<longrightarrow> take 2 argv \<noteq> [''make'', ''prefetch''])"
proof -
  have word: "s \<noteq> [] \<and> py_len s \<le> 4096" if "bounded_word v = Ret s" for v s
    using that by (auto simp: bounded_word_def split: pyval.splits if_splits)
  obtain xs where xs: "xs \<noteq> []" "length xs \<le> 32" "map_out bounded_word xs = Ret argv"
    and c: "lower (path_name (hd argv)) \<notin> set PACKET_SHELLS" "set (map (lower \<circ> path_name) argv) \<inter> set DOWNLOAD_TOKENS = {}"
      "take 2 argv \<noteq> [''make'', ''verify-offline'']" "\<not> (offline \<and> take 2 argv = [''make'', ''prefetch''])"
    using assms by (auto simp: validate_command_def bind_eq_Ret split: pyval.splits)
  then have "list_all2 (\<lambda>v s. bounded_word v = Ret s) xs argv" by (simp add: map_out_eq_Ret)
  then have "length argv = length xs" "list_all (\<lambda>s. s \<noteq> [] \<and> py_len s \<le> 4096) argv"
    using word by (auto simp: list_all_iff dest: list_all2_lengthD list_all2_member2)
  then show ?thesis using xs c by (auto simp: bounded_argv_def list_all_iff)
qed

lemma validate_commands_Ret:
  assumes "validate_commands allow_empty offline v = Ret commands"
  shows "list_all bounded_argv commands \<and> (offline \<longrightarrow> list_all (\<lambda>argv. take 2 argv \<noteq> [''make'', ''prefetch'']) commands)"
proof -
  obtain vs where "map_out (validate_command offline) vs = Ret commands"
    using assms by (auto simp: validate_commands_def split: pyval.splits if_splits)
  then have "list_all2 (\<lambda>v argv. validate_command offline v = Ret argv) vs commands" by (simp add: map_out_eq_Ret)
  then show ?thesis using validate_command_Ret by (fastforce simp: list_all_iff dest: list_all2_member2)
qed

definition packet_env :: "environment \<Rightarrow> string \<Rightarrow> environment \<Rightarrow> bool" where
  "packet_env environ root env \<longleftrightarrow>
     set env \<subseteq> {(k, v). k \<in> set CHILD_ENVIRONMENT \<and> (k, v) \<in> set environ} \<union>
       {(''PYTHONPATH'', root @ ''/src''), (''PYTHONDONTWRITEBYTECODE'', ''1'')}"

lemma child_environment_packet: "packet_env environ root (child_environment environ root)"
  by (auto simp: packet_env_def child_environment_def split: option.splits dest!: map_of_SomeD [OF sym])

definition packet_confined_run :: "environment \<Rightarrow> string \<Rightarrow> string list \<Rightarrow> runner \<Rightarrow> int outcome \<Rightarrow> bool" where
  "packet_confined_run environ root canary T r \<longleftrightarrow>
     (rn_trace T = [] \<and> r \<noteq> Ret 0) \<or>
     (\<exists>env prefetch acceptance. packet_env environ root env \<and> list_all bounded_argv (prefetch @ acceptance) \<and>
        list_all (\<lambda>argv. take 2 argv \<noteq> [''make'', ''prefetch'']) acceptance \<and>
        ran_in_order [Verified] env (canary # prefetch @ acceptance) (rn_trace T) r)"

lemma read_once_trace: "read_once W path S = (r, T) \<Longrightarrow> rn_trace T = rn_trace S"
  by (cases r) (auto simp: read_once_def seq_Ret seq_Raise split: prod.splits)


end
