(* ===== verification/MakeTarget.thy ===== *)
theory MakeTarget
  imports Commands Campaign Live
begin

text \<open>
  \<open>ci/run_make_target.py\<close>: it resolves a make target to commands, either one of the three generic ones on the campaign
  that the environment names, or the handlers that the descriptors under \<open>ci/targets\<close> declare, and runs them.

  \<open>descriptor_file\<close> is one result of the glob, with its name, whether it is a link or lies elsewhere, and its content.
\<close>

section \<open>Descriptors\<close>

definition dispatch_refused :: "'a outcome" where
  "dispatch_refused = Raise (SystemExit 2)"

definition insist :: "bool \<Rightarrow> unit outcome" where
  "insist c = (if c then Ret () else dispatch_refused)"

definition GENERIC :: "(string \<times> string) list" where
  "GENERIC = [(''campaign'', ''run''), (''evidence-verify'', ''evidence-verify''), (''acceptance-package'', ''acceptance-candidate'')]"

definition TARGET_SHELLS :: "string list" where
  "TARGET_SHELLS = [''sh'', ''bash'', ''zsh'', ''fish'', ''dash'', ''cmd'', ''powershell'', ''pwsh'']"

definition METACHARACTERS :: string where
  "METACHARACTERS = ''|;&`$<>''"

definition TARGET :: rx where
  "TARGET = Seq (Cls lowercase) (up_to 63 (Cls (\<lambda>c. lowercase c \<or> digit c \<or> c = CHR ''-'')))"

definition PACKET :: rx where
  "PACKET =
     Seq (Cls uppercase) (Seq (Star (Cls (\<lambda>c. uppercase c \<or> digit c)))
       (plus1 (Seq (lit ''-'') (plus1 (Cls (\<lambda>c. uppercase c \<or> digit c))))))"

definition CAMPAIGN_NAME :: rx where
  "CAMPAIGN_NAME =
     Seq (Cls lowercase) (Seq (Star (Cls (\<lambda>c. lowercase c \<or> digit c)))
       (Star (Seq (Cls (\<lambda>c. c = CHR ''.'' \<or> c = CHR ''-'')) (plus1 (Cls (\<lambda>c. lowercase c \<or> digit c))))))"

record descriptor_file =
  df_name :: string
  df_linked :: bool
  df_read :: "bytes outcome"

definition unique_members :: pairs_hook where
  "unique_members kvs = (if distinct (map fst kvs) then Ret kvs else dispatch_refused)"

text \<open>\<open>json.loads(path.read_text(encoding="utf-8"), object_pairs_hook=_pairs)\<close> within its \<open>try\<close>\<close>

definition read_descriptor :: "descriptor_file \<Rightarrow> pyval outcome" where
  "read_descriptor f =
     (case bind (df_read f) (\<lambda>raw. if utf8_valid raw then json_loads unique_members (universal_newlines raw) else Raise UnicodeDecodeError) of
        Raise e \<Rightarrow> if e \<in> {OSError, UnicodeDecodeError, JSONDecodeError} then dispatch_refused else Raise e
      | Ret v \<Rightarrow> Ret v)"

definition load_descriptor :: "descriptor_file \<Rightarrow> (string \<times> pyval list) outcome" where
  "load_descriptor f =
     bind (insist (\<not> df_linked f)) (\<lambda>_.
     bind (read_descriptor f) (\<lambda>v.
     (case v of
        PDict d \<Rightarrow>
          bind (insist (set (map fst d) = {''schemaVersion'', ''packetId'', ''handlers''})) (\<lambda>_.
          bind (bind (field_is d ''schemaVersion'' (PStr ''harness.planeon.ai/make-target-descriptor/v1alpha1'')) insist) (\<lambda>_.
          bind (field d ''packetId'') (\<lambda>p.
          bind (case p of PStr s \<Rightarrow> if fullmatch PACKET s then Ret s else dispatch_refused | _ \<Rightarrow> dispatch_refused) (\<lambda>packet_id.
          bind (insist (df_name f = lower packet_id @ ''.json'')) (\<lambda>_.
          bind (field d ''handlers'') (\<lambda>hs.
          (case hs of
             PList handlers \<Rightarrow> if handlers = [] then dispatch_refused else Ret (packet_id, handlers)
           | _ \<Rightarrow> dispatch_refused)))))))
      | _ \<Rightarrow> dispatch_refused)))"

section \<open>Handlers\<close>

record target_handler =
  th_packet :: string
  th_target :: string
  th_variables :: environment
  th_argv :: "string list"

definition handler_text :: "pyval \<Rightarrow> string outcome" where
  "handler_text v = (case v of PStr s \<Rightarrow> Ret s | _ \<Rightarrow> dispatch_refused)"

definition handler_target :: "pyval \<Rightarrow> string outcome" where
  "handler_target v =
     (case v of
        PStr s \<Rightarrow> if fullmatch TARGET s \<and> s \<notin> fst ` set GENERIC then Ret s else dispatch_refused
      | _ \<Rightarrow> dispatch_refused)"

definition handler_variables :: "pyval \<Rightarrow> environment outcome" where
  "handler_variables v =
     (case v of
        PDict d \<Rightarrow> map_out (\<lambda>(k, x). bind (handler_text x) (\<lambda>s. Ret (k, s))) d
      | _ \<Rightarrow> dispatch_refused)"

definition handler_argv :: "pyval \<Rightarrow> string list outcome" where
  "handler_argv v =
     (case v of
        PList xs \<Rightarrow>
          if xs = [] then dispatch_refused
          else bind (map_out handler_text xs) (\<lambda>argv. bind (insist ([] \<notin> set argv)) (\<lambda>_. Ret argv))
      | _ \<Rightarrow> dispatch_refused)"

definition parse_handler :: "string \<Rightarrow> pyval \<Rightarrow> target_handler outcome" where
  "parse_handler packet_id v =
     (case v of
        PDict d \<Rightarrow>
          bind (insist (set (map fst d) = {''target'', ''variables'', ''argv''})) (\<lambda>_.
          bind (bind (field d ''target'') handler_target) (\<lambda>goal.
          bind (bind (field d ''variables'') handler_variables) (\<lambda>variables.
          bind (bind (field d ''argv'') handler_argv) (\<lambda>argv.
          bind (insist (lower (path_name (hd argv)) \<notin> set TARGET_SHELLS \<and> set (hd argv) \<inter> set METACHARACTERS = {})) (\<lambda>_.
            Ret \<lparr>th_packet = packet_id, th_target = goal, th_variables = variables, th_argv = argv\<rparr>)))))
      | _ \<Rightarrow> dispatch_refused)"

text \<open>What two handlers must not share.\<close>

definition exact_key :: "target_handler \<Rightarrow> string \<times> string \<times> environment" where
  "exact_key h = (th_packet h, th_target h, sort_key fst (th_variables h))"

definition add_handler :: "string \<Rightarrow> target_handler list \<Rightarrow> pyval \<Rightarrow> target_handler list outcome" where
  "add_handler packet_id records v =
     bind (parse_handler packet_id v) (\<lambda>h.
     bind (insist (exact_key h \<notin> exact_key ` set records)) (\<lambda>_. Ret (records @ [h])))"

text \<open>The packets seen so far, the last one first, and the handlers.\<close>

definition add_descriptor :: "string list \<times> target_handler list \<Rightarrow> descriptor_file \<Rightarrow> (string list \<times> target_handler list) outcome" where
  "add_descriptor acc f =
     (case acc of (seen, records) \<Rightarrow>
        bind (load_descriptor f) (\<lambda>(packet_id, handlers).
        bind (insist (packet_id \<notin> set seen \<and> \<not> packet_id < (if seen = [] then [] else hd seen))) (\<lambda>_.
        bind (fold_out (add_handler packet_id) records handlers) (\<lambda>records'. Ret (packet_id # seen, records')))))"

definition all_handlers :: "descriptor_file list \<Rightarrow> target_handler list outcome" where
  "all_handlers paths =
     bind (insist (paths \<noteq> [])) (\<lambda>_.
     bind (fold_out add_descriptor ([], []) (sort_key df_name paths)) (\<lambda>(_, records). Ret records))"

section \<open>The program\<close>

definition relative_to :: "string \<Rightarrow> string \<Rightarrow> string outcome" where
  "relative_to root path =
     (if starts_with (root @ ''/'') path then Ret (drop (length root + 1) path) else Raise ValueError)"

definition generic_command :: "ucd \<Rightarrow> file_tree \<Rightarrow> string \<Rightarrow> string \<Rightarrow> environment \<Rightarrow> string \<Rightarrow> string list outcome" where
  "generic_command U T root interpreter environ action =
     (let campaign_id = (case map_of environ ''CAMPAIGN'' of None \<Rightarrow> [] | Some s \<Rightarrow> s) in
      bind (insist (fullmatch CAMPAIGN_NAME campaign_id)) (\<lambda>_.
      bind (case resolve_campaign U T root campaign_id of
              Raise e \<Rightarrow> if is_value_error e then dispatch_refused else Raise e
            | Ret p \<Rightarrow> Ret p) (\<lambda>campaign.
      bind (relative_to root campaign) (\<lambda>p.
        Ret [interpreter, ''-m'', ''harness_conformance'', action, ''--campaign'', p, ''--repository'', root]))))"

definition with_interpreter :: "string \<Rightarrow> string list \<Rightarrow> string list" where
  "with_interpreter interpreter argv = map (\<lambda>s. if s = ''@PYTHON@'' then interpreter else s) argv"

definition target_commands :: "string \<Rightarrow> descriptor_file list \<Rightarrow> environment \<Rightarrow> string \<Rightarrow> string list list outcome" where
  "target_commands interpreter paths environ goal =
     bind (insist (case map_of environ ''CAMPAIGN'' of None \<Rightarrow> True | Some s \<Rightarrow> s = [])) (\<lambda>_.
     bind (all_handlers paths) (\<lambda>records.
     (let commands = map (with_interpreter interpreter \<circ> th_argv) (filter (\<lambda>h. th_target h = goal \<and> th_variables h = []) records)
      in bind (insist (commands \<noteq> [])) (\<lambda>_. Ret commands))))"

definition override :: "environment \<Rightarrow> string \<Rightarrow> string \<Rightarrow> environment" where
  "override env name value = filter (\<lambda>(k, _). k \<noteq> name) env @ [(name, value)]"

definition dispatch_commands ::
  "ucd \<Rightarrow> file_tree \<Rightarrow> string \<Rightarrow> string \<Rightarrow> descriptor_file list \<Rightarrow> environment \<Rightarrow> string list \<Rightarrow> string list list outcome" where
  "dispatch_commands U T root interpreter paths environ argv =
     (case argv of
        [goal] \<Rightarrow>
          bind (insist (fullmatch TARGET goal)) (\<lambda>_.
          (case map_of GENERIC goal of
             Some action \<Rightarrow> bind (generic_command U T root interpreter environ action) (\<lambda>c. Ret [c])
           | None \<Rightarrow> target_commands interpreter paths environ goal))
      | _ \<Rightarrow> dispatch_refused)"

definition make_main ::
  "(nat \<Rightarrow> int outcome) \<Rightarrow> ucd \<Rightarrow> file_tree \<Rightarrow> string \<Rightarrow> string \<Rightarrow> descriptor_file list \<Rightarrow> environment \<Rightarrow> string list \<Rightarrow> int running" where
  "make_main exits U T root interpreter paths environ argv =
     seq (lift (dispatch_commands U T root interpreter paths environ argv)) (\<lambda>commands.
       run_each exits (lift (Ret ())) (override environ ''PYTHONPATH'' (join_path root ''src'')) commands)"

end
