(* ===== verification/MakeTargetLaws.thy ===== *)
theory MakeTargetLaws
  imports MakeTarget
begin

text \<open>What a run of \<open>run_make_target.py\<close> can do, and the order and uniqueness of its handlers.\<close>

interpretation unique: members_hook unique_members
  by unfold_locales (simp_all add: unique_members_def dispatch_refused_def)

interpretation make_check: command_check "lift (Ret ())" "[]"
  by unfold_locales simp_all

lemma insist_Ret [simp]: "insist c = Ret u \<longleftrightarrow> c"
  by (auto simp: insist_def dispatch_refused_def)

lemma dispatch_refused_Ret [simp]: "dispatch_refused \<noteq> Ret a"
  by (simp add: dispatch_refused_def)

section \<open>Handlers\<close>

definition direct_handler :: "target_handler \<Rightarrow> bool" where
  "direct_handler h \<longleftrightarrow>
     th_argv h \<noteq> [] \<and> [] \<notin> set (th_argv h) \<and> lower (path_name (hd (th_argv h))) \<notin> set TARGET_SHELLS \<and>
     set (hd (th_argv h)) \<inter> set METACHARACTERS = {} \<and> th_target h \<notin> fst ` set GENERIC"

lemma parse_handler_Ret:
  assumes "parse_handler packet_id v = Ret h"
  shows "direct_handler h \<and> th_packet h = packet_id"
proof -
  obtain d where v: "v = PDict d" using assms unfolding parse_handler_def by (cases v) simp_all
  obtain goal variables argv where d: "bind (field d ''target'') handler_target = Ret goal"
    "bind (field d ''argv'') handler_argv = Ret argv"
    "insist (lower (path_name (hd argv)) \<notin> set TARGET_SHELLS \<and> set (hd argv) \<inter> set METACHARACTERS = {}) = Ret ()"
    "h = \<lparr>th_packet = packet_id, th_target = goal, th_variables = variables, th_argv = argv\<rparr>"
    using assms unfolding parse_handler_def v pyval.case by (elim bind_RetE) (simp, blast)
  obtain x where "handler_target x = Ret goal" using d(1) by (auto simp: bind_eq_Ret)
  then have "goal \<notin> fst ` set GENERIC" by (cases x) (simp_all add: handler_target_def split: if_splits)
  moreover obtain y where "handler_argv y = Ret argv" using d(2) by (auto simp: bind_eq_Ret)
  then have "argv \<noteq> []" "[] \<notin> set argv"
    by (cases y; auto simp: handler_argv_def bind_eq_Ret map_out_eq_Ret split: if_splits)+
  ultimately show ?thesis using d(3,4) by (simp add: direct_handler_def)
qed

text \<open>Handlers in the order of their packets, no two with the same key.\<close>

definition handlers_wf :: "target_handler list \<Rightarrow> bool" where
  "handlers_wf hs \<longleftrightarrow> list_all direct_handler hs \<and> distinct (map exact_key hs) \<and> sorted (map th_packet hs)"

lemma add_handler_Ret:
  assumes "add_handler packet_id records v = Ret records'"
  obtains h where "parse_handler packet_id v = Ret h" "exact_key h \<notin> exact_key ` set records" "records' = records @ [h]"
  using assms unfolding add_handler_def by (elim bind_RetE) simp

lemma add_descriptor_Ret:
  assumes "add_descriptor (seen, records) f = Ret acc"
  obtains packet_id handlers records' where "\<not> packet_id < (if seen = [] then [] else hd seen)"
    "fold_out (add_handler packet_id) records handlers = Ret records'" "acc = (packet_id # seen, records')"
proof -
  obtain z where z: "load_descriptor f = Ret z" "(case z of (packet_id, handlers) \<Rightarrow>
      bind (insist (packet_id \<notin> set seen \<and> \<not> packet_id < (if seen = [] then [] else hd seen))) (\<lambda>_.
      bind (fold_out (add_handler packet_id) records handlers) (\<lambda>records'. Ret (packet_id # seen, records')))) = Ret acc"
    using assms unfolding add_descriptor_def prod.case by (rule bind_RetE)
  obtain packet_id handlers where "z = (packet_id, handlers)" by fastforce
  then show thesis using z(2) that unfolding prod.case by (auto simp: bind_eq_Ret)
qed

lemma add_handlers_wf:
  assumes "fold_out (add_handler packet_id) records handlers = Ret records'" "handlers_wf records"
    "\<forall>h \<in> set records. th_packet h \<le> packet_id"
  shows "handlers_wf records' \<and> (\<forall>h \<in> set records'. th_packet h \<le> packet_id)"
  using assms
proof (induction handlers arbitrary: records)
  case (Cons v handlers)
  obtain records1 where r: "add_handler packet_id records v = Ret records1" "fold_out (add_handler packet_id) records1 handlers = Ret records'"
    using Cons.prems(1) unfolding fold_out.simps by (rule bind_RetE)
  obtain h where h: "parse_handler packet_id v = Ret h" "exact_key h \<notin> exact_key ` set records" "records1 = records @ [h]"
    by (rule add_handler_Ret [OF r(1)])
  show ?case
    by (rule Cons.IH [OF r(2)])
      (use h Cons.prems(2,3) parse_handler_Ret [OF h(1)] in \<open>auto simp: handlers_wf_def sorted_append\<close>)
qed simp

lemma add_descriptors_wf:
  assumes "fold_out add_descriptor (seen, records) paths = Ret (seen', records')" "handlers_wf records"
    "\<forall>h \<in> set records. th_packet h \<le> (if seen = [] then [] else hd seen)"
  shows "handlers_wf records'"
  using assms
proof (induction paths arbitrary: seen records)
  case (Cons f paths)
  obtain acc where acc: "add_descriptor (seen, records) f = Ret acc" "fold_out add_descriptor acc paths = Ret (seen', records')"
    using Cons.prems(1) unfolding fold_out.simps by (rule bind_RetE)
  obtain packet_id handlers records1 where p: "\<not> packet_id < (if seen = [] then [] else hd seen)"
    "fold_out (add_handler packet_id) records handlers = Ret records1" "acc = (packet_id # seen, records1)"
    by (rule add_descriptor_Ret [OF acc(1)])
  have "\<forall>h \<in> set records. th_packet h \<le> packet_id" using p(1) Cons.prems(3) by (meson leI order_trans)
  then have "handlers_wf records1 \<and> (\<forall>h \<in> set records1. th_packet h \<le> packet_id)"
    by (rule add_handlers_wf [OF p(2) Cons.prems(2)])
  then show ?case by (intro Cons.IH [OF acc(2) [unfolded p(3)]]) auto
qed simp

lemma all_handlers_wf: "all_handlers paths = Ret records \<Longrightarrow> handlers_wf records"
proof -
  assume "all_handlers paths = Ret records"
  then obtain seen where "fold_out add_descriptor ([], []) (sort_key df_name paths) = Ret (seen, records)"
    unfolding all_handlers_def by (elim bind_RetE) auto
  then show ?thesis by (rule add_descriptors_wf) (simp_all add: handlers_wf_def)
qed

section \<open>A run\<close>

definition target_run ::
  "ucd \<Rightarrow> file_tree \<Rightarrow> string \<Rightarrow> string \<Rightarrow> descriptor_file list \<Rightarrow> environment \<Rightarrow> string \<Rightarrow> string list list \<Rightarrow> bool" where
  "target_run U T root interpreter paths environ goal commands \<longleftrightarrow>
     (\<exists>action c. map_of GENERIC goal = Some action \<and> generic_command U T root interpreter environ action = Ret c \<and> commands = [c]) \<or>
     (\<exists>records. all_handlers paths = Ret records \<and> handlers_wf records \<and> commands \<noteq> [] \<and>
        commands = map (with_interpreter interpreter \<circ> th_argv) (filter (\<lambda>h. th_target h = goal \<and> th_variables h = []) records))"

text \<open>C21: A make target runs either the one command of a generic target, on a registered campaign, or exactly the handlers that
  the descriptors declare for it without variables, in the order of their packets.  All descriptors are valid, no handler
  is a shell or has a shell's metacharacters in its program, none takes a generic target, and no two are equal.  The
  commands run one after the other, the first status that is not zero is the result, and a refusal runs nothing.\<close>

theorem make_dispatch:
  "{(r, S). make_main exits U T root interpreter paths environ argv new_runner = (r, S)} \<subseteq>
   {(r, S). rn_trace S = [] \<and> r \<noteq> Ret 0} \<union>
   {(r, S). \<exists>goal commands. argv = [goal] \<and> target_run U T root interpreter paths environ goal commands \<and>
     ran_in_order [] (override environ ''PYTHONPATH'' (join_path root ''src'')) commands (rn_trace S) r}"
proof clarify
  fix r S
  let ?env = "override environ ''PYTHONPATH'' (join_path root ''src'')"
  assume run: "make_main exits U T root interpreter paths environ argv new_runner = (r, S)"
    and other: "\<not> (\<exists>goal commands. argv = [goal] \<and> target_run U T root interpreter paths environ goal commands \<and>
     ran_in_order [] ?env commands (rn_trace S) r)"
  show "rn_trace S = [] \<and> r \<noteq> Ret 0"
  proof (cases "dispatch_commands U T root interpreter paths environ argv")
    case (Raise e)
    then show ?thesis using run by (auto simp: make_main_def seq_lift_case new_runner_def)
  next
    case (Ret commands)
    then obtain goal where goal: "argv = [goal]" by (auto simp: dispatch_commands_def split: list.splits)
    have "target_run U T root interpreter paths environ goal commands"
      using Ret all_handlers_wf unfolding goal dispatch_commands_def target_run_def target_commands_def
      by (auto simp: bind_eq_Ret Let_def split: option.splits)
    moreover have "ran_in_order [] ?env commands (rn_trace S) r"
      using run Ret make_check.run_each_order [of exits ?env commands new_runner r S]
      by (auto simp: make_main_def seq_lift_case new_runner_def)
    ultimately show ?thesis using other goal by blast
  qed
qed

end
