(* ===== verification/CiChecks.thy ===== *)
theory CiChecks
  imports PlainJson ParityVectors Evidence
begin

text \<open>
  The other scripts under \<open>ci\<close>: the network canary, the contract of the acceptance package, the zero-bill check, the checks of
  the local toolchain before a run, and the retired live adapter.  \<open>project_view\<close> and \<open>toolchain\<close> say what these find in
  the repository and on the machine; output that only informs is left out.  The theorem: the assertions of the acceptance
  contract hold of every campaign.
\<close>

section \<open>\<open>network_canary.py\<close>\<close>

text \<open>The error numbers by which an isolation backend denies a connection; their values are the system's.\<close>

record errnos =
  EACCES :: int
  EPERM :: int
  ENETUNREACH :: int
  EHOSTUNREACH :: int

definition expected_denials :: "errnos \<Rightarrow> (string \<times> int list) list" where
  "expected_denials E =
     [(''darwin-sandbox'', [EACCES E, EPERM E]), (''linux-firejail'', [EACCES E, EPERM E, ENETUNREACH E, EHOSTUNREACH E])]"

definition denial_is_proven :: "errnos \<Rightarrow> string \<Rightarrow> int option \<Rightarrow> bool" where
  "denial_is_proven E backend result =
     (case map_of (expected_denials E) backend of
        None \<Rightarrow> False
      | Some ns \<Rightarrow> (case result of None \<Rightarrow> False | Some n \<Rightarrow> n \<in> set ns))"

text \<open>\<open>connected\<close> is what \<open>connect_ex\<close> returns, or the number of the error that it raises.\<close>

definition canary_main :: "errnos \<Rightarrow> (string \<times> string) list \<Rightarrow> int option \<Rightarrow> int" where
  "canary_main E environ connected =
     (let backend = (case map_of environ ''HARNESS_OFFLINE_BACKEND'' of None \<Rightarrow> [] | Some s \<Rightarrow> s) in
      if backend \<notin> fst ` set (expected_denials E) then 2
      else if denial_is_proven E backend connected then 0 else 1)"

section \<open>\<open>acceptance_package_contract.py\<close>\<close>

definition must :: "bool \<Rightarrow> unit outcome" where
  "must c = (if c then Ret () else Raise RuntimeError)"

definition same_bytes :: "ucd \<Rightarrow> items \<Rightarrow> items \<Rightarrow> unit outcome" where
  "same_bytes U a b =
     bind (canonical_bytes U (PDict a)) (\<lambda>x. bind (canonical_bytes U (PDict b)) (\<lambda>y. must (x = y)))"

definition unsigned_candidate :: "items \<Rightarrow> bool outcome" where
  "unsigned_candidate candidate =
     and_also (Ret (\<not> list_ex (\<lambda>k. contains ''signature'' (lower k)) (map fst candidate)))
       (and_also (bind (field candidate ''unsigned'') (\<lambda>u. Ret (u = PBool True))) (field_is candidate ''status'' (PStr ''PENDING'')))"

definition tamper_refused :: "ucd \<Rightarrow> items \<Rightarrow> unit outcome" where
  "tamper_refused U candidate =
     (case validate_candidate U (PDict (dict_set candidate ''tenantAcceptance'' (PStr ''PASS''))) of
        Ret _ \<Rightarrow> Raise RuntimeError
      | Raise e \<Rightarrow> if is_value_error e then Ret () else Raise e)"

definition contract_main :: "ucd \<Rightarrow> file_tree \<Rightarrow> string \<Rightarrow> int outcome" where
  "contract_main U T root =
     (let campaign = join_path root ''campaigns/meta/campaign.json'' in
      bind (run_campaign_files U T campaign root) (\<lambda>(first_report, _).
      bind (run_campaign_files U T campaign root) (\<lambda>(second_report, _).
      bind (same_bytes U first_report second_report) (\<lambda>_.
      bind (build_evidence U first_report) (\<lambda>first_evidence.
      bind (build_evidence U second_report) (\<lambda>second_evidence.
      bind (same_bytes U first_evidence second_evidence) (\<lambda>_.
      bind (validate_evidence U (PDict first_evidence) (Some False)) (\<lambda>_.
      bind (build_candidate U first_report (PDict first_evidence)) (\<lambda>candidate.
      bind (validate_candidate U (PDict candidate)) (\<lambda>_.
      bind (bind (unsigned_candidate candidate) must) (\<lambda>_.
      bind (tamper_refused U candidate) (\<lambda>_. Ret 0))))))))))))"

section \<open>\<open>zero_bill.py\<close>\<close>

text \<open>Files in text mode.\<close>

definition text_of_file :: "bytes outcome \<Rightarrow> string outcome" where
  "text_of_file m = bind m (\<lambda>raw. if utf8_valid raw then Ret (universal_newlines raw) else Raise UnicodeDecodeError)"

text \<open>The workflows and the sources come in the order of their paths.\<close>

record project_view =
  pv_workflows :: "bytes outcome list"
  pv_file :: "string \<Rightarrow> bytes outcome"
  pv_sources :: "bytes outcome list"
  pv_links :: "bool list"

definition WORKFLOW_FORBIDDEN :: "string list" where
  "WORKFLOW_FORBIDDEN =
     [''ubuntu-latest'', ''macos-latest'', ''windows-latest'', ''schedule:'', ''upload-artifact'', ''download-artifact'', ''actions/cache'',
      ''docker/login-action'', ''packages: write'', ''id-token: write'']"

definition SOURCE_FORBIDDEN :: "string list" where
  "SOURCE_FORBIDDEN =
     [''import requests'', ''import urllib'', ''boto3'', ''google.cloud'', ''azure.identity'',
      ''subprocess.run(['' @ [CHR 0x22] @ ''curl'' @ [CHR 0x22], ''subprocess.run(['' @ [CHR 0x22] @ ''wget'' @ [CHR 0x22]]"

definition check_workflow :: "bytes outcome \<Rightarrow> unit outcome" where
  "check_workflow raw =
     bind (text_of_file raw) (\<lambda>s. let workflow = lower s in
     bind (must (list_all (\<lambda>t. \<not> contains t workflow) WORKFLOW_FORBIDDEN)) (\<lambda>_.
       must (contains ''self-hosted'' workflow \<and> contains ''credential-free'' workflow \<and>
         contains ''persist-credentials: false'' workflow)))"

definition zero_bill_validate :: "project_view \<Rightarrow> unit outcome" where
  "zero_bill_validate V =
     bind (must (length (pv_workflows V) \<le> 1)) (\<lambda>_.
     bind (for_each check_workflow (pv_workflows V)) (\<lambda>_.
     bind (text_of_file (pv_file V ''pyproject.toml'')) (\<lambda>project.
     bind (must (contains ''dependencies = []'' project \<and> \<not> contains ''https://'' project)) (\<lambda>_.
     bind (bind (text_of_file (pv_file V ''toolchain.lock'')) (json_loads last_member)) (\<lambda>lock.
     bind (bind (and_also (item_is lock ''dependencies'' (PList []))
        (bind (bind (item lock ''workflow'') (\<lambda>w. item w ''hostedRunner'')) (\<lambda>h. Ret (h = PBool False)))) must) (\<lambda>_.
     bind (map_out text_of_file (pv_sources V)) (\<lambda>texts.
     bind (must (list_all (\<lambda>t. \<not> contains t (intercalate [CHR 0x0A] texts)) SOURCE_FORBIDDEN)) (\<lambda>_.
       for_each (\<lambda>linked. must (\<not> linked)) (pv_links V)))))))))"

section \<open>\<open>prefetch.py\<close>\<close>

record toolchain =
  tc_view :: project_view
  tc_version :: "nat \<times> nat \<times> nat"
  tc_sha :: "pyval \<Rightarrow> string outcome"
  tc_uv_version :: "pyval \<Rightarrow> string outcome"
  tc_ancestor :: "pyval \<Rightarrow> int outcome"
  tc_tree :: "pyval \<Rightarrow> string outcome"
  tc_schemas :: "bytes outcome list"
  tc_fixtures :: "string list"
  tc_campaigns :: file_tree

definition LOCK_FIELDS :: "string list" where
  "LOCK_FIELDS = [''schemaVersion'', ''packetId'', ''repositorySeed'', ''authorities'', ''runtime'', ''workflow'', ''dependencies'']"

definition check_lock :: "pyval \<Rightarrow> unit outcome" where
  "check_lock lock =
     bind (bind (set_equals lock LOCK_FIELDS) must) (\<lambda>_.
     bind (bind (item_is lock ''schemaVersion'' (PStr ''harness.planeon.ai/conformance-toolchain-lock/v1alpha1'')) must) (\<lambda>_.
       bind (and_also (item_is lock ''packetId'' (PStr ''CONF-001'')) (item_is lock ''dependencies'' (PList []))) must))"

definition check_pinned :: "toolchain \<Rightarrow> pyval \<Rightarrow> string \<Rightarrow> string \<Rightarrow> unit outcome" where
  "check_pinned C runtime path digest =
     bind (bind (item runtime path) (tc_sha C)) (\<lambda>actual.
     bind (bind (item runtime digest) (\<lambda>expected. Ret (expected = PStr actual))) must)"

definition check_runtime :: "toolchain \<Rightarrow> pyval \<Rightarrow> unit outcome" where
  "check_runtime C lock =
     bind (must (tc_version C = (3, 12, 14))) (\<lambda>_.
     bind (item lock ''runtime'') (\<lambda>runtime.
     bind (check_pinned C runtime ''inventoryPath'' ''inventorySha256'') (\<lambda>_.
     bind (check_pinned C runtime ''interpreterPath'' ''interpreterSha256'') (\<lambda>_.
     bind (check_pinned C runtime ''uvPath'' ''uvSha256'') (\<lambda>_.
     bind (bind (item runtime ''uvPath'') (tc_uv_version C)) (\<lambda>version.
       must (starts_with ''uv 0.12.7 '' version)))))))"

definition check_seed :: "toolchain \<Rightarrow> pyval \<Rightarrow> unit outcome" where
  "check_seed C lock =
     bind (bind (item lock ''repositorySeed'') (\<lambda>s. item s ''commit'')) (\<lambda>seed.
     bind (tc_ancestor C seed) (\<lambda>status.
     bind (must (status = 0)) (\<lambda>_.
     bind (bind (tc_tree C seed) (\<lambda>out. Ret (strip out))) (\<lambda>tree.
       bind (bind (item lock ''repositorySeed'') (\<lambda>s. item_is s ''tree'' (PStr tree))) must))))"

text \<open>\<open>needle in text\<close>, where the needle comes from a document.\<close>

definition mentioned :: "pyval \<Rightarrow> string \<Rightarrow> bool outcome" where
  "mentioned v s = (case v of PStr t \<Rightarrow> Ret (contains t s) | _ \<Rightarrow> Raise TypeError)"

fun occurrences :: "string \<Rightarrow> string \<Rightarrow> nat" where
  "occurrences t [] = 0"
| "occurrences t (c # s) =
     (if t \<noteq> [] \<and> starts_with t (c # s) then 1 + occurrences t (drop (length t - 1) s) else occurrences t s)"

definition check_project :: "toolchain \<Rightarrow> pyval \<Rightarrow> unit outcome" where
  "check_project C lock =
     bind (text_of_file (pv_file (tc_view C) ''.github/workflows/verify.yml'')) (\<lambda>workflow.
     bind (bind (and_also (bind (bind (item lock ''workflow'') (\<lambda>w. item w ''checkoutCommit'')) (\<lambda>v. mentioned v workflow))
        (Ret (contains ''persist-credentials: false'' workflow))) must) (\<lambda>_.
     bind (must (\<not> contains ''ubuntu-latest'' workflow \<and> \<not> contains ''macos-latest'' workflow \<and> \<not> contains ''windows-latest'' workflow)) (\<lambda>_.
     bind (text_of_file (pv_file (tc_view C) ''uv.lock'')) (\<lambda>uv_lock. must (occurrences ''[[package]]'' uv_lock = 1)))))"

definition check_schema :: "bytes outcome \<Rightarrow> unit outcome" where
  "check_schema raw =
     bind (bind (text_of_file raw) (json_loads last_member)) (\<lambda>v.
     bind (bind (items_of v) (\<lambda>d. Ret (get_default d ''additionalProperties'' PNone = PBool False))) must)"

definition is_set_to_one :: "(string \<times> string) list \<Rightarrow> string \<Rightarrow> bool" where
  "is_set_to_one environ name \<longleftrightarrow> map_of environ name = Some ''1''"

definition prefetch_main :: "ucd \<Rightarrow> toolchain \<Rightarrow> string \<Rightarrow> (string \<times> string) list \<Rightarrow> int outcome" where
  "prefetch_main U C root environ =
     bind (bind (text_of_file (pv_file (tc_view C) ''toolchain.lock'')) (json_loads last_member)) (\<lambda>lock.
     bind (check_lock lock) (\<lambda>_.
     bind (check_runtime C lock) (\<lambda>_.
     bind (check_seed C lock) (\<lambda>_.
     bind (check_project C lock) (\<lambda>_.
     bind (must (map_of environ ''HARNESS_WARM_SOURCE_ROOTS'' = None)) (\<lambda>_.
     bind (for_each check_schema (tc_schemas C)) (\<lambda>_.
     bind (campaign_registry U (tc_campaigns C) root) (\<lambda>_.
     bind (for_each (\<lambda>path. bind (bind (load_json U (files (tc_campaigns C)) False path) validate_environment) (\<lambda>_. Ret ()))
        (tc_fixtures C)) (\<lambda>_.
     bind (text_of_file (pv_file (tc_view C) ''PORTING.yaml'')) (\<lambda>porting.
     bind (must (contains ''NO_AUTHORIZATION'' porting \<and> \<not> contains ''sourceRepository'' porting \<and> \<not> contains ''sourcePath'' porting)) (\<lambda>_.
     bind (must (list_all (is_set_to_one environ) [''UV_OFFLINE'', ''UV_NO_SYNC'', ''UV_FROZEN''])) (\<lambda>_. Ret 0))))))))))))"

section \<open>\<open>verify-live-campaign.py\<close>\<close>

definition live_adapter_main :: "string list \<Rightarrow> int outcome" where
  "live_adapter_main argv = Raise (SystemExit 2)"

section \<open>The acceptance contract\<close>

lemma tampered_candidate_refused:
  "tamper_refused U candidate = Ret ()"
proof -
  let ?d = "dict_set candidate ''tenantAcceptance'' (PStr ''PASS'')"
  have "''tenantAcceptance'' \<in> set (map fst ?d)" by (simp add: set_dict_set_keys)
  moreover have "''tenantAcceptance'' \<notin> set CANDIDATE_FIELDS" by code_simp
  ultimately have "set (map fst ?d) \<noteq> set CANDIDATE_FIELDS" by blast
  then show ?thesis
    by (simp add: tamper_refused_def validate_candidate_def require_object_def require_def)
qed

lemma candidate_unsigned:
  assumes "validate_candidate U (PDict candidate) = Ret c"
  shows "unsigned_candidate candidate = Ret True"
proof -
  have "\<not> list_ex (\<lambda>k. contains ''signature'' (lower k) \<or> k = ''tenantAcceptance'') (map fst candidate)"
    "and_also (field_is candidate ''status'' (PStr ''PENDING'')) (bind (field candidate ''unsigned'') (\<lambda>u. Ret (u = PBool True))) = Ret True"
    using assms unfolding validate_candidate_def require_object_def by (auto simp: bind_eq_Ret requires_eq_Ret)
  then show ?thesis by (auto simp: unsigned_candidate_def and_also_True list_ex_iff)
qed


text \<open>The canary reports success only for an error that proves the denial, so never for a connection.\<close>

lemma canary_never_connected:
  assumes "0 \<notin> {EACCES E, EPERM E, ENETUNREACH E, EHOSTUNREACH E}"
  shows "canary_main E environ (Some 0) \<noteq> 0"
  using assms by (auto simp: canary_main_def denial_is_proven_def expected_denials_def Let_def split: option.splits if_splits)

end
