(* ===== verification/Spec2Isabelle.thy ===== *)
theory Spec2Isabelle
  imports Evidence LinuxVerifyLaws ReplayLaws BackendLaws LauncherLaws Cli ProfileLaws LedgerLaws BrokerLaws QualificationLaws ShapeLaws
    WireLaws HttpLaws SupervisorLaws BoundaryLaws KernelLaws DriverOrder ServerRun
    ParityLaws PacketRunLaws MakeTargetLaws CiChecks
begin

text \<open>
  Harness Conformance Labs: a model of the offline conformance kit and of the data and bookkeeping layers of
  its live campaign boundary (\<open>src/src/harness_conformance\<close>), with the theorems that make them correct.

  \<^bold>\<open>The program.\<close>  The kit reads documents in a canonical JSON form, validates campaigns, environments and
  results, runs declarative controls, and bundles, signs and verifies evidence.  Around it lies a live
  boundary that may run probes against a target only under an authority signed by three independent keys:
  envelope and capacity are verified, a session binding is derived, its nonce is reserved in an append-only
  journal by a supervisor that runs the ten cases of the campaign, and every operation is admitted against a
  retained profile, observed policies and a shared capacity ledger, and reported through a broker transcript.
  The proxy server compares what the kernel reports of its peers with enrolled data, and drives the capacity broker:
  it dispatches a case, receives the broker's frames, and carries out the one CREATE that the broker may ask for.  Its
  serving loop accepts one request per case, runs the fixed probe, records its cleanup and answers.  Beside the package
  lie the parity adapters and the scripts that run task packets and make targets.

  \<^bold>\<open>Theories, in the order of their imports.\<close>

  \<^item> \<open>Prelude\<close>: exceptions, results (\<open>outcome\<close>), sequencing and loops, and their inversion rules
    (\<open>outcome_simps\<close>, \<open>bind_RetE\<close>, \<open>ordinary_intros\<close>).
  \<^item> \<open>PyText\<close>, \<open>PyValue\<close>, \<open>PyTime\<close>, \<open>PyAddress\<close>: the Python text, values, date-times and IP addresses that the code
    computes with (regular expressions, \<open>datetime.fromisoformat\<close>, \<open>ipaddress\<close>).
  \<^item> \<open>Json\<close>, \<open>Sha2\<close>, \<open>Canonical\<close> (\<open>canonical.py\<close>): \<open>json.loads\<close> and \<open>json.dumps\<close>, SHA-256 and SHA-512 on words, the
    strict reader, the canonical writer, digests and the bounded file read.  The laws show that the reader
    inverts the writer, that canonical bytes determine their value, and which errors escape.
  \<^item> \<open>Crypto\<close> (\<open>crypto.py\<close>): Ed25519 over integers modulo \<open>2^255 - 19\<close> and base64url; encodings are inverted by
    decoding, signatures are not malleable, payloads are separated by domain.
  \<^item> \<open>SchemaBase\<close>, \<open>Schema\<close>, \<open>Events\<close>, \<open>Lifecycle\<close> (\<open>models.py\<close>, \<open>schema.py\<close>, \<open>events.py\<close>, \<open>lifecycle.py\<close>): validators of
    documents and the transition tables of the platform's entities, which interpret \<open>Transitions\<close>.
  \<^item> \<open>Campaign\<close>, \<open>Evidence\<close>, \<open>Cli\<close> (\<open>campaign.py\<close>, \<open>registry.py\<close>, \<open>evidence.py\<close>, \<open>acceptance.py\<close>, \<open>cli.py\<close>): the engine from
    campaign files to a report, the report to evidence and a candidate, signing, verification, commands.
  \<^item> \<open>LinuxShapes\<close>, \<open>LinuxVerify\<close>, \<open>LinuxVerifyLaws\<close> (\<open>linux_readiness.py\<close>): plans, campaigns and records of the Linux
    baseline, and the verification of a signed record against its authority.
  \<^item> \<open>Live\<close>, \<open>LiveLaws\<close>, \<open>Launcher\<close>, \<open>LauncherLaws\<close> (\<open>live.py\<close>, \<open>live_launcher.py\<close>): envelopes, capacities, endpoints, the
    kit tree, signatures of three roles in two versions, the preflight, and the launcher that refuses.
  \<^item> \<open>Session\<close>, \<open>SessionLaws\<close>, \<open>ReplayStore\<close>, \<open>ReplayLaws\<close> (\<open>live_session.py\<close>, \<open>live_replay_store.py\<close>): session data, proposed
    transitions and receipts; the replay journal with partial writes and failures as events, refined to an
    abstract map from replay keys to states.
  \<^item> \<open>BackendAuthority\<close>, \<open>BackendLaws\<close> (\<open>live_backend_authority.py\<close>): from a verified authority to a session binding.
  \<^item> \<open>ProxyData\<close>, \<open>ProxySpecs\<close>, \<open>ProxyLaws\<close>, \<open>Profile\<close>, \<open>ProfileLaws\<close>, \<open>Admission\<close>, \<open>Retained\<close>, \<open>Ledger\<close>, \<open>LedgerLaws\<close>, \<open>Broker\<close>,
    \<open>BrokerLaws\<close>, \<open>Qualification\<close>, \<open>QualificationLaws\<close> (\<open>live_mutation_admission.py\<close>): the bounded documents and the
    schema checker with its four pinned schemas, the execution profile and its quota, observations,
    retained release files, the admission ledger, the broker transcript and the native qualification.
    \<open>ShapeLaws\<close> shows that the checker decides every value under the pinned schemas.
  \<^item> \<open>Wire\<close>, \<open>WireLaws\<close>, \<open>HttpLaws\<close> (\<open>live_proxy_client.py\<close>): the DER reader and the identity of certificates, the HTTP
    messages of the proxy protocol; the reader of each inverts its writer.
  \<^item> \<open>Actions\<close>: operations on a mutable object as functions on its state, moves along a preorder, assertions.
  \<^item> \<open>Supervisor\<close>, \<open>SupervisorLaws\<close> (\<open>live_supervisor.py\<close>): the lifecycle of a session over the replay journal, with clocks and
    boundary as a \<open>world\<close>; a nonce opens one session, and a session completes only after every case passed.
  \<^item> \<open>Boundary\<close>, \<open>BoundaryLaws\<close> (\<open>live_linux_boundary.py\<close>): the seccomp program, on 32-bit words, decides as its policy;
    peer identities and message credentials.
  \<^item> \<open>Kernel\<close>, \<open>KernelProcess\<close>, \<open>KernelLaws\<close> (\<open>live_proxy_server.py\<close>): ELF segments, memory maps, process status; accepted
    executable mappings are exactly the enrolled code.
  \<^item> \<open>Storage\<close> (\<open>live_proxy_server.py\<close>): the read of a retained history, which must extend what was seen before.
  \<^item> \<open>Driver\<close>, \<open>DriverCreate\<close>, \<open>DriverEffects\<close>, \<open>DriverRetire\<close> (\<open>live_proxy_server.py\<close>): the classes from \<open>_Broker\<close> to
    \<open>_BrokerCreateRetirement\<close> as operations on one record \<open>driver\<close>, whose steps are \<open>driver_step\<close>.
    \<open>DriverLaws\<close>: what only checks, polls or fails is calm, that is, it causes no effect and keeps the data of the
    objects.  \<open>DriverSound\<close>, \<open>DriverOps\<close>, \<open>DriverOrder\<close>: the invariant of the effects, that each operation maintains
    it, and the theorems: effects come in one order, each justified by history that was read back, and every
    failure closes the broker.
  \<^item> \<open>Server\<close>, \<open>ServerLaws\<close>, \<open>ServerRun\<close> (\<open>live_proxy_server.py\<close>): \<open>NativeProxyServer\<close> from the reservation on, as operations
    on the record \<open>server\<close>, and \<open>main\<close>.  \<open>ServerLaws\<close>: what is done stays done in the history, and the wait for a
    connection ends.  \<open>ServerRun\<close>: the invariant of a run, and the order and justification of its rounds.
  \<^item> \<open>ParityVectors\<close>, \<open>ParityLaws\<close> (\<open>parity/adapters\<close>): the adapters, the execution of a vector and the registry; an accepted
    registry is honest.
  \<^item> \<open>PlainJson\<close>: \<open>json.loads\<close> without the hooks of \<open>canonical.py\<close>, and the text functions of the scripts; it reads
    what the strict reader reads, with the same value.
  \<^item> \<open>Commands\<close>, \<open>PacketArgv\<close>, \<open>PacketRun\<close>, \<open>MakeTarget\<close> and their laws (\<open>ci/run_packet_argv.py\<close>, \<open>ci/run_packet.py\<close>,
    \<open>ci/run_make_target.py\<close>): commands that run one after the other with a check between them, over a record \<open>runner\<close> with its
    history; what the three scripts start, in which order and environment, and when they return zero.
  \<^item> \<open>CiChecks\<close> (the other scripts under \<open>ci\<close>): canary, acceptance contract, zero-bill and toolchain checks;
    the assertions of the acceptance contract cannot fail.

  \<^bold>\<open>Correspondence.\<close>  Definitions keep the names of the functions, without a leading underscore; where a Python
  function is long, its phases are definitions of their own, composed in its order.  A call that may raise
  has the type \<open>'a outcome\<close>; only the reason code of a \<open>ConformanceError\<close> is kept.  Text and byte strings are
  lists of characters (text as its UTF-8 bytes), dictionaries association lists in their order, Python
  integers \<open>int\<close>.  State is passed explicitly (\<open>store\<close>, \<open>ledger\<close>, \<open>transcript\<close>, \<open>supervisor\<close>); \<open>reachable\<close> and \<open>invariant_system\<close> of
  \<open>Transitions\<close> state what holds in every run.

  \<^bold>\<open>Interfaces.\<close>  \<open>invariant_system\<close> and \<open>ranked_system\<close> are interpreted on the entity lifecycles, the session
  states, the replay journal, the broker transcript and the supervisor.  \<open>action_order\<close> (actions along a
  preorder) and its extensions are interpreted in \<open>SupervisorLaws\<close> on the growth of the journal, the set of
  completed sessions and what stays of an active session, and in \<open>DriverLaws\<close> on the calm moves of the broker
  driver, in \<open>ServerLaws\<close> and \<open>ServerRun\<close> on the number of calls and on the moves of the server that start and answer
  nothing; \<open>stable_invariant\<close>, an invariant that survives them, in \<open>DriverOps\<close> and \<open>ServerRun\<close>.  \<open>command_check\<close>, what a script does after a command, is
  interpreted on both packet runners and the make targets; \<open>members_hook\<close>, a hook of \<open>json.loads\<close>, on the default and on
  the one that refuses duplicates.

  \<^bold>\<open>Parameters.\<close>  \<open>ucd\<close> is the Unicode normalisation test that the reader calls, \<open>filesystem\<close> maps a path to what opening
  and reading it yields, \<open>kit\<close> maps a retained path to its bytes, \<open>io_event\<close> says what the operating system did
  during one transaction, \<open>world\<close> what the clocks and the boundary of a supervisor answer, \<open>surroundings\<close> what clocks, sockets, storage, observer
  and native custody checks answer to the broker driver, by the number of the call, \<open>outside\<close> the same for the server, with
  the fixed probes, which are not part of the repository, as its function \<open>probe_at\<close>, \<open>stream\<close> which
  decrypted records a connection delivers; \<open>packet_world\<close>, \<open>packet_session\<close>, \<open>descriptor_file\<close>, \<open>checkout\<close>, \<open>project_view\<close> and
  \<open>toolchain\<close> say what the scripts find in files and how their child processes end.  No law is assumed of them except where a property names one.

  \<^bold>\<open>Bounds and fuel.\<close>  The JSON reader takes the length of its input as fuel, which every call lowers, so it
  never runs out (\<open>Json\<close>, \<open>PlainJson\<close>).  The schema checker of \<open>ProxyData\<close> takes \<open>SHAPE_FUEL = 32\<close> for the nesting of pinned
  schemas, which is at most thirteen; \<open>ShapeLaws\<close> shows that the exception \<open>OutOfFuel\<close> never occurs.  The server waits for a
  connection in at most as many rounds as the fuel of \<open>accept_within\<close>: when each call advances the clock by at least \<open>d\<close>, a fuel of
  more than the time to the deadline divided by \<open>d\<close> gives the result of every larger fuel (\<open>accept_enough\<close>).  All other recursions are structural or have a measure.

  \<^bold>\<open>Not modelled.\<close>  What the operating system does: processes, namespaces, cgroups, mounts and descriptors
  (the rest of \<open>live_linux_boundary.py\<close> and \<open>live_supervisor.py\<close>, whose native channel is a \<open>world\<close> here), TLS and sockets
  (the rest of \<open>live_proxy_client.py\<close>), the loading of the installation, the retained descriptors, BPF queries and the observer channel of \<open>live_proxy_server.py\<close>;
  the identity comparisons (\<open>is\<close>) and class checks of its driver, which hold by construction where the state has one
  reference to each object;
  the argument parser; packaging (\<open>build_backend.py\<close>, \<open>ci/build_live_launcher.py\<close>), which writes archives; the Rust
  probes; and lines that are printed for information.  Floating-point numbers do not
  occur in documents: the strict reader refuses them, and the scripts only compare them with texts and truth values
  (\<open>PlainJson\<close>); the monotonic clock of the supervisor is rational, and
  the rounding of its arithmetic a parameter.
\<close>

end
